(* ===== verification/Prelude.thy ===== *)
theory Prelude
  imports Complex_Main "HOL-Library.AList" "HOL-Library.Sublist" "HOL-Library.Word"
begin

text \<open>
  The prelude of the Shaperail development: results as sums, the string operations of the Rust
  standard library that the crates use (on UTF-8 byte strings), decimal printing and parsing, and
  the generic facts on association lists (the model of \<open>IndexMap\<close>, \<open>HashMap\<close> and
  \<open>serde_json::Map\<close>) that the components share.
\<close>

named_theorems result_simps "facts that take a chain of fallible calls apart"
named_theorems string_simps "facts on prefixes, suffixes and separators of strings"

section \<open>Fallible calls\<close>

text \<open>
  \<open>Result<T, E>\<close> is the sum \<open>'e + 'a\<close>: \<open>Inl\<close> is \<open>Err\<close>, \<open>Inr\<close> is \<open>Ok\<close>. The
  \<open>?\<close> operator is \<open>and_then\<close>, and \<open>require\<close> is \<open>if !c { return Err(e) }\<close>.
\<close>

fun and_then :: "'e + 'a \<Rightarrow> ('a \<Rightarrow> 'e + 'b) \<Rightarrow> 'e + 'b" where
  "and_then (Inl e) f = Inl e"
| "and_then (Inr x) f = f x"

definition require :: "bool \<Rightarrow> 'e \<Rightarrow> 'e + unit" where
  "require c e = (if c then Inr () else Inl e)"

definition ok_or :: "'e \<Rightarrow> 'a option \<Rightarrow> 'e + 'a" where
  "ok_or e x = (case x of None \<Rightarrow> Inl e | Some y \<Rightarrow> Inr y)"

fun is_ok :: "'e + 'a \<Rightarrow> bool" where
  "is_ok (Inl e) = False"
| "is_ok (Inr x) = True"

lemma and_then_Inr_iff [result_simps]:
  "and_then r f = Inr z \<longleftrightarrow> (\<exists>y. r = Inr y \<and> f y = Inr z)"
  by (cases r) auto

lemma and_then_Inl_iff [result_simps]:
  "and_then r f = Inl e \<longleftrightarrow> r = Inl e \<or> (\<exists>y. r = Inr y \<and> f y = Inl e)"
  by (cases r) auto

lemma require_Inr_iff [result_simps]: "require c e = Inr u \<longleftrightarrow> c"
  by (simp add: require_def)

lemma require_Inl_iff [result_simps]: "require c e = Inl e' \<longleftrightarrow> \<not> c \<and> e' = e"
  by (auto simp: require_def)

lemma ok_or_Inr_iff [result_simps]: "ok_or e x = Inr y \<longleftrightarrow> x = Some y"
  by (cases x) (auto simp: ok_or_def)

lemma ok_or_Inl_iff [result_simps]: "ok_or e x = Inl e' \<longleftrightarrow> x = None \<and> e' = e"
  by (cases x) (auto simp: ok_or_def)

lemma is_ok_iff [result_simps]: "is_ok r \<longleftrightarrow> (\<exists>x. r = Inr x)"
  by (cases r) auto

section \<open>Strings\<close>

text \<open>
  A Rust \<open>String\<close> is the list of its UTF-8 bytes, so \<open>length\<close> is \<open>str::len\<close>. Quotes
  that a literal cannot hold are named.
\<close>

definition squote :: "string \<Rightarrow> string" where
  "squote s = CHR 0x27 # s @ [CHR 0x27]"

definition dquote :: "string \<Rightarrow> string" where
  "dquote s = CHR 0x22 # s @ [CHR 0x22]"

definition backtick :: "string \<Rightarrow> string" where
  "backtick s = CHR 0x60 # s @ [CHR 0x60]"

abbreviation newline :: string where
  "newline \<equiv> [CHR 0x0A]"

definition strip_prefix :: "string \<Rightarrow> string \<Rightarrow> string option" where
  "strip_prefix p s = (if prefix p s then Some (drop (length p) s) else None)"

definition strip_suffix :: "string \<Rightarrow> string \<Rightarrow> string option" where
  "strip_suffix q s = (if suffix q s then Some (take (length s - length q) s) else None)"

fun split_on :: "char \<Rightarrow> string \<Rightarrow> string list" where
  "split_on c [] = [ [] ]"
| "split_on c (x # xs) =
     (if x = c then [] # split_on c xs
      else (case split_on c xs of [] \<Rightarrow> [ [x] ] | y # ys \<Rightarrow> (x # y) # ys))"

definition split_once :: "char \<Rightarrow> string \<Rightarrow> (string \<times> string) option" where
  "split_once c s = (case dropWhile (\<lambda>x. x \<noteq> c) s of
     [] \<Rightarrow> None | _ # r \<Rightarrow> Some (takeWhile (\<lambda>x. x \<noteq> c) s, r))"

fun join :: "string \<Rightarrow> string list \<Rightarrow> string" where
  "join sep [] = []"
| "join sep [x] = x"
| "join sep (x # y # ys) = x @ sep @ join sep (y # ys)"

definition contains_str :: "string \<Rightarrow> string \<Rightarrow> bool" where
  "contains_str p s \<longleftrightarrow> list_ex (\<lambda>n. prefix p (drop n s)) [0..<Suc (length s)]"

function replace_all :: "string \<Rightarrow> string \<Rightarrow> string \<Rightarrow> string" where
  "replace_all p r s =
     (if s = [] then []
      else if p \<noteq> [] \<and> prefix p s then r @ replace_all p r (drop (length p) s)
      else hd s # replace_all p r (tl s))"
  by pat_completeness auto
termination
  by (relation "measure (\<lambda>(p, r, s). length s)") (auto simp: prefix_def)

declare replace_all.simps [simp del]

text \<open>
  \<open>str::trim\<close> removes every code point with the property White_Space; these are their UTF-8
  encodings. UTF-8 is prefix free, so at most one of them starts (or ends) a string.
\<close>

definition white_space :: "string list" where
  "white_space =
     [ [CHR 0x09], [CHR 0x0A], [CHR 0x0B], [CHR 0x0C], [CHR 0x0D], [CHR 0x20],
       [CHR 0xC2, CHR 0x85], [CHR 0xC2, CHR 0xA0], [CHR 0xE1, CHR 0x9A, CHR 0x80],
       [CHR 0xE2, CHR 0x80, CHR 0x80], [CHR 0xE2, CHR 0x80, CHR 0x81],
       [CHR 0xE2, CHR 0x80, CHR 0x82], [CHR 0xE2, CHR 0x80, CHR 0x83],
       [CHR 0xE2, CHR 0x80, CHR 0x84], [CHR 0xE2, CHR 0x80, CHR 0x85],
       [CHR 0xE2, CHR 0x80, CHR 0x86], [CHR 0xE2, CHR 0x80, CHR 0x87],
       [CHR 0xE2, CHR 0x80, CHR 0x88], [CHR 0xE2, CHR 0x80, CHR 0x89],
       [CHR 0xE2, CHR 0x80, CHR 0x8A], [CHR 0xE2, CHR 0x80, CHR 0xA8],
       [CHR 0xE2, CHR 0x80, CHR 0xA9], [CHR 0xE2, CHR 0x80, CHR 0xAF],
       [CHR 0xE2, CHR 0x81, CHR 0x9F], [CHR 0xE3, CHR 0x80, CHR 0x80] ]"

lemma white_space_nonempty: "w \<in> set white_space \<Longrightarrow> w \<noteq> []"
  by (auto simp: white_space_def)

function trim_start :: "string \<Rightarrow> string" where
  "trim_start s = (case find (\<lambda>w. prefix w s) white_space of
     None \<Rightarrow> s | Some w \<Rightarrow> trim_start (drop (length w) s))"
  by pat_completeness auto
termination
proof (relation "measure length")
  fix s w
  assume "find (\<lambda>w. prefix w s) white_space = Some w"
  then have "prefix w s" and "w \<in> set white_space"
    by (auto simp: find_Some_iff)
  then show "(drop (length w) s, s) \<in> measure length"
    by (cases s) (auto dest: white_space_nonempty simp: prefix_def)
qed simp

declare trim_start.simps [simp del]

function trim_end :: "string \<Rightarrow> string" where
  "trim_end s = (case find (\<lambda>w. suffix w s) white_space of
     None \<Rightarrow> s | Some w \<Rightarrow> trim_end (take (length s - length w) s))"
  by pat_completeness auto
termination
proof (relation "measure length")
  fix s w
  assume "find (\<lambda>w. suffix w s) white_space = Some w"
  then have "suffix w s" and "w \<in> set white_space"
    by (auto simp: find_Some_iff)
  then show "(take (length s - length w) s, s) \<in> measure length"
    by (auto dest: white_space_nonempty simp: suffix_def)
qed simp

declare trim_end.simps [simp del]

definition trim :: "string \<Rightarrow> string" where
  "trim s = trim_end (trim_start s)"

subsection \<open>Facts on prefixes, suffixes and separators\<close>

lemma strip_prefix_Some_iff [string_simps]:
  "strip_prefix p s = Some r \<longleftrightarrow> s = p @ r"
  by (auto simp: strip_prefix_def prefix_def)

lemma strip_prefix_None_iff [string_simps]: "strip_prefix p s = None \<longleftrightarrow> \<not> prefix p s"
  by (simp add: strip_prefix_def)

lemma strip_suffix_Some_iff [string_simps]:
  "strip_suffix q s = Some r \<longleftrightarrow> s = r @ q"
  by (auto simp: strip_suffix_def suffix_def)

lemma strip_suffix_None_iff [string_simps]: "strip_suffix q s = None \<longleftrightarrow> \<not> suffix q s"
  by (simp add: strip_suffix_def)

lemma split_on_not_Nil [simp]: "split_on c s \<noteq> []"
  by (induction s) (auto split: list.splits)

lemma split_on_no_sep [string_simps]: "c \<notin> set s \<Longrightarrow> split_on c s = [s]"
  by (induction s) auto

lemma split_on_append_sep [string_simps]:
  "c \<notin> set s \<Longrightarrow> split_on c (s @ c # t) = s # split_on c t"
  by (induction s) auto

lemma split_on_pieces: "p \<in> set (split_on c s) \<Longrightarrow> c \<notin> set p"
  by (induction s arbitrary: p) (auto split: list.splits if_splits)

lemma split_once_Some_iff [string_simps]:
  "split_once c s = Some (a, b) \<longleftrightarrow> s = a @ c # b \<and> c \<notin> set a"
proof
  assume h: "split_once c s = Some (a, b)"
  then obtain d where d: "dropWhile (\<lambda>x. x \<noteq> c) s = d # b" and a: "a = takeWhile (\<lambda>x. x \<noteq> c) s"
    by (auto simp: split_once_def split: list.splits)
  from d have "d = c"
    using hd_dropWhile [of "\<lambda>x. x \<noteq> c" s] by auto
  with d a show "s = a @ c # b \<and> c \<notin> set a"
    using takeWhile_dropWhile_id [of "\<lambda>x. x \<noteq> c" s] by (auto dest: set_takeWhileD)
next
  assume h: "s = a @ c # b \<and> c \<notin> set a"
  then have "dropWhile (\<lambda>x. x \<noteq> c) s = c # b" "takeWhile (\<lambda>x. x \<noteq> c) s = a"
    by (auto simp: dropWhile_append3 takeWhile_append2 takeWhile_tail intro: dropWhile_append2)
  then show "split_once c s = Some (a, b)"
    by (simp add: split_once_def)
qed

lemma split_once_None_iff [string_simps]: "split_once c s = None \<longleftrightarrow> c \<notin> set s"
proof -
  have "split_once c s = None \<longleftrightarrow> dropWhile (\<lambda>x. x \<noteq> c) s = []"
    by (simp add: split_once_def del: dropWhile_eq_Nil_conv split: list.splits)
  then show ?thesis by (auto simp: dropWhile_eq_Nil_conv)
qed

lemma contains_str_iff: "contains_str p s \<longleftrightarrow> (\<exists>a b. s = a @ p @ b)"
proof
  assume "contains_str p s"
  then obtain n where "prefix p (drop n s)"
    unfolding contains_str_def list_ex_iff by blast
  then obtain b where "drop n s = p @ b" by (auto simp: prefix_def)
  then have "s = take n s @ p @ b"
    by (metis append_take_drop_id)
  then show "\<exists>a b. s = a @ p @ b" by blast
next
  assume "\<exists>a b. s = a @ p @ b"
  then obtain a b where s: "s = a @ p @ b" by blast
  then have "length a \<in> set [0..<Suc (length s)]" and "prefix p (drop (length a) s)"
    by auto
  then show "contains_str p s"
    unfolding contains_str_def list_ex_iff by blast
qed

lemma contains_char_iff: "contains_str [c] s \<longleftrightarrow> c \<in> set s"
  by (auto simp: contains_str_iff in_set_conv_decomp)

lemma trim_start_suffix: "suffix (trim_start s) s"
proof (induction s rule: trim_start.induct)
  case (1 s)
  show ?case
  proof (cases "find (\<lambda>w. prefix w s) white_space")
    case None
    then show ?thesis by (simp add: trim_start.simps [of s])
  next
    case (Some w)
    with "1.IH" have "suffix (trim_start (drop (length w) s)) (drop (length w) s)" by blast
    with Some show ?thesis
      by (simp add: trim_start.simps [of s]) (metis suffix_drop suffix_order.trans)
  qed
qed

lemma trim_end_prefix: "prefix (trim_end s) s"
proof (induction s rule: trim_end.induct)
  case (1 s)
  show ?case
  proof (cases "find (\<lambda>w. suffix w s) white_space")
    case None
    then show ?thesis by (simp add: trim_end.simps [of s])
  next
    case (Some w)
    with "1.IH" have "prefix (trim_end (take (length s - length w) s)) (take (length s - length w) s)"
      by blast
    with Some show ?thesis
      by (simp add: trim_end.simps [of s]) (metis prefix_order.trans take_is_prefix)
  qed
qed

lemma set_trim: "set (trim s) \<subseteq> set s"
  unfolding trim_def
  by (meson set_mono_prefix set_mono_suffix trim_end_prefix trim_start_suffix order_trans)

section \<open>Decimal numbers\<close>

definition digit :: "nat \<Rightarrow> char" where
  "digit n = char_of (48 + n)"

function show_nat :: "nat \<Rightarrow> string" where
  "show_nat n = (if n < 10 then [digit n] else show_nat (n div 10) @ [digit (n mod 10)])"
  by pat_completeness auto
termination
  by (relation "measure id") auto

declare show_nat.simps [simp del]

definition show_int :: "int \<Rightarrow> string" where
  "show_int i = (if i < 0 then CHR ''-'' # show_nat (nat (- i)) else show_nat (nat i))"

definition is_digit :: "char \<Rightarrow> bool" where
  "is_digit c \<longleftrightarrow> 48 \<le> (of_char c :: nat) \<and> (of_char c :: nat) \<le> 57"

definition digit_val :: "char \<Rightarrow> nat" where
  "digit_val c = of_char c - 48"

definition nat_of_digits :: "string \<Rightarrow> nat" where
  "nat_of_digits s = foldl (\<lambda>n c. 10 * n + digit_val c) 0 s"

text \<open>
  \<open>str::parse::<u64>()\<close> and \<open>parse::<i64>()\<close>: an optional sign (\<open>-\<close> for signed types
  only), at least one digit, digits only, and the value in range.
\<close>

definition parse_digits :: "string \<Rightarrow> nat option" where
  "parse_digits s = (if s \<noteq> [] \<and> list_all is_digit s then Some (nat_of_digits s) else None)"

definition parse_u64 :: "string \<Rightarrow> nat option" where
  "parse_u64 s =
     (case parse_digits (case s of c # r \<Rightarrow> if c = CHR ''+'' then r else s | [] \<Rightarrow> s) of
        None \<Rightarrow> None | Some n \<Rightarrow> if n < 2 ^ 64 then Some n else None)"

definition parse_i64 :: "string \<Rightarrow> int option" where
  "parse_i64 s =
     (case s of
        c # r \<Rightarrow>
          (if c = CHR ''-'' then
             (case parse_digits r of None \<Rightarrow> None
              | Some n \<Rightarrow> if n \<le> 2 ^ 63 then Some (- int n) else None)
           else
             (case parse_digits (if c = CHR ''+'' then r else s) of None \<Rightarrow> None
              | Some n \<Rightarrow> if n < 2 ^ 63 then Some (int n) else None))
      | [] \<Rightarrow> None)"

lemma of_char_digit [simp]: "n < 10 \<Longrightarrow> (of_char (digit n) :: nat) = 48 + n"
  by (simp add: digit_def)

lemma is_digit_digit [simp]: "n < 10 \<Longrightarrow> is_digit (digit n)"
  by (simp add: is_digit_def)

lemma digit_val_digit [simp]: "n < 10 \<Longrightarrow> digit_val (digit n) = n"
  by (simp add: digit_val_def)

lemma nat_of_digits_snoc [simp]: "nat_of_digits (s @ [c]) = 10 * nat_of_digits s + digit_val c"
  by (simp add: nat_of_digits_def)

lemma show_nat_digits: "show_nat n \<noteq> [] \<and> list_all is_digit (show_nat n) \<and> nat_of_digits (show_nat n) = n"
proof (induction n rule: show_nat.induct)
  case (1 n)
  show ?case
  proof (cases "n < 10")
    case True
    then show ?thesis
      by (simp add: show_nat.simps [of n] nat_of_digits_def)
  next
    case False
    with "1.IH" have "nat_of_digits (show_nat (n div 10)) = n div 10"
      and "list_all is_digit (show_nat (n div 10))" by auto
    with False show ?thesis
      by (simp add: show_nat.simps [of n])
  qed
qed

lemma show_nat_inject [simp]: "show_nat m = show_nat n \<longleftrightarrow> m = n"
  by (metis show_nat_digits)

lemma show_nat_not_Nil [simp]: "show_nat n \<noteq> []"
  by (simp add: show_nat_digits)

lemma is_digit_show_nat: "c \<in> set (show_nat n) \<Longrightarrow> is_digit c"
  using show_nat_digits by (auto simp: list_all_iff)

lemma parse_digits_show_nat [simp]: "parse_digits (show_nat n) = Some n"
  using show_nat_digits by (simp add: parse_digits_def)

lemma hd_show_nat: "is_digit (hd (show_nat n))"
  using is_digit_show_nat show_nat_not_Nil by (metis list.set_sel(1))

lemma parse_u64_show_nat: "n < 2 ^ 64 \<Longrightarrow> parse_u64 (show_nat n) = Some n"
proof -
  assume n: "n < 2 ^ 64"
  obtain c r where cr: "show_nat n = c # r"
    by (meson neq_Nil_conv show_nat_not_Nil)
  have "is_digit c" using hd_show_nat [of n] cr by simp
  then have "c \<noteq> CHR ''+''" by (auto simp: is_digit_def)
  with cr n show ?thesis
    using parse_digits_show_nat [of n] by (simp add: parse_u64_def)
qed

section \<open>Machine integers\<close>

type_synonym bytes = "8 word list"

text \<open>An addition of two \<open>usize\<close> values, as in a build with overflow checks (\<open>None\<close> is the panic) or without.\<close>

definition add_usize :: "bool \<Rightarrow> nat \<Rightarrow> nat \<Rightarrow> nat option" where
  "add_usize guarded a b = (if a + b < 2 ^ 64 then Some (a + b) else if guarded then None else Some ((a + b) mod 2 ^ 64))"

section \<open>Association lists\<close>

text \<open>
  \<open>AList.update\<close> replaces the value of a key in place or appends the pair (\<open>IndexMap::insert\<close>,
  \<open>HashMap::insert\<close>), \<open>AList.delete\<close> removes a key. A map of the model has distinct keys.
\<close>

definition wf_map :: "('k \<times> 'v) list \<Rightarrow> bool" where
  "wf_map m \<longleftrightarrow> distinct (map fst m)"

abbreviation has_key :: "('k \<times> 'v) list \<Rightarrow> 'k \<Rightarrow> bool" where
  "has_key m k \<equiv> map_of m k \<noteq> None"

lemma has_key_iff: "has_key m k \<longleftrightarrow> k \<in> fst ` set m"
  by (simp add: map_of_eq_None_iff)

lemma wf_map_update [simp]: "wf_map m \<Longrightarrow> wf_map (AList.update k v m)"
  by (simp add: wf_map_def distinct_update)

lemma wf_map_delete [simp]: "wf_map m \<Longrightarrow> wf_map (AList.delete k m)"
  by (simp add: wf_map_def distinct_delete)

lemma wf_map_Nil [simp]: "wf_map []"
  by (simp add: wf_map_def)

lemma map_of_alist_update [simp]: "map_of (AList.update k v m) = (map_of m)(k \<mapsto> v)"
  by (simp add: update_conv')

lemma map_of_alist_delete [simp]: "map_of (AList.delete k m) = (map_of m)(k := None)"
  by (simp add: delete_conv')

lemma map_filter_iff: "y \<in> set (List.map_filter f xs) \<longleftrightarrow> (\<exists>x \<in> set xs. f x = Some y)"
  by (induction xs) (auto simp: List.map_filter_def image_iff)

lemma wf_map_in_set: "wf_map m \<Longrightarrow> (k, v) \<in> set m \<longleftrightarrow> map_of m k = Some v"
  by (simp add: wf_map_def)

end
