(* ===== verification/Json.thy ===== *)
theory Json
  imports Prelude
begin

text \<open>
  JSON values as \<open>serde_json::Value\<close> holds them, with the accessors the crates call. A number
  keeps the representation \<open>serde_json::Number\<close> distinguishes: a non-negative integer (\<open>u64\<close>),
  a negative integer (\<open>i64\<close>) or a finite \<open>f64\<close>, which is the rational number it denotes.
  \<open>as_f64\<close> of an integer rounds to 53 significant bits, ties to even, as the Rust cast does.
  An object is an association list; its key order is the order of insertion.
\<close>

section \<open>Numbers\<close>

datatype jnum = PosInt nat | NegInt int | Float rat

function bit_length :: "nat \<Rightarrow> nat" where
  "bit_length n = (if n = 0 then 0 else Suc (bit_length (n div 2)))"
  by pat_completeness auto
termination
  by (relation "measure id") auto

declare bit_length.simps [simp del]

definition f64_of_nat :: "nat \<Rightarrow> nat" where
  "f64_of_nat n =
     (if n \<le> 2 ^ 53 then n
      else (let k = bit_length n - 53; q = n div 2 ^ k; r = n mod 2 ^ k; h = 2 ^ (k - 1)
            in if r < h \<or> (r = h \<and> even q) then q * 2 ^ k else (q + 1) * 2 ^ k))"

definition f64_of_int :: "int \<Rightarrow> rat" where
  "f64_of_int i =
     (if i < 0 then - of_nat (f64_of_nat (nat (- i))) else of_nat (f64_of_nat (nat i)))"

fun num_as_u64 :: "jnum \<Rightarrow> nat option" where
  "num_as_u64 (PosInt n) = Some n"
| "num_as_u64 _ = None"

fun num_as_i64 :: "jnum \<Rightarrow> int option" where
  "num_as_i64 (PosInt n) = (if n < 2 ^ 63 then Some (int n) else None)"
| "num_as_i64 (NegInt i) = Some i"
| "num_as_i64 (Float _) = None"

fun num_as_f64 :: "jnum \<Rightarrow> rat" where
  "num_as_f64 (PosInt n) = f64_of_int (int n)"
| "num_as_f64 (NegInt i) = f64_of_int i"
| "num_as_f64 (Float r) = r"

lemma f64_of_int_exact: "\<bar>i\<bar> \<le> 2 ^ 53 \<Longrightarrow> f64_of_int i = of_int i"
  by (auto simp: f64_of_int_def f64_of_nat_def)

section \<open>Values\<close>

datatype json =
    JNull
  | JBool bool
  | JNum jnum
  | JStr string
  | JArr "json list"
  | JObj "(string \<times> json) list"

type_synonym jmap = "(string \<times> json) list"

fun as_str :: "json \<Rightarrow> string option" where
  "as_str (JStr s) = Some s"
| "as_str _ = None"

fun as_u64 :: "json \<Rightarrow> nat option" where
  "as_u64 (JNum n) = num_as_u64 n"
| "as_u64 _ = None"

fun as_i64 :: "json \<Rightarrow> int option" where
  "as_i64 (JNum n) = num_as_i64 n"
| "as_i64 _ = None"

fun as_f64 :: "json \<Rightarrow> rat option" where
  "as_f64 (JNum n) = Some (num_as_f64 n)"
| "as_f64 _ = None"

fun as_bool :: "json \<Rightarrow> bool option" where
  "as_bool (JBool b) = Some b"
| "as_bool _ = None"

fun as_array :: "json \<Rightarrow> json list option" where
  "as_array (JArr xs) = Some xs"
| "as_array _ = None"

fun as_object :: "json \<Rightarrow> jmap option" where
  "as_object (JObj m) = Some m"
| "as_object _ = None"

definition json_get :: "json \<Rightarrow> string \<Rightarrow> json option" where
  "json_get v k = (case v of JObj m \<Rightarrow> map_of m k | _ \<Rightarrow> None)"

definition json_get_str :: "json \<Rightarrow> string \<Rightarrow> string option" where
  "json_get_str v k = Option.bind (json_get v k) as_str"

text \<open>\<open>json!\<close> values built from optional strings and from string lists.\<close>

fun json_of_option :: "('a \<Rightarrow> json) \<Rightarrow> 'a option \<Rightarrow> json" where
  "json_of_option f None = JNull"
| "json_of_option f (Some x) = f x"

text \<open>\<open>serde_json::from_value::<Vec<String>>\<close>: every element must be a string.\<close>

fun strings_of_json :: "json list \<Rightarrow> string list option" where
  "strings_of_json [] = Some []"
| "strings_of_json (v # vs) =
     (case as_str v of None \<Rightarrow> None
      | Some s \<Rightarrow> map_option (\<lambda>ss. s # ss) (strings_of_json vs))"

lemma as_str_Some_iff [simp]: "as_str v = Some s \<longleftrightarrow> v = JStr s"
  by (cases v) auto

lemma as_object_Some_iff [simp]: "as_object v = Some m \<longleftrightarrow> v = JObj m"
  by (cases v) auto

lemma as_array_Some_iff [simp]: "as_array v = Some xs \<longleftrightarrow> v = JArr xs"
  by (cases v) auto

lemma json_get_JObj [simp]: "json_get (JObj m) k = map_of m k"
  by (simp add: json_get_def)

lemma json_get_Some_iff: "json_get v k = Some w \<longleftrightarrow> (\<exists>m. v = JObj m \<and> map_of m k = Some w)"
  by (cases v) (auto simp: json_get_def)

lemma strings_of_json_map [simp]: "strings_of_json (map JStr ss) = Some ss"
  by (induction ss) auto

lemma strings_of_json_Some: "strings_of_json vs = Some ss \<Longrightarrow> vs = map JStr ss"
  by (induction vs arbitrary: ss) (auto split: option.splits)

end
