(* ===== verification/Core_Types.thy ===== *)
theory Core_Types
  imports Json
begin

text \<open>
  The types of the crate \<open>shaperail-core\<close>: field schemas, endpoints, relations, resources and
  the unified error (\<open>schema.rs\<close>, \<open>field_type.rs\<close>, \<open>relation.rs\<close>, \<open>endpoint.rs\<close>,
  \<open>resource.rs\<close>, \<open>database.rs\<close>, \<open>error.rs\<close>). A field of a Rust struct is the field of
  the record with the struct's prefix; a keyed \<open>IndexMap\<close> is an association list in
  declaration order.
\<close>

section \<open>Errors\<close>

record field_error =
  fe_field :: string
  fe_message :: string
  fe_code :: string

datatype shaperail_error =
    NotFound
  | Unauthorized
  | Forbidden
  | Validation "field_error list"
  | Conflict string
  | RateLimited
  | Internal string

type_synonym 'a res = "shaperail_error + 'a"

fun error_code :: "shaperail_error \<Rightarrow> string" where
  "error_code NotFound = ''NOT_FOUND''"
| "error_code Unauthorized = ''UNAUTHORIZED''"
| "error_code Forbidden = ''FORBIDDEN''"
| "error_code (Validation _) = ''VALIDATION_ERROR''"
| "error_code (Conflict _) = ''CONFLICT''"
| "error_code RateLimited = ''RATE_LIMITED''"
| "error_code (Internal _) = ''INTERNAL_ERROR''"

fun error_status :: "shaperail_error \<Rightarrow> nat" where
  "error_status NotFound = 404"
| "error_status Unauthorized = 401"
| "error_status Forbidden = 403"
| "error_status (Validation _) = 422"
| "error_status (Conflict _) = 409"
| "error_status RateLimited = 429"
| "error_status (Internal _) = 500"

text \<open>The \<open>Display\<close> text that \<open>thiserror\<close> derives from the \<open>#[error]\<close> attributes.\<close>

fun error_message :: "shaperail_error \<Rightarrow> string" where
  "error_message NotFound = ''Resource not found''"
| "error_message Unauthorized = ''Unauthorized''"
| "error_message Forbidden = ''Forbidden''"
| "error_message (Validation _) = ''Validation failed''"
| "error_message (Conflict m) = ''Conflict: '' @ m"
| "error_message RateLimited = ''Rate limit exceeded''"
| "error_message (Internal m) = ''Internal server error: '' @ m"

definition field_error_json :: "field_error \<Rightarrow> json" where
  "field_error_json e = JObj [(''field'', JStr (fe_field e)), (''message'', JStr (fe_message e)),
     (''code'', JStr (fe_code e))]"

definition to_error_body :: "shaperail_error \<Rightarrow> string \<Rightarrow> json" where
  "to_error_body e request_id =
     (let details = (case e of Validation errors \<Rightarrow> JArr (map field_error_json errors) | _ \<Rightarrow> JNull)
      in JObj [(''error'', JObj
           [(''code'', JStr (error_code e)),
            (''status'', JNum (PosInt (error_status e))),
            (''message'', JStr (error_message e)),
            (''request_id'', JStr request_id),
            (''details'', details)])])"

definition error_response :: "shaperail_error \<Rightarrow> nat \<times> json" where
  "error_response e = (error_status e, to_error_body e ''unknown'')"

text \<open>
  \<open>sqlx::Error\<close> as the conversion reads it: no row, a database error with its SQLSTATE code,
  message and display text, or any other error with its display text.
\<close>

datatype sqlx_error =
    RowNotFound
  | Database "string option" string string
  | OtherSqlx string

fun from_sqlx :: "sqlx_error \<Rightarrow> shaperail_error" where
  "from_sqlx RowNotFound = NotFound"
| "from_sqlx (Database code msg display) =
     (if code = Some ''23505'' then Conflict msg else Internal display)"
| "from_sqlx (OtherSqlx display) = Internal display"

section \<open>Field schemas\<close>

datatype field_type =
    FtUuid | FtString | FtInteger | FtNumber | FtBoolean | FtTimestamp | FtDate | FtEnum
  | FtJson | FtArray | FtFile

fun field_type_name :: "field_type \<Rightarrow> string" where
  "field_type_name FtUuid = ''uuid''"
| "field_type_name FtString = ''string''"
| "field_type_name FtInteger = ''integer''"
| "field_type_name FtNumber = ''number''"
| "field_type_name FtBoolean = ''boolean''"
| "field_type_name FtTimestamp = ''timestamp''"
| "field_type_name FtDate = ''date''"
| "field_type_name FtEnum = ''enum''"
| "field_type_name FtJson = ''json''"
| "field_type_name FtArray = ''array''"
| "field_type_name FtFile = ''file''"

fun rust_base_type :: "field_type \<Rightarrow> string" where
  "rust_base_type FtUuid = ''uuid::Uuid''"
| "rust_base_type FtString = ''String''"
| "rust_base_type FtEnum = ''String''"
| "rust_base_type FtFile = ''String''"
| "rust_base_type FtInteger = ''i64''"
| "rust_base_type FtNumber = ''f64''"
| "rust_base_type FtBoolean = ''bool''"
| "rust_base_type FtTimestamp = ''chrono::DateTime<chrono::Utc>''"
| "rust_base_type FtDate = ''chrono::NaiveDate''"
| "rust_base_type FtJson = ''serde_json::Value''"
| "rust_base_type FtArray = ''Vec<serde_json::Value>''"

definition to_rust_type :: "field_type \<Rightarrow> bool \<Rightarrow> bool \<Rightarrow> bool \<Rightarrow> string" where
  "to_rust_type t required nullable generated =
     (if nullable \<or> generated \<or> \<not> required then ''Option<'' @ rust_base_type t @ ''>''
      else rust_base_type t)"

record items_spec =
  it_type :: field_type
  it_min :: "json option"
  it_max :: "json option"
  it_format :: "string option"
  it_values :: "string list option"
  it_reference :: "string option"

definition items_of :: "field_type \<Rightarrow> items_spec" where
  "items_of t = \<lparr>it_type = t, it_min = None, it_max = None, it_format = None, it_values = None,
     it_reference = None\<rparr>"

record field_schema =
  fs_type :: field_type
  fs_primary :: bool
  fs_generated :: bool
  fs_required :: bool
  fs_unique :: bool
  fs_nullable :: bool
  fs_reference :: "string option"
  fs_min :: "json option"
  fs_max :: "json option"
  fs_format :: "string option"
  fs_values :: "string list option"
  fs_default :: "json option"
  fs_sensitive :: bool
  fs_search :: bool
  fs_items :: "items_spec option"
  fs_transient :: bool

definition is_persisted :: "field_schema \<Rightarrow> bool" where
  "is_persisted f \<longleftrightarrow> \<not> fs_transient f"

text \<open>The field every flag of which is at its serde default.\<close>

definition plain_field :: "field_type \<Rightarrow> field_schema" where
  "plain_field t = \<lparr>fs_type = t, fs_primary = False, fs_generated = False, fs_required = False,
     fs_unique = False, fs_nullable = False, fs_reference = None, fs_min = None, fs_max = None,
     fs_format = None, fs_values = None, fs_default = None, fs_sensitive = False,
     fs_search = False, fs_items = None, fs_transient = False\<rparr>"

section \<open>Relations and indexes\<close>

datatype relation_type = BelongsTo | HasMany | HasOne

fun relation_type_name :: "relation_type \<Rightarrow> string" where
  "relation_type_name BelongsTo = ''belongs_to''"
| "relation_type_name HasMany = ''has_many''"
| "relation_type_name HasOne = ''has_one''"

record relation_spec =
  rel_resource :: string
  rel_type :: relation_type
  rel_key :: "string option"
  rel_foreign_key :: "string option"

record index_spec =
  ix_fields :: "string list"
  ix_unique :: bool
  ix_order :: "string option"

section \<open>Endpoints\<close>

datatype http_method = Get | Post | Patch | Put | Delete

fun http_method_name :: "http_method \<Rightarrow> string" where
  "http_method_name Get = ''GET''"
| "http_method_name Post = ''POST''"
| "http_method_name Patch = ''PATCH''"
| "http_method_name Put = ''PUT''"
| "http_method_name Delete = ''DELETE''"

datatype auth_rule = Public | Owner | Roles "string list"

fun auth_rule_to_json :: "auth_rule \<Rightarrow> json" where
  "auth_rule_to_json Public = JStr ''public''"
| "auth_rule_to_json Owner = JStr ''owner''"
| "auth_rule_to_json (Roles roles) = JArr (map JStr roles)"

text \<open>Deserialization; the error is the text of \<open>serde::de::Error::custom\<close>, and for a
  non-string element the message of serde itself, which is not this crate's.\<close>

datatype auth_parse_error = AuthShape string | AuthElement

fun auth_rule_of_json :: "json \<Rightarrow> auth_parse_error + auth_rule" where
  "auth_rule_of_json (JStr s) =
     (if s = ''public'' then Inr Public
      else if s = ''owner'' then Inr Owner
      else Inl (AuthShape (''auth must be '' @ dquote ''public'' @ '', '' @ dquote ''owner'' @
        '', or an array of role strings'')))"
| "auth_rule_of_json (JArr vs) =
     (case strings_of_json vs of None \<Rightarrow> Inl AuthElement | Some roles \<Rightarrow> Inr (Roles roles))"
| "auth_rule_of_json _ =
     Inl (AuthShape (''auth must be '' @ dquote ''public'' @ '', '' @ dquote ''owner'' @
        '', or an array of role strings''))"

fun auth_rule_display :: "auth_rule \<Rightarrow> string" where
  "auth_rule_display Public = ''public''"
| "auth_rule_display Owner = ''owner''"
| "auth_rule_display (Roles roles) = join '', '' roles"

definition is_public :: "auth_rule \<Rightarrow> bool" where
  "is_public r \<longleftrightarrow> r = Public"

definition is_owner :: "auth_rule \<Rightarrow> bool" where
  "is_owner r \<longleftrightarrow> r = Owner"

fun allows_owner :: "auth_rule \<Rightarrow> bool" where
  "allows_owner Owner = True"
| "allows_owner (Roles roles) = list_ex (\<lambda>r. r = ''owner'') roles"
| "allows_owner Public = False"

datatype pagination_style = CursorStyle | OffsetStyle

record rate_limit_spec =
  rl_max_requests :: nat
  rl_window_secs :: nat

record cache_spec =
  cs_ttl :: nat
  cs_invalidate_on :: "string list option"

record upload_spec =
  up_field :: string
  up_storage :: string
  up_max_size :: string
  up_types :: "string list option"

datatype hook_list = Single string | Multi "string list"

fun hook_names :: "hook_list \<Rightarrow> string list" where
  "hook_names (Single n) = [n]"
| "hook_names (Multi ns) = ns"

definition wasm_hook_prefix :: string where
  "wasm_hook_prefix = ''wasm:''"

definition has_wasm :: "hook_list \<Rightarrow> bool" where
  "has_wasm h \<longleftrightarrow> list_ex (\<lambda>n. prefix wasm_hook_prefix n) (hook_names h)"

record controller_spec =
  ct_before :: "hook_list option"
  ct_after :: "hook_list option"

definition before_names :: "controller_spec \<Rightarrow> string list" where
  "before_names c = (case ct_before c of None \<Rightarrow> [] | Some h \<Rightarrow> hook_names h)"

definition after_names :: "controller_spec \<Rightarrow> string list" where
  "after_names c = (case ct_after c of None \<Rightarrow> [] | Some h \<Rightarrow> hook_names h)"

definition has_wasm_before :: "controller_spec \<Rightarrow> bool" where
  "has_wasm_before c = (case ct_before c of None \<Rightarrow> False | Some h \<Rightarrow> has_wasm h)"

definition has_wasm_after :: "controller_spec \<Rightarrow> bool" where
  "has_wasm_after c = (case ct_after c of None \<Rightarrow> False | Some h \<Rightarrow> has_wasm h)"

record subscriber_spec =
  sb_event :: string
  sb_handler :: string

record endpoint_spec =
  ep_method :: "http_method option"
  ep_path :: "string option"
  ep_auth :: "auth_rule option"
  ep_input :: "string list option"
  ep_filters :: "string list option"
  ep_search :: "string list option"
  ep_pagination :: "pagination_style option"
  ep_sort :: "string list option"
  ep_cache :: "cache_spec option"
  ep_controller :: "controller_spec option"
  ep_events :: "string list option"
  ep_jobs :: "string list option"
  ep_subscribers :: "subscriber_spec list option"
  ep_handler :: "string option"
  ep_upload :: "upload_spec option"
  ep_rate_limit :: "rate_limit_spec option"
  ep_soft_delete :: bool

text \<open>\<open>EndpointSpec::default()\<close>.\<close>

definition default_endpoint :: endpoint_spec where
  "default_endpoint = \<lparr>ep_method = None, ep_path = None, ep_auth = None, ep_input = None,
     ep_filters = None, ep_search = None, ep_pagination = None, ep_sort = None, ep_cache = None,
     ep_controller = None, ep_events = None, ep_jobs = None, ep_subscribers = None,
     ep_handler = None, ep_upload = None, ep_rate_limit = None, ep_soft_delete = False\<rparr>"

section \<open>Resources\<close>

record resource_definition =
  rd_resource :: string
  rd_version :: nat
  rd_db :: "string option"
  rd_tenant_key :: "string option"
  rd_schema :: "(string \<times> field_schema) list"
  rd_endpoints :: "(string \<times> endpoint_spec) list option"
  rd_relations :: "(string \<times> relation_spec) list option"
  rd_indexes :: "index_spec list option"

text \<open>An \<open>IndexMap\<close> has distinct keys: the representation invariant of a parsed resource.\<close>

definition wf_resource :: "resource_definition \<Rightarrow> bool" where
  "wf_resource rd \<longleftrightarrow> wf_map (rd_schema rd)
     \<and> (case rd_endpoints rd of None \<Rightarrow> True | Some es \<Rightarrow> wf_map es)
     \<and> (case rd_relations rd of None \<Rightarrow> True | Some rs \<Rightarrow> wf_map rs)"

section \<open>Database engines\<close>

datatype database_engine = Postgres | MySQL | SQLite | MongoDB

definition default_engine :: database_engine where
  "default_engine = Postgres"

definition is_sql :: "database_engine \<Rightarrow> bool" where
  "is_sql e \<longleftrightarrow> e = Postgres \<or> e = MySQL \<or> e = SQLite"

definition is_mongo :: "database_engine \<Rightarrow> bool" where
  "is_mongo e \<longleftrightarrow> e = MongoDB"

section \<open>Facts\<close>

lemma error_status_client_or_server: "400 \<le> error_status e \<and> error_status e < 600"
  by (cases e) auto

lemma error_code_status:
  "error_code e = error_code e' \<longleftrightarrow> error_status e = error_status e'"
  by (cases e; cases e') auto

lemma auth_rule_json_roundtrip: "auth_rule_of_json (auth_rule_to_json r) = Inr r"
  by (cases r) auto

lemma auth_rule_of_json_sound: "auth_rule_of_json v = Inr r \<Longrightarrow> auth_rule_to_json r = v"
  by (cases v) (auto dest: strings_of_json_Some split: option.splits if_splits)

lemma is_sql_or_mongo: "is_sql e \<longleftrightarrow> \<not> is_mongo e"
  by (cases e) (auto simp: is_sql_def is_mongo_def)

lemma allows_owner_iff:
  "allows_owner r \<longleftrightarrow> r = Owner \<or> (\<exists>roles. r = Roles roles \<and> ''owner'' \<in> set roles)"
  by (cases r) (auto simp: list_ex_iff)

end
