(* ===== verification/Endpoints.thy ===== *)
theory Endpoints
  imports Core_Types
begin

text \<open>
  Endpoint conventions of \<open>shaperail-core/src/endpoint.rs\<close>: the method and path a standard
  action name implies, the pass that fills them in, the accessors that panic when they are
  missing, and the translation of an Express path (\<open>:param\<close>) to a brace path.
\<close>

section \<open>Convention defaults\<close>

definition endpoint_convention :: "string \<Rightarrow> string \<Rightarrow> (http_method \<times> string) option" where
  "endpoint_convention action res =
     (if action = ''list'' then Some (Get, ''/'' @ res)
      else if action = ''get'' then Some (Get, ''/'' @ res @ ''/:id'')
      else if action = ''create'' then Some (Post, ''/'' @ res)
      else if action = ''update'' then Some (Patch, ''/'' @ res @ ''/:id'')
      else if action = ''delete'' then Some (Delete, ''/'' @ res @ ''/:id'')
      else None)"

definition default_endpoint_for :: "string \<Rightarrow> string \<times> endpoint_spec \<Rightarrow> string \<times> endpoint_spec" where
  "default_endpoint_for res ae = (case ae of (action, ep) \<Rightarrow>
     (action,
      case endpoint_convention action res of
        None \<Rightarrow> ep
      | Some (m, p) \<Rightarrow>
          (let ep1 = (if ep_method ep = None then ep\<lparr>ep_method := Some m\<rparr> else ep)
           in if ep_path ep1 = None then ep1\<lparr>ep_path := Some p\<rparr> else ep1)))"

definition apply_endpoint_defaults :: "resource_definition \<Rightarrow> resource_definition" where
  "apply_endpoint_defaults rd =
     rd\<lparr>rd_endpoints := map_option (map (default_endpoint_for (rd_resource rd))) (rd_endpoints rd)\<rparr>"

text \<open>\<open>EndpointSpec::method()\<close> and \<open>path()\<close> panic when the field is unset.\<close>

datatype panic = Panic string

definition method_of :: "endpoint_spec \<Rightarrow> panic + http_method" where
  "method_of ep =
     ok_or (Panic ''EndpointSpec.method must be set'') (ep_method ep)"

definition path_of :: "endpoint_spec \<Rightarrow> panic + string" where
  "path_of ep = ok_or (Panic ''EndpointSpec.path must be set'') (ep_path ep)"

definition standard_actions :: "string list" where
  "standard_actions = [''list'', ''get'', ''create'', ''update'', ''delete'']"

lemma endpoint_convention_Some_iff:
  "(\<exists>mp. endpoint_convention action res = Some mp) \<longleftrightarrow> action \<in> set standard_actions"
  by (auto simp: endpoint_convention_def standard_actions_def)

lemma default_endpoint_for_fst [simp]: "fst (default_endpoint_for res ae) = fst ae"
  by (cases ae) (simp add: default_endpoint_for_def)

lemma default_endpoint_for_idem:
  "default_endpoint_for res (default_endpoint_for res ae) = default_endpoint_for res ae"
  by (cases ae)
     (auto simp: default_endpoint_for_def Let_def split: option.splits prod.splits)

lemma default_endpoint_for_standard:
  assumes "action \<in> set standard_actions"
  shows "is_ok (method_of (snd (default_endpoint_for res (action, ep))))
       \<and> is_ok (path_of (snd (default_endpoint_for res (action, ep))))"
proof -
  from assms obtain m p where "endpoint_convention action res = Some (m, p)"
    using endpoint_convention_Some_iff [of action res] by auto
  then show ?thesis
    by (auto simp: default_endpoint_for_def method_of_def path_of_def Let_def result_simps)
qed

lemma default_endpoint_for_keeps:
  "(ep_method ep = Some m \<longrightarrow> ep_method (snd (default_endpoint_for res (action, ep))) = Some m)
 \<and> (ep_path ep = Some p \<longrightarrow> ep_path (snd (default_endpoint_for res (action, ep))) = Some p)
 \<and> endpoint_spec.truncate (snd (default_endpoint_for res (action, ep))\<lparr>ep_method := None, ep_path := None\<rparr>)
     = endpoint_spec.truncate (ep\<lparr>ep_method := None, ep_path := None\<rparr>)"
  by (auto simp: default_endpoint_for_def Let_def split: option.splits prod.splits)

lemma default_endpoint_for_custom:
  "action \<notin> set standard_actions \<Longrightarrow> default_endpoint_for res (action, ep) = (action, ep)"
  using endpoint_convention_Some_iff [of action res]
  by (auto simp: default_endpoint_for_def split: option.splits)

lemma map_of_defaults:
  "map_of (map (default_endpoint_for res) es) a =
     map_option (\<lambda>ep. snd (default_endpoint_for res (a, ep))) (map_of es a)"
proof (induction es)
  case (Cons x es)
  then show ?case
    by (cases x) (auto simp: default_endpoint_for_def)
qed simp

section \<open>Brace paths\<close>

definition is_alpha :: "char \<Rightarrow> bool" where
  "is_alpha c \<longleftrightarrow> (let n = (of_char c :: nat) in (65 \<le> n \<and> n \<le> 90) \<or> (97 \<le> n \<and> n \<le> 122))"

definition is_ident_start :: "char \<Rightarrow> bool" where
  "is_ident_start c \<longleftrightarrow> is_alpha c \<or> c = CHR ''_''"

definition is_ident_continue :: "char \<Rightarrow> bool" where
  "is_ident_continue c \<longleftrightarrow> is_alpha c \<or> is_digit c \<or> c = CHR ''_''"

text \<open>
  The index loop of the source as recursion on the remaining bytes. A multi-byte character is
  copied byte by byte: no byte of it is a colon.
\<close>

function to_brace_path :: "string \<Rightarrow> string" where
  "to_brace_path [] = []"
| "to_brace_path (c # r) =
     (if c = CHR '':'' \<and> r \<noteq> [] \<and> is_ident_start (hd r)
      then ''{'' @ hd r # takeWhile is_ident_continue (tl r) @ ''}''
             @ to_brace_path (dropWhile is_ident_continue (tl r))
      else c # to_brace_path r)"
  by pat_completeness auto
termination
proof (relation "measure length")
  fix r :: string
  have "length (dropWhile is_ident_continue (tl r)) \<le> length (tl r)"
    by (rule length_dropWhile_le)
  also have "\<dots> \<le> length r" by simp
  finally show "(dropWhile is_ident_continue (tl r), c # r) \<in> measure length" for c
    by simp
qed auto

text \<open>
  The reference: a path is a list of segments, each literal or a parameter, and the two styles
  differ in how they print a parameter.
\<close>

datatype segment = Lit string | Param string

fun colon_path :: "segment list \<Rightarrow> string" where
  "colon_path [] = []"
| "colon_path (Lit l # ss) = ''/'' @ l @ colon_path ss"
| "colon_path (Param n # ss) = ''/:'' @ n @ colon_path ss"

fun brace_path :: "segment list \<Rightarrow> string" where
  "brace_path [] = []"
| "brace_path (Lit l # ss) = ''/'' @ l @ brace_path ss"
| "brace_path (Param n # ss) = ''/{'' @ n @ ''}'' @ brace_path ss"

fun wf_segment :: "segment \<Rightarrow> bool" where
  "wf_segment (Lit l) = (CHR '':'' \<notin> set l)"
| "wf_segment (Param n) =
     (n \<noteq> [] \<and> is_ident_start (hd n) \<and> list_all is_ident_continue (tl n))"

lemma ident_colon_slash [simp]:
  "\<not> is_ident_start CHR '':''" "\<not> is_ident_continue CHR '':''"
  "\<not> is_ident_start CHR ''/''" "\<not> is_ident_continue CHR ''/''"
  "\<not> is_ident_start CHR ''{''" "\<not> is_ident_continue CHR ''{''"
  "\<not> is_ident_continue CHR ''}''"
  by (simp_all add: is_ident_start_def is_ident_continue_def is_alpha_def is_digit_def Let_def)

lemma to_brace_path_literal:
  "CHR '':'' \<notin> set l \<Longrightarrow> to_brace_path (l @ r) = l @ to_brace_path r"
  by (induction l) auto

lemma takeWhile_ident:
  "list_all is_ident_continue n \<Longrightarrow> r = [] \<or> \<not> is_ident_continue (hd r) \<Longrightarrow>
   takeWhile is_ident_continue (n @ r) = n \<and> dropWhile is_ident_continue (n @ r) = r"
  by (induction n) (cases r; auto)+

lemma to_brace_path_param:
  assumes "wf_segment (Param n)" and "r = [] \<or> \<not> is_ident_continue (hd r)"
  shows "to_brace_path ('':'' @ n @ r) = ''{'' @ n @ ''}'' @ to_brace_path r"
proof -
  obtain c m where n: "n = c # m" using assms(1) by (cases n) auto
  with assms have "takeWhile is_ident_continue (m @ r) = m"
    and "dropWhile is_ident_continue (m @ r) = r" and "is_ident_start c"
    using takeWhile_ident [of m r] by auto
  then show ?thesis by (simp add: n)
qed

lemma colon_path_hd: "colon_path ss = [] \<or> hd (colon_path ss) = CHR ''/''"
  by (cases ss rule: colon_path.cases) auto

lemma to_brace_path_slash: "to_brace_path (''/'' @ r) = ''/'' @ to_brace_path r"
  by simp

lemma to_brace_path_segments:
  "list_all wf_segment ss \<Longrightarrow> to_brace_path (colon_path ss) = brace_path ss"
proof (induction ss rule: colon_path.induct)
  case 1
  show ?case by simp
next
  case (2 l ss)
  then show ?case by (simp add: to_brace_path_literal)
next
  case (3 n ss)
  have "to_brace_path ('':'' @ n @ colon_path ss) = ''{'' @ n @ ''}'' @ to_brace_path (colon_path ss)"
    using 3 colon_path_hd [of ss] by (intro to_brace_path_param) auto
  with 3 show ?case by simp
qed

text \<open>No parameter marker is left, so the translation is idempotent.\<close>

fun has_marker :: "string \<Rightarrow> bool" where
  "has_marker (c # d # r) = ((c = CHR '':'' \<and> is_ident_start d) \<or> has_marker (d # r))"
| "has_marker _ = False"

lemma to_brace_path_no_marker: "\<not> has_marker s \<Longrightarrow> to_brace_path s = s"
  by (induction s rule: has_marker.induct) auto

lemma has_marker_Cons:
  "has_marker (c # s) \<longleftrightarrow> (c = CHR '':'' \<and> s \<noteq> [] \<and> is_ident_start (hd s)) \<or> has_marker s"
  by (cases s) auto

lemma has_marker_append_plain:
  "CHR '':'' \<notin> set l \<Longrightarrow> has_marker (l @ s) \<longleftrightarrow> has_marker s"
  by (induction l) (auto simp: has_marker_Cons)

lemma ident_no_colon: "list_all is_ident_continue n \<Longrightarrow> CHR '':'' \<notin> set n"
  by (auto simp: list_all_iff)

lemma hd_to_brace_path:
  "to_brace_path s \<noteq> [] \<Longrightarrow> is_ident_start (hd (to_brace_path s)) \<Longrightarrow>
   s \<noteq> [] \<and> is_ident_start (hd s)"
  by (cases s) (auto split: if_splits)

lemma to_brace_path_marker_free: "\<not> has_marker (to_brace_path s)"
proof (induction s rule: to_brace_path.induct)
  case 1
  show ?case by simp
next
  case (2 c r)
  show ?case
  proof (cases "c = CHR '':'' \<and> r \<noteq> [] \<and> is_ident_start (hd r)")
    case True
    let ?n = "hd r # takeWhile is_ident_continue (tl r)"
    have "list_all is_ident_continue (takeWhile is_ident_continue (tl r))"
      by (auto simp: list_all_iff dest: set_takeWhileD)
    moreover have "hd r \<noteq> CHR '':''" using True by auto
    ultimately have "CHR '':'' \<notin> set (''{'' @ ?n @ ''}'')"
      using ident_no_colon by auto
    then show ?thesis
      using 2(1) True has_marker_append_plain [of "''{'' @ ?n @ ''}''"] by simp
  next
    case False
    with 2(2) show ?thesis
      using hd_to_brace_path [of r] by (auto simp: has_marker_Cons)
  qed
qed

section \<open>Properties\<close>

text \<open>
  After \<open>apply_endpoint_defaults\<close> every endpoint under a standard action name has a method
  and a path (so the accessors cannot panic), what the author wrote explicitly is kept, an
  endpoint under any other name is untouched, and applying the pass again changes nothing.
\<close>

lemma endpoint_defaults_complete:
  assumes "rd_endpoints rd = Some es" and "map_of es a = Some ep"
  shows "apply_endpoint_defaults (apply_endpoint_defaults rd) = apply_endpoint_defaults rd
    \<and> (\<exists>es' ep'. rd_endpoints (apply_endpoint_defaults rd) = Some es' \<and> map_of es' a = Some ep'
         \<and> map fst es' = map fst es
         \<and> (a \<in> set standard_actions \<longrightarrow> is_ok (method_of ep') \<and> is_ok (path_of ep'))
         \<and> (a \<notin> set standard_actions \<longrightarrow> ep' = ep)
         \<and> (ep_method ep \<noteq> None \<longrightarrow> ep_method ep' = ep_method ep)
         \<and> (ep_path ep \<noteq> None \<longrightarrow> ep_path ep' = ep_path ep))"
proof (rule conjI)
  have "map (default_endpoint_for r) (map (default_endpoint_for r) es)
      = map (default_endpoint_for r) es" for r
    by (simp add: default_endpoint_for_idem)
  then show "apply_endpoint_defaults (apply_endpoint_defaults rd) = apply_endpoint_defaults rd"
    using assms by (simp add: apply_endpoint_defaults_def)
next
  let ?f = "default_endpoint_for (rd_resource rd)"
  have "map_of (map ?f es) a = Some (snd (?f (a, ep)))"
    using assms by (simp add: map_of_defaults)
  then show "\<exists>es' ep'. rd_endpoints (apply_endpoint_defaults rd) = Some es' \<and> map_of es' a = Some ep'
         \<and> map fst es' = map fst es
         \<and> (a \<in> set standard_actions \<longrightarrow> is_ok (method_of ep') \<and> is_ok (path_of ep'))
         \<and> (a \<notin> set standard_actions \<longrightarrow> ep' = ep)
         \<and> (ep_method ep \<noteq> None \<longrightarrow> ep_method ep' = ep_method ep)
         \<and> (ep_path ep \<noteq> None \<longrightarrow> ep_path ep' = ep_path ep)"
    using assms default_endpoint_for_standard [of a "rd_resource rd" ep]
      default_endpoint_for_custom [of a "rd_resource rd" ep]
      default_endpoint_for_keeps [of ep _ "rd_resource rd" a]
    by (intro exI [of _ "map ?f es"] exI [of _ "snd (?f (a, ep))"])
       (auto simp: apply_endpoint_defaults_def)
qed

text \<open>
  \<open>to_brace_path\<close> prints the same segments in brace style: for every list of segments
  whose literals hold no colon and whose parameters are identifiers, the translation of the
  Express path is the brace path; its output has no parameter marker left, and translating
  twice is translating once.
\<close>

lemma to_brace_path_correct:
  assumes "list_all wf_segment ss"
  shows "to_brace_path (colon_path ss) = brace_path ss
    \<and> \<not> has_marker (to_brace_path p) \<and> to_brace_path (to_brace_path p) = to_brace_path p"
  using to_brace_path_segments [OF assms] to_brace_path_marker_free [of p]
    to_brace_path_no_marker [of "to_brace_path p"] by simp

text \<open>A colon inside a segment starts a parameter as well when an identifier follows it.\<close>

lemma to_brace_path_inner_colon: "to_brace_path ''/literal:colon'' = ''/literal{colon}''"
  by (simp add: is_ident_start_def is_ident_continue_def is_alpha_def is_digit_def)

end
