(* ===== verification/Resource_Validator.thy ===== *)
theory Resource_Validator
  imports Endpoints
begin

text \<open>
  The semantic validator of resource files, \<open>shaperail-codegen/src/validator.rs\<close>. It reports
  every error it finds as a list of messages; a check that pushes a message is \<open>fail_if\<close>, and
  the order of the list is the order of the pushes. The reference \<open>resource_ok\<close> states what an
  accepted resource satisfies, without messages or order.
\<close>

section \<open>Messages\<close>

type_synonym validation_error = string

definition fail_if :: "bool \<Rightarrow> validation_error \<Rightarrow> validation_error list" where
  "fail_if c m = (if c then [m] else [])"

lemma fail_if_Nil [simp]: "fail_if c m = [] \<longleftrightarrow> \<not> c"
  by (simp add: fail_if_def)

definition opt_errors :: "('a \<Rightarrow> validation_error list) \<Rightarrow> 'a option \<Rightarrow> validation_error list" where
  "opt_errors f x = (case x of None \<Rightarrow> [] | Some y \<Rightarrow> f y)"

lemma opt_errors_Nil [simp]: "opt_errors f x = [] \<longleftrightarrow> (\<forall>y. x = Some y \<longrightarrow> f y = [])"
  by (cases x) (auto simp: opt_errors_def)

definition res_msg :: "string \<Rightarrow> string \<Rightarrow> string" where
  "res_msg res m = ''resource '' @ squote res @ '': '' @ m"

definition field_msg :: "string \<Rightarrow> string \<Rightarrow> string \<Rightarrow> string" where
  "field_msg res name m = res_msg res (''field '' @ squote name @ '' '' @ m)"

definition endpoint_msg :: "string \<Rightarrow> string \<Rightarrow> string \<Rightarrow> string" where
  "endpoint_msg res action m = res_msg res (''endpoint '' @ squote action @ '' '' @ m)"

section \<open>Fields\<close>

definition item_errors :: "string \<Rightarrow> string \<Rightarrow> items_spec \<Rightarrow> validation_error list" where
  "item_errors res name it =
     fail_if (it_type it = FtArray)
       (field_msg res name ''has nested array items; use type: json for nested arrays'')
   @ fail_if (it_type it = FtEnum \<and> it_values it = None)
       (field_msg res name ''has enum items but no values; add `values: [...]` to items'')
   @ fail_if (it_format it \<noteq> None \<and> it_type it \<noteq> FtString)
       (field_msg res name ''has items.format but items.type is not string'')
   @ fail_if (it_reference it \<noteq> None \<and> it_type it \<noteq> FtUuid)
       (field_msg res name ''has items.ref but items.type is not uuid'')
   @ opt_errors (\<lambda>r. fail_if (\<not> contains_str ''.'' r)
       (field_msg res name (''items.ref must be in '' @ squote ''resource.field'' @ '' format, got ''
          @ squote r))) (it_reference it)"

definition transient_errors :: "string \<Rightarrow> string \<Rightarrow> field_schema \<Rightarrow> validation_error list" where
  "transient_errors res name f =
     (if fs_transient f then
        fail_if (fs_primary f) (field_msg res name ''cannot be both transient and primary'')
      @ fail_if (fs_generated f) (field_msg res name ''cannot be both transient and generated'')
      @ fail_if (fs_reference f \<noteq> None)
          (field_msg res name ''cannot be both transient and have a ref (foreign keys imply persistence)'')
      @ fail_if (fs_unique f)
          (field_msg res name ''cannot be both transient and unique (unique constraints require persistence)'')
      @ fail_if (fs_default f \<noteq> None)
          (field_msg res name ''cannot be both transient and have a default (defaults apply to stored columns)'')
      else [])"

definition field_errors :: "string \<Rightarrow> string \<times> field_schema \<Rightarrow> validation_error list" where
  "field_errors res nf = (case nf of (name, f) \<Rightarrow>
     fail_if (fs_type f = FtEnum \<and> fs_values f = None)
       (field_msg res name ''is type enum but has no values'')
   @ fail_if (fs_type f \<noteq> FtEnum \<and> fs_values f \<noteq> None)
       (field_msg res name ''has values but is not type enum'')
   @ fail_if (fs_reference f \<noteq> None \<and> fs_type f \<noteq> FtUuid)
       (field_msg res name ''has ref but is not type uuid'')
   @ opt_errors (\<lambda>r. fail_if (\<not> contains_str ''.'' r)
       (field_msg res name (''ref must be in '' @ squote ''resource.field'' @ '' format, got ''
          @ squote r))) (fs_reference f)
   @ fail_if (fs_type f = FtArray \<and> fs_items f = None)
       (field_msg res name ''is type array but has no items'')
   @ opt_errors (item_errors res name) (fs_items f)
   @ fail_if (fs_format f \<noteq> None \<and> fs_type f \<noteq> FtString)
       (field_msg res name ''has format but is not type string'')
   @ fail_if (fs_primary f \<and> \<not> fs_generated f \<and> \<not> fs_required f)
       (res_msg res (''primary key field '' @ squote name @ '' must be generated or required''))
   @ transient_errors res name f)"

text \<open>A transient field must be named by the \<open>input:\<close> list of some endpoint.\<close>

definition referenced_inputs :: "resource_definition \<Rightarrow> string list" where
  "referenced_inputs rd = (case rd_endpoints rd of None \<Rightarrow> []
     | Some es \<Rightarrow> concat (List.map_filter (\<lambda>(a, ep). ep_input ep) es))"

definition unreachable_errors :: "resource_definition \<Rightarrow> validation_error list" where
  "unreachable_errors rd =
     concat (map (\<lambda>(name, f). fail_if (name \<notin> set (referenced_inputs rd))
         (res_msg (rd_resource rd) (''transient field '' @ squote name
            @ '' is not declared in any endpoint'' @ [CHR 0x27]
            @ ''s input: list (the field would be unreachable)'')))
       (filter (\<lambda>(name, f). fs_transient f) (rd_schema rd)))"

definition tenant_errors :: "resource_definition \<Rightarrow> validation_error list" where
  "tenant_errors rd = opt_errors (\<lambda>k.
     (case map_of (rd_schema rd) k of
        Some f \<Rightarrow> fail_if (fs_type f \<noteq> FtUuid)
          (res_msg (rd_resource rd) (''tenant_key '' @ squote k
             @ '' must reference a uuid field, found '' @ field_type_name (fs_type f)))
      | None \<Rightarrow> [res_msg (rd_resource rd) (''tenant_key '' @ squote k @ '' not found in schema'')]))
     (rd_tenant_key rd)"

section \<open>Endpoints\<close>

definition crud_actions :: "string list" where
  "crud_actions =
     [''list'', ''get'', ''create'', ''update'', ''delete'', ''bulk_create'', ''bulk_delete'']"

definition handler_conventions :: "string list" where
  "handler_conventions = [''list'', ''get'', ''create'', ''update'', ''delete'']"

definition validate_controller_only_on_crud ::
    "string \<Rightarrow> string \<Rightarrow> endpoint_spec \<Rightarrow> validation_error option" where
  "validate_controller_only_on_crud res action ep =
     (if action \<in> set crud_actions then None
      else if (case ep_controller ep of None \<Rightarrow> False | Some c \<Rightarrow> after_names c \<noteq> [])
      then Some (endpoint_msg res action
        (''declares `controller: { after: ... }`, but `after:` controllers are only valid on ''
         @ ''conventional CRUD endpoints (list / get / create / update / delete / bulk_create / ''
         @ ''bulk_delete).'' @ newline @ newline
         @ ''Custom endpoints generate their own response via `handler:`, so the runtime has no ''
         @ ''place to merge `ctx.response_extras` or pass through after-hook mutations. Use a ''
         @ ''`before:` controller for shared setup (auth augmentation, tenant scoping, request ''
         @ ''validation), and put response-shaping logic inside the handler itself.''))
      else None)"

definition validate_handler_only_on_custom ::
    "string \<Rightarrow> string \<Rightarrow> endpoint_spec \<Rightarrow> validation_error option" where
  "validate_handler_only_on_custom res action ep =
     (case ep_handler ep of None \<Rightarrow> None
      | Some h \<Rightarrow>
          if action \<notin> set handler_conventions then None
          else Some (endpoint_msg res action
            (''declares `handler: '' @ h @ ''`, but `handler:` is only valid on custom ''
             @ ''(non-convention) endpoints. The convention actions list / get / create / update / ''
             @ ''delete are dispatched by the runtime CRUD path; a `handler:` declaration on them ''
             @ ''would be silently dropped at codegen time.'' @ newline @ newline
             @ ''To attach a custom handler at the same HTTP method+path, rename the endpoint key ''
             @ ''to a non-convention action (e.g. `post_'' @ res @ ''`) and set `method:` and ''
             @ ''`path:` explicitly:'' @ newline @ newline
             @ ''endpoints:'' @ newline @ ''  post_'' @ res @ '':'' @ newline
             @ ''    method: POST'' @ newline @ ''    path: /'' @ res @ newline
             @ ''    handler: '' @ h @ newline @ newline
             @ ''To customize standard CRUD behavior without replacing the runtime path, use ''
             @ ''`controller: { before: ... }` for setup logic and `controller: { after: ... }` ''
             @ ''for response shaping.'')))"

definition validate_controller_name ::
    "string \<Rightarrow> string \<Rightarrow> string \<Rightarrow> string \<Rightarrow> validation_error list" where
  "validate_controller_name res action phase name =
     (case strip_prefix wasm_hook_prefix name of
        None \<Rightarrow> []
      | Some wasm_path \<Rightarrow>
          if wasm_path = [] then
            [endpoint_msg res action (''controller.'' @ phase @ '' has '' @ squote ''wasm:''
               @ '' prefix but no path'')]
          else fail_if (\<not> suffix ''.wasm'' wasm_path)
            (endpoint_msg res action (''controller.'' @ phase @ '' WASM path must end with ''
               @ squote ''.wasm'' @ '', got '' @ squote wasm_path)))"

definition hook_errors :: "string \<Rightarrow> string \<Rightarrow> string \<Rightarrow> hook_list \<Rightarrow> validation_error list" where
  "hook_errors res action phase h =
     fail_if (hook_names h = [])
       (''[SR063] '' @ endpoint_msg res action (''has an empty controller.'' @ phase @ '' list''))
   @ concat (map (\<lambda>name.
       if name = [] then [endpoint_msg res action (''has an empty controller.'' @ phase @ '' name'')]
       else validate_controller_name res action phase name) (hook_names h))"

definition controller_errors ::
    "string \<Rightarrow> string \<Rightarrow> endpoint_spec \<Rightarrow> controller_spec \<Rightarrow> validation_error list" where
  "controller_errors res action ep c =
     opt_errors (\<lambda>e. [e]) (validate_controller_only_on_crud res action ep)
   @ opt_errors (hook_errors res action ''before'') (ct_before c)
   @ opt_errors (hook_errors res action ''after'') (ct_after c)"

definition missing_field_errors ::
    "resource_definition \<Rightarrow> string \<Rightarrow> string \<Rightarrow> string list \<Rightarrow> validation_error list" where
  "missing_field_errors rd action kind names =
     concat (map (\<lambda>n. fail_if (\<not> has_key (rd_schema rd) n)
       (endpoint_msg (rd_resource rd) action (kind @ '' field '' @ squote n @ '' not found in schema'')))
       names)"

definition companion_errors :: "resource_definition \<Rightarrow> string \<Rightarrow> validation_error list" where
  "companion_errors rd fld =
     concat (map (\<lambda>(sfx, expected).
       (case map_of (rd_schema rd) (fld @ ''_'' @ sfx) of
          None \<Rightarrow> []
        | Some f \<Rightarrow> fail_if (fs_type f \<notin> set expected)
            (res_msg (rd_resource rd) (''companion upload field '' @ squote (fld @ ''_'' @ sfx)
               @ '' must be type '' @ join '' or '' (map field_type_name expected)))))
       [(''filename'', [FtString]), (''mime_type'', [FtString]), (''size'', [FtInteger])])"

definition upload_errors ::
    "resource_definition \<Rightarrow> string \<Rightarrow> endpoint_spec \<Rightarrow> upload_spec \<Rightarrow> validation_error list" where
  "upload_errors rd action ep up =
     (case ep_method ep of
        Some m \<Rightarrow> fail_if (m \<notin> {Post, Patch, Put})
          (endpoint_msg (rd_resource rd) action ''uses upload but method must be POST, PATCH, or PUT'')
      | None \<Rightarrow> [])
   @ (case map_of (rd_schema rd) (up_field up) of
        Some f \<Rightarrow> fail_if (fs_type f \<noteq> FtFile)
          (endpoint_msg (rd_resource rd) action
             (''upload field '' @ squote (up_field up) @ '' must be type file''))
      | None \<Rightarrow> [endpoint_msg (rd_resource rd) action
             (''upload field '' @ squote (up_field up) @ '' not found in schema'')])
   @ fail_if (up_storage up \<notin> {''local'', ''s3'', ''gcs'', ''azure''})
       (endpoint_msg (rd_resource rd) action
          (''upload storage '' @ squote (up_storage up) @ '' is invalid''))
   @ fail_if (\<not> (case ep_input ep of None \<Rightarrow> False | Some ins \<Rightarrow> up_field up \<in> set ins))
       (endpoint_msg (rd_resource rd) action
          (''upload field '' @ squote (up_field up) @ '' must appear in input''))
   @ companion_errors rd (up_field up)"

definition endpoint_errors ::
    "resource_definition \<Rightarrow> string \<times> endpoint_spec \<Rightarrow> validation_error list" where
  "endpoint_errors rd ae = (case ae of (action, ep) \<Rightarrow>
     (let res = rd_resource rd; known = ''Use a known action name (list, get, create, update, delete)'' in
     fail_if (ep_method ep = None)
       (endpoint_msg res action (''has no method. '' @ known @ '' or set method explicitly''))
   @ fail_if (ep_path ep = None)
       (endpoint_msg res action (''has no path. '' @ known @ '' or set path explicitly''))
   @ opt_errors (\<lambda>e. [e]) (validate_handler_only_on_custom res action ep)
   @ opt_errors (controller_errors res action ep) (ep_controller ep)
   @ opt_errors (\<lambda>events. concat (map (\<lambda>e. fail_if (e = [])
       (endpoint_msg res action ''has an empty event name'')) events)) (ep_events ep)
   @ opt_errors (\<lambda>jobs. concat (map (\<lambda>j. fail_if (j = [])
       (endpoint_msg res action ''has an empty job name'')) jobs)) (ep_jobs ep)
   @ opt_errors (missing_field_errors rd action ''input'') (ep_input ep)
   @ opt_errors (missing_field_errors rd action ''filter'') (ep_filters ep)
   @ opt_errors (missing_field_errors rd action ''search'') (ep_search ep)
   @ opt_errors (missing_field_errors rd action ''sort'') (ep_sort ep)
   @ fail_if (ep_soft_delete ep \<and> \<not> has_key (rd_schema rd) ''deleted_at'')
       (endpoint_msg res action (''has soft_delete but schema has no '' @ squote ''deleted_at''
          @ '' field''))
   @ opt_errors (upload_errors rd action ep) (ep_upload ep)))"

section \<open>Relations, indexes and the whole resource\<close>

definition relation_errors ::
    "resource_definition \<Rightarrow> string \<times> relation_spec \<Rightarrow> validation_error list" where
  "relation_errors rd nr = (case nr of (name, rel) \<Rightarrow>
     (let m = (\<lambda>t. res_msg (rd_resource rd) (''relation '' @ squote name @ '' '' @ t)) in
     fail_if (rel_type rel = BelongsTo \<and> rel_key rel = None) (m ''is belongs_to but has no key'')
   @ fail_if ((rel_type rel = HasMany \<or> rel_type rel = HasOne) \<and> rel_foreign_key rel = None)
       (m (''is '' @ relation_type_name (rel_type rel) @ '' but has no foreign_key''))
   @ opt_errors (\<lambda>k. fail_if (\<not> has_key (rd_schema rd) k)
       (m (''key '' @ squote k @ '' not found in schema''))) (rel_key rel)))"

definition index_errors ::
    "resource_definition \<Rightarrow> nat \<times> index_spec \<Rightarrow> validation_error list" where
  "index_errors rd ni = (case ni of (i, ix) \<Rightarrow>
     (let m = (\<lambda>t. res_msg (rd_resource rd) (''index '' @ show_nat i @ '' '' @ t)) in
     fail_if (ix_fields ix = []) (m ''has no fields'')
   @ concat (map (\<lambda>n. fail_if (\<not> has_key (rd_schema rd) n)
       (m (''references field '' @ squote n @ '' not in schema''))) (ix_fields ix))
   @ opt_errors (\<lambda>ord. fail_if (ord \<noteq> ''asc'' \<and> ord \<noteq> ''desc'')
       (m (''has invalid order '' @ squote ord @ '', must be '' @ squote ''asc'' @ '' or ''
           @ squote ''desc''))) (ix_order ix)))"

definition primary_fields :: "resource_definition \<Rightarrow> (string \<times> field_schema) list" where
  "primary_fields rd = filter (\<lambda>(n, f). fs_primary f) (rd_schema rd)"

definition primary_key_errors :: "resource_definition \<Rightarrow> validation_error list" where
  "primary_key_errors rd =
     (let n = length (primary_fields rd) in
      if n = 0 then [res_msg (rd_resource rd) ''schema must have a primary key field'']
      else fail_if (n > 1)
        (res_msg (rd_resource rd) (''schema must have exactly one primary key, found '' @ show_nat n)))"

definition validate_resource :: "resource_definition \<Rightarrow> validation_error list" where
  "validate_resource rd =
     fail_if (rd_resource rd = []) ''resource name must not be empty''
   @ fail_if (rd_version rd = 0) (res_msg (rd_resource rd) ''version must be >= 1'')
   @ fail_if (rd_schema rd = []) (res_msg (rd_resource rd) ''schema must have at least one field'')
   @ primary_key_errors rd
   @ concat (map (field_errors (rd_resource rd)) (rd_schema rd))
   @ unreachable_errors rd
   @ tenant_errors rd
   @ opt_errors (\<lambda>es. concat (map (endpoint_errors rd) es)) (rd_endpoints rd)
   @ opt_errors (\<lambda>rs. concat (map (relation_errors rd) rs)) (rd_relations rd)
   @ opt_errors (\<lambda>ixs. concat (map (index_errors rd) (List.enumerate 0 ixs))) (rd_indexes rd)"

section \<open>The reference: accepted resources\<close>

definition items_ok :: "items_spec \<Rightarrow> bool" where
  "items_ok it \<longleftrightarrow> it_type it \<noteq> FtArray
     \<and> (it_type it = FtEnum \<longrightarrow> it_values it \<noteq> None)
     \<and> (it_format it \<noteq> None \<longrightarrow> it_type it = FtString)
     \<and> (\<forall>r. it_reference it = Some r \<longrightarrow> it_type it = FtUuid \<and> CHR ''.'' \<in> set r)"

definition field_ok :: "field_schema \<Rightarrow> bool" where
  "field_ok f \<longleftrightarrow> (fs_type f = FtEnum \<longleftrightarrow> fs_values f \<noteq> None)
     \<and> (\<forall>r. fs_reference f = Some r \<longrightarrow> fs_type f = FtUuid \<and> CHR ''.'' \<in> set r)
     \<and> (fs_type f = FtArray \<longrightarrow> fs_items f \<noteq> None)
     \<and> (\<forall>it. fs_items f = Some it \<longrightarrow> items_ok it)
     \<and> (fs_format f \<noteq> None \<longrightarrow> fs_type f = FtString)
     \<and> (fs_primary f \<longrightarrow> fs_generated f \<or> fs_required f)
     \<and> (fs_transient f \<longrightarrow> \<not> fs_primary f \<and> \<not> fs_generated f \<and> fs_reference f = None
          \<and> \<not> fs_unique f \<and> fs_default f = None)"

definition hook_name_ok :: "string \<Rightarrow> bool" where
  "hook_name_ok n \<longleftrightarrow> n \<noteq> []
     \<and> (\<forall>p. n = ''wasm:'' @ p \<longrightarrow> p \<noteq> [] \<and> suffix ''.wasm'' p)"

definition hook_ok :: "hook_list \<Rightarrow> bool" where
  "hook_ok h \<longleftrightarrow> hook_names h \<noteq> [] \<and> (\<forall>n \<in> set (hook_names h). hook_name_ok n)"

definition schema_has :: "resource_definition \<Rightarrow> string list option \<Rightarrow> bool" where
  "schema_has rd ns \<longleftrightarrow> (\<forall>xs. ns = Some xs \<longrightarrow> set xs \<subseteq> dom (map_of (rd_schema rd)))"

definition has_field_type :: "resource_definition \<Rightarrow> string \<Rightarrow> field_type \<Rightarrow> bool" where
  "has_field_type rd n t \<longleftrightarrow> (\<exists>f. map_of (rd_schema rd) n = Some f \<and> fs_type f = t)"

definition upload_ok :: "resource_definition \<Rightarrow> endpoint_spec \<Rightarrow> upload_spec \<Rightarrow> bool" where
  "upload_ok rd ep up \<longleftrightarrow>
     (\<forall>m. ep_method ep = Some m \<longrightarrow> m \<noteq> Get \<and> m \<noteq> Delete)
     \<and> has_field_type rd (up_field up) FtFile
     \<and> up_storage up \<in> {''local'', ''s3'', ''gcs'', ''azure''}
     \<and> (\<exists>ins. ep_input ep = Some ins \<and> up_field up \<in> set ins)
     \<and> (\<forall>(sfx, t) \<in> {(''filename'', FtString), (''mime_type'', FtString), (''size'', FtInteger)}.
          has_key (rd_schema rd) (up_field up @ ''_'' @ sfx) \<longrightarrow>
          has_field_type rd (up_field up @ ''_'' @ sfx) t)"

definition endpoint_ok :: "resource_definition \<Rightarrow> string \<Rightarrow> endpoint_spec \<Rightarrow> bool" where
  "endpoint_ok rd action ep \<longleftrightarrow>
     ep_method ep \<noteq> None \<and> ep_path ep \<noteq> None
     \<and> (ep_handler ep \<noteq> None \<longrightarrow> action \<notin> set standard_actions)
     \<and> (\<forall>c. ep_controller ep = Some c \<longrightarrow>
          (after_names c \<noteq> [] \<longrightarrow> action \<in> set crud_actions)
          \<and> (\<forall>h. ct_before c = Some h \<or> ct_after c = Some h \<longrightarrow> hook_ok h))
     \<and> (\<forall>es. ep_events ep = Some es \<longrightarrow> [] \<notin> set es)
     \<and> (\<forall>js. ep_jobs ep = Some js \<longrightarrow> [] \<notin> set js)
     \<and> schema_has rd (ep_input ep) \<and> schema_has rd (ep_filters ep)
     \<and> schema_has rd (ep_search ep) \<and> schema_has rd (ep_sort ep)
     \<and> (ep_soft_delete ep \<longrightarrow> has_key (rd_schema rd) ''deleted_at'')
     \<and> (\<forall>up. ep_upload ep = Some up \<longrightarrow> upload_ok rd ep up)"

definition relation_ok :: "resource_definition \<Rightarrow> relation_spec \<Rightarrow> bool" where
  "relation_ok rd rel \<longleftrightarrow>
     (if rel_type rel = BelongsTo then rel_key rel \<noteq> None else rel_foreign_key rel \<noteq> None)
     \<and> (\<forall>k. rel_key rel = Some k \<longrightarrow> has_key (rd_schema rd) k)"

definition index_ok :: "resource_definition \<Rightarrow> index_spec \<Rightarrow> bool" where
  "index_ok rd ix \<longleftrightarrow> ix_fields ix \<noteq> [] \<and> set (ix_fields ix) \<subseteq> dom (map_of (rd_schema rd))
     \<and> ix_order ix \<in> {None, Some ''asc'', Some ''desc''}"

definition resource_ok :: "resource_definition \<Rightarrow> bool" where
  "resource_ok rd \<longleftrightarrow> rd_resource rd \<noteq> [] \<and> rd_version rd \<ge> 1
     \<and> (\<exists>!k. \<exists>f. map_of (rd_schema rd) k = Some f \<and> fs_primary f)
     \<and> (\<forall>n f. map_of (rd_schema rd) n = Some f \<longrightarrow> field_ok f)
     \<and> (\<forall>n f. map_of (rd_schema rd) n = Some f \<and> fs_transient f \<longrightarrow>
          (\<exists>es a ep ins. rd_endpoints rd = Some es \<and> map_of es a = Some ep
             \<and> ep_input ep = Some ins \<and> n \<in> set ins))
     \<and> (\<forall>k. rd_tenant_key rd = Some k \<longrightarrow> has_field_type rd k FtUuid)
     \<and> (\<forall>es a ep. rd_endpoints rd = Some es \<and> map_of es a = Some ep \<longrightarrow> endpoint_ok rd a ep)
     \<and> (\<forall>rs n rel. rd_relations rd = Some rs \<and> map_of rs n = Some rel \<longrightarrow> relation_ok rd rel)
     \<and> (\<forall>ixs. rd_indexes rd = Some ixs \<longrightarrow> (\<forall>ix \<in> set ixs. index_ok rd ix))"

section \<open>The validator decides the reference\<close>

lemma concat_map_Nil: "concat (map f xs) = [] \<longleftrightarrow> (\<forall>x \<in> set xs. f x = [])"
  by (simp add: concat_eq_Nil_conv)

lemma item_errors_Nil: "item_errors res name it = [] \<longleftrightarrow> items_ok it"
  by (auto simp: item_errors_def items_ok_def contains_char_iff)

lemma transient_errors_Nil: "transient_errors res name f = [] \<longleftrightarrow>
    (fs_transient f \<longrightarrow> \<not> fs_primary f \<and> \<not> fs_generated f \<and> fs_reference f = None
          \<and> \<not> fs_unique f \<and> fs_default f = None)"
  by (simp add: transient_errors_def)

lemma field_errors_Nil: "field_errors res (name, f) = [] \<longleftrightarrow> field_ok f"
  unfolding field_errors_def field_ok_def
  by (auto simp: item_errors_Nil transient_errors_Nil contains_char_iff)

lemma controller_name_Nil:
  "(if name = [] then [m] else validate_controller_name res action phase name) = []
     \<longleftrightarrow> hook_name_ok name"
proof (cases "strip_prefix wasm_hook_prefix name")
  case None
  then have "\<nexists>p. name = ''wasm:'' @ p"
    by (auto simp: string_simps wasm_hook_prefix_def)
  with None show ?thesis
    by (simp add: validate_controller_name_def hook_name_ok_def)
next
  case (Some p)
  then have "name = ''wasm:'' @ p" by (simp add: string_simps wasm_hook_prefix_def)
  with Some show ?thesis
    by (auto simp: validate_controller_name_def hook_name_ok_def)
qed

lemma hook_errors_Nil: "hook_errors res action phase h = [] \<longleftrightarrow> hook_ok h"
  unfolding hook_errors_def hook_ok_def append_is_Nil_conv concat_map_Nil controller_name_Nil
    fail_if_Nil ..

lemma only_on_crud_None: "validate_controller_only_on_crud res action ep = None \<longleftrightarrow>
    (\<forall>c. ep_controller ep = Some c \<longrightarrow> after_names c \<noteq> [] \<longrightarrow> action \<in> set crud_actions)"
  by (auto simp: validate_controller_only_on_crud_def split: option.splits)

lemma only_on_custom_None: "validate_handler_only_on_custom res action ep = None \<longleftrightarrow>
    (ep_handler ep \<noteq> None \<longrightarrow> action \<notin> set standard_actions)"
  by (auto simp: validate_handler_only_on_custom_def handler_conventions_def standard_actions_def
      split: option.splits)

lemma opt_error_single: "opt_errors (\<lambda>e. [e]) x = [] \<longleftrightarrow> x = None"
  by (cases x) (auto simp: opt_errors_def)

lemma controller_errors_Nil: "ep_controller ep = Some c \<Longrightarrow>
    controller_errors res action ep c = [] \<longleftrightarrow>
      (after_names c \<noteq> [] \<longrightarrow> action \<in> set crud_actions)
      \<and> (\<forall>h. ct_before c = Some h \<or> ct_after c = Some h \<longrightarrow> hook_ok h)"
  unfolding controller_errors_def append_is_Nil_conv opt_error_single only_on_crud_None
    opt_errors_Nil hook_errors_Nil
  by auto

lemma missing_field_errors_Nil: "missing_field_errors rd action kind names = [] \<longleftrightarrow>
    set names \<subseteq> dom (map_of (rd_schema rd))"
  unfolding missing_field_errors_def concat_map_Nil fail_if_Nil by blast

lemma opt_missing_Nil: "opt_errors (missing_field_errors rd action kind) ns = [] \<longleftrightarrow> schema_has rd ns"
  by (simp add: missing_field_errors_Nil schema_has_def)

lemma companion_errors_Nil: "companion_errors rd fld = [] \<longleftrightarrow>
    (\<forall>(sfx, t) \<in> {(''filename'', FtString), (''mime_type'', FtString), (''size'', FtInteger)}.
       has_key (rd_schema rd) (fld @ ''_'' @ sfx) \<longrightarrow> has_field_type rd (fld @ ''_'' @ sfx) t)"
  by (auto simp: companion_errors_def has_field_type_def split: option.splits)

lemma upload_errors_Nil: "upload_errors rd action ep up = [] \<longleftrightarrow> upload_ok rd ep up"
proof -
  have m: "(case ep_method ep of Some m \<Rightarrow> fail_if (m \<notin> {Post, Patch, Put}) msg | None \<Rightarrow> []) = []
      \<longleftrightarrow> (\<forall>m. ep_method ep = Some m \<longrightarrow> m \<noteq> Get \<and> m \<noteq> Delete)" for msg
  proof (cases "ep_method ep")
    case (Some m)
    then show ?thesis by (cases m) auto
  qed simp
  have f: "(case map_of (rd_schema rd) (up_field up) of
        Some f \<Rightarrow> fail_if (fs_type f \<noteq> FtFile) m1 | None \<Rightarrow> [m2]) = []
      \<longleftrightarrow> has_field_type rd (up_field up) FtFile" for m1 m2
    by (simp add: has_field_type_def split: option.splits)
  have i: "(case ep_input ep of None \<Rightarrow> False | Some ins \<Rightarrow> up_field up \<in> set ins) \<longleftrightarrow>
      (\<exists>ins. ep_input ep = Some ins \<and> up_field up \<in> set ins)"
    by (simp split: option.splits)
  show ?thesis
    unfolding upload_errors_def upload_ok_def append_is_Nil_conv companion_errors_Nil m f
      fail_if_Nil i by blast
qed

lemma empty_name_Nil: "concat (map (\<lambda>e. fail_if (e = []) m) xs) = [] \<longleftrightarrow> [] \<notin> set xs"
  unfolding concat_map_Nil fail_if_Nil by blast

lemma endpoint_errors_Nil: "endpoint_errors rd (action, ep) = [] \<longleftrightarrow> endpoint_ok rd action ep"
proof -
  have c: "opt_errors (controller_errors (rd_resource rd) action ep) (ep_controller ep) = [] \<longleftrightarrow>
      (\<forall>c. ep_controller ep = Some c \<longrightarrow>
          (after_names c \<noteq> [] \<longrightarrow> action \<in> set crud_actions)
          \<and> (\<forall>h. ct_before c = Some h \<or> ct_after c = Some h \<longrightarrow> hook_ok h))"
    using controller_errors_Nil [of ep _ "rd_resource rd" action]
    by (cases "ep_controller ep") (simp_all only: opt_errors_Nil, simp_all)
  show ?thesis
    unfolding endpoint_errors_def endpoint_ok_def prod.case Let_def append_is_Nil_conv fail_if_Nil
      opt_error_single only_on_custom_None c opt_missing_Nil
    unfolding opt_errors_Nil empty_name_Nil upload_errors_Nil
    by blast
qed

lemma relation_errors_Nil: "relation_errors rd (name, rel) = [] \<longleftrightarrow> relation_ok rd rel"
  by (cases "rel_type rel") (auto simp: relation_errors_def relation_ok_def Let_def)

lemma index_errors_Nil: "index_errors rd (i, ix) = [] \<longleftrightarrow> index_ok rd ix"
proof -
  have f: "concat (map (\<lambda>n. fail_if (\<not> has_key (rd_schema rd) n) (m n)) (ix_fields ix)) = []
      \<longleftrightarrow> set (ix_fields ix) \<subseteq> dom (map_of (rd_schema rd))" for m
    unfolding concat_map_Nil fail_if_Nil by blast
  have o: "opt_errors (\<lambda>ord. fail_if (ord \<noteq> ''asc'' \<and> ord \<noteq> ''desc'') (m ord)) (ix_order ix) = []
      \<longleftrightarrow> ix_order ix \<in> {None, Some ''asc'', Some ''desc''}" for m
    by (cases "ix_order ix") (auto simp: opt_errors_def)
  show ?thesis
    unfolding index_errors_def index_ok_def prod.case Let_def append_is_Nil_conv fail_if_Nil f o
    by blast
qed

lemma tenant_errors_Nil: "tenant_errors rd = [] \<longleftrightarrow>
    (\<forall>k. rd_tenant_key rd = Some k \<longrightarrow> has_field_type rd k FtUuid)"
  by (auto simp: tenant_errors_def has_field_type_def split: option.splits)

lemma referenced_inputs_iff: "n \<in> set (referenced_inputs rd) \<longleftrightarrow>
    (\<exists>es a ep ins. rd_endpoints rd = Some es \<and> (a, ep) \<in> set es
       \<and> ep_input ep = Some ins \<and> n \<in> set ins)"
proof (cases "rd_endpoints rd")
  case None
  then show ?thesis by (simp add: referenced_inputs_def)
next
  case (Some es)
  then have "set (referenced_inputs rd) = (\<Union>(a, ep) \<in> set es. \<Union>(set ` set_option (ep_input ep)))"
    by (auto simp: referenced_inputs_def List.map_filter_def split: prod.splits) force+
  with Some show ?thesis by fastforce
qed

lemma unreachable_errors_Nil: "unreachable_errors rd = [] \<longleftrightarrow>
    (\<forall>(n, f) \<in> set (rd_schema rd). fs_transient f \<longrightarrow> n \<in> set (referenced_inputs rd))"
  unfolding unreachable_errors_def concat_map_Nil by auto

lemma length_one_iff: "length xs = 1 \<longleftrightarrow> (\<exists>x. xs = [x])"
  by (cases xs) (auto simp: length_Suc_conv)

lemma ex1_mem_iff: "(\<exists>!k. k \<in> A) \<longleftrightarrow> (\<exists>k. A = {k})"
  by auto

lemma primary_unique_iff:
  assumes "wf_map (rd_schema rd)"
  shows "length (primary_fields rd) = 1 \<longleftrightarrow>
    (\<exists>!k. \<exists>f. map_of (rd_schema rd) k = Some f \<and> fs_primary f)"
proof -
  let ?ks = "map fst (primary_fields rd)"
  have d: "distinct ?ks"
    using assms by (simp add: wf_map_def primary_fields_def distinct_map_filter)
  have s: "k \<in> set ?ks \<longleftrightarrow> (\<exists>f. map_of (rd_schema rd) k = Some f \<and> fs_primary f)" for k
    using assms by (auto simp: primary_fields_def image_iff simp flip: wf_map_in_set)
  have "length (primary_fields rd) = card (set ?ks)"
    using d by (metis distinct_card length_map)
  also have "\<dots> = 1 \<longleftrightarrow> (\<exists>k. set ?ks = {k})"
    by (simp add: card_1_singleton_iff)
  also have "\<dots> \<longleftrightarrow> (\<exists>!k. k \<in> set ?ks)"
    by (rule ex1_mem_iff [symmetric])
  finally show ?thesis unfolding s .
qed

lemma wf_map_Ball:
  assumes "wf_map m" and "\<And>k v. F (k, v) = [] \<longleftrightarrow> P k v"
  shows "concat (map F m) = [] \<longleftrightarrow> (\<forall>k v. map_of m k = Some v \<longrightarrow> P k v)"
proof -
  have "concat (map F m) = [] \<longleftrightarrow> (\<forall>k v. (k, v) \<in> set m \<longrightarrow> F (k, v) = [])"
    unfolding concat_map_Nil by auto
  then show ?thesis using assms by (simp add: wf_map_in_set)
qed

lemma index_list_Nil: "concat (map (index_errors rd) (List.enumerate n ixs)) = [] \<longleftrightarrow>
    (\<forall>ix \<in> set ixs. index_ok rd ix)"
  by (induction ixs arbitrary: n) (simp_all add: index_errors_Nil)

lemma primary_key_errors_Nil: "primary_key_errors rd = [] \<longleftrightarrow> length (primary_fields rd) = 1"
  by (simp add: primary_key_errors_def Let_def) (cases "primary_fields rd"; simp)

text \<open>C1. The validator decides exactly the accepted resources: for a parsed resource (its maps
  have distinct keys), the list of errors is empty if and only if the resource satisfies the
  declarative reference: name and version set, one primary key, every field, endpoint, upload,
  controller, relation and index well formed, every transient field reachable through an input
  list and the tenant key a uuid field.\<close>

theorem validate_resource_iff:
  assumes "wf_resource rd"
  shows "validate_resource rd = [] \<longleftrightarrow> resource_ok rd"
proof -
  have ws: "wf_map (rd_schema rd)" and we: "rd_endpoints rd = Some es \<Longrightarrow> wf_map es"
    and wr: "rd_relations rd = Some rs \<Longrightarrow> wf_map rs" for es rs
    using assms by (auto simp: wf_resource_def)
  have e: "opt_errors (\<lambda>es. concat (map (endpoint_errors rd) es)) (rd_endpoints rd) = [] \<longleftrightarrow>
      (\<forall>es a ep. rd_endpoints rd = Some es \<and> map_of es a = Some ep \<longrightarrow> endpoint_ok rd a ep)"
    using wf_map_Ball [OF we, of _ "endpoint_errors rd" "endpoint_ok rd"]
    by (auto simp: endpoint_errors_Nil)
  have r: "opt_errors (\<lambda>rs. concat (map (relation_errors rd) rs)) (rd_relations rd) = [] \<longleftrightarrow>
      (\<forall>rs n rel. rd_relations rd = Some rs \<and> map_of rs n = Some rel \<longrightarrow> relation_ok rd rel)"
    using wf_map_Ball [OF wr, of _ "relation_errors rd" "\<lambda>n. relation_ok rd"]
    by (auto simp: relation_errors_Nil)
  have f: "concat (map (field_errors (rd_resource rd)) (rd_schema rd)) = [] \<longleftrightarrow>
      (\<forall>n f. map_of (rd_schema rd) n = Some f \<longrightarrow> field_ok f)"
    using wf_map_Ball [OF ws, of "field_errors (rd_resource rd)" "\<lambda>n. field_ok"]
    by (simp add: field_errors_Nil)
  have u: "unreachable_errors rd = [] \<longleftrightarrow>
      (\<forall>n f. map_of (rd_schema rd) n = Some f \<and> fs_transient f \<longrightarrow>
          (\<exists>es a ep ins. rd_endpoints rd = Some es \<and> map_of es a = Some ep
             \<and> ep_input ep = Some ins \<and> n \<in> set ins))"
    unfolding unreachable_errors_Nil referenced_inputs_iff
    using ws we by (auto simp: wf_map_in_set split: prod.splits) (metis wf_map_in_set)+
  have ix: "opt_errors (\<lambda>ixs. concat (map (index_errors rd) (List.enumerate 0 ixs))) (rd_indexes rd) = []
      \<longleftrightarrow> (\<forall>ixs. rd_indexes rd = Some ixs \<longrightarrow> (\<forall>ix \<in> set ixs. index_ok rd ix))"
    by (simp add: index_list_Nil del: concat_eq_Nil_conv)
  have n: "(\<exists>!k. \<exists>f. map_of (rd_schema rd) k = Some f \<and> fs_primary f) \<longrightarrow> rd_schema rd \<noteq> []"
    by force
  have v: "1 \<le> rd_version rd \<longleftrightarrow> rd_version rd \<noteq> 0"
    by auto
  show ?thesis
    unfolding validate_resource_def resource_ok_def append_is_Nil_conv fail_if_Nil
      primary_key_errors_Nil primary_unique_iff [OF ws] e r f u tenant_errors_Nil ix v
    using n by satx
qed

definition sample_resource :: resource_definition where
  "sample_resource = \<lparr>rd_resource = ''users'', rd_version = 1, rd_db = None, rd_tenant_key = None,
     rd_schema = [(''id'', (plain_field FtUuid)\<lparr>fs_primary := True, fs_generated := True\<rparr>),
       (''name'', (plain_field FtString)\<lparr>fs_required := True\<rparr>),
       (''password'', (plain_field FtString)\<lparr>fs_transient := True\<rparr>)],
     rd_endpoints = Some [(''create'', default_endpoint\<lparr>ep_method := Some Post,
       ep_path := Some ''/users'', ep_input := Some [''name'', ''password'']\<rparr>)],
     rd_relations = None, rd_indexes = None\<rparr>"

theorem validate_resource_iff_witness:
  "wf_resource sample_resource \<and> validate_resource sample_resource = []
     \<and> resource_ok sample_resource"
proof -
  have w: "wf_resource sample_resource"
    by (simp add: sample_resource_def wf_resource_def wf_map_def)
  moreover have "validate_resource sample_resource = []"
    by code_simp
  ultimately show ?thesis
    using validate_resource_iff [OF w] by simp
qed

end
