(* ===== verification/Input_Validation.thy ===== *)
theory Input_Validation
  imports Core_Types
begin

text \<open>
  Validation of a request body against the schema, \<open>shaperail-runtime/src/handlers/validate.rs\<close>:
  the rule checks before the controller, the required check after it, the removal of transient
  fields and the existence check of foreign-key arrays. The functions of other crates that the
  checks call are the fields of a record: parsing and printing of a uuid (crate \<open>uuid\<close>), the
  \<open>Display\<close> text of an \<open>f64\<close>, and the order in which a \<open>HashSet\<close> is iterated.
\<close>

type_synonym uuid = nat

record value_lib =
  parse_uuid :: "string \<Rightarrow> uuid option"
  show_uuid :: "uuid \<Rightarrow> string"
  show_f64 :: "rat \<Rightarrow> string"
  hash_order :: "uuid list \<Rightarrow> uuid list"

section \<open>The rules of a value\<close>

text \<open>A check pushes at most one error; \<open>report\<close> is the push under a condition.\<close>

definition report :: "bool \<Rightarrow> string \<Rightarrow> string \<Rightarrow> string \<Rightarrow> field_error list" where
  "report c path msg code =
     (if c then [\<lparr>fe_field = path, fe_message = path @ msg, fe_code = code\<rparr>] else [])"

definition json_u64 :: "json option \<Rightarrow> nat option" where
  "json_u64 b = Option.bind b as_u64"

definition json_f64 :: "json option \<Rightarrow> rat option" where
  "json_f64 b = Option.bind b as_f64"

definition length_errors ::
    "string \<Rightarrow> field_type \<Rightarrow> json option \<Rightarrow> json option \<Rightarrow> json \<Rightarrow> field_error list" where
  "length_errors path t mn mx v =
     (if t = FtString \<or> t = FtEnum then
        (case as_str v of None \<Rightarrow> []
         | Some s \<Rightarrow>
             (case json_u64 mn of None \<Rightarrow> []
              | Some n \<Rightarrow> report (length s < n) path
                  ('' must be at least '' @ show_nat n @ '' characters'') ''too_short'')
           @ (case json_u64 mx of None \<Rightarrow> []
              | Some n \<Rightarrow> report (length s > n) path
                  ('' must be at most '' @ show_nat n @ '' characters'') ''too_long''))
      else [])"

definition range_errors :: "value_lib \<Rightarrow>
    string \<Rightarrow> field_type \<Rightarrow> json option \<Rightarrow> json option \<Rightarrow> json \<Rightarrow> field_error list" where
  "range_errors lib path t mn mx v =
     (if t = FtInteger \<or> t = FtNumber then
        (case as_f64 v of None \<Rightarrow> []
         | Some x \<Rightarrow>
             (case json_f64 mn of None \<Rightarrow> []
              | Some b \<Rightarrow> report (x < b) path ('' must be at least '' @ show_f64 lib b) ''too_small'')
           @ (case json_f64 mx of None \<Rightarrow> []
              | Some b \<Rightarrow> report (x > b) path ('' must be at most '' @ show_f64 lib b) ''too_large''))
      else [])"

definition enum_errors ::
    "string \<Rightarrow> field_type \<Rightarrow> string list option \<Rightarrow> json \<Rightarrow> field_error list" where
  "enum_errors path t values v =
     (if t = FtEnum then
        (case (values, as_str v) of
           (Some allowed, Some s) \<Rightarrow> report (s \<notin> set allowed) path
             ('' must be one of: '' @ join '', '' allowed) ''invalid_enum''
         | _ \<Rightarrow> [])
      else [])"

definition format_errors :: "string \<Rightarrow> string option \<Rightarrow> json \<Rightarrow> field_error list" where
  "format_errors path fmt v =
     (case as_str v of None \<Rightarrow> []
      | Some s \<Rightarrow>
          report (fmt = Some ''email'' \<and> (CHR ''@'' \<notin> set s \<or> CHR ''.'' \<notin> set s)) path
            '' must be a valid email address'' ''invalid_format''
        @ report (fmt = Some ''url'' \<and> \<not> prefix ''http://'' s \<and> \<not> prefix ''https://'' s) path
            '' must be a valid URL'' ''invalid_format'')"

definition uuid_errors :: "value_lib \<Rightarrow> string \<Rightarrow> field_type \<Rightarrow> json \<Rightarrow> field_error list" where
  "uuid_errors lib path t v =
     (if t = FtUuid then
        (case as_str v of None \<Rightarrow> []
         | Some s \<Rightarrow> report (parse_uuid lib s = None) path '' must be a valid UUID'' ''invalid_uuid'')
      else [])"

definition check_item_rules ::
    "value_lib \<Rightarrow> string \<Rightarrow> nat \<Rightarrow> items_spec \<Rightarrow> json \<Rightarrow> field_error list" where
  "check_item_rules lib field_name idx it v =
     (let path = field_name @ ''['' @ show_nat idx @ '']'' in
        length_errors path (it_type it) (it_min it) (it_max it) v
      @ range_errors lib path (it_type it) (it_min it) (it_max it) v
      @ enum_errors path (it_type it) (it_values it) v
      @ uuid_errors lib path (it_type it) v
      @ format_errors path (it_format it) v)"

definition array_errors :: "value_lib \<Rightarrow> string \<Rightarrow> field_schema \<Rightarrow> json \<Rightarrow> field_error list" where
  "array_errors lib name f v =
     (if fs_type f = FtArray then
        (case fs_items f of None \<Rightarrow> []
         | Some it \<Rightarrow>
             (case v of
                JArr elements \<Rightarrow> concat (map (\<lambda>(idx, e). check_item_rules lib name idx it e)
                  (List.enumerate 0 elements))
              | _ \<Rightarrow> report True name '' must be an array'' ''invalid_type''))
      else [])"

definition check_field_rules ::
    "value_lib \<Rightarrow> string \<Rightarrow> field_schema \<Rightarrow> json \<Rightarrow> field_error list" where
  "check_field_rules lib name f v =
     enum_errors name (fs_type f) (fs_values f) v
   @ length_errors name (fs_type f) (fs_min f) (fs_max f) v
   @ range_errors lib name (fs_type f) (fs_min f) (fs_max f) v
   @ format_errors name (fs_format f) v
   @ uuid_errors lib name (fs_type f) v
   @ array_errors lib name f v"

section \<open>The two phases\<close>

definition finalize :: "field_error list \<Rightarrow> unit res" where
  "finalize errors = (if errors = [] then Inr () else Inl (Validation errors))"

definition present :: "jmap \<Rightarrow> string \<Rightarrow> json option" where
  "present d name = (case map_of d name of Some v \<Rightarrow> if v = JNull then None else Some v | None \<Rightarrow> None)"

definition checked :: "field_schema \<Rightarrow> bool" where
  "checked f \<longleftrightarrow> \<not> (fs_generated f \<or> fs_primary f)"

definition shape_errors :: "value_lib \<Rightarrow> jmap \<Rightarrow> string \<times> field_schema \<Rightarrow> field_error list" where
  "shape_errors lib d nf = (case nf of (name, f) \<Rightarrow>
     if \<not> checked f then []
     else (case present d name of None \<Rightarrow> [] | Some v \<Rightarrow> check_field_rules lib name f v))"

definition validate_input_shape :: "value_lib \<Rightarrow> jmap \<Rightarrow> resource_definition \<Rightarrow> unit res" where
  "validate_input_shape lib d rd = finalize (concat (map (shape_errors lib d) (rd_schema rd)))"

definition required_errors ::
    "value_lib \<Rightarrow> jmap \<Rightarrow> string set \<Rightarrow> string \<times> field_schema \<Rightarrow> field_error list" where
  "required_errors lib d keys nf = (case nf of (name, f) \<Rightarrow>
     if \<not> checked f then []
     else if fs_required f \<and> fs_default f = None \<and> present d name = None then
       report True name '' is required'' ''required''
     else if name \<notin> keys then
       (case present d name of None \<Rightarrow> [] | Some v \<Rightarrow> check_field_rules lib name f v)
     else [])"

definition validate_required_present ::
    "value_lib \<Rightarrow> jmap \<Rightarrow> resource_definition \<Rightarrow> string set \<Rightarrow> unit res" where
  "validate_required_present lib d rd pre_controller_keys =
     finalize (concat (map (required_errors lib d pre_controller_keys) (rd_schema rd)))"

definition strip_transient_fields :: "jmap \<Rightarrow> resource_definition \<Rightarrow> jmap" where
  "strip_transient_fields d rd =
     fold (\<lambda>(name, f) m. if fs_transient f then AList.delete name m else m) (rd_schema rd) d"

definition validate_input :: "value_lib \<Rightarrow> jmap \<Rightarrow> resource_definition \<Rightarrow> unit res" where
  "validate_input lib d rd =
     and_then (validate_input_shape lib d rd) (\<lambda>_.
       validate_required_present lib d rd (fst ` set d))"

section \<open>Foreign-key arrays\<close>

text \<open>
  The two queries read one column of one table: the number of distinct stored values among the
  given ids, and those values. The database is the function from a table and a column to the
  error text of a failed query or to the column's values.
\<close>

type_synonym column_db = "string \<Rightarrow> string \<Rightarrow> string + uuid list"

definition run_ref_query :: "column_db \<Rightarrow> string \<Rightarrow> string \<Rightarrow> uuid list \<Rightarrow> uuid list res" where
  "run_ref_query db table column ids =
     (case db table column of
        Inl e \<Rightarrow> Inl (Internal (''items.ref check failed: '' @ e))
      | Inr vals \<Rightarrow> Inr (filter (\<lambda>u. u \<in> set ids) vals))"

definition count_distinct :: "column_db \<Rightarrow> string \<Rightarrow> string \<Rightarrow> uuid list \<Rightarrow> nat res" where
  "count_distinct db table column ids =
     and_then (run_ref_query db table column ids) (\<lambda>rows. Inr (length (remdups rows)))"

definition element_uuids :: "value_lib \<Rightarrow> json list \<Rightarrow> uuid list" where
  "element_uuids lib elements =
     List.map_filter (\<lambda>e. Option.bind (as_str e) (parse_uuid lib)) elements"

definition item_reference_target ::
    "value_lib \<Rightarrow> jmap \<Rightarrow> string \<Rightarrow> field_schema \<Rightarrow> (string \<times> string \<times> string \<times> uuid list) option" where
  "item_reference_target lib d name f =
     Option.bind (fs_items f) (\<lambda>it.
     Option.bind (it_reference it) (\<lambda>reference.
       if it_type it \<noteq> FtUuid then None
       else (case map_of d name of
         Some (JArr elements) \<Rightarrow>
           if elements = [] then None
           else Option.bind (split_once CHR ''.'' reference) (\<lambda>(table, column).
             (let ids = element_uuids lib elements in
              if ids = [] then None else Some (reference, table, column, ids)))
       | _ \<Rightarrow> None)))"

definition reference_error ::
    "value_lib \<Rightarrow> string \<Rightarrow> string \<Rightarrow> uuid list \<Rightarrow> field_error" where
  "reference_error lib name reference missing =
     \<lparr>fe_field = name,
      fe_message = name @ '' contains references that do not exist in '' @ reference @ '': ''
        @ join '', '' (map (show_uuid lib) missing),
      fe_code = ''invalid_reference''\<rparr>"

definition item_reference_errors ::
    "value_lib \<Rightarrow> column_db \<Rightarrow> jmap \<Rightarrow> string \<times> field_schema \<Rightarrow> field_error list res" where
  "item_reference_errors lib db d nf = (case nf of (name, f) \<Rightarrow>
     (case item_reference_target lib d name f of
        None \<Rightarrow> Inr []
      | Some (reference, table, column, ids) \<Rightarrow>
          and_then (count_distinct db table column ids) (\<lambda>found.
            (let dist = hash_order lib (remdups ids) in
             if found < length dist then
               and_then (run_ref_query db table column ids) (\<lambda>rows.
                 Inr [reference_error lib name reference
                        (take 5 (filter (\<lambda>u. u \<notin> set rows) dist))])
             else Inr []))))"

fun collect_reference_errors ::
    "value_lib \<Rightarrow> column_db \<Rightarrow> jmap \<Rightarrow> (string \<times> field_schema) list \<Rightarrow> field_error list res" where
  "collect_reference_errors lib db d [] = Inr []"
| "collect_reference_errors lib db d (nf # nfs) =
     and_then (item_reference_errors lib db d nf) (\<lambda>es.
       and_then (collect_reference_errors lib db d nfs) (\<lambda>es'. Inr (es @ es')))"

definition validate_item_references ::
    "value_lib \<Rightarrow> column_db \<Rightarrow> jmap \<Rightarrow> resource_definition \<Rightarrow> unit res" where
  "validate_item_references lib db d rd =
     and_then (collect_reference_errors lib db d (rd_schema rd)) finalize"

section \<open>The reference: what a valid body satisfies\<close>

definition scalar_ok :: "value_lib \<Rightarrow> field_type \<Rightarrow> json option \<Rightarrow> json option \<Rightarrow>
    string list option \<Rightarrow> string option \<Rightarrow> json \<Rightarrow> bool" where
  "scalar_ok lib t mn mx values fmt v \<longleftrightarrow>
     (\<forall>s. v = JStr s \<longrightarrow>
        (t \<in> {FtString, FtEnum} \<longrightarrow>
           (\<forall>n. json_u64 mn = Some n \<longrightarrow> n \<le> length s) \<and> (\<forall>n. json_u64 mx = Some n \<longrightarrow> length s \<le> n))
      \<and> (t = FtEnum \<longrightarrow> (\<forall>vs. values = Some vs \<longrightarrow> s \<in> set vs))
      \<and> (t = FtUuid \<longrightarrow> (\<exists>u. parse_uuid lib s = Some u))
      \<and> (fmt = Some ''email'' \<longrightarrow> CHR ''@'' \<in> set s \<and> CHR ''.'' \<in> set s)
      \<and> (fmt = Some ''url'' \<longrightarrow> prefix ''http://'' s \<or> prefix ''https://'' s))
     \<and> (\<forall>x. as_f64 v = Some x \<and> t \<in> {FtInteger, FtNumber} \<longrightarrow>
          (\<forall>b. json_f64 mn = Some b \<longrightarrow> b \<le> x) \<and> (\<forall>b. json_f64 mx = Some b \<longrightarrow> x \<le> b))"

definition value_ok :: "value_lib \<Rightarrow> field_schema \<Rightarrow> json \<Rightarrow> bool" where
  "value_ok lib f v \<longleftrightarrow>
     scalar_ok lib (fs_type f) (fs_min f) (fs_max f) (fs_values f) (fs_format f) v
   \<and> (\<forall>it. fs_type f = FtArray \<and> fs_items f = Some it \<longrightarrow>
        (\<exists>es. v = JArr es \<and> (\<forall>e \<in> set es.
           scalar_ok lib (it_type it) (it_min it) (it_max it) (it_values it) (it_format it) e)))"

definition body_ok :: "value_lib \<Rightarrow> jmap \<Rightarrow> resource_definition \<Rightarrow> bool" where
  "body_ok lib d rd \<longleftrightarrow> (\<forall>n f. map_of (rd_schema rd) n = Some f \<and> checked f \<longrightarrow>
     (case present d n of Some v \<Rightarrow> value_ok lib f v
      | None \<Rightarrow> fs_required f \<longrightarrow> fs_default f \<noteq> None))"

lemma report_Nil [simp]: "report c p m k = [] \<longleftrightarrow> \<not> c"
  by (simp add: report_def)

lemma length_errors_Nil: "length_errors p t mn mx v = [] \<longleftrightarrow>
    (\<forall>s. v = JStr s \<and> t \<in> {FtString, FtEnum} \<longrightarrow>
       (\<forall>n. json_u64 mn = Some n \<longrightarrow> n \<le> length s) \<and> (\<forall>n. json_u64 mx = Some n \<longrightarrow> length s \<le> n))"
  by (cases v) (auto simp: length_errors_def not_less split: option.splits)

lemma range_errors_Nil: "range_errors lib p t mn mx v = [] \<longleftrightarrow>
    (\<forall>x. as_f64 v = Some x \<and> t \<in> {FtInteger, FtNumber} \<longrightarrow>
       (\<forall>b. json_f64 mn = Some b \<longrightarrow> b \<le> x) \<and> (\<forall>b. json_f64 mx = Some b \<longrightarrow> x \<le> b))"
  by (cases "as_f64 v") (auto simp: range_errors_def not_less split: option.splits)

lemma enum_errors_Nil: "enum_errors p t values v = [] \<longleftrightarrow>
    (\<forall>s vs. t = FtEnum \<and> v = JStr s \<and> values = Some vs \<longrightarrow> s \<in> set vs)"
  by (cases v) (auto simp: enum_errors_def split: option.splits)

lemma format_errors_Nil: "format_errors p fmt v = [] \<longleftrightarrow>
    (\<forall>s. v = JStr s \<longrightarrow> (fmt = Some ''email'' \<longrightarrow> CHR ''@'' \<in> set s \<and> CHR ''.'' \<in> set s)
       \<and> (fmt = Some ''url'' \<longrightarrow> prefix ''http://'' s \<or> prefix ''https://'' s))"
  by (cases v) (auto simp: format_errors_def)

lemma uuid_errors_Nil: "uuid_errors lib p t v = [] \<longleftrightarrow>
    (\<forall>s. t = FtUuid \<and> v = JStr s \<longrightarrow> (\<exists>u. parse_uuid lib s = Some u))"
  by (cases v) (auto simp: uuid_errors_def)

lemmas rule_errors_Nil = length_errors_Nil range_errors_Nil enum_errors_Nil format_errors_Nil
  uuid_errors_Nil

lemma scalar_ok_iff: "scalar_ok lib t mn mx values fmt v \<longleftrightarrow>
    length_errors p t mn mx v = [] \<and> range_errors lib p t mn mx v = []
    \<and> enum_errors p t values v = [] \<and> uuid_errors lib p t v = [] \<and> format_errors p fmt v = []"
  unfolding scalar_ok_def rule_errors_Nil by (cases v) (simp_all, blast?)

lemma check_item_rules_Nil: "check_item_rules lib n i it v = [] \<longleftrightarrow>
    scalar_ok lib (it_type it) (it_min it) (it_max it) (it_values it) (it_format it) v"
  unfolding check_item_rules_def Let_def append_is_Nil_conv scalar_ok_iff
    [of lib _ _ _ _ _ v "n @ ''['' @ show_nat i @ '']''"] by blast

lemma array_errors_Nil: "array_errors lib n f v = [] \<longleftrightarrow>
    (\<forall>it. fs_type f = FtArray \<and> fs_items f = Some it \<longrightarrow>
       (\<exists>es. v = JArr es \<and> (\<forall>e \<in> set es. 
           scalar_ok lib (it_type it) (it_min it) (it_max it) (it_values it) (it_format it) e)))"
proof -
  have e: "(\<forall>x \<in> set (List.enumerate k es). (case x of (i, e) \<Rightarrow> check_item_rules lib n i it e) = [])
      \<longleftrightarrow> (\<forall>e \<in> set es. scalar_ok lib (it_type it) (it_min it) (it_max it) (it_values it) (it_format it) e)"
    for k es it
    by (induction es arbitrary: k) (simp_all add: check_item_rules_Nil)
  show ?thesis
    by (cases v) (auto simp: array_errors_def e split: option.splits)
qed

lemma check_field_rules_Nil: "check_field_rules lib n f v = [] \<longleftrightarrow> value_ok lib f v"
  unfolding check_field_rules_def value_ok_def append_is_Nil_conv array_errors_Nil
    scalar_ok_iff [of lib "fs_type f" "fs_min f" "fs_max f" "fs_values f" "fs_format f" v n]
  by satx

lemma finalize_ok [simp]: "finalize es = Inr u \<longleftrightarrow> es = []"
  by (simp add: finalize_def)

lemma schema_concat_Nil:
  assumes "wf_resource rd"
  shows "concat (map F (rd_schema rd)) = [] \<longleftrightarrow>
    (\<forall>n f. map_of (rd_schema rd) n = Some f \<longrightarrow> F (n, f) = [])"
proof -
  have "concat (map F (rd_schema rd)) = [] \<longleftrightarrow> (\<forall>n f. (n, f) \<in> set (rd_schema rd) \<longrightarrow> F (n, f) = [])"
    by auto
  then show ?thesis using assms by (simp add: wf_map_in_set wf_resource_def)
qed

lemma shape_ok_iff:
  assumes "wf_resource rd"
  shows "validate_input_shape lib d rd = Inr () \<longleftrightarrow>
    (\<forall>n f v. map_of (rd_schema rd) n = Some f \<and> checked f \<and> present d n = Some v \<longrightarrow>
       value_ok lib f v)"
  unfolding validate_input_shape_def finalize_ok schema_concat_Nil [OF assms]
  by (auto simp: shape_errors_def check_field_rules_Nil split: option.splits)

lemma required_errors_Nil: "required_errors lib d keys (n, f) = [] \<longleftrightarrow>
    (checked f \<longrightarrow> (case present d n of Some v \<Rightarrow> n \<notin> keys \<longrightarrow> value_ok lib f v
        | None \<Rightarrow> fs_required f \<longrightarrow> fs_default f \<noteq> None))"
  by (cases "present d n") (auto simp: required_errors_def check_field_rules_Nil)

lemma present_cong: "map_of d n = map_of d' n \<Longrightarrow> present d n = present d' n"
  by (simp add: present_def)

lemma required_present_ok_iff:
  assumes "wf_resource rd"
  shows "validate_required_present lib d rd keys = Inr () \<longleftrightarrow>
    (\<forall>n f. map_of (rd_schema rd) n = Some f \<and> checked f \<longrightarrow>
       (case present d n of Some v \<Rightarrow> n \<notin> keys \<longrightarrow> value_ok lib f v
        | None \<Rightarrow> fs_required f \<longrightarrow> fs_default f \<noteq> None))"
  unfolding validate_required_present_def finalize_ok schema_concat_Nil [OF assms]
    required_errors_Nil by blast

lemma present_in_keys: "present d n = Some v \<Longrightarrow> n \<in> fst ` set d"
  by (force simp: present_def split: option.splits if_splits dest: map_of_SomeD)

lemma full_validation_iff:
  assumes "wf_resource rd"
  shows "validate_input lib d rd = Inr () \<longleftrightarrow>
    (\<forall>n f. map_of (rd_schema rd) n = Some f \<and> checked f \<longrightarrow>
       (case present d n of Some v \<Rightarrow> value_ok lib f v
        | None \<Rightarrow> fs_required f \<longrightarrow> fs_default f \<noteq> None))"
proof -
  have "validate_input lib d rd = Inr () \<longleftrightarrow> validate_input_shape lib d rd = Inr ()
      \<and> validate_required_present lib d rd (fst ` set d) = Inr ()"
    by (auto simp: validate_input_def result_simps)
  also have "\<dots> \<longleftrightarrow> (\<forall>n f. map_of (rd_schema rd) n = Some f \<and> checked f \<longrightarrow>
       (case present d n of Some v \<Rightarrow> value_ok lib f v
        | None \<Rightarrow> fs_required f \<longrightarrow> fs_default f \<noteq> None))"
    unfolding shape_ok_iff [OF assms] required_present_ok_iff [OF assms]
    by (fastforce dest: present_in_keys split: option.splits)
  finally show ?thesis .
qed


definition toy_lib :: value_lib where
  "toy_lib = \<lparr>parse_uuid = parse_digits, show_uuid = show_nat,
     show_f64 = (\<lambda>r. show_int \<lfloor>r\<rfloor>), hash_order = (\<lambda>xs. xs)\<rparr>"

definition sample_users :: resource_definition where
  "sample_users = \<lparr>rd_resource = ''users'', rd_version = 1, rd_db = None, rd_tenant_key = None,
     rd_schema = [(''id'', (plain_field FtUuid)\<lparr>fs_primary := True, fs_generated := True\<rparr>),
       (''name'', (plain_field FtString)\<lparr>fs_required := True, fs_min := Some (JNum (PosInt 2))\<rparr>),
       (''org_ids'', (plain_field FtArray)\<lparr>fs_items := Some ((items_of FtUuid)
            \<lparr>it_reference := Some ''orgs.id''\<rparr>)\<rparr>),
       (''password'', (plain_field FtString)\<lparr>fs_transient := True\<rparr>)],
     rd_endpoints = None, rd_relations = None, rd_indexes = None\<rparr>"

lemma wf_sample_users: "wf_resource sample_users"
  by (simp add: sample_users_def wf_resource_def wf_map_def)


text \<open>The two-phase protocol is as strong as the single validation of the final body: when a
  controller leaves the keys of the request unchanged and only adds keys, a body that passed the
  shape check before the controller and the required check after it is a valid body.\<close>

lemma two_phase_validation_sound:
  assumes "wf_resource rd"
    and "validate_input_shape lib d rd = Inr ()"
    and "validate_required_present lib d' rd (fst ` set d) = Inr ()"
    and "\<forall>k \<in> fst ` set d. map_of d' k = map_of d k"
  shows "validate_input lib d' rd = Inr ()"
proof -
  have "value_ok lib f v"
    if "map_of (rd_schema rd) n = Some f" "checked f" "present d' n = Some v" for n f v
  proof (cases "n \<in> fst ` set d")
    case True
    with assms(4) have "present d n = present d' n"
      by (metis present_cong)
    with that(3) have "present d n = Some v"
      by simp
    with that assms(2) show ?thesis by (simp add: shape_ok_iff [OF assms(1)])
  next
    case False
    with that assms(3) show ?thesis
      by (fastforce simp: required_present_ok_iff [OF assms(1)])
  qed
  moreover have "fs_required f \<longrightarrow> fs_default f \<noteq> None"
    if "map_of (rd_schema rd) n = Some f" "checked f" "present d' n = None" for n f
    using assms(3) that unfolding required_present_ok_iff [OF assms(1)] by fastforce
  ultimately show ?thesis
    unfolding full_validation_iff [OF assms(1)] by (auto split: option.split)
qed

text \<open>A controller that overwrites a key of the request is not checked again.\<close>

lemma overwritten_key_unchecked:
  "validate_input_shape toy_lib [(''name'', JStr ''Ann'')] sample_users = Inr ()
   \<and> validate_required_present toy_lib [(''name'', JStr ''A'')] sample_users
       (fst ` set [(''name'', JStr ''Ann'')]) = Inr ()
   \<and> validate_input toy_lib [(''name'', JStr ''A'')] sample_users \<noteq> Inr ()"
  by code_simp

section \<open>Transient fields\<close>

lemma strip_fold: "map_of (fold (\<lambda>(name, f) m. if fs_transient f then AList.delete name m else m) sch d) k
    = (if \<exists>f. (k, f) \<in> set sch \<and> fs_transient f then None else map_of d k)"
  by (induction sch arbitrary: d) (auto split: if_splits)

text \<open>After stripping, no transient field of the schema is in the body and every other entry
  keeps its value: the statements built from the body never name a field without a column.\<close>

lemma strip_transient_fields_exact:
  assumes "wf_resource rd"
  shows "map_of (strip_transient_fields d rd) k =
    (case map_of (rd_schema rd) k of
       Some f \<Rightarrow> if fs_transient f then None else map_of d k
     | None \<Rightarrow> map_of d k)"
proof -
  have "(k, f) \<in> set (rd_schema rd) \<longleftrightarrow> map_of (rd_schema rd) k = Some f" for f
    using assms by (simp add: wf_map_in_set wf_resource_def)
  then show ?thesis
    unfolding strip_transient_fields_def strip_fold by (simp split: option.splits)
qed

section \<open>Foreign-key arrays are checked\<close>

text \<open>The documented behaviour of the parameters: iterating a hash set of distinct values visits
  each once.\<close>

definition fair_hash_order :: "value_lib \<Rightarrow> bool" where
  "fair_hash_order lib \<longleftrightarrow> (\<forall>xs. distinct xs \<longrightarrow> distinct (hash_order lib xs)
     \<and> set (hash_order lib xs) = set xs)"

lemma count_lt_iff: "length (remdups (filter (\<lambda>u. u \<in> set ids) vals)) < card (set ids) \<longleftrightarrow>
    \<not> set ids \<subseteq> set vals"
proof -
  have "length (remdups (filter (\<lambda>u. u \<in> set ids) vals)) = card (set ids \<inter> set vals)"
    unfolding length_remdups_card_conv by (rule arg_cong [of _ _ card]) auto
  also have "\<dots> < card (set ids) \<longleftrightarrow> set ids \<inter> set vals \<noteq> set ids"
    by (metis List.finite_set inf.cobounded1 less_irrefl psubsetI psubset_card_mono)
  finally show ?thesis by blast
qed

lemma item_reference_errors_iff:
  assumes "fair_hash_order lib"
  shows "item_reference_errors lib db d (n, f) = Inr [] \<longleftrightarrow>
    (\<forall>reference table column ids. item_reference_target lib d n f = Some (reference, table, column, ids)
       \<longrightarrow> (\<exists>vals. db table column = Inr vals \<and> set ids \<subseteq> set vals))"
proof (cases "item_reference_target lib d n f")
  case None
  then show ?thesis by (simp add: item_reference_errors_def)
next
  case (Some t)
  obtain reference table column ids where t: "t = (reference, table, column, ids)"
    by (cases t) auto
  have l: "length (hash_order lib (remdups ids)) = card (set ids)"
    using assms by (metis distinct_card distinct_remdups fair_hash_order_def set_remdups)
  show ?thesis
    unfolding item_reference_errors_def prod.case Some t option.case
    using l count_lt_iff [of ids]
    by (cases "db table column")
      (auto simp: Let_def count_distinct_def run_ref_query_def split: if_splits)
qed

text \<open>The reference check accepts a body exactly when every id of every non-empty foreign-key
  array is stored in the referenced column (and the queries succeed): no dangling id is written.\<close>

lemma validate_item_references_iff:
  assumes "wf_resource rd" and "fair_hash_order lib"
  shows "validate_item_references lib db d rd = Inr () \<longleftrightarrow>
    (\<forall>n f reference table column ids. map_of (rd_schema rd) n = Some f
       \<and> item_reference_target lib d n f = Some (reference, table, column, ids) \<longrightarrow>
       (\<exists>vals. db table column = Inr vals \<and> set ids \<subseteq> set vals))"
proof -
  have "and_then (collect_reference_errors lib db d sch) finalize = Inr () \<longleftrightarrow>
      (\<forall>(n, f) \<in> set sch. item_reference_errors lib db d (n, f) = Inr [])" for sch
    by (induction sch) (auto simp: result_simps split: prod.splits)
  then have "validate_item_references lib db d rd = Inr () \<longleftrightarrow>
      (\<forall>n f. map_of (rd_schema rd) n = Some f \<longrightarrow> item_reference_errors lib db d (n, f) = Inr [])"
    using assms(1) by (auto simp: validate_item_references_def wf_resource_def wf_map_in_set)
  then show ?thesis
    unfolding item_reference_errors_iff [OF assms(2)] by metis
qed

end
