(* ===== verification/Query_Params.thy ===== *)
theory Query_Params
  imports Core_Types
begin

text \<open>
  Query parameters of the list and item endpoints: \<open>handlers/params.rs\<close> with the parameter types
  of \<open>db/filter.rs\<close>, \<open>db/sort.rs\<close>, \<open>db/search.rs\<close> and \<open>db/pagination.rs\<close>. The request is its
  raw query string. A \<open>HashMap\<close> is an association list; the code iterates it in an unspecified
  order, the model in list order, and the facts below do not depend on it.
\<close>

section \<open>URL decoding\<close>

text \<open>\<open>str::chars\<close>: the number of bytes of the character a lead byte opens.\<close>

definition char_width :: "char \<Rightarrow> nat" where
  "char_width c = (let b = (of_char c :: nat) in
     if b < 128 then 1 else if b < 224 then 2 else if b < 240 then 3 else 4)"

function chars :: "string \<Rightarrow> string list" where
  "chars [] = []"
| "chars (c # s) = take (char_width c) (c # s) # chars (drop (char_width c) (c # s))"
  by pat_completeness auto
termination
  by (relation "measure length") (auto simp: char_width_def Let_def)

declare chars.simps(2) [simp del]

text \<open>\<open>byte as char\<close> is the code point of the byte's value, in UTF-8.\<close>

definition push_byte :: "nat \<Rightarrow> string" where
  "push_byte b = (if b < 128 then [char_of b] else [char_of (192 + b div 64), char_of (128 + b mod 64)])"

definition hex_val :: "char \<Rightarrow> nat option" where
  "hex_val c = (let b = (of_char c :: nat) in
     if 48 \<le> b \<and> b \<le> 57 then Some (b - 48)
     else if 65 \<le> b \<and> b \<le> 70 then Some (b - 55)
     else if 97 \<le> b \<and> b \<le> 102 then Some (b - 87)
     else None)"

fun hex_digits :: "nat \<Rightarrow> string \<Rightarrow> nat option" where
  "hex_digits n [] = Some n"
| "hex_digits n (c # s) = Option.bind (hex_val c) (\<lambda>d. hex_digits (16 * n + d) s)"

text \<open>\<open>u8::from_str_radix(s, 16)\<close>: an optional plus sign, then at least one digit.\<close>

definition u8_from_hex :: "string \<Rightarrow> nat option" where
  "u8_from_hex s =
     (let r = (case s of c # t \<Rightarrow> if c = CHR ''+'' \<and> t \<noteq> [] then t else s | [] \<Rightarrow> s) in
      if r = [] then None
      else Option.bind (hex_digits 0 r) (\<lambda>n. if n < 256 then Some n else None))"

function urldecode_chars :: "string list \<Rightarrow> string" where
  "urldecode_chars [] = []"
| "urldecode_chars (c # cs) =
     (if c = ''%'' then
        (let hex = concat (take 2 cs) in
         (case u8_from_hex hex of Some b \<Rightarrow> push_byte b | None \<Rightarrow> ''%'' @ hex)
           @ urldecode_chars (drop 2 cs))
      else c @ urldecode_chars cs)"
  by pat_completeness auto
termination
  by (relation "measure length") auto

definition urldecode :: "string \<Rightarrow> string" where
  "urldecode s = urldecode_chars (chars (map (\<lambda>c. if c = CHR ''+'' then CHR '' '' else c) s))"

section \<open>Parameter maps\<close>

type_synonym params = "(string \<times> string) list"

definition query_pair :: "string \<Rightarrow> params \<Rightarrow> params" where
  "query_pair pair m =
     (if pair = [] then m
      else (case split_once CHR ''='' pair of
        None \<Rightarrow> m
      | Some (key, value) \<Rightarrow> AList.update (urldecode key) (urldecode value) m))"

definition query_map :: "string \<Rightarrow> params" where
  "query_map query_string = fold query_pair (split_on CHR ''&'' query_string) []"

definition parse_csv_param :: "params \<Rightarrow> string \<Rightarrow> string list" where
  "parse_csv_param ps key =
     (case map_of ps key of
        None \<Rightarrow> []
      | Some v \<Rightarrow> filter (\<lambda>s. s \<noteq> []) (map trim (split_on CHR '','' v)))"

section \<open>Filters\<close>

record filter_param =
  fp_field :: string
  fp_value :: string

text \<open>\<open>key.strip_prefix("filter[")\<close>, then \<open>strip_suffix(']')\<close>.\<close>

definition bracket_field :: "string \<Rightarrow> string option" where
  "bracket_field key = Option.bind (strip_prefix ''filter['' key) (strip_suffix '']'')"

definition filters_from_query_params :: "params \<Rightarrow> string list \<Rightarrow> filter_param list" where
  "filters_from_query_params ps allowed =
     List.map_filter (\<lambda>(key, value). Option.bind (bracket_field key) (\<lambda>field.
       if field \<in> set allowed then Some \<lparr>fp_field = field, fp_value = value\<rparr> else None)) ps"

definition add_filter :: "filter_param list \<Rightarrow> string \<Rightarrow> string \<Rightarrow> filter_param list" where
  "add_filter fs field value = fs @ [\<lparr>fp_field = field, fp_value = value\<rparr>]"

definition filter_param_errors :: "string list \<Rightarrow> string \<Rightarrow> field_error list" where
  "filter_param_errors allowed key =
     (if key \<in> set allowed then
        [\<lparr>fe_field = key, fe_message = ''filter params use bracket notation; did you mean ''
            @ backtick (''?filter['' @ key @ '']=...'') @ ''?'',
          fe_code = ''INVALID_FILTER_FORM''\<rparr>]
      else (case bracket_field key of
        None \<Rightarrow> []
      | Some field \<Rightarrow>
          if field \<in> set allowed then []
          else [\<lparr>fe_field = ''filter['' @ field @ '']'',
                 fe_message = (if allowed = [] then
                     ''this endpoint declares no filters; '' @ squote field @ '' is not accepted''
                   else squote field @ '' is not a declared filter on this endpoint; available filters: ''
                     @ join '', '' allowed),
                 fe_code = ''UNDECLARED_FILTER''\<rparr>]))"

definition list_or_empty :: "'a list option \<Rightarrow> 'a list" where
  "list_or_empty x = (case x of None \<Rightarrow> [] | Some xs \<Rightarrow> xs)"

definition validate_filter_param_form :: "string \<Rightarrow> endpoint_spec \<Rightarrow> unit res" where
  "validate_filter_param_form query_string endpoint =
     (let bad = concat (map (\<lambda>(key, v). filter_param_errors (list_or_empty (ep_filters endpoint)) key)
        (query_map query_string))
      in if bad = [] then Inr () else Inl (Validation bad))"

section \<open>Sorting, searching and pages\<close>

datatype sort_direction = Asc | Desc

fun sort_direction_display :: "sort_direction \<Rightarrow> string" where
  "sort_direction_display Asc = ''ASC''"
| "sort_direction_display Desc = ''DESC''"

record sort_field =
  sf_field :: string
  sf_direction :: sort_direction

definition parse_sort_part :: "string list \<Rightarrow> string \<Rightarrow> sort_field option" where
  "parse_sort_part allowed raw =
     (let part = trim raw in
      if part = [] then None
      else (let (direction, name) = (case strip_prefix ''-'' part of
                Some n \<Rightarrow> (Desc, n) | None \<Rightarrow> (Asc, part))
            in if name \<in> set allowed then Some \<lparr>sf_field = name, sf_direction = direction\<rparr> else None))"

definition parse_sort :: "string \<Rightarrow> string list \<Rightarrow> sort_field list" where
  "parse_sort raw allowed = List.map_filter (parse_sort_part allowed) (split_on CHR '','' raw)"

record search_param =
  se_term :: string
  se_fields :: "string list"

definition new_search :: "string \<Rightarrow> string list \<Rightarrow> search_param option" where
  "new_search term flds =
     (let t = trim term in
      if t = [] \<or> flds = [] then None else Some \<lparr>se_term = t, se_fields = flds\<rparr>)"

datatype page_request = Cursor "string option" int | Offset int int

definition default_limit :: int where
  "default_limit = 25"

definition max_limit :: int where
  "max_limit = 100"

definition clamped_limit :: "int option \<Rightarrow> int" where
  "clamped_limit limit =
     (let l = (case limit of None \<Rightarrow> default_limit | Some n \<Rightarrow> n) in min (max l 1) max_limit)"

record list_params =
  lp_filters :: "filter_param list"
  lp_search :: "search_param option"
  lp_sort :: "sort_field list"
  lp_page :: page_request
  lp_fields :: "string list"
  lp_include :: "string list"

definition parse_page :: "params \<Rightarrow> endpoint_spec \<Rightarrow> page_request" where
  "parse_page ps endpoint =
     (let limit = clamped_limit (Option.bind (map_of ps ''limit'') parse_i64) in
      case ep_pagination endpoint of
        Some OffsetStyle \<Rightarrow>
          Offset (max (case Option.bind (map_of ps ''offset'') parse_i64 of None \<Rightarrow> 0 | Some n \<Rightarrow> n) 0) limit
      | _ \<Rightarrow> Cursor (map_of ps ''after'') limit)"

definition parse_list_params :: "string \<Rightarrow> endpoint_spec \<Rightarrow> list_params" where
  "parse_list_params query_string endpoint =
     (let ps = query_map query_string in
      \<lparr>lp_filters = filters_from_query_params ps (list_or_empty (ep_filters endpoint)),
       lp_search = Option.bind (map_of ps ''search'')
         (\<lambda>term. new_search term (list_or_empty (ep_search endpoint))),
       lp_sort = (case map_of ps ''sort'' of None \<Rightarrow> []
         | Some raw \<Rightarrow> parse_sort raw (list_or_empty (ep_sort endpoint))),
       lp_page = parse_page ps endpoint,
       lp_fields = parse_csv_param ps ''fields'',
       lp_include = parse_csv_param ps ''include''\<rparr>)"

record item_params =
  ip_fields :: "string list"
  ip_include :: "string list"

definition parse_item_params :: "string \<Rightarrow> item_params" where
  "parse_item_params query_string =
     (let ps = query_map query_string in
      \<lparr>ip_fields = parse_csv_param ps ''fields'', ip_include = parse_csv_param ps ''include''\<rparr>)"

section \<open>Decoding is the inverse of percent encoding\<close>

definition hex_digit :: "nat \<Rightarrow> char" where
  "hex_digit n = (if n < 10 then char_of (48 + n) else char_of (55 + n))"

text \<open>The reference encoder: every byte as a percent sign and two hexadecimal digits.\<close>

definition percent_encode :: "string \<Rightarrow> string" where
  "percent_encode s = concat (map (\<lambda>c. let b = (of_char c :: nat) in
     [CHR ''%'', hex_digit (b div 16), hex_digit (b mod 16)]) s)"

lemma hex_val_digit [simp]: "n < 16 \<Longrightarrow> hex_val (hex_digit n) = Some n"
  by (auto simp: hex_val_def hex_digit_def)

lemma hex_digit_ascii: "n < 16 \<Longrightarrow> (of_char (hex_digit n) :: nat) < 128"
  by (auto simp: hex_digit_def)

lemma hex_digit_not_plus: "n < 16 \<Longrightarrow> hex_digit n \<noteq> CHR ''+''"
proof
  assume n: "n < 16" and "hex_digit n = CHR ''+''"
  then have "(of_char (hex_digit n) :: nat) = of_char CHR ''+''" by simp
  with n show False by (auto simp: hex_digit_def split: if_splits)
qed

lemma chars_ascii: "(\<forall>c \<in> set s. (of_char c :: nat) < 128) \<Longrightarrow> chars s = map (\<lambda>c. [c]) s"
  by (induction s) (auto simp: chars.simps(2) char_width_def)

lemma u8_from_hex_byte: "b < 256 \<Longrightarrow> u8_from_hex [hex_digit (b div 16), hex_digit (b mod 16)] = Some b"
  by (simp add: u8_from_hex_def hex_digit_not_plus)

lemma of_char_less_256: "(of_char c :: nat) < 256"
  by (rule nat_of_char_less_256)

lemma percent_encode_chars:
  "c \<in> set (percent_encode s) \<Longrightarrow> (of_char c :: nat) < 128 \<and> c \<noteq> CHR ''+''"
proof -
  assume "c \<in> set (percent_encode s)"
  then obtain d :: char where "c = CHR ''%'' \<or> c = hex_digit (of_char d div 16) \<or> c = hex_digit (of_char d mod 16)"
    by (auto simp: percent_encode_def Let_def split: if_splits)
  moreover have "of_char d div 16 < (16 :: nat)"
    using of_char_less_256 [of d] by (intro less_mult_imp_div_less) simp
  ultimately show ?thesis
    by (auto simp: hex_digit_ascii hex_digit_not_plus)
qed

lemma urldecode_percent_aux:
  "(\<forall>c \<in> set s. (of_char c :: nat) < 128) \<Longrightarrow>
   urldecode_chars (map (\<lambda>c. [c]) (percent_encode s)) = s"
proof (induction s)
  case (Cons c s)
  then show ?case
    by (simp add: percent_encode_def Let_def u8_from_hex_byte of_char_less_256 push_byte_def)
qed (simp add: percent_encode_def)

text \<open>Decoding a query component undoes percent encoding on ASCII text: whatever reserved
  characters a key or a value holds, the client's encoding of it is read back exactly.\<close>

lemma urldecode_percent_encode:
  assumes "\<forall>c \<in> set s. (of_char c :: nat) < 128"
  shows "urldecode (percent_encode s) = s"
proof -
  have "map (\<lambda>c. if c = CHR ''+'' then CHR '' '' else c) (percent_encode s) = percent_encode s"
    using percent_encode_chars by (auto intro!: map_idI)
  moreover have "chars (percent_encode s) = map (\<lambda>c. [c]) (percent_encode s)"
    using percent_encode_chars by (blast intro: chars_ascii)
  ultimately show ?thesis
    using assms by (simp add: urldecode_def urldecode_percent_aux)
qed

text \<open>A two-byte character encoded byte by byte is read as two characters.\<close>

lemma urldecode_not_utf8: "urldecode ''%C3%A9'' = [CHR 0xC3, CHR 0x83, CHR 0xC2, CHR 0xA9]"
  by code_simp

section \<open>Only declared names reach the query\<close>

lemma clamped_limit_range: "1 \<le> clamped_limit l \<and> clamped_limit l \<le> 100"
  by (auto simp: clamped_limit_def Let_def max_limit_def)

lemma clamped_limit_id: "1 \<le> n \<Longrightarrow> n \<le> 100 \<Longrightarrow> clamped_limit (Some n) = n"
  by (simp add: clamped_limit_def max_limit_def)

lemma filters_from_query_params_iff:
  "p \<in> set (filters_from_query_params ps allowed) \<longleftrightarrow>
     fp_field p \<in> set allowed \<and> (''filter['' @ fp_field p @ '']'', fp_value p) \<in> set ps"
proof -
  have "p \<in> set (filters_from_query_params ps allowed) \<longleftrightarrow>
      (\<exists>key value field. (key, value) \<in> set ps \<and> bracket_field key = Some field \<and> field \<in> set allowed
        \<and> p = \<lparr>fp_field = field, fp_value = value\<rparr>)"
    by (auto simp: filters_from_query_params_def map_filter_iff bind_eq_Some_conv split: if_splits) force+
  also have "\<dots> \<longleftrightarrow> fp_field p \<in> set allowed \<and> (''filter['' @ fp_field p @ '']'', fp_value p) \<in> set ps"
    by (cases p) (auto simp: bracket_field_def bind_eq_Some_conv string_simps)
  finally show ?thesis .
qed

lemma parse_sort_part_allowed:
  assumes "parse_sort_part allowed raw = Some sf" shows "sf_field sf \<in> set allowed"
proof (cases "strip_prefix ''-'' (trim raw)")
  case None
  with assms show ?thesis by (simp add: parse_sort_part_def Let_def split: if_splits) auto
next
  case (Some n)
  with assms show ?thesis by (simp add: parse_sort_part_def Let_def split: if_splits) auto
qed

lemma parse_sort_allowed: "sf \<in> set (parse_sort raw allowed) \<Longrightarrow> sf_field sf \<in> set allowed"
  unfolding parse_sort_def map_filter_iff by (blast dest: parse_sort_part_allowed)

lemma parse_page_bounds:
  "case parse_page ps ep of Cursor a l \<Rightarrow> 1 \<le> l \<and> l \<le> 100 | Offset off l \<Rightarrow> 0 \<le> off \<and> 1 \<le> l \<and> l \<le> 100"
  using clamped_limit_range
  by (auto simp: parse_page_def Let_def split: option.splits pagination_style.splits)

text \<open>Whatever the query string is, the parsed parameters of a list endpoint name only
  declared columns: filters are declared filters, sort fields are declared sort fields, the search
  fields are the declared ones with a non-empty term, the page holds between 1 and 100 rows and the
  offset is not negative.\<close>

lemma list_params_allow_listed:
  fixes query_string endpoint
  defines "p \<equiv> parse_list_params query_string endpoint"
  shows "fp_field ` set (lp_filters p) \<subseteq> set (list_or_empty (ep_filters endpoint))
    \<and> sf_field ` set (lp_sort p) \<subseteq> set (list_or_empty (ep_sort endpoint))
    \<and> (case lp_search p of None \<Rightarrow> True
       | Some s \<Rightarrow> ep_search endpoint = Some (se_fields s) \<and> se_fields s \<noteq> [] \<and> se_term s \<noteq> [])
    \<and> (case lp_page p of Cursor a l \<Rightarrow> 1 \<le> l \<and> l \<le> 100
       | Offset off l \<Rightarrow> 0 \<le> off \<and> 1 \<le> l \<and> l \<le> 100)"
proof (intro conjI)
  show "fp_field ` set (lp_filters p) \<subseteq> set (list_or_empty (ep_filters endpoint))"
    by (auto simp: p_def parse_list_params_def Let_def filters_from_query_params_iff)
  show "sf_field ` set (lp_sort p) \<subseteq> set (list_or_empty (ep_sort endpoint))"
    by (auto simp: p_def parse_list_params_def Let_def dest: parse_sort_allowed split: option.splits)
  show "case lp_search p of None \<Rightarrow> True
       | Some s \<Rightarrow> ep_search endpoint = Some (se_fields s) \<and> se_fields s \<noteq> [] \<and> se_term s \<noteq> []"
    by (auto simp: p_def parse_list_params_def Let_def new_search_def list_or_empty_def
        bind_eq_Some_conv split: option.splits if_splits)
  show "case lp_page p of Cursor a l \<Rightarrow> 1 \<le> l \<and> l \<le> 100
       | Offset off l \<Rightarrow> 0 \<le> off \<and> 1 \<le> l \<and> l \<le> 100"
    using parse_page_bounds [of "query_map query_string" endpoint]
    by (simp add: p_def parse_list_params_def Let_def)
qed

section \<open>No filter is dropped silently\<close>

lemma filter_param_errors_Nil: "filter_param_errors allowed key = [] \<longleftrightarrow>
    key \<notin> set allowed \<and> (\<forall>f. key = ''filter['' @ f @ '']'' \<longrightarrow> f \<in> set allowed)"
proof -
  have b: "key = ''filter['' @ f @ '']'' \<longleftrightarrow> bracket_field key = Some f" for f
    by (auto simp: bracket_field_def bind_eq_Some_conv string_simps)
  show ?thesis
    unfolding b by (cases "bracket_field key") (auto simp: filter_param_errors_def)
qed

text \<open>A list request that passes the filter-form check has every one of its
  \<open>filter[field]=value\<close> parameters applied, with its value, and no bare parameter shadows a
  declared filter: results are never unfiltered by a misspelled or undeclared filter.\<close>

lemma checked_filters_all_applied:
  assumes "validate_filter_param_form query_string endpoint = Inr ()"
  shows "set (lp_filters (parse_list_params query_string endpoint)) =
      {\<lparr>fp_field = f, fp_value = v\<rparr> | f v. (''filter['' @ f @ '']'', v) \<in> set (query_map query_string)}
    \<and> (\<forall>key \<in> fst ` set (query_map query_string). key \<notin> set (list_or_empty (ep_filters endpoint)))"
proof -
  let ?a = "list_or_empty (ep_filters endpoint)"
  have e: "filter_param_errors ?a key = []" if "(key, v) \<in> set (query_map query_string)" for key v
    using assms that unfolding validate_filter_param_form_def Let_def
    by (auto split: if_splits)
  have f: "f \<in> set ?a" if "(''filter['' @ f @ '']'', v) \<in> set (query_map query_string)" for f v
    using e [OF that] unfolding filter_param_errors_Nil by blast
  have "p \<in> set (filters_from_query_params (query_map query_string) ?a) \<longleftrightarrow>
      (''filter['' @ fp_field p @ '']'', fp_value p) \<in> set (query_map query_string)" for p
    unfolding filters_from_query_params_iff using f by blast
  then have "set (filters_from_query_params (query_map query_string) ?a) =
      {p. (''filter['' @ fp_field p @ '']'', fp_value p) \<in> set (query_map query_string)}"
    by blast
  also have "\<dots> = {\<lparr>fp_field = f, fp_value = v\<rparr> | f v.
      (''filter['' @ f @ '']'', v) \<in> set (query_map query_string)}"
    by (auto simp del: append_Cons) (metis filter_param.surjective old.unit.exhaust)
  finally show ?thesis
    using e unfolding filter_param_errors_Nil
    by (auto simp: parse_list_params_def Let_def simp del: append_Cons)
qed

definition sample_list_endpoint :: endpoint_spec where
  "sample_list_endpoint = default_endpoint\<lparr>ep_filters := Some [''role'']\<rparr>"

end
