(* ===== verification/Base64_Cursor.thy ===== *)
theory Base64_Cursor
  imports Core_Types
begin

text \<open>
  Opaque pagination cursors, \<open>shaperail-runtime/src/db/pagination.rs\<close>: the hand-written base64
  codec over \<open>u32\<close> triples and the cursor of a row id. Machine words are \<open>32 word\<close> and \<open>8 word\<close>;
  a byte of a string is its character.
\<close>

unbundle bit_operations_syntax

type_synonym u32 = "32 word"

section \<open>Bytes and the alphabet\<close>

definition byte_u32 :: "char \<Rightarrow> u32" where
  "byte_u32 c = word_of_nat (of_char c)"

definition u32_byte :: "u32 \<Rightarrow> char" where
  "u32_byte w = char_of (unat (ucast w :: 8 word))"

definition b64_chars :: string where
  "b64_chars = ''ABCDEFGHIJKLMNOPQRSTUVWXYZabcdefghijklmnopqrstuvwxyz0123456789+/''"

definition char_to_val :: "char \<Rightarrow> u32 option" where
  "char_to_val c =
     (let b = (of_char c :: nat) in
      if 65 \<le> b \<and> b \<le> 90 then Some (word_of_nat (b - 65))
      else if 97 \<le> b \<and> b \<le> 122 then Some (word_of_nat (b - 97 + 26))
      else if 48 \<le> b \<and> b \<le> 57 then Some (word_of_nat (b - 48 + 52))
      else if c = CHR ''+'' then Some 62
      else if c = CHR ''/'' then Some 63
      else if c = CHR ''='' then Some 0
      else None)"

section \<open>The codec\<close>

definition triple_of :: "char \<Rightarrow> char \<Rightarrow> char \<Rightarrow> u32" where
  "triple_of b0 b1 b2 = push_bit 16 (byte_u32 b0) OR push_bit 8 (byte_u32 b1) OR byte_u32 b2"

definition sextet :: "nat \<Rightarrow> u32 \<Rightarrow> u32" where
  "sextet k t = drop_bit k t AND 63"

definition b64_char :: "u32 \<Rightarrow> char" where
  "b64_char w = b64_chars ! unat w"

fun base64_encode :: "string \<Rightarrow> string" where
  "base64_encode [] = []"
| "base64_encode [b0] =
     (let t = triple_of b0 (CHR 0x00) (CHR 0x00) in
      [b64_char (sextet 18 t), b64_char (sextet 12 t), CHR ''='', CHR ''=''])"
| "base64_encode [b0, b1] =
     (let t = triple_of b0 b1 (CHR 0x00) in
      [b64_char (sextet 18 t), b64_char (sextet 12 t), b64_char (sextet 6 t), CHR ''=''])"
| "base64_encode (b0 # b1 # b2 # rest) =
     (let t = triple_of b0 b1 b2 in
      [b64_char (sextet 18 t), b64_char (sextet 12 t), b64_char (sextet 6 t), b64_char (sextet 0 t)]
        @ base64_encode rest)"

definition quad_of :: "u32 \<Rightarrow> u32 \<Rightarrow> u32 \<Rightarrow> u32 \<Rightarrow> u32" where
  "quad_of a b c d = push_bit 18 a OR push_bit 12 b OR push_bit 6 c OR d"

definition decode_chunk :: "char \<Rightarrow> char \<Rightarrow> char \<Rightarrow> char \<Rightarrow> string option" where
  "decode_chunk c0 c1 c2 c3 =
     Option.bind (char_to_val c0) (\<lambda>a. Option.bind (char_to_val c1) (\<lambda>b.
     Option.bind (char_to_val c2) (\<lambda>c. Option.bind (char_to_val c3) (\<lambda>d.
       (let t = quad_of a b c d in
        Some (u32_byte (drop_bit 16 t)
          # (if c2 \<noteq> CHR ''='' then [u32_byte (drop_bit 8 t)] else [])
          @ (if c3 \<noteq> CHR ''='' then [u32_byte t] else [])))))))"

text \<open>The chunks of four; the guard on the length is \<open>base64_decode\<close>'s, so the last equation,
  a chunk of fewer than four bytes, is not reached from there.\<close>

fun decode_chunks :: "string \<Rightarrow> string option" where
  "decode_chunks [] = Some []"
| "decode_chunks (c0 # c1 # c2 # c3 # rest) =
     Option.bind (decode_chunk c0 c1 c2 c3) (\<lambda>bytes.
       map_option (\<lambda>more_bytes. bytes @ more_bytes) (decode_chunks rest))"
| "decode_chunks _ = None"

datatype base64_error = InvalidLength | InvalidCharacter

definition base64_decode :: "string \<Rightarrow> base64_error + string" where
  "base64_decode input =
     (if length input mod 4 \<noteq> 0 then Inl InvalidLength
      else ok_or InvalidCharacter (decode_chunks input))"

section \<open>UTF-8 validity, \<open>str::from_utf8\<close>\<close>

definition in_range :: "nat \<Rightarrow> nat \<Rightarrow> char \<Rightarrow> bool" where
  "in_range lo hi c \<longleftrightarrow> lo \<le> (of_char c :: nat) \<and> (of_char c :: nat) \<le> hi"

definition utf8_seq2 :: "char \<Rightarrow> char \<Rightarrow> bool" where
  "utf8_seq2 c d \<longleftrightarrow> in_range 0xC2 0xDF c \<and> in_range 0x80 0xBF d"

definition utf8_seq3 :: "char \<Rightarrow> char \<Rightarrow> char \<Rightarrow> bool" where
  "utf8_seq3 c d e \<longleftrightarrow> in_range 0x80 0xBF e
     \<and> (in_range 0xE0 0xE0 c \<and> in_range 0xA0 0xBF d
        \<or> in_range 0xE1 0xEC c \<and> in_range 0x80 0xBF d
        \<or> in_range 0xED 0xED c \<and> in_range 0x80 0x9F d
        \<or> in_range 0xEE 0xEF c \<and> in_range 0x80 0xBF d)"

definition utf8_seq4 :: "char \<Rightarrow> char \<Rightarrow> char \<Rightarrow> char \<Rightarrow> bool" where
  "utf8_seq4 c d e f \<longleftrightarrow> in_range 0x80 0xBF e \<and> in_range 0x80 0xBF f
     \<and> (in_range 0xF0 0xF0 c \<and> in_range 0x90 0xBF d
        \<or> in_range 0xF1 0xF3 c \<and> in_range 0x80 0xBF d
        \<or> in_range 0xF4 0xF4 c \<and> in_range 0x80 0x8F d)"

function valid_utf8 :: "string \<Rightarrow> bool" where
  "valid_utf8 s =
     (case s of
        [] \<Rightarrow> True
      | c # s1 \<Rightarrow>
          if in_range 0 0x7F c then valid_utf8 s1
          else (case s1 of
            [] \<Rightarrow> False
          | d # s2 \<Rightarrow>
              if utf8_seq2 c d then valid_utf8 s2
              else (case s2 of
                [] \<Rightarrow> False
              | e # s3 \<Rightarrow>
                  if utf8_seq3 c d e then valid_utf8 s3
                  else (case s3 of
                    [] \<Rightarrow> False
                  | f # s4 \<Rightarrow> utf8_seq4 c d e f \<and> valid_utf8 s4))))"
  by pat_completeness auto
termination
  by (relation "measure length") auto

declare valid_utf8.simps [simp del]

section \<open>Cursors\<close>

definition cursor_error :: "string \<Rightarrow> shaperail_error" where
  "cursor_error msg =
     Validation [\<lparr>fe_field = ''cursor'', fe_message = msg, fe_code = ''invalid_cursor''\<rparr>]"

definition decode_cursor :: "string \<Rightarrow> string res" where
  "decode_cursor cursor =
     (case base64_decode cursor of
        Inl e \<Rightarrow> Inl (cursor_error ''Invalid cursor format'')
      | Inr bytes \<Rightarrow>
          if valid_utf8 bytes then Inr bytes else Inl (cursor_error ''Invalid cursor encoding''))"

definition encode_cursor :: "string \<Rightarrow> string" where
  "encode_cursor i = base64_encode i"

section \<open>The round trip\<close>

lemma alphabet_inverse: "list_all (\<lambda>n. char_to_val (b64_chars ! n) = Some (word_of_nat n)
    \<and> b64_chars ! n \<noteq> CHR ''='') [0..<64]"
  by (simp add: b64_chars_def char_to_val_def upt_rec [of _ 64] list_all_iff)

lemma sextet_less: "unat (sextet k t) < 64"
proof -
  have "sextet k t < 64"
    unfolding sextet_def by (rule le_less_trans [OF word_and_le1]) simp
  then show ?thesis by (simp add: word_less_nat_alt)
qed

lemma char_to_val_b64_char [simp]: "char_to_val (b64_char (sextet k t)) = Some (sextet k t)"
  and b64_char_not_pad [simp]: "b64_char (sextet k t) \<noteq> CHR ''=''"
  using alphabet_inverse sextet_less [of k t]
  by (auto simp: list_all_iff b64_char_def)

lemma char_to_val_pad [simp]: "char_to_val CHR ''='' = Some 0"
  by (simp add: char_to_val_def)

definition byte_word :: "char \<Rightarrow> 8 word" where
  "byte_word c = word_of_nat (of_char c)"

lemma char_of_byte_word [simp]: "char_of (unat (byte_word c)) = c"
  by (simp add: byte_word_def unat_of_nat)

lemma byte_word_0 [simp]: "byte_word (CHR 0x00) = 0"
  by (simp add: byte_word_def)

lemma byte_u32_ucast: "byte_u32 c = ucast (byte_word c)"
  by (simp add: byte_u32_def byte_word_def unsigned_of_nat take_bit_nat_eq_self)

lemma sextet_take_bit: "sextet k t = take_bit 6 (drop_bit k t)"
  by (simp add: sextet_def take_bit_eq_mask mask_eq_exp_minus_1)

lemma byte_word_eqI: "(\<And>n. n < 8 \<Longrightarrow> bit w n \<longleftrightarrow> bit (byte_word c) n) \<Longrightarrow> w = byte_word c"
  by (rule bit_word_eqI) simp

lemma less_8_cases: "(n :: nat) < 8 \<Longrightarrow> n = 0 \<or> n = 1 \<or> n = 2 \<or> n = 3 \<or> n = 4 \<or> n = 5 \<or> n = 6 \<or> n = 7"
  by auto

lemma byte_word_high [simp]: "8 \<le> n \<Longrightarrow> \<not> bit (byte_word c) n"
  using bit_imp_le_length [of "byte_word c" n] by auto

lemma u32_byte_eqI:
  assumes "\<And>n. n < 8 \<Longrightarrow> bit w n \<longleftrightarrow> bit (byte_word c) n"
  shows "u32_byte w = c"
proof -
  have "(ucast w :: 8 word) = byte_word c"
    by (rule byte_word_eqI) (simp add: bit_simps assms)
  then show ?thesis by (simp add: u32_byte_def)
qed

lemmas triple_bits = triple_of_def quad_of_def sextet_take_bit byte_u32_ucast bit_simps

lemma triple_bytes:
  fixes x y z :: char
  defines "t \<equiv> triple_of x y z"
  shows "u32_byte (drop_bit 16 (quad_of (sextet 18 t) (sextet 12 t) (take_bit 6 c) (take_bit 6 d))) = x"
  and "u32_byte (drop_bit 8 (quad_of a (sextet 12 t) (sextet 6 t) (take_bit 6 d))) = y"
  and "u32_byte (quad_of a b (sextet 6 t) (sextet 0 t)) = z"
  unfolding t_def
  by (rule u32_byte_eqI; drule less_8_cases; elim disjE; simp add: triple_bits)+

lemma sextet_bytes:
  fixes x y z :: char
  defines "t \<equiv> triple_of x y z"
  shows "u32_byte (drop_bit 16 (quad_of (sextet 18 t) (sextet 12 t) (sextet i u) (sextet j v))) = x"
  and "u32_byte (drop_bit 16 (quad_of (sextet 18 t) (sextet 12 t) (sextet i u) 0)) = x"
  and "u32_byte (drop_bit 16 (quad_of (sextet 18 t) (sextet 12 t) 0 0)) = x"
  and "u32_byte (drop_bit 8 (quad_of a (sextet 12 t) (sextet 6 t) (sextet j v))) = y"
  and "u32_byte (drop_bit 8 (quad_of a (sextet 12 t) (sextet 6 t) 0)) = y"
  and "u32_byte (quad_of a b (sextet 6 t) (sextet 0 t)) = z"
  using triple_bytes(1) [of x y z "drop_bit i u" "drop_bit j v"]
    triple_bytes(1) [of x y z "drop_bit i u" 0] triple_bytes(1) [of x y z 0 0]
    triple_bytes(2) [of a x y z "drop_bit j v"] triple_bytes(2) [of a x y z 0]
    triple_bytes(3) [of a b x y z]
  by (simp_all add: t_def flip: sextet_take_bit)

lemma decode_full [simp]:
  "decode_chunk (b64_char (sextet 18 (triple_of x y z))) (b64_char (sextet 12 (triple_of x y z)))
     (b64_char (sextet 6 (triple_of x y z))) (b64_char (sextet 0 (triple_of x y z))) = Some [x, y, z]"
  by (simp add: decode_chunk_def Let_def sextet_bytes)

lemma decode_two [simp]:
  "decode_chunk (b64_char (sextet 18 (triple_of x y z))) (b64_char (sextet 12 (triple_of x y z)))
     (b64_char (sextet 6 (triple_of x y z))) (CHR ''='') = Some [x, y]"
  by (simp add: decode_chunk_def Let_def sextet_bytes)

lemma decode_one [simp]:
  "decode_chunk (b64_char (sextet 18 (triple_of x y z))) (b64_char (sextet 12 (triple_of x y z)))
     (CHR ''='') (CHR ''='') = Some [x]"
  by (simp add: decode_chunk_def Let_def sextet_bytes)

lemma decode_chunks_encode: "decode_chunks (base64_encode s) = Some s"
  by (induction s rule: base64_encode.induct) (simp_all add: Let_def)

lemma length_base64_encode: "length (base64_encode s) = 4 * ((length s + 2) div 3)"
  by (induction s rule: base64_encode.induct) (simp_all add: Let_def, presburger?)

lemma base64_round_trip: "base64_decode (base64_encode s) = Inr s"
  by (simp add: base64_decode_def length_base64_encode decode_chunks_encode ok_or_def)

text \<open>C21. A cursor the server hands out is accepted back and names the same row id: decoding an
  encoded id returns it, for every string an id can be.\<close>

theorem cursor_round_trip:
  assumes "valid_utf8 i"
  shows "decode_cursor (encode_cursor i) = Inr i"
  using assms by (simp add: decode_cursor_def encode_cursor_def base64_round_trip)

theorem cursor_round_trip_witness:
  "decode_cursor (encode_cursor ''550e8'') = Inr ''550e8''"
  by (rule cursor_round_trip) (simp add: valid_utf8.simps in_range_def)

text \<open>Different ids have different cursors.\<close>

lemma encode_cursor_inject: "encode_cursor i = encode_cursor j \<longleftrightarrow> i = j"
  by (metis Inr_inject base64_round_trip encode_cursor_def)

text \<open>A cursor of the wrong length or with a foreign character is the client's error.\<close>

lemma decode_cursor_error:
  "decode_cursor c = Inl e \<Longrightarrow> error_status e = 422"
  by (auto simp: decode_cursor_def cursor_error_def split: sum.splits if_splits)

end
