(* ===== verification/Sql_Builder.thy ===== *)
theory Sql_Builder
  imports Input_Validation Query_Params Base64_Cursor
begin

text \<open>
  The query executor of the SQL backend, \<open>shaperail-runtime/src/db/query.rs\<close>, with the clauses of
  \<open>filter.rs\<close>, \<open>sort.rs\<close>, \<open>search.rs\<close> and \<open>pagination.rs\<close>. A method builds the text of a
  statement and the list of its bound values and hands both to the pool; the pool is the function
  \<open>execute\<close> from them to the rows. A row answers \<open>try_get\<close> at the Rust type the field's type
  selects. Times and dates of \<open>chrono\<close> are integers; their texts, the text of a JSON value, the
  float parser, the clock and the generator of ids are parameters.
\<close>

section \<open>Values\<close>

datatype f64 = Finite rat | PosInfinity | NegInfinity | NaN

datatype bind_value =
    BText string
  | BBigint int
  | BFloat f64
  | BBool bool
  | BUuid uuid
  | BTimestamp int
  | BDate int
  | BJson json
  | BNull

record sql_lib =
  sl_values :: value_lib
  sl_parse_f64 :: "string \<Rightarrow> f64 option"
  sl_parse_timestamp :: "string \<Rightarrow> int option"
  sl_parse_date :: "string \<Rightarrow> int option"
  sl_show_timestamp :: "int \<Rightarrow> string"
  sl_show_date :: "int \<Rightarrow> string"
  sl_json_text :: "json \<Rightarrow> string"
  sl_now :: int
  sl_today :: int
  sl_new_uuid :: "nat \<Rightarrow> uuid"

fun parse_bool :: "string \<Rightarrow> bool option" where
  "parse_bool s = (if s = ''true'' then Some True else if s = ''false'' then Some False else None)"

definition jint :: "int \<Rightarrow> json" where
  "jint i = JNum (if 0 \<le> i then PosInt (nat i) else NegInt i)"

definition trim_matches :: "char \<Rightarrow> string \<Rightarrow> string" where
  "trim_matches c s = rev (dropWhile (\<lambda>x. x = c) (rev (dropWhile (\<lambda>x. x = c) s)))"

definition or_else :: "'a option \<Rightarrow> 'a \<Rightarrow> 'a" where
  "or_else x d = (case x of Some y \<Rightarrow> y | None \<Rightarrow> d)"

definition json_to_bind :: "sql_lib \<Rightarrow> json \<Rightarrow> field_schema \<Rightarrow> bind_value" where
  "json_to_bind lib v f =
     (if v = JNull then BNull
      else (case fs_type f of
        FtUuid \<Rightarrow>
          (case Option.bind (as_str v) (parse_uuid (sl_values lib)) of
             Some u \<Rightarrow> BUuid u | None \<Rightarrow> BText (trim_matches (CHR 0x22) (sl_json_text lib v)))
      | FtString \<Rightarrow> BText (or_else (as_str v) (sl_json_text lib v))
      | FtEnum \<Rightarrow> BText (or_else (as_str v) (sl_json_text lib v))
      | FtFile \<Rightarrow> BText (or_else (as_str v) (sl_json_text lib v))
      | FtInteger \<Rightarrow> BBigint (or_else (as_i64 v) 0)
      | FtNumber \<Rightarrow> BFloat (Finite (or_else (as_f64 v) 0))
      | FtBoolean \<Rightarrow> BBool (or_else (as_bool v) False)
      | FtTimestamp \<Rightarrow> BTimestamp (or_else (Option.bind (as_str v) (sl_parse_timestamp lib)) (sl_now lib))
      | FtDate \<Rightarrow> BDate (or_else (Option.bind (as_str v) (sl_parse_date lib)) (sl_today lib))
      | FtJson \<Rightarrow> BJson v
      | FtArray \<Rightarrow> BJson v))"

definition coerce_filter_value :: "sql_lib \<Rightarrow> resource_definition \<Rightarrow> string \<Rightarrow> string \<Rightarrow> bind_value" where
  "coerce_filter_value lib rd field_name value =
     (case map_of (rd_schema rd) field_name of
        None \<Rightarrow> BText value
      | Some f \<Rightarrow>
          or_else (case fs_type f of
             FtUuid \<Rightarrow> map_option BUuid (parse_uuid (sl_values lib) value)
           | FtInteger \<Rightarrow> map_option BBigint (parse_i64 value)
           | FtNumber \<Rightarrow> map_option BFloat (sl_parse_f64 lib value)
           | FtBoolean \<Rightarrow> map_option BBool (parse_bool value)
           | _ \<Rightarrow> None) (BText value))"

section \<open>Rows\<close>

datatype cell =
    CUuid uuid
  | CText string
  | CInt int
  | CFloat f64
  | CBool bool
  | CTimestamp int
  | CDate int
  | CJson json

type_synonym pg_row = "string \<Rightarrow> field_type \<Rightarrow> string + cell option"

fun cell_json :: "sql_lib \<Rightarrow> cell \<Rightarrow> json" where
  "cell_json lib (CUuid u) = JStr (show_uuid (sl_values lib) u)"
| "cell_json lib (CText s) = JStr s"
| "cell_json lib (CInt i) = jint i"
| "cell_json lib (CFloat x) = (case x of Finite r \<Rightarrow> JNum (Float r) | _ \<Rightarrow> JNull)"
| "cell_json lib (CBool b) = JBool b"
| "cell_json lib (CTimestamp t) = JStr (sl_show_timestamp lib t)"
| "cell_json lib (CDate d) = JStr (sl_show_date lib d)"
| "cell_json lib (CJson v) = v"

definition extract_column_value :: "sql_lib \<Rightarrow> pg_row \<Rightarrow> string \<Rightarrow> field_schema \<Rightarrow> json res" where
  "extract_column_value lib row name f =
     (case row name (fs_type f) of
        Inl e \<Rightarrow> Inl (Internal (''Column '' @ squote name @ '' error: '' @ e))
      | Inr None \<Rightarrow> Inr JNull
      | Inr (Some c) \<Rightarrow> Inr (cell_json lib c))"

fun row_entries :: "sql_lib \<Rightarrow> (string \<times> field_schema) list \<Rightarrow> pg_row \<Rightarrow> jmap res" where
  "row_entries lib [] row = Inr []"
| "row_entries lib ((name, f) # sch) row =
     (if fs_transient f then row_entries lib sch row
      else and_then (extract_column_value lib row name f) (\<lambda>v.
        and_then (row_entries lib sch row) (\<lambda>es. Inr ((name, v) # es))))"

definition row_to_json :: "sql_lib \<Rightarrow> resource_definition \<Rightarrow> pg_row \<Rightarrow> json res" where
  "row_to_json lib rd row = and_then (row_entries lib (rd_schema rd) row) (\<lambda>m. Inr (JObj m))"

fun map_res :: "('a \<Rightarrow> 'b res) \<Rightarrow> 'a list \<Rightarrow> 'b list res" where
  "map_res f [] = Inr []"
| "map_res f (x # xs) = and_then (f x) (\<lambda>y. and_then (map_res f xs) (\<lambda>ys. Inr (y # ys)))"

type_synonym pool = "string \<Rightarrow> bind_value list \<Rightarrow> sqlx_error + pg_row list"
type_synonym count_pool = "string \<Rightarrow> bind_value list \<Rightarrow> sqlx_error + int"

definition sqlx_res :: "sqlx_error + 'a \<Rightarrow> 'a res" where
  "sqlx_res r = (case r of Inl e \<Rightarrow> Inl (from_sqlx e) | Inr x \<Rightarrow> Inr x)"

definition execute_query ::
    "sql_lib \<Rightarrow> pool \<Rightarrow> resource_definition \<Rightarrow> string \<Rightarrow> bind_value list \<Rightarrow> json list res" where
  "execute_query lib execute rd sql binds =
     and_then (sqlx_res (execute sql binds)) (\<lambda>rows. map_res (row_to_json lib rd) rows)"

definition execute_count :: "count_pool \<Rightarrow> string \<Rightarrow> bind_value list \<Rightarrow> int res" where
  "execute_count count sql binds = sqlx_res (count sql binds)"

section \<open>Clauses\<close>

definition placeholder :: "nat \<Rightarrow> string" where
  "placeholder n = CHR ''$'' # show_nat n"

fun filters_to_sql ::
    "bool \<Rightarrow> filter_param list \<Rightarrow> string \<Rightarrow> bool \<Rightarrow> nat \<Rightarrow> string \<times> nat" where
  "filters_to_sql first [] sql has_where offset = (sql, offset)"
| "filters_to_sql first (f # fs) sql has_where offset =
     filters_to_sql False fs
       (sql @ (if first \<and> \<not> has_where then '' WHERE '' else '' AND '')
          @ dquote (fp_field f) @ '' = '' @ placeholder offset)
       has_where (offset + 1)"

definition filter_apply_to_sql :: "filter_param list \<Rightarrow> string \<Rightarrow> bool \<Rightarrow> nat \<Rightarrow> string \<times> nat" where
  "filter_apply_to_sql fs sql has_where param_offset = filters_to_sql True fs sql has_where param_offset"

definition sort_apply_to_sql :: "sort_field list \<Rightarrow> string \<Rightarrow> string" where
  "sort_apply_to_sql sfs sql =
     (if sfs = [] then sql
      else sql @ '' ORDER BY '' @ join '', '' (map (\<lambda>sf.
        dquote (sf_field sf) @ '' '' @ sort_direction_display (sf_direction sf)) sfs))"

definition tsvector_expr :: "string list \<Rightarrow> string" where
  "tsvector_expr flds =
     concat (map (\<lambda>(i, f). (if i = 0 then [] else '' || '' @ squote '' '' @ '' || '')
       @ ''COALESCE('' @ dquote f @ '', '' @ squote [] @ '')'') (List.enumerate 0 flds))"

definition search_apply_to_sql :: "search_param \<Rightarrow> string \<Rightarrow> bool \<Rightarrow> nat \<Rightarrow> string \<times> nat" where
  "search_apply_to_sql sp sql has_where param_offset =
     (sql @ (if has_where then '' AND '' else '' WHERE '')
       @ ''to_tsvector('' @ squote ''english'' @ '', '' @ tsvector_expr (se_fields sp)
       @ '') @@ plainto_tsquery('' @ squote ''english'' @ '', '' @ placeholder param_offset @ '')'',
      param_offset + 1)"

definition apply_cursor_to_sql :: "page_request \<Rightarrow> string \<Rightarrow> bool \<Rightarrow> nat \<Rightarrow> string \<times> nat" where
  "apply_cursor_to_sql page sql has_where param_offset =
     (case page of
        Cursor after limit \<Rightarrow>
          (let (sql', offset) =
             (if after \<noteq> None then
                (sql @ (if has_where then '' AND '' else '' WHERE '') @ dquote ''id'' @ '' > ''
                   @ placeholder param_offset, param_offset + 1)
              else (sql, param_offset))
           in (sql' @ '' ORDER BY '' @ dquote ''id'' @ '' ASC'' @ '' LIMIT '' @ show_int (limit + 1), offset))
      | Offset off limit \<Rightarrow>
          (sql @ '' LIMIT '' @ show_int limit @ '' OFFSET '' @ show_int off, param_offset))"

section \<open>Statements\<close>

definition table :: "resource_definition \<Rightarrow> string" where
  "table rd = rd_resource rd"

definition columns :: "resource_definition \<Rightarrow> string list" where
  "columns rd = map fst (rd_schema rd)"

definition primary_key :: "resource_definition \<Rightarrow> string" where
  "primary_key rd = (case find (\<lambda>(n, f). fs_primary f) (rd_schema rd) of
     Some (n, f) \<Rightarrow> n | None \<Rightarrow> ''id'')"

definition select_columns :: "resource_definition \<Rightarrow> string" where
  "select_columns rd = join '', '' (map dquote (columns rd))"

definition has_soft_delete :: "resource_definition \<Rightarrow> bool" where
  "has_soft_delete rd = (case rd_endpoints rd of None \<Rightarrow> False
     | Some es \<Rightarrow> list_ex (\<lambda>(a, ep). ep_soft_delete ep) es)"

definition not_deleted :: "resource_definition \<Rightarrow> string" where
  "not_deleted rd =
     (if has_soft_delete rd then '' AND '' @ dquote ''deleted_at'' @ '' IS NULL'' else [])"

definition find_by_id_sql :: "resource_definition \<Rightarrow> string" where
  "find_by_id_sql rd = ''SELECT '' @ select_columns rd @ '' FROM '' @ dquote (table rd) @ '' WHERE ''
     @ dquote (primary_key rd) @ '' = $1'' @ not_deleted rd"

definition find_by_id :: "sql_lib \<Rightarrow> pool \<Rightarrow> resource_definition \<Rightarrow> uuid \<Rightarrow> json res" where
  "find_by_id lib execute rd i =
     and_then (sqlx_res (execute (find_by_id_sql rd) [BUuid i])) (\<lambda>rows.
       (case rows of [] \<Rightarrow> Inl NotFound | row # _ \<Rightarrow> row_to_json lib rd row))"

text \<open>The mutable variables of \<open>find_all\<close>: the text, whether it has a WHERE, the next parameter
  and the bound values.\<close>

record sql_state =
  sq_text :: string
  sq_where :: bool
  sq_offset :: nat
  sq_binds :: "bind_value list"

definition start_state :: "resource_definition \<Rightarrow> string \<Rightarrow> sql_state" where
  "start_state rd head =
     \<lparr>sq_text = head @ (if has_soft_delete rd then '' WHERE '' @ dquote ''deleted_at'' @ '' IS NULL'' else []),
      sq_where = has_soft_delete rd, sq_offset = 1, sq_binds = []\<rparr>"

definition apply_filters ::
    "sql_lib \<Rightarrow> resource_definition \<Rightarrow> filter_param list \<Rightarrow> sql_state \<Rightarrow> sql_state" where
  "apply_filters lib rd fs st =
     (if fs = [] then st
      else (let (sql, offset) = filter_apply_to_sql fs (sq_text st) (sq_where st) (sq_offset st)
        in \<lparr>sq_text = sql, sq_where = True, sq_offset = offset,
            sq_binds = sq_binds st @ map (\<lambda>f. coerce_filter_value lib rd (fp_field f) (fp_value f)) fs\<rparr>))"

definition apply_search :: "search_param option \<Rightarrow> sql_state \<Rightarrow> sql_state" where
  "apply_search search st =
     (case search of
        None \<Rightarrow> st
      | Some sp \<Rightarrow> (let (sql, offset) = search_apply_to_sql sp (sq_text st) (sq_where st) (sq_offset st)
          in \<lparr>sq_text = sql, sq_where = True, sq_offset = offset,
              sq_binds = sq_binds st @ [BText (se_term sp)]\<rparr>))"

definition apply_after :: "uuid option \<Rightarrow> sql_state \<Rightarrow> sql_state" where
  "apply_after decoded st =
     (case decoded of
        None \<Rightarrow> st
      | Some i \<Rightarrow> st\<lparr>sq_text := sq_text st @ (if sq_where st then '' AND '' else '' WHERE '')
            @ dquote ''id'' @ '' > '' @ placeholder (sq_offset st),
          sq_binds := sq_binds st @ [BUuid i]\<rparr>)"

definition where_state :: "sql_lib \<Rightarrow> resource_definition \<Rightarrow> string \<Rightarrow> filter_param list \<Rightarrow>
    search_param option \<Rightarrow> sql_state" where
  "where_state lib rd head fs search =
     apply_search search (apply_filters lib rd fs (start_state rd head))"

definition select_head :: "resource_definition \<Rightarrow> string" where
  "select_head rd = ''SELECT '' @ select_columns rd @ '' FROM '' @ dquote (table rd)"

definition count_head :: "resource_definition \<Rightarrow> string" where
  "count_head rd = ''SELECT COUNT(*) FROM '' @ dquote (table rd)"

definition decode_after :: "sql_lib \<Rightarrow> string option \<Rightarrow> uuid option res" where
  "decode_after lib after =
     (case after of
        None \<Rightarrow> Inr None
      | Some cursor_str \<Rightarrow> and_then (decode_cursor cursor_str) (\<lambda>id_str.
          (case parse_uuid (sl_values lib) id_str of
             None \<Rightarrow> Inl (cursor_error ''Invalid cursor value'')
           | Some i \<Rightarrow> Inr (Some i))))"

definition cursor_statement :: "sql_lib \<Rightarrow> resource_definition \<Rightarrow> filter_param list \<Rightarrow>
    search_param option \<Rightarrow> sort_field list \<Rightarrow> uuid option \<Rightarrow> int \<Rightarrow> string \<times> bind_value list" where
  "cursor_statement lib rd fs search srt decoded limit =
     (let st = apply_after decoded (where_state lib rd (select_head rd) fs search);
          sql = (if srt = [] then sq_text st @ '' ORDER BY '' @ dquote ''id'' @ '' ASC''
                 else sort_apply_to_sql srt (sq_text st))
      in (sql @ '' LIMIT '' @ show_int (limit + 1), sq_binds st))"

definition offset_statement :: "sql_lib \<Rightarrow> resource_definition \<Rightarrow> filter_param list \<Rightarrow>
    search_param option \<Rightarrow> sort_field list \<Rightarrow> int \<Rightarrow> int \<Rightarrow> string \<times> bind_value list" where
  "offset_statement lib rd fs search srt off limit =
     (let st = where_state lib rd (select_head rd) fs search
      in (sort_apply_to_sql srt (sq_text st) @ '' LIMIT '' @ show_int limit @ '' OFFSET '' @ show_int off,
          sq_binds st))"

definition count_statement :: "sql_lib \<Rightarrow> resource_definition \<Rightarrow> filter_param list \<Rightarrow>
    search_param option \<Rightarrow> string \<times> bind_value list" where
  "count_statement lib rd fs search =
     (let st = where_state lib rd (count_head rd) fs search in (sq_text st, sq_binds st))"

text \<open>\<open>limit as usize\<close> of the page and the cursor of its last row.\<close>

definition cursor_page :: "int \<Rightarrow> json list \<Rightarrow> json list \<times> string option \<times> bool" where
  "cursor_page limit rows =
     (let has_more = int (length rows) > limit;
          result_rows = take (nat (limit mod 2 ^ 64)) rows;
          cursor = (if has_more \<and> result_rows \<noteq> []
                    then map_option encode_cursor (json_get_str (last result_rows) ''id'') else None)
      in (result_rows, cursor, has_more))"

definition find_all :: "sql_lib \<Rightarrow> pool \<Rightarrow> count_pool \<Rightarrow> resource_definition \<Rightarrow> filter_param list \<Rightarrow>
    search_param option \<Rightarrow> sort_field list \<Rightarrow> page_request \<Rightarrow> (json list \<times> json) res" where
  "find_all lib execute count rd fs search srt page =
     (case page of
        Cursor after limit \<Rightarrow>
          and_then (decode_after lib after) (\<lambda>decoded.
            (let (sql, binds) = cursor_statement lib rd fs search srt decoded limit in
             and_then (execute_query lib execute rd sql binds) (\<lambda>rows.
               (let (result_rows, cursor, has_more) = cursor_page limit rows in
                Inr (result_rows, JObj [(''cursor'', json_of_option JStr cursor),
                  (''has_more'', JBool has_more)])))))
      | Offset off limit \<Rightarrow>
          (let (csql, cbinds) = count_statement lib rd fs search;
               (sql, binds) = offset_statement lib rd fs search srt off limit in
           and_then (execute_count count csql cbinds) (\<lambda>total.
           and_then (execute_query lib execute rd sql binds) (\<lambda>rows.
             Inr (rows, JObj [(''offset'', jint off), (''limit'', jint limit), (''total'', jint total)])))))"

section \<open>Writes\<close>

text \<open>The loop of \<open>insert\<close> over the schema: columns, placeholders, bound values and the counter.\<close>

record insert_state =
  in_columns :: "string list"
  in_placeholders :: "string list"
  in_binds :: "bind_value list"
  in_idx :: nat

definition insert_push :: "string \<Rightarrow> bind_value \<Rightarrow> insert_state \<Rightarrow> insert_state" where
  "insert_push name v st =
     \<lparr>in_columns = in_columns st @ [dquote name],
      in_placeholders = in_placeholders st @ [placeholder (in_idx st)],
      in_binds = in_binds st @ [v], in_idx = in_idx st + 1\<rparr>"

definition insert_step :: "sql_lib \<Rightarrow> jmap \<Rightarrow> string \<times> field_schema \<Rightarrow> insert_state \<Rightarrow> insert_state" where
  "insert_step lib data nf st = (case nf of (name, f) \<Rightarrow>
     if fs_transient f then st
     else if fs_generated f then
       (case fs_type f of
          FtUuid \<Rightarrow> insert_push name (BUuid (sl_new_uuid lib (in_idx st))) st
        | FtTimestamp \<Rightarrow> insert_push name (BTimestamp (sl_now lib)) st
        | _ \<Rightarrow> st)
     else (case map_of data name of
         Some v \<Rightarrow> insert_push name (json_to_bind lib v f) st
       | None \<Rightarrow> (case fs_default f of
           Some d \<Rightarrow> insert_push name (json_to_bind lib d f) st
         | None \<Rightarrow> st)))"

definition insert_loop :: "sql_lib \<Rightarrow> resource_definition \<Rightarrow> jmap \<Rightarrow> insert_state" where
  "insert_loop lib rd data =
     fold (insert_step lib data) (rd_schema rd)
       \<lparr>in_columns = [], in_placeholders = [], in_binds = [], in_idx = 1\<rparr>"

definition insert_statement :: "sql_lib \<Rightarrow> resource_definition \<Rightarrow> jmap \<Rightarrow> string \<times> bind_value list" where
  "insert_statement lib rd data =
     (let st = insert_loop lib rd data in
      (''INSERT INTO '' @ dquote (table rd) @ '' ('' @ join '', '' (in_columns st) @ '') VALUES (''
         @ join '', '' (in_placeholders st) @ '') RETURNING '' @ select_columns rd, in_binds st))"

definition first_row :: "shaperail_error \<Rightarrow> json list \<Rightarrow> json res" where
  "first_row e rows = (case rows of [] \<Rightarrow> Inl e | r # _ \<Rightarrow> Inr r)"

definition insert_row :: "sql_lib \<Rightarrow> pool \<Rightarrow> resource_definition \<Rightarrow> jmap \<Rightarrow> json res" where
  "insert_row lib execute rd data =
     (let (sql, binds) = insert_statement lib rd data in
      and_then (execute_query lib execute rd sql binds)
        (first_row (Internal ''Insert returned no rows'')))"

record update_state =
  up_clauses :: "string list"
  up_binds :: "bind_value list"
  up_idx :: nat

definition update_push :: "string \<Rightarrow> bind_value \<Rightarrow> update_state \<Rightarrow> update_state" where
  "update_push name v st =
     \<lparr>up_clauses = up_clauses st @ [dquote name @ '' = '' @ placeholder (up_idx st)],
      up_binds = up_binds st @ [v], up_idx = up_idx st + 1\<rparr>"

definition update_step ::
    "sql_lib \<Rightarrow> resource_definition \<Rightarrow> string \<times> json \<Rightarrow> update_state \<Rightarrow> update_state" where
  "update_step lib rd nv st = (case nv of (name, v) \<Rightarrow>
     (case map_of (rd_schema rd) name of
        None \<Rightarrow> st
      | Some f \<Rightarrow> if fs_primary f \<or> fs_generated f then st
                  else update_push name (json_to_bind lib v f) st))"

definition touches_updated_at :: "resource_definition \<Rightarrow> bool" where
  "touches_updated_at rd = (case map_of (rd_schema rd) ''updated_at'' of
     None \<Rightarrow> False | Some f \<Rightarrow> fs_generated f \<and> fs_type f = FtTimestamp)"

definition update_loop :: "sql_lib \<Rightarrow> resource_definition \<Rightarrow> jmap \<Rightarrow> update_state" where
  "update_loop lib rd data =
     (let st = fold (update_step lib rd) data \<lparr>up_clauses = [], up_binds = [], up_idx = 1\<rparr> in
      if touches_updated_at rd then update_push ''updated_at'' (BTimestamp (sl_now lib)) st else st)"

definition empty_update :: shaperail_error where
  "empty_update = Validation [\<lparr>fe_field = ''body'', fe_message = ''No valid fields to update'',
     fe_code = ''empty_update''\<rparr>]"

definition update_statement ::
    "sql_lib \<Rightarrow> resource_definition \<Rightarrow> uuid \<Rightarrow> jmap \<Rightarrow> (string \<times> bind_value list) res" where
  "update_statement lib rd i data =
     (let st = update_loop lib rd data in
      if up_clauses st = [] then Inl empty_update
      else Inr (''UPDATE '' @ dquote (table rd) @ '' SET '' @ join '', '' (up_clauses st) @ '' WHERE ''
         @ dquote (primary_key rd) @ '' = '' @ placeholder (up_idx st) @ not_deleted rd
         @ '' RETURNING '' @ select_columns rd, up_binds st @ [BUuid i]))"

definition update_by_id ::
    "sql_lib \<Rightarrow> pool \<Rightarrow> resource_definition \<Rightarrow> uuid \<Rightarrow> jmap \<Rightarrow> json res" where
  "update_by_id lib execute rd i data =
     and_then (update_statement lib rd i data) (\<lambda>(sql, binds).
     and_then (execute_query lib execute rd sql binds) (first_row NotFound))"

definition soft_delete_statement :: "sql_lib \<Rightarrow> resource_definition \<Rightarrow> uuid \<Rightarrow> string \<times> bind_value list" where
  "soft_delete_statement lib rd i =
     (''UPDATE '' @ dquote (table rd) @ '' SET '' @ dquote ''deleted_at'' @ '' = $1 WHERE ''
        @ dquote (primary_key rd) @ '' = $2 AND '' @ dquote ''deleted_at'' @ '' IS NULL RETURNING ''
        @ select_columns rd,
      [BTimestamp (sl_now lib), BUuid i])"

definition soft_delete_by_id :: "sql_lib \<Rightarrow> pool \<Rightarrow> resource_definition \<Rightarrow> uuid \<Rightarrow> json res" where
  "soft_delete_by_id lib execute rd i =
     (let (sql, binds) = soft_delete_statement lib rd i in
      and_then (execute_query lib execute rd sql binds) (first_row NotFound))"

definition hard_delete_statement :: "resource_definition \<Rightarrow> uuid \<Rightarrow> string \<times> bind_value list" where
  "hard_delete_statement rd i =
     (''DELETE FROM '' @ dquote (table rd) @ '' WHERE '' @ dquote (primary_key rd)
        @ '' = $1 RETURNING '' @ select_columns rd, [BUuid i])"

definition hard_delete_by_id :: "sql_lib \<Rightarrow> pool \<Rightarrow> resource_definition \<Rightarrow> uuid \<Rightarrow> json res" where
  "hard_delete_by_id lib execute rd i =
     (let (sql, binds) = hard_delete_statement rd i in
      and_then (execute_query lib execute rd sql binds) (first_row NotFound))"

section \<open>Placeholders and bound values\<close>

text \<open>
  \<open>placed k s n\<close>: the text \<open>s\<close> holds exactly the placeholders \<open>k, ..., k + n - 1\<close>, once each and
  in this order; the text between them has no dollar sign.
\<close>

fun weave :: "nat \<Rightarrow> string list \<Rightarrow> string" where
  "weave k [] = []"
| "weave k [p] = p"
| "weave k (p # q # ps) = p @ placeholder k @ weave (Suc k) (q # ps)"

definition no_dollar :: "string \<Rightarrow> bool" where
  "no_dollar s \<longleftrightarrow> CHR ''$'' \<notin> set s"

definition placed :: "nat \<Rightarrow> string \<Rightarrow> nat \<Rightarrow> bool" where
  "placed k s n \<longleftrightarrow> (\<exists>ps. length ps = Suc n \<and> list_all no_dollar ps \<and> s = weave k ps)"

lemma weave_append:
  "weave k (ps @ [p]) @ weave (k + length ps) (q # qs) = weave k (ps @ (p @ q) # qs)"
proof (induction ps arbitrary: k)
  case Nil
  then show ?case by (cases qs) auto
next
  case (Cons r ps)
  then show ?case
    using Cons.IH [of "Suc k"] by (cases ps) auto
qed

lemma no_dollar_append [simp]: "no_dollar (s @ t) \<longleftrightarrow> no_dollar s \<and> no_dollar t"
  by (auto simp: no_dollar_def)

lemma no_dollar_Nil [simp]: "no_dollar []"
  by (simp add: no_dollar_def)

lemma no_dollar_Cons [simp]: "no_dollar (c # s) \<longleftrightarrow> c \<noteq> CHR ''$'' \<and> no_dollar s"
  by (auto simp: no_dollar_def)

lemma placed_append:
  assumes "placed k s n" and "placed (k + n) t m" shows "placed k (s @ t) (n + m)"
proof -
  obtain ps where ps: "length ps = Suc n" "list_all no_dollar ps" "s = weave k ps"
    using assms(1) by (auto simp: placed_def)
  obtain qs where qs: "length qs = Suc m" "list_all no_dollar qs" "t = weave (k + n) qs"
    using assms(2) by (auto simp: placed_def)
  obtain ps' p where p: "ps = ps' @ [p]" "length ps' = n"
    using ps(1) by (metis length_append_singleton nat.inject append_butlast_last_id length_0_conv nat.distinct(1))
  obtain q qs' where q: "qs = q # qs'" "length qs' = m"
    using qs(1) by (cases qs) auto
  have "s @ t = weave k (ps' @ (p @ q) # qs')"
    using weave_append [of k ps' p q qs'] p q ps qs by simp
  moreover have "length (ps' @ (p @ q) # qs') = Suc (n + m)" and "list_all no_dollar (ps' @ (p @ q) # qs')"
    using p q ps qs by auto
  ultimately show ?thesis unfolding placed_def by blast
qed

lemma placed_text: "no_dollar s \<Longrightarrow> placed k s 0"
  unfolding placed_def by (rule exI [of _ "[s]"]) simp

lemma placed_placeholder: "placed k (placeholder k) 1"
  unfolding placed_def by (rule exI [of _ "[ [], [] ]"]) simp

lemma placed_text_append: "no_dollar s \<Longrightarrow> placed k t n \<Longrightarrow> placed k (s @ t) n"
  using placed_append [of k s 0 t n] by (simp add: placed_text)

lemma placed_append_text: "placed k s n \<Longrightarrow> no_dollar t \<Longrightarrow> placed k (s @ t) n"
  using placed_append [of k s n t 0] by (simp add: placed_text)

lemma placed_snoc: "placed k s n \<Longrightarrow> no_dollar t \<Longrightarrow> placed k (s @ t @ placeholder (k + n)) (Suc n)"
  using placed_append [of k s n "t @ placeholder (k + n)" 1]
    placed_text_append [OF _ placed_placeholder] by simp

lemma no_dollar_show_nat [simp]: "no_dollar (show_nat n)"
  by (auto simp: no_dollar_def is_digit_def dest: is_digit_show_nat)

lemma no_dollar_show_int [simp]: "no_dollar (show_int i)"
  by (simp add: show_int_def)

lemma no_dollar_dquote [simp]: "no_dollar (dquote s) \<longleftrightarrow> no_dollar s"
  and no_dollar_squote [simp]: "no_dollar (squote s) \<longleftrightarrow> no_dollar s"
  by (auto simp: dquote_def squote_def)

lemma no_dollar_join: "no_dollar sep \<Longrightarrow> list_all no_dollar xs \<Longrightarrow> no_dollar (join sep xs)"
  by (induction sep xs rule: join.induct) (auto simp: no_dollar_def)

lemma no_dollar_concat: "list_all no_dollar xs \<Longrightarrow> no_dollar (concat xs)"
  by (auto simp: no_dollar_def list_all_iff)

text \<open>Names of the resource file: the table, the columns, and the declared sort, filter and
  search fields, are free of the dollar sign.\<close>

definition plain_names :: "resource_definition \<Rightarrow> bool" where
  "plain_names rd \<longleftrightarrow> no_dollar (rd_resource rd) \<and> (\<forall>n \<in> fst ` set (rd_schema rd). no_dollar n)"

lemma no_dollar_select [simp]: "plain_names rd \<Longrightarrow> no_dollar (select_columns rd)"
  unfolding select_columns_def columns_def
  by (rule no_dollar_join) (auto simp: plain_names_def list_all_iff)

lemma no_dollar_table [simp]: "plain_names rd \<Longrightarrow> no_dollar (table rd)"
  by (simp add: plain_names_def table_def)

lemma no_dollar_primary_key [simp]: "plain_names rd \<Longrightarrow> no_dollar (primary_key rd)"
  by (force simp: primary_key_def plain_names_def find_Some_iff split: option.splits dest!: nth_mem)

definition state_ok :: "sql_state \<Rightarrow> bool" where
  "state_ok st \<longleftrightarrow> placed 1 (sq_text st) (length (sq_binds st)) \<and> sq_offset st = Suc (length (sq_binds st))"

lemma filters_to_sql_placed:
  "placed 1 sql n \<Longrightarrow> offset = Suc n \<Longrightarrow> list_all (no_dollar \<circ> fp_field) fs \<Longrightarrow>
   filters_to_sql first fs sql has_where offset = (sql', offset') \<Longrightarrow>
   placed 1 sql' (n + length fs) \<and> offset' = Suc (n + length fs)"
proof (induction first fs sql has_where offset arbitrary: n rule: filters_to_sql.induct)
  case (2 first f fs sql has_where offset)
  let ?kw = "if first \<and> \<not> has_where then '' WHERE '' else '' AND ''"
  have "placed 1 (sql @ (?kw @ dquote (fp_field f) @ '' = '') @ placeholder (1 + n)) (Suc n)"
    using "2.prems" by (intro placed_snoc) auto
  then show ?case
    using "2.IH" [of "Suc n"] "2.prems" by simp
qed auto

lemma start_state_ok: "no_dollar head \<Longrightarrow> state_ok (start_state rd head)"
  by (simp add: state_ok_def start_state_def, intro conjI impI placed_text; simp)

lemma apply_filters_ok:
  assumes "state_ok st" and "list_all (no_dollar \<circ> fp_field) fs"
  shows "state_ok (apply_filters lib rd fs st)"
proof (cases "filter_apply_to_sql fs (sq_text st) (sq_where st) (sq_offset st)")
  case (Pair sql offset)
  with assms show ?thesis
    using filters_to_sql_placed [of "sq_text st" "length (sq_binds st)" "sq_offset st" fs True "sq_where st"]
    by (auto simp: apply_filters_def state_ok_def filter_apply_to_sql_def)
qed

lemma no_dollar_tsvector: "list_all no_dollar flds \<Longrightarrow> no_dollar (tsvector_expr flds)"
  unfolding tsvector_expr_def
  by (rule no_dollar_concat) (auto simp: list_all_iff in_set_enumerate_eq)

lemma apply_search_ok:
  assumes "state_ok st" and "\<And>sp. search = Some sp \<Longrightarrow> list_all no_dollar (se_fields sp)"
  shows "state_ok (apply_search search st)"
proof (cases search)
  case (Some sp)
  let ?t = "(if sq_where st then '' AND '' else '' WHERE '') @ ''to_tsvector('' @ squote ''english'' @ '', ''
    @ tsvector_expr (se_fields sp) @ '') @@ plainto_tsquery('' @ squote ''english'' @ '', ''"
  have "placed 1 (sq_text st @ ?t @ placeholder (1 + length (sq_binds st))) (Suc (length (sq_binds st)))"
    using assms Some by (intro placed_snoc) (auto simp: state_ok_def no_dollar_tsvector)
  then have "placed 1 ((sq_text st @ ?t @ placeholder (1 + length (sq_binds st))) @ '')'') (Suc (length (sq_binds st)))"
    by (rule placed_append_text) simp
  with assms Some show ?thesis
    by (simp add: apply_search_def search_apply_to_sql_def state_ok_def)
qed (use assms in \<open>simp add: apply_search_def\<close>)

lemma apply_after_placed:
  assumes "state_ok st"
  shows "placed 1 (sq_text (apply_after decoded st)) (length (sq_binds (apply_after decoded st)))"
proof (cases decoded)
  case (Some i)
  have "placed 1 (sq_text st @ ((if sq_where st then '' AND '' else '' WHERE '') @ dquote ''id'' @ '' > '')
      @ placeholder (1 + length (sq_binds st))) (Suc (length (sq_binds st)))"
    using assms by (intro placed_snoc) (auto simp: state_ok_def)
  with assms Some show ?thesis by (simp add: apply_after_def state_ok_def)
qed (use assms in \<open>simp add: apply_after_def state_ok_def\<close>)

lemma sort_apply_placed:
  assumes "placed k s n" and "list_all (no_dollar \<circ> sf_field) srt"
  shows "placed k (sort_apply_to_sql srt s) n"
proof -
  have "no_dollar (join '', '' (map (\<lambda>sf. dquote (sf_field sf) @ '' '' @ sort_direction_display (sf_direction sf)) srt))"
  proof (rule no_dollar_join)
    have "no_dollar (sort_direction_display d)" for d by (cases d) auto
    with assms(2) show "list_all no_dollar (map (\<lambda>sf. dquote (sf_field sf) @ '' ''
        @ sort_direction_display (sf_direction sf)) srt)"
      by (auto simp: list_all_iff)
  qed simp
  with assms(1) show ?thesis
    by (auto simp: sort_apply_to_sql_def intro!: placed_append_text)
qed

lemma where_state_ok:
  assumes "no_dollar head" and "list_all (no_dollar \<circ> fp_field) fs"
    and "\<And>sp. search = Some sp \<Longrightarrow> list_all no_dollar (se_fields sp)"
  shows "state_ok (where_state lib rd head fs search)"
  unfolding where_state_def
  using assms by (intro apply_search_ok apply_filters_ok start_state_ok) auto

text \<open>In every list statement the placeholders are \<open>$1, ..., $n\<close>, once each and in this order,
  where \<open>n\<close> is the number of bound values: the cursor query, the offset query and the count query
  never bind a value to the wrong condition, on any combination of filters, search and cursor.\<close>

lemma list_statements_aligned:
  assumes "plain_names rd" and "list_all (no_dollar \<circ> fp_field) fs"
    and "\<forall>sp. search = Some sp \<longrightarrow> list_all no_dollar (se_fields sp)"
    and "list_all (no_dollar \<circ> sf_field) srt"
  shows "(case cursor_statement lib rd fs search srt decoded limit of (sql, binds) \<Rightarrow>
        placed 1 sql (length binds))
    \<and> (case offset_statement lib rd fs search srt off limit of (sql, binds) \<Rightarrow>
        placed 1 sql (length binds))
    \<and> (case count_statement lib rd fs search of (sql, binds) \<Rightarrow> placed 1 sql (length binds))"
proof (intro conjI)
  have w: "state_ok (where_state lib rd head fs search)" if "no_dollar head" for head
    using that assms by (intro where_state_ok) auto
  have h: "no_dollar (select_head rd)" "no_dollar (count_head rd)"
    using assms(1) by (simp_all add: select_head_def count_head_def)
  let ?c = "apply_after decoded (where_state lib rd (select_head rd) fs search)"
  have "placed 1 (if srt = [] then sq_text ?c @ '' ORDER BY '' @ dquote ''id'' @ '' ASC''
      else sort_apply_to_sql srt (sq_text ?c)) (length (sq_binds ?c))"
    using sort_apply_placed [OF apply_after_placed assms(4)] apply_after_placed [OF w] h
    by (auto intro!: placed_append_text simp: w)
  then show "case cursor_statement lib rd fs search srt decoded limit of (sql, binds) \<Rightarrow>
        placed 1 sql (length binds)"
    unfolding cursor_statement_def Let_def prod.case
    by (rule placed_append_text) simp
  have "placed 1 (sort_apply_to_sql srt (sq_text (where_state lib rd (select_head rd) fs search)))
      (length (sq_binds (where_state lib rd (select_head rd) fs search)))"
    using w [OF h(1)] by (intro sort_apply_placed assms(4)) (simp add: state_ok_def)
  then show "case offset_statement lib rd fs search srt off limit of (sql, binds) \<Rightarrow>
        placed 1 sql (length binds)"
    unfolding offset_statement_def Let_def prod.case
    by (rule placed_append_text) simp
  show "case count_statement lib rd fs search of (sql, binds) \<Rightarrow> placed 1 sql (length binds)"
    using w [OF h(2)] by (simp add: count_statement_def Let_def state_ok_def)
qed

definition sample_table :: resource_definition where
  "sample_table = \<lparr>rd_resource = ''notes'', rd_version = 1, rd_db = None, rd_tenant_key = None,
     rd_schema = [(''id'', (plain_field FtUuid)\<lparr>fs_primary := True, fs_generated := True\<rparr>),
       (''title'', (plain_field FtString)\<lparr>fs_required := True\<rparr>)],
     rd_endpoints = None, rd_relations = None, rd_indexes = None\<rparr>"

definition toy_sql_lib :: sql_lib where
  "toy_sql_lib = \<lparr>sl_values = toy_lib, sl_parse_f64 = (\<lambda>s. None), sl_parse_timestamp = parse_i64,
     sl_parse_date = parse_i64, sl_show_timestamp = show_int, sl_show_date = show_int,
     sl_json_text = (\<lambda>v. ''json''), sl_now = 100, sl_today = 1, sl_new_uuid = (\<lambda>k. 7)\<rparr>"

section \<open>Writes bind each column to its value\<close>

text \<open>The reference: the columns of an INSERT with their values, in schema order; \<open>k\<close> is the
  number of the next parameter, which only the id generator sees.\<close>

definition insert_value ::
    "sql_lib \<Rightarrow> jmap \<Rightarrow> nat \<Rightarrow> string \<Rightarrow> field_schema \<Rightarrow> bind_value option" where
  "insert_value lib data k name f =
     (if fs_transient f then None
      else if fs_generated f then
        (if fs_type f = FtUuid then Some (BUuid (sl_new_uuid lib k))
         else if fs_type f = FtTimestamp then Some (BTimestamp (sl_now lib)) else None)
      else map_option (\<lambda>v. json_to_bind lib v f)
        (case map_of data name of Some v \<Rightarrow> Some v | None \<Rightarrow> fs_default f))"

fun insert_cells ::
    "sql_lib \<Rightarrow> jmap \<Rightarrow> nat \<Rightarrow> (string \<times> field_schema) list \<Rightarrow> (string \<times> bind_value) list" where
  "insert_cells lib data k [] = []"
| "insert_cells lib data k ((n, f) # sch) =
     (case insert_value lib data k n f of
        None \<Rightarrow> insert_cells lib data k sch
      | Some v \<Rightarrow> (n, v) # insert_cells lib data (Suc k) sch)"

lemma insert_step_value: "insert_step lib data (n, f) st =
    (case insert_value lib data (in_idx st) n f of None \<Rightarrow> st | Some v \<Rightarrow> insert_push n v st)"
  by (cases "fs_type f") (auto simp: insert_step_def insert_value_def split: option.splits)

lemma insert_fold:
  "fold (insert_step lib data) sch st =
     (let cs = insert_cells lib data (in_idx st) sch in
      \<lparr>in_columns = in_columns st @ map (dquote \<circ> fst) cs,
       in_placeholders = in_placeholders st @ map placeholder [in_idx st..<in_idx st + length cs],
       in_binds = in_binds st @ map snd cs, in_idx = in_idx st + length cs\<rparr>)"
proof (induction sch arbitrary: st)
  case Nil
  then show ?case by (simp add: Let_def)
next
  case (Cons nf sch)
  obtain n f where nf: "nf = (n, f)" by (cases nf)
  show ?case
  proof (cases "insert_value lib data (in_idx st) n f")
    case None
    then show ?thesis using Cons nf by (simp add: insert_step_value)
  next
    case (Some v)
    have "[in_idx st..<Suc (in_idx st) + length cs] = in_idx st # [Suc (in_idx st)..<Suc (in_idx st) + length cs]"
      for cs :: "(string \<times> bind_value) list"
      by (simp add: upt_rec)
    with Some show ?thesis using Cons nf by (simp add: insert_step_value insert_push_def Let_def)
  qed
qed

lemma insert_cells_keys: "fst ` set (insert_cells lib data k sch) \<subseteq> fst ` set sch"
  by (induction lib data k sch rule: insert_cells.induct)
    (auto simp: image_subset_iff split: option.splits)

lemma distinct_insert_cells:
  "distinct (map fst sch) \<Longrightarrow> distinct (map fst (insert_cells lib data k sch))"
proof (induction lib data k sch rule: insert_cells.induct)
  case (2 lib data k n f sch)
  then show ?case
    using insert_cells_keys [of lib data "Suc k" sch] by (auto split: option.splits)
qed simp

lemma insert_cells_value:
  "(n, v) \<in> set (insert_cells lib data k sch) \<Longrightarrow>
   \<exists>f k'. (n, f) \<in> set sch \<and> insert_value lib data k' n f = Some v"
  by (induction lib data k sch rule: insert_cells.induct) (fastforce split: option.splits)+

lemma insert_cells_complete:
  "(n, f) \<in> set sch \<Longrightarrow> \<not> fs_transient f \<Longrightarrow> \<not> fs_generated f \<Longrightarrow> map_of data n = Some j \<Longrightarrow>
   (n, json_to_bind lib j f) \<in> set (insert_cells lib data k sch)"
  by (induction lib data k sch rule: insert_cells.induct)
    (auto simp: insert_value_def split: option.splits)

lemma join_names_no_dollar: "no_dollar (dquote n) \<Longrightarrow> no_dollar n"
  by simp

text \<open>An INSERT names persisted columns only, each once, and its i-th placeholder binds the value
  of its i-th column: the given JSON value of a writable field, its default when the body has none,
  a fresh id or the current time for a generated field (whatever the body says); and every value
  the body gives for a writable field is inserted.\<close>

lemma insert_statement_correct:
  assumes "wf_resource rd"
  shows "\<exists>cells. insert_statement lib rd data =
      (''INSERT INTO '' @ dquote (table rd) @ '' ('' @ join '', '' (map (dquote \<circ> fst) cells)
         @ '') VALUES ('' @ join '', '' (map placeholder [1..<Suc (length cells)])
         @ '') RETURNING '' @ select_columns rd, map snd cells)
    \<and> distinct (map fst cells)
    \<and> (\<forall>(n, v) \<in> set cells. \<exists>f. map_of (rd_schema rd) n = Some f \<and> \<not> fs_transient f
        \<and> (if fs_generated f
           then fs_type f = FtUuid \<and> (\<exists>k. v = BUuid (sl_new_uuid lib k))
             \<or> fs_type f = FtTimestamp \<and> v = BTimestamp (sl_now lib)
           else \<exists>j. (map_of data n = Some j \<or> map_of data n = None \<and> fs_default f = Some j)
             \<and> v = json_to_bind lib j f))
    \<and> (\<forall>n f j. map_of (rd_schema rd) n = Some f \<and> \<not> fs_transient f \<and> \<not> fs_generated f
        \<and> map_of data n = Some j \<longrightarrow> (n, json_to_bind lib j f) \<in> set cells)"
proof -
  let ?cs = "insert_cells lib data 1 (rd_schema rd)"
  have w: "(n, f) \<in> set (rd_schema rd) \<longleftrightarrow> map_of (rd_schema rd) n = Some f" for n f
    using assms by (simp add: wf_resource_def wf_map_in_set)
  have "insert_statement lib rd data =
      (''INSERT INTO '' @ dquote (table rd) @ '' ('' @ join '', '' (map (dquote \<circ> fst) ?cs)
         @ '') VALUES ('' @ join '', '' (map placeholder [1..<Suc (length ?cs)])
         @ '') RETURNING '' @ select_columns rd, map snd ?cs)"
    by (simp add: insert_statement_def insert_loop_def insert_fold Let_def)
  moreover have "distinct (map fst ?cs)"
    using assms by (intro distinct_insert_cells) (simp add: wf_resource_def wf_map_def)
  moreover have "\<exists>f. map_of (rd_schema rd) n = Some f \<and> \<not> fs_transient f
        \<and> (if fs_generated f
           then fs_type f = FtUuid \<and> (\<exists>k. v = BUuid (sl_new_uuid lib k))
             \<or> fs_type f = FtTimestamp \<and> v = BTimestamp (sl_now lib)
           else \<exists>j. (map_of data n = Some j \<or> map_of data n = None \<and> fs_default f = Some j)
             \<and> v = json_to_bind lib j f)" if "(n, v) \<in> set ?cs" for n v
  proof -
    from insert_cells_value [OF that] obtain f k where f: "map_of (rd_schema rd) n = Some f"
      and v: "insert_value lib data k n f = Some v"
      unfolding w by blast
    from v show ?thesis
      by (intro exI [of _ f]) (auto simp: f insert_value_def split: if_splits option.splits)
  qed
  moreover have "(n, json_to_bind lib j f) \<in> set ?cs"
    if "map_of (rd_schema rd) n = Some f" "\<not> fs_transient f" "\<not> fs_generated f" "map_of data n = Some j" for n f j
    using that by (intro insert_cells_complete) (simp_all add: w)
  ultimately show ?thesis by (intro exI [of _ ?cs]) blast
qed

lemma wf_sample_table: "wf_resource sample_table"
  by (simp add: sample_table_def wf_resource_def wf_map_def)

text \<open>The reference: the assignments of an UPDATE.\<close>

definition update_cell :: "sql_lib \<Rightarrow> resource_definition \<Rightarrow> string \<times> json \<Rightarrow> (string \<times> bind_value) option" where
  "update_cell lib rd nv = (case nv of (n, v) \<Rightarrow>
     Option.bind (map_of (rd_schema rd) n) (\<lambda>f.
       if fs_primary f \<or> fs_generated f then None else Some (n, json_to_bind lib v f)))"

definition update_cells :: "sql_lib \<Rightarrow> resource_definition \<Rightarrow> jmap \<Rightarrow> (string \<times> bind_value) list" where
  "update_cells lib rd data = List.map_filter (update_cell lib rd) data
     @ (if touches_updated_at rd then [(''updated_at'', BTimestamp (sl_now lib))] else [])"

definition assignments :: "nat \<Rightarrow> (string \<times> bind_value) list \<Rightarrow> string list" where
  "assignments k cs = map (\<lambda>(i, c). dquote (fst c) @ '' = '' @ placeholder i) (List.enumerate k cs)"

lemma update_cell_iff: "update_cell lib rd (a, j) = Some (n, v) \<longleftrightarrow> a = n \<and>
    (\<exists>f. map_of (rd_schema rd) n = Some f \<and> \<not> fs_primary f \<and> \<not> fs_generated f \<and> v = json_to_bind lib j f)"
  by (auto simp: update_cell_def bind_eq_Some_conv)

lemma update_step_cell: "update_step lib rd nv st =
    (case update_cell lib rd nv of None \<Rightarrow> st | Some (n, v) \<Rightarrow> update_push n v st)"
  by (auto simp: update_step_def update_cell_def split: option.splits prod.splits)

lemma update_fold:
  "fold (update_step lib rd) data st =
     (let cs = List.map_filter (update_cell lib rd) data in
      \<lparr>up_clauses = up_clauses st @ assignments (up_idx st) cs,
       up_binds = up_binds st @ map snd cs, up_idx = up_idx st + length cs\<rparr>)"
proof (induction data arbitrary: st)
  case Nil
  then show ?case by (simp add: Let_def List.map_filter_def assignments_def)
next
  case (Cons nv data)
  then show ?case
    by (cases "update_cell lib rd nv")
      (simp_all add: update_step_cell List.map_filter_def Let_def assignments_def update_push_def
        split: prod.splits)
qed

lemma update_loop_cells:
  "update_loop lib rd data =
     \<lparr>up_clauses = assignments 1 (update_cells lib rd data), up_binds = map snd (update_cells lib rd data),
      up_idx = Suc (length (update_cells lib rd data))\<rparr>"
  by (simp add: update_loop_def update_fold Let_def update_cells_def update_push_def assignments_def
      enumerate_append_eq)

lemma update_cell_fst: "update_cell lib rd nv = Some c \<Longrightarrow> fst c = fst nv"
  by (auto simp: update_cell_def bind_eq_Some_conv split: prod.splits if_splits)

lemma distinct_map_filter_fst:
  assumes "distinct (map fst data)" and "\<And>x y. g x = Some y \<Longrightarrow> fst y = fst x"
  shows "distinct (map fst (List.map_filter g data))"
  using assms(1)
proof (induction data)
  case (Cons x data)
  have "fst y \<in> fst ` set data" if "y \<in> set (List.map_filter g data)" for y
  proof -
    from that obtain x where "x \<in> set data" "g x = Some y" by (auto simp: map_filter_iff)
    with assms(2) [of x y] show ?thesis by simp
  qed
  then have "fst ` set (List.map_filter g data) \<subseteq> fst ` set data"
    by auto
  with Cons assms(2) [of x] show ?case
    by (cases "g x") (auto simp: List.map_filter_simps)
qed (simp add: List.map_filter_simps)

lemma distinct_update_cells:
  assumes "wf_map data" shows "distinct (map fst (update_cells lib rd data))"
proof -
  have "distinct (map fst (List.map_filter (update_cell lib rd) data))"
    using assms unfolding wf_map_def by (rule distinct_map_filter_fst) (rule update_cell_fst)
  moreover have "''updated_at'' \<notin> fst ` set (List.map_filter (update_cell lib rd) data)"
    if "touches_updated_at rd"
    using that by (force simp: map_filter_iff update_cell_def touches_updated_at_def bind_eq_Some_conv
        split: option.splits if_splits)
  ultimately show ?thesis by (auto simp: update_cells_def)
qed

lemma update_statement_cells:
  "update_statement lib rd i data =
     (if update_cells lib rd data = [] then Inl empty_update
      else Inr (''UPDATE '' @ dquote (table rd) @ '' SET '' @ join '', '' (assignments 1 (update_cells lib rd data))
        @ '' WHERE '' @ dquote (primary_key rd) @ '' = ''
        @ placeholder (Suc (length (update_cells lib rd data))) @ not_deleted rd
        @ '' RETURNING '' @ select_columns rd, map snd (update_cells lib rd data) @ [BUuid i]))"
proof -
  have "assignments 1 cs = [] \<longleftrightarrow> cs = []" for cs
    by (cases cs) (auto simp: assignments_def)
  then show ?thesis by (simp add: update_statement_def update_loop_cells Let_def)
qed

text \<open>An UPDATE assigns each column once, the i-th placeholder binds the i-th column's value and
  the last one the row's id; it never assigns a primary key or a generated column from the body,
  nor a name outside the schema, and every writable field of the body is assigned. Without any
  assignment the request is refused.\<close>

lemma update_statement_correct:
  assumes "wf_map data"
  shows "\<exists>cells. update_statement lib rd i data =
      (if cells = [] then Inl empty_update
       else Inr (''UPDATE '' @ dquote (table rd) @ '' SET '' @ join '', '' (assignments 1 cells)
         @ '' WHERE '' @ dquote (primary_key rd) @ '' = '' @ placeholder (Suc (length cells))
         @ not_deleted rd @ '' RETURNING '' @ select_columns rd, map snd cells @ [BUuid i]))
    \<and> distinct (map fst cells)
    \<and> (\<forall>n v. (n, v) \<in> set cells \<longleftrightarrow>
        (\<exists>f j. map_of (rd_schema rd) n = Some f \<and> \<not> fs_primary f \<and> \<not> fs_generated f
           \<and> map_of data n = Some j \<and> v = json_to_bind lib j f)
        \<or> n = ''updated_at'' \<and> touches_updated_at rd \<and> v = BTimestamp (sl_now lib))"
proof -
  have "(n, v) \<in> set (update_cells lib rd data) \<longleftrightarrow>
        (\<exists>f j. map_of (rd_schema rd) n = Some f \<and> \<not> fs_primary f \<and> \<not> fs_generated f
           \<and> map_of data n = Some j \<and> v = json_to_bind lib j f)
        \<or> n = ''updated_at'' \<and> touches_updated_at rd \<and> v = BTimestamp (sl_now lib)" for n v
  proof -
    have "(n, v) \<in> set (List.map_filter (update_cell lib rd) data) \<longleftrightarrow>
        (\<exists>f j. map_of (rd_schema rd) n = Some f \<and> \<not> fs_primary f \<and> \<not> fs_generated f
           \<and> (n, j) \<in> set data \<and> v = json_to_bind lib j f)"
      unfolding map_filter_iff Bex_def split_paired_Ex update_cell_iff by blast
    then show ?thesis
      using assms by (auto simp: update_cells_def wf_map_in_set)
  qed
  with distinct_update_cells [OF assms] show ?thesis
    by - (rule exI [of _ "update_cells lib rd data"], rule conjI, rule update_statement_cells,
      rule conjI, assumption, intro allI, assumption)
qed

section \<open>Values never reach the text of a statement\<close>

definition same_text :: "sql_state \<Rightarrow> sql_state \<Rightarrow> bool" where
  "same_text st st' \<longleftrightarrow> sq_text st = sq_text st' \<and> sq_where st = sq_where st' \<and> sq_offset st = sq_offset st'"

lemma filters_to_sql_cong:
  "map fp_field fs = map fp_field fs' \<Longrightarrow>
   filters_to_sql first fs sql has_where offset = filters_to_sql first fs' sql has_where offset"
proof (induction first fs sql has_where offset arbitrary: fs' rule: filters_to_sql.induct)
  case (2 first f fs sql has_where offset)
  then obtain f' fs'' where "fs' = f' # fs''" "fp_field f = fp_field f'" "map fp_field fs = map fp_field fs''"
    by (cases fs') auto
  with "2.IH" [of fs''] show ?case by simp
qed simp

lemma apply_filters_cong:
  assumes "same_text st st'" and "map fp_field fs = map fp_field fs'"
  shows "same_text (apply_filters lib rd fs st) (apply_filters lib rd fs' st')"
proof -
  have "fs = [] \<longleftrightarrow> fs' = []" using assms(2) by auto
  then show ?thesis
    using assms(1) filters_to_sql_cong [OF assms(2), of True "sq_text st'" "sq_where st'" "sq_offset st'"]
    by (simp add: apply_filters_def same_text_def filter_apply_to_sql_def Let_def split_beta)
qed

lemma apply_search_cong:
  assumes "same_text st st'" and "map_option se_fields search = map_option se_fields search'"
  shows "same_text (apply_search search st) (apply_search search' st')"
  using assms by (cases search; cases search')
    (auto simp: apply_search_def same_text_def search_apply_to_sql_def)

lemma apply_after_cong:
  assumes "same_text st st'" and "decoded = None \<longleftrightarrow> decoded' = None"
  shows "sq_text (apply_after decoded st) = sq_text (apply_after decoded' st')"
  using assms by (cases decoded; cases decoded') (auto simp: apply_after_def same_text_def)

lemma where_state_cong:
  assumes "map fp_field fs = map fp_field fs'" and "map_option se_fields search = map_option se_fields search'"
  shows "same_text (where_state lib rd head fs search) (where_state lib rd head fs' search')"
  unfolding where_state_def
  by (intro apply_search_cong apply_filters_cong assms) (simp add: same_text_def)

lemma insert_cells_names:
  assumes "\<And>n. map_of data n = None \<longleftrightarrow> map_of data' n = None"
  shows "map fst (insert_cells lib data k sch) = map fst (insert_cells lib data' k sch)"
proof (induction sch arbitrary: k)
  case (Cons nf sch)
  obtain n f where nf: "nf = (n, f)" by (cases nf)
  have "insert_value lib data k n f = None \<longleftrightarrow> insert_value lib data' k n f = None"
    using assms [of n] by (auto simp: insert_value_def split: option.splits)
  with Cons nf show ?case by (auto split: option.splits)
qed simp

lemma update_cells_names:
  assumes "map fst data = map fst data'"
  shows "map fst (update_cells lib rd data) = map fst (update_cells lib rd data')"
proof -
  have "map fst (List.map_filter (update_cell lib rd) d) =
      filter (\<lambda>n. \<exists>f. map_of (rd_schema rd) n = Some f \<and> \<not> fs_primary f \<and> \<not> fs_generated f) (map fst d)" for d
  proof (induction d)
    case (Cons x d)
    obtain a b where x: "x = (a, b)" by (cases x)
    from Cons show ?case
      unfolding x by (cases "map_of (rd_schema rd) a") (simp_all add: List.map_filter_simps update_cell_def)
  qed (simp add: List.map_filter_simps)
  with assms show ?thesis by (simp add: update_cells_def)
qed

lemma assignments_by_name:
  "assignments k cs = map (\<lambda>(i, n). dquote n @ '' = '' @ placeholder i) (List.enumerate k (map fst cs))"
  by (induction cs arbitrary: k) (simp_all add: assignments_def)

lemma assignments_names: "map fst cs = map fst cs' \<Longrightarrow> assignments k cs = assignments k cs'"
  unfolding assignments_by_name by (rule arg_cong)

text \<open>No value of a request reaches the text of a statement: two requests that use the same
  filters, the same search fields, both or neither a cursor, and bodies with the same keys run the
  same SQL text, whatever their filter values, search term, cursor and body values are. Injected
  text can only arrive as a bound value.\<close>

lemma sql_text_independent_of_values:
  assumes "map fp_field fs = map fp_field fs'"
    and "map_option se_fields search = map_option se_fields search'"
    and "decoded = None \<longleftrightarrow> decoded' = None"
    and "map fst data = map fst data'"
  shows "fst (cursor_statement lib rd fs search srt decoded limit)
      = fst (cursor_statement lib rd fs' search' srt decoded' limit)
    \<and> fst (offset_statement lib rd fs search srt off limit)
      = fst (offset_statement lib rd fs' search' srt off limit)
    \<and> fst (count_statement lib rd fs search) = fst (count_statement lib rd fs' search')
    \<and> fst (insert_statement lib rd data) = fst (insert_statement lib rd data')
    \<and> map_sum id fst (update_statement lib rd i data) = map_sum id fst (update_statement lib rd i' data')"
proof (intro conjI)
  note w = where_state_cong [OF assms(1,2), of lib rd]
  show "fst (cursor_statement lib rd fs search srt decoded limit)
      = fst (cursor_statement lib rd fs' search' srt decoded' limit)"
    using apply_after_cong [OF w assms(3)] by (simp add: cursor_statement_def Let_def)
  show "fst (offset_statement lib rd fs search srt off limit)
      = fst (offset_statement lib rd fs' search' srt off limit)"
    using w by (simp add: offset_statement_def Let_def same_text_def)
  show "fst (count_statement lib rd fs search) = fst (count_statement lib rd fs' search')"
    using w by (simp add: count_statement_def Let_def same_text_def)
  have "map_of data n = None \<longleftrightarrow> map_of data' n = None" for n
    using assms(4) by (metis list.set_map map_of_eq_None_iff)
  then have c: "map fst (insert_cells lib data 1 (rd_schema rd)) = map fst (insert_cells lib data' 1 (rd_schema rd))"
    by (rule insert_cells_names)
  then have "map (dquote \<circ> fst) (insert_cells lib data 1 (rd_schema rd))
      = map (dquote \<circ> fst) (insert_cells lib data' 1 (rd_schema rd))"
    by (metis list.map_comp)
  moreover have "length (insert_cells lib data 1 (rd_schema rd)) = length (insert_cells lib data' 1 (rd_schema rd))"
    using c by (metis length_map)
  ultimately show "fst (insert_statement lib rd data) = fst (insert_statement lib rd data')"
    by (simp add: insert_statement_def insert_loop_def insert_fold Let_def)
  note u = update_cells_names [OF assms(4), of lib rd]
  have "length (update_cells lib rd data) = length (update_cells lib rd data')"
    using u by (metis length_map)
  with assignments_names [OF u, of 1]
  show "map_sum id fst (update_statement lib rd i data) = map_sum id fst (update_statement lib rd i' data')"
    by (auto simp: update_statement_cells)
qed

end
