(* ===== verification/Cursor_Paging.thy ===== *)
theory Cursor_Paging
  imports Sql_Builder
begin

text \<open>
  Cursor pagination as a client sees it: it asks for a page, follows the cursor of the response and
  stops when there is none. \<open>find_all\<close> is the model of \<open>db/query.rs\<close>; the database's answer to the
  cursor statement is the documented meaning of \<open>WHERE id > cursor ORDER BY id LIMIT limit + 1\<close>.
\<close>

definition follow_cursor :: "json \<Rightarrow> string option" where
  "follow_cursor meta = json_get_str meta ''cursor''"

fun walk_pages :: "nat \<Rightarrow> sql_lib \<Rightarrow> pool \<Rightarrow> count_pool \<Rightarrow> resource_definition \<Rightarrow> filter_param list \<Rightarrow>
    search_param option \<Rightarrow> int \<Rightarrow> string option \<Rightarrow> json list res" where
  "walk_pages 0 lib execute count rd fs search limit after = Inl (Internal ''too many pages'')"
| "walk_pages (Suc k) lib execute count rd fs search limit after =
     and_then (find_all lib execute count rd fs search [] (Cursor after limit)) (\<lambda>(rows, meta).
       (case follow_cursor meta of
          None \<Rightarrow> Inr rows
        | Some c \<Rightarrow> and_then (walk_pages k lib execute count rd fs search limit (Some c))
            (\<lambda>rest. Inr (rows @ rest))))"

definition after_cursor :: "uuid option \<Rightarrow> uuid \<Rightarrow> bool" where
  "after_cursor decoded u \<longleftrightarrow> (case decoded of None \<Rightarrow> True | Some c \<Rightarrow> c < u)"

text \<open>The named hypotheses: the pool answers the cursor statement with the first \<open>limit + 1\<close>
  matching rows after the cursor in id order; each row carries its id; and the text of a uuid is
  read back by the uuid parser and is UTF-8.\<close>

definition answers_cursor_queries :: "sql_lib \<Rightarrow> pool \<Rightarrow> resource_definition \<Rightarrow> filter_param list \<Rightarrow>
    search_param option \<Rightarrow> int \<Rightarrow> (uuid \<Rightarrow> json) \<Rightarrow> uuid list \<Rightarrow> bool" where
  "answers_cursor_queries lib execute rd fs search limit row ids \<longleftrightarrow>
     (\<forall>decoded. (case cursor_statement lib rd fs search [] decoded limit of (sql, binds) \<Rightarrow>
        execute_query lib execute rd sql binds =
          Inr (map row (take (nat (limit + 1)) (filter (after_cursor decoded) ids)))))"

definition rows_carry_ids :: "sql_lib \<Rightarrow> (uuid \<Rightarrow> json) \<Rightarrow> uuid list \<Rightarrow> bool" where
  "rows_carry_ids lib row ids \<longleftrightarrow> (\<forall>u \<in> set ids.
     json_get_str (row u) ''id'' = Some (show_uuid (sl_values lib) u)
     \<and> parse_uuid (sl_values lib) (show_uuid (sl_values lib) u) = Some u
     \<and> valid_utf8 (show_uuid (sl_values lib) u))"

lemma filter_after_nth:
  assumes "sorted_wrt (<) (xs :: uuid list)" and "0 < n" and "n \<le> length xs"
  shows "filter (\<lambda>v. xs ! (n - 1) < v) xs = drop n xs"
proof -
  have "xs ! i \<le> xs ! (n - 1)" if "i < n" for i
  proof (cases "i = n - 1")
    case False
    with that have "i < n - 1" by simp
    with assms show ?thesis by (simp add: sorted_wrt_iff_nth_less less_imp_le)
  qed simp
  then have "filter (\<lambda>v. xs ! (n - 1) < v) (take n xs) = []"
    by (auto simp: filter_empty_conv in_set_conv_nth not_less)
  moreover have "filter (\<lambda>v. xs ! (n - 1) < v) (drop n xs) = drop n xs"
    using assms by (auto simp: filter_id_conv in_set_conv_nth sorted_wrt_iff_nth_less)
  ultimately show ?thesis
    by (metis append_Nil append_take_drop_id filter_append)
qed

lemma after_filter:
  assumes "u \<in> set (filter (after_cursor decoded) ids)"
  shows "filter (after_cursor (Some u)) ids = filter (after_cursor (Some u)) (filter (after_cursor decoded) ids)"
  using assms by (auto simp: after_cursor_def intro!: filter_cong split: option.splits)

lemma page_step:
  assumes "answers_cursor_queries lib execute rd fs search limit row ids"
    and "decode_after lib after = Inr decoded"
  shows "find_all lib execute count rd fs search [] (Cursor after limit) =
    (case cursor_page limit (map row (take (nat (limit + 1)) (filter (after_cursor decoded) ids))) of
       (rows, cursor, has_more) \<Rightarrow>
         Inr (rows, JObj [(''cursor'', json_of_option JStr cursor), (''has_more'', JBool has_more)]))"
  using assms unfolding answers_cursor_queries_def
  by (auto simp: find_all_def Let_def split: prod.splits)

lemma follow_cursor_meta [simp]:
  "follow_cursor (JObj [(''cursor'', json_of_option JStr c), (''has_more'', b)]) = c"
  by (cases c) (simp_all add: follow_cursor_def json_get_str_def)

lemma follow_cursor_null [simp]: "follow_cursor (JObj [(''cursor'', JNull), (''has_more'', b)]) = None"
  by (simp add: follow_cursor_def json_get_str_def)

lemma walk_pages_from:
  assumes q: "answers_cursor_queries lib execute rd fs search limit row ids"
    and r: "rows_carry_ids lib row ids" and s: "sorted_wrt (<) ids"
    and l: "1 \<le> limit" "limit \<le> 100"
  shows "decode_after lib after = Inr decoded \<Longrightarrow>
    length (filter (after_cursor decoded) ids) < k \<Longrightarrow>
    walk_pages k lib execute count rd fs search limit after = Inr (map row (filter (after_cursor decoded) ids))"
proof (induction k arbitrary: after decoded)
  case (Suc k)
  let ?xs = "filter (after_cursor decoded) ids" and ?l = "nat limit"
  have n: "nat (limit + 1) = Suc ?l" "nat (limit mod 2 ^ 64) = ?l" "0 < ?l" "limit = int ?l"
    using l by auto
  show ?case
  proof (cases "length ?xs \<le> ?l")
    case True
    then have "int (length ?xs) \<le> limit" using l by linarith
    with True show ?thesis
      using n by (simp add: page_step [OF q Suc.prems(1)] cursor_page_def Let_def)
  next
    case False
    let ?u = "?xs ! (?l - 1)"
    have u: "?u \<in> set ?xs" using False n by (intro nth_mem) auto
    then have ui: "?u \<in> set ids" by simp
    have lst: "last (map row (take ?l ?xs)) = row ?u"
      using False n(3) by (subst last_conv_nth) (auto simp: min_def)
    have id: "json_get_str (row ?u) ''id'' = Some (show_uuid (sl_values lib) ?u)"
      using r ui by (simp add: rows_carry_ids_def)
    have page: "find_all lib execute count rd fs search [] (Cursor after limit) =
        Inr (map row (take ?l ?xs), JObj [(''cursor'', json_of_option JStr
          (Some (encode_cursor (show_uuid (sl_values lib) ?u)))), (''has_more'', JBool True)])"
      using False n lst id
      by (auto simp: page_step [OF q Suc.prems(1)] cursor_page_def Let_def take_map min_def not_le)
    have dec: "decode_after lib (Some (encode_cursor (show_uuid (sl_values lib) ?u))) = Inr (Some ?u)"
      using r ui by (auto simp: decode_after_def rows_carry_ids_def decode_cursor_def encode_cursor_def
          base64_round_trip)
    have rest: "filter (after_cursor (Some ?u)) ids = drop ?l ?xs"
    proof -
      have "filter (\<lambda>v. ?u < v) ?xs = drop ?l ?xs"
        using False n s by (intro filter_after_nth sorted_wrt_filter) auto
      moreover have "after_cursor (Some ?u) = (\<lambda>v. ?u < v)"
        by (simp add: after_cursor_def fun_eq_iff)
      ultimately show ?thesis
        using after_filter [OF u] by simp
    qed
    have "walk_pages k lib execute count rd fs search limit (Some (encode_cursor (show_uuid (sl_values lib) ?u)))
        = Inr (map row (drop ?l ?xs))"
      using Suc.IH [OF dec] Suc.prems(2) n(3) False unfolding rest by simp
    then show ?thesis
      by (simp only: walk_pages.simps page and_then.simps prod.case follow_cursor_meta option.case)
        (simp flip: map_append)
  qed
qed simp


definition toy_pool :: pool where
  "toy_pool sql binds = Inr (map (\<lambda>u name t. Inr (Some (if name = ''id'' then CUuid u else CText ''x'')))
     (take 2 (filter (after_cursor (case binds of [BUuid c] \<Rightarrow> Some c | _ \<Rightarrow> None)) [3, 5, 9])))"

definition toy_row :: "uuid \<Rightarrow> json" where
  "toy_row u = JObj [(''id'', JStr (show_nat u)), (''title'', JStr ''x'')]"


end
