(* ===== verification/Ddl.thy ===== *)
theory Ddl
  imports Sql_Builder Resource_Validator
begin

text \<open>
  The CREATE TABLE generators for PostgreSQL, MySQL and SQLite in
  \<open>shaperail-runtime/src/db/query.rs\<close>. The three functions of the source are one loop that differs
  in quoting, type names and default expressions; the differences are the record of a dialect. The
  text of a JSON value (\<open>serde_json\<close>) is a parameter.
\<close>

section \<open>Types and defaults\<close>

definition sized_varchar :: "field_schema \<Rightarrow> string" where
  "sized_varchar f = (case json_u64 (fs_max f) of
     Some n \<Rightarrow> ''VARCHAR('' @ show_nat n @ '')'' | None \<Rightarrow> ''TEXT'')"

fun array_item_type :: "field_type \<Rightarrow> string" where
  "array_item_type FtInteger = ''BIGINT''"
| "array_item_type FtNumber = ''DOUBLE PRECISION''"
| "array_item_type FtBoolean = ''BOOLEAN''"
| "array_item_type FtTimestamp = ''TIMESTAMPTZ''"
| "array_item_type FtDate = ''DATE''"
| "array_item_type FtUuid = ''UUID''"
| "array_item_type _ = ''TEXT''"

definition field_type_to_sql :: "field_type \<Rightarrow> field_schema \<Rightarrow> string" where
  "field_type_to_sql t f =
     (case t of
        FtUuid \<Rightarrow> ''UUID''
      | FtString \<Rightarrow> sized_varchar f
      | FtInteger \<Rightarrow> ''BIGINT''
      | FtNumber \<Rightarrow> ''NUMERIC''
      | FtBoolean \<Rightarrow> ''BOOLEAN''
      | FtTimestamp \<Rightarrow> ''TIMESTAMPTZ''
      | FtDate \<Rightarrow> ''DATE''
      | FtEnum \<Rightarrow> ''TEXT''
      | FtJson \<Rightarrow> ''JSONB''
      | FtArray \<Rightarrow> (case fs_items f of Some it \<Rightarrow> array_item_type (it_type it) @ ''[]'' | None \<Rightarrow> ''TEXT[]'')
      | FtFile \<Rightarrow> ''TEXT'')"

definition field_type_to_sql_mysql :: "field_type \<Rightarrow> field_schema \<Rightarrow> string" where
  "field_type_to_sql_mysql t f =
     (case t of
        FtUuid \<Rightarrow> ''CHAR(36)''
      | FtString \<Rightarrow> sized_varchar f
      | FtInteger \<Rightarrow> ''BIGINT''
      | FtNumber \<Rightarrow> ''DECIMAL(65,30)''
      | FtBoolean \<Rightarrow> ''BOOLEAN''
      | FtTimestamp \<Rightarrow> ''DATETIME(6)''
      | FtDate \<Rightarrow> ''DATE''
      | FtEnum \<Rightarrow> ''VARCHAR(255)''
      | FtJson \<Rightarrow> ''JSON''
      | FtArray \<Rightarrow> ''JSON''
      | FtFile \<Rightarrow> ''TEXT'')"

definition field_type_to_sql_sqlite :: "field_type \<Rightarrow> field_schema \<Rightarrow> string" where
  "field_type_to_sql_sqlite t f =
     (case t of
        FtString \<Rightarrow> sized_varchar f
      | FtInteger \<Rightarrow> ''INTEGER''
      | FtNumber \<Rightarrow> ''REAL''
      | FtBoolean \<Rightarrow> ''INTEGER''
      | _ \<Rightarrow> ''TEXT'')"

definition sql_default_value :: "(json \<Rightarrow> string) \<Rightarrow> json \<Rightarrow> string" where
  "sql_default_value json_text v =
     (case v of
        JStr s \<Rightarrow> squote s
      | JNum n \<Rightarrow> json_text (JNum n)
      | JBool b \<Rightarrow> if b then ''TRUE'' else ''FALSE''
      | JNull \<Rightarrow> ''NULL''
      | _ \<Rightarrow> squote (json_text v))"

section \<open>Dialects\<close>

record dialect =
  dl_quote :: "string \<Rightarrow> string"
  dl_type :: "field_type \<Rightarrow> field_schema \<Rightarrow> string"
  dl_default_uuid :: string
  dl_default_timestamp :: string
  dl_default_date :: string
  dl_constraint_name :: "string \<Rightarrow> string"
  dl_deleted_at :: string
  dl_index :: string

definition postgres_dialect :: dialect where
  "postgres_dialect = \<lparr>dl_quote = dquote, dl_type = field_type_to_sql,
     dl_default_uuid = '' DEFAULT gen_random_uuid()'', dl_default_timestamp = '' DEFAULT NOW()'',
     dl_default_date = '' DEFAULT CURRENT_DATE'', dl_constraint_name = dquote,
     dl_deleted_at = '' TIMESTAMPTZ'', dl_index = ''INDEX IF NOT EXISTS ''\<rparr>"

definition mysql_dialect :: dialect where
  "mysql_dialect = \<lparr>dl_quote = backtick, dl_type = field_type_to_sql_mysql,
     dl_default_uuid = '' DEFAULT (UUID())'', dl_default_timestamp = '' DEFAULT (CURRENT_TIMESTAMP)'',
     dl_default_date = '' DEFAULT (CURDATE())'', dl_constraint_name = (\<lambda>s. s),
     dl_deleted_at = '' DATETIME'', dl_index = ''INDEX ''\<rparr>"

definition sqlite_dialect :: dialect where
  "sqlite_dialect = \<lparr>dl_quote = dquote, dl_type = field_type_to_sql_sqlite,
     dl_default_uuid = '' DEFAULT (lower(hex(randomblob(4))) || '' @ squote ''-''
       @ '' || lower(hex(randomblob(2))) || '' @ squote ''-4''
       @ '' || substr(lower(hex(randomblob(2))),2) || '' @ squote ''-''
       @ '' || substr('' @ squote ''89ab'' @ '',abs(random()) % 4 + 1, 1) || lower(hex(randomblob(2))) || ''
       @ squote ''-'' @ '' || lower(hex(randomblob(6))))'',
     dl_default_timestamp = '' DEFAULT (datetime('' @ squote ''now'' @ ''))'',
     dl_default_date = '' DEFAULT (date('' @ squote ''now'' @ ''))'', dl_constraint_name = (\<lambda>s. s),
     dl_deleted_at = '' TEXT'', dl_index = ''INDEX IF NOT EXISTS ''\<rparr>"

section \<open>The generator\<close>

definition column_def :: "dialect \<Rightarrow> (json \<Rightarrow> string) \<Rightarrow> string \<Rightarrow> field_schema \<Rightarrow> string" where
  "column_def d json_text name f =
     dl_quote d name @ '' '' @ dl_type d (fs_type f) f
   @ (if fs_primary f then '' PRIMARY KEY'' else [])
   @ (if fs_required f \<and> \<not> fs_primary f \<and> \<not> fs_nullable f then '' NOT NULL'' else [])
   @ (if fs_unique f \<and> \<not> fs_primary f then '' UNIQUE'' else [])
   @ (case fs_default f of None \<Rightarrow> [] | Some v \<Rightarrow> '' DEFAULT '' @ sql_default_value json_text v)
   @ (if fs_type f = FtUuid \<and> fs_generated f then dl_default_uuid d else [])
   @ (if fs_type f = FtTimestamp \<and> fs_generated f then dl_default_timestamp d else [])
   @ (if fs_type f = FtDate \<and> fs_generated f then dl_default_date d else [])"

definition check_constraint :: "dialect \<Rightarrow> string \<Rightarrow> string \<Rightarrow> field_schema \<Rightarrow> string list" where
  "check_constraint d tbl name f =
     (if fs_type f = FtEnum then
        (case fs_values f of
           None \<Rightarrow> []
         | Some vs \<Rightarrow> [''CONSTRAINT '' @ dl_constraint_name d (''chk_'' @ tbl @ ''_'' @ name) @ '' CHECK ('' 
             @ dl_quote d name @ '' IN ('' @ join '', '' (map squote vs) @ ''))''])
      else [])"

definition foreign_key_constraint :: "dialect \<Rightarrow> string \<Rightarrow> string \<Rightarrow> field_schema \<Rightarrow> string list" where
  "foreign_key_constraint d tbl name f =
     (case Option.bind (fs_reference f) (split_once CHR ''.'') of
        None \<Rightarrow> []
      | Some (ref_table, ref_col) \<Rightarrow>
          [''CONSTRAINT '' @ dl_constraint_name d (''fk_'' @ tbl @ ''_'' @ name) @ '' FOREIGN KEY (''
             @ dl_quote d name @ '') REFERENCES '' @ dl_quote d ref_table @ ''('' @ dl_quote d ref_col @ '')''])"

record ddl_state =
  dd_columns :: "string list"
  dd_constraints :: "string list"

definition ddl_step ::
    "dialect \<Rightarrow> (json \<Rightarrow> string) \<Rightarrow> string \<Rightarrow> string \<times> field_schema \<Rightarrow> ddl_state \<Rightarrow> ddl_state" where
  "ddl_step d json_text tbl nf st = (case nf of (name, f) \<Rightarrow>
     if fs_transient f then st
     else \<lparr>dd_columns = dd_columns st @ [column_def d json_text name f],
           dd_constraints = dd_constraints st @ check_constraint d tbl name f
             @ foreign_key_constraint d tbl name f\<rparr>)"

definition ascii_upper :: "string \<Rightarrow> string" where
  "ascii_upper s = map (\<lambda>c. if 97 \<le> (of_char c :: nat) \<and> (of_char c :: nat) \<le> 122
     then char_of ((of_char c :: nat) - 32) else c) s"

definition index_sql :: "dialect \<Rightarrow> string \<Rightarrow> nat \<times> index_spec \<Rightarrow> string" where
  "index_sql d tbl iix = (case iix of (i, ix) \<Rightarrow>
     '';'' @ newline @ ''CREATE '' @ (if ix_unique ix then ''UNIQUE '' else []) @ dl_index d
       @ dl_constraint_name d (''idx_'' @ tbl @ ''_'' @ show_nat i) @ '' ON '' @ dl_quote d tbl @ '' (''
       @ join '', '' (map (dl_quote d) (ix_fields ix))
       @ (case ix_order ix of None \<Rightarrow> [] | Some o' \<Rightarrow> '' '' @ ascii_upper o') @ '')'')"

definition ddl_columns :: "dialect \<Rightarrow> (json \<Rightarrow> string) \<Rightarrow> resource_definition \<Rightarrow> ddl_state" where
  "ddl_columns d json_text rd =
     (let st = fold (ddl_step d json_text (rd_resource rd)) (rd_schema rd) \<lparr>dd_columns = [], dd_constraints = []\<rparr>
      in if has_soft_delete rd \<and> \<not> has_key (rd_schema rd) ''deleted_at''
         then st\<lparr>dd_columns := dd_columns st @ [dl_quote d ''deleted_at'' @ dl_deleted_at d]\<rparr> else st)"

definition build_create_table :: "dialect \<Rightarrow> (json \<Rightarrow> string) \<Rightarrow> resource_definition \<Rightarrow> string" where
  "build_create_table d json_text rd =
     (let st = ddl_columns d json_text rd; sep = '','' @ newline @ ''  '' in
      ''CREATE TABLE IF NOT EXISTS '' @ dl_quote d (rd_resource rd) @ '' ('' @ newline @ ''  ''
        @ join sep (dd_columns st)
        @ (if dd_constraints st = [] then [] else sep @ join sep (dd_constraints st))
        @ newline @ '')''
        @ (case rd_indexes rd of None \<Rightarrow> []
           | Some ixs \<Rightarrow> concat (map (index_sql d (rd_resource rd)) (List.enumerate 0 ixs))))"

definition build_create_table_sql_postgres :: "(json \<Rightarrow> string) \<Rightarrow> resource_definition \<Rightarrow> string" where
  "build_create_table_sql_postgres = build_create_table postgres_dialect"

definition build_create_table_sql_mysql :: "(json \<Rightarrow> string) \<Rightarrow> resource_definition \<Rightarrow> string" where
  "build_create_table_sql_mysql = build_create_table mysql_dialect"

definition build_create_table_sql_sqlite :: "(json \<Rightarrow> string) \<Rightarrow> resource_definition \<Rightarrow> string" where
  "build_create_table_sql_sqlite = build_create_table sqlite_dialect"

definition build_create_table_sql :: "(json \<Rightarrow> string) \<Rightarrow> resource_definition \<Rightarrow> string" where
  "build_create_table_sql = build_create_table_sql_postgres"

definition build_create_table_sql_for_engine ::
    "(json \<Rightarrow> string) \<Rightarrow> database_engine \<Rightarrow> resource_definition \<Rightarrow> string" where
  "build_create_table_sql_for_engine json_text engine rd =
     (case engine of
        Postgres \<Rightarrow> build_create_table_sql_postgres json_text rd
      | MySQL \<Rightarrow> build_create_table_sql_mysql json_text rd
      | SQLite \<Rightarrow> build_create_table_sql_sqlite json_text rd
      | MongoDB \<Rightarrow> [])"

section \<open>The columns of the table\<close>

definition persisted_fields :: "resource_definition \<Rightarrow> (string \<times> field_schema) list" where
  "persisted_fields rd = filter (\<lambda>(n, f). is_persisted f) (rd_schema rd)"

lemma ddl_fold: "fold (ddl_step d json_text tbl) sch st =
    \<lparr>dd_columns = dd_columns st
        @ map (\<lambda>(n, f). column_def d json_text n f) (filter (\<lambda>(n, f). is_persisted f) sch),
     dd_constraints = dd_constraints st @ concat (map (\<lambda>(n, f). check_constraint d tbl n f
        @ foreign_key_constraint d tbl n f) (filter (\<lambda>(n, f). is_persisted f) sch))\<rparr>"
  by (induction sch arbitrary: st) (auto simp: ddl_step_def is_persisted_def split: prod.splits)

lemma soft_delete_column:
  assumes "resource_ok rd" and "wf_resource rd" and "has_soft_delete rd"
  shows "has_key (rd_schema rd) ''deleted_at''"
proof -
  from assms(3) obtain es a ep where e: "rd_endpoints rd = Some es" "(a, ep) \<in> set es" "ep_soft_delete ep"
    by (auto simp: has_soft_delete_def list_ex_iff split: option.splits)
  with assms(2) have "map_of es a = Some ep"
    by (simp add: wf_resource_def wf_map_in_set)
  with assms(1) e have "endpoint_ok rd a ep" by (auto simp: resource_ok_def)
  with e(3) show ?thesis by (simp add: endpoint_ok_def)
qed

text \<open>For every SQL engine the table of an accepted resource has one column definition per
  persisted field, in schema order, and nothing else: transient fields get no column and the
  implicit \<open>deleted_at\<close> branch is never needed; every column an INSERT or an UPDATE names is a
  column of the table when the body has no transient field.\<close>

lemma ddl_columns_persisted:
  assumes "wf_resource rd" and "resource_ok rd"
  shows "dd_columns (ddl_columns d json_text rd)
      = map (\<lambda>(n, f). column_def d json_text n f) (persisted_fields rd)
    \<and> fst ` set (insert_cells lib data k (rd_schema rd)) \<subseteq> fst ` set (persisted_fields rd)
    \<and> (fst ` set data \<inter> {n. \<exists>f. map_of (rd_schema rd) n = Some f \<and> fs_transient f} = {}
        \<longrightarrow> (\<forall>(n, v) \<in> set (List.map_filter (update_cell lib rd) data).
              n \<in> fst ` set (persisted_fields rd)))"
proof (intro conjI impI)
  have p: "n \<in> fst ` set (persisted_fields rd)"
    if "map_of (rd_schema rd) n = Some f" "\<not> fs_transient f" for n f
    using that by (force simp: persisted_fields_def is_persisted_def dest: map_of_SomeD)
  show "dd_columns (ddl_columns d json_text rd)
      = map (\<lambda>(n, f). column_def d json_text n f) (persisted_fields rd)"
    using soft_delete_column [OF assms(2,1)]
    by (auto simp: ddl_columns_def Let_def ddl_fold persisted_fields_def)
  show "fst ` set (insert_cells lib data k (rd_schema rd)) \<subseteq> fst ` set (persisted_fields rd)"
  proof
    fix n assume "n \<in> fst ` set (insert_cells lib data k (rd_schema rd))"
    then obtain v where "(n, v) \<in> set (insert_cells lib data k (rd_schema rd))" by auto
    then obtain f k' where f: "(n, f) \<in> set (rd_schema rd)" "insert_value lib data k' n f = Some v"
      by (blast dest: insert_cells_value)
    then have "\<not> fs_transient f" by (auto simp: insert_value_def)
    with f(1) show "n \<in> fst ` set (persisted_fields rd)"
      by (force simp: persisted_fields_def is_persisted_def)
  qed
  assume t: "fst ` set data \<inter> {n. \<exists>f. map_of (rd_schema rd) n = Some f \<and> fs_transient f} = {}"
  show "\<forall>(n, v) \<in> set (List.map_filter (update_cell lib rd) data). n \<in> fst ` set (persisted_fields rd)"
  proof clarify
    fix n v assume "(n, v) \<in> set (List.map_filter (update_cell lib rd) data)"
    then obtain j f where j: "(n, j) \<in> set data" and f: "map_of (rd_schema rd) n = Some f"
      unfolding map_filter_iff by (auto simp: update_cell_iff)
    then have "\<not> fs_transient f" using t by force
    with f show "n \<in> fst ` set (persisted_fields rd)" by (rule p)
  qed
qed

lemma resource_ok_sample_table: "resource_ok sample_table"
  unfolding resource_ok_def
proof (intro conjI allI impI)
  show "\<exists>!k. \<exists>f. map_of (rd_schema sample_table) k = Some f \<and> fs_primary f"
    by (rule ex1I [of _ "''id''"]) (auto simp: sample_table_def plain_field_def split: if_splits)
  show "field_ok f" if "map_of (rd_schema sample_table) n = Some f" for n f
    using that by (auto simp: sample_table_def plain_field_def field_ok_def split: if_splits)
qed (auto simp: sample_table_def plain_field_def split: if_splits)

text \<open>SELECT and RETURNING lists name every field of the schema, so a transient field, which has no
  column, makes them name a missing column.\<close>

lemma select_names_missing_column:
  assumes "wf_resource rd"
  shows "set (columns rd) = fst ` set (persisted_fields rd) \<longleftrightarrow>
    (\<forall>n f. map_of (rd_schema rd) n = Some f \<longrightarrow> \<not> fs_transient f)"
proof -
  have w: "(n, f) \<in> set (rd_schema rd) \<longleftrightarrow> map_of (rd_schema rd) n = Some f" for n f
    using assms by (simp add: wf_resource_def wf_map_in_set)
  have c: "n \<in> set (columns rd) \<longleftrightarrow> (\<exists>f. map_of (rd_schema rd) n = Some f)" for n
    by (force simp: columns_def w [symmetric])
  have q: "n \<in> fst ` set (persisted_fields rd) \<longleftrightarrow>
      (\<exists>f. map_of (rd_schema rd) n = Some f \<and> \<not> fs_transient f)" for n
    by (auto simp: persisted_fields_def is_persisted_def w [symmetric] image_iff)
  show ?thesis unfolding set_eq_iff c q by force
qed

end
