(* ===== verification/Auth.thy ===== *)
theory Auth
  imports Core_Types
begin

text \<open>
  Authentication and authorization, \<open>shaperail-runtime/src/auth/\<close>: JWT issue and extraction
  (\<open>jwt.rs\<close>, \<open>extractor.rs\<close>, \<open>tokens.rs\<close>), API keys (\<open>api_key.rs\<close>), role checks (\<open>rbac.rs\<close>) and
  tenant checks of custom handlers (\<open>subject.rs\<close>). Signing and verifying of a token is the crate
  \<open>jsonwebtoken\<close>: two functions of the key, the claims or the token, and the clock. Times are unix
  seconds.
\<close>

section \<open>Tokens\<close>

record claims =
  cl_sub :: string
  cl_role :: string
  cl_iat :: int
  cl_exp :: int
  cl_token_type :: string
  cl_tenant_id :: "string option"

definition default_token_type :: string where
  "default_token_type = ''access''"

record jwt_lib =
  jwt_encode :: "string \<Rightarrow> claims \<Rightarrow> string + string"
  jwt_decode :: "string \<Rightarrow> int \<Rightarrow> string \<Rightarrow> string + claims"

record jwt_config =
  jc_secret :: string
  jc_access_ttl :: int
  jc_refresh_ttl :: int

definition jwt_config_new :: "string \<Rightarrow> int \<Rightarrow> int \<Rightarrow> jwt_config" where
  "jwt_config_new secret access_ttl_secs refresh_ttl_secs =
     \<lparr>jc_secret = secret, jc_access_ttl = access_ttl_secs, jc_refresh_ttl = refresh_ttl_secs\<rparr>"

definition jwt_config_from_env :: "(string \<Rightarrow> string option) \<Rightarrow> jwt_config option" where
  "jwt_config_from_env env =
     Option.bind (env ''JWT_SECRET'') (\<lambda>secret.
       if secret = [] then None else Some (jwt_config_new secret 86400 2592000))"

definition access_claims :: "jwt_config \<Rightarrow> int \<Rightarrow> string \<Rightarrow> string \<Rightarrow> string option \<Rightarrow> claims" where
  "access_claims cfg now user_id role tenant_id =
     \<lparr>cl_sub = user_id, cl_role = role, cl_iat = now, cl_exp = now + jc_access_ttl cfg,
      cl_token_type = ''access'', cl_tenant_id = tenant_id\<rparr>"

definition refresh_claims :: "jwt_config \<Rightarrow> int \<Rightarrow> string \<Rightarrow> string \<Rightarrow> claims" where
  "refresh_claims cfg now user_id role =
     \<lparr>cl_sub = user_id, cl_role = role, cl_iat = now, cl_exp = now + jc_refresh_ttl cfg,
      cl_token_type = ''refresh'', cl_tenant_id = None\<rparr>"

definition encode_access_with_tenant ::
    "jwt_lib \<Rightarrow> jwt_config \<Rightarrow> int \<Rightarrow> string \<Rightarrow> string \<Rightarrow> string option \<Rightarrow> string + string" where
  "encode_access_with_tenant lib cfg now user_id role tenant_id =
     jwt_encode lib (jc_secret cfg) (access_claims cfg now user_id role tenant_id)"

definition encode_access :: "jwt_lib \<Rightarrow> jwt_config \<Rightarrow> int \<Rightarrow> string \<Rightarrow> string \<Rightarrow> string + string" where
  "encode_access lib cfg now user_id role = encode_access_with_tenant lib cfg now user_id role None"

definition encode_refresh :: "jwt_lib \<Rightarrow> jwt_config \<Rightarrow> int \<Rightarrow> string \<Rightarrow> string \<Rightarrow> string + string" where
  "encode_refresh lib cfg now user_id role =
     jwt_encode lib (jc_secret cfg) (refresh_claims cfg now user_id role)"

definition decode_token :: "jwt_lib \<Rightarrow> jwt_config \<Rightarrow> int \<Rightarrow> string \<Rightarrow> string + claims" where
  "decode_token lib cfg now token = jwt_decode lib (jc_secret cfg) now token"

section \<open>Users and API keys\<close>

record authenticated_user =
  au_sub :: string
  au_role :: string
  au_tenant_id :: "string option"

type_synonym api_key_store = "(string \<times> authenticated_user) list"

definition api_key_insert :: "api_key_store \<Rightarrow> string \<Rightarrow> string \<Rightarrow> string \<Rightarrow> api_key_store" where
  "api_key_insert store key user_id role =
     AList.update key \<lparr>au_sub = user_id, au_role = role, au_tenant_id = None\<rparr> store"

definition api_key_lookup :: "api_key_store \<Rightarrow> string \<Rightarrow> authenticated_user option" where
  "api_key_lookup store key = map_of store key"

definition api_key_len :: "api_key_store \<Rightarrow> nat" where
  "api_key_len store = length store"

section \<open>Extraction\<close>

text \<open>A request as the extractor reads it: its headers (the value of a header is a text or not
  visible ASCII, where \<open>to_str\<close> fails) and the registered application data.\<close>

datatype header_value = Text string | Opaque

record auth_request =
  rq_header :: "string \<Rightarrow> header_value option"
  rq_jwt :: "jwt_config option"
  rq_api_keys :: "api_key_store option"

fun header_str :: "header_value \<Rightarrow> string res" where
  "header_str (Text s) = Inr s"
| "header_str Opaque = Inl Unauthorized"

definition authenticate_bearer :: "jwt_lib \<Rightarrow> int \<Rightarrow> auth_request \<Rightarrow> string \<Rightarrow> authenticated_user res" where
  "authenticate_bearer lib now req token =
     and_then (ok_or (Internal ''JWT not configured'') (rq_jwt req)) (\<lambda>cfg.
       (case decode_token lib cfg now token of
          Inl e \<Rightarrow> Inl Unauthorized
        | Inr c \<Rightarrow>
            if cl_token_type c \<noteq> ''access'' then Inl Unauthorized
            else Inr \<lparr>au_sub = cl_sub c, au_role = cl_role c, au_tenant_id = cl_tenant_id c\<rparr>))"

definition authenticate_api_key :: "auth_request \<Rightarrow> authenticated_user res" where
  "authenticate_api_key req =
     (case rq_header req ''X-API-Key'' of
        None \<Rightarrow> Inl Unauthorized
      | Some h \<Rightarrow>
          and_then (header_str h) (\<lambda>key.
          and_then (ok_or Unauthorized (rq_api_keys req)) (\<lambda>store.
            ok_or Unauthorized (api_key_lookup store key))))"

definition extract_auth :: "jwt_lib \<Rightarrow> int \<Rightarrow> auth_request \<Rightarrow> authenticated_user res" where
  "extract_auth lib now req =
     (case rq_header req ''Authorization'' of
        None \<Rightarrow> authenticate_api_key req
      | Some h \<Rightarrow>
          and_then (header_str h) (\<lambda>s.
            (case strip_prefix ''Bearer '' s of
               Some token \<Rightarrow> authenticate_bearer lib now req token
             | None \<Rightarrow> authenticate_api_key req)))"

definition try_extract_auth :: "jwt_lib \<Rightarrow> int \<Rightarrow> auth_request \<Rightarrow> authenticated_user option" where
  "try_extract_auth lib now req = (case extract_auth lib now req of Inr u \<Rightarrow> Some u | Inl e \<Rightarrow> None)"

section \<open>Role checks\<close>

definition enforce :: "auth_rule option \<Rightarrow> authenticated_user option \<Rightarrow> unit res" where
  "enforce rule user =
     (case rule of
        None \<Rightarrow> Inr ()
      | Some Public \<Rightarrow> Inr ()
      | Some Owner \<Rightarrow> if user = None then Inl Unauthorized else Inr ()
      | Some (Roles roles) \<Rightarrow>
          and_then (ok_or Unauthorized user) (\<lambda>u.
            if list_ex (\<lambda>r. r = au_role u) roles then Inr ()
            else if list_ex (\<lambda>r. r = ''owner'') roles then Inr ()
            else Inl Forbidden))"

definition check_owner :: "authenticated_user \<Rightarrow> json \<Rightarrow> unit res" where
  "check_owner user record =
     (case json_get_str record ''created_by'' of
        Some owner_id \<Rightarrow> if owner_id = au_sub user then Inr () else Inl Forbidden
      | None \<Rightarrow> Inl Forbidden)"

definition needs_owner_check :: "auth_rule option \<Rightarrow> authenticated_user option \<Rightarrow> bool" where
  "needs_owner_check rule user =
     (case rule of
        None \<Rightarrow> False
      | Some Owner \<Rightarrow> True
      | Some (Roles roles) \<Rightarrow>
          if \<not> list_ex (\<lambda>r. r = ''owner'') roles then False
          else (case user of
            Some u \<Rightarrow> \<not> list_ex (\<lambda>r. r \<noteq> ''owner'' \<and> r = au_role u) roles
          | None \<Rightarrow> False)
      | Some Public \<Rightarrow> False)"

section \<open>Subjects of custom handlers\<close>

record subject =
  su_sub :: string
  su_role :: string
  su_tenant_id :: "string option"

definition subject_of :: "authenticated_user \<Rightarrow> subject" where
  "subject_of u = \<lparr>su_sub = au_sub u, su_role = au_role u, su_tenant_id = au_tenant_id u\<rparr>"

definition subject_from_request :: "jwt_lib \<Rightarrow> int \<Rightarrow> auth_request \<Rightarrow> subject res" where
  "subject_from_request lib now req =
     and_then (ok_or Unauthorized (try_extract_auth lib now req)) (\<lambda>u. Inr (subject_of u))"

definition is_super_admin :: "subject \<Rightarrow> bool" where
  "is_super_admin s \<longleftrightarrow> su_role s = ''super_admin''"

definition tenant_filter :: "subject \<Rightarrow> string option res" where
  "tenant_filter s =
     (if is_super_admin s then Inr None
      else (case su_tenant_id s of
        Some t \<Rightarrow> if t \<noteq> [] then Inr (Some t) else Inl Unauthorized
      | None \<Rightarrow> Inl Unauthorized))"

definition assert_tenant_match :: "subject \<Rightarrow> string \<Rightarrow> unit res" where
  "assert_tenant_match s record_tenant_id =
     and_then (tenant_filter s) (\<lambda>f.
       (case f of
          None \<Rightarrow> Inr ()
        | Some t \<Rightarrow> if t = record_tenant_id then Inr () else Inl Forbidden))"

text \<open>A \<open>QueryBuilder\<close> as its text and the values bound so far.\<close>

definition scope_to_tenant ::
    "subject \<Rightarrow> string \<Rightarrow> string \<times> string list \<Rightarrow> (string \<times> string list) res" where
  "scope_to_tenant s column builder =
     and_then (tenant_filter s) (\<lambda>f.
       (case f of
          None \<Rightarrow> Inr builder
        | Some t \<Rightarrow> (case builder of (sql, binds) \<Rightarrow>
            Inr (sql @ '' AND '' @ column @ '' = '' @ ''$'' @ show_nat (length binds + 1), binds @ [t]))))"

section \<open>The token endpoints\<close>

record token_pair =
  tp_access_token :: string
  tp_refresh_token :: string
  tp_token_type :: string
  tp_expires_in :: int

definition encoding_res :: "string + 'a \<Rightarrow> 'a res" where
  "encoding_res r = (case r of Inl e \<Rightarrow> Inl (Internal (''Token encoding failed: '' @ e)) | Inr x \<Rightarrow> Inr x)"

definition token_pair_for :: "jwt_lib \<Rightarrow> jwt_config \<Rightarrow> int \<Rightarrow> string \<Rightarrow> string \<Rightarrow> token_pair res" where
  "token_pair_for lib cfg now user_id role =
     and_then (encoding_res (encode_access lib cfg now user_id role)) (\<lambda>access.
     and_then (encoding_res (encode_refresh lib cfg now user_id role)) (\<lambda>refresh.
       Inr \<lparr>tp_access_token = access, tp_refresh_token = refresh, tp_token_type = ''Bearer'',
            tp_expires_in = jc_access_ttl cfg\<rparr>))"

definition handle_issue_token :: "jwt_lib \<Rightarrow> jwt_config \<Rightarrow> int \<Rightarrow> string \<Rightarrow> string \<Rightarrow> token_pair res" where
  "handle_issue_token lib cfg now user_id role = token_pair_for lib cfg now user_id role"

definition handle_refresh_token :: "jwt_lib \<Rightarrow> jwt_config \<Rightarrow> int \<Rightarrow> string \<Rightarrow> token_pair res" where
  "handle_refresh_token lib cfg now refresh_token =
     (case decode_token lib cfg now refresh_token of
        Inl e \<Rightarrow> Inl Unauthorized
      | Inr c \<Rightarrow>
          if cl_token_type c \<noteq> ''refresh'' then Inl Unauthorized
          else token_pair_for lib cfg now (cl_sub c) (cl_role c))"

section \<open>The access decision\<close>

definition owns :: "authenticated_user \<Rightarrow> json \<Rightarrow> bool" where
  "owns u record \<longleftrightarrow> json_get_str record ''created_by'' = Some (au_sub u)"

text \<open>What an \<open>auth:\<close> rule of a resource file promises.\<close>

definition access_allowed :: "auth_rule option \<Rightarrow> authenticated_user option \<Rightarrow> json \<Rightarrow> bool" where
  "access_allowed rule user record \<longleftrightarrow>
     (case rule of
        None \<Rightarrow> True
      | Some Public \<Rightarrow> True
      | Some Owner \<Rightarrow> (\<exists>u. user = Some u \<and> owns u record)
      | Some (Roles roles) \<Rightarrow> (\<exists>u. user = Some u
          \<and> (au_role u \<in> set roles \<and> au_role u \<noteq> ''owner'' \<or> ''owner'' \<in> set roles \<and> owns u record)))"

text \<open>The three checks of a record endpoint together decide the promised rule: the role check passes
  and the ownership check, when it is required, passes, exactly when the rule is public, or the
  caller has one of the listed roles, or the rule admits owners and the caller created the record.\<close>

lemma access_decision:
  "(enforce rule user = Inr ()
     \<and> (needs_owner_check rule user \<longrightarrow> (\<exists>u. user = Some u \<and> check_owner u record = Inr ())))
   \<longleftrightarrow> access_allowed rule user record"
proof -
  have o: "check_owner u record = Inr () \<longleftrightarrow> owns u record" for u
    by (auto simp: check_owner_def owns_def split: option.splits)
  show ?thesis
  proof (cases rule)
    case (Some r)
    then show ?thesis
      by (cases r; cases user)
        (auto simp: enforce_def needs_owner_check_def access_allowed_def o list_ex_iff result_simps ok_or_def)
  qed (simp add: enforce_def needs_owner_check_def access_allowed_def)
qed

lemma enforce_errors:
  "enforce rule user = Inl e \<Longrightarrow> e = (if user = None then Unauthorized else Forbidden)"
  by (auto simp: enforce_def ok_or_def split: option.splits auth_rule.splits if_splits)

section \<open>What a request authenticates as\<close>


section \<open>Issued tokens\<close>

text \<open>The documented behaviour of \<open>jsonwebtoken\<close> (HS256, default validation): signing succeeds, and
  a token it signed verifies to the same claims until its expiry.\<close>

definition jwt_round_trips :: "jwt_lib \<Rightarrow> bool" where
  "jwt_round_trips lib \<longleftrightarrow> (\<forall>secret c. \<exists>token. jwt_encode lib secret c = Inr token
     \<and> (\<forall>now \<le> cl_exp c. jwt_decode lib secret now token = Inr c))"

definition bearer_request :: "jwt_config \<Rightarrow> string \<Rightarrow> auth_request" where
  "bearer_request cfg token = \<lparr>rq_header = (\<lambda>n. if n = ''Authorization'' then Some (Text (''Bearer '' @ token))
     else None), rq_jwt = Some cfg, rq_api_keys = None\<rparr>"

lemma extract_bearer:
  "extract_auth lib now (bearer_request cfg token) = authenticate_bearer lib now (bearer_request cfg token) token"
proof -
  have "strip_prefix ''Bearer '' (''Bearer '' @ token) = Some token"
    by (simp only: strip_prefix_Some_iff)
  then show ?thesis
    by (simp only: extract_auth_def bearer_request_def auth_request.simps if_True option.case
        header_str.simps and_then.simps simp_thms)
qed

text \<open>The token pair of the issue endpoint works as intended: within the access lifetime the
  access token authenticates as the user and role it was issued for; the refresh token is refused
  as a credential and within its lifetime buys a new pair whose access token authenticates as the
  same user and role.\<close>

lemma issued_tokens_work:
  assumes "jwt_round_trips lib" and "handle_issue_token lib cfg now user_id role = Inr pair"
    and "0 \<le> jc_access_ttl cfg"
    and "now \<le> t" and "t \<le> now + jc_access_ttl cfg" and "t \<le> now + jc_refresh_ttl cfg"
  defines "u \<equiv> \<lparr>au_sub = user_id, au_role = role, au_tenant_id = None\<rparr>"
  shows "extract_auth lib t (bearer_request cfg (tp_access_token pair)) = Inr u
    \<and> extract_auth lib t (bearer_request cfg (tp_refresh_token pair)) = Inl Unauthorized
    \<and> (\<exists>pair'. handle_refresh_token lib cfg t (tp_refresh_token pair) = Inr pair'
        \<and> extract_auth lib t (bearer_request cfg (tp_access_token pair')) = Inr u)"
proof -
  have rt: "\<exists>token. jwt_encode lib secret c = Inr token
      \<and> (\<forall>now \<le> cl_exp c. jwt_decode lib secret now token = Inr c)" for secret c
    using assms(1) by (simp add: jwt_round_trips_def)
  have acc: "extract_auth lib t' (bearer_request cfg a) = Inr u"
    if "jwt_encode lib (jc_secret cfg) (access_claims cfg n user_id role None) = Inr a"
      and "t' \<le> n + jc_access_ttl cfg" for n t' a
    using that rt [of "jc_secret cfg" "access_claims cfg n user_id role None"]
    unfolding extract_bearer authenticate_bearer_def
    by (auto simp: bearer_request_def ok_or_def decode_token_def access_claims_def u_def)
  have ref: "jwt_decode lib (jc_secret cfg) t r = Inr (refresh_claims cfg now user_id role)"
    if "jwt_encode lib (jc_secret cfg) (refresh_claims cfg now user_id role) = Inr r" for r
    using that rt [of "jc_secret cfg" "refresh_claims cfg now user_id role"] assms(6)
    by (auto simp: refresh_claims_def)
  obtain a r where ar: "jwt_encode lib (jc_secret cfg) (access_claims cfg now user_id role None) = Inr a"
    "jwt_encode lib (jc_secret cfg) (refresh_claims cfg now user_id role) = Inr r"
    and p: "tp_access_token pair = a" "tp_refresh_token pair = r"
    using assms(2) by (auto simp: handle_issue_token_def token_pair_for_def result_simps encoding_res_def
        encode_access_def encode_access_with_tenant_def encode_refresh_def split: sum.splits)
  obtain a' where a': "jwt_encode lib (jc_secret cfg) (access_claims cfg t user_id role None) = Inr a'"
    using rt by blast
  obtain r' where r': "jwt_encode lib (jc_secret cfg) (refresh_claims cfg t user_id role) = Inr r'"
    using rt by blast
  have "extract_auth lib t (bearer_request cfg r) = Inl Unauthorized"
    unfolding extract_bearer authenticate_bearer_def
    by (simp add: bearer_request_def ok_or_def decode_token_def ref [OF ar(2)]) (simp add: refresh_claims_def)
  moreover have "handle_refresh_token lib cfg t r = Inr \<lparr>tp_access_token = a', tp_refresh_token = r',
      tp_token_type = ''Bearer'', tp_expires_in = jc_access_ttl cfg\<rparr>"
  proof -
    have "cl_token_type (refresh_claims cfg now user_id role) = ''refresh''"
      "cl_sub (refresh_claims cfg now user_id role) = user_id"
      "cl_role (refresh_claims cfg now user_id role) = role"
      by (simp_all add: refresh_claims_def)
    with a' r' show ?thesis
      by (simp add: handle_refresh_token_def decode_token_def ref [OF ar(2)] token_pair_for_def encoding_res_def
          encode_access_def encode_access_with_tenant_def encode_refresh_def)
  qed
  ultimately show ?thesis
    using acc [OF ar(1) assms(5)] acc [OF a', of t] assms(3) p by auto
qed

text \<open>A token format without secrecy, to show that the hypothesis can hold: the texts of the claims,
  each character marked and each text terminated.\<close>

definition pack :: "string list \<Rightarrow> string" where
  "pack ss = concat (map (\<lambda>s. concat (map (\<lambda>c. [CHR ''c'', c]) s) @ ''e'') ss)"

fun unpack :: "string \<Rightarrow> string \<Rightarrow> string list" where
  "unpack acc [] = []"
| "unpack acc [k] = (if k = CHR ''e'' then [acc] else [])"
| "unpack acc (k # c # s) = (if k = CHR ''e'' then acc # unpack [] (c # s) else unpack (acc @ [c]) s)"

lemma unpack_text: "unpack acc (concat (map (\<lambda>c. [CHR ''c'', c]) s) @ ''e'' @ r) = (acc @ s) # unpack [] r"
  by (induction s arbitrary: acc) (cases r; simp)+

lemma unpack_pack [simp]: "unpack [] (pack ss) = ss"
  using unpack_text [of "[]"] by (induction ss) (auto simp: pack_def)

definition int_of_text :: "string \<Rightarrow> int" where
  "int_of_text s = (case s of c # r \<Rightarrow> if c = CHR ''-'' then - int (nat_of_digits r) else int (nat_of_digits s)
     | [] \<Rightarrow> 0)"

lemma int_of_text_show_int [simp]: "int_of_text (show_int i) = i"
proof (cases "i < 0")
  case True
  then show ?thesis by (simp add: int_of_text_def show_int_def show_nat_digits)
next
  case False
  obtain c r where c: "show_nat (nat i) = c # r"
    by (meson neq_Nil_conv show_nat_not_Nil)
  then have "c \<noteq> CHR ''-''" using hd_show_nat [of "nat i"] by (auto simp: is_digit_def)
  with False c show ?thesis
    using show_nat_digits [of "nat i"] by (simp add: int_of_text_def show_int_def)
qed

definition toy_jwt :: jwt_lib where
  "toy_jwt = \<lparr>
     jwt_encode = (\<lambda>secret c. Inr (pack [cl_sub c, cl_role c, show_int (cl_iat c), show_int (cl_exp c),
       cl_token_type c, case cl_tenant_id c of None \<Rightarrow> ''n'' | Some t \<Rightarrow> CHR ''s'' # t])),
     jwt_decode = (\<lambda>secret now token. (case unpack [] token of
       [s1, s2, s3, s4, s5, s6] \<Rightarrow>
         Inr \<lparr>cl_sub = s1, cl_role = s2, cl_iat = int_of_text s3, cl_exp = int_of_text s4,
              cl_token_type = s5, cl_tenant_id = (if s6 = ''n'' then None else Some (tl s6))\<rparr>
     | _ \<Rightarrow> Inl ''malformed''))\<rparr>"

lemma toy_jwt_round_trips: "jwt_round_trips toy_jwt"
proof -
  have "jwt_decode toy_jwt secret now (pack [cl_sub c, cl_role c, show_int (cl_iat c), show_int (cl_exp c),
       cl_token_type c, case cl_tenant_id c of None \<Rightarrow> ''n'' | Some t \<Rightarrow> CHR ''s'' # t]) = Inr c" for secret now c
    by (cases c; cases "cl_tenant_id c") (auto simp: toy_jwt_def)
  then show ?thesis by (simp add: jwt_round_trips_def) (simp add: toy_jwt_def)
qed

text \<open>The exchange of a refresh token loses the tenant: the new access token has no tenant claim.\<close>

lemma refreshed_token_has_no_tenant:
  "cl_tenant_id (access_claims cfg now u r None) = None"
  by (simp add: access_claims_def)

section \<open>Tenant checks of subjects\<close>

text \<open>The tenant checks of custom handlers fail closed: a record passes exactly when the caller
  is a super admin or has a non-empty tenant claim equal to the record's tenant; a query is scoped
  to the caller's own tenant, bound as a value; and a caller without a tenant is refused by both.\<close>

lemma tenant_checks_fail_closed:
  "(assert_tenant_match s t = Inr () \<longleftrightarrow>
      su_role s = ''super_admin'' \<or> su_tenant_id s = Some t \<and> t \<noteq> [])
   \<and> (scope_to_tenant s column (sql, binds) =
      (if su_role s = ''super_admin'' then Inr (sql, binds)
       else case su_tenant_id s of
         Some own \<Rightarrow> if own = [] then Inl Unauthorized
            else Inr (sql @ '' AND '' @ column @ '' = '' @ ''$'' @ show_nat (length binds + 1), binds @ [own])
       | None \<Rightarrow> Inl Unauthorized))"
  by (auto simp: assert_tenant_match_def scope_to_tenant_def tenant_filter_def is_super_admin_def
      split: option.splits)

end
