(* ===== verification/Rate_Limit.thy ===== *)
theory Rate_Limit
  imports Core_Types
begin

text \<open>
  The sliding-window rate limiter, \<open>shaperail-runtime/src/auth/rate_limit.rs\<close>. Its state is in
  Redis: per key a sorted set of members with scores, a sequence counter and a time to live. The
  Lua script runs atomically and is \<open>window_script\<close>. Times are milliseconds; \<open>score_text\<close> is the
  text the client library gives a score.
\<close>

section \<open>The Redis state of a key\<close>

record window =
  wi_entries :: "(string \<times> int) list"
  wi_expires :: "int option"
  wi_seq :: nat

definition empty_window :: window where
  "empty_window = \<lparr>wi_entries = [], wi_expires = None, wi_seq = 0\<rparr>"

type_synonym limiter_store = "(string \<times> window) list"

definition window_at :: "limiter_store \<Rightarrow> string \<Rightarrow> window" where
  "window_at store key = (case map_of store key of Some w \<Rightarrow> w | None \<Rightarrow> empty_window)"

text \<open>The sorted set is gone when its time to live has passed; the counter has none.\<close>

definition live_entries :: "int \<Rightarrow> window \<Rightarrow> (string \<times> int) list" where
  "live_entries now w = (case wi_expires w of
     Some e \<Rightarrow> if e \<le> now then [] else wi_entries w | None \<Rightarrow> wi_entries w)"

section \<open>The limiter\<close>

record rate_limit_config =
  rc_max_requests :: nat
  rc_window_secs :: nat

definition default_rate_limit :: rate_limit_config where
  "default_rate_limit = \<lparr>rc_max_requests = 100, rc_window_secs = 60\<rparr>"

text \<open>ZREMRANGEBYSCORE up to the window start, INCR, ZADD, ZCARD, EXPIRE.\<close>

definition window_script ::
    "(int \<Rightarrow> string) \<Rightarrow> int \<Rightarrow> int \<Rightarrow> int \<Rightarrow> window \<Rightarrow> window \<times> nat" where
  "window_script score_text window_start now ttl w =
     (let kept = filter (\<lambda>(m, s). \<not> s \<le> window_start) (live_entries now w);
          seq = wi_seq w + 1;
          entries = AList.update (score_text now @ '':'' @ show_nat seq) now kept
      in (\<lparr>wi_entries = entries, wi_expires = Some (now + 1000 * ttl), wi_seq = seq\<rparr>, length entries))"

datatype redis_fault = PoolFault string | ScriptFault string

definition limiter_key :: "string \<Rightarrow> string" where
  "limiter_key key = ''shaperail:ratelimit:'' @ key"

definition check_limit :: "(int \<Rightarrow> string) \<Rightarrow> redis_fault option \<Rightarrow> rate_limit_config \<Rightarrow> string \<Rightarrow> int \<Rightarrow>
    limiter_store \<Rightarrow> limiter_store \<times> nat res" where
  "check_limit score_text fault cfg key now store =
     (case fault of
        Some (PoolFault e) \<Rightarrow> (store, Inl (Internal (''Redis connection failed: '' @ e)))
      | Some (ScriptFault e) \<Rightarrow> (store, Inl (Internal (''Redis rate limit error: '' @ e)))
      | None \<Rightarrow>
          (let (w, count) = window_script score_text (now - int (rc_window_secs cfg) * 1000) now
                 (int (rc_window_secs cfg) + 1) (window_at store (limiter_key key))
           in (AList.update (limiter_key key) w store,
               if count > rc_max_requests cfg then Inl RateLimited
               else Inr (rc_max_requests cfg - count))))"

definition key_for :: "string \<Rightarrow> string option \<Rightarrow> string" where
  "key_for ip user_id = (case user_id of Some uid \<Rightarrow> ''user:'' @ uid | None \<Rightarrow> ''ip:'' @ ip)"

definition key_for_tenant :: "string \<Rightarrow> string option \<Rightarrow> string option \<Rightarrow> string" where
  "key_for_tenant ip user_id tenant_id =
     (let base = key_for ip user_id in
      case tenant_id of Some tid \<Rightarrow> ''t:'' @ tid @ '':'' @ base | None \<Rightarrow> base)"

section \<open>The window counts the requests of the last seconds\<close>

text \<open>The reference: after requests at times \<open>ts\<close> (oldest first), the entries of the window are the
  requests newer than the last request's window start.\<close>

definition recent :: "rate_limit_config \<Rightarrow> int list \<Rightarrow> int \<Rightarrow> int list" where
  "recent cfg ts now = filter (\<lambda>t. now - int (rc_window_secs cfg) * 1000 < t) ts"

definition member_seqs :: "window \<Rightarrow> bool" where
  "member_seqs w \<longleftrightarrow> (\<forall>(m, s) \<in> set (wi_entries w). \<exists>p k. m = p @ '':'' @ show_nat k \<and> k \<le> wi_seq w)"

text \<open>The invariant that ties the state of a key to its history: the window holds a superset of what
  any later request counts, in the order of arrival, and expires only when all of it is stale.\<close>

definition tracks :: "rate_limit_config \<Rightarrow> window \<Rightarrow> int list \<Rightarrow> bool" where
  "tracks cfg w ts \<longleftrightarrow> member_seqs w
     \<and> (\<forall>now. (\<forall>t \<in> set ts. t \<le> now) \<longrightarrow>
          filter (\<lambda>t. now - int (rc_window_secs cfg) * 1000 < t) (map snd (live_entries now w)) = recent cfg ts now)"

lemma colon_split:
  assumes "p @ CHR '':'' # show_nat k = q @ CHR '':'' # show_nat l" shows "k = l"
proof -
  have "CHR '':'' \<notin> set (show_nat n)" for n
    by (auto dest: is_digit_show_nat simp: is_digit_def)
  then have "\<forall>c \<in> set (show_nat n). c \<noteq> CHR '':''" for n
    by metis
  then have tail: "takeWhile (\<lambda>c. c \<noteq> CHR '':'') (rev (r @ CHR '':'' # show_nat n)) = rev (show_nat n)" for r n
    by (simp add: takeWhile_tail takeWhile_append2)
  from assms have "rev (show_nat k) = rev (show_nat l)"
    by (metis tail)
  then show ?thesis by simp
qed

lemma tracks_empty: "tracks cfg empty_window []"
  by (simp add: tracks_def member_seqs_def empty_window_def live_entries_def recent_def)

lemma member_fresh:
  assumes "member_seqs w" and "(m, s) \<in> set (wi_entries w)"
  shows "m \<noteq> p @ '':'' @ show_nat (wi_seq w + 1)"
  using assms colon_split [of _ _ p "wi_seq w + 1"] by (fastforce simp: member_seqs_def)

lemma window_script_spec:
  assumes "tracks cfg w ts" and "\<forall>t \<in> set ts. t \<le> now"
    and "window_script score_text (now - int (rc_window_secs cfg) * 1000) now
      (int (rc_window_secs cfg) + 1) w = (w', count)"
  shows "tracks cfg w' (ts @ [now]) \<and> count = Suc (length (recent cfg ts now))"
proof -
  let ?W = "int (rc_window_secs cfg) * 1000"
  let ?kept = "filter (\<lambda>(m, s). \<not> s \<le> now - ?W) (live_entries now w)"
  let ?m = "score_text now @ '':'' @ show_nat (wi_seq w + 1)"
  have live: "set (live_entries now w) \<subseteq> set (wi_entries w)"
    by (auto simp: live_entries_def split: option.splits)
  have fresh: "?m \<notin> fst ` set ?kept"
    using member_fresh [of w _ _ "score_text now"] assms(1) live by (auto simp: tracks_def)
  have upd: "AList.update ?m now xs = xs @ [(?m, now)]" if "?m \<notin> fst ` set xs" for xs
    using that by (induction xs) auto
  have w': "w' = \<lparr>wi_entries = ?kept @ [(?m, now)], wi_expires = Some (now + 1000 * (int (rc_window_secs cfg) + 1)),
      wi_seq = wi_seq w + 1\<rparr>" and count: "count = Suc (length ?kept)"
    using assms(3) upd [OF fresh] by (auto simp: window_script_def Let_def)
  have kept: "map snd ?kept = recent cfg ts now"
  proof -
    have "map snd ?kept = filter (\<lambda>t. now - ?W < t) (map snd (live_entries now w))"
      by (induction "live_entries now w" rule: list.induct) (auto simp: filter_map o_def split_beta not_le)
    also have "\<dots> = recent cfg ts now"
      using assms(1,2) by (simp add: tracks_def)
    finally show ?thesis .
  qed
  have "filter (\<lambda>t. now' - ?W < t) (map snd (live_entries now' w')) = recent cfg (ts @ [now]) now'"
    if n: "\<forall>t \<in> set (ts @ [now]). t \<le> now'" for now'
  proof (cases "now + 1000 * (int (rc_window_secs cfg) + 1) \<le> now'")
    case True
    then have "recent cfg (ts @ [now]) now' = []"
      using assms(2) by (fastforce simp: recent_def filter_empty_conv)
    with True show ?thesis by (simp add: live_entries_def w')
  next
    case False
    have "filter (\<lambda>t. now' - ?W < t) (recent cfg ts now) = recent cfg ts now'"
      using n by (auto simp: recent_def intro!: filter_cong)
    moreover have "live_entries now' w' = ?kept @ [(?m, now)]"
      unfolding live_entries_def [of now' w'] unfolding w' using False by simp
    ultimately show ?thesis
      by (simp only: map_append kept filter_append) (simp add: recent_def)
  qed
  moreover have "member_seqs w'"
  proof -
    have "member_seqs w" using assms(1) by (simp add: tracks_def)
    then have "\<exists>p k. m = p @ '':'' @ show_nat k \<and> k \<le> wi_seq w + 1" if "(m, s) \<in> set ?kept" for m s
      using that live by (fastforce simp: member_seqs_def le_Suc_eq)
    then show ?thesis by (auto simp: member_seqs_def w')
  qed
  ultimately show ?thesis
    using kept count by (simp add: tracks_def) (metis length_map)
qed

section \<open>Runs of the limiter\<close>

text \<open>A run of one key: the results of its requests at the given times, Redis being up.\<close>

fun run_limiter :: "(int \<Rightarrow> string) \<Rightarrow> rate_limit_config \<Rightarrow> string \<Rightarrow> limiter_store \<Rightarrow> int list \<Rightarrow> nat res list" where
  "run_limiter score_text cfg key store [] = []"
| "run_limiter score_text cfg key store (t # ts) =
     (case check_limit score_text None cfg key t store of (store', r) \<Rightarrow>
        r # run_limiter score_text cfg key store' ts)"

definition limit_result :: "rate_limit_config \<Rightarrow> int list \<Rightarrow> int \<Rightarrow> nat res" where
  "limit_result cfg before now =
     (let count = length (recent cfg before now) + 1 in
      if count > rc_max_requests cfg then Inl RateLimited else Inr (rc_max_requests cfg - count))"

lemma run_limiter_spec:
  assumes "tracks cfg (window_at store (limiter_key key)) before"
    and "sorted (before @ ts)"
  shows "run_limiter score_text cfg key store ts =
    map (\<lambda>i. limit_result cfg (before @ take i ts) (ts ! i)) [0..<length ts]"
  using assms
proof (induction ts arbitrary: store before)
  case (Cons t ts)
  obtain w n where w: "window_script score_text (t - int (rc_window_secs cfg) * 1000) t
      (int (rc_window_secs cfg) + 1) (window_at store (limiter_key key)) = (w, n)"
    by (cases "window_script score_text (t - int (rc_window_secs cfg) * 1000) t
      (int (rc_window_secs cfg) + 1) (window_at store (limiter_key key))")
  have le: "\<forall>u \<in> set before. u \<le> t"
    using Cons.prems(2) by (auto simp: sorted_append)
  from window_script_spec [OF Cons.prems(1) le w]
  have tr: "tracks cfg w (before @ [t])" and n: "n = Suc (length (recent cfg before t))"
    by auto
  have "window_at (AList.update (limiter_key key) w store) (limiter_key key) = w"
    by (simp add: window_at_def)
  with tr have "run_limiter score_text cfg key (AList.update (limiter_key key) w store) ts =
      map (\<lambda>i. limit_result cfg ((before @ [t]) @ take i ts) (ts ! i)) [0..<length ts]"
    using Cons.prems(2) by (intro Cons.IH) auto
  moreover have "map (\<lambda>i. limit_result cfg (before @ take i (t # ts)) ((t # ts) ! i)) [0..<length (t # ts)]
      = limit_result cfg before t
        # map (\<lambda>i. limit_result cfg ((before @ [t]) @ take i ts) (ts ! i)) [0..<length ts]"
  proof -
    have "[0..<length (t # ts)] = 0 # map Suc [0..<length ts]"
        by (simp only: map_Suc_upt upt_conv_Cons list.size Suc_less_eq zero_less_Suc add_0_right add_Suc_right One_nat_def)
    then show ?thesis by (simp only:) (simp add: comp_def)
  qed
  moreover have "check_limit score_text None cfg key t store =
      (AList.update (limiter_key key) w store, limit_result cfg before t)"
    by (simp add: check_limit_def w n limit_result_def Let_def)
  ultimately show ?case
    by (simp only: run_limiter.simps prod.case)
qed simp

text \<open>C29. On a fresh key the limiter is the sliding-window specification: the i-th request is
  answered by the number of requests of the last window, itself included; it passes with the
  remaining budget when that number is within the maximum and is rejected otherwise. Expiry of the
  Redis key and the way members are named never change the count.\<close>

theorem limiter_is_sliding_window:
  assumes "map_of store (limiter_key key) = None" and "sorted ts"
  shows "run_limiter score_text cfg key store ts =
    map (\<lambda>i. limit_result cfg (take i ts) (ts ! i)) [0..<length ts]"
  using run_limiter_spec [of cfg store key "[]" ts score_text] assms tracks_empty
  by (simp add: window_at_def)

theorem limiter_is_sliding_window_witness:
  "run_limiter show_int \<lparr>rc_max_requests = 1, rc_window_secs = 1\<rparr> ''ip:a'' [] [0, 500, 1600]
     = [Inr 0, Inl RateLimited, Inr 0]"
  by (subst limiter_is_sliding_window) (simp_all add: limit_result_def recent_def upt_rec)

text \<open>A rejected request counts against the following ones.\<close>

lemma rejected_requests_count:
  "run_limiter show_int \<lparr>rc_max_requests = 1, rc_window_secs = 1\<rparr> ''ip:a'' [] [0, 900, 1800]
     = [Inr 0, Inl RateLimited, Inl RateLimited]"
  using run_limiter_spec [of _ "[]" "''ip:a''" "[]" "[0, 900, 1800]"]
  by (simp add: window_at_def tracks_empty limit_result_def recent_def upt_rec)

text \<open>The requests that pass within one window never exceed the maximum: for every run on a
  fresh key and every request that passes, at most the configured number of passing requests,
  itself included, lie in the window that ends with it.\<close>

lemma passed_requests_bounded:
  assumes "map_of store (limiter_key key) = None" and "sorted ts" and "i < length ts"
    and "run_limiter score_text cfg key store ts ! i = Inr r"
  shows "card {j. j \<le> i \<and> ts ! i - int (rc_window_secs cfg) * 1000 < ts ! j
      \<and> is_ok (run_limiter score_text cfg key store ts ! j)} \<le> rc_max_requests cfg"
proof -
  let ?P = "\<lambda>t. ts ! i - int (rc_window_secs cfg) * 1000 < t"
  have "run_limiter score_text cfg key store ts = map (\<lambda>i. limit_result cfg (take i ts) (ts ! i)) [0..<length ts]"
    using run_limiter_spec [of cfg store key "[]" ts score_text] assms(1,2) tracks_empty
    by (simp add: window_at_def)
  with assms(3,4) have "limit_result cfg (take i ts) (ts ! i) = Inr r" by simp
  then have l: "length (filter ?P (take i ts)) + 1 \<le> rc_max_requests cfg"
    by (auto simp: limit_result_def Let_def recent_def split: if_splits)
  have "card {j. j \<le> i \<and> ?P (ts ! j) \<and> is_ok (run_limiter score_text cfg key store ts ! j)}
      \<le> card (insert i {j. j < i \<and> ?P (ts ! j)})"
    by (rule card_mono) auto
  also have "\<dots> \<le> Suc (card {j. j < i \<and> ?P (ts ! j)})"
    by (rule card_insert_le_m1) auto
  also have "card {j. j < i \<and> ?P (ts ! j)} = length (filter ?P (take i ts))"
    using assms(3) by (auto simp: length_filter_conv_card intro!: arg_cong [of _ _ card])
  finally show ?thesis using l by simp
qed

section \<open>Keys\<close>

text \<open>The requests of one tenant, user or address never spend the budget of another: without
  colons in tenant ids, two requests share a limiter key only when they agree on the tenant and on
  the user, or on the address when both are anonymous; and a check leaves every other key's window
  unchanged.\<close>

lemma limiter_keys_separate:
  assumes "\<forall>t. tenant = Some t \<or> tenant' = Some t \<longrightarrow> CHR '':'' \<notin> set t"
  shows "(key_for_tenant ip user tenant = key_for_tenant ip' user' tenant' \<longleftrightarrow>
      tenant = tenant' \<and> user = user' \<and> (user = None \<longrightarrow> ip = ip'))
    \<and> (key \<noteq> key' \<longrightarrow> map_of (fst (check_limit score_text fault cfg key now store)) (limiter_key key')
        = map_of store (limiter_key key'))"
proof
  have base: "key_for ip user = key_for ip' user' \<longleftrightarrow> user = user' \<and> (user = None \<longrightarrow> ip = ip')"
    by (auto simp: key_for_def split: option.splits)
  have no_t: "key_for a b \<noteq> CHR ''t'' # c" "CHR ''t'' # c \<noteq> key_for a b" for a b c
    by (auto simp: key_for_def split: option.splits)
  have split: "t @ CHR '':'' # k = t' @ CHR '':'' # k' \<longleftrightarrow> t = t' \<and> k = k'"
    if "CHR '':'' \<notin> set t" "CHR '':'' \<notin> set t'" for t t' k k' :: string
    using that split_once_Some_iff [of "CHR '':''" "t @ CHR '':'' # k" t k]
      split_once_Some_iff [of "CHR '':''" "t @ CHR '':'' # k" t' k'] by auto
  show "key_for_tenant ip user tenant = key_for_tenant ip' user' tenant' \<longleftrightarrow>
      tenant = tenant' \<and> user = user' \<and> (user = None \<longrightarrow> ip = ip')"
    using base no_t split assms
    by (cases tenant; cases tenant') (auto simp: key_for_tenant_def Let_def)
  show "key \<noteq> key' \<longrightarrow> map_of (fst (check_limit score_text fault cfg key now store)) (limiter_key key')
        = map_of store (limiter_key key')"
    by (auto simp: check_limit_def Let_def limiter_key_def split: option.splits redis_fault.splits prod.splits)
qed

end
