(* ===== verification/Keyed_Store.thy ===== *)
theory Keyed_Store
  imports Prelude
begin

text \<open>
  The interface of the program's keyed stores (API keys, cached responses, job handlers, hooks,
  sessions, registered services): an insertion answers later lookups of its key and leaves the
  others alone. A store with removal extends it.
\<close>

locale keyed_store =
  fixes put :: "'k \<Rightarrow> 'v \<Rightarrow> 's \<Rightarrow> 's" and get :: "'s \<Rightarrow> 'k \<Rightarrow> 'v option"
  assumes get_put: "get (put k v s) k' = (if k' = k then Some v else get s k')"
begin

lemma get_put_same [simp]: "get (put k v s) k = Some v"
  by (simp add: get_put)

lemma get_put_other [simp]: "k' \<noteq> k \<Longrightarrow> get (put k v s) k' = get s k'"
  by (simp add: get_put)

lemma last_put_wins: "get (put k w (put k v s)) k' = get (put k w s) k'"
  by (simp add: get_put)

lemma put_commute: "k \<noteq> l \<Longrightarrow> get (put k v (put l w s)) k' = get (put l w (put k v s)) k'"
  by (simp add: get_put)

text \<open>A store filled by a sequence of insertions answers with the last insertion of a key.\<close>

lemma get_fold_put:
  "get (fold (\<lambda>(k, v). put k v) kvs s) k =
     (case map_of (rev kvs) k of Some v \<Rightarrow> Some v | None \<Rightarrow> get s k)"
  by (induction kvs arbitrary: s) (auto simp: get_put map_add_def split: option.splits)

lemma get_fold_put_distinct:
  "distinct (map fst kvs) \<Longrightarrow> get (fold (\<lambda>(k, v). put k v) kvs s) k =
     (case map_of kvs k of Some v \<Rightarrow> Some v | None \<Rightarrow> get s k)"
  using map_of_inject_set [of "rev kvs" kvs] by (simp add: get_fold_put rev_map [symmetric])

end

locale removable_store = keyed_store +
  fixes del :: "'k \<Rightarrow> 's \<Rightarrow> 's"
  assumes get_del: "get (del k s) k' = (if k' = k then None else get s k')"
begin

lemma get_del_same [simp]: "get (del k s) k = None"
  by (simp add: get_del)

lemma get_del_put: "get (del k (put k v s)) k' = get (del k s) k'"
  by (simp add: get_del get_put)

lemma del_put_commute: "k \<noteq> l \<Longrightarrow> get (del k (put l v s)) k' = get (put l v (del k s)) k'"
  by (simp add: get_del get_put)

lemma get_fold_del: "get (fold del ks s) k = (if k \<in> set ks then None else get s k)"
  by (induction ks arbitrary: s) (auto simp: get_del)

end

end
