(* ===== verification/Job_Queue.thy ===== *)
theory Job_Queue
  imports Keyed_Store Core_Types "HOL-Library.Multiset"
begin

text \<open>
  The background job queue and its worker, \<open>shaperail-runtime/src/jobs/queue.rs\<close> and \<open>worker.rs\<close>.
  The Redis state is a list per priority, a hash of metadata per job and the dead-letter list; a
  spawned retry task is a timer. A Redis command may fail: \<open>faults\<close> names the commands that do. An
  entry of a list that is not the JSON of an envelope is \<open>Garbage\<close>. A handler is a function of the
  payload to its outcome; the text of a time is a parameter.
\<close>

section \<open>Jobs\<close>

datatype job_priority = Critical | High | Normal | Low

definition all_priorities :: "job_priority list" where
  "all_priorities = [Critical, High, Normal, Low]"

fun queue_key :: "job_priority \<Rightarrow> string" where
  "queue_key Critical = ''shaperail:jobs:queue:critical''"
| "queue_key High = ''shaperail:jobs:queue:high''"
| "queue_key Normal = ''shaperail:jobs:queue:normal''"
| "queue_key Low = ''shaperail:jobs:queue:low''"

text \<open>The polling order as an order of the type.\<close>

fun priority_rank :: "job_priority \<Rightarrow> nat" where
  "priority_rank Critical = 0"
| "priority_rank High = 1"
| "priority_rank Normal = 2"
| "priority_rank Low = 3"

instantiation job_priority :: linorder
begin

definition less_eq_job_priority :: "job_priority \<Rightarrow> job_priority \<Rightarrow> bool" where
  "less_eq_job_priority p q \<longleftrightarrow> priority_rank p \<le> priority_rank q"

definition less_job_priority :: "job_priority \<Rightarrow> job_priority \<Rightarrow> bool" where
  "less_job_priority p q \<longleftrightarrow> priority_rank p < priority_rank q"

instance
proof
  fix p q :: job_priority
  show "p \<le> q \<Longrightarrow> q \<le> p \<Longrightarrow> p = q"
    by (cases p; cases q) (auto simp: less_eq_job_priority_def)
qed (auto simp: less_eq_job_priority_def less_job_priority_def)

end

datatype job_status = Pending | Running | Completed | Failed

fun job_status_display :: "job_status \<Rightarrow> string" where
  "job_status_display Pending = ''pending''"
| "job_status_display Running = ''running''"
| "job_status_display Completed = ''completed''"
| "job_status_display Failed = ''failed''"

record job_envelope =
  je_id :: string
  je_name :: string
  je_payload :: json
  je_priority :: job_priority
  je_max_retries :: nat
  je_timeout_secs :: nat
  je_attempt :: nat

record job_info =
  ji_id :: string
  ji_name :: string
  ji_status :: job_status
  ji_attempt :: nat
  ji_max_retries :: nat
  ji_error :: "string option"
  ji_created_at :: string
  ji_updated_at :: string

datatype queue_entry = Garbage string | Job job_envelope

record job_hash =
  jh_fields :: "(string \<times> string) list"
  jh_expires :: "int option"

record job_store =
  js_queues :: "job_priority \<Rightarrow> queue_entry list"
  js_meta :: "(string \<times> job_hash) list"
  js_dead :: "json list"
  js_timers :: "(int \<times> job_envelope) list"

section \<open>Redis\<close>

datatype redis_op = ConnOp | HsetOp | RpushOp | LpopOp | LlenOp | HgetallOp

type_synonym faults = "redis_op \<Rightarrow> string option"

definition no_faults :: faults where
  "no_faults op = None"

definition redis_call :: "faults \<Rightarrow> redis_op \<Rightarrow> string \<Rightarrow> unit res" where
  "redis_call fails op msg = (case fails op of None \<Rightarrow> Inr () | Some e \<Rightarrow> Inl (Internal (msg @ '': '' @ e)))"

definition connect :: "faults \<Rightarrow> unit res" where
  "connect fails = redis_call fails ConnOp ''Redis connection failed''"

text \<open>A hash is gone when its time to live has passed.\<close>

definition live_hash :: "int \<Rightarrow> job_store \<Rightarrow> string \<Rightarrow> job_hash option" where
  "live_hash now st i = (case map_of (js_meta st) i of
     None \<Rightarrow> None
   | Some h \<Rightarrow> (case jh_expires h of Some e \<Rightarrow> if e \<le> now then None else Some h | None \<Rightarrow> Some h))"

definition hset :: "int \<Rightarrow> string \<Rightarrow> (string \<times> string) list \<Rightarrow> job_store \<Rightarrow> job_store" where
  "hset now i fvs st =
     (let h = (case live_hash now st i of Some h \<Rightarrow> h | None \<Rightarrow> \<lparr>jh_fields = [], jh_expires = None\<rparr>)
      in st\<lparr>js_meta := AList.update i (h\<lparr>jh_fields := fold (\<lambda>(f, v). AList.update f v) fvs (jh_fields h)\<rparr>)
           (js_meta st)\<rparr>)"

definition expire :: "int \<Rightarrow> string \<Rightarrow> int \<Rightarrow> job_store \<Rightarrow> job_store" where
  "expire now i secs st = (case live_hash now st i of
     None \<Rightarrow> st
   | Some h \<Rightarrow> st\<lparr>js_meta := AList.update i (h\<lparr>jh_expires := Some (now + secs)\<rparr>) (js_meta st)\<rparr>)"

definition rpush :: "job_priority \<Rightarrow> queue_entry \<Rightarrow> job_store \<Rightarrow> job_store" where
  "rpush p e st = st\<lparr>js_queues := (js_queues st)(p := js_queues st p @ [e])\<rparr>"

section \<open>The queue\<close>

definition enqueue_with_options :: "faults \<Rightarrow> (int \<Rightarrow> string) \<Rightarrow> int \<Rightarrow> string \<Rightarrow> string \<Rightarrow> json \<Rightarrow>
    job_priority \<Rightarrow> nat \<Rightarrow> nat \<Rightarrow> job_store \<Rightarrow> job_store \<times> string res" where
  "enqueue_with_options fails show_time now new_id name payload priority max_retries timeout_secs st =
     (let env = \<lparr>je_id = new_id, je_name = name, je_payload = payload, je_priority = priority,
            je_max_retries = max_retries, je_timeout_secs = timeout_secs, je_attempt = 0\<rparr> in
      case and_then (connect fails) (\<lambda>_. redis_call fails HsetOp ''Failed to store job metadata'') of
        Inl e \<Rightarrow> (st, Inl e)
      | Inr _ \<Rightarrow>
          (let st1 = hset now new_id
                 [(''id'', new_id), (''name'', name), (''status'', job_status_display Pending),
                  (''attempt'', ''0''), (''max_retries'', show_nat max_retries),
                  (''created_at'', show_time now), (''updated_at'', show_time now)] st;
               st2 = expire now new_id 604800 st1
           in case redis_call fails RpushOp ''Failed to enqueue job'' of
                Inl e \<Rightarrow> (st2, Inl e)
              | Inr _ \<Rightarrow> (rpush priority (Job env) st2, Inr new_id)))"

definition enqueue :: "faults \<Rightarrow> (int \<Rightarrow> string) \<Rightarrow> int \<Rightarrow> string \<Rightarrow> string \<Rightarrow> json \<Rightarrow> job_priority \<Rightarrow>
    job_store \<Rightarrow> job_store \<times> string res" where
  "enqueue fails show_time now new_id name payload priority st =
     enqueue_with_options fails show_time now new_id name payload priority 3 300 st"

definition parse_u32 :: "string \<Rightarrow> nat option" where
  "parse_u32 s = Option.bind (parse_u64 s) (\<lambda>n. if n < 2 ^ 32 then Some n else None)"

definition parse_status :: "string option \<Rightarrow> job_status" where
  "parse_status s =
     (if s = Some ''running'' then Running
      else if s = Some ''completed'' then Completed
      else if s = Some ''failed'' then Failed
      else Pending)"

definition text_or_empty :: "string option \<Rightarrow> string" where
  "text_or_empty s = (case s of Some t \<Rightarrow> t | None \<Rightarrow> [])"

definition nat_or :: "nat \<Rightarrow> nat option \<Rightarrow> nat" where
  "nat_or d x = (case x of Some n \<Rightarrow> n | None \<Rightarrow> d)"

definition get_status :: "faults \<Rightarrow> int \<Rightarrow> string \<Rightarrow> job_store \<Rightarrow> job_info res" where
  "get_status fails now job_id st =
     and_then (connect fails) (\<lambda>_.
     and_then (redis_call fails HgetallOp ''Failed to get job status'') (\<lambda>_.
       (let m = (case live_hash now st job_id of Some h \<Rightarrow> jh_fields h | None \<Rightarrow> []) in
        if m = [] then Inl NotFound
        else Inr
          \<lparr>ji_id = text_or_empty (map_of m ''id''), ji_name = text_or_empty (map_of m ''name''),
           ji_status = parse_status (map_of m ''status''),
           ji_attempt = nat_or 0 (Option.bind (map_of m ''attempt'') parse_u32),
           ji_max_retries = nat_or 3 (Option.bind (map_of m ''max_retries'') parse_u32),
           ji_error = map_of m ''error'',
           ji_created_at = text_or_empty (map_of m ''created_at''),
           ji_updated_at = text_or_empty (map_of m ''updated_at'')\<rparr>)))"

definition total_depth :: "faults \<Rightarrow> job_store \<Rightarrow> nat res" where
  "total_depth fails st =
     and_then (connect fails) (\<lambda>_.
     and_then (redis_call fails LlenOp ''Failed to inspect job queue depth'') (\<lambda>_.
       Inr (sum_list (map (\<lambda>p. length (js_queues st p)) all_priorities))))"

definition update_status :: "faults \<Rightarrow> (int \<Rightarrow> string) \<Rightarrow> int \<Rightarrow> string \<Rightarrow> job_status \<Rightarrow> nat \<Rightarrow>
    string option \<Rightarrow> job_store \<Rightarrow> job_store \<times> unit res" where
  "update_status fails show_time now job_id status attempt error st =
     (case and_then (connect fails) (\<lambda>_. redis_call fails HsetOp ''Failed to update job status'') of
        Inl e \<Rightarrow> (st, Inl e)
      | Inr _ \<Rightarrow>
          (hset now job_id
             ([(''status'', job_status_display status), (''attempt'', show_nat attempt),
               (''updated_at'', show_time now)]
              @ (case error of Some msg \<Rightarrow> [(''error'', msg)] | None \<Rightarrow> [])) st, Inr ()))"

definition dead_entry :: "(int \<Rightarrow> string) \<Rightarrow> int \<Rightarrow> job_envelope \<Rightarrow> string \<Rightarrow> json" where
  "dead_entry show_time now env error = JObj
     [(''id'', JStr (je_id env)), (''name'', JStr (je_name env)), (''payload'', je_payload env),
      (''error'', JStr error), (''attempts'', JNum (PosInt (je_attempt env))),
      (''failed_at'', JStr (show_time now))]"

definition move_to_dead_letter :: "faults \<Rightarrow> (int \<Rightarrow> string) \<Rightarrow> int \<Rightarrow> job_envelope \<Rightarrow> string \<Rightarrow>
    job_store \<Rightarrow> job_store \<times> unit res" where
  "move_to_dead_letter fails show_time now env error st =
     (case and_then (connect fails) (\<lambda>_. redis_call fails RpushOp ''Failed to push to dead letter queue'') of
        Inl e \<Rightarrow> (st, Inl e)
      | Inr _ \<Rightarrow> update_status fails show_time now (je_id env) Failed (je_attempt env) (Some error)
          (st\<lparr>js_dead := js_dead st @ [dead_entry show_time now env error]\<rparr>))"

definition requeue_for_retry :: "faults \<Rightarrow> (int \<Rightarrow> string) \<Rightarrow> int \<Rightarrow> job_envelope \<Rightarrow>
    job_store \<Rightarrow> job_store \<times> unit res" where
  "requeue_for_retry fails show_time now env st =
     (let env' = env\<lparr>je_attempt := je_attempt env + 1\<rparr> in
      case and_then (connect fails) (\<lambda>_. redis_call fails RpushOp ''Failed to requeue job'') of
        Inl e \<Rightarrow> (st, Inl e)
      | Inr _ \<Rightarrow> update_status fails show_time now (je_id env') Pending (je_attempt env') None
          (rpush (je_priority env') (Job env') st))"

section \<open>The worker\<close>

text \<open>What awaiting a handler under its timeout gives.\<close>

datatype job_outcome = Done | HandlerError shaperail_error | TimedOut

type_synonym job_registry = "(string \<times> (json \<Rightarrow> job_outcome)) list"

definition registry_get :: "job_registry \<Rightarrow> string \<Rightarrow> (json \<Rightarrow> job_outcome) option" where
  "registry_get reg name = map_of reg name"

text \<open>\<open>2u64.pow(n)\<close>, as a release build computes it.\<close>

definition backoff_secs :: "nat \<Rightarrow> nat" where
  "backoff_secs n = 2 ^ n mod 2 ^ 64"

definition handle_failure :: "faults \<Rightarrow> (int \<Rightarrow> string) \<Rightarrow> int \<Rightarrow> job_envelope \<Rightarrow> string \<Rightarrow>
    job_store \<Rightarrow> job_store \<times> unit res" where
  "handle_failure fails show_time now env error st =
     (let next_attempt = je_attempt env + 1 in
      if next_attempt < je_max_retries env then
        (st\<lparr>js_timers := js_timers st @ [(now + int (backoff_secs next_attempt), env)]\<rparr>, Inr ())
      else move_to_dead_letter fails show_time now env error st)"

definition process_job :: "faults \<Rightarrow> (int \<Rightarrow> string) \<Rightarrow> int \<Rightarrow> job_registry \<Rightarrow> job_envelope \<Rightarrow>
    job_store \<Rightarrow> job_store" where
  "process_job fails show_time now reg env st =
     (let attempt = je_attempt env + 1 in
      case update_status fails show_time now (je_id env) Running attempt None st of
        (st1, Inl e) \<Rightarrow> st1
      | (st1, Inr _) \<Rightarrow>
          (case registry_get reg (je_name env) of
             None \<Rightarrow> fst (handle_failure fails show_time now env
               (''No handler registered for job: '' @ je_name env) st1)
           | Some handler \<Rightarrow>
               (case handler (je_payload env) of
                  Done \<Rightarrow> fst (update_status fails show_time now (je_id env) Completed attempt None st1)
                | HandlerError e \<Rightarrow> fst (handle_failure fails show_time now env (error_message e) st1)
                | TimedOut \<Rightarrow> fst (handle_failure fails show_time now env
                    (''Job timed out after '' @ show_nat (je_timeout_secs env) @ ''s'') st1))))"

definition dequeue :: "faults \<Rightarrow> job_priority \<Rightarrow> job_store \<Rightarrow> job_store \<times> job_envelope option res" where
  "dequeue fails p st =
     (case and_then (connect fails) (\<lambda>_. redis_call fails LpopOp ''Failed to dequeue job'') of
        Inl e \<Rightarrow> (st, Inl e)
      | Inr _ \<Rightarrow>
          (case js_queues st p of
             [] \<Rightarrow> (st, Inr None)
           | e # es \<Rightarrow>
               (st\<lparr>js_queues := (js_queues st)(p := es)\<rparr>,
                (case e of Job env \<Rightarrow> Inr (Some env)
                 | Garbage msg \<Rightarrow> Inl (Internal (''Failed to deserialize job: '' @ msg))))))"

fun poll_queues :: "faults \<Rightarrow> (int \<Rightarrow> string) \<Rightarrow> int \<Rightarrow> job_registry \<Rightarrow> job_priority list \<Rightarrow>
    job_store \<Rightarrow> job_store \<times> bool res" where
  "poll_queues fails show_time now reg [] st = (st, Inr False)"
| "poll_queues fails show_time now reg (p # ps) st =
     (case dequeue fails p st of
        (st1, Inl e) \<Rightarrow> (st1, Inl e)
      | (st1, Inr (Some env)) \<Rightarrow> (process_job fails show_time now reg env st1, Inr True)
      | (st1, Inr None) \<Rightarrow> poll_queues fails show_time now reg ps st1)"

definition poll_once :: "faults \<Rightarrow> (int \<Rightarrow> string) \<Rightarrow> int \<Rightarrow> job_registry \<Rightarrow>
    job_store \<Rightarrow> job_store \<times> bool res" where
  "poll_once fails show_time now reg st = poll_queues fails show_time now reg all_priorities st"

definition empty_job_store :: job_store where
  "empty_job_store = \<lparr>js_queues = (\<lambda>p. []), js_meta = [], js_dead = [], js_timers = []\<rparr>"

section \<open>The handler registry is a keyed store\<close>

interpretation job_handlers: keyed_store AList.update registry_get
  by unfold_locales (simp add: registry_get_def)

section \<open>Priority and order of arrival\<close>

text \<open>The job a worker must take next: the oldest entry of the first non-empty queue.\<close>

definition next_entry :: "job_store \<Rightarrow> (job_priority \<times> queue_entry) option" where
  "next_entry st = (case filter (\<lambda>p. js_queues st p \<noteq> []) all_priorities of
     [] \<Rightarrow> None | p # ps \<Rightarrow> Some (p, hd (js_queues st p)))"

definition pop :: "job_priority \<Rightarrow> job_store \<Rightarrow> job_store" where
  "pop p st = st\<lparr>js_queues := (js_queues st)(p := tl (js_queues st p))\<rparr>"

lemma dequeue_no_faults: "dequeue no_faults p st =
    (case js_queues st p of [] \<Rightarrow> (st, Inr None)
     | Job env # es \<Rightarrow> (pop p st, Inr (Some env))
     | Garbage msg # es \<Rightarrow> (pop p st, Inl (Internal (''Failed to deserialize job: '' @ msg))))"
  by (auto simp: dequeue_def connect_def redis_call_def no_faults_def pop_def
      split: list.splits queue_entry.splits)

lemma poll_queues_spec:
  "poll_queues no_faults show_time now reg ps st =
    (case filter (\<lambda>p. js_queues st p \<noteq> []) ps of
       [] \<Rightarrow> (st, Inr False)
     | p # qs \<Rightarrow> (case hd (js_queues st p) of
         Job env \<Rightarrow> (process_job no_faults show_time now reg env (pop p st), Inr True)
       | Garbage msg \<Rightarrow> (pop p st, Inl (Internal (''Failed to deserialize job: '' @ msg)))))"
proof (induction ps)
  case (Cons p ps)
  show ?case
  proof (cases "js_queues st p")
    case Nil
    then show ?thesis using Cons by (simp add: dequeue_no_faults)
  next
    case (Cons e es)
    then show ?thesis by (cases e) (simp_all add: dequeue_no_faults)
  qed
qed simp

lemma poll_once_entry:
  "poll_once no_faults show_time now reg st =
    (case next_entry st of
       None \<Rightarrow> (st, Inr False)
     | Some (p, Job env) \<Rightarrow> (process_job no_faults show_time now reg env (pop p st), Inr True)
     | Some (p, Garbage msg) \<Rightarrow> (pop p st, Inl (Internal (''Failed to deserialize job: '' @ msg))))"
  by (simp add: poll_once_def poll_queues_spec next_entry_def split: list.split queue_entry.split)

lemma next_entry_hd: "next_entry st = Some (p, e) \<Longrightarrow> js_queues st p \<noteq> [] \<and> e = hd (js_queues st p)"
  by (auto simp: next_entry_def dest!: filter_eq_ConsD split: list.splits)

lemma next_entry_most_urgent: "next_entry st = Some (p, e) \<Longrightarrow> q < p \<Longrightarrow> js_queues st q = []"
  by (cases q; cases p) (auto simp: next_entry_def all_priorities_def less_job_priority_def
      split: list.splits if_splits)

text \<open>A poll takes the oldest entry of the most urgent non-empty queue: no entry of a less urgent
  queue is taken while a more urgent one waits, entries of one priority are taken in the order of
  arrival, an entry that is not a job is dropped with an error, and an empty store is left alone.\<close>

lemma poll_takes_next_entry:
  "poll_once no_faults show_time now reg st =
    (case next_entry st of
       None \<Rightarrow> (st, Inr False)
     | Some (p, Job env) \<Rightarrow> (process_job no_faults show_time now reg env (pop p st), Inr True)
     | Some (p, Garbage msg) \<Rightarrow> (pop p st, Inl (Internal (''Failed to deserialize job: '' @ msg))))
   \<and> (\<forall>p e. next_entry st = Some (p, e) \<longrightarrow> js_queues st p \<noteq> [] \<and> e = hd (js_queues st p)
        \<and> (\<forall>q. q < p \<longrightarrow> js_queues st q = []))"
  using poll_once_entry next_entry_hd next_entry_most_urgent by blast

section \<open>Status of a new job\<close>

lemma map_of_fold_update:
  "map_of (fold (\<lambda>(f, v). AList.update f v) fvs m) k =
     (case map_of (rev fvs) k of Some v \<Rightarrow> Some v | None \<Rightarrow> map_of m k)"
  by (induction fvs arbitrary: m) (auto simp: map_add_def split: option.splits)

lemma live_hash_hset: "live_hash now (hset now i fvs st) i =
    Some (let h = (case live_hash now st i of Some h \<Rightarrow> h | None \<Rightarrow> \<lparr>jh_fields = [], jh_expires = None\<rparr>)
      in h\<lparr>jh_fields := fold (\<lambda>(f, v). AList.update f v) fvs (jh_fields h)\<rparr>)"
  by (auto simp: live_hash_def hset_def Let_def split: option.splits if_splits)

text \<open>A job that was enqueued is the last entry of its priority's queue, no other queue or timer
  changes, and for seven days its status reads pending, with no attempt and the retry limit it was
  given.\<close>

lemma enqueue_then_status:
  assumes "enqueue_with_options no_faults show_time now i name payload p max_retries timeout st = (st', Inr j)"
    and "max_retries < 2 ^ 32" and "now \<le> t" and "t < now + 604800"
  shows "j = i
    \<and> js_queues st' = (js_queues st)(p := js_queues st p @ [Job \<lparr>je_id = i, je_name = name, je_payload = payload,
        je_priority = p, je_max_retries = max_retries, je_timeout_secs = timeout, je_attempt = 0\<rparr>])
    \<and> js_timers st' = js_timers st \<and> js_dead st' = js_dead st
    \<and> (\<exists>info. get_status no_faults t i st' = Inr info \<and> ji_id info = i \<and> ji_name info = name
        \<and> ji_status info = Pending \<and> ji_attempt info = 0 \<and> ji_max_retries info = max_retries)"
proof -
  let ?fvs = "[(''id'', i), (''name'', name), (''status'', job_status_display Pending), (''attempt'', ''0''),
    (''max_retries'', show_nat max_retries), (''created_at'', show_time now), (''updated_at'', show_time now)]"
  let ?h0 = "case live_hash now st i of Some h \<Rightarrow> h | None \<Rightarrow> \<lparr>jh_fields = [], jh_expires = None\<rparr>"
  let ?h = "?h0\<lparr>jh_fields := fold (\<lambda>(f, v). AList.update f v) ?fvs (jh_fields ?h0)\<rparr>"
  let ?st2 = "expire now i 604800 (hset now i ?fvs st)"
  have st': "j = i" "st' = rpush p (Job \<lparr>je_id = i, je_name = name, je_payload = payload,
        je_priority = p, je_max_retries = max_retries, je_timeout_secs = timeout, je_attempt = 0\<rparr>) ?st2"
    using assms(1) by (auto simp: enqueue_with_options_def connect_def redis_call_def no_faults_def Let_def)
  have same: "js_queues ?st2 = js_queues st" "js_timers ?st2 = js_timers st" "js_dead ?st2 = js_dead st"
    by (simp_all add: expire_def hset_def Let_def split: option.splits)
  have live: "live_hash now (hset now i ?fvs st) i = Some ?h"
    by (simp only: live_hash_hset Let_def)
  have lt: "live_hash t st' i = Some (?h\<lparr>jh_expires := Some (now + 604800)\<rparr>)"
    using assms(4) unfolding st'(2) expire_def live option.case by (simp add: live_hash_def rpush_def)
  have f: "map_of (jh_fields (?h\<lparr>jh_expires := Some (now + 604800)\<rparr>)) k =
      (case map_of (rev ?fvs) k of Some v \<Rightarrow> Some v | None \<Rightarrow> map_of (jh_fields ?h0) k)" for k
    using map_of_fold_update [of ?fvs "jh_fields ?h0" k] by (simp del: fold_simps)
  let ?m = "jh_fields (?h\<lparr>jh_expires := Some (now + 604800)\<rparr>)"
  have m: "map_of ?m ''id'' = Some i" "map_of ?m ''name'' = Some name"
    "map_of ?m ''status'' = Some (job_status_display Pending)" "map_of ?m ''attempt'' = Some ''0''"
    "map_of ?m ''max_retries'' = Some (show_nat max_retries)"
    unfolding f by simp_all
  then have ne: "?m \<noteq> []" by (metis map_of.simps(1) option.distinct(1))
  have z: "parse_u32 ''0'' = Some 0"
    by (simp add: parse_u32_def parse_u64_def parse_digits_def is_digit_def nat_of_digits_def digit_val_def)
  have r: "parse_u32 (show_nat max_retries) = Some max_retries"
    using assms(2) parse_u64_show_nat [of max_retries] by (simp add: parse_u32_def)
  have "\<exists>info. get_status no_faults t i st' = Inr info \<and> ji_id info = i \<and> ji_name info = name
        \<and> ji_status info = Pending \<and> ji_attempt info = 0 \<and> ji_max_retries info = max_retries"
    unfolding get_status_def connect_def redis_call_def no_faults_def option.case and_then.simps Let_def lt
    using ne by (simp only: if_False m) (simp add: text_or_empty_def parse_status_def nat_or_def z r)
  with st' same show ?thesis by (simp add: rpush_def)
qed

end
