(* ===== verification/Events.thy ===== *)
theory Events
  imports Job_Queue Base64_Cursor Auth
begin

text \<open>
  Events and webhooks: the emitter of \<open>shaperail-runtime/src/events/emitter.rs\<close>, which turns an event
  into background jobs, the signatures of \<open>events/webhook.rs\<close> and the inbound endpoints of
  \<open>events/inbound.rs\<close>. The configuration types are those of \<open>shaperail-core/src/config.rs\<close>. HMAC-SHA256
  (crates \<open>hmac\<close>, \<open>hex\<close>) and JSON text are parameters.
\<close>

section \<open>Subscriptions\<close>

datatype event_target =
    TargetJob string
  | TargetWebhook string
  | TargetChannel string "string option"
  | TargetHook string

record event_subscriber =
  es_event :: string
  es_targets :: "event_target list"

record event_payload =
  ep_event :: string
  ep_resource :: string
  ep_action :: string
  ep_data :: json
  ep_timestamp :: string
  ep_event_id :: string

definition event_payload_json :: "event_payload \<Rightarrow> json" where
  "event_payload_json p = JObj [(''event'', JStr (ep_event p)), (''resource'', JStr (ep_resource p)),
     (''action'', JStr (ep_action p)), (''data'', ep_data p), (''timestamp'', JStr (ep_timestamp p)),
     (''event_id'', JStr (ep_event_id p))]"

definition event_matches :: "string \<Rightarrow> string \<Rightarrow> bool" where
  "event_matches pattern event_name =
     (if pattern = ''*'' then True
      else if pattern = event_name then True
      else (case strip_prefix ''*.'' pattern of
        Some sfx \<Rightarrow> suffix (''.'' @ sfx) event_name
      | None \<Rightarrow> (case strip_suffix ''.*'' pattern of
          Some pre \<Rightarrow> prefix (pre @ ''.'') event_name
        | None \<Rightarrow> False)))"

definition find_matching_subscribers :: "event_subscriber list \<Rightarrow> string \<Rightarrow> event_subscriber list" where
  "find_matching_subscribers subscribers event_name = filter (\<lambda>s. event_matches (es_event s) event_name) subscribers"

section \<open>Emitting\<close>

text \<open>What the emitter's calls of the job queue meet: the failures, the id and the clock of the n-th call.\<close>

record emit_env =
  em_faults :: "nat \<Rightarrow> faults"
  em_ids :: "nat \<Rightarrow> string"
  em_now :: "nat \<Rightarrow> int"
  em_show_time :: "int \<Rightarrow> string"

definition enqueue_nth :: "emit_env \<Rightarrow> nat \<Rightarrow> string \<Rightarrow> json \<Rightarrow> job_priority \<Rightarrow> job_store \<Rightarrow> job_store \<times> string res" where
  "enqueue_nth env n = enqueue (em_faults env n) (em_show_time env) (em_now env n) (em_ids env n)"

fun dispatch_to_target :: "emit_env \<Rightarrow> nat \<Rightarrow> json \<Rightarrow> event_target \<Rightarrow> job_store \<Rightarrow> job_store \<times> string res" where
  "dispatch_to_target env n payload (TargetJob name) st = enqueue_nth env n name payload Normal st"
| "dispatch_to_target env n payload (TargetWebhook url) st =
     enqueue_nth env n ''shaperail:webhook_deliver''
       (JObj [(''url'', JStr url), (''payload'', payload)]) High st"
| "dispatch_to_target env n payload (TargetChannel name room) st =
     enqueue_nth env n ''shaperail:channel_broadcast''
       (JObj [(''channel'', JStr name), (''room'', json_of_option JStr room), (''payload'', payload)]) High st"
| "dispatch_to_target env n payload (TargetHook name) st =
     enqueue_nth env n ''shaperail:hook_execute'' (JObj [(''hook'', JStr name), (''payload'', payload)]) Normal st"

text \<open>The two loops over the matching subscribers and their targets, left at the first failure.\<close>

fun dispatch_all :: "emit_env \<Rightarrow> nat \<Rightarrow> json \<Rightarrow> event_target list \<Rightarrow> job_store \<Rightarrow> job_store \<times> unit res" where
  "dispatch_all env n payload [] st = (st, Inr ())"
| "dispatch_all env n payload (t # ts) st = (case dispatch_to_target env n payload t st of
     (st', Inl e) \<Rightarrow> (st', Inl e)
   | (st', Inr i) \<Rightarrow> dispatch_all env (Suc n) payload ts st')"

definition emit :: "emit_env \<Rightarrow> event_subscriber list \<Rightarrow> string \<Rightarrow> string \<Rightarrow> string \<Rightarrow> string \<Rightarrow> string \<Rightarrow> json \<Rightarrow>
    job_store \<Rightarrow> job_store \<times> string res" where
  "emit env subscribers event_id timestamp event_name resource action data st =
     (let payload_json = event_payload_json \<lparr>ep_event = event_name, ep_resource = resource, ep_action = action,
            ep_data = data, ep_timestamp = timestamp, ep_event_id = event_id\<rparr> in
      case enqueue_nth env 0 ''shaperail:event_log'' payload_json Normal st of
        (st1, Inl e) \<Rightarrow> (st1, Inl e)
      | (st1, Inr i) \<Rightarrow>
          (case dispatch_all env 1 payload_json
              (concat (map es_targets (find_matching_subscribers subscribers event_name))) st1 of
             (st2, Inl e) \<Rightarrow> (st2, Inl e)
           | (st2, Inr u) \<Rightarrow> (st2, Inr event_id)))"

section \<open>Signatures\<close>

text \<open>\<open>hmac key body\<close> is the hex text of HMAC-SHA256, none when the key is refused.\<close>

type_synonym hmac_lib = "string \<Rightarrow> string \<Rightarrow> string option"

definition compute_hmac_signature :: "hmac_lib \<Rightarrow> string \<Rightarrow> string \<Rightarrow> string" where
  "compute_hmac_signature hmac body secret = (case hmac secret body of Some h \<Rightarrow> h | None \<Rightarrow> [])"

definition constant_time_eq :: "string \<Rightarrow> string \<Rightarrow> bool" where
  "constant_time_eq a b =
     (if length a \<noteq> length b then False
      else fold (\<lambda>(x, y) diff. or diff (xor (byte_word x) (byte_word y))) (zip a b) 0 = 0)"

definition verify_hmac_signature :: "hmac_lib \<Rightarrow> string \<Rightarrow> string \<Rightarrow> string \<Rightarrow> bool" where
  "verify_hmac_signature hmac body secret signature =
     constant_time_eq (compute_hmac_signature hmac body secret) signature"

record webhook_dispatcher =
  wd_secret :: string
  wd_timeout_secs :: nat

record webhook_request =
  wr_url :: string
  wr_body :: string
  wr_signature :: string
  wr_timeout_secs :: nat

record delivery_result =
  dr_status_code :: nat
  dr_success :: bool
  dr_latency_ms :: nat
  dr_error :: "string option"

definition dispatcher_from_env :: "(string \<Rightarrow> string option) \<Rightarrow> string \<Rightarrow> nat \<Rightarrow> webhook_dispatcher res" where
  "dispatcher_from_env env secret_env timeout_secs = (case env secret_env of
     None \<Rightarrow> Inl (Internal (''Webhook secret env var '' @ squote secret_env @ '' not set''))
   | Some secret \<Rightarrow> Inr \<lparr>wd_secret = secret, wd_timeout_secs = timeout_secs\<rparr>)"

definition sign :: "hmac_lib \<Rightarrow> webhook_dispatcher \<Rightarrow> string \<Rightarrow> string" where
  "sign hmac d body = compute_hmac_signature hmac body (wd_secret d)"

definition build_delivery_request ::
    "hmac_lib \<Rightarrow> (json \<Rightarrow> string + string) \<Rightarrow> webhook_dispatcher \<Rightarrow> string \<Rightarrow> json \<Rightarrow> webhook_request res" where
  "build_delivery_request hmac to_text d url payload = (case to_text payload of
     Inl e \<Rightarrow> Inl (Internal (''Failed to serialize webhook body: '' @ e))
   | Inr body \<Rightarrow> Inr \<lparr>wr_url = url, wr_body = body, wr_signature = sign hmac d body,
       wr_timeout_secs = wd_timeout_secs d\<rparr>)"

definition signature_header :: "webhook_request \<Rightarrow> string" where
  "signature_header r = ''sha256='' @ wr_signature r"

definition simulate_delivery :: "nat \<Rightarrow> nat \<Rightarrow> delivery_result" where
  "simulate_delivery latency_ms status_code =
     \<lparr>dr_status_code = status_code, dr_success = (200 \<le> status_code \<and> status_code < 300),
      dr_latency_ms = latency_ms,
      dr_error = (if 200 \<le> status_code \<and> status_code < 300 then None else Some (''HTTP '' @ show_nat status_code))\<rparr>"

section \<open>\<open>String::from_utf8_lossy\<close>\<close>

text \<open>The length of the first scalar value, or of the invalid bytes that one replacement character
  stands for (the longest prefix of a sequence, at least one byte).\<close>

definition utf8_lead :: "char \<Rightarrow> char \<Rightarrow> bool" where
  "utf8_lead c d \<longleftrightarrow>
     in_range 0xE0 0xE0 c \<and> in_range 0xA0 0xBF d \<or> in_range 0xE1 0xEC c \<and> in_range 0x80 0xBF d
   \<or> in_range 0xED 0xED c \<and> in_range 0x80 0x9F d \<or> in_range 0xEE 0xEF c \<and> in_range 0x80 0xBF d
   \<or> in_range 0xF0 0xF0 c \<and> in_range 0x90 0xBF d \<or> in_range 0xF1 0xF3 c \<and> in_range 0x80 0xBF d
   \<or> in_range 0xF4 0xF4 c \<and> in_range 0x80 0x8F d"

fun lossy_chunk :: "string \<Rightarrow> bool \<times> nat" where
  "lossy_chunk (c # d # e # f # s) =
     (if in_range 0 0x7F c then (True, 1)
      else if utf8_seq2 c d then (True, 2)
      else if utf8_seq3 c d e then (True, 3)
      else if utf8_seq4 c d e f then (True, 4)
      else (False, if utf8_lead c d then (if in_range 0xF0 0xF4 c \<and> in_range 0x80 0xBF e then 3 else 2) else 1))"
| "lossy_chunk [c, d, e] =
     (if in_range 0 0x7F c then (True, 1)
      else if utf8_seq2 c d then (True, 2)
      else if utf8_seq3 c d e then (True, 3)
      else (False, if utf8_lead c d then (if in_range 0xF0 0xF4 c \<and> in_range 0x80 0xBF e then 3 else 2) else 1))"
| "lossy_chunk [c, d] =
     (if in_range 0 0x7F c then (True, 1)
      else if utf8_seq2 c d then (True, 2)
      else (False, if utf8_lead c d then 2 else 1))"
| "lossy_chunk [c] = (in_range 0 0x7F c, 1)"
| "lossy_chunk [] = (True, 1)"

lemma lossy_chunk_pos: "0 < snd (lossy_chunk s)"
  by (induction s rule: lossy_chunk.induct) auto

lemma lossy_less: "s \<noteq> [] \<Longrightarrow> (ok, n) = lossy_chunk s \<Longrightarrow> length s - n < length s"
  using lossy_chunk_pos [of s] by (cases "lossy_chunk s") auto

function from_utf8_lossy :: "string \<Rightarrow> string" where
  "from_utf8_lossy s =
     (if s = [] then []
      else (case lossy_chunk s of (ok, n) \<Rightarrow>
        (if ok then take n s else [CHR 0xEF, CHR 0xBF, CHR 0xBD]) @ from_utf8_lossy (drop n s)))"
  by pat_completeness auto

termination
  by (relation "measure length") (auto simp: lossy_less)

declare from_utf8_lossy.simps [simp del]

section \<open>Inbound webhooks\<close>

record inbound_webhook_config =
  ic_path :: string
  ic_secret_env :: string
  ic_events :: "string list"
  ic_signature_header :: string

record inbound_state =
  is_secret :: string
  is_accepted_events :: "string list"
  is_signature_header :: string

definition inbound_state_of :: "(string \<Rightarrow> string option) \<Rightarrow> inbound_webhook_config \<Rightarrow> inbound_state" where
  "inbound_state_of env c =
     \<lparr>is_secret = (case env (ic_secret_env c) of Some s \<Rightarrow> s | None \<Rightarrow> []),
      is_accepted_events = ic_events c, is_signature_header = ic_signature_header c\<rparr>"

definition configure_inbound_routes ::
    "(string \<Rightarrow> string option) \<Rightarrow> inbound_webhook_config list \<Rightarrow> (string \<times> inbound_state) list" where
  "configure_inbound_routes env configs = map (\<lambda>c. (ic_path c, inbound_state_of env c)) configs"

definition check_sha256_header :: "hmac_lib \<Rightarrow> string \<Rightarrow> string \<Rightarrow> header_value \<Rightarrow> unit res" where
  "check_sha256_header hmac body secret h =
     and_then (header_str h) (\<lambda>sig_str.
     and_then (ok_or Unauthorized (strip_prefix ''sha256='' sig_str)) (\<lambda>hex_sig.
       require (verify_hmac_signature hmac body secret hex_sig) Unauthorized))"

fun find_map :: "('a \<Rightarrow> 'b option) \<Rightarrow> 'a list \<Rightarrow> 'b option" where
  "find_map f [] = None"
| "find_map f (x # xs) = (case f x of Some y \<Rightarrow> Some y | None \<Rightarrow> find_map f xs)"

definition check_stripe_header :: "hmac_lib \<Rightarrow> string \<Rightarrow> string \<Rightarrow> header_value \<Rightarrow> unit res" where
  "check_stripe_header hmac body secret h =
     and_then (header_str h) (\<lambda>sig_str.
     and_then (ok_or Unauthorized (find_map (strip_prefix ''v1='') (split_on CHR '','' sig_str))) (\<lambda>v1_sig.
       (let timestamp = (case find_map (strip_prefix ''t='') (split_on CHR '','' sig_str) of
              Some t \<Rightarrow> t | None \<Rightarrow> []);
            signed_payload = timestamp @ ''.'' @ from_utf8_lossy body
        in require (verify_hmac_signature hmac signed_payload secret v1_sig) Unauthorized)))"

definition verify_signature :: "hmac_lib \<Rightarrow> (string \<Rightarrow> header_value option) \<Rightarrow> string \<Rightarrow> string \<Rightarrow> string \<Rightarrow> unit res" where
  "verify_signature hmac headers body secret sig_header =
     (case headers sig_header of
        Some h \<Rightarrow> check_sha256_header hmac body secret h
      | None \<Rightarrow> (case headers ''X-Shaperail-Signature'' of
          Some h \<Rightarrow> check_sha256_header hmac body secret h
        | None \<Rightarrow> (case headers ''X-Hub-Signature-256'' of
            Some h \<Rightarrow> check_sha256_header hmac body secret h
          | None \<Rightarrow> (case headers ''Stripe-Signature'' of
              Some h \<Rightarrow> check_stripe_header hmac body secret h
            | None \<Rightarrow> Inl Unauthorized))))"

definition event_type_of :: "json \<Rightarrow> string" where
  "event_type_of payload =
     (let v = (case json_get payload ''type'' of Some v \<Rightarrow> Some v
        | None \<Rightarrow> (case json_get payload ''event'' of Some v \<Rightarrow> Some v | None \<Rightarrow> json_get payload ''action''))
      in case Option.bind v as_str of Some s \<Rightarrow> s | None \<Rightarrow> ''unknown'')"

definition handle_inbound_webhook :: "hmac_lib \<Rightarrow> (string \<Rightarrow> string + json) \<Rightarrow> emit_env \<Rightarrow> event_subscriber list \<Rightarrow>
    string \<Rightarrow> string \<Rightarrow> (string \<Rightarrow> header_value option) \<Rightarrow> inbound_state \<Rightarrow> string \<Rightarrow> job_store \<Rightarrow> job_store \<times> json res" where
  "handle_inbound_webhook hmac parse env subscribers event_id timestamp headers state body st =
     (case verify_signature hmac headers body (is_secret state) (is_signature_header state) of
        Inl e \<Rightarrow> (st, Inl e)
      | Inr u \<Rightarrow> (case parse body of
          Inl e \<Rightarrow> (st, Inl (Validation [\<lparr>fe_field = ''body'', fe_message = ''Invalid JSON: '' @ e,
            fe_code = ''invalid_json''\<rparr>]))
        | Inr payload \<Rightarrow>
            (let event_type = event_type_of payload in
             if is_accepted_events state \<noteq> [] \<and> event_type \<notin> set (is_accepted_events state) then
               (st, Inr (JObj [(''accepted'', JBool False), (''reason'', JStr ''event type not in accepted list'')]))
             else (fst (emit env subscribers event_id timestamp (''inbound.'' @ event_type) ''webhook'' event_type
                 payload st), Inr (JObj [(''accepted'', JBool True)])))))"

section \<open>Patterns and segments\<close>

definition dot_free :: "string \<Rightarrow> bool" where
  "dot_free s \<longleftrightarrow> CHR ''.'' \<notin> set s"

lemma dotted_eq:
  assumes "dot_free r" and "dot_free r'"
  shows "r @ ''.'' @ a = r' @ ''.'' @ a' \<longleftrightarrow> r = r' \<and> a = a'"
  using assms
proof (induction r arbitrary: r')
  case Nil
  then show ?case by (cases r') (auto simp: dot_free_def)
next
  case (Cons c r)
  then show ?case by (cases r') (auto simp: dot_free_def)
qed

lemma dotted_suffix_eq:
  assumes "dot_free a" and "dot_free a'"
  shows "suffix (''.'' @ a) (r @ ''.'' @ a') \<longleftrightarrow> a = a'"
proof
  assume "suffix (''.'' @ a) (r @ ''.'' @ a')"
  then obtain p where "r @ ''.'' @ a' = p @ ''.'' @ a" by (auto simp: suffix_def)
  then have "rev a' @ ''.'' @ rev r = rev a @ ''.'' @ rev p" by (metis rev_append append_assoc rev_singleton_conv)
  then have "rev a' = rev a"
    using assms dotted_eq [of "rev a'" "rev a" "rev r" "rev p"] by (simp add: dot_free_def)
  then show "a = a'" by simp
qed (auto simp: suffix_def)

lemma dotted_prefix_eq:
  assumes "dot_free r" and "dot_free r'"
  shows "prefix (r @ ''.'') (r' @ ''.'' @ a) \<longleftrightarrow> r = r'"
  using dotted_eq [OF assms] by (auto simp: prefix_def) (metis append.assoc append_Cons append_Nil)

text \<open>Subscriptions route by segment: a two-segment pattern matches an event of a resource and
  an action exactly when each of its segments is equal or a star, provided not both are stars.\<close>

lemma event_matches_segments:
  assumes "dot_free r" and "dot_free a" and "dot_free r'" and "dot_free a'"
    and "r \<noteq> ''*'' \<or> a \<noteq> ''*''" and "r' \<noteq> ''*''" and "a' \<noteq> ''*''"
  shows "event_matches (r @ ''.'' @ a) (r' @ ''.'' @ a') \<longleftrightarrow> (r = ''*'' \<or> r = r') \<and> (a = ''*'' \<or> a = a')"
proof -
  have star: "r @ ''.'' @ a \<noteq> ''*''" by (cases r) auto
  have pre: "strip_prefix ''*.'' (r @ ''.'' @ a) = (if r = ''*'' then Some a else None)"
  proof -
    have "prefix ''*.'' (r @ ''.'' @ a) \<longleftrightarrow> ''*'' = r"
      using dotted_prefix_eq [of "''*''" r a] assms(1) by (simp add: dot_free_def)
    then show ?thesis by (auto simp: strip_prefix_def)
  qed
  have suf: "strip_suffix ''.*'' (r @ ''.'' @ a) = (if a = ''*'' then Some r else None)"
  proof -
    have "suffix ''.*'' (r @ ''.'' @ a) \<longleftrightarrow> ''*'' = a"
      using dotted_suffix_eq [of "''*''" a r] assms(2) by (simp add: dot_free_def)
    then show ?thesis by (auto simp: strip_suffix_def)
  qed
  have "event_matches (r @ ''.'' @ a) (r' @ ''.'' @ a') =
      (if r = r' \<and> a = a' then True else if r = ''*'' then a = a' else if a = ''*'' then r = r' else False)"
    unfolding event_matches_def if_not_P [OF star] pre suf dotted_eq [OF assms(1,3)]
    by (simp only: option.case dotted_suffix_eq [OF assms(2,4)] dotted_prefix_eq [OF assms(1,3)]
        if_distrib [where f = "case_option _ _"] cong: if_cong)
  then show ?thesis using assms(5-7) by (auto split: if_splits)
qed

text \<open>Two stars are no wildcard: the first is stripped and the second is compared as a text.\<close>

lemma double_star_matches_nothing: "\<not> event_matches ''*.*'' ''users.created''"
  by code_simp

section \<open>The jobs of an event\<close>

text \<open>The reference: an event is the event log's job followed by one job per target.\<close>

fun target_job :: "json \<Rightarrow> event_target \<Rightarrow> string \<times> json \<times> job_priority" where
  "target_job payload (TargetJob name) = (name, payload, Normal)"
| "target_job payload (TargetWebhook url) =
     (''shaperail:webhook_deliver'', JObj [(''url'', JStr url), (''payload'', payload)], High)"
| "target_job payload (TargetChannel name room) = (''shaperail:channel_broadcast'',
     JObj [(''channel'', JStr name), (''room'', json_of_option JStr room), (''payload'', payload)], High)"
| "target_job payload (TargetHook name) =
     (''shaperail:hook_execute'', JObj [(''hook'', JStr name), (''payload'', payload)], Normal)"

fun envelopes :: "emit_env \<Rightarrow> nat \<Rightarrow> (string \<times> json \<times> job_priority) list \<Rightarrow> job_envelope list" where
  "envelopes env n [] = []"
| "envelopes env n ((name, payload, priority) # js) =
     \<lparr>je_id = em_ids env n, je_name = name, je_payload = payload, je_priority = priority,
      je_max_retries = 3, je_timeout_secs = 300, je_attempt = 0\<rparr> # envelopes env (Suc n) js"

definition pushed :: "job_envelope list \<Rightarrow> job_store \<Rightarrow> job_store \<Rightarrow> bool" where
  "pushed es st st' \<longleftrightarrow> (\<forall>q. js_queues st' q = js_queues st q @ map Job (filter (\<lambda>e. je_priority e = q) es))"

lemma pushed_nil [simp]: "js_queues st' = js_queues st \<Longrightarrow> pushed [] st st'"
  by (simp add: pushed_def)

lemma pushed_append: "pushed es st st1 \<Longrightarrow> pushed fs st1 st2 \<Longrightarrow> pushed (es @ fs) st st2"
  by (simp add: pushed_def)

lemma enqueue_nth_pushed:
  "case enqueue_nth env n name payload priority st of
     (st', Inl e) \<Rightarrow> pushed [] st st' \<and> em_faults env n \<noteq> no_faults
   | (st', Inr i) \<Rightarrow> pushed (envelopes env n [(name, payload, priority)]) st st'"
  by (auto simp: enqueue_nth_def enqueue_def enqueue_with_options_def Let_def pushed_def rpush_def expire_def
      hset_def no_faults_def redis_call_def connect_def fun_eq_iff split: option.splits sum.splits)

lemma dispatch_to_target_job:
  "dispatch_to_target env n payload t st = (case target_job payload t of (name, p, prio) \<Rightarrow> enqueue_nth env n name p prio st)"
  by (cases t) simp_all

definition up_between :: "emit_env \<Rightarrow> nat \<Rightarrow> nat \<Rightarrow> bool" where
  "up_between env n k \<longleftrightarrow> (\<forall>j. n \<le> j \<and> j < n + k \<longrightarrow> em_faults env j = no_faults)"

lemma dispatch_all_pushed:
  "\<exists>k \<le> length ts. pushed (take k (envelopes env n (map (target_job payload) ts))) st
       (fst (dispatch_all env n payload ts st))
     \<and> (if k = length ts then snd (dispatch_all env n payload ts st) = Inr ()
        else (\<exists>e. snd (dispatch_all env n payload ts st) = Inl e) \<and> \<not> up_between env n (length ts))"
proof (induction ts arbitrary: n st)
  case Nil
  then show ?case by simp
next
  case (Cons t ts)
  obtain name p prio where t: "target_job payload t = (name, p, prio)" by (cases "target_job payload t")
  obtain st1 r where e: "enqueue_nth env n name p prio st = (st1, r)" by fastforce
  show ?case
  proof (cases r)
    case (Inl err)
    then have "pushed [] st st1" "em_faults env n \<noteq> no_faults"
      using enqueue_nth_pushed [of st env n name p prio] e by simp_all
    with Inl e t show ?thesis
      by (intro exI [of _ 0]) (auto simp: dispatch_to_target_job up_between_def)
  next
    case (Inr i)
    then have one: "pushed (envelopes env n [(name, p, prio)]) st st1"
      using enqueue_nth_pushed [of st env n name p prio] e by simp
    obtain k where k: "k \<le> length ts"
      "pushed (take k (envelopes env (Suc n) (map (target_job payload) ts))) st1 (fst (dispatch_all env (Suc n) payload ts st1))"
      "if k = length ts then snd (dispatch_all env (Suc n) payload ts st1) = Inr ()
        else (\<exists>e. snd (dispatch_all env (Suc n) payload ts st1) = Inl e) \<and> \<not> up_between env (Suc n) (length ts)"
      using Cons.IH by blast
    have "up_between env n (length (t # ts)) \<Longrightarrow> up_between env (Suc n) (length ts)"
      by (simp add: up_between_def)
    with Inr e t k pushed_append [OF one k(2)] show ?thesis
      by (intro exI [of _ "Suc k"]) (auto simp: dispatch_to_target_job split: if_splits)
  qed
qed

text \<open>Emitting an event enqueues the event log's job and then one job per target of each matching
  subscriber, in order, webhooks and channels at high priority and the rest at normal. When the
  queue fails, the jobs before the failure stay enqueued and the error is returned; the event's id
  is returned exactly when all are enqueued, and they are when the queue is up.\<close>

lemma emit_enqueues_in_order:
  fixes subs :: "event_subscriber list" and data :: json and i name resource action ts :: string
    and env :: emit_env and st :: job_store
  defines "payload \<equiv> event_payload_json \<lparr>ep_event = name, ep_resource = resource, ep_action = action,
      ep_data = data, ep_timestamp = ts, ep_event_id = i\<rparr>"
  defines "jobs \<equiv> (''shaperail:event_log'', payload, Normal)
      # map (target_job payload) (concat (map es_targets (find_matching_subscribers subs name)))"
  defines "result \<equiv> emit env subs i ts name resource action data st"
  shows "\<exists>k \<le> length jobs. pushed (take k (envelopes env 0 jobs)) st (fst result)
    \<and> (if k = length jobs then snd result = Inr i
       else (\<exists>e. snd result = Inl e) \<and> \<not> up_between env 0 (length jobs))"
proof -
  let ?ts = "concat (map es_targets (find_matching_subscribers subs name))"
  obtain st1 r where e: "enqueue_nth env 0 ''shaperail:event_log'' payload Normal st = (st1, r)" by fastforce
  show ?thesis
  proof (cases r)
    case (Inl err)
    then have "pushed [] st st1" "em_faults env 0 \<noteq> no_faults"
      using enqueue_nth_pushed [of st env 0 "''shaperail:event_log''" payload Normal] e by simp_all
    moreover have "result = (st1, Inl err)"
      using Inl e by (simp add: result_def emit_def Let_def payload_def)
    ultimately show ?thesis
      by (intro exI [of _ 0]) (auto simp: up_between_def jobs_def)
  next
    case (Inr j)
    then have one: "pushed (envelopes env 0 [(''shaperail:event_log'', payload, Normal)]) st st1"
      using enqueue_nth_pushed [of st env 0 "''shaperail:event_log''" payload Normal] e by simp
    obtain st2 r2 where d: "dispatch_all env (Suc 0) payload ?ts st1 = (st2, r2)" by fastforce
    obtain k where k: "k \<le> length ?ts"
      "pushed (take k (envelopes env (Suc 0) (map (target_job payload) ?ts))) st1 st2"
      "if k = length ?ts then r2 = Inr () else (\<exists>e. r2 = Inl e) \<and> \<not> up_between env (Suc 0) (length ?ts)"
      using dispatch_all_pushed [of ?ts env "Suc 0" payload st1] unfolding d fst_conv snd_conv by blast
    have "up_between env 0 (length jobs) \<Longrightarrow> up_between env (Suc 0) (length ?ts)"
      by (simp add: up_between_def jobs_def)
    moreover have "result = (st2, case r2 of Inl e \<Rightarrow> Inl e | Inr u \<Rightarrow> Inr i)"
      using Inr e d by (simp add: result_def emit_def Let_def payload_def split: sum.split)
    ultimately show ?thesis
      using k pushed_append [OF one k(2)]
      by (intro exI [of _ "Suc k"]) (auto simp: jobs_def split: if_splits)
  qed
qed

section \<open>Authentic webhooks\<close>

lemma fold_diff_zero:
  "fold (\<lambda>(x, y) diff. or diff (xor (byte_word x) (byte_word y))) ps d = 0 \<longleftrightarrow> d = 0 \<and> (\<forall>(x, y) \<in> set ps. x = y)"
proof (induction ps arbitrary: d)
  case (Cons p ps)
  obtain x y where p: "p = (x, y)" by fastforce
  have "xor (byte_word x) (byte_word y) = 0 \<longleftrightarrow> byte_word x = byte_word y"
    by (metis xor.right_neutral xor_self_eq xor.assoc)
  moreover have "byte_word x = byte_word y \<longleftrightarrow> x = y"
    by (metis char_of_byte_word)
  ultimately show ?case using Cons.IH by (simp add: p or_eq_0_iff)
qed simp

lemma constant_time_eq_iff: "constant_time_eq a b \<longleftrightarrow> a = b"
  unfolding constant_time_eq_def fold_diff_zero list_eq_iff_zip_eq [of a b] by simp

lemma verify_hmac_iff:
  "verify_hmac_signature hmac body secret s \<longleftrightarrow> s = compute_hmac_signature hmac body secret"
  by (auto simp: verify_hmac_signature_def constant_time_eq_iff)

lemma strip_prefix_some: "strip_prefix p s = Some r \<longleftrightarrow> s = p @ r"
  by (auto simp: strip_prefix_def prefix_def)

lemma check_sha256_iff:
  "check_sha256_header hmac body secret h = Inr () \<longleftrightarrow>
     h = Text (''sha256='' @ compute_hmac_signature hmac body secret)"
proof (cases h)
  case (Text s)
  then show ?thesis
    using strip_prefix_some [of "''sha256=''" s]
    by (cases "strip_prefix ''sha256='' s")
      (auto simp: check_sha256_header_def ok_or_def require_def verify_hmac_iff)
qed (simp add: check_sha256_header_def)

text \<open>The reference for Stripe's header: it has a first \<open>v1\<close> part, which signs the time stamp and the body.\<close>

definition stripe_signed :: "hmac_lib \<Rightarrow> string \<Rightarrow> string \<Rightarrow> header_value \<Rightarrow> bool" where
  "stripe_signed hmac body secret h \<longleftrightarrow> (\<exists>s t. h = Text s
     \<and> t = (case find_map (strip_prefix ''t='') (split_on CHR '','' s) of Some t \<Rightarrow> t | None \<Rightarrow> [])
     \<and> find_map (strip_prefix ''v1='') (split_on CHR '','' s)
         = Some (compute_hmac_signature hmac (t @ ''.'' @ from_utf8_lossy body) secret))"

lemma check_stripe_iff: "check_stripe_header hmac body secret h = Inr () \<longleftrightarrow> stripe_signed hmac body secret h"
proof (cases h)
  case (Text s)
  then show ?thesis
    by (cases "find_map (strip_prefix ''v1='') (split_on CHR '','' s)")
      (auto simp: check_stripe_header_def stripe_signed_def ok_or_def require_def verify_hmac_iff Let_def)
qed (simp add: check_stripe_header_def stripe_signed_def)

text \<open>An inbound webhook is authenticated exactly when the first present of the configured,
  Shaperail's and GitHub's signature header is the HMAC of the body under the endpoint's secret, or,
  with none of them present, Stripe's header signs its time stamp and the body. A present header
  decides alone: no later header can rescue a bad one.\<close>

lemma verify_signature_iff:
  "verify_signature hmac headers body secret sig_header = Inr () \<longleftrightarrow>
     (case find_map headers [sig_header, ''X-Shaperail-Signature'', ''X-Hub-Signature-256''] of
        Some h \<Rightarrow> h = Text (''sha256='' @ compute_hmac_signature hmac body secret)
      | None \<Rightarrow> (case headers ''Stripe-Signature'' of
          Some h \<Rightarrow> stripe_signed hmac body secret h | None \<Rightarrow> False))"
  by (simp add: verify_signature_def check_sha256_iff check_stripe_iff split: option.split)

lemma delivered_webhook_verifies:
  assumes "build_delivery_request hmac to_text d url payload = Inr r"
    and "headers sig_header = None \<or> sig_header = ''X-Shaperail-Signature''"
    and "headers ''X-Shaperail-Signature'' = Some (Text (signature_header r))"
  shows "verify_signature hmac headers (wr_body r) (wd_secret d) sig_header = Inr ()"
  using assms
  by (auto simp: verify_signature_def check_sha256_iff build_delivery_request_def signature_header_def sign_def
      split: sum.splits)

lemma and_then_error: "and_then x f = Inl e \<longleftrightarrow> x = Inl e \<or> (\<exists>y. x = Inr y \<and> f y = Inl e)"
  by (cases x) auto

lemma verify_signature_error: "verify_signature hmac headers body secret sig_header = Inl e \<Longrightarrow> e = Unauthorized"
proof -
  have h: "header_str h = Inl e \<Longrightarrow> e = Unauthorized" for h by (cases h) auto
  have "check_sha256_header hmac body secret h = Inl e \<Longrightarrow> e = Unauthorized"
    and "check_stripe_header hmac body secret h = Inl e \<Longrightarrow> e = Unauthorized" for h
    using h by (auto simp: check_sha256_header_def check_stripe_header_def and_then_error ok_or_def require_def Let_def
        split: option.splits if_splits)
  then show "verify_signature hmac headers body secret sig_header = Inl e \<Longrightarrow> e = Unauthorized"
    by (auto simp: verify_signature_def split: option.splits)
qed


definition quiet_emit :: emit_env where
  "quiet_emit = \<lparr>em_faults = (\<lambda>n. no_faults), em_ids = show_nat, em_now = int, em_show_time = show_int\<rparr>"


end
