(* ===== verification/Sagas.thy ===== *)
theory Sagas
  imports Input_Validation
begin

text \<open>
  Distributed sagas: the definitions of \<open>shaperail-core/src/saga.rs\<close>, the executor of
  \<open>shaperail-runtime/src/sagas/executor.rs\<close> and the two handlers of \<open>sagas/handler.rs\<close>. The table
  \<open>saga_executions\<close> is a list of rows; a spawned tokio task is an entry of \<open>sw_tasks\<close>; every HTTP
  request is recorded in \<open>sw_calls\<close>. The remote services, the database's failures and the parser of
  HTTP methods (crate \<open>http\<close>) are fields of the environment.
\<close>

section \<open>Definitions and state\<close>

record saga_step =
  sp_name :: string
  sp_service :: string
  sp_action :: string
  sp_compensate :: string
  sp_input :: "json option"
  sp_timeout :: nat

record saga_definition =
  sd_saga :: string
  sd_version :: nat
  sd_steps :: "saga_step list"

definition default_saga_version :: nat where
  "default_saga_version = 1"

definition default_step_timeout :: nat where
  "default_step_timeout = 30"

datatype saga_status = SagaRunning | SagaCompleted | SagaCompensating | SagaCompensated | SagaFailed

fun saga_status_display :: "saga_status \<Rightarrow> string" where
  "saga_status_display SagaRunning = ''running''"
| "saga_status_display SagaCompleted = ''completed''"
| "saga_status_display SagaCompensating = ''compensating''"
| "saga_status_display SagaCompensated = ''compensated''"
| "saga_status_display SagaFailed = ''failed''"

record saga_execution =
  se_saga_name :: string
  se_status :: string
  se_step :: nat
  se_results :: json
  se_input :: "json option"
  se_error :: "string option"

record http_call =
  hc_method :: string
  hc_url :: string
  hc_body :: "json option"
  hc_timeout :: nat

text \<open>An answer has a status and its body when that is JSON; a request may also fail.\<close>

datatype http_answer = Answered nat "json option" | RequestFailed string

datatype saga_op = InsertRow | FetchRow | AdvanceRow | StatusRow

datatype saga_task = AdvanceTask uuid saga_definition | CompensateTask uuid saga_definition

record saga_env =
  sv_urls :: "(string \<times> string) list"
  sv_method :: "string \<Rightarrow> string option"
  sv_answer :: "http_call list \<Rightarrow> http_call \<Rightarrow> http_answer"
  sv_status_text :: "nat \<Rightarrow> string"
  sv_fault :: "http_call list \<Rightarrow> saga_op \<Rightarrow> string option"

record saga_world =
  sw_rows :: "(uuid \<times> saga_execution) list"
  sw_calls :: "http_call list"
  sw_tasks :: "saga_task list"

section \<open>Database and HTTP\<close>

definition row_missing :: string where
  "row_missing = ''no rows returned by a query that expected to return at least one row''"

definition fetch_row :: "saga_env \<Rightarrow> uuid \<Rightarrow> saga_world \<Rightarrow> saga_execution res" where
  "fetch_row env i w = (case sv_fault env (sw_calls w) FetchRow of
     Some e \<Rightarrow> Inl (Internal e)
   | None \<Rightarrow> ok_or (Internal row_missing) (map_of (sw_rows w) i))"

definition update_row :: "uuid \<Rightarrow> (saga_execution \<Rightarrow> saga_execution) \<Rightarrow> saga_world \<Rightarrow> saga_world" where
  "update_row i f w = w\<lparr>sw_rows := map (\<lambda>(j, ex). (j, if j = i then f ex else ex)) (sw_rows w)\<rparr>"

definition update_saga_status ::
    "saga_env \<Rightarrow> uuid \<Rightarrow> saga_status \<Rightarrow> string option \<Rightarrow> saga_world \<Rightarrow> saga_world \<times> unit res" where
  "update_saga_status env i status err w = (case sv_fault env (sw_calls w) StatusRow of
     Some e \<Rightarrow> (w, Inl (Internal e))
   | None \<Rightarrow> (update_row i (\<lambda>ex. ex\<lparr>se_status := saga_status_display status, se_error := err\<rparr>) w, Inr ()))"

text \<open>\<open>step_results || [v]\<close> of Postgres: appending to an array; another value becomes the first element.\<close>

definition jsonb_append :: "json \<Rightarrow> json \<Rightarrow> json" where
  "jsonb_append old v = (case old of JArr vs \<Rightarrow> JArr (vs @ [v]) | _ \<Rightarrow> JArr [old, v])"

definition send :: "saga_env \<Rightarrow> http_call \<Rightarrow> saga_world \<Rightarrow> saga_world \<times> http_answer" where
  "send env call w = (w\<lparr>sw_calls := sw_calls w @ [call]\<rparr>, sv_answer env (sw_calls w) call)"

fun is_success :: "http_answer \<Rightarrow> bool" where
  "is_success (Answered status body) = (200 \<le> status \<and> status < 300)"
| "is_success (RequestFailed e) = False"

fun answer_json :: "http_answer \<Rightarrow> json" where
  "answer_json (Answered status (Some v)) = v"
| "answer_json _ = JNull"

definition parse_action :: "saga_env \<Rightarrow> string \<Rightarrow> (string \<times> string) res" where
  "parse_action env action = (case split_once CHR '' '' action of
     None \<Rightarrow> Inl (Internal (''Invalid saga action format: '' @ squote action
       @ [CHR '' '', CHR 0xE2, CHR 0x80, CHR 0x94] @ '' expected '' @ squote ''METHOD /path''))
   | Some (m, path) \<Rightarrow> (case sv_method env m of
       None \<Rightarrow> Inl (Internal (''Unknown HTTP method: '' @ m))
     | Some meth \<Rightarrow> Inr (meth, path)))"

section \<open>Forward steps\<close>

datatype advance_result = Again saga_world | Stopped saga_world "saga_status res"

definition start_compensating ::
    "saga_env \<Rightarrow> uuid \<Rightarrow> saga_definition \<Rightarrow> string \<Rightarrow> saga_world \<Rightarrow> advance_result" where
  "start_compensating env i saga msg w =
     (case update_saga_status env i SagaCompensating (Some msg) w of
        (w', Inl e) \<Rightarrow> Stopped w' (Inl e)
      | (w', Inr _) \<Rightarrow> Stopped (w'\<lparr>sw_tasks := sw_tasks w' @ [CompensateTask i saga]\<rparr>) (Inr SagaCompensating))"

fun failure_text :: "saga_env \<Rightarrow> saga_step \<Rightarrow> http_answer \<Rightarrow> string" where
  "failure_text env step (Answered status body) =
     ''Step '' @ squote (sp_name step) @ '' failed with HTTP '' @ sv_status_text env status"
| "failure_text env step (RequestFailed e) = ''Step '' @ squote (sp_name step) @ '' request error: '' @ e"

definition record_step :: "saga_env \<Rightarrow> uuid \<Rightarrow> json \<Rightarrow> saga_world \<Rightarrow> advance_result" where
  "record_step env i v w = (case sv_fault env (sw_calls w) AdvanceRow of
     Some e \<Rightarrow> Stopped w (Inl (Internal e))
   | None \<Rightarrow> Again (update_row i (\<lambda>ex. ex\<lparr>se_step := se_step ex + 1,
       se_results := jsonb_append (se_results ex) v\<rparr>) w))"

text \<open>One round of the loop of \<open>advance\<close>.\<close>

definition advance_once :: "saga_env \<Rightarrow> uuid \<Rightarrow> saga_definition \<Rightarrow> saga_world \<Rightarrow> advance_result" where
  "advance_once env i saga w = (case fetch_row env i w of
     Inl e \<Rightarrow> Stopped w (Inl e)
   | Inr ex \<Rightarrow>
       if length (sd_steps saga) \<le> se_step ex then
         (case update_saga_status env i SagaCompleted None w of
            (w', Inl e) \<Rightarrow> Stopped w' (Inl e)
          | (w', Inr _) \<Rightarrow> Stopped w' (Inr SagaCompleted))
       else let step = sd_steps saga ! se_step ex in
         (case map_of (sv_urls env) (sp_service step) of
            None \<Rightarrow> Stopped w (Inl (Internal (''Service '' @ squote (sp_service step) @ '' not in service registry'')))
          | Some base_url \<Rightarrow> (case parse_action env (sp_action step) of
              Inl e \<Rightarrow> Stopped w (Inl e)
            | Inr (meth, path) \<Rightarrow>
                (case send env \<lparr>hc_method = meth, hc_url = base_url @ path,
                    hc_body = Some (case se_input ex of Some v \<Rightarrow> v | None \<Rightarrow> JNull),
                    hc_timeout = sp_timeout step\<rparr> w of
                   (w1, answer) \<Rightarrow>
                     if is_success answer then record_step env i (answer_json answer) w1
                     else start_compensating env i saga (failure_text env step answer) w1))))"

definition steps_left :: "uuid \<Rightarrow> saga_definition \<Rightarrow> saga_world \<Rightarrow> nat" where
  "steps_left i saga w = (case map_of (sw_rows w) i of
     None \<Rightarrow> 0 | Some ex \<Rightarrow> length (sd_steps saga) - se_step ex)"

lemma map_of_update_row [simp]:
  "map_of (sw_rows (update_row i f w)) j = (if j = i then map_option f (map_of (sw_rows w) j) else map_of (sw_rows w) j)"
proof -
  have "map_of (map (\<lambda>(k, ex). (k, if k = i then f ex else ex)) rows) j
      = (if j = i then map_option f (map_of rows j) else map_of rows j)" for rows
    by (induction rows) auto
  then show ?thesis by (simp add: update_row_def)
qed

lemma update_row_other [simp]:
  "sw_calls (update_row i f w) = sw_calls w" "sw_tasks (update_row i f w) = sw_tasks w"
  by (simp_all add: update_row_def)

lemma send_up [simp]:
  "send env call w = (w\<lparr>sw_calls := sw_calls w @ [call]\<rparr>, sv_answer env (sw_calls w) call)"
  by (simp add: send_def)

lemma advance_once_again:
  assumes "advance_once env i saga w = Again w'"
  obtains ex v where "map_of (sw_rows w) i = Some ex" and "se_step ex < length (sd_steps saga)"
    and "map_of (sw_rows w') = (map_of (sw_rows w))(i \<mapsto> ex\<lparr>se_step := se_step ex + 1,
      se_results := jsonb_append (se_results ex) v\<rparr>)"
    and "sw_tasks w' = sw_tasks w"
  using assms
  by (auto simp: advance_once_def fetch_row_def ok_or_def record_step_def start_compensating_def
      Let_def fun_eq_iff split: option.splits if_splits sum.splits prod.splits)

lemma advance_once_less: "advance_once env i saga w = Again w' \<Longrightarrow> steps_left i saga w' < steps_left i saga w"
  by (erule advance_once_again) (auto simp: steps_left_def)

function advance :: "saga_env \<Rightarrow> uuid \<Rightarrow> saga_definition \<Rightarrow> saga_world \<Rightarrow> saga_world \<times> saga_status res" where
  "advance env i saga w = (case advance_once env i saga w of
     Again w' \<Rightarrow> advance env i saga w' | Stopped w' r \<Rightarrow> (w', r))"
  by pat_completeness auto
termination
  by (relation "measure (\<lambda>(env, i, saga, w). steps_left i saga w)") (auto simp: advance_once_less)

declare advance.simps [simp del]

section \<open>Compensation\<close>

text \<open>\<open>serde_json::from_value\<close> to a vector: an array, or nothing.\<close>

definition result_list :: "json \<Rightarrow> json list" where
  "result_list v = (case v of JArr vs \<Rightarrow> vs | _ \<Rightarrow> [])"

definition result_id :: "json list \<Rightarrow> nat \<Rightarrow> string" where
  "result_id results j =
     (if j < length results then (case json_get_str (results ! j) ''id'' of Some s \<Rightarrow> s | None \<Rightarrow> []) else [])"

definition compensate_step ::
    "saga_env \<Rightarrow> saga_definition \<Rightarrow> json list \<Rightarrow> nat \<Rightarrow> saga_world \<Rightarrow> saga_world" where
  "compensate_step env saga results j w = (let step = sd_steps saga ! j in
     case map_of (sv_urls env) (sp_service step) of
       None \<Rightarrow> w
     | Some base_url \<Rightarrow> (case parse_action env (sp_compensate step) of
         Inl e \<Rightarrow> w
       | Inr (meth, path) \<Rightarrow> fst (send env \<lparr>hc_method = meth,
           hc_url = base_url @ replace_all '':id'' (result_id results j) path,
           hc_body = None, hc_timeout = sp_timeout step\<rparr> w)))"

text \<open>None is the panic of the index \<open>saga.steps[i]\<close> out of range.\<close>

definition compensate :: "saga_env \<Rightarrow> uuid \<Rightarrow> saga_definition \<Rightarrow> saga_world \<Rightarrow> (saga_world \<times> unit res) option" where
  "compensate env i saga w = (case fetch_row env i w of
     Inl e \<Rightarrow> Some (w, Inl e)
   | Inr ex \<Rightarrow>
       if length (sd_steps saga) < se_step ex then None
       else Some (update_saga_status env i SagaCompensated None
         (fold (compensate_step env saga (result_list (se_results ex))) (rev [0..<se_step ex]) w)))"

section \<open>Starting, tasks and status\<close>

definition start :: "saga_env \<Rightarrow> uuid \<Rightarrow> saga_definition \<Rightarrow> json \<Rightarrow> saga_world \<Rightarrow> saga_world \<times> uuid res" where
  "start env new_id saga input w = (case sv_fault env (sw_calls w) InsertRow of
     Some e \<Rightarrow> (w, Inl (Internal e))
   | None \<Rightarrow> (w\<lparr>sw_rows := sw_rows w @ [(new_id, \<lparr>se_saga_name = sd_saga saga,
         se_status = saga_status_display SagaRunning, se_step = 0, se_results = JArr [],
         se_input = Some input, se_error = None\<rparr>)],
       sw_tasks := sw_tasks w @ [AdvanceTask new_id saga]\<rparr>, Inr new_id))"

fun run_task :: "saga_env \<Rightarrow> saga_task \<Rightarrow> saga_world \<Rightarrow> saga_world" where
  "run_task env (AdvanceTask i saga) w = fst (advance env i saga w)"
| "run_task env (CompensateTask i saga) w = (case compensate env i saga w of Some (w', r) \<Rightarrow> w' | None \<Rightarrow> w)"

definition run_next :: "saga_env \<Rightarrow> saga_world \<Rightarrow> saga_world" where
  "run_next env w = (case sw_tasks w of
     [] \<Rightarrow> w | t # ts \<Rightarrow> run_task env t (w\<lparr>sw_tasks := ts\<rparr>))"

definition get_saga_execution :: "saga_env \<Rightarrow> uuid \<Rightarrow> saga_world \<Rightarrow> saga_execution res" where
  "get_saga_execution env i w = (case sv_fault env (sw_calls w) FetchRow of
     Some e \<Rightarrow> Inl (Internal e) | None \<Rightarrow> ok_or NotFound (map_of (sw_rows w) i))"

text \<open>The handlers: a response is its status and body; the executor may be missing.\<close>

definition error_json :: "string \<Rightarrow> json" where
  "error_json msg = JObj [(''error'', JStr msg)]"

definition start_saga :: "value_lib \<Rightarrow> saga_env option \<Rightarrow> uuid \<Rightarrow> saga_definition list \<Rightarrow> string \<Rightarrow> json \<Rightarrow>
    saga_world \<Rightarrow> saga_world \<times> nat \<times> json" where
  "start_saga lib executor new_id sagas name body w = (case executor of
     None \<Rightarrow> (w, 503, error_json ''Saga executor not configured'')
   | Some env \<Rightarrow> (case find (\<lambda>s. sd_saga s = name) sagas of
       None \<Rightarrow> (w, 404, error_json (''Saga '' @ squote name @ '' not found''))
     | Some saga \<Rightarrow> (case start env new_id saga body w of
         (w', Inr i) \<Rightarrow> (w', 202, JObj [(''execution_id'', JStr (show_uuid lib i))])
       | (w', Inl e) \<Rightarrow> (w', 500, error_json (error_message e)))))"

definition get_saga_status :: "value_lib \<Rightarrow> saga_env option \<Rightarrow> string \<Rightarrow> saga_world \<Rightarrow> nat \<times> json" where
  "get_saga_status lib executor id_str w = (case parse_uuid lib id_str of
     None \<Rightarrow> (400, error_json ''Invalid execution ID format'')
   | Some i \<Rightarrow> (case executor of
       None \<Rightarrow> (503, error_json ''Saga executor not configured'')
     | Some env \<Rightarrow> (case get_saga_execution env i w of
         Inl e \<Rightarrow> (404, error_json ''Execution not found'')
       | Inr ex \<Rightarrow> (200, JObj [(''id'', JStr (show_uuid lib i)), (''saga_name'', JStr (se_saga_name ex)),
           (''status'', JStr (se_status ex)), (''current_step'', JNum (PosInt (se_step ex))),
           (''error'', json_of_option JStr (se_error ex))]))))"

section \<open>What one round does\<close>

text \<open>The reference: the request of a forward step and of a compensation, none when the service is
  not registered or the action does not parse.\<close>

definition saga_call :: "saga_env \<Rightarrow> saga_step \<Rightarrow> string \<Rightarrow> (string \<Rightarrow> string) \<Rightarrow> json option \<Rightarrow> http_call option" where
  "saga_call env s action fill body = (case map_of (sv_urls env) (sp_service s) of
     None \<Rightarrow> None
   | Some base \<Rightarrow> (case parse_action env action of
       Inl e \<Rightarrow> None
     | Inr (meth, path) \<Rightarrow> Some \<lparr>hc_method = meth, hc_url = base @ fill path, hc_body = body,
         hc_timeout = sp_timeout s\<rparr>))"

definition forward_call :: "saga_env \<Rightarrow> json \<Rightarrow> saga_step \<Rightarrow> http_call option" where
  "forward_call env body s = saga_call env s (sp_action s) (\<lambda>path. path) (Some body)"

definition compensation_call :: "saga_env \<Rightarrow> saga_step \<times> json \<Rightarrow> http_call option" where
  "compensation_call env sr = (case sr of (s, r) \<Rightarrow>
     saga_call env s (sp_compensate s)
       (replace_all '':id'' (case json_get_str r ''id'' of Some x \<Rightarrow> x | None \<Rightarrow> [])) None)"

text \<open>\<open>ran\<close>: the steps were requested one after the other, each answered successfully with its result.\<close>

fun ran :: "saga_env \<Rightarrow> json \<Rightarrow> http_call list \<Rightarrow> saga_step list \<Rightarrow> http_call list \<Rightarrow> json list \<Rightarrow> bool" where
  "ran env body past [] [] [] = True"
| "ran env body past (s # ss) (c # cs) (r # rs) =
     (forward_call env body s = Some c \<and> is_success (sv_answer env past c)
      \<and> r = answer_json (sv_answer env past c) \<and> ran env body (past @ [c]) ss cs rs)"
| "ran env body past _ _ _ = False"

definition saga_body :: "saga_execution \<Rightarrow> json" where
  "saga_body ex = (case se_input ex of Some v \<Rightarrow> v | None \<Rightarrow> JNull)"

definition reliable_db :: "saga_env \<Rightarrow> bool" where
  "reliable_db env \<longleftrightarrow> (\<forall>past op'. sv_fault env past op' = None)"

definition set_status :: "saga_status \<Rightarrow> string option \<Rightarrow> saga_execution \<Rightarrow> saga_execution" where
  "set_status st err ex = ex\<lparr>se_status := saga_status_display st, se_error := err\<rparr>"

definition add_result :: "json \<Rightarrow> saga_execution \<Rightarrow> saga_execution" where
  "add_result v ex = ex\<lparr>se_step := se_step ex + 1, se_results := jsonb_append (se_results ex) v\<rparr>"

lemma status_up:
  "reliable_db env \<Longrightarrow> update_saga_status env i st err w = (update_row i (set_status st err) w, Inr ())"
  by (simp add: update_saga_status_def reliable_db_def set_status_def [abs_def])

lemma fetch_up: "reliable_db env \<Longrightarrow> map_of (sw_rows w) i = Some ex \<Longrightarrow> fetch_row env i w = Inr ex"
  by (simp add: fetch_row_def reliable_db_def ok_or_def)

lemma once_done:
  assumes "reliable_db env" and "map_of (sw_rows w) i = Some ex" and "length (sd_steps saga) \<le> se_step ex"
  shows "advance_once env i saga w = Stopped (update_row i (set_status SagaCompleted None) w) (Inr SagaCompleted)"
  using assms by (simp add: advance_once_def fetch_up status_up)

lemma saga_call_cases:
  obtains (none) base where "map_of (sv_urls env) (sp_service s) = None"
    "saga_call env s action fill body = None"
  | (bad) base e where "map_of (sv_urls env) (sp_service s) = Some base" "parse_action env action = Inl e"
    "saga_call env s action fill body = None"
  | (call) base meth path where "map_of (sv_urls env) (sp_service s) = Some base"
    "parse_action env action = Inr (meth, path)"
    "saga_call env s action fill body = Some \<lparr>hc_method = meth, hc_url = base @ fill path, hc_body = body,
       hc_timeout = sp_timeout s\<rparr>"
proof (cases "map_of (sv_urls env) (sp_service s)")
  case None
  then show ?thesis by (intro none) (simp_all add: saga_call_def)
next
  case (Some base)
  then show ?thesis
    by (cases "parse_action env action") (auto simp: saga_call_def intro: bad call)
qed

lemma once_stuck:
  assumes "reliable_db env" and "map_of (sw_rows w) i = Some ex" and "se_step ex < length (sd_steps saga)"
    and "forward_call env (saga_body ex) (sd_steps saga ! se_step ex) = None"
  shows "\<exists>e. advance_once env i saga w = Stopped w (Inl e)"
  using assms unfolding forward_call_def advance_once_def
  by (cases rule: saga_call_cases [of env "sd_steps saga ! se_step ex" "sp_action (sd_steps saga ! se_step ex)"
        "\<lambda>path. path" "Some (saga_body ex)"]) (simp_all add: fetch_up Let_def)

lemma once_sends:
  assumes "reliable_db env" and "map_of (sw_rows w) i = Some ex" and "se_step ex < length (sd_steps saga)"
    and "forward_call env (saga_body ex) (sd_steps saga ! se_step ex) = Some call"
  shows "advance_once env i saga w = (let w1 = w\<lparr>sw_calls := sw_calls w @ [call]\<rparr>;
      answer = sv_answer env (sw_calls w) call
    in if is_success answer then record_step env i (answer_json answer) w1
       else start_compensating env i saga (failure_text env (sd_steps saga ! se_step ex) answer) w1)"
  using assms unfolding forward_call_def advance_once_def
  by (cases rule: saga_call_cases [of env "sd_steps saga ! se_step ex" "sp_action (sd_steps saga ! se_step ex)"
        "\<lambda>path. path" "Some (saga_body ex)"]) (auto simp add: fetch_up Let_def saga_body_def)

lemma once_ok:
  assumes "reliable_db env" and "map_of (sw_rows w) i = Some ex" and "se_step ex < length (sd_steps saga)"
    and "forward_call env (saga_body ex) (sd_steps saga ! se_step ex) = Some call"
    and "is_success (sv_answer env (sw_calls w) call)"
  shows "advance_once env i saga w = Again (update_row i (add_result (answer_json (sv_answer env (sw_calls w) call)))
    (w\<lparr>sw_calls := sw_calls w @ [call]\<rparr>))"
  using once_sends [OF assms(1-4)] assms(1,5)
  by (simp add: record_step_def reliable_db_def add_result_def [abs_def] Let_def)

lemma once_fail:
  assumes "reliable_db env" and "map_of (sw_rows w) i = Some ex" and "se_step ex < length (sd_steps saga)"
    and "forward_call env (saga_body ex) (sd_steps saga ! se_step ex) = Some call"
    and "\<not> is_success (sv_answer env (sw_calls w) call)"
  shows "advance_once env i saga w = Stopped ((update_row i (set_status SagaCompensating
      (Some (failure_text env (sd_steps saga ! se_step ex) (sv_answer env (sw_calls w) call))))
      (w\<lparr>sw_calls := sw_calls w @ [call]\<rparr>))\<lparr>sw_tasks := sw_tasks w @ [CompensateTask i saga]\<rparr>) (Inr SagaCompensating)"
  using once_sends [OF assms(1-4)] assms(1,5)
  by (simp add: start_compensating_def status_up Let_def)

section \<open>What \<open>advance\<close> does\<close>

text \<open>The three ways \<open>advance\<close> ends after \<open>calls\<close>: all steps done, the next step cannot be requested,
  or the next request fails.\<close>

definition advance_ends :: "saga_env \<Rightarrow> uuid \<Rightarrow> saga_definition \<Rightarrow> saga_world \<Rightarrow> saga_execution \<Rightarrow>
    http_call list \<Rightarrow> saga_world \<Rightarrow> bool" where
  "advance_ends env i saga w ex calls w' \<longleftrightarrow> (let past = sw_calls w @ calls in
     (se_step ex = length (sd_steps saga) \<and> sw_calls w' = past \<and> sw_tasks w' = sw_tasks w
       \<and> map_of (sw_rows w') = (map_of (sw_rows w))(i \<mapsto> set_status SagaCompleted None ex))
   \<or> (se_step ex < length (sd_steps saga) \<and> sw_calls w' = past \<and> sw_tasks w' = sw_tasks w
       \<and> forward_call env (saga_body ex) (sd_steps saga ! se_step ex) = None
       \<and> map_of (sw_rows w') = (map_of (sw_rows w))(i \<mapsto> ex))
   \<or> (se_step ex < length (sd_steps saga) \<and> sw_tasks w' = sw_tasks w @ [CompensateTask i saga]
       \<and> (\<exists>call err. forward_call env (saga_body ex) (sd_steps saga ! se_step ex) = Some call
            \<and> \<not> is_success (sv_answer env past call) \<and> sw_calls w' = past @ [call]
            \<and> map_of (sw_rows w') = (map_of (sw_rows w))(i \<mapsto> set_status SagaCompensating (Some err) ex))))"

definition with_results :: "nat \<Rightarrow> json list \<Rightarrow> saga_execution \<Rightarrow> saga_execution" where
  "with_results c vs ex = ex\<lparr>se_step := c, se_results := JArr vs\<rparr>"

lemma with_results_up [simp]:
  "se_step (with_results c vs ex) = c" "se_results (with_results c vs ex) = JArr vs"
  "saga_body (with_results c vs ex) = saga_body ex"
  "with_results c' vs' (with_results c vs ex) = with_results c' vs' ex"
  by (simp_all add: with_results_def saga_body_def)

lemma add_result_with: "se_results ex = JArr rs \<Longrightarrow> add_result v ex = with_results (se_step ex + 1) (rs @ [v]) ex"
  by (simp add: add_result_def with_results_def jsonb_append_def)

lemma with_results_self: "se_results ex = JArr rs \<Longrightarrow> with_results (se_step ex) rs ex = ex"
  by (simp add: with_results_def)

lemma advance_stops: "advance_once env i saga w = Stopped w' r \<Longrightarrow> advance env i saga w = (w', r)"
  by (simp add: advance.simps)

lemma map_of_update_fun: "map_of (sw_rows w) i = Some ex \<Longrightarrow>
    map_of (sw_rows (update_row i f w)) = (map_of (sw_rows w))(i \<mapsto> f ex)"
  by (auto simp: fun_eq_iff)

lemma advance_runs:
  assumes "reliable_db env" and "map_of (sw_rows w) i = Some ex" and "se_results ex = JArr rs"
    and "se_step ex \<le> length (sd_steps saga)"
  shows "\<exists>k calls vs. ran env (saga_body ex) (sw_calls w) (take k (drop (se_step ex) (sd_steps saga))) calls vs
    \<and> length vs = k
    \<and> advance_ends env i saga w (with_results (se_step ex + k) (rs @ vs) ex) calls (fst (advance env i saga w))"
  using assms
proof (induction env i saga w arbitrary: ex rs rule: advance.induct)
  case (1 env i saga w)
  let ?n = "length (sd_steps saga)" and ?c = "se_step ex"
  have self: "with_results ?c rs ex = ex" using "1.prems"(3) by (simp add: with_results_self)
  have stop: ?case if "advance_ends env i saga w ex [] (fst (advance env i saga w))"
    using that self by (intro exI [of _ 0] exI [of _ "[]"]) simp
  consider (fin) "?c = ?n" | (stuck) "?c < ?n" "forward_call env (saga_body ex) (sd_steps saga ! ?c) = None"
    | (call) call where "?c < ?n" "forward_call env (saga_body ex) (sd_steps saga ! ?c) = Some call"
    using "1.prems"(4) by (cases "forward_call env (saga_body ex) (sd_steps saga ! ?c)") (auto simp: le_less)
  then show ?case
  proof cases
    case fin
    then have "advance env i saga w = (update_row i (set_status SagaCompleted None) w, Inr SagaCompleted)"
      using once_done [OF "1.prems"(1,2)] by (simp add: advance_stops)
    with fin show ?thesis
      using map_of_update_fun [OF "1.prems"(2)] by (intro stop) (simp add: advance_ends_def)
  next
    case stuck
    then obtain e where "advance env i saga w = (w, Inl e)"
      using once_stuck [OF "1.prems"(1,2)] advance_stops by blast
    with stuck show ?thesis
      using "1.prems"(2) by (intro stop) (auto simp: advance_ends_def fun_eq_iff)
  next
    case (call call)
    show ?thesis
    proof (cases "is_success (sv_answer env (sw_calls w) call)")
      case False
      note once_fail [OF "1.prems"(1,2) call False, THEN advance_stops]
      with call False show ?thesis
        using map_of_update_fun [of "w\<lparr>sw_calls := sw_calls w @ [call]\<rparr>" i ex] "1.prems"(2)
        by (intro stop) (auto simp: advance_ends_def)
    next
      case True
      let ?v = "answer_json (sv_answer env (sw_calls w) call)"
      let ?w = "update_row i (add_result ?v) (w\<lparr>sw_calls := sw_calls w @ [call]\<rparr>)"
      let ?ex = "with_results (?c + 1) (rs @ [?v]) ex"
      note again = once_ok [OF "1.prems"(1,2) call True]
      have r: "map_of (sw_rows ?w) = (map_of (sw_rows w))(i \<mapsto> ?ex)"
        using map_of_update_fun [of "w\<lparr>sw_calls := sw_calls w @ [call]\<rparr>" i ex] "1.prems"(2,3)
        by (simp add: add_result_with)
      obtain k calls vs where
        ih: "ran env (saga_body ex) (sw_calls w @ [call]) (take k (drop (?c + 1) (sd_steps saga))) calls vs"
          "length vs = k"
          "advance_ends env i saga ?w (with_results (?c + 1 + k) ((rs @ [?v]) @ vs) ex) calls (fst (advance env i saga ?w))"
        using "1.IH" [OF again "1.prems"(1), of ?ex "rs @ [?v]"] r call(1) by auto
      have d: "take (Suc k) (drop ?c (sd_steps saga)) = (sd_steps saga ! ?c) # take k (drop (?c + 1) (sd_steps saga))"
        using call(1) by (simp add: Cons_nth_drop_Suc [symmetric])
      have a: "advance env i saga w = advance env i saga ?w"
        by (subst advance.simps) (simp add: again)
      have "advance_ends env i saga w (with_results (?c + Suc k) (rs @ ?v # vs) ex) (call # calls)
          (fst (advance env i saga w))"
        using ih(3) unfolding a advance_ends_def r by (simp add: Let_def)
      with ih(1,2) d call(2) True show ?thesis
        by (intro exI [of _ "Suc k"] exI [of _ "call # calls"] exI [of _ "?v # vs"]) simp
    qed
  qed
qed

section \<open>What \<open>compensate\<close> does\<close>

lemma compensate_step_up:
  "compensate_step env saga rs j w = w\<lparr>sw_calls := sw_calls w @ List.map_filter
     (\<lambda>j. saga_call env (sd_steps saga ! j) (sp_compensate (sd_steps saga ! j))
       (replace_all '':id'' (result_id rs j)) None) [j]\<rparr>"
  by (cases rule: saga_call_cases [of env "sd_steps saga ! j" "sp_compensate (sd_steps saga ! j)"
        "replace_all '':id'' (result_id rs j)" None])
    (simp_all add: compensate_step_def Let_def List.map_filter_simps)

lemma fold_compensate:
  "fold (compensate_step env saga rs) js w = w\<lparr>sw_calls := sw_calls w @ List.map_filter
     (\<lambda>j. saga_call env (sd_steps saga ! j) (sp_compensate (sd_steps saga ! j))
       (replace_all '':id'' (result_id rs j)) None) js\<rparr>"
  by (induction js arbitrary: w)
    (simp_all add: compensate_step_up List.map_filter_simps split: option.split)

lemma rev_zip_index:
  assumes "length ys = k" and "k \<le> length xs"
  shows "rev (zip (take k xs) ys) = map (\<lambda>j. (xs ! j, ys ! j)) (rev [0..<k])"
proof -
  have "zip (take k xs) ys = map (\<lambda>j. (xs ! j, ys ! j)) [0..<k]"
    using assms by (intro nth_equalityI) auto
  then show ?thesis by (simp add: rev_map)
qed

lemma map_filter_map: "List.map_filter f (map g xs) = List.map_filter (f \<circ> g) xs"
  by (induction xs) (auto simp: List.map_filter_simps split: option.split)

lemma map_filter_same: "(\<And>x. x \<in> set xs \<Longrightarrow> f x = g x) \<Longrightarrow> List.map_filter f xs = List.map_filter g xs"
  by (induction xs) (auto simp: List.map_filter_simps split: option.split)

lemma compensate_runs:
  assumes "reliable_db env" and "map_of (sw_rows w) i = Some ex" and "se_results ex = JArr rs"
    and "length rs = se_step ex" and "se_step ex \<le> length (sd_steps saga)"
  shows "compensate env i saga w = Some (update_row i (set_status SagaCompensated None)
    (w\<lparr>sw_calls := sw_calls w @ List.map_filter (compensation_call env)
      (rev (zip (take (se_step ex) (sd_steps saga)) rs))\<rparr>), Inr ())"
proof -
  have "List.map_filter (\<lambda>j. saga_call env (sd_steps saga ! j) (sp_compensate (sd_steps saga ! j))
       (replace_all '':id'' (result_id rs j)) None) (rev [0..<se_step ex])
    = List.map_filter (compensation_call env) (rev (zip (take (se_step ex) (sd_steps saga)) rs))"
    unfolding rev_zip_index [OF assms(4,5)] map_filter_map
    by (rule map_filter_same) (simp add: compensation_call_def result_id_def assms(4))
  then show ?thesis
    using assms by (simp add: compensate_def fetch_up status_up fold_compensate result_list_def not_less)
qed

section \<open>A saga completes or is rolled back\<close>

lemma start_up:
  "reliable_db env \<Longrightarrow> start env i saga input w = (w\<lparr>sw_rows := sw_rows w @ [(i,
     \<lparr>se_saga_name = sd_saga saga, se_status = ''running'', se_step = 0, se_results = JArr [],
      se_input = Some input, se_error = None\<rparr>)], sw_tasks := sw_tasks w @ [AdvanceTask i saga]\<rparr>, Inr i)"
  by (simp add: start_def reliable_db_def)


definition order_saga :: saga_definition where
  "order_saga = \<lparr>sd_saga = ''create_order'', sd_version = 1, sd_steps =
     [\<lparr>sp_name = ''reserve'', sp_service = ''stock'', sp_action = ''POST /r'', sp_compensate = ''DELETE /r/:id'',
       sp_input = None, sp_timeout = 5\<rparr>,
      \<lparr>sp_name = ''charge'', sp_service = ''pay'', sp_action = ''POST /c'', sp_compensate = ''POST /c/:id/refund'',
       sp_input = None, sp_timeout = 10\<rparr>]\<rparr>"

text \<open>Reservations succeed, charges are refused.\<close>

definition order_services :: saga_env where
  "order_services = \<lparr>sv_urls = [(''stock'', ''http://stock''), (''pay'', ''http://pay'')],
     sv_method = (\<lambda>m. if m \<in> {''POST'', ''DELETE''} then Some m else None),
     sv_answer = (\<lambda>past call. if hc_url call = ''http://pay/c'' then Answered 402 None
       else Answered 201 (Some (JObj [(''id'', JStr ''r7'')]))),
     sv_status_text = show_nat, sv_fault = (\<lambda>past op'. None)\<rparr>"

definition empty_saga_world :: saga_world where
  "empty_saga_world = \<lparr>sw_rows = [], sw_calls = [], sw_tasks = []\<rparr>"

lemma order_forward:
  "forward_call order_services JNull (sd_steps order_saga ! 0)
     = Some \<lparr>hc_method = ''POST'', hc_url = ''http://stock/r'', hc_body = Some JNull, hc_timeout = 5\<rparr>"
  "forward_call order_services JNull (sd_steps order_saga ! Suc 0)
     = Some \<lparr>hc_method = ''POST'', hc_url = ''http://pay/c'', hc_body = Some JNull, hc_timeout = 10\<rparr>"
  by (simp_all add: forward_call_def saga_call_def order_services_def order_saga_def parse_action_def split_once_def)

lemma ran_snoc_fails:
  "ran env body past (ss @ [s]) cs rs \<Longrightarrow> \<exists>past' c. forward_call env body s = Some c \<and> is_success (sv_answer env past' c)"
proof (induction ss arbitrary: past cs rs)
  case Nil
  then show ?case by (cases "(env, body, past, [s], cs, rs)" rule: ran.cases) auto
next
  case (Cons x ss)
  then show ?case by (cases "(env, body, past, (x # ss) @ [s], cs, rs)" rule: ran.cases) auto
qed


section \<open>Every history of sagas\<close>

text \<open>Sagas are started under fresh ids and pending tasks run in any order, with any services and
  any database failures.\<close>

inductive saga_reach :: "saga_world \<Rightarrow> bool" where
  Fresh: "saga_reach empty_saga_world"
| Start: "saga_reach w \<Longrightarrow> map_of (sw_rows w) i = None \<Longrightarrow> saga_reach (fst (start env i saga input w))"
| Run: "saga_reach w \<Longrightarrow> sw_tasks w = a @ t # b \<Longrightarrow> saga_reach (run_task env t (w\<lparr>sw_tasks := a @ b\<rparr>))"

fun task_saga :: "saga_task \<Rightarrow> uuid \<times> saga_definition" where
  "task_saga (AdvanceTask i saga) = (i, saga)"
| "task_saga (CompensateTask i saga) = (i, saga)"

definition live_status :: "saga_status set" where
  "live_status = {SagaRunning, SagaCompleted, SagaCompensating, SagaCompensated}"

definition row_ok :: "(uuid \<rightharpoonup> saga_definition) \<Rightarrow> uuid \<Rightarrow> saga_execution \<Rightarrow> bool" where
  "row_ok m i ex \<longleftrightarrow> se_status ex \<in> saga_status_display ` live_status
     \<and> (\<exists>saga. m i = Some saga \<and> se_step ex \<le> length (sd_steps saga))"

definition sagas_ok :: "(uuid \<rightharpoonup> saga_definition) \<Rightarrow> saga_world \<Rightarrow> bool" where
  "sagas_ok m w \<longleftrightarrow> (\<forall>i ex. map_of (sw_rows w) i = Some ex \<longrightarrow> row_ok m i ex)
     \<and> (\<forall>t \<in> set (sw_tasks w). m (fst (task_saga t)) = Some (snd (task_saga t)))
     \<and> (\<forall>i. map_of (sw_rows w) i = None \<longrightarrow> m i = None)"

lemma sagas_ok_row:
  assumes "sagas_ok m w" and "\<And>ex. map_of (sw_rows w) i = Some ex \<Longrightarrow> row_ok m i ex \<Longrightarrow> row_ok m i (f ex)"
  shows "sagas_ok m (update_row i f w)"
  using assms by (auto simp: sagas_ok_def)

lemma sagas_ok_calls [simp]: "sagas_ok m (w\<lparr>sw_calls := cs\<rparr>) = sagas_ok m w"
  by (simp add: sagas_ok_def)

lemma sagas_ok_status:
  assumes "sagas_ok m w" and "st \<in> live_status"
  shows "sagas_ok m (fst (update_saga_status env i st err w))"
  using assms by (auto simp: update_saga_status_def row_ok_def split: option.split intro!: sagas_ok_row)

fun result_world :: "advance_result \<Rightarrow> saga_world" where
  "result_world (Again w) = w"
| "result_world (Stopped w r) = w"

lemma sagas_ok_compensating:
  assumes "sagas_ok m w" and "m i = Some saga"
  shows "sagas_ok m (result_world (start_compensating env i saga msg w))"
proof -
  have "sagas_ok m (fst (update_saga_status env i SagaCompensating (Some msg) w))"
    using sagas_ok_status [OF assms(1)] by (simp add: live_status_def)
  with assms(2) show ?thesis
    by (auto simp: start_compensating_def sagas_ok_def split: prod.split sum.split)
qed

lemma sagas_ok_record:
  assumes "sagas_ok m w" and "m i = Some saga" and "map_of (sw_rows w) i = Some ex"
    and "se_step ex < length (sd_steps saga)"
  shows "sagas_ok m (result_world (record_step env i v w))"
  using assms by (auto simp: record_step_def row_ok_def split: option.split intro!: sagas_ok_row)

lemma sagas_ok_once:
  assumes ok: "sagas_ok m w" and m: "m i = Some saga"
  shows "sagas_ok m (result_world (advance_once env i saga w))"
proof (cases "fetch_row env i w")
  case (Inl e)
  then show ?thesis using ok by (simp add: advance_once_def)
next
  case (Inr ex)
  then have row: "map_of (sw_rows w) i = Some ex"
    by (auto simp: fetch_row_def ok_or_def split: option.splits)
  show ?thesis
  proof (cases "length (sd_steps saga) \<le> se_step ex")
    case True
    have "sagas_ok m (fst (update_saga_status env i SagaCompleted None w))"
      by (rule sagas_ok_status [OF ok]) (simp add: live_status_def)
    with True Inr show ?thesis
      by (auto simp: advance_once_def split: prod.split sum.split)
  next
    case False
    let ?s = "sd_steps saga ! se_step ex"
    show ?thesis
    proof (cases rule: saga_call_cases [of env ?s "sp_action ?s" "\<lambda>path. path" "Some (saga_body ex)"])
      case (call base meth path)
      with False Inr ok m row show ?thesis
        by (simp add: advance_once_def Let_def sagas_ok_compensating sagas_ok_record)
    qed (use False Inr ok in \<open>simp_all add: advance_once_def Let_def\<close>)
  qed
qed

lemma sagas_ok_advance:
  "sagas_ok m w \<Longrightarrow> m i = Some saga \<Longrightarrow> sagas_ok m (fst (advance env i saga w))"
proof (induction env i saga w rule: advance.induct)
  case (1 env i saga w)
  then show ?case
    using sagas_ok_once [OF "1.prems", of env]
    by (subst advance.simps) (cases "advance_once env i saga w"; simp)
qed

lemma fetch_row_found: "fetch_row env i w = Inr ex \<Longrightarrow> map_of (sw_rows w) i = Some ex"
  by (auto simp: fetch_row_def ok_or_def split: option.splits)

lemma compensate_no_panic:
  assumes "sagas_ok m w" and "m i = Some saga"
  shows "compensate env i saga w \<noteq> None"
proof (cases "fetch_row env i w")
  case (Inr ex)
  then have "row_ok m i ex" using fetch_row_found assms(1) by (auto simp: sagas_ok_def)
  with assms(2) Inr show ?thesis by (simp add: compensate_def row_ok_def not_less)
qed (simp add: compensate_def)

lemma sagas_ok_compensate:
  assumes "sagas_ok m w" and "m i = Some saga" and "compensate env i saga w = Some (w', r)"
  shows "sagas_ok m w'"
proof (cases "fetch_row env i w")
  case (Inl e)
  then show ?thesis using assms by (simp add: compensate_def)
next
  case (Inr ex)
  let ?w = "fold (compensate_step env saga (result_list (se_results ex))) (rev [0..<se_step ex]) w"
  have "sagas_ok m ?w" using assms(1) by (simp add: fold_compensate)
  then have "sagas_ok m (fst (update_saga_status env i SagaCompensated None ?w))"
    by (rule sagas_ok_status) (simp add: live_status_def)
  with Inr assms(3) show ?thesis by (simp add: compensate_def split: if_splits)
qed

lemma sagas_ok_task:
  assumes "sagas_ok m w" and "m (fst (task_saga t)) = Some (snd (task_saga t))"
  shows "sagas_ok m (run_task env t w)"
proof (cases t)
  case (AdvanceTask i saga)
  then show ?thesis using assms by (simp add: sagas_ok_advance)
next
  case (CompensateTask i saga)
  then show ?thesis
    using assms sagas_ok_compensate [of m w i saga env] by (auto split: option.split)
qed

lemma sagas_ok_start:
  assumes ok: "sagas_ok m w" and new: "map_of (sw_rows w) i = None"
  shows "\<exists>m. sagas_ok m (fst (start env i saga input w))"
proof (cases "sv_fault env (sw_calls w) InsertRow")
  case None
  have "m j \<noteq> Some s" if "map_of (sw_rows w) j = None" for j s
    using ok that by (simp add: sagas_ok_def)
  then have keep: "m (fst (task_saga t)) = Some (snd (task_saga t)) \<Longrightarrow> fst (task_saga t) \<noteq> i" for t
    using new by metis
  have rows: "map_of (sw_rows w @ [(i, ex)]) = (map_of (sw_rows w))(i \<mapsto> ex)" for ex
    using new by (auto simp: map_add_def fun_eq_iff split: option.split)
  have "sagas_ok (m(i \<mapsto> saga)) (fst (start env i saga input w))"
    using ok keep None by (auto simp: start_def sagas_ok_def row_ok_def live_status_def rows
        simp del: map_of_append)
  then show ?thesis by blast
qed (use ok in \<open>auto simp: start_def\<close>)

lemma saga_reach_ok: "saga_reach w \<Longrightarrow> \<exists>m. sagas_ok m w"
proof (induction rule: saga_reach.induct)
  case Fresh
  then show ?case by (intro exI [of _ Map.empty]) (simp add: sagas_ok_def empty_saga_world_def)
next
  case (Start w i env saga input)
  then show ?case using sagas_ok_start by blast
next
  case (Run w a t b env)
  then obtain m where "sagas_ok m w" by blast
  with Run.hyps(2) have "sagas_ok m (w\<lparr>sw_tasks := a @ b\<rparr>)" "m (fst (task_saga t)) = Some (snd (task_saga t))"
    by (auto simp: sagas_ok_def)
  then show ?case using sagas_ok_task by blast
qed

text \<open>In every history, with any answers of the services and any database failures, an execution's
  status is running, completed, compensating or compensated: a failed compensation is never reported
  as failed. No recorded step count exceeds the saga, so no pending compensation task panics.\<close>

lemma saga_never_failed:
  assumes "saga_reach w"
  shows "(\<forall>i ex. map_of (sw_rows w) i = Some ex \<longrightarrow>
      se_status ex \<in> {''running'', ''completed'', ''compensating'', ''compensated''})
    \<and> (\<forall>i saga. CompensateTask i saga \<in> set (sw_tasks w) \<longrightarrow> compensate env i saga w \<noteq> None)"
proof -
  obtain m where m: "sagas_ok m w" using saga_reach_ok [OF assms] by blast
  then have "se_status ex \<in> {''running'', ''completed'', ''compensating'', ''compensated''}"
    if "map_of (sw_rows w) i = Some ex" for i ex
    using that by (auto simp: sagas_ok_def row_ok_def live_status_def)
  moreover have "compensate env i saga w \<noteq> None" if "CompensateTask i saga \<in> set (sw_tasks w)" for i saga
    using m that by (intro compensate_no_panic [of m]) (auto simp: sagas_ok_def)
  ultimately show ?thesis by blast
qed

end
