(* ===== verification/Response_Cache.thy ===== *)
theory Response_Cache
  imports Keyed_Store Core_Types "HOL-Library.List_Lexorder" "HOL-Library.Char_ord"
begin

text \<open>
  The response cache, \<open>shaperail-runtime/src/cache/store.rs\<close>. Redis is a keyed store of texts with
  an expiry time; \<open>up\<close> says whether it can be reached (the cache fails open). The digest SHA-256
  and the glob match of the KEYS command are parameters.
\<close>

section \<open>Keys\<close>

definition hex_char :: "nat \<Rightarrow> char" where
  "hex_char n = (if n < 10 then char_of (48 + n) else char_of (87 + n))"

definition hex_bytes :: "string \<Rightarrow> string" where
  "hex_bytes s = concat (map (\<lambda>c. [hex_char (of_char c div 16), hex_char (of_char c mod 16)]) s)"

text \<open>The bytes the hasher is fed: the pairs in key order, \<open>k=v&\<close> each.\<close>

definition query_digest_input :: "(string \<times> string) list \<Rightarrow> string" where
  "query_digest_input ps = concat (map (\<lambda>(k, v). k @ ''='' @ v @ ''&'') (sort_key fst ps))"

definition hash_query :: "(string \<Rightarrow> string) \<Rightarrow> (string \<times> string) list \<Rightarrow> string" where
  "hash_query sha256 ps = hex_bytes (take 8 (sha256 (query_digest_input ps)))"

definition build_key_with_tenant :: "(string \<Rightarrow> string) \<Rightarrow>
    string \<Rightarrow> string \<Rightarrow> (string \<times> string) list \<Rightarrow> string \<Rightarrow> string \<Rightarrow> string" where
  "build_key_with_tenant sha256 resource endpoint query_params user_role tenant_id =
     ''shaperail:'' @ resource @ '':'' @ endpoint @ '':'' @ hash_query sha256 query_params @ '':''
       @ tenant_id @ '':'' @ user_role"

definition build_key :: "(string \<Rightarrow> string) \<Rightarrow>
    string \<Rightarrow> string \<Rightarrow> (string \<times> string) list \<Rightarrow> string \<Rightarrow> string" where
  "build_key sha256 resource endpoint query_params user_role =
     build_key_with_tenant sha256 resource endpoint query_params user_role ''_''"

section \<open>The cache\<close>

type_synonym redis_texts = "(string \<times> (string \<times> int)) list"

definition cache_get :: "bool \<Rightarrow> int \<Rightarrow> redis_texts \<Rightarrow> string \<Rightarrow> string option" where
  "cache_get up now store key =
     (if \<not> up then None
      else (case map_of store key of
        Some (v, expires) \<Rightarrow> if now < expires then Some v else None
      | None \<Rightarrow> None))"

definition cache_set :: "bool \<Rightarrow> int \<Rightarrow> string \<Rightarrow> string \<Rightarrow> nat \<Rightarrow> redis_texts \<Rightarrow> redis_texts" where
  "cache_set up now key value ttl_secs store =
     (if \<not> up \<or> ttl_secs = 0 then store else AList.update key (value, now + int ttl_secs) store)"

definition invalidate_resource ::
    "bool \<Rightarrow> (string \<Rightarrow> string \<Rightarrow> bool) \<Rightarrow> string \<Rightarrow> redis_texts \<Rightarrow> redis_texts" where
  "invalidate_resource up glob resource store =
     (if \<not> up then store
      else (let keys = filter (glob (''shaperail:'' @ resource @ '':*'')) (map fst store)
            in fold AList.delete keys store))"

definition invalidate_if_needed :: "bool \<Rightarrow> (string \<Rightarrow> string \<Rightarrow> bool) \<Rightarrow>
    string \<Rightarrow> string \<Rightarrow> string list option \<Rightarrow> redis_texts \<Rightarrow> redis_texts" where
  "invalidate_if_needed up glob resource action invalidate_on store =
     (let should = (case invalidate_on of Some actions \<Rightarrow> action \<in> set actions | None \<Rightarrow> True)
      in if should then invalidate_resource up glob resource store else store)"

section \<open>The cache is a keyed store\<close>

interpretation cached: removable_store "\<lambda>key value store. cache_set True now key value (Suc ttl) store"
  "cache_get True now" AList.delete for now ttl
  by unfold_locales (auto simp: cache_set_def cache_get_def split: option.splits)

section \<open>Keys of different tenants, roles and resources differ\<close>

definition colon_free :: "string \<Rightarrow> bool" where
  "colon_free s \<longleftrightarrow> CHR '':'' \<notin> set s"

lemma colon_cut:
  assumes "colon_free a" and "colon_free b"
  shows "a @ CHR '':'' # r = b @ CHR '':'' # s \<longleftrightarrow> a = b \<and> r = s"
  using assms split_once_Some_iff [of "CHR '':''" "a @ CHR '':'' # r" a r]
    split_once_Some_iff [of "CHR '':''" "a @ CHR '':'' # r" b s]
  by (auto simp: colon_free_def)

lemma hex_char_not_colon: "n < 16 \<Longrightarrow> hex_char n \<noteq> CHR '':''"
proof
  assume n: "n < 16" and "hex_char n = CHR '':''"
  then have "(of_char (hex_char n) :: nat) = of_char CHR '':''" by simp
  with n show False by (auto simp: hex_char_def split: if_splits)
qed

lemma hash_query_colon_free: "colon_free (hash_query sha256 ps)"
proof -
  have "of_char c div 16 < (16 :: nat)" for c :: char
    using nat_of_char_less_256 [of c] by (intro less_mult_imp_div_less) simp
  then have "CHR '':'' \<notin> set (hex_bytes s)" for s
    by (auto simp: hex_bytes_def hex_char_not_colon dest!: sym [of "CHR '':''"])
  then show ?thesis by (simp add: hash_query_def colon_free_def)
qed

text \<open>When the names and the tenant ids have no colon, two requests share a cache key only when they
  agree on the resource, the endpoint, the tenant, the role and the digest of the query.\<close>

lemma cache_key_separation:
  assumes "colon_free r" and "colon_free r'" and "colon_free e" and "colon_free e'"
    and "colon_free t" and "colon_free t'"
  shows "build_key_with_tenant sha256 r e ps role t = build_key_with_tenant sha256 r' e' ps' role' t' \<longleftrightarrow>
    r = r' \<and> e = e' \<and> hash_query sha256 ps = hash_query sha256 ps' \<and> t = t' \<and> role = role'"
  using assms hash_query_colon_free [of sha256]
  by (simp add: build_key_with_tenant_def colon_cut)

text \<open>The digest input does not separate a pair from its neighbour: a value that holds \<open>&\<close> and \<open>=\<close>
  gives the same key as two pairs.\<close>

lemma query_digest_input_collision:
  "query_digest_input [(''a'', ''1&b=2'')] = query_digest_input [(''a'', ''1''), (''b'', ''2'')]"
  by code_simp

section \<open>Invalidation\<close>

text \<open>The documented behaviour of KEYS on a pattern that is a text without glob characters followed
  by a star: the keys with that prefix.\<close>

definition glob_prefix :: "(string \<Rightarrow> string \<Rightarrow> bool) \<Rightarrow> bool" where
  "glob_prefix glob \<longleftrightarrow> (\<forall>p key. set p \<inter> set ''*?[]^-'' = {} \<and> CHR 0x5C \<notin> set p \<longrightarrow>
     (glob (p @ ''*'') key \<longleftrightarrow> prefix p key))"

definition plain_text :: "string \<Rightarrow> bool" where
  "plain_text s \<longleftrightarrow> set s \<inter> set ''*?[]^-'' = {} \<and> CHR 0x5C \<notin> set s"

lemma fold_delete: "map_of (fold AList.delete ks m) k = (if k \<in> set ks then None else map_of m k)"
  by (induction ks arbitrary: m) auto

text \<open>A write to a resource leaves no stale response: after invalidation (Redis being reachable)
  every cached response of the resource is gone, for all endpoints, queries, tenants and roles, and
  the entries of every other resource are untouched.\<close>

lemma invalidation_complete:
  fixes store :: redis_texts
  assumes "glob_prefix glob" and "plain_text r" and "colon_free r" and "colon_free r'" and "r' \<noteq> r"
  defines "store' \<equiv> invalidate_resource True glob r store"
  shows "cache_get up now store' (build_key_with_tenant sha256 r e ps role t) = None
    \<and> cache_get up now store' (build_key_with_tenant sha256 r' e ps role t)
      = cache_get up now store (build_key_with_tenant sha256 r' e ps role t)"
proof -
  let ?p = "''shaperail:'' @ r @ '':''"
  have g: "glob (''shaperail:'' @ r @ '':*'') key \<longleftrightarrow> prefix ?p key" for key
  proof -
    have "set ?p \<inter> set ''*?[]^-'' = {} \<and> CHR 0x5C \<notin> set ?p"
      using assms(2) by (auto simp: plain_text_def)
    moreover have "''shaperail:'' @ r @ '':*'' = ?p @ ''*''" by simp
    ultimately show ?thesis
      using assms(1) unfolding glob_prefix_def by metis
  qed
  then have "glob (''shaperail:'' @ r @ '':*'') = prefix ?p" by blast
  then have "store' = fold AList.delete (filter (prefix ?p) (map fst store)) store"
    by (simp only: store'_def invalidate_resource_def Let_def not_True_eq_False if_False)
  moreover have "k \<notin> fst ` set store \<Longrightarrow> map_of store k = None" for k
    by (simp add: map_of_eq_None_iff)
  ultimately have m: "map_of store' k = (if prefix ?p k then None else map_of store k)" for k
    by (simp only: fold_delete set_filter set_map) auto
  have "prefix ?p (build_key_with_tenant sha256 r e ps role t)"
    by (simp add: build_key_with_tenant_def)
  moreover have "\<not> prefix ?p (build_key_with_tenant sha256 r' e ps role t)"
    using assms(3-5) by (auto simp: build_key_with_tenant_def prefix_def colon_cut)
  ultimately show ?thesis by (simp add: cache_get_def m)
qed

end
