(* ===== verification/Storage.thy ===== *)
theory Storage
  imports Query_Params Keyed_Store "HOL-Library.Word"
begin

text \<open>
  File storage, \<open>shaperail-runtime/src/storage\<close>: the size and type checks and the stored paths of
  \<open>upload.rs\<close>, the local backend of \<open>local.rs\<close> over a file system, and the wrappers of
  \<open>object_store_backend.rs\<close> over the \<open>object_store\<close> crate. That crate, the \<open>image\<close> crate, the
  operating system's faults and the Unicode tables of the characters above ASCII are parameters. A
  file is named by its path resolved without symbolic links, so \<open>a/../b\<close> and \<open>b\<close> are one file.
\<close>

section \<open>Characters\<close>

record unicode_lib =
  uc_alphanumeric :: "string \<Rightarrow> bool"
  uc_lower :: "string \<Rightarrow> string"
  uc_debug :: "string \<Rightarrow> string"

definition ascii_alphanumeric :: "char \<Rightarrow> bool" where
  "ascii_alphanumeric c = (let b = (of_char c :: nat) in
     48 \<le> b \<and> b \<le> 57 \<or> 65 \<le> b \<and> b \<le> 90 \<or> 97 \<le> b \<and> b \<le> 122)"

definition ascii_lower :: "char \<Rightarrow> char" where
  "ascii_lower c = (let b = (of_char c :: nat) in if 65 \<le> b \<and> b \<le> 90 then char_of (b + 32) else c)"

definition to_lowercase :: "unicode_lib \<Rightarrow> string \<Rightarrow> string" where
  "to_lowercase uc s = concat (map (\<lambda>c. case c of [b] \<Rightarrow> [ascii_lower b] | _ \<Rightarrow> uc_lower uc c) (chars s))"

section \<open>Errors and metadata\<close>

record file_metadata =
  fm_path :: string
  fm_filename :: string
  fm_mime_type :: string
  fm_size :: nat

datatype storage_error =
    FileNotFound string
  | FileTooLarge nat nat
  | InvalidMimeType string "string list"
  | BackendError string

definition too_large_text :: "nat \<Rightarrow> nat \<Rightarrow> string" where
  "too_large_text limit actual = ''File too large: '' @ show_nat actual @ '' bytes exceeds limit of ''
     @ show_nat limit @ '' bytes''"

definition invalid_mime_text :: "unicode_lib \<Rightarrow> string \<Rightarrow> string list \<Rightarrow> string" where
  "invalid_mime_text uc mime allowed = ''Invalid MIME type '' @ squote mime @ '', allowed: [''
     @ join '', '' (map (uc_debug uc) allowed) @ '']''"

fun storage_error_display :: "unicode_lib \<Rightarrow> storage_error \<Rightarrow> string" where
  "storage_error_display uc (FileNotFound path) = ''File not found: '' @ path"
| "storage_error_display uc (FileTooLarge limit actual) = too_large_text limit actual"
| "storage_error_display uc (InvalidMimeType mime allowed) = invalid_mime_text uc mime allowed"
| "storage_error_display uc (BackendError msg) = ''Storage backend error: '' @ msg"

definition file_error :: "string \<Rightarrow> string \<Rightarrow> shaperail_error" where
  "file_error msg code = Validation [\<lparr>fe_field = ''file'', fe_message = msg, fe_code = code\<rparr>]"

fun shaperail_error_of :: "unicode_lib \<Rightarrow> storage_error \<Rightarrow> shaperail_error" where
  "shaperail_error_of uc (FileNotFound path) = NotFound"
| "shaperail_error_of uc (FileTooLarge limit actual) = file_error (too_large_text limit actual) ''file_too_large''"
| "shaperail_error_of uc (InvalidMimeType mime allowed) =
     file_error (invalid_mime_text uc mime allowed) ''invalid_mime_type''"
| "shaperail_error_of uc (BackendError msg) = Internal msg"

section \<open>Checks\<close>

text \<open>The product of a \<open>u64\<close> wraps, as in a release build.\<close>

definition size_suffix :: "string \<Rightarrow> string \<times> 64 word" where
  "size_suffix s = (case strip_suffix ''gb'' s of Some n \<Rightarrow> (n, 1024 * 1024 * 1024)
   | None \<Rightarrow> (case strip_suffix ''mb'' s of Some n \<Rightarrow> (n, 1024 * 1024)
   | None \<Rightarrow> (case strip_suffix ''kb'' s of Some n \<Rightarrow> (n, 1024)
   | None \<Rightarrow> (case strip_suffix ''b'' s of Some n \<Rightarrow> (n, 1)
   | None \<Rightarrow> (s, 1)))))"

definition parse_max_size :: "unicode_lib \<Rightarrow> string \<Rightarrow> storage_error + 64 word" where
  "parse_max_size uc size_str = (case size_suffix (to_lowercase uc (trim size_str)) of (num_part, multiplier) \<Rightarrow>
     (case parse_u64 (trim num_part) of
        Some n \<Rightarrow> Inr (of_nat n * multiplier)
      | None \<Rightarrow> Inl (BackendError (''Invalid size format: '' @ squote size_str))))"

definition extension_table :: "(string \<times> string) list" where
  "extension_table = [(''jpg'', ''image/jpeg''), (''jpeg'', ''image/jpeg''), (''png'', ''image/png''),
     (''gif'', ''image/gif''), (''webp'', ''image/webp''), (''svg'', ''image/svg+xml''),
     (''pdf'', ''application/pdf''), (''json'', ''application/json''), (''csv'', ''text/csv''),
     (''txt'', ''text/plain''), (''zip'', ''application/zip''), (''mp4'', ''video/mp4''), (''mp3'', ''audio/mpeg'')]"

definition extension_to_mime :: "unicode_lib \<Rightarrow> string \<Rightarrow> string" where
  "extension_to_mime uc ext = (case map_of extension_table (to_lowercase uc ext) of Some m \<Rightarrow> m | None \<Rightarrow> [])"

definition mime_pattern_matches :: "unicode_lib \<Rightarrow> string \<Rightarrow> string \<Rightarrow> bool" where
  "mime_pattern_matches uc mime pattern \<longleftrightarrow> pattern = mime
     \<or> (case strip_suffix ''/*'' pattern of Some p \<Rightarrow> prefix p mime | None \<Rightarrow> False)
     \<or> extension_to_mime uc pattern = mime"

definition validate_mime_type :: "unicode_lib \<Rightarrow> string \<Rightarrow> string list \<Rightarrow> storage_error + unit" where
  "validate_mime_type uc mime allowed =
     (if allowed = [] \<or> list_ex (mime_pattern_matches uc mime) allowed then Inr ()
      else Inl (InvalidMimeType mime allowed))"

definition filename_char_ok :: "unicode_lib \<Rightarrow> string \<Rightarrow> bool" where
  "filename_char_ok uc c = (case c of
     [b] \<Rightarrow> ascii_alphanumeric b \<or> b \<in> {CHR ''.'', CHR ''-'', CHR ''_''}
   | _ \<Rightarrow> uc_alphanumeric uc c)"

definition sanitize_filename :: "unicode_lib \<Rightarrow> string \<Rightarrow> string" where
  "sanitize_filename uc name = concat (map (\<lambda>c. if filename_char_ok uc c then c else ''_'') (chars name))"

section \<open>Paths\<close>

text \<open>\<open>PathBuf::join\<close> replaces the base by an absolute path. A path is absolute or relative and has
  the components that are left after \<open>.\<close> and \<open>..\<close> are resolved.\<close>

definition path_join :: "string \<Rightarrow> string \<Rightarrow> string" where
  "path_join dir path =
     (if prefix ''/'' path then path
      else if dir = [] \<or> suffix ''/'' dir then dir @ path else dir @ ''/'' @ path)"

definition path_step :: "bool \<Rightarrow> string list \<Rightarrow> string \<Rightarrow> string list" where
  "path_step absolute acc c =
     (if c = [] \<or> c = ''.'' then acc
      else if c = ''..'' then
        (if acc \<noteq> [] \<and> last acc \<noteq> ''..'' then butlast acc else if absolute then acc else acc @ [c])
      else acc @ [c])"

type_synonym file_name = "bool \<times> string list"

definition resolve_path :: "string \<Rightarrow> file_name" where
  "resolve_path p = (prefix ''/'' p, foldl (path_step (prefix ''/'' p)) [] (split_on CHR ''/'' p))"

definition path_file_name :: "string \<Rightarrow> string" where
  "path_file_name p = (case rev (filter (\<lambda>c. c \<noteq> [] \<and> c \<noteq> ''.'') (split_on CHR ''/'' p)) of
     [] \<Rightarrow> [] | c # _ \<Rightarrow> if c = ''..'' then [] else c)"

section \<open>Backends\<close>

text \<open>What is stored: the files of the machine and the objects of a bucket.\<close>

type_synonym bucket = "(string \<times> string) list"

record storage_state =
  ss_files :: "(file_name \<times> string) list"
  ss_objects :: bucket

record storage_backend =
  sb_upload :: "string \<Rightarrow> string \<Rightarrow> string \<Rightarrow> storage_state \<Rightarrow> storage_state \<times> (storage_error + file_metadata)"
  sb_download :: "string \<Rightarrow> storage_state \<Rightarrow> storage_error + string"
  sb_delete :: "string \<Rightarrow> storage_state \<Rightarrow> storage_state \<times> (storage_error + unit)"
  sb_signed_url :: "string \<Rightarrow> nat \<Rightarrow> storage_state \<Rightarrow> storage_error + string"

text \<open>The operating system may refuse an operation on a path; the reason is its text.\<close>

datatype file_op = CreateDir | WriteFile | ReadFile | RemoveFile

type_synonym file_faults = "file_op \<Rightarrow> string \<Rightarrow> string option"

definition local_upload :: "file_faults \<Rightarrow> string \<Rightarrow> string \<Rightarrow> string \<Rightarrow> string \<Rightarrow> storage_state \<Rightarrow>
    storage_state \<times> (storage_error + file_metadata)" where
  "local_upload fault dir path bytes mime s =
     (let full = path_join dir path in
      case fault CreateDir full of
        Some e \<Rightarrow> (s, Inl (BackendError (''Failed to create directory: '' @ e)))
      | None \<Rightarrow> (case fault WriteFile full of
          Some e \<Rightarrow> (s, Inl (BackendError (''Failed to write file: '' @ e)))
        | None \<Rightarrow> (s\<lparr>ss_files := AList.update (resolve_path full) bytes (ss_files s)\<rparr>,
            Inr \<lparr>fm_path = path, fm_filename = path_file_name full, fm_mime_type = mime, fm_size = length bytes\<rparr>)))"

definition local_download :: "file_faults \<Rightarrow> string \<Rightarrow> string \<Rightarrow> storage_state \<Rightarrow> storage_error + string" where
  "local_download fault dir path s =
     (let full = path_join dir path in
      case fault ReadFile full of
        Some e \<Rightarrow> Inl (BackendError (''Failed to read file: '' @ e))
      | None \<Rightarrow> (case map_of (ss_files s) (resolve_path full) of
          Some bytes \<Rightarrow> Inr bytes | None \<Rightarrow> Inl (FileNotFound path)))"

definition local_delete :: "file_faults \<Rightarrow> string \<Rightarrow> string \<Rightarrow> storage_state \<Rightarrow> storage_state \<times> (storage_error + unit)" where
  "local_delete fault dir path s =
     (let full = path_join dir path in
      case fault RemoveFile full of
        Some e \<Rightarrow> (s, Inl (BackendError (''Failed to delete file: '' @ e)))
      | None \<Rightarrow>
          if map_of (ss_files s) (resolve_path full) = None then (s, Inl (FileNotFound path))
          else (s\<lparr>ss_files := AList.delete (resolve_path full) (ss_files s)\<rparr>, Inr ()))"

definition local_signed_url :: "string \<Rightarrow> string \<Rightarrow> nat \<Rightarrow> storage_state \<Rightarrow> storage_error + string" where
  "local_signed_url dir path expires_secs s =
     (let full = path_join dir path in
      if map_of (ss_files s) (resolve_path full) = None then Inl (FileNotFound path)
      else Inr (''file://'' @ full))"

definition local_storage :: "file_faults \<Rightarrow> string \<Rightarrow> storage_backend" where
  "local_storage fault dir = \<lparr>sb_upload = local_upload fault dir, sb_download = local_download fault dir,
     sb_delete = local_delete fault dir, sb_signed_url = local_signed_url dir\<rparr>"

text \<open>The crate's operations on objects; an error is its text.\<close>

record object_store =
  os_put :: "string \<Rightarrow> string \<Rightarrow> bucket \<Rightarrow> bucket \<times> (string + unit)"
  os_get :: "string \<Rightarrow> bucket \<Rightarrow> string + (string + string)"
  os_delete :: "string \<Rightarrow> bucket \<Rightarrow> bucket \<times> (string + unit)"
  os_signed_url :: "string \<Rightarrow> nat \<Rightarrow> bucket \<Rightarrow> string + string"

definition missing_object :: "string \<Rightarrow> bool" where
  "missing_object e \<longleftrightarrow> contains_str ''not found'' e \<or> contains_str ''404'' e"

definition do_upload :: "object_store \<Rightarrow> string \<Rightarrow> string \<Rightarrow> string \<Rightarrow> storage_state \<Rightarrow>
    storage_state \<times> (storage_error + file_metadata)" where
  "do_upload os path bytes mime s = (case os_put os path bytes (ss_objects s) of
     (objects, Inl e) \<Rightarrow> (s\<lparr>ss_objects := objects\<rparr>, Inl (BackendError (''Upload failed: '' @ e)))
   | (objects, Inr _) \<Rightarrow> (s\<lparr>ss_objects := objects\<rparr>,
       Inr \<lparr>fm_path = path, fm_filename = last (split_on CHR ''/'' path), fm_mime_type = mime, fm_size = length bytes\<rparr>))"

definition do_download :: "object_store \<Rightarrow> string \<Rightarrow> storage_state \<Rightarrow> storage_error + string" where
  "do_download os path s = (case os_get os path (ss_objects s) of
     Inl e \<Rightarrow> Inl (if missing_object e then FileNotFound path else BackendError (''Download failed: '' @ e))
   | Inr (Inl e) \<Rightarrow> Inl (BackendError (''Failed to read bytes: '' @ e))
   | Inr (Inr bytes) \<Rightarrow> Inr bytes)"

definition do_delete :: "object_store \<Rightarrow> string \<Rightarrow> storage_state \<Rightarrow> storage_state \<times> (storage_error + unit)" where
  "do_delete os path s = (case os_delete os path (ss_objects s) of
     (objects, Inl e) \<Rightarrow> (s\<lparr>ss_objects := objects\<rparr>,
       Inl (if missing_object e then FileNotFound path else BackendError (''Delete failed: '' @ e)))
   | (objects, Inr _) \<Rightarrow> (s\<lparr>ss_objects := objects\<rparr>, Inr ()))"

definition trim_end_slashes :: "string \<Rightarrow> string" where
  "trim_end_slashes s = rev (dropWhile (\<lambda>c. c = CHR ''/'') (rev s))"

definition do_signed_url :: "object_store \<Rightarrow> string \<Rightarrow> string \<Rightarrow> nat \<Rightarrow> storage_state \<Rightarrow> storage_error + string" where
  "do_signed_url os base_url path expires_secs s = (case os_signed_url os path expires_secs (ss_objects s) of
     Inr url \<Rightarrow> Inr url
   | Inl e \<Rightarrow> Inr (trim_end_slashes base_url @ ''/'' @ path))"

definition object_storage :: "object_store \<Rightarrow> string \<Rightarrow> storage_backend" where
  "object_storage os base_url = \<lparr>sb_upload = do_upload os, sb_download = do_download os,
     sb_delete = do_delete os, sb_signed_url = do_signed_url os base_url\<rparr>"

section \<open>Choosing a backend\<close>

text \<open>The environment variables, and the client the crate builds for a bucket (and a region).\<close>

record storage_env =
  sn_var :: "string \<Rightarrow> string option"
  sn_s3 :: "string \<Rightarrow> string \<Rightarrow> string + object_store"
  sn_gcs :: "string \<Rightarrow> string + object_store"
  sn_azure :: "string \<Rightarrow> string + object_store"
  sn_file_faults :: file_faults

definition bucket_for :: "storage_env \<Rightarrow> string \<Rightarrow> storage_error + string" where
  "bucket_for env provider = (case sn_var env ''SHAPERAIL_STORAGE_BUCKET'' of
     Some b \<Rightarrow> Inr b
   | None \<Rightarrow> Inl (BackendError (''SHAPERAIL_STORAGE_BUCKET env var required for '' @ provider)))"

definition client_error :: "string \<Rightarrow> string + 'a \<Rightarrow> storage_error + 'a" where
  "client_error provider r = (case r of
     Inl e \<Rightarrow> Inl (BackendError (''Failed to build '' @ provider @ '' client: '' @ e)) | Inr x \<Rightarrow> Inr x)"

definition local_root :: "storage_env \<Rightarrow> string" where
  "local_root env = (case sn_var env ''SHAPERAIL_STORAGE_LOCAL_DIR'' of Some d \<Rightarrow> d | None \<Rightarrow> ''./uploads'')"

definition s3_from_env :: "storage_env \<Rightarrow> storage_error + storage_backend" where
  "s3_from_env env = and_then (bucket_for env ''S3'') (\<lambda>bucket.
     (let region = (case sn_var env ''SHAPERAIL_STORAGE_REGION'' of Some r \<Rightarrow> r
        | None \<Rightarrow> (case sn_var env ''AWS_DEFAULT_REGION'' of Some r \<Rightarrow> r | None \<Rightarrow> ''us-east-1''))
      in and_then (client_error ''S3'' (sn_s3 env bucket region)) (\<lambda>os.
        Inr (object_storage os (''https://'' @ bucket @ ''.s3.'' @ region @ ''.amazonaws.com'')))))"

definition gcs_from_env :: "storage_env \<Rightarrow> storage_error + storage_backend" where
  "gcs_from_env env = and_then (bucket_for env ''GCS'') (\<lambda>bucket.
     and_then (client_error ''GCS'' (sn_gcs env bucket)) (\<lambda>os.
       Inr (object_storage os (''https://storage.googleapis.com/'' @ bucket))))"

definition azure_from_env :: "storage_env \<Rightarrow> storage_error + storage_backend" where
  "azure_from_env env = and_then (bucket_for env ''Azure'') (\<lambda>container.
     (let account = (case sn_var env ''AZURE_STORAGE_ACCOUNT_NAME'' of Some a \<Rightarrow> a | None \<Rightarrow> ''devstoreaccount1'')
      in and_then (client_error ''Azure'' (sn_azure env container)) (\<lambda>os.
        Inr (object_storage os (''https://'' @ account @ ''.blob.core.windows.net/'' @ container)))))"

definition backend_from_name :: "storage_env \<Rightarrow> string \<Rightarrow> storage_error + storage_backend" where
  "backend_from_name env name =
     (if name = ''local'' then Inr (local_storage (sn_file_faults env) (local_root env))
      else if name = ''s3'' then s3_from_env env
      else if name = ''gcs'' then gcs_from_env env
      else if name = ''azure'' then azure_from_env env
      else Inl (BackendError (''Unknown storage backend: '' @ squote name @ ''. Supported: local, s3, gcs, azure'')))"

definition backend_from_env :: "storage_env \<Rightarrow> storage_error + storage_backend" where
  "backend_from_env env = backend_from_name env
     (case sn_var env ''SHAPERAIL_STORAGE_BACKEND'' of Some b \<Rightarrow> b | None \<Rightarrow> ''local'')"

section \<open>The upload handler\<close>

definition upload_checks :: "unicode_lib \<Rightarrow> string \<Rightarrow> string \<Rightarrow> nat option \<Rightarrow> string list option \<Rightarrow> storage_error + unit" where
  "upload_checks uc bytes mime max_size allowed_types =
     and_then (case max_size of Some limit \<Rightarrow> require (length bytes \<le> limit) (FileTooLarge limit (length bytes))
       | None \<Rightarrow> Inr ()) (\<lambda>_.
     case allowed_types of Some types \<Rightarrow> validate_mime_type uc mime types | None \<Rightarrow> Inr ())"

definition storage_path :: "unicode_lib \<Rightarrow> string \<Rightarrow> string \<Rightarrow> string \<Rightarrow> string" where
  "storage_path uc storage_prefix file_id filename =
     storage_prefix @ ''/'' @ file_id @ ''-'' @ sanitize_filename uc filename"

definition process_upload :: "unicode_lib \<Rightarrow> storage_backend \<Rightarrow> string \<Rightarrow> string \<Rightarrow> string \<Rightarrow> string \<Rightarrow>
    nat option \<Rightarrow> string list option \<Rightarrow> string \<Rightarrow> storage_state \<Rightarrow> storage_state \<times> (storage_error + file_metadata)" where
  "process_upload uc backend file_id filename bytes mime max_size allowed_types storage_prefix s =
     (case upload_checks uc bytes mime max_size allowed_types of
        Inl e \<Rightarrow> (s, Inl e)
      | Inr _ \<Rightarrow> (case sb_upload backend (storage_path uc storage_prefix file_id filename) bytes mime s of
          (s', Inl e) \<Rightarrow> (s', Inl e)
        | (s', Inr m) \<Rightarrow> (s', Inr (m\<lparr>fm_filename := filename\<rparr>))))"

text \<open>Thumbnails and resized copies: download, transform, upload as PNG. The \<open>image\<close> crate's
  decoder, scalers and encoder are parameters.\<close>

record 'i image_lib =
  im_decode :: "string \<Rightarrow> string + 'i"
  im_thumbnail :: "'i \<Rightarrow> nat \<Rightarrow> nat \<Rightarrow> 'i"
  im_resize :: "'i \<Rightarrow> nat \<Rightarrow> nat \<Rightarrow> 'i"
  im_png :: "'i \<Rightarrow> string + string"

definition transformed_image :: "'i image_lib \<Rightarrow> storage_backend \<Rightarrow> ('i \<Rightarrow> 'i) \<Rightarrow> string \<Rightarrow> string \<Rightarrow> string \<Rightarrow>
    storage_state \<Rightarrow> storage_state \<times> (storage_error + file_metadata)" where
  "transformed_image im backend f what original_path new_path s =
     (case and_then (sb_download backend original_path s) (\<lambda>bytes.
         case im_decode im bytes of
           Inl e \<Rightarrow> Inl (BackendError (''Failed to decode image: '' @ e))
         | Inr img \<Rightarrow> (case im_png im (f img) of
             Inl e \<Rightarrow> Inl (BackendError (''Failed to encode '' @ what @ '': '' @ e))
           | Inr png \<Rightarrow> Inr png)) of
        Inl e \<Rightarrow> (s, Inl e)
      | Inr png \<Rightarrow> sb_upload backend new_path png ''image/png'' s)"

definition create_thumbnail :: "'i image_lib \<Rightarrow> storage_backend \<Rightarrow> string \<Rightarrow> string \<Rightarrow> nat \<Rightarrow> nat \<Rightarrow> string \<Rightarrow>
    storage_state \<Rightarrow> storage_state \<times> (storage_error + file_metadata)" where
  "create_thumbnail im backend file_id original_path max_width max_height storage_prefix =
     transformed_image im backend (\<lambda>img. im_thumbnail im img max_width max_height) ''thumbnail'' original_path
       (storage_prefix @ ''/thumb-'' @ file_id @ ''.png'')"

definition resize_image :: "'i image_lib \<Rightarrow> storage_backend \<Rightarrow> string \<Rightarrow> string \<Rightarrow> nat \<Rightarrow> nat \<Rightarrow> string \<Rightarrow>
    storage_state \<Rightarrow> storage_state \<times> (storage_error + file_metadata)" where
  "resize_image im backend file_id original_path width height storage_prefix =
     transformed_image im backend (\<lambda>img. im_resize im img width height) ''resized image'' original_path
       (storage_prefix @ ''/resized-'' @ file_id @ ''.png'')"

section \<open>Where an upload ends up\<close>

text \<open>What is used of the Unicode tables: no alphanumeric character has a slash among its bytes.\<close>

definition unicode_ok :: "unicode_lib \<Rightarrow> bool" where
  "unicode_ok uc \<longleftrightarrow> (\<forall>c. uc_alphanumeric uc c \<longrightarrow> CHR ''/'' \<notin> set c)"

definition plain_component :: "string \<Rightarrow> bool" where
  "plain_component c \<longleftrightarrow> CHR ''/'' \<notin> set c \<and> c \<noteq> [] \<and> c \<noteq> ''.'' \<and> c \<noteq> ''..''"

lemma sanitize_no_slash:
  assumes "unicode_ok uc"
  shows "CHR ''/'' \<notin> set (sanitize_filename uc name)"
proof -
  have "CHR ''/'' \<notin> set c" if "filename_char_ok uc c" for c
    using that assms
    by (auto simp: filename_char_ok_def unicode_ok_def ascii_alphanumeric_def split: list.splits)
  then show ?thesis by (auto simp: sanitize_filename_def)
qed

lemma path_step_plain: "plain_component c \<Longrightarrow> path_step absolute acc c = acc @ [c]"
  by (simp add: path_step_def plain_component_def)

lemma split_on_append_any: "split_on c (a @ c # b) = split_on c a @ split_on c b"
  by (induction a) (auto split: list.split)

lemma resolve_join:
  assumes "\<not> prefix ''/'' path"
  shows "resolve_path (path_join dir path) =
    (fst (resolve_path dir),
     foldl (path_step (fst (resolve_path dir))) (snd (resolve_path dir)) (split_on CHR ''/'' path))"
proof (cases "dir = []")
  case True
  then show ?thesis using assms by (simp add: path_join_def resolve_path_def path_step_def)
next
  case dir: False
  then have p: "prefix ''/'' (dir @ x) = prefix ''/'' dir" for x by (cases dir) auto
  show ?thesis
  proof (cases "suffix ''/'' dir")
    case True
    then obtain d where d: "dir = d @ [CHR ''/'']" by (auto simp: suffix_def)
    have e: "split_on CHR ''/'' (dir @ path) = split_on CHR ''/'' d @ split_on CHR ''/'' path"
      "split_on CHR ''/'' dir = split_on CHR ''/'' d @ [ [] ]"
      by (simp_all add: d split_on_append_any)
    show ?thesis
      using assms dir True by (simp add: path_join_def resolve_path_def p e path_step_def)
  next
    case False
    then show ?thesis
      using assms dir by (simp add: path_join_def resolve_path_def p split_on_append_any)
  qed
qed

lemma upload_path_resolved:
  assumes "plain_component r" and "plain_component f" and "CHR ''/'' \<notin> set file_id" and "unicode_ok uc"
  shows "resolve_path (path_join dir (storage_path uc (r @ ''/'' @ f) file_id filename)) =
    (fst (resolve_path dir), snd (resolve_path dir) @ [r, f, file_id @ ''-'' @ sanitize_filename uc filename])"
proof -
  let ?c = "file_id @ ''-'' @ sanitize_filename uc filename"
  have c: "plain_component ?c"
    using assms(3) sanitize_no_slash [OF assms(4)] by (auto simp: plain_component_def append_eq_Cons_conv)
  have sep: "storage_path uc (r @ ''/'' @ f) file_id filename = r @ CHR ''/'' # f @ CHR ''/'' # ?c"
    by (simp add: storage_path_def)
  have "\<not> prefix ''/'' (r @ x)" for x
    using assms(1) by (cases r) (auto simp: plain_component_def)
  moreover have "split_on CHR ''/'' (r @ CHR ''/'' # f @ CHR ''/'' # ?c) = [r, f, ?c]"
    using assms(1,2) c split_on_no_sep [of "CHR ''/''" ?c]
    by (simp add: plain_component_def split_on_append_any split_on_no_sep)
  ultimately show ?thesis
    using path_step_plain [OF assms(1)] path_step_plain [OF assms(2)] path_step_plain [OF c]
    unfolding sep by (subst resolve_join) simp_all
qed

text \<open>C36. An accepted upload respects the declared size limit and types, becomes exactly one file of
  the local backend, inside the directory of its resource and field under the storage root whatever
  the client calls the file, and can be downloaded again under the path that is recorded.\<close>

theorem upload_stored_inside:
  assumes "unicode_ok uc" and "plain_component r" and "plain_component f" and "CHR ''/'' \<notin> set file_id"
    and "process_upload uc (local_storage fault dir) file_id filename bytes mime (Some limit) types (r @ ''/'' @ f) s
      = (s', Inr m)"
  shows "\<exists>c. ss_files s' = AList.update (fst (resolve_path dir), snd (resolve_path dir) @ [r, f, c]) bytes (ss_files s)
      \<and> ss_objects s' = ss_objects s
      \<and> (fault ReadFile (path_join dir (fm_path m)) = None \<longrightarrow> local_download fault dir (fm_path m) s' = Inr bytes)
      \<and> fm_filename m = filename \<and> fm_size m = length bytes \<and> length bytes \<le> limit
      \<and> (\<forall>ts. types = Some ts \<longrightarrow> ts = [] \<or> list_ex (mime_pattern_matches uc mime) ts)"
proof -
  let ?path = "storage_path uc (r @ ''/'' @ f) file_id filename"
  note resolved = upload_path_resolved [OF assms(2-4,1), of dir filename]
  obtain m' where u: "local_upload fault dir ?path bytes mime s = (s', Inr m')" "m = m'\<lparr>fm_filename := filename\<rparr>"
    and ok: "upload_checks uc bytes mime (Some limit) types = Inr ()"
    using assms(5) by (auto simp: process_upload_def local_storage_def split: sum.splits prod.splits)
  from u(1) have s': "s' = s\<lparr>ss_files := AList.update (resolve_path (path_join dir ?path)) bytes (ss_files s)\<rparr>"
    and m': "fm_path m' = ?path" "fm_size m' = length bytes"
    by (auto simp: local_upload_def Let_def split: option.splits)
  from ok have "length bytes \<le> limit"
    and "\<forall>ts. types = Some ts \<longrightarrow> ts = [] \<or> list_ex (mime_pattern_matches uc mime) ts"
    by (auto simp: upload_checks_def validate_mime_type_def result_simps split: option.splits if_splits)
  with s' m' u(2) resolved show ?thesis
    by (auto simp: local_download_def update_conv)
qed

text \<open>A picture that a client calls \<open>../../x\<close> stays inside the directory of its field.\<close>

definition plain_unicode :: unicode_lib where
  "plain_unicode = \<lparr>uc_alphanumeric = (\<lambda>c. False), uc_lower = (\<lambda>c. c), uc_debug = dquote\<rparr>"

theorem upload_stored_inside_witness:
  "\<exists>s' m c. process_upload plain_unicode (local_storage (\<lambda>op p. None) ''./uploads'') ''7'' ''../../x'' ''data''
      ''image/png'' (Some 10) (Some [''png'']) (''users'' @ ''/'' @ ''avatar'') \<lparr>ss_files = [], ss_objects = []\<rparr> = (s', Inr m)
    \<and> ss_files s' = [((False, [''uploads'', ''users'', ''avatar'', c]), ''data'')]"
proof -
  let ?run = "process_upload plain_unicode (local_storage (\<lambda>op p. None) ''./uploads'') ''7'' ''../../x'' ''data''
      ''image/png'' (Some 10) (Some [''png'']) (''users'' @ ''/'' @ ''avatar'') \<lparr>ss_files = [], ss_objects = []\<rparr>"
  have p: "resolve_path ''./uploads'' = (False, [''uploads''])" by code_simp
  have ok: "upload_checks plain_unicode ''data'' ''image/png'' (Some 10) (Some [''png'']) = Inr ()" by code_simp
  obtain s' m where r: "?run = (s', Inr m)"
    by (simp add: process_upload_def ok local_storage_def local_upload_def Let_def)
  have "\<exists>c. ss_files s' = [((False, [''uploads'', ''users'', ''avatar'', c]), ''data'')]"
    using upload_stored_inside [OF _ _ _ _ r] by (auto simp: p unicode_ok_def plain_unicode_def plain_component_def)
  with r show ?thesis by blast
qed

text \<open>Boundaries of the code: the limit \<open>17179869184gb\<close> wraps to zero bytes; the wildcard \<open>image/*\<close>
  accepts a type that only begins with the same letters; a pattern that is no known extension accepts
  an upload whose type is empty; and a path that is given to delete is not confined to the root.\<close>

lemma max_size_wraps: "parse_max_size plain_unicode ''17179869184gb'' = Inr 0"
proof -
  have "size_suffix (to_lowercase plain_unicode (trim ''17179869184gb'')) = (''17179869184'', 1073741824)"
    and "trim ''17179869184'' = ''17179869184''" by code_simp+
  moreover have "parse_u64 ''17179869184'' = Some 17179869184"
    by (simp add: parse_u64_def parse_digits_def nat_of_digits_def is_digit_def digit_val_def)
  ultimately show ?thesis by (simp add: parse_max_size_def)
qed

lemma wildcard_ignores_slash: "validate_mime_type plain_unicode ''imagex/evil'' [''image/*''] = Inr ()"
  by code_simp

lemma unknown_extension_accepts_empty: "validate_mime_type plain_unicode [] [''docx''] = Inr ()"
  by code_simp

lemma delete_leaves_root:
  "local_delete (\<lambda>op p. None) ''uploads'' ''../config''
     \<lparr>ss_files = [((False, [''config'']), ''secret'')], ss_objects = []\<rparr> = (\<lparr>ss_files = [], ss_objects = []\<rparr>, Inr ())"
  by code_simp

end
