(* ===== verification/Crud_Core.thy ===== *)
theory Crud_Core
  imports Sql_Builder Rate_Limit Response_Cache Events Storage
begin

text \<open>
  What the request handlers of \<open>shaperail-runtime/src/handlers/crud.rs\<close> share: the application state,
  the request and the response, the authentication, tenant and rate-limit guards, the response
  helpers of \<open>handlers/response.rs\<close>, the controllers of \<open>handlers/controller.rs\<close> and the side effects
  of a write. A handler is a state transformer: it maps the world (database, cache, limiter, job
  store, metrics, scheduled file deletions) to the new world and a result. Everything the consumer
  provides (stores, controllers, plugins) and the services are fields of the application.
\<close>

section \<open>The world and its transformers\<close>

record 'db world =
  wo_db :: 'db
  wo_cache :: redis_texts
  wo_limiter :: limiter_store
  wo_jobs :: job_store
  wo_metrics :: "bool list"
  wo_storage :: storage_state
  wo_cleanup :: "string list"
  wo_ticks :: nat

type_synonym ('db, 'a) action = "'db world \<Rightarrow> 'db world \<times> 'a res"

definition give :: "'a \<Rightarrow> ('db, 'a) action" where
  "give x w = (w, Inr x)"

definition lift_res :: "'a res \<Rightarrow> ('db, 'a) action" where
  "lift_res r w = (w, r)"

text \<open>Running two actions in turn; the question mark operator returns at the first error.\<close>

definition seq :: "('db, 'a) action \<Rightarrow> ('a \<Rightarrow> ('db, 'b) action) \<Rightarrow> ('db, 'b) action" where
  "seq m f w = (case m w of (w', Inl e) \<Rightarrow> (w', Inl e) | (w', Inr x) \<Rightarrow> f x w')"

definition effect :: "('db world \<Rightarrow> 'db world) \<Rightarrow> ('db, unit) action" where
  "effect f w = (f w, Inr ())"

definition peek :: "('db world \<Rightarrow> 'a) \<Rightarrow> ('db, 'a) action" where
  "peek f w = (w, Inr (f w))"

section \<open>Stores\<close>

text \<open>The trait \<open>ResourceStore\<close>: reads answer from the database, writes change it.\<close>

record 'db store =
  st_find_by_id :: "uuid \<Rightarrow> 'db \<Rightarrow> json res"
  st_find_all :: "endpoint_spec \<Rightarrow> filter_param list \<Rightarrow> search_param option \<Rightarrow> sort_field list \<Rightarrow> page_request \<Rightarrow>
    'db \<Rightarrow> (json list \<times> json) res"
  st_insert :: "jmap \<Rightarrow> 'db \<Rightarrow> 'db \<times> json res"
  st_update_by_id :: "uuid \<Rightarrow> jmap \<Rightarrow> 'db \<Rightarrow> 'db \<times> json res"
  st_soft_delete_by_id :: "uuid \<Rightarrow> 'db \<Rightarrow> 'db \<times> json res"
  st_hard_delete_by_id :: "uuid \<Rightarrow> 'db \<Rightarrow> 'db \<times> json res"

text \<open>The pool executes a statement on the database: \<open>ResourceQuery\<close> builds the statements.\<close>

type_synonym 'db executor = "string \<Rightarrow> bind_value list \<Rightarrow> 'db \<Rightarrow> 'db \<times> (sqlx_error + pg_row list)"

definition query_store :: "sql_lib \<Rightarrow> 'db executor \<Rightarrow> ('db \<Rightarrow> count_pool) \<Rightarrow> resource_definition \<Rightarrow> 'db store" where
  "query_store lib exec counter rd =
     \<lparr>st_find_by_id = (\<lambda>i db. find_by_id lib (\<lambda>sql binds. snd (exec sql binds db)) rd i),
      st_find_all = (\<lambda>ep fs search srt page db.
        find_all lib (\<lambda>sql binds. snd (exec sql binds db)) (counter db) rd fs search srt page),
      st_insert = (\<lambda>input db. (case insert_statement lib rd input of (sql, binds) \<Rightarrow>
        (fst (exec sql binds db), insert_row lib (\<lambda>s b. snd (exec s b db)) rd input))),
      st_update_by_id = (\<lambda>i input db. (case update_statement lib rd i input of
        Inl e \<Rightarrow> (db, Inl e)
      | Inr (sql, binds) \<Rightarrow> (fst (exec sql binds db), update_by_id lib (\<lambda>s b. snd (exec s b db)) rd i input))),
      st_soft_delete_by_id = (\<lambda>i db. (case soft_delete_statement lib rd i of (sql, binds) \<Rightarrow>
        (fst (exec sql binds db), soft_delete_by_id lib (\<lambda>s b. snd (exec s b db)) rd i))),
      st_hard_delete_by_id = (\<lambda>i db. (case hard_delete_statement rd i of (sql, binds) \<Rightarrow>
        (fst (exec sql binds db), hard_delete_by_id lib (\<lambda>s b. snd (exec s b db)) rd i)))\<rparr>"

section \<open>Controllers\<close>

record crud_context =
  cx_input :: jmap
  cx_data :: "json option"
  cx_user :: "authenticated_user option"
  cx_headers :: "(string \<times> string) list"
  cx_response_headers :: "(string \<times> string) list"
  cx_tenant_id :: "string option"
  cx_session :: jmap
  cx_response_extras :: jmap
  cx_path_params :: "(string \<times> string) list"

text \<open>A controller is consumer code: it may change the context and use the pool.\<close>

type_synonym 'db controller = "crud_context \<Rightarrow> 'db \<Rightarrow> 'db \<times> crud_context res"

type_synonym 'db controller_map = "((string \<times> string) \<times> 'db controller) list"

definition register :: "string \<Rightarrow> string \<Rightarrow> 'db controller \<Rightarrow> 'db controller_map \<Rightarrow> 'db controller_map" where
  "register resource name f m = AList.update (resource, name) f m"

definition has_controller :: "'db controller_map \<Rightarrow> string \<Rightarrow> string \<Rightarrow> bool" where
  "has_controller m resource name \<longleftrightarrow> map_of m (resource, name) \<noteq> None"

definition call_controller :: "'db controller_map \<Rightarrow> string \<Rightarrow> string \<Rightarrow> 'db controller" where
  "call_controller m resource name ctx db = (case map_of m (resource, name) of
     Some f \<Rightarrow> f ctx db
   | None \<Rightarrow> (db, Inl (Internal (''Controller '' @ squote name @ '' not found for resource '' @ squote resource
       @ ''. Ensure the function exists in resources/'' @ resource @ ''.controller.rs''))))"

text \<open>What a plugin receives and gives back; the runtime's \<open>call_hook\<close> wraps the \<open>wasmtime\<close> engine.\<close>

record plugin_context =
  pc_input :: jmap
  pc_data :: "json option"
  pc_user :: "(string \<times> string) option"
  pc_headers :: "(string \<times> string) list"
  pc_tenant_id :: "string option"

record plugin_result =
  pr_ok :: bool
  pr_ctx :: "plugin_context option"
  pr_error :: "string option"
  pr_details :: "json list option"

type_synonym wasm_runtime = "string \<Rightarrow> string \<Rightarrow> plugin_context \<Rightarrow> plugin_result res"

definition plugin_context_of :: "crud_context \<Rightarrow> plugin_context" where
  "plugin_context_of ctx = \<lparr>pc_input = cx_input ctx, pc_data = cx_data ctx,
     pc_user = map_option (\<lambda>u. (au_sub u, au_role u)) (cx_user ctx), pc_headers = cx_headers ctx,
     pc_tenant_id = cx_tenant_id ctx\<rparr>"

definition apply_plugin :: "plugin_result \<Rightarrow> crud_context \<Rightarrow> crud_context res" where
  "apply_plugin result ctx =
     (if \<not> pr_ok result then
        Inl (Validation [\<lparr>fe_field = ''wasm_plugin'',
          fe_message = (case pr_error result of Some e \<Rightarrow> e | None \<Rightarrow> ''WASM plugin returned error''),
          fe_code = ''wasm_error''\<rparr>])
      else (case pr_ctx result of
        None \<Rightarrow> Inr ctx
      | Some m \<Rightarrow> Inr (ctx\<lparr>cx_input := pc_input m,
          cx_data := (if pc_data m \<noteq> None then pc_data m else cx_data ctx)\<rparr>)))"

definition dispatch_rust_controller :: "'db controller_map option \<Rightarrow> string \<Rightarrow> string \<Rightarrow> 'db controller" where
  "dispatch_rust_controller controllers name resource ctx db = (case controllers of
     None \<Rightarrow> (db, Inl (Internal (''Controller '' @ squote name @ '' declared for '' @ squote resource
       @ '' but no ControllerMap configured'')))
   | Some m \<Rightarrow> call_controller m resource name ctx db)"

definition dispatch_controller ::
    "'db controller_map option \<Rightarrow> wasm_runtime option \<Rightarrow> string \<Rightarrow> string \<Rightarrow> 'db controller" where
  "dispatch_controller controllers wasm name resource ctx db =
     (case strip_prefix wasm_hook_prefix name of
        Some wasm_path \<Rightarrow> (db,
          and_then (ok_or (Internal ''WASM plugin declared but no WasmRuntime configured'') wasm) (\<lambda>call_hook.
          and_then (call_hook wasm_path (if cx_data ctx = None then ''before_hook'' else ''after_hook'')
              (plugin_context_of ctx)) (\<lambda>result. apply_plugin result ctx)))
      | None \<Rightarrow> dispatch_rust_controller controllers name resource ctx db)"

text \<open>The loop over the declared names, left at the first error.\<close>

fun run_controllers :: "'db controller_map option \<Rightarrow> wasm_runtime option \<Rightarrow> string \<Rightarrow> string list \<Rightarrow> 'db controller" where
  "run_controllers controllers wasm resource [] ctx db = (db, Inr ctx)"
| "run_controllers controllers wasm resource (name # names) ctx db =
     (case dispatch_controller controllers wasm name resource ctx db of
        (db', Inl e) \<Rightarrow> (db', Inl e)
      | (db', Inr ctx') \<Rightarrow> run_controllers controllers wasm resource names ctx' db')"

section \<open>Application, request and response\<close>

text \<open>The services: \<open>ap_cache\<close> holds SHA-256 and the KEYS glob of a configured cache; \<open>ap_emit_env n\<close>
  and \<open>ap_event n\<close> are the queue's behaviour and the fresh id and time of the n-th emission.\<close>

record 'db app =
  ap_lib :: sql_lib
  ap_jwt_lib :: jwt_lib
  ap_now :: int
  ap_resources :: "resource_definition list"
  ap_stores :: "(string \<times> 'db store) list option"
  ap_query :: "resource_definition \<Rightarrow> 'db store"
  ap_columns :: "'db \<Rightarrow> column_db"
  ap_controllers :: "'db controller_map option"
  ap_wasm :: "wasm_runtime option"
  ap_cache :: "((string \<Rightarrow> string) \<times> (string \<Rightarrow> string \<Rightarrow> bool)) option"
  ap_cache_up :: bool
  ap_limiter :: bool
  ap_limiter_fault :: "redis_fault option"
  ap_score_text :: "int \<Rightarrow> string"
  ap_emitter :: "event_subscriber list option"
  ap_job_queue :: bool
  ap_emit_env :: "nat \<Rightarrow> emit_env"
  ap_event :: "nat \<Rightarrow> string \<times> string"
  ap_metrics :: bool
  ap_storage :: storage_env
  ap_unicode :: unicode_lib
  ap_file_id :: "nat \<Rightarrow> string"

record http_request =
  hr_auth :: auth_request
  hr_query :: string
  hr_peer :: "string option"
  hr_headers :: "(string \<times> string) list"

datatype http_body = JsonBody json | TextBody string | NoBody

record http_response =
  hs_status :: nat
  hs_body :: http_body
  hs_headers :: "(string \<times> string) list"

definition single :: "json \<Rightarrow> http_response" where
  "single v = \<lparr>hs_status = 200, hs_body = JsonBody (JObj [(''data'', v)]), hs_headers = []\<rparr>"

definition created :: "json \<Rightarrow> http_response" where
  "created v = \<lparr>hs_status = 201, hs_body = JsonBody (JObj [(''data'', v)]), hs_headers = []\<rparr>"

definition bulk :: "json list \<Rightarrow> http_response" where
  "bulk vs = \<lparr>hs_status = 200, hs_body = JsonBody (JObj [(''data'', JArr vs),
     (''meta'', JObj [(''total'', JNum (PosInt (length vs)))])]), hs_headers = []\<rparr>"

definition no_content :: http_response where
  "no_content = \<lparr>hs_status = 204, hs_body = NoBody, hs_headers = []\<rparr>"

definition select_fields :: "json \<Rightarrow> string list \<Rightarrow> json" where
  "select_fields v fs = (if fs = [] then v
     else (case v of JObj m \<Rightarrow> JObj (filter (\<lambda>(k, x). k \<in> set fs) m) | _ \<Rightarrow> v))"

section \<open>Guards\<close>

definition enforce_auth :: "'db app \<Rightarrow> http_request \<Rightarrow> endpoint_spec \<Rightarrow> authenticated_user option res" where
  "enforce_auth app req ep =
     (let user = try_extract_auth (ap_jwt_lib app) (ap_now app) (hr_auth req)
      in and_then (enforce (ep_auth ep) user) (\<lambda>_. Inr user))"

definition should_bypass_cache :: "http_request \<Rightarrow> authenticated_user option \<Rightarrow> bool" where
  "should_bypass_cache req user =
     (if contains_str ''nocache=1'' (hr_query req) then True
      else (case user of Some u \<Rightarrow> au_role u = ''admin'' | None \<Rightarrow> False))"

definition user_role_for_cache :: "authenticated_user option \<Rightarrow> string" where
  "user_role_for_cache user = (case user of Some u \<Rightarrow> au_role u | None \<Rightarrow> ''anonymous'')"

definition user_tenant :: "authenticated_user option \<Rightarrow> string option" where
  "user_tenant user = Option.bind user au_tenant_id"

definition resolve_tenant_id :: "resource_definition \<Rightarrow> authenticated_user option \<Rightarrow> string option" where
  "resolve_tenant_id rd user = (case rd_tenant_key rd of None \<Rightarrow> None | Some k \<Rightarrow> user_tenant user)"

definition super_admin :: "authenticated_user option \<Rightarrow> bool" where
  "super_admin user = (case user of Some u \<Rightarrow> au_role u = ''super_admin'' | None \<Rightarrow> False)"

definition verify_tenant :: "resource_definition \<Rightarrow> authenticated_user option \<Rightarrow> json \<Rightarrow> unit res" where
  "verify_tenant rd user data = (case rd_tenant_key rd of
     None \<Rightarrow> Inr ()
   | Some tenant_key \<Rightarrow>
       if super_admin user then Inr ()
       else (case user_tenant user of
         None \<Rightarrow> Inl Forbidden
       | Some t \<Rightarrow>
           (let record_tenant = (case json_get_str data tenant_key of Some s \<Rightarrow> s | None \<Rightarrow> [])
            in if record_tenant \<noteq> t then Inl NotFound else Inr ())))"

definition inject_tenant_filter ::
    "resource_definition \<Rightarrow> authenticated_user option \<Rightarrow> filter_param list \<Rightarrow> filter_param list res" where
  "inject_tenant_filter rd user filters = (case rd_tenant_key rd of
     None \<Rightarrow> Inr filters
   | Some tenant_key \<Rightarrow>
       if super_admin user then Inr filters
       else (case user_tenant user of
         Some t \<Rightarrow> Inr (add_filter filters tenant_key t)
       | None \<Rightarrow> Inl Forbidden))"

definition inject_tenant_into_input :: "resource_definition \<Rightarrow> authenticated_user option \<Rightarrow> jmap \<Rightarrow> jmap" where
  "inject_tenant_into_input rd user input = (case rd_tenant_key rd of
     None \<Rightarrow> input
   | Some tenant_key \<Rightarrow> (case user_tenant user of
       None \<Rightarrow> input
     | Some t \<Rightarrow> if has_key input tenant_key then input else AList.update tenant_key (JStr t) input))"

definition tenant_id_for_key :: "authenticated_user option \<Rightarrow> string" where
  "tenant_id_for_key user = (case user_tenant user of Some t \<Rightarrow> t | None \<Rightarrow> ''_'')"

definition store_for :: "'db app \<Rightarrow> resource_definition \<Rightarrow> 'db store option" where
  "store_for app rd = Option.bind (ap_stores app) (\<lambda>stores. map_of stores (rd_resource rd))"

definition store_for_or_error :: "'db app \<Rightarrow> resource_definition \<Rightarrow> 'db store option res" where
  "store_for_or_error app rd = (case store_for app rd of
     Some s \<Rightarrow> Inr (Some s)
   | None \<Rightarrow>
       if ap_stores app \<noteq> None then
         Inl (Internal (''Resource '' @ squote (rd_resource rd) @ '' has no generated store; run shaperail generate''))
       else Inr None)"

text \<open>\<open>if let Some(store) = store_opt { store... } else { ResourceQuery::new(resource, pool)... }\<close>\<close>

definition store_or_query :: "'db app \<Rightarrow> resource_definition \<Rightarrow> 'db store option \<Rightarrow> 'db store" where
  "store_or_query app rd store_opt = (case store_opt of Some s \<Rightarrow> s | None \<Rightarrow> ap_query app rd)"

definition check_rate_limit :: "'db app \<Rightarrow> http_request \<Rightarrow> endpoint_spec \<Rightarrow> authenticated_user option \<Rightarrow> string \<Rightarrow>
    ('db, unit) action" where
  "check_rate_limit app req ep user resource_action w = (case ep_rate_limit ep of
     None \<Rightarrow> (w, Inr ())
   | Some spec \<Rightarrow>
       if \<not> ap_limiter app then (w, Inr ())
       else (let ip = (case hr_peer req of Some a \<Rightarrow> a | None \<Rightarrow> ''unknown'');
                 base_key = key_for_tenant ip (map_option au_sub user) (user_tenant user);
                 (limiter, r) = check_limit (ap_score_text app) (ap_limiter_fault app)
                   \<lparr>rc_max_requests = rl_max_requests spec, rc_window_secs = rl_window_secs spec\<rparr>
                   (resource_action @ '':'' @ base_key) (ap_now app * 1000) (wo_limiter w)
             in (w\<lparr>wo_limiter := limiter\<rparr>, and_then r (\<lambda>_. Inr ()))))"

text \<open>The first two steps of every handler.\<close>

definition admit :: "'db app \<Rightarrow> http_request \<Rightarrow> endpoint_spec \<Rightarrow> string \<Rightarrow> ('db, authenticated_user option) action" where
  "admit app req ep resource_action =
     seq (lift_res (enforce_auth app req ep)) (\<lambda>user.
     seq (check_rate_limit app req ep user resource_action) (\<lambda>_. give user))"

definition id_error :: "string \<Rightarrow> string \<Rightarrow> shaperail_error" where
  "id_error msg code = Validation [\<lparr>fe_field = ''id'', fe_message = msg, fe_code = code\<rparr>]"

definition parse_id :: "'db app \<Rightarrow> string \<Rightarrow> uuid res" where
  "parse_id app s = ok_or (id_error (''Invalid UUID: '' @ s) ''invalid_uuid'') (parse_uuid (sl_values (ap_lib app)) s)"

definition body_error :: "string \<Rightarrow> string \<Rightarrow> shaperail_error" where
  "body_error msg code = Validation [\<lparr>fe_field = ''body'', fe_message = msg, fe_code = code\<rparr>]"

definition allowed_input :: "resource_definition \<Rightarrow> endpoint_spec \<Rightarrow> string list" where
  "allowed_input rd ep = (case ep_input ep of
     Some input_fields \<Rightarrow> input_fields
   | None \<Rightarrow> map fst (filter (\<lambda>(name, f). \<not> fs_generated f \<and> \<not> fs_primary f) (rd_schema rd)))"

definition extract_input_from_value :: "json \<Rightarrow> resource_definition \<Rightarrow> endpoint_spec \<Rightarrow> jmap res" where
  "extract_input_from_value v rd ep =
     and_then (ok_or (body_error ''Expected a JSON object'' ''invalid_body'') (as_object v)) (\<lambda>obj.
       Inr (fold (\<lambda>(k, x) m. if k \<in> set (allowed_input rd ep) then AList.update k x m else m) obj []))"

section \<open>Related records\<close>

definition list_endpoint_for :: "resource_definition \<Rightarrow> endpoint_spec option" where
  "list_endpoint_for rd = (case rd_endpoints rd of
     None \<Rightarrow> None
   | Some eps \<Rightarrow> map_option snd (find (\<lambda>(a, ep). ep_method ep = Some Get
       \<and> \<not> contains_str '':id'' (case ep_path ep of Some p \<Rightarrow> p | None \<Rightarrow> [])) eps))"

definition set_member :: "string \<Rightarrow> json \<Rightarrow> json \<Rightarrow> json" where
  "set_member k x item = (case item of JObj m \<Rightarrow> JObj (AList.update k x m) | _ \<Rightarrow> item)"

definition include_belongs_to :: "'db app \<Rightarrow> 'db store \<Rightarrow> string \<Rightarrow> relation_spec \<Rightarrow> 'db \<Rightarrow> json \<Rightarrow> json res" where
  "include_belongs_to app store name rel db item =
     (let key = (case rel_key rel of Some k \<Rightarrow> k | None \<Rightarrow> name @ ''_id'') in
      case Option.bind (json_get_str item key) (parse_uuid (sl_values (ap_lib app))) of
        None \<Rightarrow> Inr item
      | Some fk \<Rightarrow> (case st_find_by_id store fk db of
          Inr row \<Rightarrow> Inr (set_member name row item)
        | Inl NotFound \<Rightarrow> Inr (set_member name JNull item)
        | Inl e \<Rightarrow> Inl e))"

definition include_many :: "'db app \<Rightarrow> resource_definition \<Rightarrow> resource_definition \<Rightarrow> string \<Rightarrow> relation_spec \<Rightarrow>
    'db \<Rightarrow> json \<Rightarrow> json res" where
  "include_many app rd related name rel db item =
     (let foreign_key = (case rel_foreign_key rel of Some k \<Rightarrow> k | None \<Rightarrow> ''id'') in
      case json_get_str item (primary_key rd) of
        None \<Rightarrow> Inr item
      | Some pk_value \<Rightarrow>
          (let filters = [\<lparr>fp_field = foreign_key, fp_value = pk_value\<rparr>];
               found = (case (store_for app related, list_endpoint_for related) of
                 (Some s, Some ep) \<Rightarrow> st_find_all s ep filters None [] (Cursor None 100) db
               | _ \<Rightarrow> st_find_all (ap_query app related) default_endpoint filters None [] (Cursor None 100) db)
           in and_then found (\<lambda>(rows, meta).
             Inr (set_member name (if rel_type rel = HasOne then (case rows of r # _ \<Rightarrow> r | [] \<Rightarrow> JNull)
               else JArr rows) item))))"

definition include_relation :: "'db app \<Rightarrow> resource_definition \<Rightarrow> 'db \<Rightarrow> string \<Rightarrow> json list \<Rightarrow> json list res" where
  "include_relation app rd db name items =
     (case Option.bind (rd_relations rd) (\<lambda>rels. map_of rels name) of
        None \<Rightarrow> Inr items
      | Some rel \<Rightarrow> (case find (\<lambda>r. rd_resource r = rel_resource rel) (ap_resources app) of
          None \<Rightarrow> Inr items
        | Some related \<Rightarrow>
            if rel_type rel = BelongsTo then
              map_res (include_belongs_to app (store_or_query app related (store_for app related)) name rel db) items
            else map_res (include_many app rd related name rel db) items))"

fun load_relations :: "'db app \<Rightarrow> resource_definition \<Rightarrow> 'db \<Rightarrow> string list \<Rightarrow> json list \<Rightarrow> json list res" where
  "load_relations app rd db [] items = Inr items"
| "load_relations app rd db (name # names) items =
     and_then (include_relation app rd db name items) (load_relations app rd db names)"

end
