(* ===== verification/Crud_Handlers.thy ===== *)
theory Crud_Handlers
  imports Crud_Core
begin

text \<open>
  The request handlers of \<open>shaperail-runtime/src/handlers/crud.rs\<close>: list, get, create, update, delete
  and the two bulk operations, with the cache, the controllers and the side effects of a write, in
  the order of the code. The multipart variants are not modelled here.
\<close>

section \<open>Reading\<close>

definition execute_list :: "'db app \<Rightarrow> http_request \<Rightarrow> resource_definition \<Rightarrow> endpoint_spec \<Rightarrow>
    authenticated_user option \<Rightarrow> 'db \<Rightarrow> json res" where
  "execute_list app req rd ep user db =
     and_then (validate_filter_param_form (hr_query req) ep) (\<lambda>_.
     (let ps = parse_list_params (hr_query req) ep in
     and_then (inject_tenant_filter rd user (lp_filters ps)) (\<lambda>filters.
     and_then (store_for_or_error app rd) (\<lambda>store_opt.
     and_then (st_find_all (store_or_query app rd store_opt) ep filters (lp_search ps) (lp_sort ps) (lp_page ps) db)
       (\<lambda>(rows, meta).
     and_then (if lp_include ps \<noteq> [] then load_relations app rd db (lp_include ps) rows else Inr rows) (\<lambda>data.
       Inr (JObj [(''data'', JArr (if lp_fields ps \<noteq> [] then map (\<lambda>v. select_fields v (lp_fields ps)) data else data)),
         (''meta'', meta)])))))))"

definition execute_get :: "'db app \<Rightarrow> http_request \<Rightarrow> resource_definition \<Rightarrow> endpoint_spec \<Rightarrow> uuid \<Rightarrow>
    authenticated_user option \<Rightarrow> 'db \<Rightarrow> json res" where
  "execute_get app req rd ep i user db =
     and_then (store_for_or_error app rd) (\<lambda>store_opt.
     and_then (st_find_by_id (store_or_query app rd store_opt) i db) (\<lambda>row.
     (let ps = parse_item_params (hr_query req) in
     and_then (verify_tenant rd user row) (\<lambda>_.
     and_then (if needs_owner_check (ep_auth ep) user
         then (case user of Some u \<Rightarrow> check_owner u row | None \<Rightarrow> Inr ()) else Inr ()) (\<lambda>_.
     and_then (if ip_include ps \<noteq> [] then and_then (load_relations app rd db (ip_include ps) [row])
         (\<lambda>items. Inr (case items of v # _ \<Rightarrow> v | [] \<Rightarrow> JNull)) else Inr row) (\<lambda>data.
       Inr (if ip_fields ps \<noteq> [] then select_fields data (ip_fields ps) else data)))))))"

text \<open>The cache around a read: a hit answers the stored text, a miss runs the read and stores its
  text. \<open>envelope\<close> is the response of a read that does not go through the cache.\<close>

definition record_cache :: "'db app \<Rightarrow> bool \<Rightarrow> 'db world \<Rightarrow> 'db world" where
  "record_cache app hit w = (if ap_metrics app then w\<lparr>wo_metrics := wo_metrics w @ [hit]\<rparr> else w)"

definition cached_response :: "string \<Rightarrow> http_body \<Rightarrow> http_response" where
  "cached_response tag body = \<lparr>hs_status = 200, hs_body = body,
     hs_headers = [(''content-type'', ''application/json''), (''X-Cache'', tag)]\<rparr>"

definition cached_read :: "'db app \<Rightarrow> http_request \<Rightarrow> endpoint_spec \<Rightarrow> authenticated_user option \<Rightarrow> string \<Rightarrow>
    string \<Rightarrow> (string \<times> string) list \<Rightarrow> ('db \<Rightarrow> json res) \<Rightarrow> (json \<Rightarrow> http_response) \<Rightarrow> ('db, http_response) action" where
  "cached_read app req ep user resource name query_params read envelope w =
     (case (ap_cache app, ep_cache ep) of
        (Some (sha256, glob), Some spec) \<Rightarrow>
          if should_bypass_cache req user then (w, and_then (read (wo_db w)) (\<lambda>v. Inr (envelope v)))
          else (let key = build_key_with_tenant sha256 resource name query_params (user_role_for_cache user)
                      (tenant_id_for_key user) in
            case cache_get (ap_cache_up app) (ap_now app) (wo_cache w) key of
              Some text \<Rightarrow> (record_cache app True w, Inr (cached_response ''HIT'' (TextBody text)))
            | None \<Rightarrow>
                (let w1 = record_cache app False w in
                 case read (wo_db w1) of
                   Inl e \<Rightarrow> (w1, Inl e)
                 | Inr v \<Rightarrow> (w1\<lparr>wo_cache := cache_set (ap_cache_up app) (ap_now app) key
                       (sl_json_text (ap_lib app) v) (cs_ttl spec) (wo_cache w1)\<rparr>,
                     Inr (cached_response ''MISS'' (JsonBody v)))))
      | _ \<Rightarrow> (w, and_then (read (wo_db w)) (\<lambda>v. Inr (envelope v))))"

definition handle_list :: "'db app \<Rightarrow> http_request \<Rightarrow> resource_definition \<Rightarrow> endpoint_spec \<Rightarrow>
    ('db, http_response) action" where
  "handle_list app req rd ep =
     seq (admit app req ep (rd_resource rd @ '':list'')) (\<lambda>user.
       cached_read app req ep user (rd_resource rd) ''list'' (query_map (hr_query req))
         (execute_list app req rd ep user)
         (\<lambda>v. \<lparr>hs_status = 200, hs_body = JsonBody v, hs_headers = []\<rparr>))"

definition handle_get :: "'db app \<Rightarrow> http_request \<Rightarrow> resource_definition \<Rightarrow> endpoint_spec \<Rightarrow> string \<Rightarrow>
    ('db, http_response) action" where
  "handle_get app req rd ep path =
     seq (admit app req ep (rd_resource rd @ '':get'')) (\<lambda>user.
     seq (lift_res (parse_id app path)) (\<lambda>i.
       cached_read app req ep user (rd_resource rd) ''get''
         (AList.update ''_id'' (show_uuid (sl_values (ap_lib app)) i) (query_map (hr_query req)))
         (execute_get app req rd ep i user) single))"

section \<open>Side effects of a write\<close>

definition invalidate_cache :: "'db app \<Rightarrow> resource_definition \<Rightarrow> string \<Rightarrow> 'db world \<Rightarrow> 'db world" where
  "invalidate_cache app rd action w = (case ap_cache app of
     None \<Rightarrow> w
   | Some (sha256, glob) \<Rightarrow>
       (let invalidate_on = Option.bind (rd_endpoints rd)
              (find_map (\<lambda>(a, ep). Option.bind (ep_cache ep) cs_invalidate_on))
        in w\<lparr>wo_cache := invalidate_if_needed (ap_cache_up app) glob (rd_resource rd) action invalidate_on
             (wo_cache w)\<rparr>))"

definition emit_event :: "'db app \<Rightarrow> event_subscriber list \<Rightarrow> string \<Rightarrow> string \<Rightarrow> string \<Rightarrow> json \<Rightarrow> 'db world \<Rightarrow> 'db world" where
  "emit_event app subs event_name resource action data w =
     (let (event_id, timestamp) = ap_event app (wo_ticks w) in
      w\<lparr>wo_jobs := fst (emit (ap_emit_env app (wo_ticks w)) subs event_id timestamp event_name resource action data
           (wo_jobs w)), wo_ticks := wo_ticks w + 1\<rparr>)"

definition auto_emit_event :: "'db app \<Rightarrow> resource_definition \<Rightarrow> string \<Rightarrow> json \<Rightarrow> 'db world \<Rightarrow> 'db world" where
  "auto_emit_event app rd action data w = (case ap_emitter app of
     None \<Rightarrow> w
   | Some subs \<Rightarrow> emit_event app subs (rd_resource rd @ ''.'' @ action) (rd_resource rd) action data w)"

definition emit_declared_events ::
    "'db app \<Rightarrow> resource_definition \<Rightarrow> endpoint_spec \<Rightarrow> string \<Rightarrow> json \<Rightarrow> 'db world \<Rightarrow> 'db world" where
  "emit_declared_events app rd ep action data w = (case (ep_events ep, ap_emitter app) of
     (Some events, Some subs) \<Rightarrow> fold (\<lambda>name. emit_event app subs name (rd_resource rd) action data) events w
   | _ \<Rightarrow> w)"

definition enqueue_job :: "'db app \<Rightarrow> json \<Rightarrow> string \<Rightarrow> 'db world \<Rightarrow> 'db world" where
  "enqueue_job app payload name w =
     w\<lparr>wo_jobs := fst (enqueue_nth (ap_emit_env app (wo_ticks w)) 0 name payload Normal (wo_jobs w)),
       wo_ticks := wo_ticks w + 1\<rparr>"

definition enqueue_declared_jobs ::
    "'db app \<Rightarrow> resource_definition \<Rightarrow> endpoint_spec \<Rightarrow> string \<Rightarrow> json \<Rightarrow> 'db world \<Rightarrow> 'db world" where
  "enqueue_declared_jobs app rd ep action data w = (case ep_jobs ep of
     None \<Rightarrow> w
   | Some jobs \<Rightarrow>
       if \<not> ap_job_queue app then w
       else fold (enqueue_job app (JObj [(''resource'', JStr (rd_resource rd)), (''action'', JStr action),
         (''data'', data)])) jobs w)"

definition announce :: "'db app \<Rightarrow> resource_definition \<Rightarrow> endpoint_spec \<Rightarrow> string \<Rightarrow> json \<Rightarrow> 'db world \<Rightarrow> 'db world" where
  "announce app rd ep action data w =
     enqueue_declared_jobs app rd ep action data (emit_declared_events app rd ep action data
       (auto_emit_event app rd action data w))"

definition run_write_side_effects ::
    "'db app \<Rightarrow> resource_definition \<Rightarrow> endpoint_spec \<Rightarrow> string \<Rightarrow> json \<Rightarrow> 'db world \<Rightarrow> 'db world" where
  "run_write_side_effects app rd ep action data w = announce app rd ep action data (invalidate_cache app rd action w)"

text \<open>The spawned task that deletes the files of a deleted record.\<close>

definition schedule_file_cleanup :: "'db app \<Rightarrow> resource_definition \<Rightarrow> json \<Rightarrow> 'db world \<Rightarrow> 'db world" where
  "schedule_file_cleanup app rd deleted w =
     (let paths = List.map_filter (\<lambda>(name, f). if fs_type f = FtFile then json_get_str deleted name else None) (rd_schema rd)
      in if paths = [] \<or> \<not> is_ok (backend_from_env (ap_storage app)) then w else w\<lparr>wo_cleanup := wo_cleanup w @ paths\<rparr>)"

section \<open>Controllers around a write\<close>

definition fresh_context ::
    "resource_definition \<Rightarrow> jmap \<Rightarrow> authenticated_user option \<Rightarrow> http_request \<Rightarrow> (string \<times> string) list \<Rightarrow> crud_context" where
  "fresh_context rd input user req path_params =
     \<lparr>cx_input = input, cx_data = None, cx_user = user, cx_headers = hr_headers req, cx_response_headers = [],
      cx_tenant_id = resolve_tenant_id rd user, cx_session = [], cx_response_extras = [], cx_path_params = path_params\<rparr>"

definition on_db :: "('db \<Rightarrow> 'db \<times> 'a res) \<Rightarrow> ('db, 'a) action" where
  "on_db f w = (case f (wo_db w) of (db, r) \<Rightarrow> (w\<lparr>wo_db := db\<rparr>, r))"

definition run_before_controller :: "'db app \<Rightarrow> resource_definition \<Rightarrow> endpoint_spec \<Rightarrow> jmap \<Rightarrow>
    authenticated_user option \<Rightarrow> http_request \<Rightarrow> (string \<times> string) list \<Rightarrow> ('db, crud_context) action" where
  "run_before_controller app rd ep input user req path_params =
     on_db (run_controllers (ap_controllers app) (ap_wasm app) (rd_resource rd)
       (case ep_controller ep of Some c \<Rightarrow> before_names c | None \<Rightarrow> []) (fresh_context rd input user req path_params))"

definition run_after_controller :: "'db app \<Rightarrow> resource_definition \<Rightarrow> endpoint_spec \<Rightarrow> crud_context \<Rightarrow> json \<Rightarrow>
    ('db, crud_context) action" where
  "run_after_controller app rd ep ctx persisted =
     on_db (run_controllers (ap_controllers app) (ap_wasm app) (rd_resource rd)
       (case ep_controller ep of Some c \<Rightarrow> after_names c | None \<Rightarrow> []) (ctx\<lparr>cx_data := Some persisted\<rparr>))"

definition context_data :: "crud_context \<Rightarrow> json" where
  "context_data ctx = (case cx_data ctx of Some v \<Rightarrow> v | None \<Rightarrow> JNull)"

definition project_fields :: "http_request \<Rightarrow> crud_context \<Rightarrow> crud_context" where
  "project_fields req ctx = (let ps = parse_item_params (hr_query req) in
     if ip_fields ps \<noteq> [] then ctx\<lparr>cx_data := Some (select_fields (context_data ctx) (ip_fields ps))\<rparr> else ctx)"

text \<open>Header names and values that the HTTP library accepts; the others are dropped.\<close>

definition build_response_with_extras ::
    "(string \<times> string \<Rightarrow> bool) \<Rightarrow> crud_context \<Rightarrow> (json \<Rightarrow> http_response) \<Rightarrow> http_response" where
  "build_response_with_extras header_ok ctx builder =
     (let data = (case context_data ctx of
            JObj m \<Rightarrow> JObj (fold (\<lambda>(k, v). AList.update k v) (cx_response_extras ctx) m)
          | v \<Rightarrow> v);
          resp = builder data
      in resp\<lparr>hs_headers := fold (\<lambda>(k, v). AList.update k v) (filter header_ok (cx_response_headers ctx)) (hs_headers resp)\<rparr>)"

section \<open>Create, update, delete\<close>

definition handle_create :: "(string \<times> string \<Rightarrow> bool) \<Rightarrow> 'db app \<Rightarrow> http_request \<Rightarrow> resource_definition \<Rightarrow>
    endpoint_spec \<Rightarrow> json \<Rightarrow> ('db, http_response) action" where
  "handle_create header_ok app req rd ep body =
     seq (admit app req ep (rd_resource rd @ '':create'')) (\<lambda>user.
     seq (lift_res (extract_input_from_value body rd ep)) (\<lambda>input0.
     (let input = inject_tenant_into_input rd user input0; lib = sl_values (ap_lib app) in
     seq (lift_res (validate_input_shape lib input rd)) (\<lambda>_.
     seq (run_before_controller app rd ep input user req []) (\<lambda>ctx.
     seq (lift_res (validate_required_present lib (cx_input ctx) rd (set (map fst input)))) (\<lambda>_.
     seq (peek (\<lambda>w. validate_item_references lib (ap_columns app (wo_db w)) (cx_input ctx) rd)) (\<lambda>refs.
     seq (lift_res refs) (\<lambda>_.
     (let persisted_input = strip_transient_fields (cx_input ctx) rd in
     seq (lift_res (store_for_or_error app rd)) (\<lambda>store_opt.
     seq (on_db (st_insert (store_or_query app rd store_opt) persisted_input)) (\<lambda>row.
     seq (run_after_controller app rd ep (ctx\<lparr>cx_input := persisted_input\<rparr>) row) (\<lambda>ctx2.
     seq (effect (run_write_side_effects app rd ep ''created'' row)) (\<lambda>_.
       give (build_response_with_extras header_ok (project_fields req ctx2) created))))))))))))))"

text \<open>The fetch and the checks before an update or a delete.\<close>

definition check_existing :: "resource_definition \<Rightarrow> endpoint_spec \<Rightarrow> authenticated_user option \<Rightarrow> 'db store \<Rightarrow> uuid \<Rightarrow>
    'db \<Rightarrow> unit res" where
  "check_existing rd ep user store i db =
     (let needs_owner = needs_owner_check (ep_auth ep) user;
          needs_tenant = (rd_tenant_key rd \<noteq> None \<and> \<not> super_admin user) in
      if needs_owner \<or> needs_tenant then
        and_then (st_find_by_id store i db) (\<lambda>existing.
        and_then (verify_tenant rd user existing) (\<lambda>_.
          if needs_owner then (case user of Some u \<Rightarrow> check_owner u existing | None \<Rightarrow> Inr ()) else Inr ()))
      else Inr ())"

definition handle_update :: "(string \<times> string \<Rightarrow> bool) \<Rightarrow> 'db app \<Rightarrow> http_request \<Rightarrow> resource_definition \<Rightarrow>
    endpoint_spec \<Rightarrow> string \<Rightarrow> json \<Rightarrow> ('db, http_response) action" where
  "handle_update header_ok app req rd ep path body =
     seq (admit app req ep (rd_resource rd @ '':update'')) (\<lambda>user.
     seq (lift_res (parse_id app path)) (\<lambda>i.
     seq (lift_res (extract_input_from_value body rd ep)) (\<lambda>input.
     seq (lift_res (store_for_or_error app rd)) (\<lambda>store_opt.
     (let store = store_or_query app rd store_opt; lib = sl_values (ap_lib app) in
     seq (peek (\<lambda>w. check_existing rd ep user store i (wo_db w))) (\<lambda>allowed.
     seq (lift_res allowed) (\<lambda>_.
     seq (lift_res (validate_input_shape lib input rd)) (\<lambda>_.
     seq (run_before_controller app rd ep input user req [(''id'', path)]) (\<lambda>ctx.
     seq (lift_res (validate_input_shape lib (cx_input ctx) rd)) (\<lambda>_.
     seq (peek (\<lambda>w. validate_item_references lib (ap_columns app (wo_db w)) (cx_input ctx) rd)) (\<lambda>refs.
     seq (lift_res refs) (\<lambda>_.
     (let persisted_input = strip_transient_fields (cx_input ctx) rd in
     seq (on_db (st_update_by_id store i persisted_input)) (\<lambda>row.
     seq (run_after_controller app rd ep (ctx\<lparr>cx_input := persisted_input\<rparr>) row) (\<lambda>ctx2.
     seq (effect (run_write_side_effects app rd ep ''updated'' row)) (\<lambda>_.
       give (build_response_with_extras header_ok (project_fields req ctx2) single)))))))))))))))))"

definition handle_delete :: "'db app \<Rightarrow> http_request \<Rightarrow> resource_definition \<Rightarrow> endpoint_spec \<Rightarrow> string \<Rightarrow>
    ('db, http_response) action" where
  "handle_delete app req rd ep path =
     seq (admit app req ep (rd_resource rd @ '':delete'')) (\<lambda>user.
     seq (lift_res (parse_id app path)) (\<lambda>i.
     seq (lift_res (store_for_or_error app rd)) (\<lambda>store_opt.
     (let store = store_or_query app rd store_opt in
     seq (peek (\<lambda>w. check_existing rd ep user store i (wo_db w))) (\<lambda>allowed.
     seq (lift_res allowed) (\<lambda>_.
     seq (run_before_controller app rd ep [] user req [(''id'', path)]) (\<lambda>_.
     seq (on_db (if ep_soft_delete ep then st_soft_delete_by_id store i else st_hard_delete_by_id store i)) (\<lambda>row.
     seq (effect (if ep_soft_delete ep then (\<lambda>w. w) else schedule_file_cleanup app rd row)) (\<lambda>_.
     seq (effect (run_write_side_effects app rd ep ''deleted'' row)) (\<lambda>_.
       give no_content))))))))))"

section \<open>Bulk operations\<close>

text \<open>The loop over the items, left at the first error; the items before it stay written.\<close>

fun for_each :: "('a \<Rightarrow> ('db, json) action) \<Rightarrow> 'a list \<Rightarrow> ('db, json list) action" where
  "for_each f [] = give []"
| "for_each f (x # xs) = seq (f x) (\<lambda>v. seq (for_each f xs) (\<lambda>vs. give (v # vs)))"

definition bulk_create_item :: "'db app \<Rightarrow> resource_definition \<Rightarrow> endpoint_spec \<Rightarrow> 'db store \<Rightarrow> json \<Rightarrow> ('db, json) action" where
  "bulk_create_item app rd ep store item =
     (let lib = sl_values (ap_lib app) in
     seq (lift_res (extract_input_from_value item rd ep)) (\<lambda>input.
     seq (lift_res (validate_input lib input rd)) (\<lambda>_.
     seq (peek (\<lambda>w. validate_item_references lib (ap_columns app (wo_db w)) input rd)) (\<lambda>refs.
     seq (lift_res refs) (\<lambda>_. on_db (st_insert store (strip_transient_fields input rd)))))))"

definition announce_all :: "'db app \<Rightarrow> resource_definition \<Rightarrow> endpoint_spec \<Rightarrow> string \<Rightarrow> string \<Rightarrow> json list \<Rightarrow>
    'db world \<Rightarrow> 'db world" where
  "announce_all app rd ep cache_action action rows w =
     fold (announce app rd ep action) rows (invalidate_cache app rd cache_action w)"

definition handle_bulk_create :: "'db app \<Rightarrow> http_request \<Rightarrow> resource_definition \<Rightarrow> endpoint_spec \<Rightarrow> json \<Rightarrow>
    ('db, http_response) action" where
  "handle_bulk_create app req rd ep body =
     seq (admit app req ep (rd_resource rd @ '':bulk_create'')) (\<lambda>user.
     seq (lift_res (ok_or (body_error ''Expected an array of items'' ''invalid_body'') (as_array body))) (\<lambda>items.
     seq (lift_res (require (length items \<le> 500) (body_error ''Bulk create accepts at most 500 items'' ''too_many_items''))) (\<lambda>_.
     seq (lift_res (require (items \<noteq> []) (body_error ''Expected at least one item'' ''empty_body''))) (\<lambda>_.
     seq (lift_res (store_for_or_error app rd)) (\<lambda>store_opt.
     seq (for_each (bulk_create_item app rd ep (store_or_query app rd store_opt)) items) (\<lambda>rows.
     seq (effect (announce_all app rd ep ''create'' ''created'' rows)) (\<lambda>_.
       give (bulk rows))))))))"

definition bulk_delete_item :: "'db app \<Rightarrow> endpoint_spec \<Rightarrow> 'db store \<Rightarrow> json \<Rightarrow> ('db, json) action" where
  "bulk_delete_item app ep store id_value =
     seq (lift_res (ok_or (id_error ''Each ID must be a string UUID'' ''invalid_id'') (as_str id_value))) (\<lambda>id_str.
     seq (lift_res (parse_id app id_str)) (\<lambda>i.
       on_db (if ep_soft_delete ep then st_soft_delete_by_id store i else st_hard_delete_by_id store i)))"

definition handle_bulk_delete :: "'db app \<Rightarrow> http_request \<Rightarrow> resource_definition \<Rightarrow> endpoint_spec \<Rightarrow> json \<Rightarrow>
    ('db, http_response) action" where
  "handle_bulk_delete app req rd ep body =
     seq (admit app req ep (rd_resource rd @ '':bulk_delete'')) (\<lambda>user.
     seq (lift_res (ok_or (body_error ''Expected an array of IDs'' ''invalid_body'') (as_array body))) (\<lambda>ids.
     seq (lift_res (store_for_or_error app rd)) (\<lambda>store_opt.
     seq (for_each (bulk_delete_item app ep (store_or_query app rd store_opt)) ids) (\<lambda>rows.
     seq (effect (\<lambda>w. if ep_soft_delete ep then w else fold (schedule_file_cleanup app rd) rows w)) (\<lambda>_.
     seq (effect (announce_all app rd ep ''delete'' ''deleted'' rows)) (\<lambda>_.
       give (bulk rows)))))))"

end
