(* ===== verification/Job_Worker.thy ===== *)
theory Job_Worker
  imports Job_Queue
begin

text \<open>
  The life of background jobs as a transition system over the model of \<open>queue.rs\<close> and
  \<open>worker.rs\<close>: a job is enqueued, a worker polls, a retry timer fires. Redis is up. The world
  remembers the jobs ever enqueued with their retry limits, the executions and the jobs whose
  handler returned.
\<close>

section \<open>The transition system\<close>

record job_world =
  jw_store :: job_store
  jw_known :: "(string \<times> nat) list"
  jw_runs :: "string list"
  jw_done :: "string list"

definition initial_world :: job_world where
  "initial_world = \<lparr>jw_store = empty_job_store, jw_known = [], jw_runs = [], jw_done = []\<rparr>"

text \<open>The outcome of an execution: none when no handler is registered for the job.\<close>

definition execution :: "job_registry \<Rightarrow> job_envelope \<Rightarrow> job_outcome option" where
  "execution reg env = map_option (\<lambda>h. h (je_payload env)) (registry_get reg (je_name env))"

definition poll_world :: "(int \<Rightarrow> string) \<Rightarrow> int \<Rightarrow> job_registry \<Rightarrow> job_world \<Rightarrow> job_world" where
  "poll_world show_time now reg w =
     w\<lparr>jw_store := fst (poll_once no_faults show_time now reg (jw_store w)),
       jw_runs := jw_runs w @ (case next_entry (jw_store w) of
         Some (p, Job env) \<Rightarrow> if execution reg env \<noteq> None then [je_id env] else [] | _ \<Rightarrow> []),
       jw_done := jw_done w @ (case next_entry (jw_store w) of
         Some (p, Job env) \<Rightarrow> if execution reg env = Some Done then [je_id env] else [] | _ \<Rightarrow> [])\<rparr>"

inductive job_step :: "job_world \<Rightarrow> job_world \<Rightarrow> bool" where
  Enqueue: "i \<notin> fst ` set (jw_known w) \<Longrightarrow>
    job_step w (w\<lparr>jw_store := fst (enqueue_with_options no_faults show_time now i name payload p
        max_retries timeout (jw_store w)), jw_known := jw_known w @ [(i, max_retries)]\<rparr>)"
| Poll: "job_step w (poll_world show_time now reg w)"
| Fire: "js_timers (jw_store w) = a @ (due, env) # b \<Longrightarrow> due \<le> now \<Longrightarrow>
    job_step w (w\<lparr>jw_store := fst (requeue_for_retry no_faults show_time now env
        ((jw_store w)\<lparr>js_timers := a @ b\<rparr>))\<rparr>)"

inductive job_reachable :: "job_world \<Rightarrow> bool" where
  Initial: "job_reachable initial_world"
| Step: "job_reachable w \<Longrightarrow> job_step w w' \<Longrightarrow> job_reachable w'"

inductive_cases job_stepE: "job_step w w'"

section \<open>What the operations do to lists and timers\<close>

definition queued :: "job_store \<Rightarrow> queue_entry list" where
  "queued st = concat (map (js_queues st) all_priorities)"

fun entry_jobs :: "queue_entry list \<Rightarrow> job_envelope list" where
  "entry_jobs [] = []"
| "entry_jobs (Job env # es) = env # entry_jobs es"
| "entry_jobs (Garbage s # es) = entry_jobs es"

definition dead_id :: "json \<Rightarrow> string" where
  "dead_id v = (case json_get_str v ''id'' of Some i \<Rightarrow> i | None \<Rightarrow> [])"

text \<open>The ids of waiting, scheduled and dead jobs, with multiplicity.\<close>

definition waiting :: "job_store \<Rightarrow> job_envelope multiset" where
  "waiting st = mset (entry_jobs (queued st))"

definition scheduled :: "job_store \<Rightarrow> job_envelope multiset" where
  "scheduled st = mset (map snd (js_timers st))"

definition dead_ids :: "job_store \<Rightarrow> string multiset" where
  "dead_ids st = mset (map dead_id (js_dead st))"

lemma entry_jobs_append [simp]: "entry_jobs (xs @ ys) = entry_jobs xs @ entry_jobs ys"
  by (induction xs rule: entry_jobs.induct) auto

lemma waiting_rpush [simp]: "waiting (rpush p (Job env) st) = add_mset env (waiting st)"
  by (cases p) (simp_all add: waiting_def queued_def rpush_def all_priorities_def)

lemma waiting_pop_job: "js_queues st p \<noteq> [] \<Longrightarrow> hd (js_queues st p) = Job env \<Longrightarrow>
    waiting st = add_mset env (waiting (pop p st))"
  by (cases "js_queues st p"; cases p) (auto simp: waiting_def queued_def pop_def all_priorities_def)

lemma waiting_pop_garbage: "js_queues st p \<noteq> [] \<Longrightarrow> hd (js_queues st p) = Garbage s \<Longrightarrow>
    waiting (pop p st) = waiting st"
  by (cases "js_queues st p"; cases p) (auto simp: waiting_def queued_def pop_def all_priorities_def)

text \<open>The parts of the store a status update leaves alone.\<close>

definition same_jobs :: "job_store \<Rightarrow> job_store \<Rightarrow> bool" where
  "same_jobs st st' \<longleftrightarrow> waiting st' = waiting st \<and> scheduled st' = scheduled st \<and> dead_ids st' = dead_ids st"

lemma hset_lists [simp]: "waiting (hset now i fvs st) = waiting st"
  "scheduled (hset now i fvs st) = scheduled st" "dead_ids (hset now i fvs st) = dead_ids st"
  by (simp_all add: hset_def Let_def waiting_def queued_def scheduled_def dead_ids_def)

lemma expire_lists [simp]: "waiting (expire now i s st) = waiting st"
  "scheduled (expire now i s st) = scheduled st" "dead_ids (expire now i s st) = dead_ids st"
  by (simp_all add: expire_def waiting_def queued_def scheduled_def dead_ids_def split: option.splits)

lemma rpush_lists [simp]: "scheduled (rpush p e st) = scheduled st" "dead_ids (rpush p e st) = dead_ids st"
  by (simp_all add: rpush_def scheduled_def dead_ids_def)

lemma pop_lists [simp]: "scheduled (pop p st) = scheduled st" "dead_ids (pop p st) = dead_ids st"
  by (simp_all add: pop_def scheduled_def dead_ids_def)

lemma timers_lists [simp]: "waiting (st\<lparr>js_timers := ts\<rparr>) = waiting st"
  "dead_ids (st\<lparr>js_timers := ts\<rparr>) = dead_ids st" "scheduled (st\<lparr>js_timers := ts\<rparr>) = mset (map snd ts)"
  by (simp_all add: waiting_def queued_def dead_ids_def scheduled_def)

lemma dead_lists [simp]: "waiting (st\<lparr>js_dead := ds\<rparr>) = waiting st"
  "scheduled (st\<lparr>js_dead := ds\<rparr>) = scheduled st" "dead_ids (st\<lparr>js_dead := ds\<rparr>) = mset (map dead_id ds)"
  by (simp_all add: waiting_def queued_def scheduled_def dead_ids_def)

lemmas no_fault_calls = connect_def redis_call_def no_faults_def

lemma update_status_up: "update_status no_faults show_time now i s a e st =
    (hset now i ([(''status'', job_status_display s), (''attempt'', show_nat a), (''updated_at'', show_time now)]
      @ (case e of Some msg \<Rightarrow> [(''error'', msg)] | None \<Rightarrow> [])) st, Inr ())"
  by (simp add: update_status_def no_fault_calls)

lemma dead_id_entry [simp]: "dead_id (dead_entry show_time now env e) = je_id env"
  by (simp add: dead_id_def dead_entry_def json_get_str_def)

text \<open>What a failure does to the job: a retry is scheduled while another attempt is allowed,
  otherwise the job is dead.\<close>

lemma handle_failure_up:
  fixes show_time now env e
  defines "r \<equiv> \<lambda>st. fst (handle_failure no_faults show_time now env e st)"
  shows "waiting (r st) = waiting st"
    and "je_attempt env + 1 < je_max_retries env \<Longrightarrow>
      scheduled (r st) = add_mset env (scheduled st) \<and> dead_ids (r st) = dead_ids st"
    and "\<not> je_attempt env + 1 < je_max_retries env \<Longrightarrow>
      scheduled (r st) = scheduled st \<and> dead_ids (r st) = add_mset (je_id env) (dead_ids st)"
  by (simp_all add: r_def handle_failure_def Let_def move_to_dead_letter_def no_fault_calls
      update_status_up [unfolded no_faults_def] dead_ids_def scheduled_def)
    (simp_all add: update_status_def no_fault_calls hset_def Let_def waiting_def queued_def)

definition job_fails :: "job_registry \<Rightarrow> job_envelope \<Rightarrow> bool" where
  "job_fails reg env \<longleftrightarrow> execution reg env \<noteq> Some Done"

lemma process_job_up:
  fixes show_time now reg env
  defines "r \<equiv> \<lambda>st. process_job no_faults show_time now reg env st"
  shows "waiting (r st) = waiting st"
    and "\<not> job_fails reg env \<Longrightarrow> scheduled (r st) = scheduled st \<and> dead_ids (r st) = dead_ids st"
    and "job_fails reg env \<Longrightarrow> je_attempt env + 1 < je_max_retries env \<Longrightarrow>
      scheduled (r st) = add_mset env (scheduled st) \<and> dead_ids (r st) = dead_ids st"
    and "job_fails reg env \<Longrightarrow> \<not> je_attempt env + 1 < je_max_retries env \<Longrightarrow>
      scheduled (r st) = scheduled st \<and> dead_ids (r st) = add_mset (je_id env) (dead_ids st)"
  using handle_failure_up [where show_time = show_time and now = now and env = env]
  by (auto simp: r_def process_job_def Let_def update_status_up job_fails_def execution_def
      split: option.splits job_outcome.splits)

section \<open>The invariant\<close>

definition job_ids :: "job_envelope multiset \<Rightarrow> string multiset" where
  "job_ids M = image_mset je_id M"

definition accounted :: "job_world \<Rightarrow> bool" where
  "accounted w \<longleftrightarrow> distinct (map fst (jw_known w))
     \<and> job_ids (waiting (jw_store w)) + job_ids (scheduled (jw_store w)) + dead_ids (jw_store w)
         + mset (jw_done w) = mset (map fst (jw_known w))"

definition run_limit :: "job_world \<Rightarrow> string \<Rightarrow> nat" where
  "run_limit w i = (case map_of (jw_known w) i of Some m \<Rightarrow> max 1 m | None \<Rightarrow> 0)"

text \<open>A job at hand with \<open>n\<close> executions allowed so far.\<close>

definition budget :: "job_world \<Rightarrow> job_envelope \<Rightarrow> nat \<Rightarrow> bool" where
  "budget w env n \<longleftrightarrow> map_of (jw_known w) (je_id env) = Some (je_max_retries env)
     \<and> n < max 1 (je_max_retries env) \<and> count_list (jw_runs w) (je_id env) \<le> n"

definition job_inv :: "job_world \<Rightarrow> bool" where
  "job_inv w \<longleftrightarrow> accounted w
     \<and> (\<forall>env \<in># waiting (jw_store w). budget w env (je_attempt env))
     \<and> (\<forall>env \<in># scheduled (jw_store w). budget w env (je_attempt env + 1))
     \<and> (\<forall>i. count_list (jw_runs w) i \<le> run_limit w i)"

lemma job_ids_simps [simp]: "job_ids (add_mset env M) = add_mset (je_id env) (job_ids M)"
  "job_ids {#} = {#}" "job_ids (M + N) = job_ids M + job_ids N"
  by (simp_all add: job_ids_def)

lemma job_ids_in: "env \<in># M \<Longrightarrow> je_id env \<in># job_ids M"
  by (simp add: job_ids_def)

lemma distinct_mset_once:
  assumes "distinct xs" and "add_mset x M = mset xs" shows "x \<notin># M"
proof -
  have "count (mset xs) x \<le> 1"
    using assms(1) by (simp add: distinct_count_atmost_1)
  then show ?thesis
    unfolding assms(2) [symmetric] by (simp add: not_in_iff)
qed

lemma initial_inv: "job_inv initial_world"
  by (simp add: job_inv_def accounted_def run_limit_def initial_world_def empty_job_store_def waiting_def
      queued_def all_priorities_def scheduled_def dead_ids_def)

lemma enqueue_up:
  "fst (enqueue_with_options no_faults show_time now i name payload p max_retries timeout st) =
     rpush p (Job \<lparr>je_id = i, je_name = name, je_payload = payload, je_priority = p,
        je_max_retries = max_retries, je_timeout_secs = timeout, je_attempt = 0\<rparr>)
      (expire now i 604800 (hset now i [(''id'', i), (''name'', name), (''status'', job_status_display Pending),
        (''attempt'', ''0''), (''max_retries'', show_nat max_retries), (''created_at'', show_time now),
        (''updated_at'', show_time now)] st))"
  by (simp add: enqueue_with_options_def no_fault_calls Let_def)

lemma enqueue_inv:
  assumes inv: "job_inv w" and fresh: "i \<notin> fst ` set (jw_known w)"
  shows "job_inv (w\<lparr>jw_store := fst (enqueue_with_options no_faults show_time now i name payload p
        max_retries timeout (jw_store w)), jw_known := jw_known w @ [(i, max_retries)]\<rparr>)" (is "job_inv ?w")
proof -
  have new: "map_of (jw_known w) i = None" using fresh by (simp add: map_of_eq_None_iff)
  have known: "map_of (jw_known ?w) j = (case map_of (jw_known w) j of Some m \<Rightarrow> Some m
      | None \<Rightarrow> if j = i then Some max_retries else None)" for j
    by (simp add: map_add_def split: option.splits)
  have b: "budget w env n \<Longrightarrow> budget ?w env n" for env n
    unfolding budget_def known by simp
  have "count_list (jw_runs w) i = 0"
    using inv new by (auto simp: job_inv_def run_limit_def dest: spec [of _ i])
  moreover have "count_list (jw_runs w) j \<le> run_limit ?w j" for j
  proof -
    have "count_list (jw_runs w) j \<le> run_limit w j" using inv by (simp add: job_inv_def)
    then show ?thesis unfolding run_limit_def known by (auto split: option.splits)
  qed
  moreover have "budget ?w \<lparr>je_id = i, je_name = name, je_payload = payload, je_priority = p,
        je_max_retries = max_retries, je_timeout_secs = timeout, je_attempt = 0\<rparr> 0"
    using calculation(1) unfolding budget_def known by (simp add: new)
  ultimately show ?thesis
    using inv fresh b unfolding job_inv_def accounted_def
    by (simp add: enqueue_up)
qed

lemma poll_inv:
  assumes inv: "job_inv w"
  shows "job_inv (poll_world show_time now reg w)"
proof (cases "next_entry (jw_store w)")
  case None
  then show ?thesis
    using inv poll_once_entry [of show_time now reg "jw_store w"] by (simp add: poll_world_def)
next
  case (Some pe)
  obtain p e where pe: "pe = (p, e)" by (cases pe)
  have q: "js_queues (jw_store w) p \<noteq> []" "hd (js_queues (jw_store w) p) = e"
    using next_entry_hd [of "jw_store w" p e] Some pe by auto
  show ?thesis
  proof (cases e)
    case (Garbage msg)
    then show ?thesis
      using inv q Some pe waiting_pop_garbage [of "jw_store w" p msg]
      by (simp add: poll_world_def poll_once_entry job_inv_def accounted_def budget_def run_limit_def)
  next
    case (Job env)
    define st where "st = pop p (jw_store w)"
    define st' where "st' = process_job no_faults show_time now reg env st"
    define ran where "ran = (if execution reg env \<noteq> None then [je_id env] else [])"
    define fin where "fin = (if execution reg env = Some Done then [je_id env] else [])"
    have w': "poll_world show_time now reg w = w\<lparr>jw_store := st', jw_runs := jw_runs w @ ran, jw_done := jw_done w @ fin\<rparr>"
      using Some pe Job by (simp add: poll_world_def poll_once_entry st'_def st_def ran_def fin_def)
    have wait: "waiting (jw_store w) = add_mset env (waiting st)"
      using waiting_pop_job q Job by (simp add: st_def)
    have other: "scheduled st = scheduled (jw_store w)" "dead_ids st = dead_ids (jw_store w)"
      by (simp_all add: st_def)
    have acc: "add_mset (je_id env) (job_ids (waiting st) + job_ids (scheduled st) + dead_ids st + mset (jw_done w))
        = mset (map fst (jw_known w))" and dist: "distinct (map fst (jw_known w))"
      using inv by (simp_all add: job_inv_def accounted_def wait other)
    have once: "je_id env \<notin># job_ids (waiting st) + job_ids (scheduled st) + dead_ids st + mset (jw_done w)"
      by (rule distinct_mset_once [OF dist acc])
    have b: "budget w env (je_attempt env)"
      using inv by (simp add: job_inv_def wait)
    have runs: "count_list (jw_runs w @ ran) (je_id env) \<le> je_attempt env + 1"
      using b by (simp add: budget_def ran_def)
    have keep: "budget (poll_world show_time now reg w) env' n"
      if "budget w env' n" "env' \<in># waiting st + scheduled st" for env' n
    proof -
      have "je_id env' \<noteq> je_id env"
        using once that(2) job_ids_in [of env'] by auto
      then have "je_id env' \<notin> set ran" by (auto simp: ran_def)
      with that(1) show ?thesis unfolding w' by (simp add: budget_def)
    qed
    have lim: "count_list (jw_runs w @ ran) i \<le> run_limit w i" for i
    proof (cases "i = je_id env")
      case True
      have "run_limit w (je_id env) = max 1 (je_max_retries env)"
        using b by (simp add: budget_def run_limit_def)
      then show ?thesis using runs b True by (simp add: budget_def)
    next
      case False
      then have "count_list (jw_runs w @ ran) i = count_list (jw_runs w) i"
        by (simp add: ran_def)
      then show ?thesis using inv by (simp add: job_inv_def)
    qed
    have rest: "\<forall>env \<in># waiting st. budget w env (je_attempt env)"
      "\<forall>env \<in># scheduled st. budget w env (je_attempt env + 1)"
      using inv by (auto simp: job_inv_def wait other)
    note up = process_job_up [where show_time = show_time and now = now and reg = reg and env = env, of st, folded st'_def]
    consider (ok) "\<not> job_fails reg env" | (retry) "job_fails reg env" "je_attempt env + 1 < je_max_retries env"
      | (dead) "job_fails reg env" "\<not> je_attempt env + 1 < je_max_retries env" by blast
    then have "accounted (poll_world show_time now reg w)
        \<and> (\<forall>env \<in># scheduled st'. budget (poll_world show_time now reg w) env (je_attempt env + 1))"
    proof cases
      case ok
      then have "fin = [je_id env]" by (simp add: fin_def job_fails_def)
      then show ?thesis
        using up(2) [OF ok] up(1) acc dist rest keep
        by (simp add: accounted_def w' ac_simps)
    next
      case retry
      then have "fin = []" by (simp add: fin_def job_fails_def)
      moreover have "budget (poll_world show_time now reg w) env (je_attempt env + 1)"
        using b runs retry(2) by (simp add: budget_def w')
      ultimately show ?thesis
        using up(3) [OF retry] up(1) acc dist rest keep
        by (simp add: accounted_def w' ac_simps)
    next
      case dead
      then have "fin = []" by (simp add: fin_def job_fails_def)
      then show ?thesis
        using up(4) [OF dead] up(1) acc dist rest keep
        by (simp add: accounted_def w' ac_simps)
    qed
    moreover have "run_limit (poll_world show_time now reg w) = run_limit w"
      by (simp add: w' run_limit_def fun_eq_iff)
    ultimately show ?thesis
      using lim rest keep up(1) by (simp add: job_inv_def) (simp add: w')
  qed
qed

lemma requeue_up:
  "fst (requeue_for_retry no_faults show_time now env st) =
     hset now (je_id env) [(''status'', job_status_display Pending), (''attempt'', show_nat (je_attempt env + 1)),
        (''updated_at'', show_time now)]
      (rpush (je_priority env) (Job (env\<lparr>je_attempt := je_attempt env + 1\<rparr>)) st)"
  by (simp add: requeue_for_retry_def no_fault_calls Let_def update_status_def)

lemma fire_inv:
  assumes inv: "job_inv w" and t: "js_timers (jw_store w) = a @ (due, env) # b"
  shows "job_inv (w\<lparr>jw_store := fst (requeue_for_retry no_faults show_time now env
        ((jw_store w)\<lparr>js_timers := a @ b\<rparr>))\<rparr>)" (is "job_inv ?w")
proof -
  have s: "scheduled (jw_store w) = add_mset env (mset (map snd (a @ b)))"
    by (simp add: scheduled_def t)
  have bud: "budget ?w env' n \<longleftrightarrow> budget w env' n" for env' n
    by (simp add: budget_def)
  have "budget w (env\<lparr>je_attempt := je_attempt env + 1\<rparr>) (je_attempt env + 1)"
    using inv s by (simp add: job_inv_def budget_def)
  with inv show ?thesis
    unfolding job_inv_def accounted_def bud
    by (simp add: requeue_up s run_limit_def)
qed

section \<open>Properties of the reachable worlds\<close>

lemma job_step_inv: "job_step w w' \<Longrightarrow> job_inv w \<Longrightarrow> job_inv w'"
  by (erule job_stepE) (auto intro: enqueue_inv poll_inv fire_inv)

lemma reachable_inv: "job_reachable w \<Longrightarrow> job_inv w"
  by (induction rule: job_reachable.induct) (auto intro: initial_inv job_step_inv)

text \<open>C30. Executions are bounded: in every history of enqueues, polls and retry timers, a job is
  executed at most as often as its retry limit says, and at least one execution is allowed; a job
  that was never enqueued is never executed.\<close>

theorem executions_bounded:
  assumes "job_reachable w"
  shows "count_list (jw_runs w) i \<le> (case map_of (jw_known w) i of Some m \<Rightarrow> max 1 m | None \<Rightarrow> 0)"
  using reachable_inv [OF assms] by (simp add: job_inv_def run_limit_def)

definition one_job_world :: job_world where
  "one_job_world = initial_world\<lparr>jw_store := fst (enqueue_with_options no_faults show_int 0 ''j1'' ''mail'' JNull
     Normal 3 300 (jw_store initial_world)), jw_known := jw_known initial_world @ [(''j1'', 3)]\<rparr>"

lemma one_job_reachable: "job_reachable one_job_world"
  unfolding one_job_world_def
  by (rule Step [OF Initial], rule Enqueue) (simp add: initial_world_def)

theorem executions_bounded_witness:
  "count_list (jw_runs (poll_world show_int 5 [(''mail'', \<lambda>v. TimedOut)] one_job_world)) ''j1'' \<le> 3"
proof -
  have "job_reachable (poll_world show_int 5 [(''mail'', \<lambda>v. TimedOut)] one_job_world)"
    by (rule Step [OF one_job_reachable Poll])
  from executions_bounded [OF this, of "''j1''"] show ?thesis
    by (simp add: poll_world_def one_job_world_def initial_world_def)
qed



section \<open>A job that keeps failing ends in the dead-letter list\<close>

definition only_job :: "job_store \<Rightarrow> job_envelope \<Rightarrow> bool" where
  "only_job st env \<longleftrightarrow> js_queues st = (\<lambda>p. if p = je_priority env then [Job env] else []) \<and> js_timers st = []"

lemma hset_exact [simp]: "js_queues (hset now i fvs st) = js_queues st" "js_timers (hset now i fvs st) = js_timers st"
  by (simp_all add: hset_def Let_def)

lemma process_failure:
  assumes "execution reg env = Some out" and "out \<noteq> Done" and "je_attempt env + 1 < je_max_retries env"
  shows "js_queues (process_job no_faults show_time now reg env st) = js_queues st
    \<and> js_timers (process_job no_faults show_time now reg env st)
        = js_timers st @ [(now + int (backoff_secs (je_attempt env + 1)), env)]"
  using assms by (cases out) (auto simp: process_job_def Let_def update_status_up execution_def handle_failure_def)

lemma only_job_next: "only_job st env \<Longrightarrow> next_entry st = Some (je_priority env, Job env)"
  by (cases "je_priority env") (simp_all add: only_job_def next_entry_def all_priorities_def)

lemma failing_round:
  assumes "only_job (jw_store w) env" and "execution reg env = Some out" and "out \<noteq> Done"
    and "je_attempt env + 1 < je_max_retries env"
  shows "\<exists>w'. job_step\<^sup>*\<^sup>* w w' \<and> only_job (jw_store w') (env\<lparr>je_attempt := je_attempt env + 1\<rparr>)
    \<and> jw_runs w' = jw_runs w @ [je_id env]"
proof -
  let ?w1 = "poll_world show_int 0 reg w"
  note n = only_job_next [OF assms(1)]
  have q: "js_queues (jw_store ?w1) = (\<lambda>p. [])"
    and t: "js_timers (jw_store ?w1) = [] @ (int (backoff_secs (je_attempt env + 1)), env) # []"
    and r: "jw_runs ?w1 = jw_runs w @ [je_id env]"
    using assms process_failure [OF assms(2-4), of show_int 0 "pop (je_priority env) (jw_store w)"]
    by (auto simp: poll_world_def poll_once_entry n pop_def only_job_def fun_eq_iff)
  let ?w2 = "?w1\<lparr>jw_store := fst (requeue_for_retry no_faults show_int (int (backoff_secs (je_attempt env + 1))) env
      ((jw_store ?w1)\<lparr>js_timers := [] @ []\<rparr>))\<rparr>"
  have "job_step ?w1 ?w2" by (rule Fire [OF t]) simp
  then have "job_step\<^sup>*\<^sup>* w ?w2"
    by (meson Poll rtranclp.rtrancl_into_rtrancl rtranclp.rtrancl_refl)
  moreover have "only_job (jw_store ?w2) (env\<lparr>je_attempt := je_attempt env + 1\<rparr>)"
    by (simp add: only_job_def requeue_up rpush_def q fun_eq_iff)
  ultimately show ?thesis using r by (intro exI [of _ ?w2]) simp
qed

lemma failing_end:
  assumes "only_job (jw_store w) env" and "execution reg env = Some out" and "out \<noteq> Done"
    and "\<not> je_attempt env + 1 < je_max_retries env"
  shows "\<exists>w'. job_step\<^sup>*\<^sup>* w w' \<and> je_id env \<in># dead_ids (jw_store w') \<and> waiting (jw_store w') = {#}
    \<and> scheduled (jw_store w') = {#} \<and> jw_runs w' = jw_runs w @ [je_id env]"
proof -
  let ?w1 = "poll_world show_int 0 reg w"
  note n = only_job_next [OF assms(1)]
  have f: "job_fails reg env" using assms(2,3) by (simp add: job_fails_def)
  have "waiting (pop (je_priority env) (jw_store w)) = {#}"
    using assms(1) by (cases "je_priority env")
      (simp_all add: only_job_def waiting_def queued_def pop_def all_priorities_def)
  moreover have "scheduled (pop (je_priority env) (jw_store w)) = {#}"
    using assms(1) by (simp add: only_job_def scheduled_def pop_def)
  ultimately have "je_id env \<in># dead_ids (jw_store ?w1) \<and> waiting (jw_store ?w1) = {#}
      \<and> scheduled (jw_store ?w1) = {#} \<and> jw_runs ?w1 = jw_runs w @ [je_id env]"
    using process_job_up(1,4) [where show_time = show_int and now = 0 and reg = reg and env = env,
        of "pop (je_priority env) (jw_store w)"] f assms(2,4)
    by (simp add: poll_world_def poll_once_entry n)
  moreover have "job_step\<^sup>*\<^sup>* w ?w1"
    by (meson Poll r_into_rtranclp)
  ultimately show ?thesis by blast
qed



end
