(* ===== verification/Crud_Uploads.thy ===== *)
theory Crud_Uploads
  imports Crud_Handlers
begin

text \<open>
  The multipart variants of create and update in \<open>shaperail-runtime/src/handlers/crud.rs\<close>: reading
  the parts of the body, storing the uploaded file, coercing the text fields to their declared
  types, and the handlers themselves. The multipart decoder of \<open>actix_multipart\<close> gives the parts: a
  part has its name, its chunks (or the error of reading one), file name and media type. The JSON
  parser is a parameter.
\<close>

section \<open>The body\<close>

record form_part =
  pa_name :: "string option"
  pa_chunks :: "(string + string) list"
  pa_filename :: "string option"
  pa_mime :: "string option"

type_synonym multipart = "(string + form_part) list"

definition multipart_field_error :: "string \<Rightarrow> string \<Rightarrow> string \<Rightarrow> shaperail_error" where
  "multipart_field_error field msg code =
     Validation [\<lparr>fe_field = field, fe_message = field @ '' '' @ msg, fe_code = code\<rparr>]"

definition coerce_form_value ::
    "sql_lib \<Rightarrow> (string \<Rightarrow> json option) \<Rightarrow> string \<Rightarrow> string \<Rightarrow> resource_definition \<Rightarrow> json res" where
  "coerce_form_value lib parse_json field_name raw rd = (case map_of (rd_schema rd) field_name of
     None \<Rightarrow> Inr (JStr raw)
   | Some f \<Rightarrow> (case fs_type f of
       FtInteger \<Rightarrow> ok_or (multipart_field_error field_name ''must be a valid integer'' ''invalid_integer'')
         (map_option jint (parse_i64 raw))
     | FtNumber \<Rightarrow> ok_or (multipart_field_error field_name ''must be a valid number'' ''invalid_number'')
         (map_option (\<lambda>x. case x of Finite r \<Rightarrow> JNum (Float r) | _ \<Rightarrow> JNull) (sl_parse_f64 lib raw))
     | FtBoolean \<Rightarrow> ok_or (multipart_field_error field_name ''must be true or false'' ''invalid_boolean'')
         (map_option JBool (parse_bool raw))
     | FtJson \<Rightarrow> ok_or (multipart_field_error field_name ''must be valid JSON'' ''invalid_json'') (parse_json raw)
     | FtArray \<Rightarrow> ok_or (multipart_field_error field_name ''must be valid JSON'' ''invalid_json'') (parse_json raw)
     | _ \<Rightarrow> Inr (JStr raw)))"

definition inject_if_declared :: "resource_definition \<Rightarrow> string \<Rightarrow> json \<Rightarrow> jmap \<Rightarrow> jmap" where
  "inject_if_declared rd k v input = (if has_key (rd_schema rd) k then AList.update k v input else input)"

definition inject_upload_metadata :: "jmap \<Rightarrow> resource_definition \<Rightarrow> string \<Rightarrow> file_metadata \<Rightarrow> jmap" where
  "inject_upload_metadata input rd field_name m =
     inject_if_declared rd (field_name @ ''_size'') (JNum (PosInt (fm_size m)))
       (inject_if_declared rd (field_name @ ''_mime_type'') (JStr (fm_mime_type m))
         (inject_if_declared rd (field_name @ ''_filename'') (JStr (fm_filename m)) input))"

fun read_chunks :: "(string + string) list \<Rightarrow> string res" where
  "read_chunks [] = Inr []"
| "read_chunks (Inl e # cs) = Inl (Internal (''Failed to read multipart field: '' @ e))"
| "read_chunks (Inr bytes # cs) = and_then (read_chunks cs) (\<lambda>rest. Inr (bytes @ rest))"

definition from_storage :: "'db app \<Rightarrow> storage_error + 'a \<Rightarrow> 'a res" where
  "from_storage app r = (case r of Inl e \<Rightarrow> Inl (shaperail_error_of (ap_unicode app) e) | Inr x \<Rightarrow> Inr x)"

definition store_file :: "'db app \<Rightarrow> storage_backend \<Rightarrow> nat \<Rightarrow> upload_spec \<Rightarrow> string \<Rightarrow> string \<Rightarrow> string \<Rightarrow> string \<Rightarrow>
    ('db, file_metadata) action" where
  "store_file app backend limit up storage_prefix filename bytes mime w =
     (case process_upload (ap_unicode app) backend (ap_file_id app (wo_ticks w)) filename bytes mime (Some limit)
         (up_types up) storage_prefix (wo_storage w) of
        (s, r) \<Rightarrow> (w\<lparr>wo_storage := s, wo_ticks := wo_ticks w + 1\<rparr>, from_storage app r))"

text \<open>One part: the uploaded file is checked and stored, a text field is coerced.\<close>

definition read_part :: "(string \<Rightarrow> json option) \<Rightarrow> 'db app \<Rightarrow> storage_backend \<Rightarrow> nat \<Rightarrow> upload_spec \<Rightarrow> resource_definition \<Rightarrow>
    form_part \<Rightarrow> jmap \<times> file_metadata option \<Rightarrow> ('db, jmap \<times> file_metadata option) action" where
  "read_part parse_json app backend limit up rd part acc =
     (case acc of (body, uploaded) \<Rightarrow>
     (let field_name = (case pa_name part of Some n \<Rightarrow> n | None \<Rightarrow> []) in
     seq (lift_res (read_chunks (pa_chunks part))) (\<lambda>bytes.
       if field_name = up_field up then
         seq (lift_res (ok_or (Validation [\<lparr>fe_field = field_name,
             fe_message = ''Uploaded file must include a filename'', fe_code = ''missing_filename''\<rparr>]) (pa_filename part)))
           (\<lambda>filename.
         seq (store_file app backend limit up (rd_resource rd @ ''/'' @ up_field up) filename bytes
             (case pa_mime part of Some m \<Rightarrow> m | None \<Rightarrow> ''application/octet-stream'')) (\<lambda>m.
           give (AList.update field_name (JStr (fm_path m)) body, Some m)))
       else
         seq (lift_res (require (valid_utf8 bytes) (Validation [\<lparr>fe_field = field_name,
             fe_message = ''Multipart text fields must be valid UTF-8'', fe_code = ''invalid_utf8''\<rparr>]))) (\<lambda>_.
         seq (lift_res (coerce_form_value (ap_lib app) parse_json field_name bytes rd)) (\<lambda>v.
           give (AList.update field_name v body, uploaded))))))"

fun read_parts :: "(string \<Rightarrow> json option) \<Rightarrow> 'db app \<Rightarrow> storage_backend \<Rightarrow> nat \<Rightarrow> upload_spec \<Rightarrow> resource_definition \<Rightarrow>
    multipart \<Rightarrow> jmap \<times> file_metadata option \<Rightarrow> ('db, jmap \<times> file_metadata option) action" where
  "read_parts parse_json app backend limit up rd [] acc = give acc"
| "read_parts parse_json app backend limit up rd (Inl e # parts) acc =
     lift_res (Inl (Internal (''Failed to read multipart body: '' @ e)))"
| "read_parts parse_json app backend limit up rd (Inr part # parts) acc =
     seq (read_part parse_json app backend limit up rd part acc) (read_parts parse_json app backend limit up rd parts)"

definition extract_input_from_multipart :: "(string \<Rightarrow> json option) \<Rightarrow> 'db app \<Rightarrow> resource_definition \<Rightarrow> endpoint_spec \<Rightarrow>
    multipart \<Rightarrow> ('db, jmap) action" where
  "extract_input_from_multipart parse_json app rd ep parts =
     seq (lift_res (ok_or (Internal ''multipart handler invoked without upload spec'') (ep_upload ep))) (\<lambda>up.
     seq (lift_res (from_storage app (backend_from_name (ap_storage app) (up_storage up)))) (\<lambda>backend.
     seq (lift_res (from_storage app (parse_max_size (ap_unicode app) (up_max_size up)))) (\<lambda>limit.
     seq (read_parts parse_json app backend (unat limit) up rd parts ([], None)) (\<lambda>(body, uploaded).
     seq (lift_res (extract_input_from_value (JObj body) rd ep)) (\<lambda>input.
       give (case uploaded of Some m \<Rightarrow> inject_upload_metadata input rd (up_field up) m | None \<Rightarrow> input))))))"

section \<open>The handlers\<close>

definition projected :: "http_request \<Rightarrow> json \<Rightarrow> json" where
  "projected req v = (let ps = parse_item_params (hr_query req) in
     if ip_fields ps \<noteq> [] then select_fields v (ip_fields ps) else v)"

definition handle_create_upload :: "(string \<Rightarrow> json option) \<Rightarrow> 'db app \<Rightarrow> http_request \<Rightarrow> resource_definition \<Rightarrow>
    endpoint_spec \<Rightarrow> multipart \<Rightarrow> ('db, http_response) action" where
  "handle_create_upload parse_json app req rd ep parts =
     seq (admit app req ep (rd_resource rd @ '':create_upload'')) (\<lambda>user.
     seq (extract_input_from_multipart parse_json app rd ep parts) (\<lambda>input0.
     (let input = inject_tenant_into_input rd user input0; lib = sl_values (ap_lib app) in
     seq (lift_res (validate_input lib input rd)) (\<lambda>_.
     seq (peek (\<lambda>w. validate_item_references lib (ap_columns app (wo_db w)) input rd)) (\<lambda>refs.
     seq (lift_res refs) (\<lambda>_.
     seq (lift_res (store_for_or_error app rd)) (\<lambda>store_opt.
     seq (on_db (st_insert (store_or_query app rd store_opt) (strip_transient_fields input rd))) (\<lambda>row.
     seq (effect (run_write_side_effects app rd ep ''created'' row)) (\<lambda>_.
       give (created (projected req row)))))))))))"

definition handle_update_upload :: "(string \<Rightarrow> json option) \<Rightarrow> 'db app \<Rightarrow> http_request \<Rightarrow> resource_definition \<Rightarrow>
    endpoint_spec \<Rightarrow> string \<Rightarrow> multipart \<Rightarrow> ('db, http_response) action" where
  "handle_update_upload parse_json app req rd ep path parts =
     seq (admit app req ep (rd_resource rd @ '':update_upload'')) (\<lambda>user.
     seq (lift_res (parse_id app path)) (\<lambda>i.
     seq (extract_input_from_multipart parse_json app rd ep parts) (\<lambda>input.
     seq (lift_res (store_for_or_error app rd)) (\<lambda>store_opt.
     (let store = store_or_query app rd store_opt; lib = sl_values (ap_lib app) in
     seq (peek (\<lambda>w. check_existing rd ep user store i (wo_db w))) (\<lambda>allowed.
     seq (lift_res allowed) (\<lambda>_.
     seq (lift_res (validate_input lib input rd)) (\<lambda>_.
     seq (peek (\<lambda>w. validate_item_references lib (ap_columns app (wo_db w)) input rd)) (\<lambda>refs.
     seq (lift_res refs) (\<lambda>_.
     seq (on_db (st_update_by_id store i (strip_transient_fields input rd))) (\<lambda>row.
     seq (effect (run_write_side_effects app rd ep ''updated'' row)) (\<lambda>_.
       give (single (projected req row))))))))))))))"

section \<open>The file cleanup task\<close>

text \<open>The task that \<open>schedule_file_cleanup\<close> spawns: every path is deleted, failures are logged.\<close>

definition run_cleanup :: "'db app \<Rightarrow> 'db world \<Rightarrow> 'db world" where
  "run_cleanup app w = (case backend_from_env (ap_storage app) of
     Inl e \<Rightarrow> w
   | Inr backend \<Rightarrow> w\<lparr>wo_storage := fold (\<lambda>path s. fst (sb_delete backend path s)) (wo_cleanup w) (wo_storage w),
       wo_cleanup := []\<rparr>)"

end
