(* ===== verification/Sample_App.thy ===== *)
theory Sample_App
  imports Crud_Uploads
begin

text \<open>
  A small application on which the witnesses of the handler properties are evaluated: one store that
  keeps the rows of a resource in a list, a token library that reads a token as the tenant of a
  member, and no optional service (\<open>AppState::new\<close> starts with every one of them absent).
\<close>

type_synonym rows = "(uuid \<times> json) list"

definition row_matches :: "filter_param list \<Rightarrow> json \<Rightarrow> bool" where
  "row_matches fs row \<longleftrightarrow> list_all (\<lambda>f. json_get_str row (fp_field f) = Some (fp_value f)) fs"

definition row_store :: "rows store" where
  "row_store = \<lparr>
     st_find_by_id = (\<lambda>i db. ok_or NotFound (map_of db i)),
     st_find_all = (\<lambda>ep fs search srt page db. Inr (filter (row_matches fs) (map snd db), JObj [])),
     st_insert = (\<lambda>input db. (db @ [(length db, JObj input)], Inr (JObj input))),
     st_update_by_id = (\<lambda>i input db. (AList.update i (JObj input) db, Inr (JObj input))),
     st_soft_delete_by_id = (\<lambda>i db. (AList.delete i db, ok_or NotFound (map_of db i))),
     st_hard_delete_by_id = (\<lambda>i db. (AList.delete i db, ok_or NotFound (map_of db i)))\<rparr>"

definition member_jwt :: jwt_lib where
  "member_jwt = \<lparr>jwt_encode = (\<lambda>secret c. Inl ''unused''),
     jwt_decode = (\<lambda>secret now token. Inr \<lparr>cl_sub = ''u1'', cl_role = ''member'', cl_iat = 0, cl_exp = 0,
       cl_token_type = ''access'', cl_tenant_id = Some token\<rparr>)\<rparr>"

definition no_storage :: storage_env where
  "no_storage = \<lparr>sn_var = (\<lambda>v. None), sn_s3 = (\<lambda>b r. Inl []), sn_gcs = (\<lambda>b. Inl []), sn_azure = (\<lambda>b. Inl []),
     sn_file_faults = (\<lambda>op p. None)\<rparr>"

definition bare_app :: "rows app" where
  "bare_app = \<lparr>ap_lib = toy_sql_lib, ap_jwt_lib = member_jwt, ap_now = 0, ap_resources = [], ap_stores = None,
     ap_query = (\<lambda>rd. row_store), ap_columns = (\<lambda>db t c. Inr []), ap_controllers = None, ap_wasm = None,
     ap_cache = None, ap_cache_up = True, ap_limiter = False, ap_limiter_fault = None, ap_score_text = show_int,
     ap_emitter = None, ap_job_queue = False, ap_emit_env = (\<lambda>n. quiet_emit), ap_event = (\<lambda>n. ([], [])),
     ap_metrics = False, ap_storage = no_storage, ap_unicode = plain_unicode, ap_file_id = show_nat\<rparr>"

text \<open>The same application with a cache: a digest that is constant and the prefix glob.\<close>

definition caching_app :: "rows app" where
  "caching_app = bare_app\<lparr>ap_cache := Some (\<lambda>s. ''digest'', \<lambda>pat key. prefix (butlast pat) key)\<rparr>"

definition start_world :: "rows \<Rightarrow> rows world" where
  "start_world db = \<lparr>wo_db = db, wo_cache = [], wo_limiter = [], wo_jobs = empty_job_store, wo_metrics = [],
     wo_storage = \<lparr>ss_files = [], ss_objects = []\<rparr>, wo_cleanup = [], wo_ticks = 0\<rparr>"

text \<open>A request without credentials, and one of a member of a tenant.\<close>

definition anonymous_request :: http_request where
  "anonymous_request = \<lparr>hr_auth = \<lparr>rq_header = (\<lambda>n. None), rq_jwt = None, rq_api_keys = None\<rparr>, hr_query = [],
     hr_peer = None, hr_headers = []\<rparr>"

definition member_request :: "string \<Rightarrow> http_request" where
  "member_request tenant = anonymous_request\<lparr>hr_auth := \<lparr>
     rq_header = (\<lambda>n. if n = ''Authorization'' then Some (Text (''Bearer '' @ tenant)) else None),
     rq_jwt = Some \<lparr>jc_secret = [], jc_access_ttl = 0, jc_refresh_ttl = 0\<rparr>, rq_api_keys = None\<rparr>\<rparr>"

lemma member_request_user:
  "try_extract_auth member_jwt now (hr_auth (member_request t))
    = Some \<lparr>au_sub = ''u1'', au_role = ''member'', au_tenant_id = Some t\<rparr>"
  by (simp add: try_extract_auth_def extract_auth_def member_request_def authenticate_bearer_def decode_token_def
      member_jwt_def ok_or_def strip_prefix_def)

lemma anonymous_request_user: "try_extract_auth lib now (hr_auth anonymous_request) = None"
  by (simp add: try_extract_auth_def extract_auth_def anonymous_request_def authenticate_api_key_def)

end
