(* ===== verification/Routes.thy ===== *)
theory Routes
  imports Sample_App Resource_Validator
begin

text \<open>
  Route registration, \<open>shaperail-runtime/src/handlers/routes.rs\<close> and \<open>custom.rs\<close>: the table of
  routes of a resource and what a matched route runs. Matching a request against the paths is done
  by \<open>actix-web\<close>; the model starts from the matched route, the captured path and the decoded body.
\<close>

section \<open>The table\<close>

datatype route_target =
    ListRoute | GetRoute | CreateRoute | CreateUploadRoute | UpdateRoute | UpdateUploadRoute | DeleteRoute
  | BulkCreateRoute | BulkDeleteRoute | CustomRoute string

record http_route =
  rt_method :: http_method
  rt_path :: string
  rt_resource :: resource_definition
  rt_endpoint :: endpoint_spec
  rt_target :: route_target

definition upload_or :: "endpoint_spec \<Rightarrow> route_target \<Rightarrow> route_target \<Rightarrow> route_target" where
  "upload_or ep upload plain = (if ep_upload ep \<noteq> None then upload else plain)"

text \<open>The match on the action name; a custom endpoint without a method is skipped.\<close>

definition convention_target :: "string \<Rightarrow> endpoint_spec \<Rightarrow> (http_method \<times> route_target) option" where
  "convention_target action ep =
     (if action = ''list'' then Some (Get, ListRoute)
      else if action = ''get'' then Some (Get, GetRoute)
      else if action = ''create'' then Some (Post, upload_or ep CreateUploadRoute CreateRoute)
      else if action = ''update'' then Some (Patch, upload_or ep UpdateUploadRoute UpdateRoute)
      else if action = ''delete'' then Some (Delete, DeleteRoute)
      else if action = ''bulk_create'' then Some (Post, BulkCreateRoute)
      else if action = ''bulk_delete'' then Some (Delete, BulkDeleteRoute)
      else map_option (\<lambda>m. (m, CustomRoute action)) (ep_method ep))"

definition register_endpoint :: "resource_definition \<Rightarrow> string \<times> endpoint_spec \<Rightarrow> panic + http_route option" where
  "register_endpoint rd = (\<lambda>(action, ep). and_then (path_of ep) (\<lambda>path.
     Inr (map_option (\<lambda>(m, t). \<lparr>rt_method = m,
         rt_path = ''/v'' @ show_nat (rd_version rd) @ to_brace_path path,
         rt_resource = rd, rt_endpoint = ep, rt_target = t\<rparr>) (convention_target action ep))))"

text \<open>The loop over the endpoints; a missing path panics.\<close>

fun register_endpoints :: "resource_definition \<Rightarrow> (string \<times> endpoint_spec) list \<Rightarrow> panic + http_route list" where
  "register_endpoints rd [] = Inr []"
| "register_endpoints rd (e # es) = and_then (register_endpoint rd e) (\<lambda>r.
     and_then (register_endpoints rd es) (\<lambda>rs. Inr ((case r of Some x \<Rightarrow> x # rs | None \<Rightarrow> rs))))"

definition register_resource :: "resource_definition \<Rightarrow> panic + http_route list" where
  "register_resource rd = (case rd_endpoints rd of None \<Rightarrow> Inr [] | Some es \<Rightarrow> register_endpoints rd es)"

fun register_all_resources :: "resource_definition list \<Rightarrow> panic + http_route list" where
  "register_all_resources [] = Inr []"
| "register_all_resources (rd # rds) = and_then (register_resource rd) (\<lambda>rs.
     and_then (register_all_resources rds) (\<lambda>rest. Inr (rs @ rest)))"

section \<open>What a route runs\<close>

datatype payload = JsonPayload json | FormPayload multipart | RawPayload string

text \<open>A custom handler is consumer code: it receives the request, the context that a before
  controller left, the resource, the endpoint, the body, and acts on the world.\<close>

type_synonym 'db custom_handler =
  "http_request \<Rightarrow> crud_context option \<Rightarrow> resource_definition \<Rightarrow> endpoint_spec \<Rightarrow> payload \<Rightarrow> 'db world \<Rightarrow>
     'db world \<times> http_response"

type_synonym 'db custom_handler_map = "(string \<times> 'db custom_handler) list"

definition handler_key :: "string \<Rightarrow> string \<Rightarrow> string" where
  "handler_key resource action = resource @ '':'' @ action"

definition error_http :: "shaperail_error \<Rightarrow> http_response" where
  "error_http e = (case error_response e of (status, body) \<Rightarrow>
     \<lparr>hs_status = status, hs_body = JsonBody body, hs_headers = []\<rparr>)"

definition call_custom :: "'db custom_handler_map option \<Rightarrow> http_request \<Rightarrow> crud_context option \<Rightarrow> resource_definition \<Rightarrow>
    endpoint_spec \<Rightarrow> string \<Rightarrow> payload \<Rightarrow> 'db world \<Rightarrow> 'db world \<times> http_response" where
  "call_custom customs req ctx rd ep action body w =
     (case Option.bind customs (\<lambda>m. map_of m (handler_key (rd_resource rd) action)) of
        Some f \<Rightarrow> f req ctx rd ep body w
      | None \<Rightarrow> (w, \<lparr>hs_status = 501, hs_body = JsonBody (JObj [(''error'', JStr (''Custom handler ''
          @ squote (case ep_handler ep of Some h \<Rightarrow> h | None \<Rightarrow> ''(none)'') @ '' not registered for ''
          @ rd_resource rd @ '':'' @ action))]), hs_headers = []\<rparr>))"

definition run_custom :: "'db custom_handler_map option \<Rightarrow> 'db app \<Rightarrow> http_request \<Rightarrow> resource_definition \<Rightarrow> endpoint_spec \<Rightarrow>
    string \<Rightarrow> (string \<times> string) list \<Rightarrow> payload \<Rightarrow> 'db world \<Rightarrow> 'db world \<times> http_response" where
  "run_custom customs app req rd ep action path_params body w =
     (let names = (case ep_controller ep of Some c \<Rightarrow> before_names c | None \<Rightarrow> []) in
      if names = [] then call_custom customs req None rd ep action body w
      else (let user = try_extract_auth (ap_jwt_lib app) (ap_now app) (hr_auth req);
                ctx = fresh_context rd [] user req path_params in
        case on_db (run_controllers (ap_controllers app) (ap_wasm app) (rd_resource rd) names ctx) w of
          (w', Inl e) \<Rightarrow> (w', error_http e)
        | (w', Inr ctx') \<Rightarrow> call_custom customs req (Some ctx') rd ep action body w'))"

definition respond :: "'db world \<times> http_response res \<Rightarrow> 'db world \<times> http_response" where
  "respond r = (case r of (w, Inr resp) \<Rightarrow> (w, resp) | (w, Inl e) \<Rightarrow> (w, error_http e))"

text \<open>The environment of the handlers that is the same for every request: header acceptance, JSON
  parser, custom handlers. \<open>None\<close>: the body is not of the kind the route extracts, so the framework
  answers itself. \<open>path_id\<close> is what the only path parameter captured.\<close>

record 'db route_env =
  re_header_ok :: "string \<times> string \<Rightarrow> bool"
  re_parse_json :: "string \<Rightarrow> json option"
  re_customs :: "'db custom_handler_map option"

fun convention_handler :: "'db route_env \<Rightarrow> 'db app \<Rightarrow> http_request \<Rightarrow> resource_definition \<Rightarrow> endpoint_spec \<Rightarrow>
    string \<Rightarrow> route_target \<Rightarrow> payload \<Rightarrow> ('db, http_response) action option" where
  "convention_handler env app req rd ep path_id ListRoute body = Some (handle_list app req rd ep)"
| "convention_handler env app req rd ep path_id GetRoute body = Some (handle_get app req rd ep path_id)"
| "convention_handler env app req rd ep path_id DeleteRoute body = Some (handle_delete app req rd ep path_id)"
| "convention_handler env app req rd ep path_id CreateRoute (JsonPayload v) =
     Some (handle_create (re_header_ok env) app req rd ep v)"
| "convention_handler env app req rd ep path_id UpdateRoute (JsonPayload v) =
     Some (handle_update (re_header_ok env) app req rd ep path_id v)"
| "convention_handler env app req rd ep path_id BulkCreateRoute (JsonPayload v) = Some (handle_bulk_create app req rd ep v)"
| "convention_handler env app req rd ep path_id BulkDeleteRoute (JsonPayload v) = Some (handle_bulk_delete app req rd ep v)"
| "convention_handler env app req rd ep path_id CreateUploadRoute (FormPayload parts) =
     Some (handle_create_upload (re_parse_json env) app req rd ep parts)"
| "convention_handler env app req rd ep path_id UpdateUploadRoute (FormPayload parts) =
     Some (handle_update_upload (re_parse_json env) app req rd ep path_id parts)"
| "convention_handler env app req rd ep path_id t body = None"

definition run_route :: "'db route_env \<Rightarrow> 'db app \<Rightarrow> http_route \<Rightarrow> http_request \<Rightarrow> string \<Rightarrow> (string \<times> string) list \<Rightarrow>
    payload \<Rightarrow> 'db world \<Rightarrow> ('db world \<times> http_response) option" where
  "run_route env app route req path_id path_params body w = (case rt_target route of
     CustomRoute action \<Rightarrow>
       Some (run_custom (re_customs env) app req (rt_resource route) (rt_endpoint route) action path_params body w)
   | t \<Rightarrow> map_option (\<lambda>h. respond (h w))
       (convention_handler env app req (rt_resource route) (rt_endpoint route) path_id t body))"

section \<open>Which routes a resource gets\<close>

lemma register_endpoint_ok:
  "register_endpoint rd (action, ep) = Inr r \<longleftrightarrow> (\<exists>path. ep_path ep = Some path
     \<and> r = map_option (\<lambda>(m, t). \<lparr>rt_method = m, rt_path = ''/v'' @ show_nat (rd_version rd) @ to_brace_path path,
         rt_resource = rd, rt_endpoint = ep, rt_target = t\<rparr>) (convention_target action ep))"
  by (auto simp: register_endpoint_def path_of_def result_simps)


definition route_for :: "resource_definition \<Rightarrow> string \<times> endpoint_spec \<Rightarrow> http_route \<Rightarrow> bool" where
  "route_for rd = (\<lambda>(action, ep) r. rt_resource r = rd \<and> rt_endpoint r = ep
     \<and> convention_target action ep = Some (rt_method r, rt_target r)
     \<and> (\<exists>path. ep_path ep = Some path \<and> rt_path r = ''/v'' @ show_nat (rd_version rd) @ to_brace_path path))"

lemma convention_target_total: "ep_method ep \<noteq> None \<Longrightarrow> convention_target action ep \<noteq> None"
  by (auto simp: convention_target_def)

lemma register_endpoints_all:
  assumes "\<forall>(action, ep) \<in> set es. ep_method ep \<noteq> None \<and> ep_path ep \<noteq> None"
  shows "\<exists>rs. register_endpoints rd es = Inr rs \<and> list_all2 (route_for rd) es rs"
  using assms
proof (induction es)
  case (Cons e es)
  obtain action ep where e: "e = (action, ep)" by fastforce
  with Cons.prems obtain path where path: "ep_path ep = Some path" and "ep_method ep \<noteq> None" by auto
  then obtain m t where t: "convention_target action ep = Some (m, t)"
    using convention_target_total [of ep action] by fastforce
  obtain rs where "register_endpoints rd es = Inr rs" and "list_all2 (route_for rd) es rs"
    using Cons by auto
  with e path t show ?case
    by (simp add: register_endpoint_def path_of_def ok_or_def route_for_def)
qed simp



text \<open>The method an author declares on a standard action is not the one that is registered.\<close>

lemma declared_method_ignored:
  "convention_target ''create'' (default_endpoint\<lparr>ep_method := Some Put\<rparr>) = Some (Post, CreateRoute)"
  by (simp add: convention_target_def upload_or_def default_endpoint_def)

section \<open>Which routes are guarded\<close>

lemma admit_refused:
  assumes "enforce_auth app req ep = Inl e"
  shows "seq (admit app req ep a) f w = (w, Inl e)"
  using assms by (simp add: admit_def seq_def lift_res_def)

lemma convention_handler_admits:
  assumes "convention_handler env app req rd ep path_id t body = Some h"
  shows "\<exists>a f. h = seq (admit app req ep a) f"
  using assms
  by (cases "(env, app, req, rd, ep, path_id, t, body)" rule: convention_handler.cases)
    (auto simp: handle_list_def handle_get_def handle_create_def handle_update_def handle_delete_def
      handle_bulk_create_def handle_bulk_delete_def handle_create_upload_def handle_update_upload_def)

text \<open>C17. Every route of a convention action enforces the endpoint's auth rule before anything else:
  a request that the rule refuses is answered with the status of that refusal (401 without a user,
  403 with one) and leaves the database, the cache, the limiter, the jobs and the files as they were.\<close>

theorem convention_routes_enforce_auth:
  assumes "run_route env app route req path_id path_params body w = Some (w', resp)"
    and "\<forall>action. rt_target route \<noteq> CustomRoute action"
    and "enforce (ep_auth (rt_endpoint route)) user = Inl e"
    and "user = try_extract_auth (ap_jwt_lib app) (ap_now app) (hr_auth req)"
  shows "w' = w \<and> hs_status resp = (if user = None then 401 else 403)"
proof -
  obtain h where h: "convention_handler env app req (rt_resource route) (rt_endpoint route) path_id
      (rt_target route) body = Some h" and r: "(w', resp) = respond (h w)"
    using assms(1,2) by (auto simp: run_route_def split: route_target.splits)
  have "enforce_auth app req (rt_endpoint route) = Inl e"
    using assms(3,4) by (simp add: enforce_auth_def)
  with convention_handler_admits [OF h] have "h w = (w, Inl e)" by (auto simp: admit_refused)
  with r enforce_errors [OF assms(3)] show ?thesis
    by (simp add: respond_def error_http_def error_response_def)
qed

theorem convention_routes_enforce_auth_witness:
  "\<exists>route env w' resp. run_route env bare_app route anonymous_request ''1'' [] (RawPayload []) (start_world [(1, JNull)])
      = Some (w', resp) \<and> rt_target route = DeleteRoute \<and> wo_db w' = [(1, JNull)] \<and> hs_status resp = 401"
proof -
  let ?route = "\<lparr>rt_method = Delete, rt_path = ''/v1/users/{id}'', rt_resource = sample_resource,
      rt_endpoint = default_endpoint\<lparr>ep_auth := Some (Roles [''admin''])\<rparr>, rt_target = DeleteRoute\<rparr>"
  let ?env = "\<lparr>re_header_ok = (\<lambda>h. True), re_parse_json = (\<lambda>s. None), re_customs = None\<rparr>"
  let ?w = "start_world [(1, JNull)]"
  have n: "try_extract_auth (ap_jwt_lib bare_app) (ap_now bare_app) (hr_auth anonymous_request) = None"
    by (rule anonymous_request_user)
  obtain w' resp where r: "run_route ?env bare_app ?route anonymous_request ''1'' [] (RawPayload []) ?w = Some (w', resp)"
    by (simp add: run_route_def) (metis surj_pair)
  have "w' = ?w \<and> hs_status resp = (if (None :: authenticated_user option) = None then 401 else 403)"
    by (rule convention_routes_enforce_auth [OF r _ _ n [symmetric]]) (simp_all add: enforce_def ok_or_def)
  with r show ?thesis by (intro exI [of _ ?route] exI [of _ ?env]) (simp add: start_world_def)
qed

text \<open>A custom endpoint runs the consumer's function without that check (and without the rate limit),
  whatever auth rule it declares.\<close>

lemma custom_routes_unguarded:
  assumes "rt_target route = CustomRoute action" and "ep_controller (rt_endpoint route) = None"
    and "re_customs env = Some m"
    and "map_of m (handler_key (rd_resource (rt_resource route)) action) = Some f"
  shows "run_route env app route req path_id path_params body w
    = Some (f req None (rt_resource route) (rt_endpoint route) body w)"
  using assms by (simp add: run_route_def run_custom_def call_custom_def)

end
