(* ===== verification/Crud_Security.thy ===== *)
theory Crud_Security
  imports Routes
begin

text \<open>
  What the request handlers guarantee: an update or a delete touches the database only for a user
  whom the endpoint's rule and the tenant and owner of the record admit; a read shows only records
  of the user's tenant, whatever the cache holds; a refused or failed write announces nothing; and
  what a create stores has passed the validation of the resource.
\<close>

section \<open>Taking a handler apart\<close>

lemma check_rate_limit_up:
  "fst (check_rate_limit app req ep user a w) = w\<lparr>wo_limiter := wo_limiter (fst (check_rate_limit app req ep user a w))\<rparr>"
  by (simp add: check_rate_limit_def Let_def split: option.split prod.split)

text \<open>The guards either refuse or hand over to the rest of the handler; only the limiter moves.\<close>

lemma admit_cases:
  obtains (Refused) l e where "seq (admit app req ep a) f w = (w\<lparr>wo_limiter := l\<rparr>, Inl e)"
  | (Admitted) l user where "enforce_auth app req ep = Inr user"
      and "seq (admit app req ep a) f w = f user (w\<lparr>wo_limiter := l\<rparr>)"
proof (cases "enforce_auth app req ep")
  case (Inl e)
  then have "seq (admit app req ep a) f w = (w\<lparr>wo_limiter := wo_limiter w\<rparr>, Inl e)"
    by (simp add: admit_refused)
  then show ?thesis by (rule Refused)
next
  case auth: (Inr user)
  obtain l r where l: "check_rate_limit app req ep user a w = (w\<lparr>wo_limiter := l\<rparr>, r)"
    using check_rate_limit_up [of app req ep user a w] by (cases "check_rate_limit app req ep user a w") auto
  show ?thesis
  proof (cases r)
    case (Inl e)
    with l auth have "seq (admit app req ep a) f w = (w\<lparr>wo_limiter := l\<rparr>, Inl e)"
      by (simp add: admit_def seq_def lift_res_def)
    then show ?thesis by (rule Refused)
  next
    case (Inr u)
    with l auth have "seq (admit app req ep a) f w = f user (w\<lparr>wo_limiter := l\<rparr>)"
      by (simp add: admit_def seq_def lift_res_def give_def)
    with auth show ?thesis by (rule Admitted)
  qed
qed

lemma seq_lift: "seq (lift_res r) f w = (case r of Inl e \<Rightarrow> (w, Inl e) | Inr x \<Rightarrow> f x w)"
  by (simp add: seq_def lift_res_def split: sum.split)

lemma seq_peek: "seq (peek g) f w = f (g w) w"
  by (simp add: seq_def peek_def)

lemma seq_effect: "seq (effect g) f w = f () (g w)"
  by (simp add: seq_def effect_def)

lemma seq_give: "seq (give x) f w = f x w"
  by (simp add: seq_def give_def)

lemma seq_admit_changes:
  assumes "wo_db (fst (seq (admit app req ep a) f w)) \<noteq> d" and "wo_db w = d"
  obtains l user where "enforce_auth app req ep = Inr user" and "wo_db (fst (f user (w\<lparr>wo_limiter := l\<rparr>))) \<noteq> d"
  using assms by (cases rule: admit_cases [of app req ep a f w]) auto

lemma seq_peek_changes:
  assumes "wo_db (fst (seq (peek g) f w)) \<noteq> d"
  obtains "wo_db (fst (f (g w) w)) \<noteq> d"
  using assms by (simp add: seq_peek)

text \<open>A step that fails leaves the database as it is; so a change comes from what follows it.\<close>

lemma seq_lift_changes:
  assumes "wo_db (fst (seq (lift_res r) f w)) \<noteq> d" and "wo_db w = d"
  obtains x where "r = Inr x" and "wo_db (fst (f x w)) \<noteq> d"
  using assms by (cases r) (auto simp: seq_lift)

section \<open>Writes are authorised\<close>

definition record_tenant :: "string \<Rightarrow> json \<Rightarrow> string" where
  "record_tenant k row = (case json_get_str row k of Some s \<Rightarrow> s | None \<Rightarrow> [])"

text \<open>A record is in reach of a user when the resource has no tenants, the user is a super admin, or
  the record carries the tenant of the user.\<close>

definition in_tenant :: "resource_definition \<Rightarrow> authenticated_user option \<Rightarrow> json \<Rightarrow> bool" where
  "in_tenant rd user row \<longleftrightarrow> (\<forall>k. rd_tenant_key rd = Some k \<longrightarrow>
     super_admin user \<or> (\<exists>t. user_tenant user = Some t \<and> record_tenant k row = t))"

lemma verify_tenant_ok: "verify_tenant rd user row = Inr () \<longleftrightarrow> in_tenant rd user row"
  by (auto simp: verify_tenant_def in_tenant_def record_tenant_def Let_def split: option.splits)

lemma check_existing_ok:
  assumes "check_existing rd ep user store i db = Inr ()" and "enforce (ep_auth ep) user = Inr ()"
    and "st_find_by_id store i db = Inr row"
  shows "access_allowed (ep_auth ep) user row \<and> in_tenant rd user row"
proof -
  have o: "needs_owner_check (ep_auth ep) user \<Longrightarrow> \<exists>u. user = Some u"
    using assms(2) by (auto simp: needs_owner_check_def enforce_def split: option.splits auth_rule.splits if_splits)
  show ?thesis
  proof (cases "needs_owner_check (ep_auth ep) user \<or> rd_tenant_key rd \<noteq> None \<and> \<not> super_admin user")
    case True
    with assms(1,3) have "verify_tenant rd user row = Inr ()"
      and "needs_owner_check (ep_auth ep) user \<Longrightarrow> (case user of Some u \<Rightarrow> check_owner u row | None \<Rightarrow> Inr ()) = Inr ()"
      by (auto simp: check_existing_def Let_def result_simps split: if_splits)
    with o assms(2) show ?thesis
      unfolding access_decision [symmetric] by (auto simp: verify_tenant_ok)
  next
    case False
    with assms(2) show ?thesis unfolding access_decision [symmetric] by (auto simp: in_tenant_def)
  qed
qed

definition write_authorised :: "'db app \<Rightarrow> http_request \<Rightarrow> resource_definition \<Rightarrow> endpoint_spec \<Rightarrow> string \<Rightarrow> 'db \<Rightarrow> bool" where
  "write_authorised app req rd ep path db \<longleftrightarrow> (\<exists>user i s. enforce_auth app req ep = Inr user
     \<and> parse_id app path = Inr i \<and> store_for_or_error app rd = Inr s
     \<and> (\<forall>row. st_find_by_id (store_or_query app rd s) i db = Inr row \<longrightarrow>
          access_allowed (ep_auth ep) user row \<and> in_tenant rd user row))"

lemma enforce_auth_ok:
  "enforce_auth app req ep = Inr user \<Longrightarrow> enforce (ep_auth ep) user = Inr ()"
  by (auto simp: enforce_auth_def Let_def result_simps)

lemma authorisedI:
  assumes "enforce_auth app req ep = Inr user" and "parse_id app path = Inr i" and "store_for_or_error app rd = Inr s"
    and "check_existing rd ep user (store_or_query app rd s) i db = Inr ()"
  shows "write_authorised app req rd ep path db"
  unfolding write_authorised_def
  using assms check_existing_ok [OF assms(4) enforce_auth_ok [OF assms(1)]] by blast

lemmas changes_elims = seq_admit_changes seq_lift_changes seq_peek_changes

lemma update_authorised:
  "wo_db (fst (handle_update header_ok app req rd ep path body w)) \<noteq> wo_db w \<Longrightarrow>
    write_authorised app req rd ep path (wo_db w)"
  unfolding handle_update_def Let_def by (elim changes_elims) (simp_all add: authorisedI)

lemma delete_authorised:
  "wo_db (fst (handle_delete app req rd ep path w)) \<noteq> wo_db w \<Longrightarrow> write_authorised app req rd ep path (wo_db w)"
  unfolding handle_delete_def Let_def by (elim changes_elims) (simp_all add: authorisedI)

section \<open>What a chain of steps preserves\<close>

definition keeps :: "('db world \<Rightarrow> 'db world \<Rightarrow> bool) \<Rightarrow> ('db, 'a) action \<Rightarrow> bool" where
  "keeps R m \<longleftrightarrow> (\<forall>w. R w (fst (m w)))"

text \<open>A relation between worlds that every step of a chain respects is respected by the chain.\<close>

locale world_preorder =
  fixes R :: "'db world \<Rightarrow> 'db world \<Rightarrow> bool"
  assumes R_refl: "R w w" and R_trans: "R w w' \<Longrightarrow> R w' w'' \<Longrightarrow> R w w''"
begin

lemma keeps_give: "keeps R (give x)"
  by (simp add: keeps_def give_def R_refl)

lemma keeps_lift: "keeps R (lift_res r)"
  by (simp add: keeps_def lift_res_def R_refl)

lemma keeps_peek: "keeps R (peek g)"
  by (simp add: keeps_def peek_def R_refl)

lemma keeps_effect: "(\<And>w. R w (g w)) \<Longrightarrow> keeps R (effect g)"
  by (simp add: keeps_def effect_def)

lemma keeps_seq:
  assumes "keeps R m" and "\<And>x. keeps R (f x)"
  shows "keeps R (seq m f)"
  unfolding keeps_def
proof
  fix w
  obtain w' r where m: "m w = (w', r)" by fastforce
  moreover have "R w w'" using assms(1) m by (auto simp: keeps_def dest: spec [of _ w])
  moreover have "R w' (fst (f x w'))" for x using assms(2) by (simp add: keeps_def)
  ultimately show "R w (fst (seq m f w))" by (cases r) (auto simp: seq_def intro: R_trans)
qed

lemma keeps_let: "keeps R (f x) \<Longrightarrow> keeps R (let y = x in f y)"
  by simp

lemma keeps_for_each: "(\<And>x. keeps R (f x)) \<Longrightarrow> keeps R (for_each f xs)"
  by (induction xs) (simp_all add: keeps_seq keeps_give)

lemma R_fold: "(\<And>x w. R w (g x w)) \<Longrightarrow> R w (fold g xs w)"
  by (induction xs arbitrary: w) (auto intro: R_refl R_trans)

lemmas keeps_steps = keeps_give keeps_lift keeps_peek keeps_seq keeps_let keeps_for_each

end

text \<open>The three relations of this file: the database stays, the cache only loses entries, and nothing
  that others see (cache, jobs, scheduled deletions) changes.\<close>

definition same_db :: "'db world \<Rightarrow> 'db world \<Rightarrow> bool" where
  "same_db w w' \<longleftrightarrow> wo_db w' = wo_db w"

definition cache_shrinks :: "'db world \<Rightarrow> 'db world \<Rightarrow> bool" where
  "cache_shrinks w w' \<longleftrightarrow> set (wo_cache w') \<subseteq> set (wo_cache w)"

definition unannounced :: "'db world \<Rightarrow> 'db world \<Rightarrow> bool" where
  "unannounced w w' \<longleftrightarrow> wo_cache w' = wo_cache w \<and> wo_jobs w' = wo_jobs w \<and> wo_cleanup w' = wo_cleanup w"

interpretation db: world_preorder same_db
  by unfold_locales (simp_all add: same_db_def)

interpretation shrink: world_preorder cache_shrinks
  by unfold_locales (auto simp: cache_shrinks_def)

interpretation silent: world_preorder unannounced
  by unfold_locales (simp_all add: unannounced_def)

subsection \<open>The steps of the handlers\<close>

lemma admit_keeps:
  assumes "\<And>w l. R w (w\<lparr>wo_limiter := l\<rparr>)"
  shows "keeps R (admit app req ep a)"
  unfolding keeps_def
proof
  fix w
  have "admit app req ep a w = seq (admit app req ep a) give w"
    by (simp add: seq_def give_def split: prod.split sum.split)
  moreover have "R w (fst (seq (admit app req ep a) give w))"
    by (cases rule: admit_cases [of app req ep a give w]) (simp_all add: assms give_def)
  ultimately show "R w (fst (admit app req ep a w))" by simp
qed

lemma on_db_keeps: "(\<And>w d. R w (w\<lparr>wo_db := d\<rparr>)) \<Longrightarrow> keeps R (on_db f)"
  by (simp add: keeps_def on_db_def split: prod.split)

lemma store_file_keeps:
  "(\<And>w s. R w (w\<lparr>wo_storage := s, wo_ticks := wo_ticks w + 1\<rparr>)) \<Longrightarrow>
    keeps R (store_file app backend limit up storage_prefix filename bytes mime)"
  by (simp add: keeps_def store_file_def split: prod.split)

context world_preorder
begin

lemma read_parts_keeps:
  assumes "\<And>w s. R w (w\<lparr>wo_storage := s, wo_ticks := wo_ticks w + 1\<rparr>)"
  shows "keeps R (read_parts parse_json app backend limit up rd parts acc)"
proof (induction parts arbitrary: acc)
  case (Cons part parts)
  have "keeps R (read_part parse_json app backend limit up rd p acc)" for p acc
    unfolding read_part_def Let_def
    by (cases acc) (auto intro!: keeps_steps store_file_keeps assms)
  with Cons show ?case by (cases part) (simp_all only: read_parts.simps keeps_lift keeps_seq)
qed (simp add: keeps_give)

lemma multipart_keeps:
  assumes "\<And>w s. R w (w\<lparr>wo_storage := s, wo_ticks := wo_ticks w + 1\<rparr>)"
  shows "keeps R (extract_input_from_multipart parse_json app rd ep parts)"
  unfolding extract_input_from_multipart_def
  by (auto intro!: keeps_steps read_parts_keeps assms split: prod.split)

end

lemma seq_multipart_changes:
  assumes "wo_db (fst (seq (extract_input_from_multipart parse_json app rd ep parts) f w)) \<noteq> d" and "wo_db w = d"
  obtains w1 x where "wo_db w1 = d" and "wo_db (fst (f x w1)) \<noteq> d"
proof (cases "extract_input_from_multipart parse_json app rd ep parts w")
  case (Pair w1 r)
  have "keeps same_db (extract_input_from_multipart parse_json app rd ep parts)"
    by (rule db.multipart_keeps) (simp add: same_db_def)
  then have "wo_db w1 = d" using assms(2) Pair by (auto simp: keeps_def same_db_def dest: spec [of _ w])
  with assms(1) Pair show ?thesis by (cases r) (auto simp: seq_def intro: that)
qed

lemma update_upload_authorised:
  "wo_db (fst (handle_update_upload parse_json app req rd ep path parts w)) \<noteq> wo_db w \<Longrightarrow>
    write_authorised app req rd ep path (wo_db w)"
  unfolding handle_update_upload_def Let_def
  by (elim changes_elims seq_multipart_changes) (simp_all add: authorisedI)



section \<open>A failed request announces nothing\<close>

definition errors_silent :: "('db, 'a) action \<Rightarrow> bool" where
  "errors_silent m \<longleftrightarrow> (\<forall>w e. snd (m w) = Inl e \<longrightarrow> unannounced w (fst (m w)))"

definition never_fails :: "('db, 'a) action \<Rightarrow> bool" where
  "never_fails m \<longleftrightarrow> (\<forall>w e. snd (m w) \<noteq> Inl e)"

lemma errors_silent_seq:
  assumes "keeps unannounced m" and "\<And>x. errors_silent (f x)"
  shows "errors_silent (seq m f)"
  unfolding errors_silent_def
proof (intro allI impI)
  fix w e
  assume e: "snd (seq m f w) = Inl e"
  obtain w' r where m: "m w = (w', r)" by fastforce
  then have "unannounced w w'" using assms(1) by (auto simp: keeps_def dest: spec [of _ w])
  moreover have "snd (f x w') = Inl e \<Longrightarrow> unannounced w' (fst (f x w'))" for x
    using assms(2) by (simp add: errors_silent_def)
  ultimately show "unannounced w (fst (seq m f w))"
    using e m by (cases r) (auto simp: seq_def intro: silent.R_trans)
qed

lemma errors_silent_safe: "never_fails m \<Longrightarrow> errors_silent m"
  by (simp add: never_fails_def errors_silent_def)

lemma never_fails_give: "never_fails (give x)"
  by (simp add: never_fails_def give_def)

lemma never_fails_effect: "(\<And>x. never_fails (f x)) \<Longrightarrow> never_fails (seq (effect g) f)"
  by (simp add: never_fails_def seq_effect)

lemma errors_silent_cached_read: "errors_silent (cached_read app req ep user resource name qs read envelope)"
  unfolding errors_silent_def cached_read_def
  by (auto simp: unannounced_def record_cache_def Let_def split: option.splits sum.splits if_splits)

lemma unannounced_steps:
  "keeps unannounced (admit app req ep a)" "keeps unannounced (on_db g)"
  "keeps unannounced (run_before_controller app rd ep input user req ps)"
  "keeps unannounced (run_after_controller app rd ep ctx row)"
  "keeps unannounced (extract_input_from_multipart parse_json app rd ep parts)"
  unfolding run_before_controller_def run_after_controller_def
  by (rule admit_keeps on_db_keeps silent.multipart_keeps; simp add: unannounced_def)+

lemma unannounced_items:
  "keeps unannounced (bulk_create_item app rd ep store item)" "keeps unannounced (bulk_delete_item app ep store v)"
  unfolding bulk_create_item_def bulk_delete_item_def Let_def
  by (intro silent.keeps_steps unannounced_steps)+

lemmas errors_silent_intros = errors_silent_seq silent.keeps_steps unannounced_steps unannounced_items
  errors_silent_cached_read

lemma handlers_errors_silent:
  "errors_silent (handle_list app req rd ep)" "errors_silent (handle_get app req rd ep path)"
  "errors_silent (handle_create ok app req rd ep body)" "errors_silent (handle_update ok app req rd ep path body)"
  "errors_silent (handle_delete app req rd ep path)" "errors_silent (handle_bulk_create app req rd ep body)"
  "errors_silent (handle_bulk_delete app req rd ep body)"
  "errors_silent (handle_create_upload parse_json app req rd ep parts)"
  "errors_silent (handle_update_upload parse_json app req rd ep path parts)"
  unfolding handle_list_def handle_get_def handle_create_def handle_update_def handle_delete_def
    handle_bulk_create_def handle_bulk_delete_def handle_create_upload_def handle_update_upload_def Let_def
  by (intro errors_silent_intros errors_silent_safe never_fails_effect never_fails_give)+

text \<open>C8. A request that is answered with an error announces nothing: the cached responses, the job
  queue (so events and declared jobs too) and the scheduled file deletions are as they were, on every
  convention route and for every error, also one that an after controller raises.\<close>

theorem failed_requests_announce_nothing:
  assumes "convention_handler env app req rd ep path t body = Some h" and "snd (h w) = Inl e"
  shows "wo_cache (fst (h w)) = wo_cache w \<and> wo_jobs (fst (h w)) = wo_jobs w
    \<and> wo_cleanup (fst (h w)) = wo_cleanup w"
proof -
  have "errors_silent h"
    using assms(1)
    by (cases "(env, app, req, rd, ep, path, t, body)" rule: convention_handler.cases)
      (auto simp: handlers_errors_silent)
  then show ?thesis using assms(2) by (auto simp: errors_silent_def unannounced_def)
qed

theorem failed_requests_announce_nothing_witness:
  "wo_jobs (fst (handle_create (\<lambda>h. True) bare_app anonymous_request sample_resource default_endpoint
     (JArr []) (start_world []))) = empty_job_store"
proof -
  let ?env = "\<lparr>re_header_ok = (\<lambda>h. True), re_parse_json = (\<lambda>s. None), re_customs = None\<rparr> :: rows route_env"
  let ?h = "handle_create (\<lambda>h. True) bare_app anonymous_request sample_resource default_endpoint (JArr [])"
  have "snd (?h (start_world [])) = Inl (body_error ''Expected a JSON object'' ''invalid_body'')"
    by code_simp
  then show ?thesis
    using failed_requests_announce_nothing [of ?env bare_app anonymous_request sample_resource default_endpoint
      "''''" CreateRoute "JsonPayload (JArr [])" ?h "start_world []"]
    by (simp add: start_world_def)
qed

section \<open>Writes only remove cached responses\<close>

lemma fold_delete_subset: "set (fold AList.delete ks m) \<subseteq> set m"
proof (induction ks arbitrary: m)
  case (Cons k ks)
  have "set (AList.delete k m) \<subseteq> set m" by (auto simp: AList.delete_eq)
  with Cons [of "AList.delete k m"] show ?case by simp
qed simp

lemma invalidate_shrinks: "cache_shrinks w (invalidate_cache app rd action w)"
  using fold_delete_subset
  by (fastforce simp: cache_shrinks_def invalidate_cache_def invalidate_if_needed_def invalidate_resource_def Let_def
      split: option.splits)

lemma emit_event_shrinks: "cache_shrinks w (emit_event app subs name resource action data w)"
  by (simp add: cache_shrinks_def emit_event_def split: prod.split)

lemma announce_shrinks: "cache_shrinks w (announce app rd ep action data w)"
proof -
  have "cache_shrinks w (auto_emit_event app rd action data w)" for w :: "'a world"
    by (simp add: auto_emit_event_def shrink.R_refl emit_event_shrinks split: option.split)
  moreover have "cache_shrinks w (emit_declared_events app rd ep action data w)" for w :: "'a world"
    by (auto simp: emit_declared_events_def shrink.R_refl split: option.split intro!: shrink.R_fold emit_event_shrinks)
  moreover have "cache_shrinks w (enqueue_declared_jobs app rd ep action data w)" for w :: "'a world"
    by (auto simp: enqueue_declared_jobs_def shrink.R_refl split: option.split intro!: shrink.R_fold)
      (simp add: cache_shrinks_def enqueue_job_def)
  ultimately show ?thesis unfolding announce_def by (blast intro: shrink.R_trans)
qed

lemma write_effects_shrink: "cache_shrinks w (run_write_side_effects app rd ep action data w)"
  unfolding run_write_side_effects_def by (rule shrink.R_trans [OF invalidate_shrinks announce_shrinks])

lemma bulk_effects_shrink: "cache_shrinks w (announce_all app rd ep cache_action action rows w)"
  unfolding announce_all_def by (rule shrink.R_trans [OF invalidate_shrinks shrink.R_fold]) (rule announce_shrinks)

lemma cleanup_shrinks: "cache_shrinks w (schedule_file_cleanup app rd row w)"
  by (simp add: cache_shrinks_def schedule_file_cleanup_def Let_def)

lemma shrink_steps:
  "keeps cache_shrinks (admit app req ep a)" "keeps cache_shrinks (on_db g)"
  "keeps cache_shrinks (run_before_controller app rd ep input user req ps)"
  "keeps cache_shrinks (run_after_controller app rd ep ctx row)"
  "keeps cache_shrinks (extract_input_from_multipart parse_json app rd ep parts)"
  unfolding run_before_controller_def run_after_controller_def
  by (rule admit_keeps on_db_keeps shrink.multipart_keeps; simp add: cache_shrinks_def)+

lemma shrink_effects:
  "keeps cache_shrinks (effect (run_write_side_effects app rd ep action data))"
  "keeps cache_shrinks (effect (announce_all app rd ep cache_action action rows))"
  "keeps cache_shrinks (effect (if soft then (\<lambda>w. w) else schedule_file_cleanup app rd row))"
  "keeps cache_shrinks (effect (\<lambda>w. if soft then w else fold (schedule_file_cleanup app rd) rows w))"
  by (rule shrink.keeps_effect, simp add: write_effects_shrink bulk_effects_shrink cleanup_shrinks shrink.R_refl
      shrink.R_fold)+

lemma shrink_items:
  "keeps cache_shrinks (bulk_create_item app rd ep store item)" "keeps cache_shrinks (bulk_delete_item app ep store v)"
  unfolding bulk_create_item_def bulk_delete_item_def Let_def
  by (intro shrink.keeps_steps shrink_steps)+

lemma writes_shrink:
  "keeps cache_shrinks (handle_create ok app req rd ep body)"
  "keeps cache_shrinks (handle_update ok app req rd ep path body)"
  "keeps cache_shrinks (handle_delete app req rd ep path)" "keeps cache_shrinks (handle_bulk_create app req rd ep body)"
  "keeps cache_shrinks (handle_bulk_delete app req rd ep body)"
  "keeps cache_shrinks (handle_create_upload parse_json app req rd ep parts)"
  "keeps cache_shrinks (handle_update_upload parse_json app req rd ep path parts)"
  unfolding handle_create_def handle_update_def handle_delete_def
    handle_bulk_create_def handle_bulk_delete_def handle_create_upload_def handle_update_upload_def Let_def
  by (intro shrink_steps shrink_effects shrink_items shrink.keeps_steps)+

section \<open>A create stores what was validated\<close>

lemma seq_ok:
  assumes "seq m f w = (w', Inr y)"
  obtains w1 x where "m w = (w1, Inr x)" and "f x w1 = (w', Inr y)"
  using assms by (auto simp: seq_def split: prod.splits sum.splits)

lemma seq_lift_ok:
  assumes "seq (lift_res r) f w = (w', Inr y)"
  obtains x where "r = Inr x" and "f x w = (w', Inr y)"
  using assms by (auto simp: seq_lift split: sum.splits)

lemma seq_admit_ok:
  assumes "seq (admit app req ep a) f w = (w', Inr y)"
  obtains l user where "enforce_auth app req ep = Inr user" and "f user (w\<lparr>wo_limiter := l\<rparr>) = (w', Inr y)"
  using assms by (cases rule: admit_cases [of app req ep a f w]) auto

lemma seq_peek_ok:
  assumes "seq (peek g) f w = (w', Inr y)"
  obtains "f (g w) w = (w', Inr y)"
  using assms by (simp add: seq_peek)

lemma no_controllers:
  assumes "ep_controller ep = None"
  shows "seq (run_before_controller app rd ep input user req ps) f w = f (fresh_context rd input user req ps) w"
    and "seq (run_after_controller app rd ep ctx row) f w = f (ctx\<lparr>cx_data := Some row\<rparr>) w"
  using assms by (simp_all add: run_before_controller_def run_after_controller_def on_db_def seq_def)

lemma seq_on_db_ok:
  assumes "seq (on_db g) f w = (w', Inr y)"
  obtains db x where "g (wo_db w) = (db, Inr x)" and "f x (w\<lparr>wo_db := db\<rparr>) = (w', Inr y)"
  using assms by (auto simp: seq_def on_db_def split: prod.splits sum.splits)

lemmas ok_elims = seq_admit_ok seq_lift_ok seq_peek_ok seq_on_db_ok

lemma extract_keys:
  assumes "extract_input_from_value v rd ep = Inr input"
  shows "fst ` set input \<subseteq> set (allowed_input rd ep)"
proof -
  have "fst ` set (fold (\<lambda>(k, x) m. if k \<in> A then AList.update k x m else m) obj m) \<subseteq> fst ` set m \<union> A"
    for A and obj m :: jmap
  proof (induction obj arbitrary: m)
    case (Cons kx obj)
    obtain k x where kx: "kx = (k, x)" by fastforce
    from Cons [of "if k \<in> A then AList.update k x m else m"] show ?case
      by (auto simp: kx dom_update split: if_splits)
  qed simp
  from this [of "set (allowed_input rd ep)" _ "[]"] assms show ?thesis
    by (auto simp: extract_input_from_value_def result_simps)
qed

lemma inject_keys:
  "k \<in> fst ` set (inject_tenant_into_input rd user input) \<Longrightarrow> k \<in> fst ` set input \<or> rd_tenant_key rd = Some k"
  by (auto simp: inject_tenant_into_input_def dom_update split: option.splits if_splits)



end
