(* ===== verification/Crud_Isolation.thy ===== *)
theory Crud_Isolation
  imports Crud_Security
begin

text \<open>
  Tenant isolation of lists through the response cache: in every history of requests to the
  convention routes, a list of a tenant resource that is answered to a user shows rows of that
  user's tenant only, also when the answer comes from the cache that other users fill.
\<close>

section \<open>One list\<close>

text \<open>A list of rows that show no other tenant. What is used of a store: when the last filter of a list
  asks for a tenant, no row of the answer shows another one (the SQL builder puts every filter into the
  WHERE clause). The tenant ids are in the text form the database prints.\<close>

definition shows_only :: "string \<Rightarrow> string \<Rightarrow> json list \<Rightarrow> bool" where
  "shows_only k t rows \<longleftrightarrow> (\<forall>row \<in> set rows. \<forall>s. json_get_str row k = Some s \<longrightarrow> s = t)"

definition tenant_filtering :: "'db app \<Rightarrow> resource_definition \<Rightarrow> string \<Rightarrow> string set \<Rightarrow> bool" where
  "tenant_filtering app rd k tenants \<longleftrightarrow> (\<forall>s ep fs search srt page db rows meta t.
     store_for_or_error app rd = Inr s
     \<and> st_find_all (store_or_query app rd s) ep (add_filter fs k t) search srt page db = Inr (rows, meta) \<and> t \<in> tenants
     \<longrightarrow> shows_only k t rows)"

text \<open>An answer of \<open>execute_list\<close> in which no row shows another tenant.\<close>

definition only_tenant :: "string \<Rightarrow> string \<Rightarrow> json \<Rightarrow> bool" where
  "only_tenant k t v \<longleftrightarrow> (\<exists>rows meta. v = JObj [(''data'', JArr rows), (''meta'', meta)]
     \<and> (\<forall>row \<in> set rows. \<forall>s. json_get_str row k = Some s \<longrightarrow> s = t))"

lemma select_fields_shows: "json_get_str (select_fields row fs) k = Some s \<Longrightarrow> json_get_str row k = Some s"
proof -
  have "map_of (filter (\<lambda>(n, x). n \<in> set fs) m) k = (if k \<in> set fs then map_of m k else None)" for m :: jmap
    by (induction m) auto
  then show "json_get_str (select_fields row fs) k = Some s \<Longrightarrow> json_get_str row k = Some s"
    by (auto simp: select_fields_def json_get_str_def bind_eq_Some_conv split: if_splits json.splits)
qed

lemma set_member_other: "k \<noteq> n \<Longrightarrow> json_get_str (set_member n x item) k = json_get_str item k"
  by (simp add: set_member_def json_get_str_def json_get_def update_conv' split: json.split)

lemma map_res_shows:
  assumes "map_res f items = Inr items'" and "\<And>item item'. f item = Inr item' \<Longrightarrow> json_get_str item' k = json_get_str item k"
    and "shows_only k t items"
  shows "shows_only k t items'"
  using assms
proof (induction items arbitrary: items')
  case (Cons item items)
  then show ?case by (fastforce simp: shows_only_def result_simps)
qed (simp add: shows_only_def)

lemma include_relation_shows:
  assumes "include_relation app rd db name items = Inr items'" and "Option.bind (rd_relations rd) (\<lambda>rels. map_of rels k) = None"
    and "shows_only k t items"
  shows "shows_only k t items'"
proof (cases "name = k")
  case True
  then show ?thesis using assms by (simp add: include_relation_def)
next
  case False
  have "include_belongs_to app store name rel db item = Inr item' \<Longrightarrow> json_get_str item' k = json_get_str item k"
    for store rel item item'
    using False by (auto simp: include_belongs_to_def Let_def set_member_other
        split: option.splits sum.splits shaperail_error.splits)
  moreover have "include_many app rd related name rel db item = Inr item' \<Longrightarrow> json_get_str item' k = json_get_str item k"
    for related rel item item'
    using False by (auto simp: include_many_def Let_def set_member_other result_simps split: option.splits)
  ultimately show ?thesis
    using assms(1,3) by (auto simp: include_relation_def split: option.splits if_splits intro: map_res_shows)
qed

lemma load_relations_shows:
  "load_relations app rd db names items = Inr items' \<Longrightarrow> Option.bind (rd_relations rd) (\<lambda>rels. map_of rels k) = None
    \<Longrightarrow> shows_only k t items \<Longrightarrow> shows_only k t items'"
  by (induction names arbitrary: items) (auto simp: result_simps intro: include_relation_shows)

lemma shows_only_select: "shows_only k t rows \<Longrightarrow> shows_only k t (map (\<lambda>v. select_fields v fs) rows)"
  by (auto simp: shows_only_def dest: select_fields_shows)

lemma execute_list_only_tenant:
  assumes "execute_list app req rd ep user db = Inr v" and "rd_tenant_key rd = Some k" and "\<not> super_admin user"
    and "tenant_filtering app rd k tenants" and "Option.bind (rd_relations rd) (\<lambda>rels. map_of rels k) = None"
    and "\<forall>t. user_tenant user = Some t \<longrightarrow> t \<in> tenants"
  shows "\<exists>t. user_tenant user = Some t \<and> only_tenant k t v"
proof -
  let ?ps = "parse_list_params (hr_query req) ep"
  obtain fs s rows meta items where f: "inject_tenant_filter rd user (lp_filters ?ps) = Inr fs"
    and s: "store_for_or_error app rd = Inr s"
    and rows: "st_find_all (store_or_query app rd s) ep fs (lp_search ?ps) (lp_sort ?ps) (lp_page ?ps) db = Inr (rows, meta)"
    and items: "(if lp_include ?ps \<noteq> [] then load_relations app rd db (lp_include ?ps) rows else Inr rows) = Inr items"
    and v: "v = JObj [(''data'', JArr (if lp_fields ?ps \<noteq> [] then map (\<lambda>v. select_fields v (lp_fields ?ps)) items else items)),
         (''meta'', meta)]"
    using assms(1) by (auto simp: execute_list_def Let_def result_simps)
  from f assms(2,3) obtain t where t: "user_tenant user = Some t" and fs: "fs = add_filter (lp_filters ?ps) k t"
    by (auto simp: inject_tenant_filter_def split: option.splits)
  have "shows_only k t rows"
    using assms(4,6) s rows t unfolding tenant_filtering_def fs by blast
  then have "shows_only k t items"
    using items load_relations_shows [OF _ assms(5)] by (auto split: if_splits)
  then show ?thesis using t v shows_only_select by (auto simp: only_tenant_def shows_only_def [symmetric])
qed

section \<open>The cache in every history\<close>

text \<open>Every cached list of the resource that a member of a tenant can be answered with shows that
  tenant only.\<close>

definition cache_isolated :: "'db app \<Rightarrow> (string \<Rightarrow> string) \<Rightarrow> resource_definition \<Rightarrow> string \<Rightarrow> string set \<Rightarrow>
    redis_texts \<Rightarrow> bool" where
  "cache_isolated app sha256 rd k tenants cache \<longleftrightarrow> (\<forall>text expires ps role t.
     (build_key_with_tenant sha256 (rd_resource rd) ''list'' ps role t, (text, expires)) \<in> set cache
     \<and> t \<in> tenants \<and> role \<noteq> ''super_admin'' \<longrightarrow> (\<exists>v. text = sl_json_text (ap_lib app) v \<and> only_tenant k t v))"

text \<open>The histories: requests to routes of the table, at any time, by users whose tenants are known;
  between them anything may happen to everything but the cache.\<close>

inductive served :: "'db route_env \<Rightarrow> 'db app \<Rightarrow> http_route set \<Rightarrow> string set \<Rightarrow> 'db world \<Rightarrow> bool"
  for env app routes tenants where
  Start: "wo_cache w = [] \<Longrightarrow> served env app routes tenants w"
| Serve: "served env app routes tenants w \<Longrightarrow> route \<in> routes \<Longrightarrow>
    convention_handler env (app\<lparr>ap_now := now\<rparr>) req (rt_resource route) (rt_endpoint route) path (rt_target route) body = Some h \<Longrightarrow>
    \<forall>t. user_tenant (try_extract_auth (ap_jwt_lib app) now (hr_auth req)) = Some t \<longrightarrow> t \<in> tenants \<Longrightarrow>
    served env app routes tenants (fst (h w))"
| Other: "served env app routes tenants w \<Longrightarrow> wo_cache w' = wo_cache w \<Longrightarrow> served env app routes tenants w'"

lemma update_subset: "set (AList.update k v m) \<subseteq> insert (k, v) (set m)"
  by (induction m) auto

lemma cache_isolated_shrink:
  "cache_isolated app sha256 rd k tenants (wo_cache w) \<Longrightarrow> cache_shrinks w w' \<Longrightarrow>
    cache_isolated app sha256 rd k tenants (wo_cache w')"
  unfolding cache_isolated_def cache_shrinks_def by blast

text \<open>What a read leaves in the cache: at most one new entry, under the key of the request and the
  user, holding the text of what the read answered.\<close>

lemma cached_read_cache:
  "set (wo_cache (fst (cached_read app req ep user resource name qs read envelope w))) \<subseteq> set (wo_cache w) \<union>
    {(build_key_with_tenant sha256 resource name qs (user_role_for_cache user) (tenant_id_for_key user),
      (sl_json_text (ap_lib app) v, expires)) | sha256 glob v expires.
        ap_cache app = Some (sha256, glob) \<and> read (wo_db w) = Inr v}"
  unfolding cached_read_def
  using update_subset
  by (auto simp: Let_def record_cache_def cache_set_def split: option.splits sum.splits if_splits)
    (fastforce dest: subsetD [OF update_subset])+

lemma requester: "enforce_auth app req ep = Inr user \<Longrightarrow> user = try_extract_auth (ap_jwt_lib app) (ap_now app) (hr_auth req)"
  by (auto simp: enforce_auth_def Let_def result_simps)

lemma tenant_filtering_now: "tenant_filtering (app\<lparr>ap_now := n\<rparr>) rd k tenants = tenant_filtering app rd k tenants"
  by (simp add: tenant_filtering_def store_for_or_error_def store_for_def store_or_query_def cong: option.case_cong)

text \<open>A list of any resource keeps the cache isolated for the resource with the tenant key.\<close>

lemma list_keeps_isolated:
  assumes inv: "cache_isolated app sha256 rd k tenants (wo_cache w)"
    and names: "colon_free (rd_resource rd)" "colon_free (rd_resource rd')" "rd_resource rd' = rd_resource rd \<Longrightarrow> rd' = rd"
    and tenants: "\<forall>t \<in> tenants. colon_free t"
      "\<forall>t. user_tenant (try_extract_auth (ap_jwt_lib app) (ap_now app) (hr_auth req)) = Some t \<longrightarrow> t \<in> tenants"
    and law: "tenant_filtering app rd k tenants" "Option.bind (rd_relations rd) (\<lambda>rels. map_of rels k) = None"
      "rd_tenant_key rd = Some k" "ap_cache app = Some (sha256, glob)"
  shows "cache_isolated app sha256 rd k tenants (wo_cache (fst (handle_list app req rd' ep w)))"
proof (cases "enforce_auth app req ep")
  case (Inl e)
  then show ?thesis using inv by (simp add: handle_list_def admit_refused)
next
  case auth: (Inr user)
  have user: "\<forall>t. user_tenant user = Some t \<longrightarrow> t \<in> tenants" using tenants(2) requester [OF auth] by simp
  then have free: "colon_free (tenant_id_for_key user)"
    using tenants(1) by (auto simp: tenant_id_for_key_def colon_free_def split: option.splits)
  have new: "\<exists>v'. sl_json_text (ap_lib app) v = sl_json_text (ap_lib app) v' \<and> only_tenant k t v'"
    if read: "execute_list app req rd' ep user db = Inr v" and t: "t \<in> tenants" and role: "role \<noteq> ''super_admin''"
      and key: "build_key_with_tenant sha256 (rd_resource rd) ''list'' ps role t
        = build_key_with_tenant sha256 (rd_resource rd') ''list'' qs (user_role_for_cache user) (tenant_id_for_key user)"
    for db v t role ps qs
  proof -
    have "colon_free ''list''" by (simp add: colon_free_def)
    with key names(1,2) free tenants(1) t
    have eqs: "rd_resource rd = rd_resource rd'" "t = tenant_id_for_key user" "role = user_role_for_cache user"
      by (auto simp: cache_key_separation)
    have sa: "\<not> super_admin user"
      using eqs(3) role by (auto simp: super_admin_def user_role_for_cache_def split: option.splits)
    have "execute_list app req rd ep user db = Inr v" using names(3) eqs(1) read by simp
    from execute_list_only_tenant [OF this law(3) sa law(1,2) user]
    obtain t' where "user_tenant user = Some t'" "only_tenant k t' v" by blast
    with eqs(2) show ?thesis by (auto simp: tenant_id_for_key_def)
  qed
  let ?f = "\<lambda>user. cached_read app req ep user (rd_resource rd') ''list'' (query_map (hr_query req))
      (execute_list app req rd' ep user) (\<lambda>v. \<lparr>hs_status = 200, hs_body = JsonBody v, hs_headers = []\<rparr>)"
  have step: "handle_list app req rd' ep w = seq (admit app req ep (rd_resource rd' @ '':list'')) ?f w"
    by (simp add: handle_list_def)
  show ?thesis
  proof (rule admit_cases [of app req ep "rd_resource rd' @ '':list''" ?f w])
    fix l e
    assume "seq (admit app req ep (rd_resource rd' @ '':list'')) ?f w = (w\<lparr>wo_limiter := l\<rparr>, Inl e)"
    then show ?thesis using inv by (simp add: step)
  next
    fix l user'
    assume "enforce_auth app req ep = Inr user'"
      and "seq (admit app req ep (rd_resource rd' @ '':list'')) ?f w = ?f user' (w\<lparr>wo_limiter := l\<rparr>)"
    then have run: "fst (handle_list app req rd' ep w) = fst (?f user (w\<lparr>wo_limiter := l\<rparr>))"
      using auth by (simp add: step)
    show ?thesis
      unfolding cache_isolated_def
    proof (intro allI impI, elim conjE)
      fix body role t :: string and expires :: int and ps :: "(string \<times> string) list"
      let ?entry = "(build_key_with_tenant sha256 (rd_resource rd) ''list'' ps role t, (body, expires))"
      assume t: "t \<in> tenants" "role \<noteq> ''super_admin''"
        and "?entry \<in> set (wo_cache (fst (handle_list app req rd' ep w)))"
      then consider "?entry \<in> set (wo_cache w)" | v where "body = sl_json_text (ap_lib app) v"
        "execute_list app req rd' ep user (wo_db w) = Inr v"
        "build_key_with_tenant sha256 (rd_resource rd) ''list'' ps role t
          = build_key_with_tenant sha256 (rd_resource rd') ''list'' (query_map (hr_query req))
            (user_role_for_cache user) (tenant_id_for_key user)"
        unfolding run using law(4) by (auto dest!: subsetD [OF cached_read_cache])
      then show "\<exists>v. body = sl_json_text (ap_lib app) v \<and> only_tenant k t v"
        by cases (use inv t new in \<open>auto simp: cache_isolated_def\<close>)
    qed
  qed
qed

text \<open>A single record is cached under another name, and every other handler only removes entries.\<close>

lemma get_keeps_isolated:
  assumes inv: "cache_isolated app sha256 rd k tenants (wo_cache w)"
    and names: "colon_free (rd_resource rd)" "colon_free (rd_resource rd')" and law: "ap_cache app = Some (sha256, glob)"
  shows "cache_isolated app sha256 rd k tenants (wo_cache (fst (handle_get app req rd' ep path w)))"
proof -
  let ?h = "\<lambda>user i. cached_read app req ep user (rd_resource rd') ''get''
      (AList.update ''_id'' (show_uuid (sl_values (ap_lib app)) i) (query_map (hr_query req)))
      (execute_get app req rd' ep i user) single"
  let ?f = "\<lambda>user. seq (lift_res (parse_id app path)) (\<lambda>i. ?h user i)"
  have step: "handle_get app req rd' ep path w = seq (admit app req ep (rd_resource rd' @ '':get'')) ?f w"
    by (simp add: handle_get_def)
  have sep: "build_key_with_tenant sha256 (rd_resource rd) ''list'' ps role t
      \<noteq> build_key_with_tenant sha256 (rd_resource rd') ''get'' qs role' t'" for ps role t qs role' t'
    using names by (simp add: build_key_with_tenant_def colon_cut)
  have read: "cache_isolated app sha256 rd k tenants (wo_cache (fst (?h user i (w\<lparr>wo_limiter := l\<rparr>))))" for user i l
    using inv law sep unfolding cache_isolated_def by (fastforce dest!: subsetD [OF cached_read_cache])
  show ?thesis
  proof (rule admit_cases [of app req ep "rd_resource rd' @ '':get''" ?f w])
    fix l e
    assume "seq (admit app req ep (rd_resource rd' @ '':get'')) ?f w = (w\<lparr>wo_limiter := l\<rparr>, Inl e)"
    then show ?thesis using inv by (simp add: step)
  next
    fix l user
    assume "seq (admit app req ep (rd_resource rd' @ '':get'')) ?f w = ?f user (w\<lparr>wo_limiter := l\<rparr>)"
    then show ?thesis using inv read by (cases "parse_id app path") (simp_all add: step seq_lift)
  qed
qed

section \<open>All histories\<close>

text \<open>What is assumed of the deployment: the resource has a tenant key that no relation is called by, its
  store filters by it, the names of the resources have no colon and name one resource each, and the
  tenant ids have no colon either.\<close>

definition tenant_deployment :: "'db app \<Rightarrow> http_route set \<Rightarrow> resource_definition \<Rightarrow> string \<Rightarrow> string set \<Rightarrow> bool" where
  "tenant_deployment app routes rd k tenants \<longleftrightarrow> rd_tenant_key rd = Some k
     \<and> Option.bind (rd_relations rd) (\<lambda>rels. map_of rels k) = None \<and> tenant_filtering app rd k tenants
     \<and> colon_free (rd_resource rd) \<and> (\<forall>t \<in> tenants. colon_free t)
     \<and> (\<forall>r \<in> routes. colon_free (rd_resource (rt_resource r))
          \<and> (rd_resource (rt_resource r) = rd_resource rd \<longrightarrow> rt_resource r = rd))"

lemma served_isolated:
  assumes "served env app routes tenants w" and "tenant_deployment app routes rd k tenants"
    and "ap_cache app = Some (sha256, glob)"
  shows "cache_isolated app sha256 rd k tenants (wo_cache w)"
  using assms(1)
proof induction
  case (Start w)
  then show ?case by (simp add: cache_isolated_def)
next
  case (Other w w')
  then show ?case by simp
next
  case (Serve w route now req path body h)
  let ?app = "app\<lparr>ap_now := now\<rparr>" and ?rd = "rt_resource route"
  note dep = assms(2) [unfolded tenant_deployment_def]
  have iso: "cache_isolated ?app sha256 rd k tenants c = cache_isolated app sha256 rd k tenants c" for c
    by (simp add: cache_isolated_def)
  have shrinks: "cache_isolated app sha256 rd k tenants (wo_cache (fst (m w)))" if "keeps cache_shrinks m" for m :: "('a, http_response) action"
    using that Serve.IH by (auto simp: keeps_def intro: cache_isolated_shrink)
  have names: "colon_free (rd_resource rd)" "colon_free (rd_resource ?rd)" "rd_resource ?rd = rd_resource rd \<Longrightarrow> ?rd = rd"
    using dep Serve.hyps(2) by auto
  show ?case
    using Serve.hyps(3)
  proof (cases "(env, ?app, req, ?rd, rt_endpoint route, path, rt_target route, body)" rule: convention_handler.cases)
    case (1 env' app' req' rd' ep' path' body')
    with Serve.hyps(3) have h: "h = handle_list ?app req ?rd (rt_endpoint route)" by auto
    show ?thesis
      unfolding h iso [of _, symmetric]
      by (rule list_keeps_isolated [where glob = glob])
        (use Serve.IH Serve.hyps(4) dep names assms(3) in \<open>auto simp: iso tenant_filtering_now\<close>)
  next
    case (2 env' app' req' rd' ep' path' body')
    with Serve.hyps(3) have h: "h = handle_get ?app req ?rd (rt_endpoint route) path" by auto
    show ?thesis
      unfolding h iso [of _, symmetric]
      by (rule get_keeps_isolated [where glob = glob]) (use Serve.IH names assms(3) in \<open>auto simp: iso\<close>)
  qed (use Serve.hyps(3) in \<open>auto intro!: shrinks writes_shrink\<close>)
qed

lemma list_answer:
  assumes "handle_list app req rd ep w = (w', Inr resp)"
    and "cache_isolated app sha256 rd k tenants (wo_cache w)" and "ap_cache app = Some (sha256, glob)"
    and "tenant_filtering app rd k tenants" and "Option.bind (rd_relations rd) (\<lambda>rels. map_of rels k) = None"
    and "rd_tenant_key rd = Some k"
    and "try_extract_auth (ap_jwt_lib app) (ap_now app) (hr_auth req) = Some u" and "au_role u \<noteq> ''super_admin''"
    and "au_tenant_id u = Some t" and "t \<in> tenants"
  shows "\<exists>v. only_tenant k t v \<and> hs_body resp \<in> {JsonBody v, TextBody (sl_json_text (ap_lib app) v)}"
proof -
  let ?qs = "query_map (hr_query req)" and ?read = "execute_list app req rd ep (Some u)"
  obtain w1 where run: "cached_read app req ep (Some u) (rd_resource rd) ''list'' ?qs ?read
      (\<lambda>v. \<lparr>hs_status = 200, hs_body = JsonBody v, hs_headers = []\<rparr>) w1 = (w', Inr resp)" and c: "wo_cache w1 = wo_cache w"
  proof (rule admit_cases [of app req ep "rd_resource rd @ '':list''" "\<lambda>user. cached_read app req ep user (rd_resource rd)
      ''list'' ?qs (execute_list app req rd ep user) (\<lambda>v. \<lparr>hs_status = 200, hs_body = JsonBody v, hs_headers = []\<rparr>)" w])
  qed (use assms(1,7) in \<open>auto simp: handle_list_def dest!: requester intro: that\<close>)
  have read: "?read db = Inr v \<Longrightarrow> only_tenant k t v" for db v
    using execute_list_only_tenant [of app req rd ep "Some u" db v k tenants] assms(4-6,8-10)
    by (auto simp: super_admin_def user_tenant_def)
  have hit: "\<exists>v. body = sl_json_text (ap_lib app) v \<and> only_tenant k t v"
    if "cache_get up now (wo_cache w) (build_key_with_tenant sha256 (rd_resource rd) ''list'' ?qs (au_role u) t) = Some body"
    for up now body
    using that assms(2,8,10) unfolding cache_isolated_def
    by (fastforce simp: cache_get_def split: if_splits option.splits dest: map_of_SomeD)
  show ?thesis
    using run read assms(3,9) c
    by (auto dest!: hit simp: cached_read_def Let_def user_role_for_cache_def tenant_id_for_key_def user_tenant_def cached_response_def
        record_cache_def result_simps split: option.splits if_splits sum.splits)
qed


text \<open>Two tenants list the same cached resource one after the other.\<close>

definition tenant_rows :: rows where
  "tenant_rows = [(1, JObj [(''org'', JStr ''t1''), (''name'', JStr ''a'')]), (2, JObj [(''org'', JStr ''t2'')])]"

definition tenant_resource :: resource_definition where
  "tenant_resource = sample_resource\<lparr>rd_tenant_key := Some ''org''\<rparr>"

definition tenant_list :: http_route where
  "tenant_list = \<lparr>rt_method = Get, rt_path = ''/v1/users'', rt_resource = tenant_resource,
     rt_endpoint = default_endpoint\<lparr>ep_cache := Some \<lparr>cs_ttl = 60, cs_invalidate_on = None\<rparr>\<rparr>, rt_target = ListRoute\<rparr>"

definition sample_env :: "rows route_env" where
  "sample_env = \<lparr>re_header_ok = (\<lambda>h. True), re_parse_json = (\<lambda>s. None), re_customs = None\<rparr>"

definition after_other_tenant :: "rows world" where
  "after_other_tenant = fst (handle_list (caching_app\<lparr>ap_now := 0\<rparr>) (member_request ''t2'') tenant_resource
     (rt_endpoint tenant_list) (start_world tenant_rows))"


section \<open>Where the guarantee stops\<close>

text \<open>A single record is cached by role and tenant, and a hit does not repeat the owner check: a user who
  is refused the record without the cache reads it once its owner has.\<close>

definition owners_app :: "rows app" where
  "owners_app = caching_app\<lparr>ap_jwt_lib := \<lparr>jwt_encode = (\<lambda>secret c. Inl ''unused''),
     jwt_decode = (\<lambda>secret now token. Inr \<lparr>cl_sub = token, cl_role = ''member'', cl_iat = 0, cl_exp = 0,
       cl_token_type = ''access'', cl_tenant_id = None\<rparr>)\<rparr>\<rparr>"

definition owned_get :: "string \<Rightarrow> (rows, http_response) action" where
  "owned_get user = handle_get owners_app (member_request user) sample_resource
     (default_endpoint\<lparr>ep_auth := Some Owner, ep_cache := Some \<lparr>cs_ttl = 60, cs_invalidate_on = None\<rparr>\<rparr>) ''1''"

lemma cached_get_skips_owner_check:
  "snd (owned_get ''bob'' (start_world [(1, JObj [(''created_by'', JStr ''ann'')])])) = Inl Forbidden
   \<and> is_ok (snd (owned_get ''bob'' (fst (owned_get ''ann'' (start_world [(1, JObj [(''created_by'', JStr ''ann'')])])))))"
  by code_simp

text \<open>A tenant that the client names in the body of a create is kept.\<close>

lemma client_tenant_kept:
  "inject_tenant_into_input tenant_resource (Some \<lparr>au_sub = ''u1'', au_role = ''member'', au_tenant_id = Some ''t1''\<rparr>)
     [(''org'', JStr ''t2'')] = [(''org'', JStr ''t2'')]"
  by code_simp

text \<open>A bulk delete removes a record of another tenant.\<close>

lemma bulk_delete_crosses_tenants:
  "wo_db (fst (handle_bulk_delete bare_app (member_request ''t1'') tenant_resource default_endpoint (JArr [JStr ''2''])
     (start_world tenant_rows))) = [(1, JObj [(''org'', JStr ''t1''), (''name'', JStr ''a'')])]"
  by code_simp

end
