(* ===== verification/Ws_Rooms.thy ===== *)
theory Ws_Rooms
  imports Auth Keyed_Store
begin

text \<open>
  WebSocket channels: the definitions and messages of \<open>shaperail-core/src/channel.rs\<close>, the room
  manager of \<open>shaperail-runtime/src/ws/room.rs\<close>, publication and subscription over Redis
  (\<open>pubsub.rs\<close>) and the session task of \<open>session.rs\<close>. Several instances of the server share one
  Redis channel; on each, sessions and the subscriber interleave. The JSON text of serde, the
  decoder of a client message and the faults of Redis are parameters. An operation of the room
  manager is one step: its locks are held one after the other, and only the session's own task
  changes its subscriptions. Times are milliseconds.
\<close>

section \<open>Channels and messages\<close>

record channel_hooks =
  ch_on_connect :: "string list option"
  ch_on_disconnect :: "string list option"
  ch_on_message :: "string list option"

record channel_definition =
  cd_channel :: string
  cd_auth :: "auth_rule option"
  cd_rooms :: bool
  cd_hooks :: "channel_hooks option"

datatype ws_client_message =
    SubscribeTo string
  | UnsubscribeFrom string
  | RoomMessage string json
  | ClientPong

datatype ws_server_message =
    Broadcast string string json
  | Subscribed string
  | Unsubscribed string
  | ErrorMessage string
  | ServerPing

fun server_message_json :: "ws_server_message \<Rightarrow> json" where
  "server_message_json (Broadcast room event data) =
     JObj [(''type'', JStr ''broadcast''), (''room'', JStr room), (''event'', JStr event), (''data'', data)]"
| "server_message_json (Subscribed room) = JObj [(''type'', JStr ''subscribed''), (''room'', JStr room)]"
| "server_message_json (Unsubscribed room) = JObj [(''type'', JStr ''unsubscribed''), (''room'', JStr room)]"
| "server_message_json (ErrorMessage msg) = JObj [(''type'', JStr ''error''), (''message'', JStr msg)]"
| "server_message_json ServerPing = JObj [(''type'', JStr ''ping'')]"

record pubsub_message =
  pm_channel :: string
  pm_room :: string
  pm_event :: string
  pm_data :: json

definition pubsub_json :: "pubsub_message \<Rightarrow> json" where
  "pubsub_json m = JObj [(''channel'', JStr (pm_channel m)), (''room'', JStr (pm_room m)),
     (''event'', JStr (pm_event m)), (''data'', pm_data m)]"

section \<open>The room manager\<close>

text \<open>The three maps; a session's sender is the queue of texts that its task has not read.\<close>

record room_manager =
  rm_rooms :: "(string \<times> string list) list"
  rm_sessions :: "(string \<times> string list) list"
  rm_session_rooms :: "(string \<times> string list) list"

definition new_room_manager :: room_manager where
  "new_room_manager = \<lparr>rm_rooms = [], rm_sessions = [], rm_session_rooms = []\<rparr>"

definition register_session :: "string \<Rightarrow> string list \<Rightarrow> room_manager \<Rightarrow> room_manager" where
  "register_session sid sender m =
     m\<lparr>rm_sessions := AList.update sid sender (rm_sessions m),
       rm_session_rooms := AList.update sid [] (rm_session_rooms m)\<rparr>"

text \<open>A session leaves a room; an empty room is dropped.\<close>

definition leave_room :: "string \<Rightarrow> string \<Rightarrow> (string \<times> string list) list \<Rightarrow> (string \<times> string list) list" where
  "leave_room sid room rooms = (case map_of rooms room of
     None \<Rightarrow> rooms
   | Some members \<Rightarrow> (let rest = removeAll sid members in
       if rest = [] then AList.delete room rooms else AList.update room rest rooms))"

definition remove_session :: "string \<Rightarrow> room_manager \<Rightarrow> room_manager" where
  "remove_session sid m =
     (let joined = (case map_of (rm_session_rooms m) sid of Some rs \<Rightarrow> rs | None \<Rightarrow> []) in
      \<lparr>rm_rooms = fold (leave_room sid) joined (rm_rooms m),
       rm_sessions = AList.delete sid (rm_sessions m),
       rm_session_rooms = AList.delete sid (rm_session_rooms m)\<rparr>)"

definition subscribe :: "string \<Rightarrow> string \<Rightarrow> room_manager \<Rightarrow> room_manager" where
  "subscribe sid room m =
     m\<lparr>rm_rooms := AList.update room
         (List.insert sid (case map_of (rm_rooms m) room of Some ms \<Rightarrow> ms | None \<Rightarrow> [])) (rm_rooms m),
       rm_session_rooms := (case map_of (rm_session_rooms m) sid of
         Some rs \<Rightarrow> AList.update sid (List.insert room rs) (rm_session_rooms m)
       | None \<Rightarrow> rm_session_rooms m)\<rparr>"

definition unsubscribe :: "string \<Rightarrow> string \<Rightarrow> room_manager \<Rightarrow> room_manager" where
  "unsubscribe sid room m =
     m\<lparr>rm_rooms := leave_room sid room (rm_rooms m),
       rm_session_rooms := (case map_of (rm_session_rooms m) sid of
         Some rs \<Rightarrow> AList.update sid (removeAll room rs) (rm_session_rooms m)
       | None \<Rightarrow> rm_session_rooms m)\<rparr>"

definition send_to :: "string \<Rightarrow> string \<Rightarrow> (string \<times> string list) list \<Rightarrow> (string \<times> string list) list" where
  "send_to msg sid sessions = (case map_of sessions sid of
     Some queue \<Rightarrow> AList.update sid (queue @ [msg]) sessions | None \<Rightarrow> sessions)"

definition broadcast_to_room :: "string \<Rightarrow> string \<Rightarrow> room_manager \<Rightarrow> room_manager" where
  "broadcast_to_room room msg m = (case map_of (rm_rooms m) room of
     Some members \<Rightarrow> m\<lparr>rm_sessions := fold (send_to msg) members (rm_sessions m)\<rparr>
   | None \<Rightarrow> m)"

definition session_count :: "room_manager \<Rightarrow> nat" where
  "session_count m = length (rm_sessions m)"

definition room_member_count :: "room_manager \<Rightarrow> string \<Rightarrow> nat" where
  "room_member_count m room = (case map_of (rm_rooms m) room of Some ms \<Rightarrow> length ms | None \<Rightarrow> 0)"

interpretation sessions: removable_store register_session "\<lambda>m. map_of (rm_sessions m)" remove_session
  by unfold_locales (simp_all add: register_session_def remove_session_def Let_def update_conv delete_conv)


section \<open>The room manager keeps a set of subscriptions\<close>

definition members :: "room_manager \<Rightarrow> string \<Rightarrow> string set" where
  "members m room = (case map_of (rm_rooms m) room of Some ms \<Rightarrow> set ms | None \<Rightarrow> {})"

definition joined :: "room_manager \<Rightarrow> string \<Rightarrow> string set" where
  "joined m sid = (case map_of (rm_session_rooms m) sid of Some rs \<Rightarrow> set rs | None \<Rightarrow> {})"

definition subscriptions :: "room_manager \<Rightarrow> (string \<times> string) set" where
  "subscriptions m = {(sid, room). sid \<in> members m room}"

definition room_entry_ok :: "string list option \<Rightarrow> bool" where
  "room_entry_ok e = (case e of Some ms \<Rightarrow> ms \<noteq> [] \<and> distinct ms | None \<Rightarrow> True)"

definition rooms_ok :: "room_manager \<Rightarrow> bool" where
  "rooms_ok m \<longleftrightarrow> (\<forall>room. room_entry_ok (map_of (rm_rooms m) room))
     \<and> (\<forall>sid room. sid \<in> members m room \<longleftrightarrow> room \<in> joined m sid)
     \<and> dom (map_of (rm_session_rooms m)) = dom (map_of (rm_sessions m))"

lemma rooms_okD:
  assumes "rooms_ok m"
  shows "room_entry_ok (map_of (rm_rooms m) room)" and "sid \<in> members m room \<longleftrightarrow> room \<in> joined m sid"
    and "dom (map_of (rm_session_rooms m)) = dom (map_of (rm_sessions m))"
  using assms by (auto simp: rooms_ok_def)

text \<open>The entry of a room that a session has left.\<close>

definition without :: "string \<Rightarrow> string list option \<Rightarrow> string list option" where
  "without sid e = (case e of Some ms \<Rightarrow> if removeAll sid ms = [] then None else Some (removeAll sid ms) | None \<Rightarrow> None)"

lemma without_without [simp]: "without sid (without sid e) = without sid e"
  by (auto simp: without_def split: option.split)

lemma leave_room_lookup:
  "map_of (leave_room sid room rooms) r =
     (if r = room then without sid (map_of rooms room)
      else map_of rooms r)"
  by (auto simp: leave_room_def without_def Let_def update_conv delete_conv split: option.splits)

lemma leave_rooms_lookup:
  "map_of (fold (leave_room sid) rs rooms) r =
     (if r \<in> set rs then without sid (map_of rooms r)
      else map_of rooms r)"
  by (induction rs arbitrary: rooms) (auto simp: leave_room_lookup)

text \<open>What each operation does to memberships, to the rooms of a session and to the entries.\<close>

lemma members_leave:
  "(case without sid e of
    Some ms \<Rightarrow> set ms | None \<Rightarrow> {}) = (case e of Some ms \<Rightarrow> set ms | None \<Rightarrow> {}) - {sid}"
  by (cases e) (auto simp: without_def set_removeAll [symmetric] simp del: set_removeAll)

lemma entry_leave: "room_entry_ok e \<Longrightarrow>
    room_entry_ok (without sid e)"
  by (cases e) (auto simp: without_def room_entry_ok_def distinct_removeAll)

lemma members_ops:
  "members (register_session sid sender m) r = members m r"
  "members (subscribe sid room m) r = (if r = room then insert sid (members m r) else members m r)"
  "members (unsubscribe sid room m) r = (if r = room then members m r - {sid} else members m r)"
  "members (remove_session sid m) r = (if r \<in> joined m sid then members m r - {sid} else members m r)"
  "members (broadcast_to_room room msg m) r = members m r"
      apply (simp add: members_def register_session_def)
     apply (simp add: members_def subscribe_def update_conv split: option.split)
    apply (simp add: members_def unsubscribe_def leave_room_lookup members_leave)
   apply (simp add: members_def remove_session_def Let_def leave_rooms_lookup members_leave joined_def split: option.split)
  apply (simp add: members_def broadcast_to_room_def split: option.split)
  done

lemma joined_ops:
  "joined (register_session sid sender m) s = (if s = sid then {} else joined m s)"
  "joined (subscribe sid room m) s =
     (if s = sid \<and> map_of (rm_session_rooms m) sid \<noteq> None then insert room (joined m s) else joined m s)"
  "joined (unsubscribe sid room m) s = (if s = sid then joined m s - {room} else joined m s)"
  "joined (remove_session sid m) s = (if s = sid then {} else joined m s)"
  "joined (broadcast_to_room room msg m) s = joined m s"
  by (auto simp: joined_def register_session_def subscribe_def unsubscribe_def remove_session_def Let_def
      broadcast_to_room_def update_conv delete_conv split: option.split)

lemma send_to_lookup:
  "map_of (send_to msg sid ss) s = (if s = sid then map_option (\<lambda>q. q @ [msg]) (map_of ss s) else map_of ss s)"
  by (auto simp: send_to_def update_conv split: option.split)

lemma send_all_lookup:
  "distinct ms \<Longrightarrow> map_of (fold (send_to msg) ms ss) s =
     map_option (\<lambda>q. if s \<in> set ms then q @ [msg] else q) (map_of ss s)"
  by (induction ms arbitrary: ss) (auto simp: send_to_lookup option.map_comp comp_def option.map_ident)

text \<open>The queues after a broadcast: one more text for every member, no change for the others.\<close>

lemma broadcast_lookup:
  assumes "rooms_ok m"
  shows "map_of (rm_sessions (broadcast_to_room room msg m)) s =
    map_option (\<lambda>q. if s \<in> members m room then q @ [msg] else q) (map_of (rm_sessions m) s)"
  using rooms_okD(1) [OF assms, of room]
  by (auto simp: broadcast_to_room_def members_def room_entry_ok_def send_all_lookup option.map_ident split: option.split)

lemma broadcast_dom: "rooms_ok m \<Longrightarrow> dom (map_of (rm_sessions (broadcast_to_room room msg m))) = dom (map_of (rm_sessions m))"
  by (simp add: dom_def broadcast_lookup)

section \<open>Every operation keeps the maps consistent\<close>

lemma registered_ops:
  "dom (map_of (rm_session_rooms (subscribe sid room m))) = dom (map_of (rm_session_rooms m))"
  "rm_sessions (subscribe sid room m) = rm_sessions m"
  "dom (map_of (rm_session_rooms (unsubscribe sid room m))) = dom (map_of (rm_session_rooms m))"
  "rm_sessions (unsubscribe sid room m) = rm_sessions m"
  "rm_session_rooms (broadcast_to_room room msg m) = rm_session_rooms m"
  by (auto simp: subscribe_def unsubscribe_def broadcast_to_room_def update_conv split: option.split)

lemma entries_ops:
  assumes "\<forall>r. room_entry_ok (map_of (rm_rooms m) r)"
  shows "room_entry_ok (map_of (rm_rooms (register_session sid sender m)) r)"
    and "room_entry_ok (map_of (rm_rooms (subscribe sid room m)) r)"
    and "room_entry_ok (map_of (rm_rooms (unsubscribe sid room m)) r)"
    and "room_entry_ok (map_of (rm_rooms (remove_session sid m)) r)"
    and "room_entry_ok (map_of (rm_rooms (broadcast_to_room room msg m)) r)"
proof -
  show "room_entry_ok (map_of (rm_rooms (subscribe sid room m)) r)"
    using spec [OF assms, of r]
    by (auto simp: subscribe_def update_conv room_entry_ok_def List.insert_def split: option.splits)
qed (use assms in \<open>auto simp: register_session_def unsubscribe_def remove_session_def Let_def broadcast_to_room_def
    leave_room_lookup leave_rooms_lookup entry_leave split: option.split\<close>)

lemma rooms_ok_new: "rooms_ok new_room_manager"
  by (simp add: rooms_ok_def new_room_manager_def members_def joined_def room_entry_ok_def)

lemma rooms_ok_ops:
  assumes "rooms_ok m"
  shows "map_of (rm_sessions m) sid = None \<Longrightarrow> rooms_ok (register_session sid sender m)"
    and "map_of (rm_sessions m) sid \<noteq> None \<Longrightarrow> rooms_ok (subscribe sid room m)"
    and "rooms_ok (unsubscribe sid room m)"
    and "rooms_ok (remove_session sid m)"
    and "rooms_ok (broadcast_to_room room msg m)"
proof -
  note d = rooms_okD [OF assms]
  have e: "\<forall>r. room_entry_ok (map_of (rm_rooms m) r)" using d(1) by blast
  note entries = entries_ops [OF e]
  show "rooms_ok (register_session sid sender m)" if new: "map_of (rm_sessions m) sid = None"
  proof -
    have "map_of (rm_session_rooms m) sid = None" using new d(3) by (metis domIff)
    then have "joined m sid = {}" by (simp add: joined_def)
    then have "s \<in> members m r \<longleftrightarrow> r \<in> joined (register_session sid sender m) s" for s r
      using d(2) [of s r] by (auto simp: joined_ops)
    then show ?thesis using entries(1) d(3)
      unfolding rooms_ok_def by (simp add: members_ops) (simp add: register_session_def update_conv)
  qed
  show "rooms_ok (subscribe sid room m)" if "map_of (rm_sessions m) sid \<noteq> None"
  proof -
    have "map_of (rm_session_rooms m) sid \<noteq> None" using that d(3) by blast
    then show ?thesis
      using d entries(2) [of sid room] unfolding rooms_ok_def by (simp add: members_ops joined_ops registered_ops)
  qed
  show "rooms_ok (unsubscribe sid room m)"
    using d entries(3) [of sid room] unfolding rooms_ok_def by (auto simp: members_ops joined_ops registered_ops)
  show "rooms_ok (remove_session sid m)"
    using d entries(4) [of sid] unfolding rooms_ok_def
    by (auto simp: members_ops joined_ops) (auto simp: remove_session_def Let_def delete_conv)
  show "rooms_ok (broadcast_to_room room msg m)"
    using d entries(5) [of room msg] broadcast_dom [OF assms, of room msg] unfolding rooms_ok_def
    by (simp add: members_ops joined_ops registered_ops)
qed

text \<open>The manager implements a set of pairs of a session and a room.\<close>

lemma subscriptions_ops:
  assumes "rooms_ok m"
  shows "subscriptions (register_session sid sender m) = subscriptions m"
    and "subscriptions (subscribe sid room m) = insert (sid, room) (subscriptions m)"
    and "subscriptions (unsubscribe sid room m) = subscriptions m - {(sid, room)}"
    and "subscriptions (remove_session sid m) = subscriptions m - {sid} \<times> UNIV"
    and "subscriptions (broadcast_to_room room msg m) = subscriptions m"
  using rooms_okD(2) [OF assms] by (auto simp: subscriptions_def members_ops)

section \<open>Authentication before the upgrade\<close>

definition ws_error :: "string \<Rightarrow> nat \<Rightarrow> string \<Rightarrow> nat \<times> json" where
  "ws_error code status msg = (status, JObj [(''error'', JObj [(''code'', JStr code),
     (''status'', JNum (PosInt status)), (''message'', JStr msg)])])"

definition extract_token :: "string \<Rightarrow> string option" where
  "extract_token query = (case List.map_filter (strip_prefix ''token='') (split_on CHR ''&'' query) of
     t # _ \<Rightarrow> Some t | [] \<Rightarrow> None)"

definition validate_ws_auth :: "jwt_lib \<Rightarrow> jwt_config \<Rightarrow> int \<Rightarrow> channel_definition \<Rightarrow> string option \<Rightarrow>
    (nat \<times> json) + claims option" where
  "validate_ws_auth lib cfg now defn token = (case cd_auth defn of
     None \<Rightarrow> Inr None
   | Some auth \<Rightarrow>
       if is_public auth then Inr None
       else and_then (ok_or (ws_error ''UNAUTHORIZED'' 401 ''WebSocket connection requires authentication'') token)
         (\<lambda>tok. (case decode_token lib cfg now tok of
            Inl e \<Rightarrow> Inl (ws_error ''UNAUTHORIZED'' 401 ''Invalid or expired token'')
          | Inr c \<Rightarrow> (case auth of
              Roles roles \<Rightarrow>
                if list_ex (\<lambda>r. r = cl_role c \<or> r = ''owner'') roles then Inr (Some c)
                else Inl (ws_error ''FORBIDDEN'' 403 ''Insufficient permissions for this channel'')
            | _ \<Rightarrow> Inr (Some c)))))"

section \<open>The session task\<close>

datatype client_frame =
    TextFrame string | PingFrame string | PongFrame | CloseFrame "string option"
  | ContinuationFrame | BinaryFrame | NopFrame | ProtocolError | EndOfStream

datatype server_frame = SendText string | SendPong string | SendClose "string option"

record ws_socket =
  sk_open :: bool
  sk_sent :: "server_frame list"

definition socket_send :: "server_frame \<Rightarrow> ws_socket \<Rightarrow> ws_socket \<times> bool" where
  "socket_send f sk = (if sk_open sk then (sk\<lparr>sk_sent := sk_sent sk @ [f]\<rparr>, True) else (sk, False))"

definition socket_close :: "string option \<Rightarrow> ws_socket \<Rightarrow> ws_socket" where
  "socket_close reason sk = (fst (socket_send (SendClose reason) sk))\<lparr>sk_open := False\<rparr>"

record ws_env =
  we_json_text :: "json \<Rightarrow> string"
  we_decode :: "string \<Rightarrow> string + ws_client_message"
  we_decode_pubsub :: "string \<Rightarrow> pubsub_message option"

record session_config =
  sc_session_id :: string
  sc_channel_name :: string
  sc_rooms_enabled :: bool

text \<open>What a turn of the task works on: its socket, the room manager of its instance, the payloads
  it publishes on the Redis channel and the time of the last sign of life.\<close>

record session_view =
  sv_socket :: ws_socket
  sv_manager :: room_manager
  sv_published :: "string list"
  sv_last_heartbeat :: int

definition reply :: "ws_env \<Rightarrow> ws_server_message \<Rightarrow> session_view \<Rightarrow> session_view" where
  "reply env msg v =
     v\<lparr>sv_socket := fst (socket_send (SendText (we_json_text env (server_message_json msg))) (sv_socket v))\<rparr>"

datatype pubsub_fault = NoConnection string | PublishFailed string

fun pubsub_error :: "pubsub_fault \<Rightarrow> shaperail_error" where
  "pubsub_error (NoConnection e) = Internal (''Redis connection failed: '' @ e)"
| "pubsub_error (PublishFailed e) = Internal (''Redis publish failed: '' @ e)"

definition publish :: "ws_env \<Rightarrow> pubsub_fault option \<Rightarrow> pubsub_message \<Rightarrow> session_view \<Rightarrow> session_view \<times> unit res" where
  "publish env fault m v = (case fault of
     Some e \<Rightarrow> (v, Inl (pubsub_error e))
   | None \<Rightarrow> (v\<lparr>sv_published := sv_published v @ [we_json_text env (pubsub_json m)]\<rparr>, Inr ()))"

definition handle_text_message :: "ws_env \<Rightarrow> pubsub_fault option \<Rightarrow> session_config \<Rightarrow> string \<Rightarrow> session_view \<Rightarrow>
    session_view" where
  "handle_text_message env fault cfg body v = (case we_decode env body of
     Inl e \<Rightarrow> reply env (ErrorMessage (''Invalid message format: '' @ e)) v
   | Inr (SubscribeTo room) \<Rightarrow>
       if \<not> sc_rooms_enabled cfg then reply env (ErrorMessage ''Room subscriptions not enabled for this channel'') v
       else reply env (Subscribed room) (v\<lparr>sv_manager := subscribe (sc_session_id cfg) room (sv_manager v)\<rparr>)
   | Inr (UnsubscribeFrom room) \<Rightarrow>
       reply env (Unsubscribed room) (v\<lparr>sv_manager := unsubscribe (sc_session_id cfg) room (sv_manager v)\<rparr>)
   | Inr (RoomMessage room data) \<Rightarrow>
       if \<not> sc_rooms_enabled cfg then reply env (ErrorMessage ''Room messaging not enabled for this channel'') v
       else (case publish env fault \<lparr>pm_channel = sc_channel_name cfg, pm_room = room, pm_event = ''message'',
           pm_data = data\<rparr> v of
         (v', Inr _) \<Rightarrow> v'
       | (v', Inl e) \<Rightarrow> v'\<lparr>sv_manager := broadcast_to_room room
           (we_json_text env (server_message_json (Broadcast room ''message'' data))) (sv_manager v')\<rparr>)
   | Inr ClientPong \<Rightarrow> v)"

text \<open>One turn of the loop; the flag says whether the loop goes on. \<open>QuietFor5Seconds\<close> is the sleep
  that starts anew in every turn.\<close>

datatype ws_turn = Outbound | Inbound client_frame | QuietFor5Seconds

definition client_timeout :: int where
  "client_timeout = 60000"

fun on_frame :: "ws_env \<Rightarrow> pubsub_fault option \<Rightarrow> session_config \<Rightarrow> int \<Rightarrow> client_frame \<Rightarrow> session_view \<Rightarrow>
    session_view \<times> bool" where
  "on_frame env fault cfg now (TextFrame body) v =
     (handle_text_message env fault cfg body (v\<lparr>sv_last_heartbeat := now\<rparr>), True)"
| "on_frame env fault cfg now (PingFrame bytes) v =
     (case socket_send (SendPong bytes) (sv_socket v) of
        (sk, ok) \<Rightarrow> (v\<lparr>sv_last_heartbeat := now, sv_socket := sk\<rparr>, ok))"
| "on_frame env fault cfg now PongFrame v = (v\<lparr>sv_last_heartbeat := now\<rparr>, True)"
| "on_frame env fault cfg now (CloseFrame reason) v = (v\<lparr>sv_socket := socket_close reason (sv_socket v)\<rparr>, False)"
| "on_frame env fault cfg now ContinuationFrame v = (v, True)"
| "on_frame env fault cfg now BinaryFrame v = (reply env (ErrorMessage ''Binary messages not supported'') v, True)"
| "on_frame env fault cfg now NopFrame v = (v, True)"
| "on_frame env fault cfg now ProtocolError v = (v, False)"
| "on_frame env fault cfg now EndOfStream v = (v, False)"

fun session_turn :: "ws_env \<Rightarrow> pubsub_fault option \<Rightarrow> session_config \<Rightarrow> int \<Rightarrow> ws_turn \<Rightarrow> session_view \<Rightarrow>
    session_view \<times> bool" where
  "session_turn env fault cfg now Outbound v = (case map_of (rm_sessions (sv_manager v)) (sc_session_id cfg) of
     Some (t # queue) \<Rightarrow> (case socket_send (SendText t) (sv_socket v) of
       (sk, ok) \<Rightarrow> (v\<lparr>sv_socket := sk, sv_manager := (sv_manager v)\<lparr>rm_sessions :=
         AList.update (sc_session_id cfg) queue (rm_sessions (sv_manager v))\<rparr>\<rparr>, ok))
   | _ \<Rightarrow> (v, True))"
| "session_turn env fault cfg now (Inbound frame) v = on_frame env fault cfg now frame v"
| "session_turn env fault cfg now QuietFor5Seconds v =
     (if now - sv_last_heartbeat v > client_timeout then
        (v\<lparr>sv_socket := socket_close None (sv_socket v)\<rparr>, False) else (v, True))"

section \<open>Instances\<close>

record ws_task =
  wt_socket :: ws_socket
  wt_last_heartbeat :: int

record ws_instance =
  wi_manager :: room_manager
  wi_tasks :: "(string \<times> ws_task) list"
  wi_inbox :: "string list"

definition redis_channel :: "string \<Rightarrow> string" where
  "redis_channel channel = ''shaperail:ws:'' @ channel"

definition session_for :: "channel_definition \<Rightarrow> string \<Rightarrow> session_config" where
  "session_for defn sid =
     \<lparr>sc_session_id = sid, sc_channel_name = cd_channel defn, sc_rooms_enabled = cd_rooms defn\<rparr>"

text \<open>The handshake and the start of the session task.\<close>

definition ws_handler :: "jwt_lib \<Rightarrow> jwt_config \<Rightarrow> int \<Rightarrow> int \<Rightarrow> channel_definition \<Rightarrow> string \<Rightarrow> string \<Rightarrow> ws_instance \<Rightarrow>
    ws_instance \<times> ((nat \<times> json) + claims option)" where
  "ws_handler lib cfg now_secs now defn query sid inst =
     (case validate_ws_auth lib cfg now_secs defn (extract_token query) of
        Inl resp \<Rightarrow> (inst, Inl resp)
      | Inr c \<Rightarrow> (inst\<lparr>wi_manager := register_session sid [] (wi_manager inst),
          wi_tasks := AList.update sid \<lparr>wt_socket = \<lparr>sk_open = True, sk_sent = []\<rparr>, wt_last_heartbeat = now\<rparr>
            (wi_tasks inst)\<rparr>, Inr c))"

text \<open>A turn of a running task; when the loop ends, the cleanup removes the session.\<close>

definition ws_session :: "ws_env \<Rightarrow> pubsub_fault option \<Rightarrow> session_config \<Rightarrow> int \<Rightarrow> ws_turn \<Rightarrow> ws_instance \<Rightarrow>
    ws_instance \<times> string list" where
  "ws_session env fault cfg now turn inst = (case map_of (wi_tasks inst) (sc_session_id cfg) of
     None \<Rightarrow> (inst, [])
   | Some t \<Rightarrow>
       (case session_turn env fault cfg now turn \<lparr>sv_socket = wt_socket t, sv_manager = wi_manager inst,
           sv_published = [], sv_last_heartbeat = wt_last_heartbeat t\<rparr> of
          (v, True) \<Rightarrow> (inst\<lparr>wi_manager := sv_manager v, wi_tasks := AList.update (sc_session_id cfg)
              \<lparr>wt_socket = sv_socket v, wt_last_heartbeat = sv_last_heartbeat v\<rparr> (wi_tasks inst)\<rparr>, sv_published v)
        | (v, False) \<Rightarrow> (inst\<lparr>wi_manager := remove_session (sc_session_id cfg) (sv_manager v),
              wi_tasks := AList.delete (sc_session_id cfg) (wi_tasks inst)\<rparr>, sv_published v)))"

text \<open>One message of the subscriber's stream.\<close>

definition subscriber_step :: "ws_env \<Rightarrow> ws_instance \<Rightarrow> ws_instance" where
  "subscriber_step env inst = (case wi_inbox inst of
     [] \<Rightarrow> inst
   | p # rest \<Rightarrow> inst\<lparr>wi_inbox := rest, wi_manager := (case we_decode_pubsub env p of
       None \<Rightarrow> wi_manager inst
     | Some m \<Rightarrow> broadcast_to_room (pm_room m)
         (we_json_text env (server_message_json (Broadcast (pm_room m) (pm_event m) (pm_data m)))) (wi_manager inst))\<rparr>)"

definition heartbeat_ping :: "ws_env \<Rightarrow> string \<Rightarrow> ws_instance \<Rightarrow> ws_instance" where
  "heartbeat_ping env sid inst = (case map_of (wi_tasks inst) sid of
     None \<Rightarrow> inst
   | Some t \<Rightarrow> inst\<lparr>wi_tasks := AList.update sid (t\<lparr>wt_socket := fst (socket_send
       (SendText (we_json_text env (server_message_json ServerPing))) (wt_socket t))\<rparr>) (wi_tasks inst)\<rparr>)"

definition peer_gone :: "string \<Rightarrow> ws_instance \<Rightarrow> ws_instance" where
  "peer_gone sid inst = (case map_of (wi_tasks inst) sid of
     None \<Rightarrow> inst
   | Some t \<Rightarrow> inst\<lparr>wi_tasks := AList.update sid (t\<lparr>wt_socket := (wt_socket t)\<lparr>sk_open := False\<rparr>\<rparr>) (wi_tasks inst)\<rparr>)"

text \<open>Redis copies what is published to the subscriber of every instance.\<close>

definition fan_out :: "string list \<Rightarrow> ws_instance list \<Rightarrow> ws_instance list" where
  "fan_out published ws = map (\<lambda>inst. inst\<lparr>wi_inbox := wi_inbox inst @ published\<rparr>) ws"

text \<open>The histories of a channel on several instances. A session id is a fresh UUID.\<close>

inductive ws_reach :: "ws_env \<Rightarrow> jwt_lib \<Rightarrow> jwt_config \<Rightarrow> channel_definition \<Rightarrow> ws_instance list \<Rightarrow> bool"
  for env lib cfg defn where
  boot: "ws_reach env lib cfg defn (replicate n \<lparr>wi_manager = new_room_manager, wi_tasks = [], wi_inbox = []\<rparr>)"
| connect: "ws_reach env lib cfg defn ws \<Longrightarrow> i < length ws \<Longrightarrow> map_of (rm_sessions (wi_manager (ws ! i))) sid = None \<Longrightarrow>
    ws_handler lib cfg now_secs now defn query sid (ws ! i) = (inst, r) \<Longrightarrow> ws_reach env lib cfg defn (ws[i := inst])"
| turn: "ws_reach env lib cfg defn ws \<Longrightarrow> i < length ws \<Longrightarrow>
    ws_session env fault (session_for defn sid) now t (ws ! i) = (inst, published) \<Longrightarrow>
    ws_reach env lib cfg defn (fan_out published (ws[i := inst]))"
| receive: "ws_reach env lib cfg defn ws \<Longrightarrow> i < length ws \<Longrightarrow>
    ws_reach env lib cfg defn (ws[i := subscriber_step env (ws ! i)])"
| ping: "ws_reach env lib cfg defn ws \<Longrightarrow> i < length ws \<Longrightarrow>
    ws_reach env lib cfg defn (ws[i := heartbeat_ping env sid (ws ! i)])"
| drop: "ws_reach env lib cfg defn ws \<Longrightarrow> i < length ws \<Longrightarrow>
    ws_reach env lib cfg defn (ws[i := peer_gone sid (ws ! i)])"


section \<open>Every history keeps the instances consistent\<close>

definition turn_ok :: "bool \<Rightarrow> room_manager \<Rightarrow> room_manager \<Rightarrow> bool" where
  "turn_ok rooms m m' \<longleftrightarrow> rooms_ok m'
     \<and> dom (map_of (rm_sessions m')) = dom (map_of (rm_sessions m))
     \<and> (\<not> rooms \<longrightarrow> subscriptions m' \<subseteq> subscriptions m)"

lemma turn_ok_ops:
  assumes "rooms_ok m"
  shows "turn_ok rooms m m"
    and "map_of (rm_sessions m) sid \<noteq> None \<Longrightarrow> turn_ok True m (subscribe sid room m)"
    and "turn_ok rooms m (unsubscribe sid room m)"
    and "turn_ok rooms m (broadcast_to_room room msg m)"
  using rooms_ok_ops(2-5) [OF assms] assms
  by (simp_all add: turn_ok_def registered_ops subscriptions_ops [OF assms] broadcast_dom [OF assms])

lemma reply_manager [simp]: "sv_manager (reply env msg v) = sv_manager v"
  by (simp add: reply_def)

lemma publish_manager: "publish env fault m v = (v', r) \<Longrightarrow> sv_manager v' = sv_manager v"
  by (auto simp: publish_def split: option.splits)

lemma handle_text_ok:
  assumes "rooms_ok (sv_manager v)" and "map_of (rm_sessions (sv_manager v)) (sc_session_id cfg) \<noteq> None"
  shows "turn_ok (sc_rooms_enabled cfg) (sv_manager v) (sv_manager (handle_text_message env fault cfg body v))"
proof -
  note ops = turn_ok_ops [OF assms(1)]
  show ?thesis
    using ops(1,3) ops(2) [OF assms(2)]
    by (auto simp: handle_text_message_def publish_manager ops(4)
        split: sum.split ws_client_message.split prod.split)
qed

lemma turn_ok_refl_sessions:
  assumes "rooms_ok m" and "map_of (rm_sessions m) sid = Some q"
  shows "turn_ok rooms m (m\<lparr>rm_sessions := AList.update sid q' (rm_sessions m)\<rparr>)"
proof -
  let ?m = "m\<lparr>rm_sessions := AList.update sid q' (rm_sessions m)\<rparr>"
  have same: "members ?m = members m" "joined ?m = joined m" "subscriptions ?m = subscriptions m"
    by (simp_all add: fun_eq_iff members_def joined_def subscriptions_def)
  moreover have "dom (map_of (rm_sessions ?m)) = dom (map_of (rm_sessions m))"
    using assms(2) by (auto simp: update_conv)
  ultimately show ?thesis
    using rooms_okD [OF assms(1)] unfolding turn_ok_def rooms_ok_def by simp
qed

lemma session_turn_ok:
  assumes "rooms_ok (sv_manager v)" and "map_of (rm_sessions (sv_manager v)) (sc_session_id cfg) \<noteq> None"
  shows "turn_ok (sc_rooms_enabled cfg) (sv_manager v) (sv_manager (fst (session_turn env fault cfg now t v)))"
proof (cases t)
  case Outbound
  then show ?thesis
    using assms turn_ok_ops(1) [OF assms(1)]
    by (auto simp: turn_ok_refl_sessions split: option.splits list.splits prod.splits)
next
  case (Inbound frame)
  then show ?thesis
    using assms turn_ok_ops(1) [OF assms(1)] handle_text_ok [of "v\<lparr>sv_last_heartbeat := now\<rparr>" cfg env fault]
    by (cases frame) (auto split: prod.split)
next
  case QuietFor5Seconds
  then show ?thesis using turn_ok_ops(1) [OF assms(1)] by simp
qed

definition instance_ok :: "bool \<Rightarrow> ws_instance \<Rightarrow> bool" where
  "instance_ok rooms inst \<longleftrightarrow> rooms_ok (wi_manager inst)
     \<and> dom (map_of (wi_tasks inst)) = dom (map_of (rm_sessions (wi_manager inst)))
     \<and> (\<not> rooms \<longrightarrow> subscriptions (wi_manager inst) = {})"

lemma removed_dom: "dom (map_of (rm_sessions (remove_session sid m))) = dom (map_of (rm_sessions m)) - {sid}"
  by (auto simp: sessions.get_del split: if_splits)

lemma ws_session_ok:
  assumes "instance_ok (sc_rooms_enabled cfg) inst" and "ws_session env fault cfg now t inst = (inst', published)"
  shows "instance_ok (sc_rooms_enabled cfg) inst'"
proof (cases "map_of (wi_tasks inst) (sc_session_id cfg)")
  case None
  then show ?thesis using assms by (simp add: ws_session_def)
next
  case (Some task)
  let ?v = "\<lparr>sv_socket = wt_socket task, sv_manager = wi_manager inst, sv_published = [],
    sv_last_heartbeat = wt_last_heartbeat task\<rparr>"
  obtain v go where v: "session_turn env fault cfg now t ?v = (v, go)" by fastforce
  have "map_of (rm_sessions (wi_manager inst)) (sc_session_id cfg) \<noteq> None"
    using assms(1) Some unfolding instance_ok_def by blast
  then have "turn_ok (sc_rooms_enabled cfg) (wi_manager inst) (sv_manager v)"
    using session_turn_ok [of ?v cfg env fault now t] assms(1) v by (simp add: instance_ok_def)
  then have m: "rooms_ok (sv_manager v)"
      "\<not> sc_rooms_enabled cfg \<Longrightarrow> subscriptions (sv_manager v) = {}"
      "dom (map_of (rm_sessions (sv_manager v))) = dom (map_of (wi_tasks inst))"
    using assms(1) by (auto simp: turn_ok_def instance_ok_def)
  show ?thesis
  proof (cases go)
    case True
    then have "inst' = inst\<lparr>wi_manager := sv_manager v, wi_tasks := AList.update (sc_session_id cfg)
        \<lparr>wt_socket = sv_socket v, wt_last_heartbeat = sv_last_heartbeat v\<rparr> (wi_tasks inst)\<rparr>"
      using assms(2) Some v by (simp add: ws_session_def)
    then show ?thesis using m Some by (auto simp: instance_ok_def update_conv insert_absorb domI)
  next
    case False
    then have "inst' = inst\<lparr>wi_manager := remove_session (sc_session_id cfg) (sv_manager v),
        wi_tasks := AList.delete (sc_session_id cfg) (wi_tasks inst)\<rparr>"
      using assms(2) Some v by (simp add: ws_session_def)
    then show ?thesis
      using m rooms_ok_ops(4) [OF m(1)] subscriptions_ops(4) [OF m(1)]
      by (simp add: instance_ok_def delete_conv removed_dom)
  qed
qed

lemma ws_handler_ok:
  assumes "instance_ok rooms inst" and "map_of (rm_sessions (wi_manager inst)) sid = None"
    and "ws_handler lib cfg now_secs now defn query sid inst = (inst', r)"
  shows "instance_ok rooms inst'"
proof (cases "validate_ws_auth lib cfg now_secs defn (extract_token query)")
  case (Inl e)
  then show ?thesis using assms by (simp add: ws_handler_def)
next
  case (Inr c)
  have ok: "rooms_ok (wi_manager inst)" using assms(1) by (simp add: instance_ok_def)
  have "dom (map_of (rm_sessions (register_session sid [] (wi_manager inst)))) = insert sid (dom (map_of (rm_sessions (wi_manager inst))))"
    by (auto simp: sessions.get_put split: if_splits)
  moreover have "inst' = inst\<lparr>wi_manager := register_session sid [] (wi_manager inst),
      wi_tasks := AList.update sid \<lparr>wt_socket = \<lparr>sk_open = True, sk_sent = []\<rparr>, wt_last_heartbeat = now\<rparr> (wi_tasks inst)\<rparr>"
    using Inr assms(3) by (simp add: ws_handler_def)
  ultimately show ?thesis
    using assms(1) rooms_ok_ops(1) [OF ok assms(2)] subscriptions_ops(1) [OF ok]
    by (simp add: instance_ok_def update_conv)
qed

lemma subscriber_step_ok: "instance_ok rooms inst \<Longrightarrow> instance_ok rooms (subscriber_step env inst)"
  by (auto simp: subscriber_step_def instance_ok_def rooms_ok_ops(5) subscriptions_ops(5) broadcast_dom
      split: list.split option.split)

lemma socket_steps_ok:
  "instance_ok rooms inst \<Longrightarrow> instance_ok rooms (heartbeat_ping env sid inst)"
  "instance_ok rooms inst \<Longrightarrow> instance_ok rooms (peer_gone sid inst)"
  by (auto simp: heartbeat_ping_def peer_gone_def instance_ok_def update_conv insert_absorb domI split: option.split)

lemma instance_ok_inbox [simp]: "instance_ok rooms (inst\<lparr>wi_inbox := ps\<rparr>) = instance_ok rooms inst"
  by (simp add: instance_ok_def)

lemma fan_out_ok: "\<forall>inst \<in> set ws. instance_ok rooms inst \<Longrightarrow> \<forall>inst \<in> set (fan_out published ws). instance_ok rooms inst"
  by (simp add: fan_out_def)

lemma update_ok:
  "\<forall>inst \<in> set ws. instance_ok rooms inst \<Longrightarrow> instance_ok rooms inst' \<Longrightarrow> \<forall>inst \<in> set (ws[i := inst']). instance_ok rooms inst"
  using set_update_subset_insert by fastforce

lemma reachable_instance_ok:
  assumes "ws_reach env lib cfg defn ws"
  shows "\<forall>inst \<in> set ws. instance_ok (cd_rooms defn) inst"
  using assms
proof (induction rule: ws_reach.induct)
  case (boot n)
  show ?case by (auto simp: instance_ok_def rooms_ok_new subscriptions_def members_def) (simp_all add: new_room_manager_def)
next
  case (connect ws i sid now_secs now query inst r)
  then show ?case using ws_handler_ok update_ok nth_mem by metis
next
  case (turn ws i fault sid now t inst published)
  then have "instance_ok (cd_rooms defn) inst"
    using ws_session_ok [of "session_for defn sid" "ws ! i"] nth_mem [of i ws] by (simp add: session_for_def)
  then show ?case using turn.IH fan_out_ok update_ok by blast
next
  case (receive ws i)
  then show ?case using subscriber_step_ok update_ok nth_mem by metis
next
  case (ping ws i sid)
  then show ?case using socket_steps_ok(1) update_ok nth_mem by metis
next
  case (drop ws i sid)
  then show ?case using socket_steps_ok(2) update_ok nth_mem by metis
qed


text \<open>C35. In every history of connections, messages, timeouts and disconnections on any number of
  instances, the three maps of a room manager agree: who is in a room has the room among its own,
  is a running session, and is there once; no empty room is kept; and a channel without rooms has no
  subscription at all.\<close>

theorem channel_stays_consistent:
  assumes "ws_reach env lib cfg defn ws" and "inst \<in> set ws"
  shows "(sid \<in> members (wi_manager inst) room \<longleftrightarrow> room \<in> joined (wi_manager inst) sid)
    \<and> (sid \<in> members (wi_manager inst) room \<longrightarrow> has_key (wi_tasks inst) sid)
    \<and> room_member_count (wi_manager inst) room = card (members (wi_manager inst) room)
    \<and> (has_key (rm_rooms (wi_manager inst)) room \<longleftrightarrow> members (wi_manager inst) room \<noteq> {})
    \<and> (\<not> cd_rooms defn \<longrightarrow> members (wi_manager inst) room = {})"
proof -
  let ?m = "wi_manager inst"
  have ok: "instance_ok (cd_rooms defn) inst" using reachable_instance_ok [OF assms(1)] assms(2) by blast
  then have d: "rooms_ok ?m" and tasks: "dom (map_of (wi_tasks inst)) = dom (map_of (rm_sessions ?m))"
    by (simp_all add: instance_ok_def)
  note d = rooms_okD [OF d]
  have "sid \<in> dom (map_of (rm_session_rooms ?m))" if "room \<in> joined ?m sid"
    using that by (auto simp: joined_def split: option.splits)
  then have "sid \<in> dom (map_of (wi_tasks inst))" if "sid \<in> members ?m room"
    using that d(2,3) tasks by simp
  moreover have "room_member_count ?m room = card (members ?m room)"
    and "map_of (rm_rooms ?m) room \<noteq> None \<longleftrightarrow> members ?m room \<noteq> {}"
    using d(1) [of room]
    by (auto simp: room_member_count_def members_def room_entry_ok_def distinct_card split: option.split)
  moreover have "\<not> cd_rooms defn \<longrightarrow> members ?m room = {}"
    using ok by (auto simp: instance_ok_def subscriptions_def)
  ultimately show ?thesis using d(2) by (auto simp: dom_def)
qed

text \<open>A public channel with rooms on two instances: session \<open>b\<close> on the second is in room \<open>r\<close>.\<close>

definition toy_ws_env :: ws_env where
  "toy_ws_env = \<lparr>we_json_text = (\<lambda>j. case json_get_str j ''room'' of Some r \<Rightarrow> r | None \<Rightarrow> []),
     we_decode = (\<lambda>s. if s = ''join'' then Inr (SubscribeTo ''r'') else Inr (RoomMessage ''r'' JNull)),
     we_decode_pubsub = (\<lambda>p. Some \<lparr>pm_channel = ''chat'', pm_room = p, pm_event = ''message'', pm_data = JNull\<rparr>)\<rparr>"

definition toy_channel :: channel_definition where
  "toy_channel = \<lparr>cd_channel = ''chat'', cd_auth = None, cd_rooms = True, cd_hooks = None\<rparr>"

definition idle_instance :: ws_instance where
  "idle_instance = \<lparr>wi_manager = new_room_manager, wi_tasks = [], wi_inbox = []\<rparr>"

definition chat_a :: ws_instance where
  "chat_a = \<lparr>wi_manager = \<lparr>rm_rooms = [], rm_sessions = [(''a'', [])], rm_session_rooms = [(''a'', [])]\<rparr>,
     wi_tasks = [(''a'', \<lparr>wt_socket = \<lparr>sk_open = True, sk_sent = []\<rparr>, wt_last_heartbeat = 0\<rparr>)], wi_inbox = []\<rparr>"

definition chat_b :: ws_instance where
  "chat_b = \<lparr>wi_manager = \<lparr>rm_rooms = [(''r'', [''b''])], rm_sessions = [(''b'', [])], rm_session_rooms = [(''b'', [''r''])]\<rparr>,
     wi_tasks = [(''b'', \<lparr>wt_socket = \<lparr>sk_open = True, sk_sent = [SendText ''r'']\<rparr>, wt_last_heartbeat = 5\<rparr>)],
     wi_inbox = []\<rparr>"

lemma chat_reachable: "ws_reach toy_ws_env lib cfg toy_channel [chat_a, chat_b]"
proof -
  let ?b = "fst (ws_handler lib cfg 0 0 toy_channel [] ''b'' idle_instance)"
  have public: "validate_ws_auth lib cfg 0 toy_channel t = Inr None" for t
    by (simp add: validate_ws_auth_def toy_channel_def)
  have rooms: "cd_rooms toy_channel" by (simp add: toy_channel_def)
  have "ws_reach toy_ws_env lib cfg toy_channel (replicate 2 idle_instance)"
    unfolding idle_instance_def by (rule ws_reach.boot)
  then have "ws_reach toy_ws_env lib cfg toy_channel [chat_a, idle_instance]"
    using ws_reach.connect [of toy_ws_env lib cfg toy_channel "[idle_instance, idle_instance]" 0 "''a''" 0 0 "[]" chat_a "Inr None"]
    by (simp add: numeral_2_eq_2 ws_handler_def public register_session_def idle_instance_def new_room_manager_def chat_a_def)
  then have "ws_reach toy_ws_env lib cfg toy_channel [chat_a, ?b]"
    using ws_reach.connect [of toy_ws_env lib cfg toy_channel "[chat_a, idle_instance]" 1 "''b''" 0 0 "[]" ?b "Inr None"]
    by (simp add: ws_handler_def public register_session_def idle_instance_def new_room_manager_def)
  moreover have "ws_session toy_ws_env None (session_for toy_channel ''b'') 5 (Inbound (TextFrame ''join'')) ?b = (chat_b, [])"
    by (simp add: ws_session_def ws_handler_def public register_session_def idle_instance_def new_room_manager_def
        handle_text_message_def session_for_def rooms toy_ws_env_def reply_def socket_send_def subscribe_def
        chat_b_def json_get_str_def json_get_def)
  ultimately show ?thesis
    using ws_reach.turn [of toy_ws_env lib cfg toy_channel "[chat_a, ?b]" 1 None "''b''" 5 "Inbound (TextFrame ''join'')" chat_b "[]"]
    by (simp add: fan_out_def)
qed

theorem channel_stays_consistent_witness:
  "room_member_count (wi_manager chat_b) ''r'' = card (members (wi_manager chat_b) ''r'')"
  using channel_stays_consistent [OF chat_reachable, of chat_b "''r''"] by simp

text \<open>C34. A message that a session sends to a room reaches exactly the sessions that are subscribed to
  that room, each once, on every instance: after the turn that publishes it and the turn of an
  instance's subscriber, the queue of every subscribed session there has the broadcast at its end
  and no other queue has changed.\<close>

theorem room_message_delivered:
  assumes "ws_reach env lib cfg defn ws" and "i < length ws" and "has_key (wi_tasks (ws ! i)) sid" and "cd_rooms defn"
    and "we_decode env body = Inr (RoomMessage room data)"
    and "m = \<lparr>pm_channel = cd_channel defn, pm_room = room, pm_event = ''message'', pm_data = data\<rparr>"
    and "we_decode_pubsub env (we_json_text env (pubsub_json m)) = Some m"
    and "ws_session env None (session_for defn sid) now (Inbound (TextFrame body)) (ws ! i) = (inst', published)"
    and "j < length ws" and "wi_inbox (ws ! j) = []"
  shows "map_of (rm_sessions (wi_manager (subscriber_step env (fan_out published (ws[i := inst']) ! j)))) s =
    map_option (\<lambda>q. if (s, room) \<in> subscriptions (wi_manager (ws ! j))
        then q @ [we_json_text env (server_message_json (Broadcast room ''message'' data))] else q)
      (map_of (rm_sessions (wi_manager (ws ! j))) s)"
proof -
  obtain t where t: "map_of (wi_tasks (ws ! i)) sid = Some t" using assms(3) by blast
  have pub: "published = [we_json_text env (pubsub_json m)]"
    and inst: "wi_manager inst' = wi_manager (ws ! i)" "wi_inbox inst' = wi_inbox (ws ! i)"
    using assms(4-6,8) t by (auto simp: ws_session_def session_for_def handle_text_message_def publish_def)
  have "(ws[i := inst']) ! j = (if i = j then inst' else ws ! j)" using assms(9) by simp
  then have "fan_out published (ws[i := inst']) ! j =
      (if i = j then inst' else ws ! j)\<lparr>wi_inbox := [we_json_text env (pubsub_json m)]\<rparr>"
    using assms(9,10) inst(2) by (auto simp: fan_out_def pub)
  moreover have "wi_manager (if i = j then inst' else ws ! j) = wi_manager (ws ! j)" using inst(1) by auto
  moreover have "rooms_ok (wi_manager (ws ! j))"
    using reachable_instance_ok [OF assms(1)] assms(9) by (simp add: instance_ok_def)
  ultimately show ?thesis
    using assms(7) by (simp add: subscriber_step_def assms(6) broadcast_lookup subscriptions_def cong: if_cong)
qed

theorem room_message_delivered_witness:
  "\<exists>inst' published. ws_session toy_ws_env None (session_for toy_channel ''a'') 9 (Inbound (TextFrame ''hi'')) chat_a
      = (inst', published)
    \<and> map_of (rm_sessions (wi_manager (subscriber_step toy_ws_env (fan_out published [inst', chat_b] ! 1)))) ''b''
      = Some [''r'']"
proof -
  obtain inst' published where run: "ws_session toy_ws_env None (session_for toy_channel ''a'') 9
      (Inbound (TextFrame ''hi'')) chat_a = (inst', published)" by fastforce
  then have "map_of (rm_sessions (wi_manager (subscriber_step toy_ws_env (fan_out published [inst', chat_b] ! 1)))) ''b''
      = Some [''r'']"
    using room_message_delivered [OF chat_reachable, of 0 "''a''" "''hi''" "''r''" JNull
        "\<lparr>pm_channel = ''chat'', pm_room = ''r'', pm_event = ''message'', pm_data = JNull\<rparr>" 9 inst' published 1 "''b''"]
    by (simp add: toy_ws_env_def toy_channel_def chat_a_def chat_b_def pubsub_json_def json_get_str_def json_get_def
        subscriptions_def members_def)
  with run show ?thesis by blast
qed

text \<open>Boundaries of the code. A channel with a rule admits exactly the holders of a token that verifies
  (the type of the token is not read, so a refresh token does) and whose role is listed; with the role
  \<open>owner\<close> listed every holder is admitted. A task that keeps receiving broadcasts never looks at the
  heartbeat of its client. A subscription of a session that is not registered is never removed.\<close>

lemma ws_auth_iff:
  "validate_ws_auth lib cfg now defn token = Inr r \<longleftrightarrow>
    (if cd_auth defn \<in> {None, Some Public} then r = None
     else (\<exists>tok c. token = Some tok \<and> decode_token lib cfg now tok = Inr c \<and> r = Some c
       \<and> (\<forall>roles. cd_auth defn = Some (Roles roles) \<longrightarrow> cl_role c \<in> set roles \<or> ''owner'' \<in> set roles)))"
proof (cases "cd_auth defn")
  case (Some auth)
  show ?thesis
  proof (cases token)
    case None
    with Some show ?thesis by (cases auth) (auto simp: validate_ws_auth_def is_public_def ok_or_def)
  next
    case (Some tok)
    with \<open>cd_auth defn = Some auth\<close> show ?thesis
      by (cases auth; cases "decode_token lib cfg now tok")
        (auto simp: validate_ws_auth_def is_public_def ok_or_def list_ex_iff)
  qed
qed (auto simp: validate_ws_auth_def)

lemma outbound_ignores_heartbeat:
  assumes "sk_open (sv_socket v)"
  shows "snd (session_turn env fault cfg now Outbound v)"
  using assms by (auto simp: socket_send_def split: option.split list.split)

lemma unregistered_subscription_stays:
  assumes "rooms_ok m" and "map_of (rm_sessions m) sid = None"
  shows "sid \<in> members (remove_session sid (subscribe sid room m)) room"
proof -
  have "map_of (rm_session_rooms m) sid = None" using assms rooms_okD(3) [OF assms(1)] by (metis domIff)
  then have "joined (subscribe sid room m) sid = {}" by (simp add: joined_ops) (simp add: joined_def)
  then show ?thesis by (simp add: members_ops)
qed

end
