(* ===== verification/Workspace.thy ===== *)
theory Workspace
  imports Sagas Endpoints
begin

text \<open>
  Workspaces and their parser: \<open>shaperail-core/src/workspace.rs\<close>,
  \<open>shaperail-codegen/src/workspace_parser.rs\<close>, the environment placeholders of \<open>config_parser.rs\<close> and
  the wrappers of \<open>parser.rs\<close>. The YAML deserializer and the environment are parameters. The two
  depth-first searches keep their mutable sets as an explicit state; their termination is proved.
\<close>

section \<open>Errors\<close>

datatype parse_error =
    YamlError string
  | IoError string
  | ConfigInterpolation string
  | RemovedType string string
  | Context string parse_error

fun parse_error_display :: "parse_error \<Rightarrow> string" where
  "parse_error_display (YamlError e) = e"
| "parse_error_display (IoError e) = e"
| "parse_error_display (ConfigInterpolation e) = e"
| "parse_error_display (RemovedType code msg) = ''['' @ code @ ''] '' @ msg"
| "parse_error_display (Context file e) = file @ '': '' @ parse_error_display e"

section \<open>Environment placeholders\<close>

text \<open>The text before the first \<open>${\<close> and the text after it.\<close>

fun find_placeholder :: "string \<Rightarrow> (string \<times> string) option" where
  "find_placeholder (c # d # s) =
     (if c = CHR ''$'' \<and> d = CHR ''{'' then Some ([], s)
      else map_option (\<lambda>(a, b). (c # a, b)) (find_placeholder (d # s)))"
| "find_placeholder s = None"

definition placeholder_parts :: "string \<Rightarrow> string \<times> string option" where
  "placeholder_parts p = (case split_once CHR '':'' p of Some (n, d) \<Rightarrow> (n, Some d) | None \<Rightarrow> (p, None))"

definition placeholder_value :: "(string \<Rightarrow> string option) \<Rightarrow> string \<Rightarrow> parse_error + string" where
  "placeholder_value env p =
     (if p = [] then Inl (ConfigInterpolation ''empty environment placeholder in shaperail.config.yaml'')
      else (case placeholder_parts p of (name, fallback) \<Rightarrow>
        if name = [] then Inl (ConfigInterpolation ''environment placeholder is missing a variable name'')
        else (case env name of
          Some v \<Rightarrow> Inr v
        | None \<Rightarrow> (case fallback of
            Some d \<Rightarrow> Inr d
          | None \<Rightarrow> Inl (ConfigInterpolation (''environment variable '' @ squote name @ '' is not set''))))))"

lemma find_placeholder_length: "find_placeholder s = Some (a, b) \<Longrightarrow> length b < length s"
  by (induction s arbitrary: a rule: find_placeholder.induct) (fastforce split: if_splits)+

lemma split_once_length: "split_once c s = Some (a, b) \<Longrightarrow> length b < length s"
  by (auto simp: split_once_Some_iff)

function interpolate_env :: "(string \<Rightarrow> string option) \<Rightarrow> string \<Rightarrow> parse_error + string" where
  "interpolate_env env yaml = (case find_placeholder yaml of
     None \<Rightarrow> Inr yaml
   | Some (before, rest) \<Rightarrow> (case split_once CHR ''}'' rest of
       None \<Rightarrow> Inl (ConfigInterpolation ''unterminated environment placeholder in shaperail.config.yaml'')
     | Some (p, after) \<Rightarrow>
         and_then (placeholder_value env p) (\<lambda>v.
         and_then (interpolate_env env after) (\<lambda>r. Inr (before @ v @ r)))))"
  by pat_completeness auto
termination
  by (relation "measure (\<lambda>(env, s). length s)")
    (auto dest!: find_placeholder_length split_once_length)

declare interpolate_env.simps [simp del]

section \<open>Workspace configuration\<close>

record service_definition =
  sd_path :: string
  sd_port :: nat
  sd_depends_on :: "string list"

definition default_service_port :: nat where
  "default_service_port = 3000"

record 'shared workspace_config =
  wc_workspace :: string
  wc_services :: "(string \<times> service_definition) list"
  wc_shared :: "'shared option"

datatype service_status = Starting | Healthy | Unhealthy | Stopped

fun service_status_display :: "service_status \<Rightarrow> string" where
  "service_status_display Starting = ''starting''"
| "service_status_display Healthy = ''healthy''"
| "service_status_display Unhealthy = ''unhealthy''"
| "service_status_display Stopped = ''stopped''"

section \<open>The search for cycles\<close>

type_synonym services = "(string \<times> service_definition) list"

definition deps_of :: "services \<Rightarrow> string \<Rightarrow> string list" where
  "deps_of svcs node = (case map_of svcs node of Some s \<Rightarrow> sd_depends_on s | None \<Rightarrow> [])"

text \<open>The state of the search is the pair of sets \<open>visited\<close> and \<open>in_stack\<close>; the loop over the
  dependencies of a node is the second function.\<close>

type_synonym search = "string set \<times> string set"

definition unvisited :: "services \<Rightarrow> string set \<Rightarrow> nat" where
  "unvisited svcs V = card (fst ` set svcs - V)"

function (sequential) dfs_cycle :: "services \<Rightarrow> string \<Rightarrow> search \<Rightarrow> bool \<times> search"
  and dfs_deps :: "services \<Rightarrow> string list \<Rightarrow> search \<Rightarrow> bool \<times> search" where
  "dfs_cycle svcs node st = (case st of (visited, in_stack) \<Rightarrow>
     (case dfs_deps svcs (deps_of svcs node) (insert node visited, insert node in_stack) of
        (True, st') \<Rightarrow> (True, st')
      | (False, (visited', in_stack')) \<Rightarrow> (False, (visited', in_stack' - {node}))))"
| "dfs_deps svcs [] st = (False, st)"
| "dfs_deps svcs (dep # deps) st = (case st of (visited, in_stack) \<Rightarrow>
     if dep \<notin> visited then
       (case dfs_cycle svcs dep (visited, in_stack) of
          (True, st') \<Rightarrow> (True, st')
        | (False, st') \<Rightarrow> dfs_deps svcs deps st')
     else if dep \<in> in_stack then (True, st)
     else dfs_deps svcs deps st)"
  by pat_completeness auto

lemma dfs_grows_dom:
  "dfs_cycle_dfs_deps_dom (Inl (svcs, node, st)) \<Longrightarrow> insert node (fst st) \<subseteq> fst (snd (dfs_cycle svcs node st))"
  "dfs_cycle_dfs_deps_dom (Inr (svcs, deps, st')) \<Longrightarrow> fst st' \<subseteq> fst (snd (dfs_deps svcs deps st'))"
proof (induction svcs node st and svcs deps st' rule: dfs_cycle_dfs_deps.pinduct)
  case (1 svcs node st)
  then show ?case by (cases st) (auto simp: dfs_cycle.psimps split: prod.splits bool.splits)
next
  case (2 svcs st)
  then show ?case by (simp add: dfs_deps.psimps)
next
  case (3 svcs dep deps st)
  obtain V S where st: "st = (V, S)" by fastforce
  note step = dfs_deps.psimps(2) [OF "3"(1), unfolded st prod.case]
  show ?case
  proof (cases "dep \<notin> V")
    case True
    obtain b V' S' where r: "dfs_cycle svcs dep (V, S) = (b, (V', S'))" by (metis surj_pair)
    have "insert dep V \<subseteq> V'" using "3"(2) [OF st [symmetric] True] r by (simp add: st)
    moreover have "V' \<subseteq> fst (snd (dfs_deps svcs deps (V', S')))" if "\<not> b"
      using "3"(3) [OF st [symmetric] True] r that by (simp add: st)
    ultimately show ?thesis using True r step by (cases b) (auto simp: st)
  next
    case False
    then show ?thesis using "3"(4) [OF st [symmetric]] step by (auto simp: st)
  qed
qed

lemma unvisited_mono: "V \<subseteq> W \<Longrightarrow> unvisited svcs W \<le> unvisited svcs V"
  unfolding unvisited_def by (rule card_mono) auto

lemma unvisited_insert:
  assumes "v \<notin> V" and "map_of svcs v = Some x"
  shows "unvisited svcs (insert v V) < unvisited svcs V"
proof -
  have "v \<in> fst ` set svcs" using map_of_SomeD [OF assms(2)] by force
  then show ?thesis using assms(1) unfolding unvisited_def by (intro psubset_card_mono) auto
qed

text \<open>A call on a node visits it and runs over its dependencies; a name that is no service has none.\<close>

termination dfs_cycle
proof (relation "measures [\<lambda>x. case x of Inl (svcs, node, st) \<Rightarrow> unvisited svcs (insert node (fst st))
      | Inr (svcs, deps, st) \<Rightarrow> unvisited svcs (fst st),
    \<lambda>x. case x of Inl (svcs, node, st) \<Rightarrow> 2 * length (deps_of svcs node) + 2 | Inr (svcs, deps, st) \<Rightarrow> 2 * length deps + 1]",
    goal_cases)
  case (3 svcs dep deps st visited in_stack)
  show ?case
  proof (cases "map_of svcs dep")
    case None
    have "unvisited svcs (insert dep visited) \<le> unvisited svcs visited" by (rule unvisited_mono) auto
    with 3 None show ?thesis by (auto simp: deps_of_def)
  next
    case (Some s)
    with 3 unvisited_insert [of dep visited svcs s] show ?thesis by auto
  qed
next
  case (4 svcs dep deps st visited in_stack b st')
  then have "visited \<subseteq> fst st'" using dfs_grows_dom(1) [of svcs dep "(visited, in_stack)"]
    by (metis fst_conv insert_subset snd_conv)
  then show ?case using unvisited_mono [of visited "fst st'" svcs] 4 by auto
qed auto

declare dfs_cycle.simps [simp del]

section \<open>The startup order\<close>

type_synonym ordering = "string set \<times> string list"

function (sequential) topo_visit :: "services \<Rightarrow> string \<Rightarrow> ordering \<Rightarrow> ordering"
  and topo_deps :: "services \<Rightarrow> string list \<Rightarrow> ordering \<Rightarrow> ordering" where
  "topo_visit svcs node st = (case st of (visited, order) \<Rightarrow>
     (case topo_deps svcs (deps_of svcs node) (insert node visited, order) of
        (visited', order') \<Rightarrow> (visited', order' @ [node])))"
| "topo_deps svcs [] st = st"
| "topo_deps svcs (dep # deps) st = (case st of (visited, order) \<Rightarrow>
     if dep \<notin> visited then topo_deps svcs deps (topo_visit svcs dep (visited, order))
     else topo_deps svcs deps st)"
  by pat_completeness auto

lemma topo_grows_dom:
  "topo_visit_topo_deps_dom (Inl (svcs, node, st)) \<Longrightarrow> insert node (fst st) \<subseteq> fst (topo_visit svcs node st)"
  "topo_visit_topo_deps_dom (Inr (svcs, deps, st')) \<Longrightarrow> fst st' \<subseteq> fst (topo_deps svcs deps st')"
proof (induction svcs node st and svcs deps st' rule: topo_visit_topo_deps.pinduct)
  case (1 svcs node st)
  then show ?case by (cases st) (auto simp: topo_visit.psimps split: prod.splits)
next
  case (2 svcs st)
  then show ?case by (simp add: topo_deps.psimps)
next
  case (3 svcs dep deps st)
  then show ?case by (cases st) (auto simp: topo_deps.psimps)
qed

termination topo_visit
proof (relation "measures [\<lambda>x. case x of Inl (svcs, node, st) \<Rightarrow> unvisited svcs (insert node (fst st))
      | Inr (svcs, deps, st) \<Rightarrow> unvisited svcs (fst st),
    \<lambda>x. case x of Inl (svcs, node, st) \<Rightarrow> 2 * length (deps_of svcs node) + 2 | Inr (svcs, deps, st) \<Rightarrow> 2 * length deps + 1]",
    goal_cases)
  case (3 svcs dep deps st visited order)
  show ?case
  proof (cases "map_of svcs dep")
    case None
    have "unvisited svcs (insert dep visited) \<le> unvisited svcs visited" by (rule unvisited_mono) auto
    with 3 None show ?thesis by (auto simp: deps_of_def)
  next
    case (Some s)
    with 3 unvisited_insert [of dep visited svcs s] show ?thesis by auto
  qed
next
  case (4 svcs dep deps st visited order)
  then have "visited \<subseteq> fst (topo_visit svcs dep (visited, order))"
    using topo_grows_dom(1) [of svcs dep "(visited, order)"] by auto
  then show ?case using unvisited_mono [of visited _ svcs] 4 by (auto simp: order.strict_iff_order)
qed auto

declare topo_visit.simps [simp del]

section \<open>Validation\<close>

text \<open>The loops over the names of the services.\<close>

fun circular_from :: "services \<Rightarrow> string list \<Rightarrow> search \<Rightarrow> bool" where
  "circular_from svcs [] st = False"
| "circular_from svcs (name # names) st =
     (if name \<notin> fst st then
        (case dfs_cycle svcs name st of (True, st') \<Rightarrow> True | (False, st') \<Rightarrow> circular_from svcs names st')
      else circular_from svcs names st)"

definition has_circular_deps :: "services \<Rightarrow> bool" where
  "has_circular_deps svcs = circular_from svcs (map fst svcs) ({}, {})"

fun order_from :: "services \<Rightarrow> string list \<Rightarrow> ordering \<Rightarrow> ordering" where
  "order_from svcs [] st = st"
| "order_from svcs (name # names) st =
     order_from svcs names (if name \<notin> fst st then topo_visit svcs name st else st)"

definition topological_order :: "services \<Rightarrow> string list" where
  "topological_order svcs = snd (order_from svcs (map fst svcs) ({}, []))"

fun first_error :: "('a \<Rightarrow> parse_error + unit) \<Rightarrow> 'a list \<Rightarrow> parse_error + unit" where
  "first_error f [] = Inr ()"
| "first_error f (x # xs) = and_then (f x) (\<lambda>_. first_error f xs)"

definition check_dep :: "services \<Rightarrow> string \<Rightarrow> string \<Rightarrow> parse_error + unit" where
  "check_dep svcs name dep =
     and_then (require (has_key svcs dep) (ConfigInterpolation
       (''service '' @ squote name @ '': depends_on references unknown service '' @ squote dep))) (\<lambda>_.
     require (dep \<noteq> name) (ConfigInterpolation (''service '' @ squote name @ '': cannot depend on itself'')))"

fun check_ports :: "services \<Rightarrow> (nat \<times> string) list \<Rightarrow> parse_error + unit" where
  "check_ports [] ports = Inr ()"
| "check_ports ((name, svc) # svcs) ports = (case map_of ports (sd_port svc) of
     Some existing \<Rightarrow> Inl (ConfigInterpolation (''services '' @ squote existing @ '' and '' @ squote name
       @ '' use the same port '' @ show_nat (sd_port svc)))
   | None \<Rightarrow> check_ports svcs ((sd_port svc, name) # ports))"

definition validate_workspace :: "'s workspace_config \<Rightarrow> parse_error + unit" where
  "validate_workspace config =
     and_then (require (wc_workspace config \<noteq> []) (ConfigInterpolation ''workspace name cannot be empty'')) (\<lambda>_.
     and_then (require (wc_services config \<noteq> [])
       (ConfigInterpolation ''workspace must declare at least one service'')) (\<lambda>_.
     and_then (first_error (\<lambda>(name, svc). first_error (check_dep (wc_services config) name) (sd_depends_on svc))
       (wc_services config)) (\<lambda>_.
     and_then (require (\<not> has_circular_deps (wc_services config))
       (ConfigInterpolation ''workspace has circular service dependencies'')) (\<lambda>_.
       check_ports (wc_services config) []))))"

definition parse_workspace :: "(string \<Rightarrow> string option) \<Rightarrow> (string \<Rightarrow> string + 's workspace_config) \<Rightarrow> string \<Rightarrow>
    parse_error + 's workspace_config" where
  "parse_workspace env from_yaml yaml =
     and_then (interpolate_env env yaml) (\<lambda>text.
       (case from_yaml text of Inl e \<Rightarrow> Inl (YamlError e)
        | Inr config \<Rightarrow> and_then (validate_workspace config) (\<lambda>_. Inr config)))"

definition is_valid_action :: "string \<Rightarrow> bool" where
  "is_valid_action action = (case split_once CHR '' '' action of
     None \<Rightarrow> False
   | Some (m, path) \<Rightarrow> m \<in> {''GET'', ''POST'', ''PUT'', ''PATCH'', ''DELETE''} \<and> prefix ''/'' path)"

fun check_steps :: "string \<Rightarrow> string set \<Rightarrow> saga_step list \<Rightarrow> parse_error + unit" where
  "check_steps saga seen [] = Inr ()"
| "check_steps saga seen (st # sts) =
     and_then (require (sp_name st \<notin> seen) (ConfigInterpolation
       (''saga '' @ squote saga @ '': duplicate step name '' @ squote (sp_name st)))) (\<lambda>_.
     and_then (require (is_valid_action (sp_action st)) (ConfigInterpolation (''saga '' @ squote saga @ '' step ''
       @ squote (sp_name st) @ '': action must be '' @ squote ''METHOD /path'' @ '' (e.g. '' @ squote ''POST /v1/items''
       @ ''), got '' @ squote (sp_action st)))) (\<lambda>_.
     and_then (require (is_valid_action (sp_compensate st)) (ConfigInterpolation (''saga '' @ squote saga @ '' step ''
       @ squote (sp_name st) @ '': compensate must be '' @ squote ''METHOD /path'' @ '', got ''
       @ squote (sp_compensate st)))) (\<lambda>_.
       check_steps saga (insert (sp_name st) seen) sts)))"

definition validate_saga :: "saga_definition \<Rightarrow> parse_error + unit" where
  "validate_saga saga =
     and_then (require (sd_saga saga \<noteq> []) (ConfigInterpolation ''saga name cannot be empty'')) (\<lambda>_.
     and_then (require (sd_steps saga \<noteq> [])
       (ConfigInterpolation (''saga '' @ squote (sd_saga saga) @ '': must have at least one step''))) (\<lambda>_.
       check_steps (sd_saga saga) {} (sd_steps saga)))"

definition parse_saga :: "(string \<Rightarrow> string + saga_definition) \<Rightarrow> string \<Rightarrow> parse_error + saga_definition" where
  "parse_saga from_yaml yaml = (case from_yaml yaml of
     Inl e \<Rightarrow> Inl (YamlError e)
   | Inr saga \<Rightarrow> and_then (validate_saga saga) (\<lambda>_. Inr saga))"

section \<open>Resource files\<close>

definition bigint_removed :: parse_error where
  "bigint_removed = RemovedType ''E_BIGINT_REMOVED'' (''type '' @ squote ''bigint'' @ '' was removed in v0.13.0 ''
     @ [CHR 0xE2, CHR 0x80, CHR 0x94] @ '' use '' @ squote ''integer'' @ '' (now 64-bit by default).'')"

definition parse_resource_str :: "(string \<Rightarrow> string + resource_definition) \<Rightarrow> string \<Rightarrow> parse_error + resource_definition" where
  "parse_resource_str from_yaml yaml =
     (if contains_str ''type: bigint'' yaml then Inl bigint_removed
      else (case from_yaml yaml of Inl e \<Rightarrow> Inl (YamlError e) | Inr rd \<Rightarrow> Inr rd))"

definition parse_resource :: "(string \<Rightarrow> string + resource_definition) \<Rightarrow> string \<Rightarrow> parse_error + resource_definition" where
  "parse_resource from_yaml yaml = and_then (parse_resource_str from_yaml yaml) (\<lambda>rd. Inr (apply_endpoint_defaults rd))"

definition parse_resource_file :: "(string \<Rightarrow> string + string) \<Rightarrow> (string \<Rightarrow> string + resource_definition) \<Rightarrow> string \<Rightarrow>
    parse_error + resource_definition" where
  "parse_resource_file read_file from_yaml path = (case read_file path of
     Inl e \<Rightarrow> Inl (IoError e)
   | Inr content \<Rightarrow> (case parse_resource from_yaml content of
       Inl e \<Rightarrow> Inl (Context path e) | Inr rd \<Rightarrow> Inr rd))"

section \<open>The search finds exactly the cycles\<close>

definition dep_rel :: "services \<Rightarrow> (string \<times> string) set" where
  "dep_rel svcs = {(n, d). d \<in> set (deps_of svcs n)}"

definition search_ok :: "services \<Rightarrow> string set \<Rightarrow> string set \<Rightarrow> bool" where
  "search_ok svcs V S \<longleftrightarrow> S \<subseteq> V
     \<and> (\<forall>b \<in> V - S. set (deps_of svcs b) \<subseteq> V - S \<and> (b, b) \<notin> (dep_rel svcs)\<^sup>+)"

lemma closed_no_return:
  assumes "\<forall>b \<in> B. set (deps_of svcs b) \<subseteq> B" and "set (deps_of svcs n) \<subseteq> B" and "n \<notin> B"
  shows "(n, n) \<notin> (dep_rel svcs)\<^sup>+"
proof
  have "y \<in> B" if "(x, y) \<in> (dep_rel svcs)\<^sup>+" and "x = n" for x y
    using that
  proof (induction rule: trancl_induct)
    case (base y)
    then show ?case using assms(2) by (auto simp: dep_rel_def)
  next
    case (step y z)
    then show ?case using assms(1) by (auto simp: dep_rel_def)
  qed
  moreover assume "(n, n) \<in> (dep_rel svcs)\<^sup>+"
  ultimately show False using assms(3) by blast
qed

lemma search_ok_leave:
  assumes "search_ok svcs V (insert n S)" and "n \<notin> S" and "n \<in> V" and "set (deps_of svcs n) \<subseteq> V - insert n S"
  shows "search_ok svcs V S"
proof -
  let ?B = "V - insert n S"
  have B: "\<forall>b \<in> ?B. set (deps_of svcs b) \<subseteq> ?B" and S: "insert n S \<subseteq> V"
    and acyc: "\<forall>b \<in> ?B. (b, b) \<notin> (dep_rel svcs)\<^sup>+"
    using assms(1) unfolding search_ok_def by blast+
  have "(n, n) \<notin> (dep_rel svcs)\<^sup>+"
    using closed_no_return [OF B assms(4)] by blast
  moreover have "V - S = insert n ?B" using assms(2,3) by blast
  ultimately show ?thesis using B S acyc assms(4) unfolding search_ok_def by blast
qed

lemma dfs_correct:
  "search_ok svcs (fst st) (snd st) \<Longrightarrow> node \<notin> fst st \<Longrightarrow> \<forall>s \<in> snd st. (s, node) \<in> (dep_rel svcs)\<^sup>+ \<Longrightarrow>
    (if fst (dfs_cycle svcs node st) then \<exists>x. (x, x) \<in> (dep_rel svcs)\<^sup>+
     else snd (snd (dfs_cycle svcs node st)) = snd st
       \<and> search_ok svcs (fst (snd (dfs_cycle svcs node st))) (snd st)
       \<and> insert node (fst st) \<subseteq> fst (snd (dfs_cycle svcs node st)))"
  "search_ok svcs (fst st') (snd st') \<Longrightarrow> p \<in> snd st' \<Longrightarrow> set deps \<subseteq> set (deps_of svcs p) \<Longrightarrow>
    \<forall>s \<in> snd st'. (s, p) \<in> (dep_rel svcs)\<^sup>* \<Longrightarrow>
    (if fst (dfs_deps svcs deps st') then \<exists>x. (x, x) \<in> (dep_rel svcs)\<^sup>+
     else snd (snd (dfs_deps svcs deps st')) = snd st'
       \<and> search_ok svcs (fst (snd (dfs_deps svcs deps st'))) (snd st')
       \<and> fst st' \<subseteq> fst (snd (dfs_deps svcs deps st'))
       \<and> set deps \<subseteq> fst (snd (dfs_deps svcs deps st')) - snd st')"
proof (induction svcs node st and svcs deps st' arbitrary: and p rule: dfs_cycle_dfs_deps.induct)
  case (1 svcs node st)
  obtain V S where st: "st = (V, S)" by fastforce
  let ?st = "(insert node V, insert node S)"
  have n: "node \<notin> S" using "1.prems" by (auto simp: st search_ok_def)
  have "insert node V - insert node S = V - S" using n "1.prems"(2) by (auto simp: st)
  then have ok: "search_ok svcs (insert node V) (insert node S)"
    using "1.prems"(1) by (auto simp: st search_ok_def)
  have "\<forall>s \<in> S. (s, node) \<in> (dep_rel svcs)\<^sup>*"
    using "1.prems"(3) by (auto simp: st trancl_into_rtrancl)
  note ih = "1.IH" [OF st [symmetric], of node, simplified, OF ok this]
  obtain b V' S' where r: "dfs_deps svcs (deps_of svcs node) ?st = (b, (V', S'))" by (metis surj_pair)
  show ?case
  proof (cases b)
    case True
    then show ?thesis using ih r by (simp add: dfs_cycle.simps st)
  next
    case False
    then have f: "S' = insert node S" "search_ok svcs V' (insert node S)" "insert node V \<subseteq> V'"
      "set (deps_of svcs node) \<subseteq> V' - insert node S"
      using ih r by auto
    have "search_ok svcs V' S" using search_ok_leave [OF f(2) n _ f(4)] f(3) by blast
    moreover have "dfs_cycle svcs node st = (False, (V', S))"
      using False r f(1) n by (simp add: dfs_cycle.simps st)
    ultimately show ?thesis using f(3) by (simp add: st)
  qed
next
  case (2 svcs st)
  then show ?case by simp
next
  case (3 svcs dep deps st)
  obtain V S where st: "st = (V, S)" by fastforce
  have edge: "(p, dep) \<in> dep_rel svcs" using "3.prems"(3) by (auto simp: dep_rel_def)
  then have up: "\<forall>s \<in> S. (s, dep) \<in> (dep_rel svcs)\<^sup>+"
    using "3.prems"(4) by (auto simp: st intro: rtrancl_into_trancl1)
  show ?case
  proof (cases "dep \<notin> V")
    case True
    obtain b V1 S1 where r: "dfs_cycle svcs dep (V, S) = (b, (V1, S1))" by (metis surj_pair)
    have ih: "if b then \<exists>x. (x, x) \<in> (dep_rel svcs)\<^sup>+ else S1 = S \<and> search_ok svcs V1 S \<and> insert dep V \<subseteq> V1"
      using "3.IH"(1) [OF st [symmetric] True] "3.prems"(1) up r True by (cases b) (simp_all add: st)
    show ?thesis
    proof (cases b)
      case True
      then show ?thesis using ih r \<open>dep \<notin> V\<close> by (simp add: st)
    next
      case False
      then have f: "S1 = S" "search_ok svcs V1 S" "insert dep V \<subseteq> V1" using ih by auto
      have "if fst (dfs_deps svcs deps (V1, S)) then \<exists>x. (x, x) \<in> (dep_rel svcs)\<^sup>+
        else snd (snd (dfs_deps svcs deps (V1, S))) = S \<and> search_ok svcs (fst (snd (dfs_deps svcs deps (V1, S)))) S
          \<and> V1 \<subseteq> fst (snd (dfs_deps svcs deps (V1, S)))
          \<and> set deps \<subseteq> fst (snd (dfs_deps svcs deps (V1, S))) - S"
        using "3.IH"(2) [OF st [symmetric] True, of b "(V1, S1)", simplified, of p] "3.prems" r False f
        by (simp add: st split: if_splits)
      moreover have "dep \<notin> S" using "3.prems"(1) \<open>dep \<notin> V\<close> by (auto simp: st search_ok_def)
      ultimately show ?thesis using r False f True by (auto simp: st split: if_splits)
    qed
  next
    case False
    show ?thesis
    proof (cases "dep \<in> S")
      case True
      then show ?thesis using False up by (auto simp: st)
    next
      case black: False
      have "if fst (dfs_deps svcs deps (V, S)) then \<exists>x. (x, x) \<in> (dep_rel svcs)\<^sup>+
        else snd (snd (dfs_deps svcs deps (V, S))) = S \<and> search_ok svcs (fst (snd (dfs_deps svcs deps (V, S)))) S
          \<and> V \<subseteq> fst (snd (dfs_deps svcs deps (V, S)))
          \<and> set deps \<subseteq> fst (snd (dfs_deps svcs deps (V, S))) - S"
        using "3.IH"(3) [OF st [symmetric] _ black, of p] "3.prems" False by (simp add: st split: if_splits)
      then show ?thesis using False black by (auto simp: st split: if_splits)
    qed
  qed
qed

lemma circular_from_correct:
  assumes "search_ok svcs V {}"
  shows "if circular_from svcs names (V, {}) then \<exists>x. (x, x) \<in> (dep_rel svcs)\<^sup>+
    else \<exists>V'. search_ok svcs V' {} \<and> V \<subseteq> V' \<and> set names \<subseteq> V'"
  using assms
proof (induction names arbitrary: V)
  case (Cons name names)
  show ?case
  proof (cases "name \<in> V")
    case True
    then show ?thesis using Cons.IH [OF Cons.prems] by (simp split: if_splits) blast
  next
    case False
    obtain b V' S' where r: "dfs_cycle svcs name (V, {}) = (b, (V', S'))" by (metis surj_pair)
    have "if b then \<exists>x. (x, x) \<in> (dep_rel svcs)\<^sup>+ else S' = {} \<and> search_ok svcs V' {} \<and> insert name V \<subseteq> V'"
      using dfs_correct(1) [of svcs "(V, {})" name] Cons.prems False r by (cases b) simp_all
    then show ?thesis using r False Cons.IH [of V'] by (cases b) (auto split: if_splits)
  qed
qed auto

lemma dep_rel_service: "(x, y) \<in> (dep_rel svcs)\<^sup>+ \<Longrightarrow> x \<in> fst ` set svcs"
proof -
  have "x \<in> fst ` set svcs" if "(x, z) \<in> dep_rel svcs" for z
    using that by (cases "map_of svcs x")
      (auto simp: dep_rel_def deps_of_def dest!: map_of_SomeD intro: rev_image_eqI)
  then show "(x, y) \<in> (dep_rel svcs)\<^sup>+ \<Longrightarrow> x \<in> fst ` set svcs" by (blast dest: tranclD)
qed

lemma has_circular_deps_iff: "has_circular_deps svcs \<longleftrightarrow> (\<exists>x. (x, x) \<in> (dep_rel svcs)\<^sup>+)"
proof -
  have "search_ok svcs {} {}" by (simp add: search_ok_def)
  from circular_from_correct [OF this, of "map fst svcs"] show ?thesis
    unfolding has_circular_deps_def search_ok_def
    by (auto split: if_splits dest: dep_rel_service) (blast dest: dep_rel_service)+
qed

section \<open>The startup order respects the dependencies\<close>

definition deps_first :: "services \<Rightarrow> string list \<Rightarrow> bool" where
  "deps_first svcs order \<longleftrightarrow> (\<forall>i < length order. set (deps_of svcs (order ! i)) \<subseteq> set (take i order))"

lemma deps_first_snoc:
  "deps_first svcs (order @ [n]) \<longleftrightarrow> deps_first svcs order \<and> set (deps_of svcs n) \<subseteq> set order"
  by (auto simp: deps_first_def nth_append less_Suc_eq)

definition order_ok :: "services \<Rightarrow> ordering \<Rightarrow> bool" where
  "order_ok svcs st \<longleftrightarrow> fst st \<subseteq> fst ` set svcs \<and> distinct (snd st) \<and> set (snd st) \<subseteq> fst st \<and> deps_first svcs (snd st)"

abbreviation pending :: "ordering \<Rightarrow> string set" where
  "pending st \<equiv> fst st - set (snd st)"

lemma topo_correct:
  assumes acyclic: "\<forall>x. (x, x) \<notin> (dep_rel svcs0)\<^sup>+" and known: "\<forall>n. set (deps_of svcs0 n) \<subseteq> fst ` set svcs0"
  shows "svcs = svcs0 \<Longrightarrow> order_ok svcs0 st \<Longrightarrow> node \<notin> fst st \<Longrightarrow> node \<in> fst ` set svcs0 \<Longrightarrow>
      \<forall>g \<in> pending st. (g, node) \<in> (dep_rel svcs0)\<^sup>+ \<Longrightarrow>
      order_ok svcs0 (topo_visit svcs node st) \<and> pending (topo_visit svcs node st) = pending st
      \<and> insert node (set (snd st)) \<subseteq> set (snd (topo_visit svcs node st)) \<and> fst st \<subseteq> fst (topo_visit svcs node st)"
    and "svcs = svcs0 \<Longrightarrow> order_ok svcs0 st' \<Longrightarrow> p \<in> pending st' \<Longrightarrow> set deps \<subseteq> set (deps_of svcs0 p) \<Longrightarrow>
      \<forall>g \<in> pending st'. (g, p) \<in> (dep_rel svcs0)\<^sup>* \<Longrightarrow>
      order_ok svcs0 (topo_deps svcs deps st') \<and> pending (topo_deps svcs deps st') = pending st'
      \<and> set deps \<union> set (snd st') \<subseteq> set (snd (topo_deps svcs deps st')) \<and> fst st' \<subseteq> fst (topo_deps svcs deps st')"
proof (induction svcs node st and svcs deps st' arbitrary: and p rule: topo_visit_topo_deps.induct)
  case (1 svcs node st)
  obtain V ord where st: "st = (V, ord)" by fastforce
  have n: "node \<notin> V" "node \<notin> set ord" using "1.prems" by (auto simp: st order_ok_def)
  have ok: "order_ok svcs0 (insert node V, ord)" using "1.prems" by (auto simp: st order_ok_def)
  have up: "\<forall>g \<in> pending (insert node V, ord). (g, node) \<in> (dep_rel svcs0)\<^sup>*"
    using "1.prems"(5) by (auto simp: st trancl_into_rtrancl)
  obtain V' ord' where r: "topo_deps svcs (deps_of svcs node) (insert node V, ord) = (V', ord')"
    by (metis surj_pair)
  have ih: "order_ok svcs0 (V', ord')" "V' - set ord' = insert node V - set ord"
    "set (deps_of svcs0 node) \<union> set ord \<subseteq> set ord'" "insert node V \<subseteq> V'"
    using "1.IH" [OF st [symmetric] "1.prems"(1) ok, of node] "1.prems"(1) up n r by auto
  have "topo_visit svcs node st = (V', ord' @ [node])" using r by (simp add: topo_visit.simps st)
  moreover have "node \<notin> set ord'" using ih(2) n by auto
  moreover have "V' - insert node (set ord') = V - set ord" using ih(2) n by auto
  ultimately show ?case
    using ih by (auto simp: st order_ok_def deps_first_snoc)
next
  case (2 svcs st)
  then show ?case by simp
next
  case (3 svcs dep deps st)
  obtain V ord where st: "st = (V, ord)" by fastforce
  have edge: "(p, dep) \<in> dep_rel svcs0" using "3.prems"(4) by (auto simp: dep_rel_def)
  then have up: "\<forall>g \<in> pending st. (g, dep) \<in> (dep_rel svcs0)\<^sup>+"
    using "3.prems"(5) by (auto intro: rtrancl_into_trancl1)
  have dep: "dep \<in> fst ` set svcs0" using known "3.prems"(4) by auto
  show ?case
  proof (cases "dep \<notin> V")
    case True
    obtain V1 ord1 where r: "topo_visit svcs dep (V, ord) = (V1, ord1)" by (metis surj_pair)
    have v: "order_ok svcs0 (V1, ord1)" "V1 - set ord1 = V - set ord" "insert dep (set ord) \<subseteq> set ord1" "V \<subseteq> V1"
      using "3.IH"(1) [OF st [symmetric] True "3.prems"(1)] "3.prems"(2) True dep up r by (auto simp: st)
    have "order_ok svcs0 (topo_deps svcs deps (V1, ord1)) \<and> pending (topo_deps svcs deps (V1, ord1)) = pending (V1, ord1)
      \<and> set deps \<union> set (snd (V1, ord1)) \<subseteq> set (snd (topo_deps svcs deps (V1, ord1)))
      \<and> fst (V1, ord1) \<subseteq> fst (topo_deps svcs deps (V1, ord1))"
      using "3.IH"(2) [OF st [symmetric] True "3.prems"(1), of p] r v(1,2) "3.prems"(3-5) by (simp add: st)
    then show ?thesis using r True v by (simp add: st) blast
  next
    case False
    have "dep \<in> set ord"
    proof (rule ccontr)
      assume "dep \<notin> set ord"
      then have "(dep, dep) \<in> (dep_rel svcs0)\<^sup>+" using False up by (auto simp: st)
      with acyclic show False by blast
    qed
    then show ?thesis using "3.IH"(3) [OF st [symmetric] _ "3.prems"(1), of p] "3.prems"(2-5) False
      by (simp add: st) blast
  qed
qed

lemma order_from_correct:
  assumes "\<forall>x. (x, x) \<notin> (dep_rel svcs)\<^sup>+" and "\<forall>n. set (deps_of svcs n) \<subseteq> fst ` set svcs"
  shows "order_ok svcs st \<Longrightarrow> pending st = {} \<Longrightarrow> set names \<subseteq> fst ` set svcs \<Longrightarrow>
    order_ok svcs (order_from svcs names st) \<and> set names \<union> set (snd st) \<subseteq> set (snd (order_from svcs names st))"
proof (induction names arbitrary: st)
  case (Cons name names)
  show ?case
  proof (cases "name \<in> fst st")
    case True
    then have "name \<in> set (snd st)" using Cons.prems(2) by blast
    then show ?thesis using True Cons.IH [OF Cons.prems(1,2)] Cons.prems(3) by auto
  next
    case False
    have v: "order_ok svcs (topo_visit svcs name st)" "pending (topo_visit svcs name st) = {}"
      "insert name (set (snd st)) \<subseteq> set (snd (topo_visit svcs name st))"
      using topo_correct(1) [OF assms refl Cons.prems(1) False] Cons.prems(2,3) by auto
    then show ?thesis using False Cons.IH [OF v(1,2)] Cons.prems(3) by auto
  qed
qed simp

section \<open>Which files are accepted\<close>

lemma first_error_ok: "first_error f xs = Inr () \<longleftrightarrow> (\<forall>x \<in> set xs. f x = Inr ())"
  by (induction xs) (auto simp: result_simps)

lemma check_ports_ok:
  "check_ports svcs ports = Inr () \<longleftrightarrow> distinct (map (sd_port \<circ> snd) svcs)
     \<and> (\<forall>(n, s) \<in> set svcs. sd_port s \<notin> fst ` set ports)"
  by (induction svcs ports rule: check_ports.induct)
    (auto simp: map_of_eq_None_iff split: option.splits dest: map_of_SomeD intro: rev_image_eqI)

text \<open>A workspace is accepted exactly when it is named, has a service, every dependency names
  another service of it, no service depends on itself through others, and no two services share a
  port: the depth-first search, which terminates on every graph, finds exactly the cycles.\<close>

lemma workspace_accepted_iff:
  "validate_workspace config = Inr () \<longleftrightarrow> wc_workspace config \<noteq> [] \<and> wc_services config \<noteq> []
     \<and> (\<forall>(n, s) \<in> set (wc_services config). \<forall>d \<in> set (sd_depends_on s). has_key (wc_services config) d \<and> d \<noteq> n)
     \<and> (\<nexists>x. (x, x) \<in> (dep_rel (wc_services config))\<^sup>+)
     \<and> distinct (map (sd_port \<circ> snd) (wc_services config))"
  by (simp add: validate_workspace_def result_simps first_error_ok check_dep_def has_circular_deps_iff check_ports_ok
      split_beta)

definition sample_services :: services where
  "sample_services = [(''orders'', \<lparr>sd_path = ''services/orders'', sd_port = 3002, sd_depends_on = [''users'']\<rparr>),
     (''users'', \<lparr>sd_path = ''services/users'', sd_port = 3001, sd_depends_on = []\<rparr>)]"

definition sample_workspace :: "unit workspace_config" where
  "sample_workspace = \<lparr>wc_workspace = ''platform'', wc_services = sample_services, wc_shared = None\<rparr>"

text \<open>C37. The startup order of an accepted workspace lists every service once, each after all the
  services it depends on.\<close>

theorem startup_order_correct:
  assumes "validate_workspace config = Inr ()"
  shows "distinct (topological_order (wc_services config))
    \<and> set (topological_order (wc_services config)) = fst ` set (wc_services config)
    \<and> deps_first (wc_services config) (topological_order (wc_services config))"
proof -
  let ?s = "wc_services config"
  have dep: "(n, s) \<in> set ?s \<Longrightarrow> d \<in> set (sd_depends_on s) \<Longrightarrow> has_key ?s d" for n s d
    using assms by (auto simp: validate_workspace_def result_simps first_error_ok check_dep_def)
  have acyclic: "\<forall>x. (x, x) \<notin> (dep_rel ?s)\<^sup>+"
    using assms by (auto simp: validate_workspace_def result_simps has_circular_deps_iff)
  have "d \<in> fst ` set ?s" if d: "d \<in> set (deps_of ?s n)" for n d
  proof -
    obtain s where "map_of ?s n = Some s" and "d \<in> set (sd_depends_on s)"
      using d by (cases "map_of ?s n") (auto simp: deps_of_def)
    then show ?thesis using dep [of n s d] by (auto simp: dom_map_of_conv_image_fst [symmetric] dest: map_of_SomeD)
  qed
  then have "\<forall>n. set (deps_of ?s n) \<subseteq> fst ` set ?s" by blast
  from order_from_correct [OF acyclic this, of "({}, [])" "map fst ?s"]
  have "order_ok ?s (order_from ?s (map fst ?s) ({}, []))"
    and "fst ` set ?s \<subseteq> set (topological_order ?s)"
    by (auto simp: order_ok_def deps_first_def topological_order_def)
  then show ?thesis by (auto simp: order_ok_def topological_order_def)
qed

lemma sample_workspace_ok: "validate_workspace sample_workspace = Inr ()"
  by code_simp

theorem startup_order_correct_witness:
  "set (topological_order sample_services) = {''users'', ''orders''}
    \<and> deps_first sample_services (topological_order sample_services)"
  using startup_order_correct [OF sample_workspace_ok] by (auto simp: sample_workspace_def sample_services_def)

section \<open>Placeholders are expanded one by one\<close>

datatype placeholder = Var string | VarOr string string

fun placeholder_text :: "placeholder \<Rightarrow> string" where
  "placeholder_text (Var n) = ''${'' @ n @ ''}''"
| "placeholder_text (VarOr n d) = ''${'' @ n @ '':'' @ d @ ''}''"

fun placeholder_wf :: "placeholder \<Rightarrow> bool" where
  "placeholder_wf (Var n) \<longleftrightarrow> n \<noteq> [] \<and> CHR '':'' \<notin> set n \<and> CHR ''}'' \<notin> set n"
| "placeholder_wf (VarOr n d) \<longleftrightarrow> n \<noteq> [] \<and> CHR '':'' \<notin> set n \<and> CHR ''}'' \<notin> set n \<and> CHR ''}'' \<notin> set d"

fun lookup_placeholder :: "(string \<Rightarrow> string option) \<Rightarrow> placeholder \<Rightarrow> parse_error + string" where
  "lookup_placeholder env (Var n) =
     ok_or (ConfigInterpolation (''environment variable '' @ squote n @ '' is not set'')) (env n)"
| "lookup_placeholder env (VarOr n d) = Inr (case env n of Some v \<Rightarrow> v | None \<Rightarrow> d)"

text \<open>A file is a sequence of plain texts and placeholders, and a plain text at the end.\<close>

definition file_text :: "(string \<times> placeholder) list \<Rightarrow> string \<Rightarrow> string" where
  "file_text segs end_text = concat (map (\<lambda>(l, p). l @ placeholder_text p) segs) @ end_text"

fun expand_file :: "(string \<Rightarrow> string option) \<Rightarrow> (string \<times> placeholder) list \<Rightarrow> string \<Rightarrow> parse_error + string" where
  "expand_file env [] end_text = Inr end_text"
| "expand_file env ((l, p) # segs) end_text =
     and_then (lookup_placeholder env p) (\<lambda>v. and_then (expand_file env segs end_text) (\<lambda>r. Inr (l @ v @ r)))"

lemma find_placeholder_found:
  "find_placeholder l = None \<Longrightarrow> find_placeholder (l @ ''${'' @ r) = Some (l, r)"
proof (induction l)
  case (Cons c l)
  then show ?case by (cases l) (auto split: if_splits)
qed simp

lemma split_once_at: "c \<notin> set a \<Longrightarrow> split_once c (a @ c # b) = Some (a, b)"
  by (simp add: split_once_Some_iff)

lemma split_once_absent: "c \<notin> set a \<Longrightarrow> split_once c a = None"
  by (simp add: split_once_None_iff)

lemma placeholder_inner:
  assumes "placeholder_wf p"
  shows "\<exists>t. placeholder_text p = ''${'' @ t @ ''}'' \<and> CHR ''}'' \<notin> set t
    \<and> placeholder_value env t = lookup_placeholder env p"
proof (cases p)
  case (Var n)
  with assms show ?thesis
    by (intro exI [of _ n]) (auto simp: placeholder_value_def placeholder_parts_def split_once_absent ok_or_def split: option.splits)
next
  case (VarOr n d)
  with assms show ?thesis
    by (intro exI [of _ "n @ '':'' @ d"])
      (auto simp: placeholder_value_def placeholder_parts_def split_once_at split: option.splits)
qed

text \<open>Configuration files are interpolated segment by segment: every placeholder is replaced by
  its variable, or by its default when the variable is not set, the plain text is kept, and the
  first placeholder without either is the error; substituted values are not expanded again.\<close>

lemma interpolation_expands:
  assumes "\<forall>(l, p) \<in> set segs. find_placeholder l = None \<and> placeholder_wf p" and "find_placeholder end_text = None"
  shows "interpolate_env env (file_text segs end_text) = expand_file env segs end_text"
  using assms(1)
proof (induction segs)
  case Nil
  then show ?case using assms(2) by (simp add: file_text_def interpolate_env.simps)
next
  case (Cons seg segs)
  obtain l p where seg: "seg = (l, p)" by fastforce
  obtain t where t: "placeholder_text p = ''${'' @ t @ ''}''" "CHR ''}'' \<notin> set t"
    "placeholder_value env t = lookup_placeholder env p"
    using placeholder_inner [of p env] Cons.prems by (auto simp: seg)
  have f: "file_text (seg # segs) end_text = l @ ''${'' @ t @ CHR ''}'' # file_text segs end_text"
    by (simp add: file_text_def seg t(1))
  have "find_placeholder (file_text (seg # segs) end_text) = Some (l, t @ CHR ''}'' # file_text segs end_text)"
    unfolding f using Cons.prems by (intro find_placeholder_found) (simp add: seg)
  then show ?case using Cons t(2,3)
    by (subst interpolate_env.simps) (simp add: split_once_at seg)
qed

end
