(* ===== verification/Diagnostics.thy ===== *)
theory Diagnostics
  imports Resource_Validator Workspace
begin

text \<open>
  The structured diagnostics of resource files, \<open>shaperail-codegen/src/diagnostics/\<close>: the registry of
  codes, the checks of \<open>diagnose_resource\<close> with their fix suggestions, the spans of \<open>span.rs\<close> and
  \<open>diagnose_file\<close> of \<open>parser.rs\<close>. It is a second set of checks beside the validator of
  \<open>Resource_Validator\<close>; the lemmas relate the two.
\<close>

section \<open>The registry\<close>

datatype severity = SevError | SevWarning | SevInfo

record registry_entry =
  ge_code :: string
  ge_summary :: string
  ge_severity :: severity

definition entry :: "string \<Rightarrow> string \<Rightarrow> registry_entry" where
  "entry code summary = \<lparr>ge_code = code, ge_summary = summary, ge_severity = SevError\<rparr>"

definition registry :: "registry_entry list" where
  "registry =
    [entry ''SR000'' ''YAML parse error'',
     entry ''SR001'' ''resource name must not be empty'',
     entry ''SR002'' ''version must be >= 1'',
     entry ''SR003'' (''schema is empty '' @ [CHR 0xE2, CHR 0x80, CHR 0x94] @ '' must have at least one field''),
     entry ''SR004'' ''schema has no primary key field'',
     entry ''SR005'' ''schema has more than one primary key field'',
     entry ''SR010'' ''field is type enum but declares no values'',
     entry ''SR011'' ''non-enum field declares values list'',
     entry ''SR012'' ''ref on non-uuid field'',
     entry ''SR013'' ''ref value missing dot notation (expected resource.field)'',
     entry ''SR014'' ''array field has no items type declared'',
     entry ''SR015'' ''format attribute used on non-string field'',
     entry ''SR016'' ''primary key field is neither generated nor required'',
     entry ''SR020'' ''tenant_key references a field that is not type uuid'',
     entry ''SR021'' ''tenant_key references a field not found in schema'',
     entry ''SR030'' ''controller.before has an empty hook name'',
     entry ''SR031'' ''controller.after has an empty hook name'',
     entry ''SR032'' ''events list contains an empty event name'',
     entry ''SR033'' ''jobs list contains an empty job name'',
     entry ''SR035'' (''controller hook uses '' @ squote ''wasm:'' @ '' prefix but provides no path''),
     entry ''SR036'' (''controller hook WASM path does not end with '' @ squote ''.wasm''),
     entry ''SR040'' ''endpoint input/filter/search/sort references a field not in schema'',
     entry ''SR041'' ''soft_delete declared but schema has no deleted_at field'',
     entry ''SR050'' ''upload declared on an endpoint whose method is not POST, PATCH, or PUT'',
     entry ''SR051'' ''upload field exists in schema but is not type file'',
     entry ''SR052'' ''upload field not found in schema'',
     entry ''SR053'' ''upload storage backend is not one of: local, s3, gcs, azure'',
     entry ''SR054'' ''upload field is not listed in the endpoint input array'',
     entry ''SR060'' ''belongs_to relation is missing required key field'',
     entry ''SR061'' ''has_many or has_one relation is missing required foreign_key field'',
     entry ''SR062'' ''relation key field not found in schema'',
     entry ''SR063'' ''controller before/after list is empty'',
     entry ''SR070'' ''index definition has no fields listed'',
     entry ''SR071'' ''index references a field not found in schema'',
     entry ''SR072'' (''index order must be '' @ squote ''asc'' @ '' or '' @ squote ''desc''),
     entry ''SR073'' ''subscriber entry has an empty event pattern'',
     entry ''SR074'' ''subscriber entry has an empty handler name'',
     entry ''SR075'' ''non-convention endpoint has no handler declared'',
     entry ''SR076'' ''array field has nested array items (not supported)'',
     entry ''SR077'' ''array items type is enum but declares no values'',
     entry ''SR078'' ''array items.format is only valid when items.type is string'',
     entry ''SR079'' ''array items.ref requires items.type to be uuid'',
     entry ''SR080'' (''array items.ref must use '' @ squote ''resource.field'' @ '' dot notation'')]"

definition registry_lookup :: "string \<Rightarrow> registry_entry option" where
  "registry_lookup code = find (\<lambda>e. ge_code e = code) registry"

section \<open>Diagnostics\<close>

record span =
  spn_file :: string
  spn_line :: nat
  spn_col :: nat
  spn_end_line :: nat
  spn_end_col :: nat

record diagnostic =
  dg_code :: string
  dg_error :: string
  dg_fix :: string
  dg_example :: string
  dg_span :: "span option"
  dg_severity :: severity
  dg_doc_url :: "string option"

definition diag :: "string \<Rightarrow> string \<Rightarrow> string \<Rightarrow> string \<Rightarrow> diagnostic" where
  "diag code error fix_text example = \<lparr>dg_code = code, dg_error = error, dg_fix = fix_text, dg_example = example,
     dg_span = None,
     dg_severity = (case registry_lookup code of Some e \<Rightarrow> ge_severity e | None \<Rightarrow> SevError),
     dg_doc_url = Some (''https://shaperail.io/errors/'' @ code @ ''.html'')\<rparr>"

definition diagnostic_display :: "diagnostic \<Rightarrow> string" where
  "diagnostic_display d = ''['' @ dg_code d @ ''] '' @ dg_error d"

definition diag_if :: "bool \<Rightarrow> diagnostic \<Rightarrow> diagnostic list" where
  "diag_if c d = (if c then [d] else [])"

definition opt_diags :: "('a \<Rightarrow> diagnostic list) \<Rightarrow> 'a option \<Rightarrow> diagnostic list" where
  "opt_diags f x = (case x of None \<Rightarrow> [] | Some y \<Rightarrow> f y)"

section \<open>Fields\<close>

definition diagnose_items :: "string \<Rightarrow> string \<Rightarrow> items_spec \<Rightarrow> diagnostic list" where
  "diagnose_items res name it =
     diag_if (it_type it = FtArray) (diag ''SR076'' (field_msg res name ''has nested array items'')
       ''change items to type: json (nested arrays are not supported)'' (name @ '': { type: json }''))
   @ diag_if (it_type it = FtEnum \<and> it_values it = None)
       (diag ''SR077'' (field_msg res name ''enum items missing values'') ''add `values: [...]` to items''
         (name @ '': { type: array, items: { type: enum, values: [a, b] } }''))
   @ diag_if (it_format it \<noteq> None \<and> it_type it \<noteq> FtString)
       (diag ''SR078'' (field_msg res name ''items.format only valid on string'')
         ''remove items.format or change items.type to string''
         (name @ '': { type: array, items: { type: string, format: email } }''))
   @ diag_if (it_reference it \<noteq> None \<and> it_type it \<noteq> FtUuid)
       (diag ''SR079'' (field_msg res name ''items.ref requires items.type uuid'')
         ''change items.type to uuid, or remove items.ref''
         (name @ '': { type: array, items: { type: uuid, ref: organizations.id } }''))
   @ opt_diags (\<lambda>r. diag_if (\<not> contains_str ''.'' r)
       (diag ''SR080'' (field_msg res name (''items.ref must be '' @ squote ''resource.field''))
         (''write items.ref as '' @ squote ''resource_name.column_name'')
         ''items: { type: uuid, ref: organizations.id }'')) (it_reference it)"

definition diagnose_field :: "string \<Rightarrow> string \<times> field_schema \<Rightarrow> diagnostic list" where
  "diagnose_field res nf = (case nf of (name, f) \<Rightarrow>
     diag_if (fs_type f = FtEnum \<and> fs_values f = None)
       (diag ''SR010'' (field_msg res name ''is type enum but has no values'')
         (''add '' @ squote ''values: [value1, value2]'' @ '' to the '' @ squote name @ '' field'')
         (name @ '': { type: enum, values: [option_a, option_b] }''))
   @ diag_if (fs_type f \<noteq> FtEnum \<and> fs_values f \<noteq> None)
       (diag ''SR011'' (field_msg res name ''has values but is not type enum'')
         (''change the type to '' @ squote ''enum'' @ '' or remove '' @ squote ''values'' @ '' from '' @ squote name)
         (name @ '': { type: enum, values: [...] }''))
   @ diag_if (fs_reference f \<noteq> None \<and> fs_type f \<noteq> FtUuid)
       (diag ''SR012'' (field_msg res name ''has ref but is not type uuid'')
         (''change the type of '' @ squote name @ '' to uuid'')
         (name @ '': { type: uuid, ref: '' @ (case fs_reference f of Some r \<Rightarrow> r | None \<Rightarrow> ''resource.id'')
           @ '', required: true }''))
   @ opt_diags (\<lambda>r. diag_if (\<not> contains_str ''.'' r)
       (diag ''SR013'' (field_msg res name (''ref must be in '' @ squote ''resource.field'' @ '' format, got '' @ squote r))
         (''use '' @ squote ''resource_name.field_name'' @ '' format for the ref value'')
         (name @ '': { type: uuid, ref: organizations.id }''))) (fs_reference f)
   @ diag_if (fs_type f = FtArray \<and> fs_items f = None)
       (diag ''SR014'' (field_msg res name ''is type array but has no items'')
         (''add '' @ squote ''items: <element_type>'' @ '' to the '' @ squote name @ '' field'')
         (name @ '': { type: array, items: string }''))
   @ opt_diags (diagnose_items res name) (fs_items f)
   @ diag_if (fs_format f \<noteq> None \<and> fs_type f \<noteq> FtString)
       (diag ''SR015'' (field_msg res name ''has format but is not type string'')
         (''change the type of '' @ squote name @ '' to string, or remove '' @ squote ''format'')
         (name @ '': { type: string, format: '' @ (case fs_format f of Some x \<Rightarrow> x | None \<Rightarrow> ''email'') @ '' }''))
   @ diag_if (fs_primary f \<and> \<not> fs_generated f \<and> \<not> fs_required f)
       (diag ''SR016'' (res_msg res (''primary key field '' @ squote name @ '' must be generated or required''))
         (''add '' @ squote ''generated: true'' @ '' or '' @ squote ''required: true'' @ '' to '' @ squote name)
         (name @ '': { type: uuid, primary: true, generated: true }'')))"

definition diagnose_tenant :: "resource_definition \<Rightarrow> diagnostic list" where
  "diagnose_tenant rd = opt_diags (\<lambda>k.
     (let example = k @ '': { type: uuid, ref: organizations.id, required: true }'' in
     case map_of (rd_schema rd) k of
       Some f \<Rightarrow> diag_if (fs_type f \<noteq> FtUuid)
         (diag ''SR020'' (res_msg (rd_resource rd) (''tenant_key '' @ squote k
             @ '' must reference a uuid field, found '' @ field_type_name (fs_type f)))
           (''change the type of '' @ squote k @ '' to uuid'') example)
     | None \<Rightarrow> [diag ''SR021'' (res_msg (rd_resource rd) (''tenant_key '' @ squote k @ '' not found in schema''))
         (''add a '' @ squote k @ '' uuid field to the schema'') example])) (rd_tenant_key rd)"

section \<open>Endpoints\<close>

definition diagnose_controller_name :: "string \<Rightarrow> string \<Rightarrow> string \<Rightarrow> string \<Rightarrow> diagnostic list" where
  "diagnose_controller_name res action phase name = (case strip_prefix wasm_hook_prefix name of
     None \<Rightarrow> []
   | Some wasm_path \<Rightarrow>
      (let example = ''controller: { '' @ phase @ '': '' @ dquote ''wasm:./plugins/validator.wasm'' @ '' }'' in
       if wasm_path = [] then
         [diag ''SR035'' (endpoint_msg res action (''controller.'' @ phase @ '' has '' @ squote ''wasm:''
             @ '' prefix but no path''))
           (''provide a .wasm file path after the '' @ squote ''wasm:'' @ '' prefix'') example]
       else diag_if (\<not> suffix ''.wasm'' wasm_path)
         (diag ''SR036'' (endpoint_msg res action (''controller.'' @ phase @ '' WASM path must end with ''
             @ squote ''.wasm'' @ '', got '' @ squote wasm_path))
           (''ensure the WASM plugin path ends with '' @ squote ''.wasm'') example)))"

text \<open>One hook list: the phase, the code of an empty name, and the two examples.\<close>

definition diagnose_hooks :: "string \<Rightarrow> string \<Rightarrow> string \<Rightarrow> string \<Rightarrow> string \<Rightarrow> string \<Rightarrow> hook_list \<Rightarrow> diagnostic list" where
  "diagnose_hooks res action phase code list_example name_example h =
     diag_if (hook_names h = [])
       (diag ''SR063'' (endpoint_msg res action (''has an empty controller.'' @ phase @ '' list''))
         (''remove `'' @ phase @ '':` or list at least one hook name'') list_example)
   @ concat (map (\<lambda>name.
       if name = [] then
         [diag code (endpoint_msg res action (''has an empty controller.'' @ phase @ '' name''))
           (''provide a function name for controller.'' @ phase) name_example]
       else diagnose_controller_name res action phase name) (hook_names h))"

definition diagnose_controller :: "string \<Rightarrow> string \<Rightarrow> controller_spec \<Rightarrow> diagnostic list" where
  "diagnose_controller res action c =
     opt_diags (diagnose_hooks res action ''before'' ''SR030''
       ''controller: { before: [validate_currency, validate_org] }'' ''controller: { before: validate_input }'')
       (ct_before c)
   @ opt_diags (diagnose_hooks res action ''after'' ''SR031''
       ''controller: { after: [enrich_response, audit_log] }'' ''controller: { after: enrich_response }'')
       (ct_after c)"

definition diagnose_names :: "resource_definition \<Rightarrow> string \<Rightarrow> string \<Rightarrow> string list \<Rightarrow> diagnostic list" where
  "diagnose_names rd action kind names =
     concat (map (\<lambda>n. diag_if (\<not> has_key (rd_schema rd) n)
       (diag ''SR040'' (endpoint_msg (rd_resource rd) action (kind @ '' field '' @ squote n @ '' not found in schema''))
         (''add '' @ squote n @ '' to the schema, or remove it from '' @ kind)
         (n @ '': { type: string, required: true }''))) names)"

text \<open>\<open>ep.method()\<close> panics when the endpoint has no method.\<close>

definition diagnose_upload :: "resource_definition \<Rightarrow> string \<Rightarrow> endpoint_spec \<Rightarrow> upload_spec \<Rightarrow> panic + diagnostic list" where
  "diagnose_upload rd action ep up = and_then (method_of ep) (\<lambda>m. Inr (
     (let msg = endpoint_msg (rd_resource rd) action; fld = up_field up in
     diag_if (m \<notin> {Post, Patch, Put})
       (diag ''SR050'' (msg ''uses upload but method must be POST, PATCH, or PUT'')
         ''change the method to POST, PATCH, or PUT'' ''method: POST'')
   @ (case map_of (rd_schema rd) fld of
        Some f \<Rightarrow> diag_if (fs_type f \<noteq> FtFile)
          (diag ''SR051'' (msg (''upload field '' @ squote fld @ '' must be type file''))
            (''change '' @ squote fld @ '' to type file in the schema'') (fld @ '': { type: file, required: true }''))
      | None \<Rightarrow> [diag ''SR052'' (msg (''upload field '' @ squote fld @ '' not found in schema''))
            (''add '' @ squote fld @ '' as a file field in the schema'') (fld @ '': { type: file, required: true }'')])
   @ diag_if (up_storage up \<notin> {''local'', ''s3'', ''gcs'', ''azure''})
       (diag ''SR053'' (msg (''upload storage '' @ squote (up_storage up) @ '' is invalid''))
         ''use one of: local, s3, gcs, azure'' ''upload: { field: file, storage: s3, max_size: 5mb }'')
   @ diag_if (\<not> (case ep_input ep of None \<Rightarrow> False | Some ins \<Rightarrow> fld \<in> set ins))
       (diag ''SR054'' (msg (''upload field '' @ squote fld @ '' must appear in input''))
         (''add '' @ squote fld @ '' to the input array'') (''input: ['' @ fld @ '']'')))))"

definition diagnose_subscriber :: "string \<Rightarrow> string \<Rightarrow> nat \<times> subscriber_spec \<Rightarrow> diagnostic list" where
  "diagnose_subscriber res action ns = (case ns of (i, sub) \<Rightarrow>
     diag_if (sb_event sub = [])
       (diag ''SR073'' (endpoint_msg res action (''subscriber['' @ show_nat i @ ''] has an empty event pattern''))
         (''provide a non-empty event pattern (e.g., '' @ dquote ''user.created'' @ '' or '' @ dquote ''*.deleted'' @ '')'')
         (''subscribers:'' @ newline @ ''  - event: '' @ res @ ''.created'' @ newline @ ''    handler: my_handler''))
   @ diag_if (sb_handler sub = [])
       (diag ''SR074'' (endpoint_msg res action (''subscriber['' @ show_nat i @ ''] has an empty handler name''))
         (''provide a non-empty handler name (e.g., '' @ dquote ''send_welcome_email'' @ '')'')
         (''subscribers:'' @ newline @ ''  - event: user.created'' @ newline @ ''    handler: send_welcome_email'')))"

definition diagnose_handler :: "resource_definition \<Rightarrow> string \<Rightarrow> endpoint_spec \<Rightarrow> diagnostic list" where
  "diagnose_handler rd action ep =
     diag_if (action \<notin> set handler_conventions \<and> ep_handler ep = None)
       (diag ''SR075'' (endpoint_msg (rd_resource rd) action
           (''is not a standard action (list/get/create/update/delete) and has no '' @ squote ''handler:'' @ '' declared''))
         (''add a '' @ squote ''handler: <function_name>'' @ '' field pointing to a function in ''
           @ ''resources/<resource>.controller.rs'')
         (action @ '':'' @ newline @ ''  method: POST'' @ newline @ ''  path: /'' @ rd_resource rd @ ''/'' @ action
           @ newline @ ''  auth: [admin]'' @ newline @ ''  handler: '' @ action @ ''_'' @ rd_resource rd))"

definition diagnose_endpoint :: "resource_definition \<Rightarrow> string \<times> endpoint_spec \<Rightarrow> panic + diagnostic list" where
  "diagnose_endpoint rd ae = (case ae of (action, ep) \<Rightarrow>
     (let res = rd_resource rd in
     and_then (case ep_upload ep of Some up \<Rightarrow> diagnose_upload rd action ep up | None \<Rightarrow> Inr []) (\<lambda>upload. Inr (
     opt_diags (diagnose_controller res action) (ep_controller ep)
   @ opt_diags (\<lambda>events. concat (map (\<lambda>e. diag_if (e = [])
       (diag ''SR032'' (endpoint_msg res action ''has an empty event name'')
         (''use '' @ squote ''resource.action'' @ '' format for event names'') (''events: ['' @ res @ ''.created]''))) events))
       (ep_events ep)
   @ opt_diags (\<lambda>jobs. concat (map (\<lambda>j. diag_if (j = [])
       (diag ''SR033'' (endpoint_msg res action ''has an empty job name'')
         ''provide a snake_case job name'' ''jobs: [send_notification]'')) jobs)) (ep_jobs ep)
   @ opt_diags (diagnose_names rd action ''input'') (ep_input ep)
   @ opt_diags (diagnose_names rd action ''filter'') (ep_filters ep)
   @ opt_diags (diagnose_names rd action ''search'') (ep_search ep)
   @ opt_diags (diagnose_names rd action ''sort'') (ep_sort ep)
   @ diag_if (ep_soft_delete ep \<and> \<not> has_key (rd_schema rd) ''deleted_at'')
       (diag ''SR041'' (endpoint_msg res action (''has soft_delete but schema has no '' @ squote ''deleted_at'' @ '' field''))
         (''add '' @ squote ''deleted_at: { type: timestamp, nullable: true }'' @ '' to the schema'')
         ''deleted_at: { type: timestamp, nullable: true }'')
   @ upload
   @ opt_diags (\<lambda>subs. concat (map (diagnose_subscriber res action) (List.enumerate 0 subs))) (ep_subscribers ep)
   @ diagnose_handler rd action ep))))"

fun diagnose_endpoints :: "resource_definition \<Rightarrow> (string \<times> endpoint_spec) list \<Rightarrow> panic + diagnostic list" where
  "diagnose_endpoints rd [] = Inr []"
| "diagnose_endpoints rd (e # es) = and_then (diagnose_endpoint rd e) (\<lambda>ds.
     and_then (diagnose_endpoints rd es) (\<lambda>rest. Inr (ds @ rest)))"

section \<open>Relations, indexes and the whole resource\<close>

definition diagnose_relation :: "resource_definition \<Rightarrow> string \<times> relation_spec \<Rightarrow> diagnostic list" where
  "diagnose_relation rd nr = (case nr of (name, rel) \<Rightarrow>
     (let res = rd_resource rd; msg = (\<lambda>t. res_msg res (''relation '' @ squote name @ '' '' @ t)) in
     diag_if (rel_type rel = BelongsTo \<and> rel_key rel = None)
       (diag ''SR060'' (msg ''is belongs_to but has no key'')
         (''add '' @ squote (''key: '' @ res @ ''_id'') @ '' to the relation (the local FK field)'')
         (name @ '': { resource: '' @ rel_resource rel @ '', type: belongs_to, key: '' @ rel_resource rel @ ''_id }''))
   @ diag_if ((rel_type rel = HasMany \<or> rel_type rel = HasOne) \<and> rel_foreign_key rel = None)
       (diag ''SR061'' (msg (''is '' @ relation_type_name (rel_type rel) @ '' but has no foreign_key''))
         (''add '' @ squote (''foreign_key: '' @ res @ ''_id'') @ '' to the relation (the FK on the related table)'')
         (name @ '': { resource: '' @ rel_resource rel @ '', type: '' @ relation_type_name (rel_type rel)
           @ '', foreign_key: '' @ res @ ''_id }''))
   @ opt_diags (\<lambda>k. diag_if (\<not> has_key (rd_schema rd) k)
       (diag ''SR062'' (msg (''key '' @ squote k @ '' not found in schema''))
         (''add '' @ squote k @ '' as a uuid field in the schema'')
         (k @ '': { type: uuid, ref: '' @ rel_resource rel @ ''.id, required: true }''))) (rel_key rel)))"

definition diagnose_index :: "resource_definition \<Rightarrow> nat \<times> index_spec \<Rightarrow> diagnostic list" where
  "diagnose_index rd ni = (case ni of (i, ix) \<Rightarrow>
     (let msg = (\<lambda>t. res_msg (rd_resource rd) (''index '' @ show_nat i @ '' '' @ t)) in
     diag_if (ix_fields ix = [])
       (diag ''SR070'' (msg ''has no fields'') ''add at least one field to the index'' ''- { fields: [field_name] }'')
   @ concat (map (\<lambda>n. diag_if (\<not> has_key (rd_schema rd) n)
       (diag ''SR071'' (msg (''references field '' @ squote n @ '' not in schema''))
         (''add '' @ squote n @ '' to the schema, or remove it from the index'')
         (n @ '': { type: string, required: true }''))) (ix_fields ix))
   @ opt_diags (\<lambda>ord. diag_if (ord \<noteq> ''asc'' \<and> ord \<noteq> ''desc'')
       (diag ''SR072'' (msg (''has invalid order '' @ squote ord @ '', must be '' @ squote ''asc'' @ '' or '' @ squote ''desc''))
         (''use '' @ squote ''asc'' @ '' or '' @ squote ''desc'' @ '' for the index order'')
         ''- { fields: [created_at], order: desc }'')) (ix_order ix)))"

definition diagnose_header :: "resource_definition \<Rightarrow> diagnostic list" where
  "diagnose_header rd =
     (let res = rd_resource rd; n = length (primary_fields rd);
          id_example = ''id: { type: uuid, primary: true, generated: true }'' in
     diag_if (res = []) (diag ''SR001'' ''resource name must not be empty''
       (''add a snake_case plural name to the '' @ squote ''resource'' @ '' key'') ''resource: users'')
   @ diag_if (rd_version rd = 0) (diag ''SR002'' (res_msg res ''version must be >= 1'')
       ''set version to 1 or higher'' ''version: 1'')
   @ diag_if (rd_schema rd = []) (diag ''SR003'' (res_msg res ''schema must have at least one field'')
       ''add at least an id field to the schema section'' (''schema:'' @ newline @ ''  '' @ id_example))
   @ (if n = 0 \<and> rd_schema rd \<noteq> [] then
        [diag ''SR004'' (res_msg res ''schema must have a primary key field'')
          (''add '' @ squote ''primary: true'' @ '' to one field (typically '' @ squote ''id'' @ '')'') id_example]
      else diag_if (n > 1)
        (diag ''SR005'' (res_msg res (''schema must have exactly one primary key, found '' @ show_nat n))
          (''remove '' @ squote ''primary: true'' @ '' from all fields except one'') id_example)))"

definition diagnose_resource :: "resource_definition \<Rightarrow> panic + diagnostic list" where
  "diagnose_resource rd =
     and_then (case rd_endpoints rd of Some es \<Rightarrow> diagnose_endpoints rd es | None \<Rightarrow> Inr []) (\<lambda>endpoints. Inr (
     diagnose_header rd
   @ concat (map (diagnose_field (rd_resource rd)) (rd_schema rd))
   @ diagnose_tenant rd
   @ endpoints
   @ opt_diags (\<lambda>rs. concat (map (diagnose_relation rd) rs)) (rd_relations rd)
   @ opt_diags (\<lambda>ixs. concat (map (diagnose_index rd) (List.enumerate 0 ixs))) (rd_indexes rd)))"

section \<open>Spans and files\<close>

text \<open>A span map: the file and the span of the value at a dotted path.\<close>

record span_map =
  sm_file :: string
  sm_inner :: "(string \<times> nat \<times> nat \<times> nat \<times> nat) list"

definition new_span_map :: "string \<Rightarrow> span_map" where
  "new_span_map file = \<lparr>sm_file = file, sm_inner = []\<rparr>"

definition span_insert :: "string \<Rightarrow> nat \<times> nat \<times> nat \<times> nat \<Rightarrow> span_map \<Rightarrow> span_map" where
  "span_insert path pos m = m\<lparr>sm_inner := AList.update path pos (sm_inner m)\<rparr>"

definition span_lookup :: "span_map \<Rightarrow> string \<Rightarrow> span option" where
  "span_lookup m path = map_option (\<lambda>(line, col, end_line, end_col).
     \<lparr>spn_file = sm_file m, spn_line = line, spn_col = col, spn_end_line = end_line, spn_end_col = end_col\<rparr>)
     (map_of (sm_inner m) path)"

definition field_path_for :: "string \<Rightarrow> string option" where
  "field_path_for code =
     (if code = ''SR001'' then Some ''resource''
      else if code = ''SR002'' then Some ''version''
      else if code \<in> {''SR003'', ''SR004'', ''SR005''} then Some ''schema''
      else None)"

definition with_span :: "span_map \<Rightarrow> diagnostic \<Rightarrow> diagnostic" where
  "with_span spans d = (case Option.bind (field_path_for (dg_code d)) (span_lookup spans) of
     Some s \<Rightarrow> d\<lparr>dg_span := Some s\<rparr> | None \<Rightarrow> d)"

definition diagnose_resource_with_spans :: "resource_definition \<Rightarrow> span_map \<Rightarrow> panic + diagnostic list" where
  "diagnose_resource_with_spans rd spans =
     and_then (diagnose_resource rd) (\<lambda>ds. Inr (map (with_span spans) ds))"

text \<open>\<open>diagnose_file\<close>: the file's text, the span parser when it is compiled in, and the YAML
  deserializer are parameters. The endpoint defaults are not applied.\<close>

definition diagnose_file :: "(string \<Rightarrow> string + string) \<Rightarrow> (string \<Rightarrow> string \<Rightarrow> string + resource_definition \<times> span_map) option \<Rightarrow>
    (string \<Rightarrow> string + resource_definition) \<Rightarrow> string \<Rightarrow> panic + (parse_error + resource_definition \<times> diagnostic list)" where
  "diagnose_file read_file saphyr from_yaml path = (case read_file path of
     Inl e \<Rightarrow> Inr (Inl (IoError e))
   | Inr yaml \<Rightarrow>
       (case (case saphyr of Some f \<Rightarrow> f path yaml | None \<Rightarrow> Inl []) of
          Inr (rd, spans) \<Rightarrow> and_then (diagnose_resource_with_spans rd spans) (\<lambda>ds. Inr (Inr (rd, ds)))
        | Inl _ \<Rightarrow> (case from_yaml yaml of
            Inl e \<Rightarrow> Inr (Inl (YamlError e))
          | Inr rd \<Rightarrow> and_then (diagnose_resource rd) (\<lambda>ds. Inr (Inr (rd, ds))))))"

section \<open>The checks are those of the validator, with known differences\<close>

lemma diag_if_Nil [simp]: "diag_if c d = [] \<longleftrightarrow> \<not> c"
  by (simp add: diag_if_def)

lemma opt_diags_Nil [simp]: "opt_diags f x = [] \<longleftrightarrow> (\<forall>y. x = Some y \<longrightarrow> f y = [])"
  by (cases x) (auto simp: opt_diags_def)

lemma items_agree: "diagnose_items res name it = [] \<longleftrightarrow> item_errors res name it = []"
  by (simp add: diagnose_items_def item_errors_def)

lemma field_agree: "field_errors res (name, f) = [] \<longleftrightarrow>
    diagnose_field res (name, f) = [] \<and> transient_errors res name f = []"
  unfolding field_errors_def diagnose_field_def prod.case append_is_Nil_conv fail_if_Nil diag_if_Nil
    opt_errors_Nil opt_diags_Nil items_agree by blast

lemma tenant_agree: "diagnose_tenant rd = [] \<longleftrightarrow> tenant_errors rd = []"
  by (auto simp: diagnose_tenant_def tenant_errors_def Let_def split: option.splits)

lemma controller_name_agree:
  "diagnose_controller_name res action phase name = [] \<longleftrightarrow> validate_controller_name res action phase name = []"
  by (simp add: diagnose_controller_name_def validate_controller_name_def Let_def split: option.split)

lemma hooks_agree: "diagnose_hooks res action phase code ex1 ex2 h = [] \<longleftrightarrow> hook_errors res action phase h = []"
  unfolding diagnose_hooks_def hook_errors_def append_is_Nil_conv concat_map_Nil fail_if_Nil diag_if_Nil
  by (auto simp: controller_name_agree)

lemma controller_agree:
  "controller_errors res action ep c = [] \<longleftrightarrow>
    diagnose_controller res action c = [] \<and> validate_controller_only_on_crud res action ep = None"
  unfolding controller_errors_def diagnose_controller_def append_is_Nil_conv opt_errors_Nil opt_diags_Nil hooks_agree
  by (cases "validate_controller_only_on_crud res action ep") auto

lemma names_agree: "diagnose_names rd action kind ns = [] \<longleftrightarrow> missing_field_errors rd action kind ns = []"
  unfolding diagnose_names_def missing_field_errors_def concat_map_Nil fail_if_Nil diag_if_Nil ..

lemma opt_names_agree:
  "opt_errors (missing_field_errors rd action kind) ns = [] \<longleftrightarrow> opt_diags (diagnose_names rd action kind) ns = []"
  by (cases ns) (simp_all add: opt_errors_def opt_diags_def names_agree)

lemma opt_empty_Nil:
  "opt_errors (\<lambda>xs. concat (map (\<lambda>x. fail_if (x = []) m) xs)) ns = [] \<longleftrightarrow> (\<forall>xs. ns = Some xs \<longrightarrow> [] \<notin> set xs)"
  "opt_diags (\<lambda>xs. concat (map (\<lambda>x. diag_if (x = []) d) xs)) ns = [] \<longleftrightarrow> (\<forall>xs. ns = Some xs \<longrightarrow> [] \<notin> set xs)"
  by (cases ns; auto simp: opt_errors_def opt_diags_def)+

lemma upload_agree:
  assumes "ep_method ep = Some m"
  shows "upload_errors rd action ep up = [] \<longleftrightarrow>
    diagnose_upload rd action ep up = Inr [] \<and> companion_errors rd (up_field up) = []"
  using assms
  by (auto simp: upload_errors_def diagnose_upload_def method_of_def ok_or_def Let_def split: option.splits)

lemma relation_agree: "diagnose_relation rd nr = [] \<longleftrightarrow> relation_errors rd nr = []"
  by (cases nr) (simp add: diagnose_relation_def relation_errors_def Let_def)

lemma index_agree: "diagnose_index rd ni = [] \<longleftrightarrow> index_errors rd ni = []"
proof -
  obtain i ix where "ni = (i, ix)" by fastforce
  then show ?thesis
    unfolding diagnose_index_def index_errors_def Let_def by (simp only: prod.case append_is_Nil_conv concat_map_Nil
        fail_if_Nil diag_if_Nil opt_errors_Nil opt_diags_Nil)
qed

text \<open>What only the diagnostics check: subscribers and the handlers of other actions. What only the
  validator checks: methods and paths, where handlers and after hooks may stand, the companions of an
  upload, and transient fields.\<close>

definition endpoint_diag_only :: "string \<Rightarrow> endpoint_spec \<Rightarrow> bool" where
  "endpoint_diag_only action ep \<longleftrightarrow>
     (\<forall>subs. ep_subscribers ep = Some subs \<longrightarrow> (\<forall>s \<in> set subs. sb_event s \<noteq> [] \<and> sb_handler s \<noteq> []))
     \<and> (action \<notin> set handler_conventions \<longrightarrow> ep_handler ep \<noteq> None)"

definition endpoint_validator_only :: "resource_definition \<Rightarrow> string \<Rightarrow> endpoint_spec \<Rightarrow> bool" where
  "endpoint_validator_only rd action ep \<longleftrightarrow> ep_method ep \<noteq> None \<and> ep_path ep \<noteq> None
     \<and> validate_handler_only_on_custom (rd_resource rd) action ep = None
     \<and> (ep_controller ep \<noteq> None \<longrightarrow> validate_controller_only_on_crud (rd_resource rd) action ep = None)
     \<and> (\<forall>up. ep_upload ep = Some up \<longrightarrow> companion_errors rd (up_field up) = [])"

lemma subscribers_Nil: "concat (map (diagnose_subscriber res action) (List.enumerate n subs)) = [] \<longleftrightarrow>
    (\<forall>s \<in> set subs. sb_event s \<noteq> [] \<and> sb_handler s \<noteq> [])"
  by (induction subs arbitrary: n) (auto simp: diagnose_subscriber_def)

lemma opt_subscribers_Nil:
  "opt_diags (\<lambda>subs. concat (map (diagnose_subscriber res action) (List.enumerate 0 subs))) x = [] \<longleftrightarrow>
    (\<forall>subs. x = Some subs \<longrightarrow> (\<forall>s \<in> set subs. sb_event s \<noteq> [] \<and> sb_handler s \<noteq> []))"
  by (simp only: opt_diags_Nil subscribers_Nil)

lemma handler_Nil: "diagnose_handler rd action ep = [] \<longleftrightarrow> (action \<notin> set handler_conventions \<longrightarrow> ep_handler ep \<noteq> None)"
  by (auto simp: diagnose_handler_def)

lemma and_then_Inr_Nil: "and_then r (\<lambda>x. Inr (a @ b @ c @ d @ e @ f @ g @ h @ x @ i @ j)) = Inr [] \<longleftrightarrow>
    r = Inr [] \<and> a = [] \<and> b = [] \<and> c = [] \<and> d = [] \<and> e = [] \<and> f = [] \<and> g = [] \<and> h = [] \<and> i = [] \<and> j = []"
  by (cases r) auto

lemma endpoint_agree:
  "endpoint_errors rd (action, ep) = [] \<and> endpoint_diag_only action ep \<longleftrightarrow>
   diagnose_endpoint rd (action, ep) = Inr [] \<and> endpoint_validator_only rd action ep"
proof (cases "ep_method ep")
  case None
  then show ?thesis by (simp add: endpoint_errors_def endpoint_validator_only_def Let_def)
next
  case (Some m)
  have up: "opt_errors (upload_errors rd action ep) (ep_upload ep) = [] \<longleftrightarrow>
      (case ep_upload ep of Some up \<Rightarrow> diagnose_upload rd action ep up | None \<Rightarrow> Inr []) = Inr []
      \<and> (\<forall>up. ep_upload ep = Some up \<longrightarrow> companion_errors rd (up_field up) = [])"
    by (cases "ep_upload ep") (simp_all only: opt_errors_Nil, simp_all add: upload_agree [OF Some])
  have c: "opt_errors (controller_errors (rd_resource rd) action ep) (ep_controller ep) = [] \<longleftrightarrow>
      opt_diags (diagnose_controller (rd_resource rd) action) (ep_controller ep) = []
      \<and> (ep_controller ep \<noteq> None \<longrightarrow> validate_controller_only_on_crud (rd_resource rd) action ep = None)"
    by (cases "ep_controller ep") (simp_all only: opt_errors_Nil opt_diags_Nil, simp_all add: controller_agree)
  show ?thesis
    unfolding endpoint_errors_def diagnose_endpoint_def endpoint_validator_only_def endpoint_diag_only_def
      prod.case Let_def and_then_Inr_Nil append_is_Nil_conv up c opt_error_single handler_Nil
      opt_subscribers_Nil opt_names_agree opt_empty_Nil fail_if_Nil diag_if_Nil Some option.distinct
    by satx
qed

definition diag_only :: "resource_definition \<Rightarrow> bool" where
  "diag_only rd \<longleftrightarrow> (\<forall>es. rd_endpoints rd = Some es \<longrightarrow> (\<forall>(a, ep) \<in> set es. endpoint_diag_only a ep))"

definition validator_only :: "resource_definition \<Rightarrow> bool" where
  "validator_only rd \<longleftrightarrow>
     (\<forall>(n, f) \<in> set (rd_schema rd). fs_transient f \<longrightarrow> \<not> fs_primary f \<and> \<not> fs_generated f
        \<and> fs_reference f = None \<and> \<not> fs_unique f \<and> fs_default f = None \<and> n \<in> set (referenced_inputs rd))
     \<and> (\<forall>es. rd_endpoints rd = Some es \<longrightarrow> (\<forall>(a, ep) \<in> set es. endpoint_validator_only rd a ep))"

lemma diagnose_endpoints_Nil: "diagnose_endpoints rd es = Inr [] \<longleftrightarrow> (\<forall>e \<in> set es. diagnose_endpoint rd e = Inr [])"
proof (induction es)
  case (Cons e es)
  show ?case
    by (cases "diagnose_endpoint rd e"; cases "diagnose_endpoints rd es") (use Cons in auto)
qed simp

lemma header_agree: "diagnose_header rd = [] \<longleftrightarrow>
    rd_resource rd \<noteq> [] \<and> rd_version rd \<noteq> 0 \<and> rd_schema rd \<noteq> [] \<and> primary_key_errors rd = []"
  by (cases "rd_schema rd") (auto simp: diagnose_header_def primary_key_errors_def Let_def)

lemma fields_agree: "concat (map (field_errors res) sch) = [] \<longleftrightarrow>
    concat (map (diagnose_field res) sch) = [] \<and> (\<forall>(n, f) \<in> set sch. transient_errors res n f = [])"
  unfolding concat_map_Nil using field_agree by fastforce

lemma endpoints_agree:
  "opt_errors (\<lambda>es. concat (map (endpoint_errors rd) es)) x = []
     \<and> (\<forall>es. x = Some es \<longrightarrow> (\<forall>(a, ep) \<in> set es. endpoint_diag_only a ep)) \<longleftrightarrow>
   (case x of Some es \<Rightarrow> diagnose_endpoints rd es | None \<Rightarrow> Inr []) = Inr []
     \<and> (\<forall>es. x = Some es \<longrightarrow> (\<forall>(a, ep) \<in> set es. endpoint_validator_only rd a ep))"
proof (cases x)
  case (Some es)
  have "(\<forall>e \<in> set es. endpoint_errors rd e = []) \<and> (\<forall>(a, ep) \<in> set es. endpoint_diag_only a ep) \<longleftrightarrow>
      (\<forall>(a, ep) \<in> set es. endpoint_errors rd (a, ep) = [] \<and> endpoint_diag_only a ep)" by auto
  also have "\<dots> \<longleftrightarrow> (\<forall>(a, ep) \<in> set es. diagnose_endpoint rd (a, ep) = Inr [] \<and> endpoint_validator_only rd a ep)"
    by (simp only: endpoint_agree)
  finally show ?thesis
    unfolding Some opt_errors_Nil concat_map_Nil option.case option.inject diagnose_endpoints_Nil by auto
qed (simp add: opt_errors_def)

lemma relations_agree: "opt_diags (\<lambda>rs. concat (map (diagnose_relation rd) rs)) x = [] \<longleftrightarrow>
    opt_errors (\<lambda>rs. concat (map (relation_errors rd) rs)) x = []"
  unfolding opt_diags_Nil opt_errors_Nil concat_map_Nil relation_agree ..

lemma indexes_agree: "opt_diags (\<lambda>ixs. concat (map (diagnose_index rd) (List.enumerate 0 ixs))) x = [] \<longleftrightarrow>
    opt_errors (\<lambda>ixs. concat (map (index_errors rd) (List.enumerate 0 ixs))) x = []"
  unfolding opt_diags_Nil opt_errors_Nil concat_map_Nil index_agree ..

lemma validator_only_iff: "validator_only rd \<longleftrightarrow>
    (\<forall>(n, f) \<in> set (rd_schema rd). transient_errors (rd_resource rd) n f = []) \<and> unreachable_errors rd = []
    \<and> (\<forall>es. rd_endpoints rd = Some es \<longrightarrow> (\<forall>(a, ep) \<in> set es. endpoint_validator_only rd a ep))"
  unfolding validator_only_def transient_errors_Nil unreachable_errors_Nil by fast

lemma diagnose_resource_Nil: "diagnose_resource rd = Inr [] \<longleftrightarrow>
    (case rd_endpoints rd of Some es \<Rightarrow> diagnose_endpoints rd es | None \<Rightarrow> Inr []) = Inr []
    \<and> diagnose_header rd = [] \<and> concat (map (diagnose_field (rd_resource rd)) (rd_schema rd)) = []
    \<and> diagnose_tenant rd = []
    \<and> opt_diags (\<lambda>rs. concat (map (diagnose_relation rd) rs)) (rd_relations rd) = []
    \<and> opt_diags (\<lambda>ixs. concat (map (diagnose_index rd) (List.enumerate 0 ixs))) (rd_indexes rd) = []"
proof -
  have "and_then r (\<lambda>x. Inr (a @ b @ c @ x @ d @ e)) = Inr [] \<longleftrightarrow>
      r = Inr [] \<and> a = [] \<and> b = [] \<and> c = [] \<and> d = [] \<and> e = []"
    for r :: "panic + diagnostic list" and a b c d e by (cases r) auto
  then show ?thesis unfolding diagnose_resource_def .
qed

text \<open>C2. The two sets of checks agree up to known differences: a resource passes the validator and
  has complete subscribers and a handler for every other action, exactly when its diagnostics neither
  panic nor report anything and it satisfies the rules that only the validator has (method and path
  set, handlers and after hooks only where they are run, companions of an upload well typed, transient
  fields plain and reachable).\<close>

theorem diagnostics_match_validator:
  "validate_resource rd = [] \<and> diag_only rd \<longleftrightarrow> diagnose_resource rd = Inr [] \<and> validator_only rd"
  using endpoints_agree [of rd "rd_endpoints rd"]
  unfolding validate_resource_def diagnose_resource_Nil validator_only_iff diag_only_def append_is_Nil_conv
    fail_if_Nil header_agree fields_agree tenant_agree relations_agree indexes_agree
  by satx

section \<open>Every code is registered; the missing defaults\<close>

definition known :: "diagnostic \<Rightarrow> bool" where
  "known d \<longleftrightarrow> registry_lookup (dg_code d) \<noteq> None"

definition registered :: "diagnostic list \<Rightarrow> bool" where
  "registered ds \<longleftrightarrow> (\<forall>d \<in> set ds. known d)"

lemma registered_append [simp]: "registered (xs @ ys) \<longleftrightarrow> registered xs \<and> registered ys"
  by (auto simp: registered_def)

lemma registered_Nil [simp]: "registered []"
  by (simp add: registered_def)

lemma registered_Cons [simp]: "registered (d # ds) \<longleftrightarrow> known d \<and> registered ds"
  by (simp add: registered_def)

lemma registered_intros:
  "known d \<Longrightarrow> registered (diag_if c d)"
  "(\<And>y. registered (f y)) \<Longrightarrow> registered (opt_diags f x)"
  "(\<And>y. registered (g y)) \<Longrightarrow> registered (concat (map g xs))"
  by (auto simp: registered_def diag_if_def opt_diags_def split: option.split)

lemma codes_registered: "\<forall>c \<in> set (map ge_code registry). registry_lookup c \<noteq> None"
  by (auto simp: registry_lookup_def find_None_iff)

lemma registered_diag:
  assumes "code \<in> set [''SR001'', ''SR002'', ''SR003'', ''SR004'', ''SR005'', ''SR010'', ''SR011'', ''SR012'', ''SR013'', ''SR014'',
     ''SR015'', ''SR016'', ''SR020'', ''SR021'', ''SR030'', ''SR031'', ''SR032'', ''SR033'', ''SR035'', ''SR036'', ''SR040'',
     ''SR041'', ''SR050'', ''SR051'', ''SR052'', ''SR053'', ''SR054'', ''SR060'', ''SR061'', ''SR062'', ''SR063'', ''SR070'',
     ''SR071'', ''SR072'', ''SR073'', ''SR074'', ''SR075'', ''SR076'', ''SR077'', ''SR078'', ''SR079'', ''SR080'']"
  shows "known (diag code error fix_text example)"
proof -
  have "code \<in> set (map ge_code registry)" using assms by (auto simp: registry_def entry_def)
  then have "registry_lookup code \<noteq> None" using codes_registered by blast
  then show ?thesis by (simp add: diag_def known_def)
qed

lemma registered_parts:
  "registered (diagnose_items res name it)" "registered (diagnose_field res nf)" "registered (diagnose_tenant rd)"
  "registered (diagnose_controller res action c)" "registered (diagnose_names rd action kind names)"
  "registered (diagnose_subscriber res action ns)" "registered (diagnose_handler rd action ep)"
  "registered (diagnose_relation rd nr)" "registered (diagnose_index rd ni)" "registered (diagnose_header rd)"
proof -
  note rules = registered_intros registered_diag
  show items: "registered (diagnose_items res name it)" for res name it
    unfolding diagnose_items_def by (simp only: registered_append) (intro conjI rules; simp)
  show "registered (diagnose_field res nf)"
    unfolding diagnose_field_def by (cases nf) (simp only: prod.case registered_append, intro conjI rules items; simp)
  show "registered (diagnose_tenant rd)"
    unfolding diagnose_tenant_def Let_def
    by (intro rules) (auto split: option.split intro!: rules)
  have name: "registered (diagnose_controller_name res action phase n)" for res action phase n
    unfolding diagnose_controller_name_def Let_def by (auto split: option.split intro!: rules)
  show "registered (diagnose_controller res action c)"
    unfolding diagnose_controller_def diagnose_hooks_def
    by (simp only: registered_append) (intro conjI rules; auto simp: name intro!: rules)
  show "registered (diagnose_names rd action kind names)"
    unfolding diagnose_names_def by (intro rules) simp
  show "registered (diagnose_subscriber res action ns)"
    unfolding diagnose_subscriber_def by (cases ns) (simp only: prod.case registered_append, intro conjI rules; simp)
  show "registered (diagnose_handler rd action ep)"
    unfolding diagnose_handler_def by (intro rules) simp
  show "registered (diagnose_relation rd nr)"
    unfolding diagnose_relation_def Let_def
    by (cases nr) (simp only: prod.case registered_append, intro conjI rules; simp)
  show "registered (diagnose_index rd ni)"
    unfolding diagnose_index_def Let_def
    by (cases ni) (simp only: prod.case registered_append, intro conjI rules; simp)
  show "registered (diagnose_header rd)"
    unfolding diagnose_header_def Let_def by (auto intro!: rules)
qed

lemma upload_registered: "diagnose_upload rd action ep up = Inr ds \<Longrightarrow> registered ds"
  by (cases "method_of ep")
    (auto simp: diagnose_upload_def Let_def split: option.splits intro!: registered_intros registered_diag)

lemma endpoint_registered: "diagnose_endpoint rd (action, ep) = Inr ds \<Longrightarrow> registered ds"
proof -
  assume r: "diagnose_endpoint rd (action, ep) = Inr ds"
  then obtain up where "(case ep_upload ep of Some up \<Rightarrow> diagnose_upload rd action ep up | None \<Rightarrow> Inr []) = Inr up"
    by (cases "case ep_upload ep of Some up \<Rightarrow> diagnose_upload rd action ep up | None \<Rightarrow> Inr []")
      (simp_all add: diagnose_endpoint_def)
  moreover from this have "registered up"
    by (cases "ep_upload ep") (auto dest: upload_registered)
  ultimately show ?thesis
    using r unfolding diagnose_endpoint_def prod.case Let_def
    by (auto intro!: registered_intros registered_diag registered_parts)
qed

lemma endpoints_registered: "diagnose_endpoints rd es = Inr ds \<Longrightarrow> registered ds"
proof (induction es arbitrary: ds)
  case (Cons e es)
  obtain action ep where e: "e = (action, ep)" by fastforce
  with Cons.prems obtain d1 d2 where "diagnose_endpoint rd (action, ep) = Inr d1" "diagnose_endpoints rd es = Inr d2"
      "ds = d1 @ d2"
    by (cases "diagnose_endpoint rd e"; cases "diagnose_endpoints rd es") auto
  then show ?case using Cons.IH endpoint_registered by simp
qed simp

text \<open>No diagnostic is built with an unknown code (which would panic in a debug build).\<close>

lemma diagnostics_registered:
  assumes "diagnose_resource rd = Inr ds"
  shows "\<forall>d \<in> set ds. registry_lookup (dg_code d) \<noteq> None"
proof -
  obtain eds where "(case rd_endpoints rd of Some es \<Rightarrow> diagnose_endpoints rd es | None \<Rightarrow> Inr []) = Inr eds"
    using assms by (cases "case rd_endpoints rd of Some es \<Rightarrow> diagnose_endpoints rd es | None \<Rightarrow> Inr []")
      (simp_all add: diagnose_resource_def)
  moreover from this have "registered eds"
    by (cases "rd_endpoints rd") (auto dest: endpoints_registered)
  ultimately have "registered ds"
    using assms unfolding diagnose_resource_def
    by (auto intro!: registered_intros registered_parts)
  then show ?thesis by (simp add: registered_def known_def)
qed

text \<open>A standard action without a method, as the parser delivers it: the diagnostics of an upload panic.\<close>

lemma undefaulted_upload_panics:
  assumes "ep_method ep = None" and "ep_upload ep \<noteq> None" and "rd_endpoints rd = Some [(action, ep)]"
  shows "\<exists>msg. diagnose_file (\<lambda>p. Inr yaml) None (\<lambda>y. Inr rd) path = Inl (Panic msg)"
  using assms by (auto simp: diagnose_file_def diagnose_resource_def diagnose_endpoint_def diagnose_upload_def
      method_of_def ok_or_def Let_def)

end
