(* ===== verification/Graphql.thy ===== *)
theory Graphql
  imports Crud_Security Ddl
begin

text \<open>
  The GraphQL endpoint: the schema that \<open>shaperail-runtime/src/graphql/schema.rs\<close> builds from the
  resources (its roots, types and arguments, as data), the resolvers of that file, the relation
  loader of \<open>graphql/dataloader.rs\<close> and the context that \<open>graphql/handler.rs\<close> gives a request. The
  \<open>async-graphql\<close> crate parses a document and calls resolvers; in which order it calls them is not
  assumed: a request is any sequence of resolver calls. A resolver error is the text it is shown as.
  The crate's values are modelled by JSON, from which it converts them without loss.
\<close>

section \<open>The schema\<close>

datatype type_ref = Named string | NamedList string | NamedListNn string

record gql_field =
  gf_name :: string
  gf_type :: type_ref
  gf_args :: "(string \<times> type_ref) list"

text \<open>An object or an input object: its name and its members.\<close>

type_synonym gql_object = "string \<times> gql_field list"

record gql_schema =
  gs_query :: "gql_field list"
  gs_mutation :: "gql_field list option"
  gs_subscription :: "gql_field list option"
  gs_inputs :: "gql_object list"
  gs_objects :: "gql_object list"
  gs_depth_limit :: nat
  gs_complexity_limit :: nat

record graphql_config =
  gc_depth_limit :: nat
  gc_complexity_limit :: nat

fun field_type_to_type_ref :: "field_type \<Rightarrow> type_ref" where
  "field_type_to_type_ref FtInteger = Named ''Int''"
| "field_type_to_type_ref FtNumber = Named ''Float''"
| "field_type_to_type_ref FtBoolean = Named ''Boolean''"
| "field_type_to_type_ref _ = Named ''String''"

text \<open>\<open>get_mut(0..1)\<close> is the first byte when that is a character of its own; ASCII upper case leaves the
  other bytes as they are.\<close>

definition object_type_name :: "string \<Rightarrow> string" where
  "object_type_name resource = ascii_upper (take 1 resource) @ drop 1 resource"

definition singular_name :: "string \<Rightarrow> string" where
  "singular_name resource = (if suffix ''s'' resource \<and> 1 < length resource then butlast resource else resource)"

definition endpoint_named :: "resource_definition \<Rightarrow> string \<Rightarrow> endpoint_spec option" where
  "endpoint_named rd name = Option.bind (rd_endpoints rd) (\<lambda>eps. map_of eps name)"

definition declares :: "resource_definition \<Rightarrow> string \<Rightarrow> bool" where
  "declares rd name \<longleftrightarrow> endpoint_named rd name \<noteq> None"

definition query_fields :: "resource_definition \<Rightarrow> gql_field list" where
  "query_fields rd = (let type_name = object_type_name (rd_resource rd) in
     [\<lparr>gf_name = ''list_'' @ rd_resource rd, gf_type = NamedListNn type_name,
       gf_args = [(''limit'', Named ''Int''), (''offset'', Named ''Int'')]\<rparr>,
      \<lparr>gf_name = singular_name (rd_resource rd), gf_type = Named type_name, gf_args = [(''id'', Named ''String'')]\<rparr>])"

definition input_field_names :: "resource_definition \<Rightarrow> endpoint_spec \<Rightarrow> string list" where
  "input_field_names rd ep = (case ep_input ep of
     Some input_fields \<Rightarrow> input_fields
   | None \<Rightarrow> map fst (filter (\<lambda>(name, f). \<not> fs_generated f \<and> \<not> fs_primary f) (rd_schema rd)))"

definition plain_gql_field :: "string \<Rightarrow> type_ref \<Rightarrow> gql_field" where
  "plain_gql_field name t = \<lparr>gf_name = name, gf_type = t, gf_args = []\<rparr>"

definition input_object :: "resource_definition \<Rightarrow> gql_object option" where
  "input_object rd =
     (if \<not> declares rd ''create'' \<and> \<not> declares rd ''update'' then None
      else (let ep = (case endpoint_named rd ''create'' of
                  Some ep \<Rightarrow> ep
                | None \<Rightarrow> (case endpoint_named rd ''update'' of
                    Some ep \<Rightarrow> ep
                  | None \<Rightarrow> default_endpoint\<lparr>ep_method := Some Post, ep_path := Some (''/'' @ rd_resource rd)\<rparr>))
            in Some (object_type_name (rd_resource rd) @ ''Input'',
                 List.map_filter (\<lambda>name. map_option (\<lambda>f. plain_gql_field name (field_type_to_type_ref (fs_type f)))
                   (map_of (rd_schema rd) name)) (input_field_names rd ep))))"

definition mutation_fields :: "resource_definition \<Rightarrow> gql_field list" where
  "mutation_fields rd =
     (let type_name = object_type_name (rd_resource rd); single = Named type_name;
          input = (''input'', Named (type_name @ ''Input'')); by_id = (''id'', Named ''String'')
      in (if declares rd ''create'' then [\<lparr>gf_name = ''create_'' @ rd_resource rd, gf_type = single, gf_args = [input]\<rparr>] else [])
       @ (if declares rd ''update'' then [\<lparr>gf_name = ''update_'' @ rd_resource rd, gf_type = single, gf_args = [by_id, input]\<rparr>] else [])
       @ (if declares rd ''delete'' then [\<lparr>gf_name = ''delete_'' @ rd_resource rd, gf_type = single, gf_args = [by_id]\<rparr>] else []))"

definition relation_field :: "string \<Rightarrow> relation_spec \<Rightarrow> gql_field" where
  "relation_field name rel = plain_gql_field name
     (if rel_type rel = HasMany then NamedList (object_type_name (rel_resource rel))
      else Named (object_type_name (rel_resource rel)))"

definition resource_object :: "resource_definition \<Rightarrow> gql_object" where
  "resource_object rd = (object_type_name (rd_resource rd),
     map (\<lambda>(name, f). plain_gql_field name (field_type_to_type_ref (fs_type f))) (rd_schema rd)
     @ (case rd_relations rd of None \<Rightarrow> [] | Some rels \<Rightarrow> map (\<lambda>(name, rel). relation_field name rel) rels))"

definition endpoint_event_names :: "resource_definition \<Rightarrow> string list" where
  "endpoint_event_names rd = (case rd_endpoints rd of None \<Rightarrow> []
     | Some eps \<Rightarrow> concat (map (\<lambda>(a, ep). case ep_events ep of None \<Rightarrow> [] | Some evs \<Rightarrow> evs) eps))"

definition subscription_fields :: "resource_definition \<Rightarrow> gql_field list" where
  "subscription_fields rd = map (\<lambda>event. plain_gql_field (replace_all ''.'' ''_'' event)
     (Named (object_type_name (rd_resource rd)))) (endpoint_event_names rd)"

text \<open>The roots that have no field are not registered; the crate finishes the rest.\<close>

definition build_schema_with_config :: "resource_definition list \<Rightarrow> graphql_config option \<Rightarrow> gql_schema" where
  "build_schema_with_config rds config =
     (let has_mutations = list_ex (\<lambda>rd. declares rd ''create'' \<or> declares rd ''update'' \<or> declares rd ''delete'') rds;
          has_subscriptions = list_ex (\<lambda>rd. case rd_endpoints rd of None \<Rightarrow> False
            | Some eps \<Rightarrow> list_ex (\<lambda>(a, ep). case ep_events ep of None \<Rightarrow> False | Some evs \<Rightarrow> evs \<noteq> []) eps) rds
      in \<lparr>gs_query = concat (map query_fields rds),
          gs_mutation = (if has_mutations then Some (concat (map mutation_fields rds)) else None),
          gs_subscription = (if has_subscriptions then Some (concat (map subscription_fields rds)) else None),
          gs_inputs = List.map_filter input_object rds,
          gs_objects = map resource_object rds,
          gs_depth_limit = (case config of Some c \<Rightarrow> gc_depth_limit c | None \<Rightarrow> 16),
          gs_complexity_limit = (case config of Some c \<Rightarrow> gc_complexity_limit c | None \<Rightarrow> 256)\<rparr>)"

definition build_schema :: "resource_definition list \<Rightarrow> gql_schema" where
  "build_schema rds = build_schema_with_config rds None"

section \<open>Resolvers of the query root\<close>

text \<open>The texts that the crates choose: a missing argument and a malformed id.\<close>

record gql_lib =
  ql_missing_argument :: "string \<Rightarrow> string"
  ql_uuid_error :: "string \<Rightarrow> string"

definition shown :: "'a res \<Rightarrow> string + 'a" where
  "shown r = (case r of Inl e \<Rightarrow> Inl (error_message e) | Inr x \<Rightarrow> Inr x)"

definition id_argument :: "gql_lib \<Rightarrow> 'db app \<Rightarrow> jmap \<Rightarrow> string + uuid" where
  "id_argument lib app args =
     and_then (ok_or ''id required'' (Option.bind (map_of args ''id'') as_str)) (\<lambda>s.
       ok_or (ql_uuid_error lib s) (parse_uuid (sl_values (ap_lib app)) s))"

definition gql_list_endpoint :: "resource_definition \<Rightarrow> endpoint_spec" where
  "gql_list_endpoint rd = (case endpoint_named rd ''list'' of
     Some ep \<Rightarrow> ep
   | None \<Rightarrow> default_endpoint\<lparr>ep_method := Some Get, ep_path := Some (''/'' @ rd_resource rd),
       ep_pagination := Some OffsetStyle\<rparr>)"

definition gql_get_endpoint :: "resource_definition \<Rightarrow> endpoint_spec" where
  "gql_get_endpoint rd = (case endpoint_named rd ''get'' of
     Some ep \<Rightarrow> ep
   | None \<Rightarrow> default_endpoint\<lparr>ep_method := Some Get, ep_path := Some (''/'' @ rd_resource rd @ ''/:id'')\<rparr>)"

definition resolve_list :: "'db app \<Rightarrow> resource_definition \<Rightarrow> authenticated_user option \<Rightarrow> jmap \<Rightarrow> 'db \<Rightarrow> string + json" where
  "resolve_list app rd user args db =
     (let ep = gql_list_endpoint rd in
      and_then (shown (enforce (ep_auth ep) user)) (\<lambda>_.
      and_then (shown (store_for_or_error app rd)) (\<lambda>store_opt.
      (let limit = (case Option.bind (map_of args ''limit'') as_i64 of Some n \<Rightarrow> n | None \<Rightarrow> 25);
           offset = (case Option.bind (map_of args ''offset'') as_i64 of Some n \<Rightarrow> n | None \<Rightarrow> 0)
       in and_then (shown (st_find_all (store_or_query app rd store_opt) ep [] None []
            (Offset offset (clamped_limit (Some limit))) db)) (\<lambda>(rows, meta). Inr (JArr rows))))))"

text \<open>The owner check of a resolver: \<open>if needs_owner_check { if let Some(u) = user { check_owner } }\<close>.\<close>

definition gql_owner_check :: "endpoint_spec \<Rightarrow> authenticated_user option \<Rightarrow> json \<Rightarrow> unit res" where
  "gql_owner_check ep user row =
     (if needs_owner_check (ep_auth ep) user then (case user of Some u \<Rightarrow> check_owner u row | None \<Rightarrow> Inr ()) else Inr ())"

definition resolve_get :: "gql_lib \<Rightarrow> 'db app \<Rightarrow> resource_definition \<Rightarrow> authenticated_user option \<Rightarrow> jmap \<Rightarrow> 'db \<Rightarrow> string + json" where
  "resolve_get lib app rd user args db =
     (let ep = gql_get_endpoint rd in
      and_then (id_argument lib app args) (\<lambda>i.
      and_then (shown (enforce (ep_auth ep) user)) (\<lambda>_.
      and_then (shown (store_for_or_error app rd)) (\<lambda>store_opt.
      and_then (shown (st_find_by_id (store_or_query app rd store_opt) i db)) (\<lambda>row.
      and_then (shown (gql_owner_check ep user row)) (\<lambda>_. Inr row))))))"

section \<open>Resolvers of the mutation root\<close>

text \<open>Every mutation is a chain of checks that only reads, then one store operation, then the steps
  that follow a successful one.\<close>

definition gql_write ::
    "string + ('db \<Rightarrow> 'db \<times> json res) \<times> (json \<Rightarrow> 'db world \<Rightarrow> 'db world) \<Rightarrow> 'db world \<Rightarrow> 'db world \<times> (string + json)" where
  "gql_write prepared w = (case prepared of
     Inl e \<Rightarrow> (w, Inl e)
   | Inr (write, finish) \<Rightarrow> (case write (wo_db w) of
       (db, Inl e) \<Rightarrow> (w\<lparr>wo_db := db\<rparr>, Inl (error_message e))
     | (db, Inr row) \<Rightarrow> (finish row (w\<lparr>wo_db := db\<rparr>), Inr row)))"

definition input_argument :: "gql_lib \<Rightarrow> 'db app \<Rightarrow> resource_definition \<Rightarrow> endpoint_spec \<Rightarrow> jmap \<Rightarrow> string + jmap" where
  "input_argument lib app rd ep args =
     and_then (ok_or (ql_missing_argument lib ''input'') (map_of args ''input'')) (\<lambda>json_val.
     and_then (shown (extract_input_from_value json_val rd ep)) (\<lambda>input_data.
     and_then (shown (validate_input (sl_values (ap_lib app)) input_data rd)) (\<lambda>_. Inr input_data)))"

definition resolve_create :: "gql_lib \<Rightarrow> 'db app \<Rightarrow> resource_definition \<Rightarrow> authenticated_user option \<Rightarrow> jmap \<Rightarrow>
    'db world \<Rightarrow> 'db world \<times> (string + json)" where
  "resolve_create lib app rd user args = gql_write
     (and_then (ok_or ''create endpoint missing'' (endpoint_named rd ''create'')) (\<lambda>ep.
      and_then (shown (enforce (ep_auth ep) user)) (\<lambda>_.
      and_then (input_argument lib app rd ep args) (\<lambda>input_data.
      and_then (shown (store_for_or_error app rd)) (\<lambda>store_opt.
        Inr (st_insert (store_or_query app rd store_opt) input_data, run_write_side_effects app rd ep ''created''))))))"

text \<open>The record is fetched only when the rule asks for its owner.\<close>

definition gql_check_existing :: "endpoint_spec \<Rightarrow> authenticated_user option \<Rightarrow> 'db store \<Rightarrow> uuid \<Rightarrow> 'db \<Rightarrow> unit res" where
  "gql_check_existing ep user store i db =
     (if needs_owner_check (ep_auth ep) user then
        and_then (st_find_by_id store i db) (\<lambda>existing. case user of Some u \<Rightarrow> check_owner u existing | None \<Rightarrow> Inr ())
      else Inr ())"

definition resolve_update :: "gql_lib \<Rightarrow> 'db app \<Rightarrow> resource_definition \<Rightarrow> authenticated_user option \<Rightarrow> jmap \<Rightarrow>
    'db world \<Rightarrow> 'db world \<times> (string + json)" where
  "resolve_update lib app rd user args w = gql_write
     (and_then (ok_or ''update endpoint missing'' (endpoint_named rd ''update'')) (\<lambda>ep.
      and_then (shown (enforce (ep_auth ep) user)) (\<lambda>_.
      and_then (id_argument lib app args) (\<lambda>i.
      and_then (shown (store_for_or_error app rd)) (\<lambda>store_opt.
      (let store = store_or_query app rd store_opt in
      and_then (shown (gql_check_existing ep user store i (wo_db w))) (\<lambda>_.
      and_then (input_argument lib app rd ep args) (\<lambda>input_data.
        Inr (st_update_by_id store i input_data, run_write_side_effects app rd ep ''updated''))))))))) w"

definition gql_delete_endpoint :: "resource_definition \<Rightarrow> endpoint_spec" where
  "gql_delete_endpoint rd = (case endpoint_named rd ''delete'' of
     Some ep \<Rightarrow> ep
   | None \<Rightarrow> default_endpoint\<lparr>ep_method := Some Delete, ep_path := Some (''/'' @ rd_resource rd @ ''/:id''),
       ep_soft_delete := True\<rparr>)"

definition resolve_delete :: "gql_lib \<Rightarrow> 'db app \<Rightarrow> resource_definition \<Rightarrow> authenticated_user option \<Rightarrow> jmap \<Rightarrow>
    'db world \<Rightarrow> 'db world \<times> (string + json)" where
  "resolve_delete lib app rd user args w =
     (let ep = gql_delete_endpoint rd in gql_write
     (and_then (shown (enforce (ep_auth ep) user)) (\<lambda>_.
      and_then (id_argument lib app args) (\<lambda>i.
      and_then (shown (store_for_or_error app rd)) (\<lambda>store_opt.
      (let store = store_or_query app rd store_opt in
      and_then (shown (gql_check_existing ep user store i (wo_db w))) (\<lambda>_.
        Inr (if ep_soft_delete ep then st_soft_delete_by_id store i else st_hard_delete_by_id store i,
          \<lambda>row w. run_write_side_effects app rd ep ''deleted'' row
            (if ep_soft_delete ep then w else schedule_file_cleanup app rd row w)))))))) w)"

section \<open>The relation loader\<close>

type_synonym loader_key = "string \<times> string \<times> string"
type_synonym loader_cache = "(loader_key \<times> json list) list"

definition loader_resource :: "resource_definition list \<Rightarrow> string \<Rightarrow> resource_definition res" where
  "loader_resource rds name = ok_or (Internal (''Resource '' @ squote name @ '' not found''))
     (find (\<lambda>r. rd_resource r = name) rds)"

text \<open>The two queries of a cache miss.\<close>

definition fetch_by_id :: "'db app \<Rightarrow> resource_definition list \<Rightarrow> string \<Rightarrow> uuid \<Rightarrow> 'db \<Rightarrow> json res" where
  "fetch_by_id app rds resource_name i db =
     and_then (loader_resource rds resource_name) (\<lambda>rd.
     and_then (store_for_or_error app rd) (\<lambda>store_opt. st_find_by_id (store_or_query app rd store_opt) i db))"

definition fetch_by_filter :: "'db app \<Rightarrow> resource_definition list \<Rightarrow> string \<Rightarrow> string \<Rightarrow> string \<Rightarrow> 'db \<Rightarrow> json list res" where
  "fetch_by_filter app rds resource_name filter_field filter_value db =
     and_then (loader_resource rds resource_name) (\<lambda>rd.
     and_then (store_for_or_error app rd) (\<lambda>store_opt.
     and_then (st_find_all (store_or_query app rd store_opt) (gql_list_endpoint rd)
       [\<lparr>fp_field = filter_field, fp_value = filter_value\<rparr>] None [] (Offset 0 1000) db) (\<lambda>(rows, meta). Inr rows)))"

text \<open>The body both share: the cache answers first, and a successful query enters it.\<close>

definition cached_load :: "loader_key \<Rightarrow> json list res \<Rightarrow> loader_cache \<Rightarrow> loader_cache \<times> json list res" where
  "cached_load key fetched cache = (case map_of cache key of
     Some rows \<Rightarrow> (cache, Inr rows)
   | None \<Rightarrow> (case fetched of Inl e \<Rightarrow> (cache, Inl e) | Inr rows \<Rightarrow> (AList.update key rows cache, Inr rows)))"

definition load_by_id :: "'db app \<Rightarrow> resource_definition list \<Rightarrow> string \<Rightarrow> uuid \<Rightarrow> 'db \<Rightarrow> loader_cache \<Rightarrow>
    loader_cache \<times> json option res" where
  "load_by_id app rds resource_name i db cache =
     (case cached_load (resource_name, ''id'', show_uuid (sl_values (ap_lib app)) i)
         (and_then (fetch_by_id app rds resource_name i db) (\<lambda>row. Inr [row])) cache of
        (cache', r) \<Rightarrow> (cache', and_then r (\<lambda>rows. Inr (case rows of [] \<Rightarrow> None | row # _ \<Rightarrow> Some row))))"

definition load_by_filter :: "'db app \<Rightarrow> resource_definition list \<Rightarrow> string \<Rightarrow> string \<Rightarrow> string \<Rightarrow> 'db \<Rightarrow> loader_cache \<Rightarrow>
    loader_cache \<times> json list res" where
  "load_by_filter app rds resource_name filter_field filter_value db cache =
     cached_load (resource_name, filter_field, filter_value)
       (fetch_by_filter app rds resource_name filter_field filter_value db) cache"

section \<open>Resolvers of an object\<close>

definition resolve_field :: "string \<Rightarrow> json \<Rightarrow> json" where
  "resolve_field name parent = (case json_get parent name of Some v \<Rightarrow> v | None \<Rightarrow> JNull)"

definition resolve_belongs_to :: "gql_lib \<Rightarrow> 'db app \<Rightarrow> string \<Rightarrow> relation_spec \<Rightarrow> json \<Rightarrow> 'db \<Rightarrow> loader_cache \<Rightarrow>
    loader_cache \<times> (string + json)" where
  "resolve_belongs_to lib app name rel parent db cache =
     (let key = (case rel_key rel of Some k \<Rightarrow> k | None \<Rightarrow> name @ ''_id'') in
      case json_get_str parent key of
        None \<Rightarrow> (cache, Inr JNull)
      | Some fk_str \<Rightarrow> (case parse_uuid (sl_values (ap_lib app)) fk_str of
          None \<Rightarrow> (cache, Inl (ql_uuid_error lib fk_str))
        | Some fk \<Rightarrow> (case load_by_id app (ap_resources app) (rel_resource rel) fk db cache of
            (cache', r) \<Rightarrow> (cache', and_then (shown r) (\<lambda>row. Inr (case row of Some v \<Rightarrow> v | None \<Rightarrow> JNull))))))"

definition resolve_has :: "'db app \<Rightarrow> resource_definition \<Rightarrow> relation_spec \<Rightarrow> json \<Rightarrow> 'db \<Rightarrow> loader_cache \<Rightarrow>
    loader_cache \<times> (string + json)" where
  "resolve_has app rd rel parent db cache =
     (case json_get_str parent (primary_key rd) of
        None \<Rightarrow> (cache, Inr JNull)
      | Some id_str \<Rightarrow>
          (let fk = (case rel_foreign_key rel of Some k \<Rightarrow> k | None \<Rightarrow> ''id'') in
           case load_by_filter app (ap_resources app) (rel_resource rel) fk id_str db cache of
             (cache', r) \<Rightarrow> (cache', and_then (shown r) (\<lambda>rows. Inr
               (if rel_type rel = HasOne then (case rows of [] \<Rightarrow> JNull | row # _ \<Rightarrow> row) else JArr rows)))))"

definition resolve_relation :: "gql_lib \<Rightarrow> 'db app \<Rightarrow> resource_definition \<Rightarrow> string \<Rightarrow> relation_spec \<Rightarrow> json \<Rightarrow> 'db \<Rightarrow>
    loader_cache \<Rightarrow> loader_cache \<times> (string + json)" where
  "resolve_relation lib app rd name rel parent db cache =
     (if rel_type rel = BelongsTo then resolve_belongs_to lib app name rel parent db cache
      else resolve_has app rd rel parent db cache)"

section \<open>A request\<close>

text \<open>The calls the crate makes while it executes a document.\<close>

datatype gql_call =
    ListCall resource_definition jmap
  | GetCall resource_definition jmap
  | CreateCall resource_definition jmap
  | UpdateCall resource_definition jmap
  | DeleteCall resource_definition jmap
  | RelationCall resource_definition string relation_spec json

fun run_call :: "gql_lib \<Rightarrow> 'db app \<Rightarrow> authenticated_user option \<Rightarrow> gql_call \<Rightarrow> 'db world \<times> loader_cache \<Rightarrow>
    ('db world \<times> loader_cache) \<times> (string + json)" where
  "run_call lib app user (ListCall rd args) (w, c) = ((w, c), resolve_list app rd user args (wo_db w))"
| "run_call lib app user (GetCall rd args) (w, c) = ((w, c), resolve_get lib app rd user args (wo_db w))"
| "run_call lib app user (CreateCall rd args) (w, c) = (case resolve_create lib app rd user args w of (w', r) \<Rightarrow> ((w', c), r))"
| "run_call lib app user (UpdateCall rd args) (w, c) = (case resolve_update lib app rd user args w of (w', r) \<Rightarrow> ((w', c), r))"
| "run_call lib app user (DeleteCall rd args) (w, c) = (case resolve_delete lib app rd user args w of (w', r) \<Rightarrow> ((w', c), r))"
| "run_call lib app user (RelationCall rd name rel parent) (w, c) =
     (case resolve_relation lib app rd name rel parent (wo_db w) c of (c', r) \<Rightarrow> ((w, c'), r))"

fun run_calls :: "gql_lib \<Rightarrow> 'db app \<Rightarrow> authenticated_user option \<Rightarrow> gql_call list \<Rightarrow> 'db world \<times> loader_cache \<Rightarrow>
    ('db world \<times> loader_cache) \<times> (string + json) list" where
  "run_calls lib app user [] s = (s, [])"
| "run_calls lib app user (call # calls) s = (case run_call lib app user call s of
     (s', r) \<Rightarrow> (case run_calls lib app user calls s' of (s'', rs) \<Rightarrow> (s'', r # rs)))"

text \<open>Every request has its own context: the caller, who may be anonymous, and an empty loader.\<close>

definition graphql_handler :: "gql_lib \<Rightarrow> 'db app \<Rightarrow> http_request \<Rightarrow> gql_call list \<Rightarrow> 'db world \<Rightarrow> 'db world \<times> (string + json) list" where
  "graphql_handler lib app req calls w =
     (case run_calls lib app (try_extract_auth (ap_jwt_lib app) (ap_now app) (hr_auth req)) calls (w, []) of
        ((w', c), rs) \<Rightarrow> (w', rs))"

section \<open>Mutations are authorised\<close>

lemma shown_Inr_iff [result_simps]: "shown r = Inr x \<longleftrightarrow> r = Inr x"
  by (cases r) (simp_all add: shown_def)

lemma shown_Inl_iff [result_simps]: "shown r = Inl s \<longleftrightarrow> (\<exists>e. r = Inl e \<and> s = error_message e)"
  by (cases r) (auto simp: shown_def)

lemma gql_write_changes:
  assumes "wo_db (fst (gql_write prepared w)) \<noteq> wo_db w"
  obtains p where "prepared = Inr p"
  using assms by (cases prepared) (auto simp: gql_write_def)

text \<open>What a mutation of an existing record needs: the caller passes the endpoint's rule and, if there is
  a record under the id, may access it. The tenant is not part of it.\<close>

definition gql_authorised :: "gql_lib \<Rightarrow> 'db app \<Rightarrow> resource_definition \<Rightarrow> endpoint_spec \<Rightarrow> authenticated_user option \<Rightarrow>
    jmap \<Rightarrow> 'db \<Rightarrow> bool" where
  "gql_authorised lib app rd ep user args db \<longleftrightarrow> enforce (ep_auth ep) user = Inr ()
     \<and> (\<exists>i s. id_argument lib app args = Inr i \<and> store_for_or_error app rd = Inr s
        \<and> (\<forall>row. st_find_by_id (store_or_query app rd s) i db = Inr row \<longrightarrow> access_allowed (ep_auth ep) user row))"

fun call_authorised :: "gql_lib \<Rightarrow> 'db app \<Rightarrow> authenticated_user option \<Rightarrow> gql_call \<Rightarrow> 'db \<Rightarrow> bool" where
  "call_authorised lib app user (CreateCall rd args) db \<longleftrightarrow> (\<exists>ep input. endpoint_named rd ''create'' = Some ep
     \<and> enforce (ep_auth ep) user = Inr () \<and> input_argument lib app rd ep args = Inr input)"
| "call_authorised lib app user (UpdateCall rd args) db \<longleftrightarrow> (\<exists>ep input. endpoint_named rd ''update'' = Some ep
     \<and> gql_authorised lib app rd ep user args db \<and> input_argument lib app rd ep args = Inr input)"
| "call_authorised lib app user (DeleteCall rd args) db \<longleftrightarrow>
     gql_authorised lib app rd (gql_delete_endpoint rd) user args db"
| "call_authorised lib app user _ db \<longleftrightarrow> False"

lemma gql_check_existing_access:
  assumes "enforce (ep_auth ep) user = Inr ()" and "gql_check_existing ep user store i db = Inr ()"
    and "st_find_by_id store i db = Inr row"
  shows "access_allowed (ep_auth ep) user row"
proof -
  have "needs_owner_check (ep_auth ep) user \<Longrightarrow> \<exists>u. user = Some u"
    using assms(1) by (auto simp: needs_owner_check_def enforce_def ok_or_def split: option.splits auth_rule.splits if_splits)
  then show ?thesis
    using assms unfolding access_decision [symmetric]
    by (auto simp: gql_check_existing_def split: if_splits option.splits)
qed

lemma gql_authorisedI:
  assumes "enforce (ep_auth ep) user = Inr ()" and "id_argument lib app args = Inr i"
    and "store_for_or_error app rd = Inr s"
    and "gql_check_existing ep user (store_or_query app rd s) i db = Inr ()"
  shows "gql_authorised lib app rd ep user args db"
  unfolding gql_authorised_def using assms gql_check_existing_access [OF assms(1,4)] by blast


definition toy_gql :: gql_lib where
  "toy_gql = \<lparr>ql_missing_argument = (\<lambda>name. ''missing''), ql_uuid_error = (\<lambda>s. ''malformed'')\<rparr>"

definition member_of :: "string \<Rightarrow> authenticated_user" where
  "member_of tenant = \<lparr>au_sub = ''u1'', au_role = ''member'', au_tenant_id = Some tenant\<rparr>"

text \<open>A resource with a tenant column whose records their owners may update and delete, and any caller may create.\<close>

definition owned_notes :: resource_definition where
  "owned_notes = sample_resource\<lparr>rd_resource := ''notes'', rd_tenant_key := Some ''org'', rd_endpoints := Some
     [(''create'', default_endpoint), (''update'', default_endpoint), (''delete'', default_endpoint\<lparr>ep_auth := Some Owner\<rparr>)]\<rparr>"


text \<open>The tenant checks of the REST handlers have no counterpart here: a member of one tenant updates a
  record of another, which \<open>handle_update\<close> refuses.\<close>

lemma graphql_update_crosses_tenants:
  "wo_db (fst (fst (run_call toy_gql bare_app (Some (member_of ''t1'')) (UpdateCall owned_notes
      [(''id'', JStr ''1''), (''input'', JObj [(''name'', JStr ''mine'')])])
      (start_world [(1, JObj [(''org'', JStr ''t2'')])], []))))
    = [(1, JObj [(''name'', JStr ''mine'')])]"
  "snd (handle_update (\<lambda>h. True) bare_app (member_request ''t1'') owned_notes default_endpoint ''1''
      (JObj [(''name'', JStr ''mine'')]) (start_world [(1, JObj [(''org'', JStr ''t2'')])])) = Inl NotFound"
  by code_simp+

text \<open>A list or a record whose endpoint the resource does not declare is answered to every caller.\<close>

lemma undeclared_reads_open:
  "endpoint_named rd ''list'' = None \<Longrightarrow> resolve_list app rd user args db = resolve_list app rd None args db"
  "endpoint_named rd ''get'' = None \<Longrightarrow> resolve_get lib app rd user args db = resolve_get lib app rd None args db"
  by (simp_all add: resolve_list_def resolve_get_def gql_list_endpoint_def gql_get_endpoint_def enforce_def
      default_endpoint_def gql_owner_check_def needs_owner_check_def)

section \<open>The loader answers like the database\<close>

text \<open>Calls that only read; a relation to many names a foreign key other than the id of the related record.\<close>

fun reading_call :: "gql_call \<Rightarrow> bool" where
  "reading_call (ListCall rd args) \<longleftrightarrow> True"
| "reading_call (GetCall rd args) \<longleftrightarrow> True"
| "reading_call (RelationCall rd name rel parent) \<longleftrightarrow>
     rel_type rel = BelongsTo \<or> (rel_foreign_key rel \<noteq> None \<and> rel_foreign_key rel \<noteq> Some ''id'')"
| "reading_call _ \<longleftrightarrow> False"

text \<open>The rows of an entry are those of the query that its key stands for.\<close>

definition entry_current :: "'db app \<Rightarrow> 'db \<Rightarrow> loader_key \<Rightarrow> json list \<Rightarrow> bool" where
  "entry_current app db key rows = (case key of (resource_name, f, v) \<Rightarrow>
     if f = ''id'' then \<exists>i row. v = show_uuid (sl_values (ap_lib app)) i \<and> rows = [row]
       \<and> fetch_by_id app (ap_resources app) resource_name i db = Inr row
     else fetch_by_filter app (ap_resources app) resource_name f v db = Inr rows)"

definition loader_current :: "'db app \<Rightarrow> 'db \<Rightarrow> loader_cache \<Rightarrow> bool" where
  "loader_current app db cache \<longleftrightarrow> (\<forall>key rows. map_of cache key = Some rows \<longrightarrow> entry_current app db key rows)"

lemma loader_current_Nil: "loader_current app db []"
  by (simp add: loader_current_def)

text \<open>A load from a current cache leaves it current and answers like a load from an empty one.\<close>

lemma cached_load_fresh:
  assumes current: "loader_current app db cache" and entry: "\<And>rows. fetched = Inr rows \<longleftrightarrow> entry_current app db key rows"
  shows "loader_current app db (fst (cached_load key fetched cache))"
    and "snd (cached_load key fetched cache) = snd (cached_load key fetched [])"
proof -
  have fresh: "snd (cached_load key fetched []) = fetched"
    by (simp add: cached_load_def split: sum.split)
  have "loader_current app db (fst (cached_load key fetched cache)) \<and> snd (cached_load key fetched cache) = fetched"
  proof (cases "map_of cache key")
    case None
    show ?thesis
    proof (cases fetched)
      case (Inr rows)
      with entry have "entry_current app db key rows" by blast
      with current None Inr show ?thesis by (simp add: cached_load_def loader_current_def AList.update_conv')
    qed (simp add: cached_load_def None current)
  next
    case (Some rows)
    with current entry have "fetched = Inr rows" unfolding loader_current_def by blast
    with Some current show ?thesis by (simp add: cached_load_def)
  qed
  with fresh show "loader_current app db (fst (cached_load key fetched cache))"
    and "snd (cached_load key fetched cache) = snd (cached_load key fetched [])" by simp_all
qed

lemma load_by_id_current:
  assumes "loader_current app db cache"
    and uuids: "\<And>j. parse_uuid (sl_values (ap_lib app)) (show_uuid (sl_values (ap_lib app)) j) = Some j"
  shows "loader_current app db (fst (load_by_id app (ap_resources app) name i db cache))
    \<and> snd (load_by_id app (ap_resources app) name i db cache)
      = snd (load_by_id app (ap_resources app) name i db [])"
proof -
  define fetched where "fetched = and_then (fetch_by_id app (ap_resources app) name i db) (\<lambda>row. Inr [row])"
  define key where "key = (name, ''id'', show_uuid (sl_values (ap_lib app)) i)"
  have same: "i = j" if "show_uuid (sl_values (ap_lib app)) i = show_uuid (sl_values (ap_lib app)) j" for j
    using uuids that by (metis option.inject)
  have "fetched = Inr rows \<longleftrightarrow> entry_current app db key rows" for rows
    unfolding fetched_def key_def entry_current_def by (auto simp: result_simps dest: same)
  note fresh = cached_load_fresh [OF assms(1) this]
  have "load_by_id app (ap_resources app) name i db c = (fst (cached_load key fetched c),
      and_then (snd (cached_load key fetched c)) (\<lambda>rows. Inr (case rows of [] \<Rightarrow> None | row # _ \<Rightarrow> Some row)))" for c
    unfolding load_by_id_def fetched_def key_def by (simp only: split_beta)
  then show ?thesis by (simp only: fresh fst_conv snd_conv)
qed

lemma load_by_filter_current:
  assumes "loader_current app db cache" and "f \<noteq> ''id''"
  shows "loader_current app db (fst (load_by_filter app (ap_resources app) name f v db cache))
    \<and> snd (load_by_filter app (ap_resources app) name f v db cache)
      = snd (load_by_filter app (ap_resources app) name f v db [])"
  unfolding load_by_filter_def
  by (intro conjI cached_load_fresh [OF assms(1)]) (simp_all add: entry_current_def assms(2))

lemma run_call_current:
  assumes "reading_call call" and "loader_current app (wo_db w) c"
    and "\<And>j. parse_uuid (sl_values (ap_lib app)) (show_uuid (sl_values (ap_lib app)) j) = Some j"
  shows "\<exists>c'. fst (run_call lib app user call (w, c)) = (w, c') \<and> loader_current app (wo_db w) c'
    \<and> snd (run_call lib app user call (w, c)) = snd (run_call lib app user call (w, []))"
proof (cases call)
  case (RelationCall rd name rel parent)
  let ?run = "\<lambda>c. resolve_relation lib app rd name rel parent (wo_db w) c"
  have "loader_current app (wo_db w) (fst (?run c)) \<and> snd (?run c) = snd (?run [])"
  proof (cases "rel_type rel = BelongsTo")
    case True
    then show ?thesis
      using load_by_id_current [OF assms(2,3)] assms(2)
      by (simp add: resolve_relation_def resolve_belongs_to_def Let_def split_beta split: option.split)
  next
    case False
    with assms(1) RelationCall obtain fk where fk: "rel_foreign_key rel = Some fk" "fk \<noteq> ''id''" by auto
    then show ?thesis
      using load_by_filter_current [OF assms(2) fk(2)] assms(2) False
      by (simp add: resolve_relation_def resolve_has_def Let_def split_beta split: option.split)
  qed
  with RelationCall show ?thesis by (simp add: split_beta)
qed (use assms in simp_all)

text \<open>C16. The loader is transparent: in a request that only reads, with relations to many that name a
  foreign key, every call gives what it would give with a loader of its own, whatever the calls before
  it have put into the shared one. So sharing saves queries and changes no answer.\<close>

theorem loader_transparent:
  assumes "list_all reading_call calls"
    and "\<And>j. parse_uuid (sl_values (ap_lib app)) (show_uuid (sl_values (ap_lib app)) j) = Some j"
  shows "graphql_handler lib app req calls w = (w, map (\<lambda>call. hd (snd (graphql_handler lib app req [call] w))) calls)"
proof -
  define user where "user = try_extract_auth (ap_jwt_lib app) (ap_now app) (hr_auth req)"
  have "\<exists>c'. run_calls lib app user calls (w, c) = ((w, c'), map (\<lambda>call. snd (run_call lib app user call (w, []))) calls)"
    if "loader_current app (wo_db w) c" for c
    using assms(1) that
  proof (induction calls arbitrary: c)
    case (Cons call calls)
    then have reads: "reading_call call" by simp
    obtain c' where c': "fst (run_call lib app user call (w, c)) = (w, c')" "loader_current app (wo_db w) c'"
      "snd (run_call lib app user call (w, c)) = snd (run_call lib app user call (w, []))"
      using run_call_current [OF reads Cons.prems(2) assms(2)] by blast
    obtain c'' where "run_calls lib app user calls (w, c')
        = ((w, c''), map (\<lambda>call. snd (run_call lib app user call (w, []))) calls)"
      using Cons.IH [OF _ c'(2)] Cons.prems(1) by auto
    with c'(1,3) show ?case by (cases "run_call lib app user call (w, c)") simp
  qed simp
  from this [OF loader_current_Nil] show ?thesis
    by (fastforce simp: graphql_handler_def user_def [symmetric] split: prod.splits)
qed

definition author :: relation_spec where
  "author = \<lparr>rel_resource = ''notes'', rel_type = BelongsTo, rel_key = None, rel_foreign_key = None\<rparr>"

definition notes_app :: "rows app" where
  "notes_app = bare_app\<lparr>ap_resources := [owned_notes]\<rparr>"

theorem loader_transparent_witness:
  "snd (graphql_handler toy_gql notes_app anonymous_request
      (replicate 2 (RelationCall owned_notes ''author'' author (JObj [(''author_id'', JStr ''1'')])))
      (start_world [(1, JObj [(''name'', JStr ''Ann'')])]))
    = replicate 2 (Inr (JObj [(''name'', JStr ''Ann'')]))"
proof -
  let ?call = "RelationCall owned_notes ''author'' author (JObj [(''author_id'', JStr ''1'')])"
  let ?w = "start_world [(1, JObj [(''name'', JStr ''Ann'')])]"
  have "list_all reading_call (replicate 2 ?call)" by (simp add: author_def list_all_length)
  moreover have "parse_uuid (sl_values (ap_lib notes_app)) (show_uuid (sl_values (ap_lib notes_app)) j) = Some j" for j
    by (simp add: notes_app_def bare_app_def toy_sql_lib_def toy_lib_def)
  ultimately have "snd (graphql_handler toy_gql notes_app anonymous_request (replicate 2 ?call) ?w)
      = replicate 2 (hd (snd (graphql_handler toy_gql notes_app anonymous_request [?call] ?w)))"
    using loader_transparent [of "replicate 2 ?call" notes_app toy_gql anonymous_request ?w] by simp
  moreover have "snd (graphql_handler toy_gql notes_app anonymous_request [?call] ?w)
      = [Inr (JObj [(''name'', JStr ''Ann'')])]"
    by code_simp
  ultimately show ?thesis by simp
qed

text \<open>Both hypotheses matter. A mutation between two reads of a relation is not seen by the second one;
  and a relation to many without a foreign key shares its entry with the lookup by id, so that a missing
  record is null after it and an error before it.\<close>

lemma loader_misses_mutation:
  "snd (graphql_handler toy_gql notes_app anonymous_request
      [RelationCall owned_notes ''author'' author (JObj [(''author_id'', JStr ''1'')]),
       UpdateCall owned_notes [(''id'', JStr ''1''), (''input'', JObj [(''name'', JStr ''Bob'')])],
       RelationCall owned_notes ''author'' author (JObj [(''author_id'', JStr ''1'')])]
      (start_world [(1, JObj [(''name'', JStr ''Ann'')])]))
    = [Inr (JObj [(''name'', JStr ''Ann'')]), Inr (JObj [(''name'', JStr ''Bob'')]), Inr (JObj [(''name'', JStr ''Ann'')])]"
  by code_simp

lemma loader_shares_id_key:
  "snd (graphql_handler toy_gql notes_app anonymous_request
      [RelationCall owned_notes ''author'' author (JObj [(''author_id'', JStr ''9'')]),
       RelationCall owned_notes ''replies'' (author\<lparr>rel_type := HasMany\<rparr>) (JObj [(''id'', JStr ''9'')]),
       RelationCall owned_notes ''author'' author (JObj [(''author_id'', JStr ''9'')])]
      (start_world []))
    = [Inl ''Resource not found'', Inr (JArr []), Inr JNull]"
  by code_simp

section \<open>Every type the schema names is in it\<close>

fun ref_name :: "type_ref \<Rightarrow> string" where
  "ref_name (Named t) = t"
| "ref_name (NamedList t) = t"
| "ref_name (NamedListNn t) = t"

definition mentions :: "gql_field list \<Rightarrow> string set" where
  "mentions fs = (\<Union>f \<in> set fs. insert (ref_name (gf_type f)) (ref_name ` snd ` set (gf_args f)))"

definition schema_types :: "gql_schema \<Rightarrow> string set" where
  "schema_types g = {''String'', ''Int'', ''Float'', ''Boolean''} \<union> fst ` set (gs_inputs g) \<union> fst ` set (gs_objects g)"

definition schema_mentions :: "gql_schema \<Rightarrow> string set" where
  "schema_mentions g = mentions (gs_query g)
     \<union> (case gs_mutation g of None \<Rightarrow> {} | Some fs \<Rightarrow> mentions fs)
     \<union> (case gs_subscription g of None \<Rightarrow> {} | Some fs \<Rightarrow> mentions fs)
     \<union> (\<Union>t \<in> set (gs_inputs g) \<union> set (gs_objects g). mentions (snd t))"

definition relation_targets :: "resource_definition \<Rightarrow> string set" where
  "relation_targets rd = (case rd_relations rd of None \<Rightarrow> {} | Some rels \<Rightarrow> rel_resource ` snd ` set rels)"

lemma mentions_simps:
  "mentions [] = {}" "mentions (f # fs) = insert (ref_name (gf_type f)) (ref_name ` snd ` set (gf_args f)) \<union> mentions fs"
  "mentions (fs @ gs) = mentions fs \<union> mentions gs"
  by (auto simp: mentions_def)

lemma mentions_concat: "mentions (concat fss) = (\<Union>fs \<in> set fss. mentions fs)"
  by (auto simp: mentions_def)

lemma mentions_plain: "mentions (map (\<lambda>x. plain_gql_field (n x) (t x)) xs) = ref_name ` t ` set xs"
  by (auto simp: mentions_def plain_gql_field_def)

text \<open>A resource names scalars, its own object, its input object when it has one, and the objects of its
  relations.\<close>

definition resource_types :: "resource_definition \<Rightarrow> string set" where
  "resource_types rd = {''String'', ''Int'', ''Float'', ''Boolean'', object_type_name (rd_resource rd)}
     \<union> (if declares rd ''create'' \<or> declares rd ''update'' then {object_type_name (rd_resource rd) @ ''Input''} else {})
     \<union> object_type_name ` relation_targets rd"

lemma resource_mentions:
  "mentions (query_fields rd) \<subseteq> resource_types rd" "mentions (mutation_fields rd) \<subseteq> resource_types rd"
  "mentions (subscription_fields rd) \<subseteq> resource_types rd" "mentions (snd (resource_object rd)) \<subseteq> resource_types rd"
  "input_object rd = Some t \<Longrightarrow> mentions (snd t) \<subseteq> resource_types rd"
proof -
  show "mentions (query_fields rd) \<subseteq> resource_types rd" "mentions (mutation_fields rd) \<subseteq> resource_types rd"
    by (auto simp: query_fields_def mutation_fields_def resource_types_def mentions_simps Let_def)
  show "mentions (subscription_fields rd) \<subseteq> resource_types rd"
    by (auto simp: subscription_fields_def mentions_plain resource_types_def)
  have scalar: "ref_name (field_type_to_type_ref ft) \<in> resource_types rd" for ft
    by (cases ft) (simp_all add: resource_types_def)
  have "mentions (map (\<lambda>(name, f). plain_gql_field name (field_type_to_type_ref (fs_type f))) (rd_schema rd)) \<subseteq> resource_types rd"
    by (auto simp: mentions_def plain_gql_field_def split_beta scalar)
  moreover have "mentions (map (\<lambda>(name, rel). relation_field name rel) rels) \<subseteq> resource_types rd"
    if "rd_relations rd = Some rels" for rels
  proof -
    have "ref_name (gf_type (relation_field name rel)) = object_type_name (rel_resource rel)" "gf_args (relation_field name rel) = []"
      for name rel
      by (simp_all add: relation_field_def plain_gql_field_def)
    moreover have "rel_resource rel \<in> relation_targets rd" if "(name, rel) \<in> set rels" for name rel
      using that \<open>rd_relations rd = Some rels\<close> by (force simp: relation_targets_def)
    ultimately show ?thesis by (auto simp: mentions_def resource_types_def)
  qed
  ultimately show "mentions (snd (resource_object rd)) \<subseteq> resource_types rd"
    by (simp add: resource_object_def mentions_simps split: option.split)
  show "mentions (snd t) \<subseteq> resource_types rd" if "input_object rd = Some t"
    using that
    by (auto simp: input_object_def mentions_def plain_gql_field_def scalar List.map_filter_def Let_def split: if_splits)
qed

text \<open>The schema is closed: whenever every relation names a resource of the list, every type that a
  field or an argument of the schema names (in a root, an object or an input object) is a scalar or
  one of the types registered with it, so building it cannot fail on an unknown type.\<close>

lemma graphql_schema_closed:
  assumes "\<forall>rd \<in> set rds. relation_targets rd \<subseteq> rd_resource ` set rds"
  shows "schema_mentions (build_schema_with_config rds config) \<subseteq> schema_types (build_schema_with_config rds config)"
proof -
  let ?g = "build_schema_with_config rds config"
  have objs: "object_type_name ` rd_resource ` set rds \<subseteq> schema_types ?g"
    by (auto simp: schema_types_def build_schema_with_config_def Let_def resource_object_def image_image)
  have inputs: "object_type_name (rd_resource rd) @ ''Input'' \<in> schema_types ?g"
    if "rd \<in> set rds" and "declares rd ''create'' \<or> declares rd ''update''" for rd
  proof -
    from that(2) obtain t where t: "input_object rd = Some t" "fst t = object_type_name (rd_resource rd) @ ''Input''"
      by (auto simp: input_object_def Let_def)
    with that(1) have "t \<in> set (gs_inputs ?g)"
      by (force simp: build_schema_with_config_def Let_def List.map_filter_def)
    with t(2) show ?thesis unfolding schema_types_def by (metis UnI1 UnI2 imageI)
  qed
  have scalars: "{''String'', ''Int'', ''Float'', ''Boolean''} \<subseteq> schema_types ?g"
    by (simp add: schema_types_def)
  have own: "resource_types rd \<subseteq> schema_types ?g" if rd: "rd \<in> set rds" for rd
  proof -
    have "object_type_name ` relation_targets rd \<subseteq> schema_types ?g"
      using rd assms image_mono [of "relation_targets rd" "rd_resource ` set rds" object_type_name] objs by blast
    moreover have "object_type_name (rd_resource rd) \<in> schema_types ?g" using rd objs by blast
    ultimately show ?thesis using inputs [OF rd] scalars by (simp add: resource_types_def)
  qed
  have roots: "(\<Union>rd \<in> set rds. mentions (f rd)) \<subseteq> (\<Union>rd \<in> set rds. resource_types rd)"
    if "f \<in> {query_fields, mutation_fields, subscription_fields}" for f
    using that by (intro UN_mono order_refl) (auto dest: subsetD [OF resource_mentions(1)] subsetD [OF resource_mentions(2)]
      subsetD [OF resource_mentions(3)])
  have objects: "mentions (snd t) \<subseteq> (\<Union>rd \<in> set rds. resource_types rd)"
    if "t \<in> set (gs_inputs ?g) \<union> set (gs_objects ?g)" for t
  proof -
    from that obtain rd where rd: "rd \<in> set rds" "t = resource_object rd \<or> input_object rd = Some t"
      by (auto simp: build_schema_with_config_def Let_def List.map_filter_def)
    then have "mentions (snd t) \<subseteq> resource_types rd" using resource_mentions(4,5) by metis
    with rd(1) show ?thesis by (rule UN_upper [THEN subset_trans [rotated]])
  qed
  have "schema_mentions ?g \<subseteq> (\<Union>rd \<in> set rds. resource_types rd)"
    unfolding schema_mentions_def
    by (intro Un_least UN_least objects) (simp_all add: build_schema_with_config_def Let_def mentions_concat roots)
  with own show ?thesis by blast
qed

end
