(* ===== verification/Openapi.thy ===== *)
theory Openapi
  imports Routes "HOL-Library.List_Lexorder" "HOL-Library.Char_ord"
begin

text \<open>
  The OpenAPI generator, \<open>shaperail-codegen/src/openapi.rs\<close>: the document as a JSON value, in the
  order the code builds it (a \<open>BTreeMap\<close> is sorted by key, a \<open>json!\<close> object keeps the order it is
  written in). The lemmas relate it to the routes that the runtime registers. Printing the value as
  JSON or YAML is the work of the serde crates.
\<close>

section \<open>Sorted maps\<close>

text \<open>A \<open>BTreeMap\<close> is the list of its entries in key order.\<close>

fun bt_insert :: "'k::linorder \<Rightarrow> 'v \<Rightarrow> ('k \<times> 'v) list \<Rightarrow> ('k \<times> 'v) list" where
  "bt_insert k v [] = [(k, v)]"
| "bt_insert k v ((k', v') # m) =
     (if k < k' then (k, v) # (k', v') # m
      else if k = k' then (k, v) # m
      else (k', v') # bt_insert k v m)"

definition bt_of :: "('k::linorder \<times> 'v) list \<Rightarrow> ('k \<times> 'v) list" where
  "bt_of kvs = fold (\<lambda>(k, v). bt_insert k v) kvs []"

lemma map_of_bt_insert [simp]: "map_of (bt_insert k v m) = (map_of m)(k \<mapsto> v)"
  by (induction m) auto

lemma bt_insert_keys: "fst ` set (bt_insert k v m) = insert k (fst ` set m)"
  by (simp add: dom_map_of_conv_image_fst [symmetric])

lemma bt_insert_entries: "set (bt_insert k v m) \<subseteq> insert (k, v) (set m)"
  by (induction m) (auto split: if_splits)

section \<open>Pieces of the document\<close>

abbreviation typed :: "string \<Rightarrow> json" where
  "typed t \<equiv> JObj [(''type'', JStr t)]"

abbreviation formatted :: "string \<Rightarrow> string \<Rightarrow> json" where
  "formatted t f \<equiv> JObj [(''type'', JStr t), (''format'', JStr f)]"

abbreviation schema_ref :: "string \<Rightarrow> json" where
  "schema_ref name \<equiv> JObj [(''$ref'', JStr (''#/components/schemas/'' @ name))]"

definition error_schema :: json where
  "error_schema = JObj [(''type'', JStr ''object''), (''properties'', JObj [(''error'', JObj [
     (''type'', JStr ''object''),
     (''properties'', JObj [(''code'', typed ''string''), (''status'', typed ''integer''), (''message'', typed ''string''),
       (''request_id'', typed ''string''),
       (''details'', JObj [(''type'', JStr ''array''), (''items'', JObj [(''type'', JStr ''object''),
          (''properties'', JObj [(''field'', typed ''string''), (''message'', typed ''string'')])])])]),
     (''required'', JArr [JStr ''code'', JStr ''status'', JStr ''message''])])]),
     (''required'', JArr [JStr ''error''])]"

text \<open>Words between underscores, first character in upper case, the others in lower case. The case of
  code points outside ASCII is a table of the standard library (\<open>up\<close>, \<open>uc\<close>).\<close>

definition upper_first :: "(string \<Rightarrow> string) \<Rightarrow> string \<Rightarrow> string" where
  "upper_first up c = (case c of [b] \<Rightarrow> (let n = (of_char b :: nat) in [if 97 \<le> n \<and> n \<le> 122 then char_of (n - 32) else b])
     | _ \<Rightarrow> up c)"

definition to_pascal_case :: "(string \<Rightarrow> string) \<Rightarrow> unicode_lib \<Rightarrow> string \<Rightarrow> string" where
  "to_pascal_case up uc s = concat (map (\<lambda>word. case chars word of
       [] \<Rightarrow> []
     | c # cs \<Rightarrow> upper_first up c @ to_lowercase uc (concat cs)) (split_on CHR ''_'' s))"

section \<open>Fields\<close>

fun element_type_name :: "field_type \<Rightarrow> string" where
  "element_type_name FtInteger = ''integer''"
| "element_type_name FtNumber = ''number''"
| "element_type_name FtBoolean = ''boolean''"
| "element_type_name FtJson = ''object''"
| "element_type_name FtArray = ''array''"
| "element_type_name _ = ''string''"

definition put :: "string \<Rightarrow> json option \<Rightarrow> jmap \<Rightarrow> jmap" where
  "put k v m = (case v of None \<Rightarrow> m | Some x \<Rightarrow> AList.update k x m)"

definition bt_put :: "string \<Rightarrow> json option \<Rightarrow> jmap \<Rightarrow> jmap" where
  "bt_put k v m = (case v of None \<Rightarrow> m | Some x \<Rightarrow> bt_insert k x m)"

abbreviation text_list :: "string list \<Rightarrow> json" where
  "text_list xs \<equiv> JArr (map JStr xs)"

definition items_to_openapi :: "items_spec \<Rightarrow> json" where
  "items_to_openapi items =
     (let t = it_type items; textual = (t = FtString \<or> t = FtEnum) in
      JObj (put (if textual then ''maxLength'' else ''maximum'') (it_max items)
           (put (if textual then ''minLength'' else ''minimum'') (it_min items)
           (put ''enum'' (map_option text_list (it_values items))
           (put ''format'' (map_option JStr (it_format items))
           (put ''format'' (if t = FtUuid then Some (JStr ''uuid'') else if t = FtTimestamp then Some (JStr ''date-time'')
              else if t = FtDate then Some (JStr ''date'') else None)
             [(''type'', JStr (element_type_name t))]))))))"

definition field_type_to_openapi :: "field_schema \<Rightarrow> jmap" where
  "field_type_to_openapi f = (case fs_type f of
     FtUuid \<Rightarrow> bt_of [(''type'', JStr ''string''), (''format'', JStr ''uuid'')]
   | FtString \<Rightarrow> bt_of [(''type'', JStr ''string'')]
   | FtInteger \<Rightarrow> bt_of [(''type'', JStr ''integer''), (''format'', JStr ''int64'')]
   | FtNumber \<Rightarrow> bt_of [(''type'', JStr ''number'')]
   | FtBoolean \<Rightarrow> bt_of [(''type'', JStr ''boolean'')]
   | FtTimestamp \<Rightarrow> bt_of [(''type'', JStr ''string''), (''format'', JStr ''date-time'')]
   | FtDate \<Rightarrow> bt_of [(''type'', JStr ''string''), (''format'', JStr ''date'')]
   | FtEnum \<Rightarrow> bt_put ''enum'' (map_option text_list (fs_values f)) (bt_of [(''type'', JStr ''string'')])
   | FtJson \<Rightarrow> bt_of [(''type'', JStr ''object'')]
   | FtArray \<Rightarrow> bt_of [(''type'', JStr ''array''),
       (''items'', case fs_items f of Some items \<Rightarrow> items_to_openapi items | None \<Rightarrow> JObj [])]
   | FtFile \<Rightarrow> bt_of [(''type'', JStr ''string''), (''format'', JStr ''uri'')])"

text \<open>The names of a bound: lengths of a string, limits of a number, none for the other types.\<close>

definition bound_key :: "field_type \<Rightarrow> string \<Rightarrow> string \<Rightarrow> string option" where
  "bound_key t for_string for_number =
     (if t = FtString then Some for_string else if t = FtInteger \<or> t = FtNumber then Some for_number else None)"

definition put_bound :: "string option \<Rightarrow> json option \<Rightarrow> jmap \<Rightarrow> jmap" where
  "put_bound key v m = (case key of None \<Rightarrow> m | Some k \<Rightarrow> bt_put k v m)"

definition field_schema_to_openapi :: "field_schema \<Rightarrow> json" where
  "field_schema_to_openapi f =
     (let t = fs_type f; obj0 = field_type_to_openapi f;
          obj1 = (if map_of obj0 ''format'' = None then bt_put ''format'' (map_option JStr (fs_format f)) obj0 else obj0);
          obj2 = put_bound (bound_key t ''minLength'' ''minimum'') (fs_min f) obj1;
          obj3 = put_bound (bound_key t ''maxLength'' ''maximum'') (fs_max f) obj2
      in JObj (bt_put ''default'' (fs_default f) obj3))"

section \<open>Schemas\<close>

definition object_schema :: "jmap \<Rightarrow> string list \<Rightarrow> json" where
  "object_schema properties required =
     JObj ([(''type'', JStr ''object''), (''properties'', JObj properties)]
       @ (if required = [] then [] else [(''required'', text_list required)]))"

definition build_resource_schema :: "resource_definition \<Rightarrow> json" where
  "build_resource_schema rd =
     (let shown_fields = filter (\<lambda>(n, f). \<not> fs_sensitive f \<and> \<not> fs_transient f) (rd_schema rd) in
      object_schema (bt_of (map (\<lambda>(n, f). (n, field_schema_to_openapi f)) shown_fields))
        (map fst (filter (\<lambda>(n, f). fs_required f \<and> \<not> fs_generated f) shown_fields)))"

text \<open>The fields of an input list that the schema has.\<close>

definition input_schemas :: "resource_definition \<Rightarrow> string list \<Rightarrow> (string \<times> field_schema) list" where
  "input_schemas rd input_fields =
     List.map_filter (\<lambda>n. map_option (\<lambda>f. (n, f)) (map_of (rd_schema rd) n)) input_fields"

definition required_inputs :: "bool \<Rightarrow> (string \<times> field_schema) list \<Rightarrow> string list" where
  "required_inputs is_create fs = map fst (filter (\<lambda>(n, f). is_create \<and> fs_required f) fs)"

definition build_input_schema :: "resource_definition \<Rightarrow> string list \<Rightarrow> bool \<Rightarrow> json" where
  "build_input_schema rd input_fields is_create =
     (let fs = input_schemas rd input_fields in
      object_schema (bt_of (map (\<lambda>(n, f). (n, field_schema_to_openapi f)) fs)) (required_inputs is_create fs))"

definition build_multipart_input_schema :: "resource_definition \<Rightarrow> string list \<Rightarrow> string \<Rightarrow> bool \<Rightarrow> json" where
  "build_multipart_input_schema rd input_fields upload_field is_create =
     (let fs = input_schemas rd input_fields in
      object_schema (bt_of (map (\<lambda>(n, f). (n, if n = upload_field then formatted ''string'' ''binary''
          else field_schema_to_openapi f)) fs))
        (required_inputs is_create fs))"

section \<open>Operations\<close>

definition query_param :: "string \<Rightarrow> jmap \<Rightarrow> string \<Rightarrow> json" where
  "query_param name schema description =
     JObj [(''name'', JStr name), (''in'', JStr ''query''), (''required'', JBool False), (''schema'', JObj schema),
       (''description'', JStr description)]"

definition int_schema :: "(string \<times> nat) list \<Rightarrow> jmap" where
  "int_schema bounds = (''type'', JStr ''integer'') # map (\<lambda>(k, n). (k, JNum (PosInt n))) bounds"

definition limit_param :: json where
  "limit_param = query_param ''limit'' (int_schema [(''default'', 20), (''minimum'', 1), (''maximum'', 100)])
     ''Number of items per page''"

definition operation_parameters :: "string \<Rightarrow> http_method \<Rightarrow> endpoint_spec \<Rightarrow> json list" where
  "operation_parameters path m ep =
     (let text_schema = [(''type'', JStr ''string'')] in
      (if contains_str '':id'' path then [JObj [(''name'', JStr ''id''), (''in'', JStr ''path''), (''required'', JBool True),
         (''schema'', formatted ''string'' ''uuid'')]] else [])
    @ (case ep_filters ep of None \<Rightarrow> [] | Some fs \<Rightarrow>
         map (\<lambda>f. query_param (''filter['' @ f @ '']'') text_schema (''Filter by '' @ f)) fs)
    @ (case ep_search ep of None \<Rightarrow> [] | Some fs \<Rightarrow> if fs = [] then [] else
         [query_param ''search'' text_schema (''Full-text search across: '' @ join '', '' fs)])
    @ (if ep_sort ep \<noteq> None \<or> ep_pagination ep \<noteq> None then
         [query_param ''sort'' text_schema ''Sort fields (prefix with - for descending, e.g., -created_at,name)''] else [])
    @ (case ep_pagination ep of None \<Rightarrow> []
       | Some CursorStyle \<Rightarrow> [query_param ''cursor'' text_schema ''Cursor for the next page'', limit_param]
       | Some OffsetStyle \<Rightarrow> [query_param ''offset'' (int_schema [(''default'', 0), (''minimum'', 0)])
           ''Number of items to skip'', limit_param])
    @ (if m = Get then
         [query_param ''fields'' text_schema ''Comma-separated list of fields to include in response''] else []))"

definition json_content :: "json \<Rightarrow> json" where
  "json_content schema = JObj [(''application/json'', JObj [(''schema'', schema)])]"

definition request_body :: "string \<Rightarrow> resource_definition \<Rightarrow> string \<Rightarrow> endpoint_spec \<Rightarrow> json option" where
  "request_body input_schema_name rd action ep = (case ep_input ep of
     None \<Rightarrow> None
   | Some input_fields \<Rightarrow>
       if input_fields = [] then None
       else Some (JObj [(''required'', JBool True), (''content'', case ep_upload ep of
           Some upload \<Rightarrow> JObj [(''multipart/form-data'', JObj [(''schema'',
             build_multipart_input_schema rd input_fields (up_field upload) (action = ''create''))])]
         | None \<Rightarrow> json_content (schema_ref input_schema_name))]))"

fun success_status :: "http_method \<Rightarrow> string" where
  "success_status Post = ''201''"
| "success_status Delete = ''204''"
| "success_status _ = ''200''"

definition success_response :: "string \<Rightarrow> http_method \<Rightarrow> endpoint_spec \<Rightarrow> json" where
  "success_response struct_name m ep =
     (if m = Delete then JObj [(''description'', JStr ''Deleted successfully'')]
      else JObj [(''description'', JStr ''Successful response''), (''content'', json_content
        (JObj [(''type'', JStr ''object''), (''properties'',
          if ep_pagination ep \<noteq> None then
            JObj [(''data'', JObj [(''type'', JStr ''array''), (''items'', schema_ref struct_name)]),
              (''meta'', JObj [(''type'', JStr ''object''), (''properties'', JObj [(''cursor'', typed ''string''),
                (''has_more'', typed ''boolean''), (''total'', typed ''integer'')])])]
          else JObj [(''data'', schema_ref struct_name)])]))])"

definition error_responses :: "string \<Rightarrow> endpoint_spec \<Rightarrow> (string \<times> string) list" where
  "error_responses path ep =
     [(''401'', ''Unauthorized''), (''403'', ''Forbidden'')]
     @ (if contains_str '':id'' path then [(''404'', ''Not found'')] else [])
     @ (if ep_input ep \<noteq> None then [(''422'', ''Validation error'')] else [])
     @ [(''429'', ''Rate limited''), (''500'', ''Internal server error'')]"

definition operation_responses :: "string \<Rightarrow> string \<Rightarrow> http_method \<Rightarrow> endpoint_spec \<Rightarrow> jmap" where
  "operation_responses struct_name path m ep =
     bt_of ((success_status m, success_response struct_name m ep)
       # map (\<lambda>(status, description). (status, JObj [(''content'', json_content (schema_ref ''ErrorResponse'')),
           (''description'', JStr description)])) (error_responses path ep))"

fun hook_list_to_json :: "hook_list \<Rightarrow> json" where
  "hook_list_to_json (Single n) = JStr n"
| "hook_list_to_json (Multi ns) = text_list ns"

definition non_empty :: "string list \<Rightarrow> json option" where
  "non_empty xs = (if xs = [] then None else Some (text_list xs))"

definition auth_extension :: "endpoint_spec \<Rightarrow> json option" where
  "auth_extension ep = (case ep_auth ep of Some (Roles roles) \<Rightarrow> non_empty roles | _ \<Rightarrow> None)"

definition security_requirement :: "endpoint_spec \<Rightarrow> json option" where
  "security_requirement ep = (case ep_auth ep of
     None \<Rightarrow> None
   | Some auth \<Rightarrow> if is_public auth then None
       else Some (JArr [JObj [(''bearerAuth'', JArr [])], JObj [(''apiKeyAuth'', JArr [])]]))"

definition controller_extension :: "endpoint_spec \<Rightarrow> json option" where
  "controller_extension ep = map_option (\<lambda>c. JObj
     (put ''after'' (map_option hook_list_to_json (ct_after c))
     (put ''before'' (map_option hook_list_to_json (ct_before c)) []))) (ep_controller ep)"

definition build_operation :: "(string \<Rightarrow> string) \<Rightarrow> unicode_lib \<Rightarrow> string \<Rightarrow> resource_definition \<Rightarrow> string \<Rightarrow> endpoint_spec \<Rightarrow>
    panic + json" where
  "build_operation up uc struct_name rd action ep =
     and_then (path_of ep) (\<lambda>path. and_then (method_of ep) (\<lambda>m.
     (let parameters = operation_parameters path m ep;
          input_name = struct_name @ to_pascal_case up uc action @ ''Input'' in
      Inr (JObj
        (bt_put ''x-shaperail-events'' (Option.bind (ep_events ep) non_empty)
        (bt_put ''x-shaperail-controller'' (controller_extension ep)
        (bt_put ''x-shaperail-auth'' (auth_extension ep)
        (bt_put ''security'' (security_requirement ep)
        (bt_insert ''responses'' (JObj (operation_responses struct_name path m ep))
        (bt_put ''requestBody'' (request_body input_name rd action ep)
        (bt_put ''parameters'' (if parameters = [] then None else Some (JArr parameters))
          (bt_of [(''operationId'', JStr (rd_resource rd @ ''_'' @ action)), (''tags'', JArr [JStr (rd_resource rd)])]))))))))))))"

section \<open>The document\<close>

type_synonym path_items = "(string \<times> jmap) list"

definition method_key :: "http_method \<Rightarrow> string" where
  "method_key m = map ascii_lower (http_method_name m)"

definition document_endpoint :: "(string \<Rightarrow> string) \<Rightarrow> unicode_lib \<Rightarrow> resource_definition \<Rightarrow> string \<times> endpoint_spec \<Rightarrow>
    path_items \<Rightarrow> panic + path_items" where
  "document_endpoint up uc rd = (\<lambda>(action, ep) paths.
     and_then (path_of ep) (\<lambda>path.
     and_then (method_of ep) (\<lambda>m.
     and_then (build_operation up uc (to_pascal_case up uc (rd_resource rd)) rd action ep) (\<lambda>operation.
     (let openapi_path = ''/v'' @ show_nat (rd_version rd) @ to_brace_path path;
          entry = (case map_of paths openapi_path of Some e \<Rightarrow> e | None \<Rightarrow> [])
      in Inr (bt_insert openapi_path (bt_insert (method_key m) operation entry) paths))))))"

fun document_endpoints :: "(string \<Rightarrow> string) \<Rightarrow> unicode_lib \<Rightarrow> resource_definition \<Rightarrow> (string \<times> endpoint_spec) list \<Rightarrow>
    path_items \<Rightarrow> panic + path_items" where
  "document_endpoints up uc rd [] paths = Inr paths"
| "document_endpoints up uc rd (e # es) paths =
     and_then (document_endpoint up uc rd e paths) (document_endpoints up uc rd es)"

definition endpoints_of :: "resource_definition \<Rightarrow> (string \<times> endpoint_spec) list" where
  "endpoints_of rd = (case rd_endpoints rd of None \<Rightarrow> [] | Some es \<Rightarrow> es)"

definition resource_schemas :: "(string \<Rightarrow> string) \<Rightarrow> unicode_lib \<Rightarrow> resource_definition \<Rightarrow> (string \<times> json) list" where
  "resource_schemas up uc rd = (let struct_name = to_pascal_case up uc (rd_resource rd) in
     (struct_name, build_resource_schema rd)
     # List.map_filter (\<lambda>(action, ep). map_option (\<lambda>input_fields.
         (struct_name @ to_pascal_case up uc action @ ''Input'', build_input_schema rd input_fields (action = ''create'')))
         (ep_input ep)) (endpoints_of rd))"

fun document_resources :: "(string \<Rightarrow> string) \<Rightarrow> unicode_lib \<Rightarrow> resource_definition list \<Rightarrow> path_items \<Rightarrow> jmap \<Rightarrow>
    panic + path_items \<times> jmap" where
  "document_resources up uc [] paths schemas = Inr (paths, schemas)"
| "document_resources up uc (rd # rds) paths schemas =
     (let schemas' = fold (\<lambda>(n, s). bt_insert n s) (resource_schemas up uc rd) schemas in
      and_then (document_endpoints up uc rd (sort_key fst (endpoints_of rd)) paths) (\<lambda>paths'.
        document_resources up uc rds paths' schemas'))"

definition openapi_document :: "string \<Rightarrow> path_items \<Rightarrow> jmap \<Rightarrow> json" where
  "openapi_document project paths schemas = JObj [
     (''openapi'', JStr ''3.1.0''),
     (''info'', JObj [(''title'', JStr project), (''version'', JStr ''1.0.0'')]),
     (''paths'', JObj (map (\<lambda>(p, item). (p, JObj item)) paths)),
     (''components'', JObj [(''schemas'', JObj schemas),
        (''securitySchemes'', JObj [
          (''bearerAuth'', JObj [(''type'', JStr ''http''), (''scheme'', JStr ''bearer''), (''bearerFormat'', JStr ''JWT'')]),
          (''apiKeyAuth'', JObj [(''type'', JStr ''apiKey''), (''in'', JStr ''header''), (''name'', JStr ''X-API-Key'')])])])]"

definition generate :: "(string \<Rightarrow> string) \<Rightarrow> unicode_lib \<Rightarrow> string \<Rightarrow> resource_definition list \<Rightarrow> panic + json" where
  "generate up uc project rds =
     and_then (document_resources up uc (sort_key rd_resource rds) [] (bt_of [(''ErrorResponse'', error_schema)]))
       (\<lambda>(paths, schemas). Inr (openapi_document project paths schemas))"

section \<open>The document lists the registered routes\<close>

definition doc_lookup :: "path_items \<Rightarrow> string \<Rightarrow> string \<Rightarrow> json option" where
  "doc_lookup paths p k = Option.bind (map_of paths p) (\<lambda>item. map_of item k)"

text \<open>The operation of a document at a path and a method.\<close>

definition operation_at :: "json \<Rightarrow> string \<Rightarrow> string \<Rightarrow> json option" where
  "operation_at spec p k =
     Option.bind (json_get spec ''paths'') (\<lambda>ps. Option.bind (json_get ps p) (\<lambda>item. json_get item k))"

lemma operation_at_document: "operation_at (openapi_document project paths schemas) p k = doc_lookup paths p k"
proof -
  have "map_of (map (\<lambda>(p, item). (p, JObj item)) paths) p = map_option JObj (map_of paths p)"
    by (induction paths) auto
  then show ?thesis
    by (cases "map_of paths p") (simp_all add: operation_at_def openapi_document_def doc_lookup_def)
qed

definition endpoint_key :: "resource_definition \<Rightarrow> string \<times> endpoint_spec \<Rightarrow> string \<Rightarrow> string \<Rightarrow> bool" where
  "endpoint_key rd e p k \<longleftrightarrow> (\<exists>path m. ep_path (snd e) = Some path \<and> ep_method (snd e) = Some m
     \<and> p = ''/v'' @ show_nat (rd_version rd) @ to_brace_path path \<and> k = method_key m)"

lemma doc_lookup_insert:
  "doc_lookup (bt_insert q (bt_insert j op (case map_of paths q of Some e \<Rightarrow> e | None \<Rightarrow> [])) paths) p k
    = (if p = q \<and> k = j then Some op else doc_lookup paths p k)"
  by (cases "map_of paths q") (auto simp: doc_lookup_def)

lemma document_endpoint_lookup:
  assumes "document_endpoint up uc rd e paths = Inr paths'"
  shows "doc_lookup paths' p k \<noteq> None \<longleftrightarrow> doc_lookup paths p k \<noteq> None \<or> endpoint_key rd e p k"
  using assms
  by (cases e)
    (auto simp: document_endpoint_def endpoint_key_def path_of_def method_of_def result_simps Let_def doc_lookup_insert)

lemma document_endpoints_lookup:
  "document_endpoints up uc rd es paths = Inr paths' \<Longrightarrow>
    doc_lookup paths' p k \<noteq> None \<longleftrightarrow> doc_lookup paths p k \<noteq> None \<or> (\<exists>e \<in> set es. endpoint_key rd e p k)"
proof (induction es arbitrary: paths)
  case (Cons e es)
  then obtain paths1 where p: "document_endpoint up uc rd e paths = Inr paths1"
    "document_endpoints up uc rd es paths1 = Inr paths'"
    by (auto simp: result_simps)
  show ?case using Cons.IH [OF p(2)] document_endpoint_lookup [OF p(1), of p k] by simp
qed simp

lemma document_resources_lookup:
  "document_resources up uc rds paths schemas = Inr (paths', schemas') \<Longrightarrow>
    doc_lookup paths' p k \<noteq> None \<longleftrightarrow>
      doc_lookup paths p k \<noteq> None \<or> (\<exists>rd \<in> set rds. \<exists>e \<in> set (endpoints_of rd). endpoint_key rd e p k)"
proof (induction rds arbitrary: paths schemas)
  case (Cons rd rds)
  then obtain paths1 schemas1 where p: "document_endpoints up uc rd (sort_key fst (endpoints_of rd)) paths = Inr paths1"
    "document_resources up uc rds paths1 schemas1 = Inr (paths', schemas')"
    by (auto simp: result_simps Let_def)
  show ?case using Cons.IH [OF p(2)] document_endpoints_lookup [OF p(1), of p k] by simp
qed simp

lemma generate_lookup:
  assumes "generate up uc project rds = Inr spec"
  shows "operation_at spec p k \<noteq> None \<longleftrightarrow> (\<exists>rd \<in> set rds. \<exists>e \<in> set (endpoints_of rd). endpoint_key rd e p k)"
proof -
  obtain paths schemas where d: "document_resources up uc (sort_key rd_resource rds) []
      (bt_of [(''ErrorResponse'', error_schema)]) = Inr (paths, schemas)"
    and spec: "spec = openapi_document project paths schemas"
    using assms by (auto simp: generate_def result_simps)
  show ?thesis
    unfolding spec operation_at_document using document_resources_lookup [OF d, of p k] by (simp add: doc_lookup_def)
qed

text \<open>The routes of the table, endpoint by endpoint.\<close>

lemma register_endpoints_member:
  "register_endpoints rd es = Inr rs \<Longrightarrow> r \<in> set rs \<longleftrightarrow> (\<exists>e \<in> set es. register_endpoint rd e = Inr (Some r))"
proof (induction es arbitrary: rs)
  case (Cons e es)
  then obtain x xs where "register_endpoint rd e = Inr x" "register_endpoints rd es = Inr xs"
    "rs = (case x of Some y \<Rightarrow> y # xs | None \<Rightarrow> xs)"
    by (auto simp: result_simps)
  with Cons.IH [of xs] show ?case by (cases x) auto
qed simp

lemma register_all_member:
  "register_all_resources rds = Inr routes \<Longrightarrow>
    r \<in> set routes \<longleftrightarrow> (\<exists>rd \<in> set rds. \<exists>e \<in> set (endpoints_of rd). register_endpoint rd e = Inr (Some r))"
proof (induction rds arbitrary: routes)
  case (Cons rd rds)
  then obtain xs ys where p: "register_resource rd = Inr xs" "register_all_resources rds = Inr ys" "routes = xs @ ys"
    by (auto simp: result_simps)
  have "r \<in> set xs \<longleftrightarrow> (\<exists>e \<in> set (endpoints_of rd). register_endpoint rd e = Inr (Some r))"
    using p(1) register_endpoints_member
    by (cases "rd_endpoints rd") (auto simp: register_resource_def endpoints_of_def)
  with Cons.IH [OF p(2)] p(3) show ?case by simp
qed simp

lemma method_key_inj: "method_key m = method_key m' \<longleftrightarrow> m = m'"
  by (cases m; cases m') (simp_all add: method_key_def ascii_lower_def)

text \<open>An endpoint declares no other method than the one its action is registered with.\<close>

definition conventional :: "string \<times> endpoint_spec \<Rightarrow> bool" where
  "conventional e \<longleftrightarrow> map_option fst (convention_target (fst e) (snd e)) = ep_method (snd e)"

lemma conventional_route:
  assumes "conventional e"
  shows "(\<exists>r. register_endpoint rd e = Inr (Some r) \<and> rt_path r = p \<and> rt_method r = m) \<longleftrightarrow> endpoint_key rd e p (method_key m)"
proof (cases e)
  case (Pair action ep)
  show ?thesis
  proof (cases "convention_target action ep")
    case None
    with assms Pair show ?thesis by (auto simp: register_endpoint_ok endpoint_key_def conventional_def)
  next
    case (Some mt)
    with assms Pair have "ep_method ep = Some (fst mt)" by (simp add: conventional_def)
    with Some Pair show ?thesis
      by (cases mt) (auto simp: register_endpoint_ok endpoint_key_def method_key_inj)
  qed
qed


text \<open>The generated document of a list, for the witnesses.\<close>

definition spec_of :: "resource_definition list \<Rightarrow> json" where
  "spec_of rds = (case generate (\<lambda>c. c) plain_unicode ''shop'' rds of Inr spec \<Rightarrow> spec | Inl e \<Rightarrow> JNull)"

lemma sample_spec: "generate (\<lambda>c. c) plain_unicode ''shop'' [sample_resource] = Inr (spec_of [sample_resource])"
proof -
  have "is_ok (generate (\<lambda>c. c) plain_unicode ''shop'' [sample_resource])" by code_simp
  then show ?thesis by (auto simp: spec_of_def is_ok_iff)
qed


text \<open>Two places where the document promises something else than the handlers do: the status of the bulk
  operations, and the number of records of a page when a request names none.\<close>

lemma bulk_status_differs:
  "success_status Post = ''201''" "success_status Delete = ''204''" "hs_status (bulk vs) = 200"
  by (simp_all add: bulk_def)

lemma default_limit_differs:
  "Option.bind (json_get limit_param ''schema'') (\<lambda>v. json_get v ''default'') = Some (JNum (PosInt 20))"
  "clamped_limit None = 25"
  by (simp_all add: limit_param_def query_param_def int_schema_def clamped_limit_def max_limit_def default_limit_def)

section \<open>The document does not depend on the order of the resources\<close>

text \<open>Generation is deterministic in the strong sense that the code claims: the same resources, with
  distinct names and in any order, give the same document, entry for entry.\<close>

lemma document_order_independent:
  assumes "mset rds = mset rds'" and "distinct (map rd_resource rds)"
  shows "generate up uc project rds = generate up uc project rds'"
proof -
  have "inj_on rd_resource (set rds)" using assms(2) by (simp add: distinct_map)
  then have "sort_key rd_resource rds = sort_key rd_resource rds'"
    using assms(1) by (intro sort_key_inj_key_eq) simp_all
  then show ?thesis by (simp add: generate_def)
qed

section \<open>References resolve\<close>

lemma member_size: "kv \<in> set m \<Longrightarrow> size (snd kv) < size (JObj m)"
  by (induction m) auto

text \<open>Every reference inside a value has its target in \<open>R\<close>.\<close>

function refs_within :: "string set \<Rightarrow> json \<Rightarrow> bool" where
  "refs_within R (JArr vs) \<longleftrightarrow> list_all (refs_within R) vs"
| "refs_within R (JObj m) \<longleftrightarrow> list_all (\<lambda>kv. (fst kv = ''$ref'' \<longrightarrow> (case as_str (snd kv) of Some s \<Rightarrow> s \<in> R | None \<Rightarrow> True))
     \<and> refs_within R (snd kv)) m"
| "refs_within R JNull \<longleftrightarrow> True"
| "refs_within R (JBool b) \<longleftrightarrow> True"
| "refs_within R (JNum n) \<longleftrightarrow> True"
| "refs_within R (JStr s) \<longleftrightarrow> True"
  by pat_completeness auto
termination
proof (relation "measure (size \<circ> snd)")
  fix R :: "string set" and m :: jmap and kv
  assume "kv \<in> set m"
  then show "((R, snd kv), R, JObj m) \<in> measure (size \<circ> snd)" using member_size by simp
qed (auto simp: less_Suc_eq_le intro: size_list_estimation' [OF _ order_refl])

declare refs_within.simps(1,2) [simp del]

text \<open>The same for an entry of an object and for its list of entries.\<close>

definition entry_within :: "string set \<Rightarrow> string \<Rightarrow> json \<Rightarrow> bool" where
  "entry_within R k v \<longleftrightarrow> (k = ''$ref'' \<longrightarrow> (case as_str v of Some s \<Rightarrow> s \<in> R | None \<Rightarrow> True)) \<and> refs_within R v"

definition all_within :: "string set \<Rightarrow> jmap \<Rightarrow> bool" where
  "all_within R m \<longleftrightarrow> (\<forall>(k, v) \<in> set m. entry_within R k v)"

named_theorems within_simps "what refers where, piece by piece"

lemma refs_within_obj [within_simps]: "refs_within R (JObj m) \<longleftrightarrow> all_within R m"
  by (auto simp: refs_within.simps all_within_def entry_within_def list_all_iff)

lemma refs_within_arr [within_simps]: "refs_within R (JArr vs) \<longleftrightarrow> (\<forall>v \<in> set vs. refs_within R v)"
  by (simp add: refs_within.simps list_all_iff)

lemma entry_within_obj [within_simps]: "entry_within R k (JObj m) \<longleftrightarrow> all_within R m"
  by (simp add: entry_within_def within_simps)

lemma entry_within_arr [within_simps]: "entry_within R k (JArr vs) \<longleftrightarrow> (\<forall>v \<in> set vs. refs_within R v)"
  by (simp add: entry_within_def within_simps)

lemma entry_within_str [within_simps]: "entry_within R k (JStr s) \<longleftrightarrow> (k = ''$ref'' \<longrightarrow> s \<in> R)"
  by (simp add: entry_within_def)

lemma entry_within_bool [within_simps]: "entry_within R k (JBool b)"
  by (simp add: entry_within_def)

lemma entry_within_num [within_simps]: "entry_within R k (JNum n)"
  by (simp add: entry_within_def)

lemma entry_within_plain: "k \<noteq> ''$ref'' \<Longrightarrow> entry_within R k v \<longleftrightarrow> refs_within R v"
  by (simp add: entry_within_def)

lemma all_within_Nil [within_simps]: "all_within R []"
  by (simp add: all_within_def)

lemma all_within_Cons [within_simps]: "all_within R ((k, v) # m) \<longleftrightarrow> entry_within R k v \<and> all_within R m"
  by (auto simp: all_within_def)

lemma all_within_append [within_simps]: "all_within R (m @ m') \<longleftrightarrow> all_within R m \<and> all_within R m'"
  by (auto simp: all_within_def)

text \<open>The updates of the two kinds of objects.\<close>

lemma within_bt_insert: "entry_within R k v \<Longrightarrow> all_within R m \<Longrightarrow> all_within R (bt_insert k v m)"
  unfolding all_within_def using bt_insert_entries [of k v m] by fastforce

lemma within_update: "entry_within R k v \<Longrightarrow> all_within R m \<Longrightarrow> all_within R (AList.update k v m)"
  by (induction m) (auto simp: within_simps split: if_splits)

lemma within_put: "(\<And>x. v = Some x \<Longrightarrow> entry_within R k x) \<Longrightarrow> all_within R m \<Longrightarrow> all_within R (put k v m)"
  by (cases v) (simp_all add: put_def within_update)

lemma within_bt_put: "(\<And>x. v = Some x \<Longrightarrow> entry_within R k x) \<Longrightarrow> all_within R m \<Longrightarrow> all_within R (bt_put k v m)"
  by (cases v) (simp_all add: bt_put_def within_bt_insert)

lemma within_fold: "all_within R kvs \<Longrightarrow> all_within R m \<Longrightarrow> all_within R (fold (\<lambda>(k, v). bt_insert k v) kvs m)"
  by (induction kvs arbitrary: m) (auto simp: within_simps within_bt_insert)

lemma within_bt_of: "all_within R kvs \<Longrightarrow> all_within R (bt_of kvs)"
  unfolding bt_of_def by (simp add: within_fold within_simps)

text \<open>The constants that a resource file may give (bounds and defaults) refer nowhere.\<close>

definition plain_option :: "json option \<Rightarrow> bool" where
  "plain_option v \<longleftrightarrow> (case v of None \<Rightarrow> True | Some x \<Rightarrow> refs_within {} x)"

definition plain_constants :: "field_schema \<Rightarrow> bool" where
  "plain_constants f \<longleftrightarrow> plain_option (fs_min f) \<and> plain_option (fs_max f) \<and> plain_option (fs_default f)
     \<and> (case fs_items f of None \<Rightarrow> True | Some it \<Rightarrow> plain_option (it_min it) \<and> plain_option (it_max it))"

lemma text_list_within [within_simps]: "refs_within R (text_list xs)" "entry_within R k (text_list xs)"
  by (auto simp: within_simps)

lemma within_mono: "refs_within R v \<Longrightarrow> R \<subseteq> S \<Longrightarrow> refs_within S v"
  by (induction R v rule: refs_within.induct) (auto simp: refs_within.simps list_all_iff split: option.splits)

lemma plain_option_within: "plain_option (Some x) \<Longrightarrow> refs_within R x"
  by (auto simp: plain_option_def intro: within_mono)

lemma items_within:
  assumes "plain_option (it_min it)" and "plain_option (it_max it)"
  shows "refs_within R (items_to_openapi it)"
  unfolding items_to_openapi_def Let_def refs_within_obj
  using assms
  by (intro within_put) (auto simp: within_simps entry_within_plain plain_option_within split: if_splits)

lemma bound_within:
  "all_within R m \<Longrightarrow> plain_option v \<Longrightarrow> a \<noteq> ''$ref'' \<Longrightarrow> b \<noteq> ''$ref'' \<Longrightarrow> all_within R (put_bound (bound_key t a b) v m)"
  by (auto simp: put_bound_def bound_key_def entry_within_plain plain_option_within intro!: within_bt_put)

lemma field_within:
  assumes "plain_constants f"
  shows "refs_within R (field_schema_to_openapi f)"
proof -
  have base: "all_within R (field_type_to_openapi f)"
  proof (cases "fs_type f = FtArray")
    case True
    with assms show ?thesis
      by (auto simp: field_type_to_openapi_def plain_constants_def items_within within_simps entry_within_plain
          intro!: within_bt_of split: option.splits)
  next
    case False
    then show ?thesis
      by (cases "fs_type f") (auto simp: field_type_to_openapi_def within_simps intro!: within_bt_of within_bt_put)
  qed
  have fmt: "all_within R (bt_put ''format'' (map_option JStr (fs_format f)) (field_type_to_openapi f))"
    using base by (intro within_bt_put) (auto simp: within_simps)
  have "plain_option (fs_min f)" "plain_option (fs_max f)" "plain_option (fs_default f)"
    using assms by (simp_all add: plain_constants_def)
  with base fmt show ?thesis
    unfolding field_schema_to_openapi_def Let_def refs_within_obj
    by (intro within_bt_put bound_within) (auto simp: entry_within_plain plain_option_within)
qed

lemma object_schema_within: "all_within R properties \<Longrightarrow> refs_within R (object_schema properties required)"
  by (simp add: object_schema_def within_simps)

definition plain_fields :: "resource_definition \<Rightarrow> bool" where
  "plain_fields rd \<longleftrightarrow> (\<forall>(n, f) \<in> set (rd_schema rd). plain_constants f)"

lemma field_schema_object: "\<exists>m. field_schema_to_openapi f = JObj m"
  by (simp add: field_schema_to_openapi_def Let_def)

lemma field_entry_within: "plain_constants f \<Longrightarrow> entry_within R n (field_schema_to_openapi f)"
  using field_within [of f R] field_schema_object [of f] by (auto simp: within_simps)

lemma resource_schema_within: "plain_fields rd \<Longrightarrow> refs_within R (build_resource_schema rd)"
  unfolding build_resource_schema_def Let_def
  by (intro object_schema_within within_bt_of)
    (auto simp: plain_fields_def all_within_def intro: field_entry_within)

lemma input_schemas_plain: "plain_fields rd \<Longrightarrow> (n, f) \<in> set (input_schemas rd fs) \<Longrightarrow> plain_constants f"
  by (fastforce simp: input_schemas_def plain_fields_def List.map_filter_def dest: map_of_SomeD)

lemma input_schema_within: "plain_fields rd \<Longrightarrow> refs_within R (build_input_schema rd fs c)"
  unfolding build_input_schema_def Let_def
  by (intro object_schema_within within_bt_of) (auto simp: all_within_def intro: field_entry_within input_schemas_plain)

lemma multipart_schema_within: "plain_fields rd \<Longrightarrow> refs_within R (build_multipart_input_schema rd fs u c)"
  unfolding build_multipart_input_schema_def Let_def
  by (intro object_schema_within within_bt_of)
    (auto simp: all_within_def within_simps field_entry_within dest: input_schemas_plain)

lemma parameters_within: "v \<in> set (operation_parameters path m ep) \<Longrightarrow> refs_within R v"
  unfolding operation_parameters_def Let_def query_param_def limit_param_def int_schema_def
  by (auto simp: within_simps split: option.splits if_splits pagination_style.splits)

abbreviation schema_target :: "string \<Rightarrow> string" where
  "schema_target name \<equiv> ''#/components/schemas/'' @ name"

lemma operation_within:
  assumes "build_operation up uc struct_name rd action ep = Inr op" and "plain_fields rd"
    and "schema_target ''ErrorResponse'' \<in> R" and "schema_target struct_name \<in> R"
    and "ep_input ep \<noteq> None \<Longrightarrow> schema_target (struct_name @ to_pascal_case up uc action @ ''Input'') \<in> R"
  shows "refs_within R op"
proof -
  have responses: "all_within R (operation_responses struct_name path m ep)" for path m
    unfolding operation_responses_def
    by (rule within_bt_of)
      (use assms(3,4) in \<open>auto simp: all_within_def within_simps success_response_def json_content_def\<close>)
  have body: "refs_within R v"
    if "request_body (struct_name @ to_pascal_case up uc action @ ''Input'') rd action ep = Some v" for v
    using that assms(5) multipart_schema_within [OF assms(2)]
    by (auto simp: request_body_def json_content_def within_simps entry_within_plain split: option.splits if_splits)
  have hooks: "refs_within R (hook_list_to_json h)" for h
    by (cases h) (simp_all add: within_simps)
  have controller: "refs_within R v" if "controller_extension ep = Some v" for v
    using that
    by (auto simp: controller_extension_def within_simps entry_within_plain hooks intro!: within_put)
  have lists: "refs_within R v" if "non_empty xs = Some v" for xs v
    using that by (auto simp: non_empty_def within_simps split: if_splits)
  have events: "refs_within R v" if "Option.bind (ep_events ep) non_empty = Some v" for v
    using that lists by (cases "ep_events ep") auto
  have auth: "refs_within R v" if "auth_extension ep = Some v" for v
    using that lists by (auto simp: auth_extension_def split: option.splits auth_rule.splits)
  have security: "refs_within R v" if "security_requirement ep = Some v" for v
    using that by (auto simp: security_requirement_def within_simps split: option.splits if_splits)
  obtain path m where op: "op = JObj
        (bt_put ''x-shaperail-events'' (Option.bind (ep_events ep) non_empty)
        (bt_put ''x-shaperail-controller'' (controller_extension ep)
        (bt_put ''x-shaperail-auth'' (auth_extension ep)
        (bt_put ''security'' (security_requirement ep)
        (bt_insert ''responses'' (JObj (operation_responses struct_name path m ep))
        (bt_put ''requestBody'' (request_body (struct_name @ to_pascal_case up uc action @ ''Input'') rd action ep)
        (bt_put ''parameters'' (if operation_parameters path m ep = [] then None else Some (JArr (operation_parameters path m ep)))
          (bt_of [(''operationId'', JStr (rd_resource rd @ ''_'' @ action)), (''tags'', JArr [JStr (rd_resource rd)])]))))))))"
    using assms(1) by (auto simp: build_operation_def result_simps Let_def)
  show ?thesis
    unfolding op refs_within_obj
    by (intro within_bt_put within_bt_insert within_bt_of)
      (auto simp: within_simps entry_within_plain parameters_within events auth security controller body responses split: if_splits)
qed

definition paths_within :: "string set \<Rightarrow> path_items \<Rightarrow> bool" where
  "paths_within R paths \<longleftrightarrow> (\<forall>(p, item) \<in> set paths. all_within R item)"

lemma document_endpoint_within:
  assumes "document_endpoint up uc rd e paths = Inr paths'" and "paths_within R paths" and "plain_fields rd"
    and "schema_target ''ErrorResponse'' \<in> R" and "e \<in> set (endpoints_of rd)"
    and "schema_target ` fst ` set (resource_schemas up uc rd) \<subseteq> R"
  shows "paths_within R paths'"
proof -
  obtain action ep where e: "e = (action, ep)" by fastforce
  obtain q op where op: "build_operation up uc (to_pascal_case up uc (rd_resource rd)) rd action ep = Inr op"
    and p': "\<exists>k. paths' = bt_insert q (bt_insert k op (case map_of paths q of Some e \<Rightarrow> e | None \<Rightarrow> [])) paths"
    using assms(1) e by (auto simp: document_endpoint_def result_simps Let_def)
  have names: "schema_target n \<in> R" if "n \<in> fst ` set (resource_schemas up uc rd)" for n
    using assms(6) that by blast
  have "refs_within R op"
  proof (rule operation_within [OF op assms(3,4)])
    show "schema_target (to_pascal_case up uc (rd_resource rd)) \<in> R"
      by (rule names) (simp add: resource_schemas_def Let_def)
    show "schema_target (to_pascal_case up uc (rd_resource rd) @ to_pascal_case up uc action @ ''Input'') \<in> R"
      if "ep_input ep \<noteq> None"
      using that assms(5) e by (intro names) (force simp: resource_schemas_def Let_def List.map_filter_def)
  qed
  moreover have "\<exists>m. op = JObj m" using op by (auto simp: build_operation_def result_simps Let_def)
  ultimately have "entry_within R k op" for k by (auto simp: within_simps)
  moreover have "all_within R (case map_of paths q of Some e \<Rightarrow> e | None \<Rightarrow> [])"
    using assms(2) by (auto simp: paths_within_def within_simps split: option.split dest!: map_of_SomeD)
  ultimately show ?thesis
    using p' assms(2) bt_insert_entries by (fastforce simp: paths_within_def intro: within_bt_insert)
qed

lemma document_endpoints_within:
  assumes "plain_fields rd" and "schema_target ''ErrorResponse'' \<in> R"
    and "schema_target ` fst ` set (resource_schemas up uc rd) \<subseteq> R"
  shows "document_endpoints up uc rd es paths = Inr paths' \<Longrightarrow> paths_within R paths \<Longrightarrow>
    set es \<subseteq> set (endpoints_of rd) \<Longrightarrow> paths_within R paths'"
proof (induction es arbitrary: paths)
  case (Cons e es)
  then obtain paths1 where p: "document_endpoint up uc rd e paths = Inr paths1"
    "document_endpoints up uc rd es paths1 = Inr paths'"
    by (auto simp: result_simps)
  with Cons show ?case using document_endpoint_within [OF p(1)] assms by simp
qed simp

lemma fold_insert_keys: "fst ` set (fold (\<lambda>(n, s). bt_insert n s) kvs m) = fst ` set kvs \<union> fst ` set m"
proof (induction kvs arbitrary: m)
  case (Cons kv kvs)
  then show ?case by (cases kv) (simp add: bt_insert_keys)
qed simp

lemma resource_schemas_within: "plain_fields rd \<Longrightarrow> all_within R (resource_schemas up uc rd)"
proof -
  assume plain: "plain_fields rd"
  have "\<exists>m. build_resource_schema rd = JObj m" "\<exists>m. build_input_schema rd fs c = JObj m" for fs c
    by (simp_all add: build_resource_schema_def build_input_schema_def object_schema_def Let_def)
  then have "entry_within R n (build_resource_schema rd)" "entry_within R n (build_input_schema rd fs c)" for n fs c
    using resource_schema_within [OF plain] input_schema_within [OF plain] by (metis entry_within_obj refs_within_obj)+
  then show ?thesis
    by (auto simp: resource_schemas_def Let_def within_simps all_within_def List.map_filter_def)
qed

lemma document_resources_within:
  assumes "schema_target ''ErrorResponse'' \<in> R"
  shows "document_resources up uc rds paths schemas = Inr (paths', schemas') \<Longrightarrow> paths_within R paths \<Longrightarrow>
    all_within R schemas \<Longrightarrow> \<forall>rd \<in> set rds. plain_fields rd \<and> schema_target ` fst ` set (resource_schemas up uc rd) \<subseteq> R \<Longrightarrow>
    paths_within R paths' \<and> all_within R schemas'
    \<and> fst ` set schemas' = fst ` set schemas \<union> (\<Union>rd \<in> set rds. fst ` set (resource_schemas up uc rd))"
proof (induction rds arbitrary: paths schemas)
  case (Cons rd rds)
  let ?schemas = "fold (\<lambda>(n, s). bt_insert n s) (resource_schemas up uc rd) schemas"
  from Cons.prems(1) obtain paths1 where p: "document_endpoints up uc rd (sort_key fst (endpoints_of rd)) paths = Inr paths1"
    "document_resources up uc rds paths1 ?schemas = Inr (paths', schemas')"
    by (auto simp: result_simps Let_def)
  have "paths_within R paths1"
    using document_endpoints_within [OF _ assms _ p(1)] Cons.prems by simp
  moreover have "all_within R ?schemas"
    using Cons.prems by (intro within_fold resource_schemas_within) simp_all
  ultimately show ?case
    using Cons.IH [OF p(2)] Cons.prems(4) fold_insert_keys [of "resource_schemas up uc rd" schemas] by auto
qed simp

text \<open>The schemas that a document defines.\<close>

definition schema_names :: "json \<Rightarrow> string set" where
  "schema_names spec = (case Option.bind (json_get spec ''components'') (\<lambda>c. json_get c ''schemas'') of
     Some (JObj m) \<Rightarrow> fst ` set m | _ \<Rightarrow> {})"

text \<open>C20. No dangling reference: every \<open>$ref\<close> anywhere in a generated document, in the responses, the
  request bodies and the schemas, names a schema that the document defines (the bounds and defaults
  that a resource gives contain no reference of their own).\<close>

theorem document_references_resolve:
  assumes "generate up uc project rds = Inr spec" and "list_all plain_fields rds"
  shows "refs_within (schema_target ` schema_names spec) spec"
proof -
  define N where "N = insert ''ErrorResponse'' (\<Union>rd \<in> set rds. fst ` set (resource_schemas up uc rd))"
  obtain paths schemas where d: "document_resources up uc (sort_key rd_resource rds) []
      (bt_of [(''ErrorResponse'', error_schema)]) = Inr (paths, schemas)"
    and spec: "spec = openapi_document project paths schemas"
    using assms(1) by (auto simp: generate_def result_simps)
  have "all_within (schema_target ` N) (bt_of [(''ErrorResponse'', error_schema)])"
    by (rule within_bt_of) (simp add: error_schema_def within_simps)
  then have w: "paths_within (schema_target ` N) paths \<and> all_within (schema_target ` N) schemas
      \<and> fst ` set schemas = fst ` set (bt_of [(''ErrorResponse'', error_schema)])
          \<union> (\<Union>rd \<in> set (sort_key rd_resource rds). fst ` set (resource_schemas up uc rd))"
    using assms(2) by (intro document_resources_within [OF _ d]) (auto simp: N_def paths_within_def list_all_iff)
  then have "schema_names spec = N"
    by (simp add: spec schema_names_def openapi_document_def N_def bt_of_def)
  moreover have "refs_within (schema_target ` N) spec"
    using w by (auto simp: spec openapi_document_def within_simps paths_within_def all_within_def)
  ultimately show ?thesis by simp
qed

theorem document_references_resolve_witness:
  "refs_within (schema_target ` schema_names (spec_of [sample_resource])) (spec_of [sample_resource])"
proof -
  have "list_all plain_fields [sample_resource]"
    by (simp add: plain_fields_def sample_resource_def plain_constants_def plain_option_def plain_field_def)
  then show ?thesis by (rule document_references_resolve [OF sample_spec])
qed

end
