(* ===== verification/Orm_Query.thy ===== *)
theory Orm_Query
  imports Crud_Core
begin

text \<open>
  The SQL backends of a project with several databases: the dialects and named connections of
  \<open>shaperail-runtime/src/db/manager.rs\<close>, the statements and results of \<open>db/orm_query.rs\<close> and the
  stores of \<open>db/store.rs\<close>. SeaORM sends a statement with its values to a server: the executor is a
  parameter that may change the database and answers with rows, or with the number of rows changed.
\<close>

section \<open>Connections\<close>

record 'h sql_connection =
  cn_inner :: 'h
  cn_engine :: database_engine

definition quote_ident :: "database_engine \<Rightarrow> string \<Rightarrow> string" where
  "quote_ident e name = (if e = MySQL then backtick name else dquote name)"

definition param :: "database_engine \<Rightarrow> nat \<Rightarrow> string" where
  "param e index = (if e = Postgres then CHR ''$'' # show_nat index else ''?'')"

record named_database_config =
  nd_engine :: database_engine
  nd_url :: string
  nd_pool_size :: nat

type_synonym 'h connections = "(string \<times> 'h sql_connection) list"

text \<open>What connecting and the first statement of a SQLite connection answer.\<close>

record 'h sea_orm =
  so_connect :: "string \<Rightarrow> nat \<Rightarrow> string + 'h"
  so_enable_wal :: "'h \<Rightarrow> string option"

definition from_url :: "'h sea_orm \<Rightarrow> string \<Rightarrow> nat \<Rightarrow> 'h connections res" where
  "from_url orm url pool_size = (case so_connect orm url pool_size of
     Inl e \<Rightarrow> Inl (Internal (''Failed to connect to database: '' @ e))
   | Inr conn \<Rightarrow> Inr [(''default'', \<lparr>cn_inner = conn, cn_engine = Postgres\<rparr>)])"

fun connect_all :: "'h sea_orm \<Rightarrow> (string \<times> named_database_config) list \<Rightarrow> 'h connections \<Rightarrow> 'h connections res" where
  "connect_all orm [] conns = Inr conns"
| "connect_all orm ((name, cfg) # dbs) conns =
     (if \<not> is_sql (nd_engine cfg) then connect_all orm dbs conns
      else (case so_connect orm (nd_url cfg) (nd_pool_size cfg) of
          Inl e \<Rightarrow> Inl (Internal (''Failed to connect to database '' @ squote name @ '': '' @ e))
        | Inr conn \<Rightarrow> (case (if nd_engine cfg = SQLite then so_enable_wal orm conn else None) of
            Some e \<Rightarrow> Inl (Internal (''Failed to enable WAL mode for SQLite '' @ squote name @ '': '' @ e))
          | None \<Rightarrow> connect_all orm dbs
              (AList.update name \<lparr>cn_inner = conn, cn_engine = nd_engine cfg\<rparr> conns))))"

definition from_named_config :: "'h sea_orm \<Rightarrow> (string \<times> named_database_config) list \<Rightarrow> 'h connections res" where
  "from_named_config orm dbs = and_then (connect_all orm dbs []) (\<lambda>conns.
     if conns = [] then Inl (Internal ''No SQL databases configured in databases config'') else Inr conns)"

definition get_sql :: "'h connections \<Rightarrow> string \<Rightarrow> 'h sql_connection option" where
  "get_sql conns name = map_of conns name"

definition connection_name_for_resource :: "'h connections \<Rightarrow> string option \<Rightarrow> string" where
  "connection_name_for_resource conns db = (case db of
     None \<Rightarrow> ''default''
   | Some name \<Rightarrow> if has_key conns name then name else ''default'')"

definition sql_for_resource :: "'h connections \<Rightarrow> string option \<Rightarrow> 'h sql_connection option" where
  "sql_for_resource conns db = get_sql conns (connection_name_for_resource conns db)"

section \<open>Values and rows\<close>

datatype sea_value =
    SvString "string option"
  | SvBigInt int
  | SvDouble f64
  | SvBool bool
  | SvJson json

datatype sea_cell = ScString string | ScInt int | ScDouble f64 | ScBool bool | ScJson json

text \<open>The Rust types that a column is read at.\<close>

datatype sea_kind = KString | KInt | KDouble | KBool | KJson

fun column_kind :: "field_type \<Rightarrow> sea_kind" where
  "column_kind FtInteger = KInt"
| "column_kind FtNumber = KDouble"
| "column_kind FtBoolean = KBool"
| "column_kind FtJson = KJson"
| "column_kind FtArray = KJson"
| "column_kind _ = KString"

type_synonym sea_row = "string \<Rightarrow> sea_kind \<Rightarrow> string + sea_cell option"

fun sea_cell_json :: "sea_cell \<Rightarrow> json" where
  "sea_cell_json (ScString s) = JStr s"
| "sea_cell_json (ScInt i) = jint i"
| "sea_cell_json (ScDouble x) = (case x of Finite r \<Rightarrow> JNum (Float r) | _ \<Rightarrow> JNull)"
| "sea_cell_json (ScBool b) = JBool b"
| "sea_cell_json (ScJson v) = v"

definition get_column_value :: "sea_row \<Rightarrow> string \<Rightarrow> field_schema \<Rightarrow> json res" where
  "get_column_value row name f = (case row name (column_kind (fs_type f)) of
     Inl e \<Rightarrow> Inl (Internal (''Column '' @ squote name @ '' error: '' @ e))
   | Inr None \<Rightarrow> Inr JNull
   | Inr (Some c) \<Rightarrow> Inr (sea_cell_json c))"

fun query_result_entries :: "sea_row \<Rightarrow> (string \<times> field_schema) list \<Rightarrow> jmap res" where
  "query_result_entries row [] = Inr []"
| "query_result_entries row ((name, f) # sch) =
     (if fs_transient f then query_result_entries row sch
      else and_then (get_column_value row name f) (\<lambda>v.
        and_then (query_result_entries row sch) (\<lambda>es. Inr ((name, v) # es))))"

definition query_result_to_json :: "resource_definition \<Rightarrow> sea_row \<Rightarrow> json res" where
  "query_result_to_json rd row = and_then (query_result_entries row (rd_schema rd)) (\<lambda>m. Inr (JObj m))"

definition json_to_sea_value :: "sql_lib \<Rightarrow> json \<Rightarrow> field_schema \<Rightarrow> sea_value" where
  "json_to_sea_value lib v f =
     (if v = JNull then SvString None
      else (case column_kind (fs_type f) of
        KInt \<Rightarrow> SvBigInt (or_else (as_i64 v) 0)
      | KDouble \<Rightarrow> SvDouble (Finite (or_else (as_f64 v) 0))
      | KBool \<Rightarrow> SvBool (or_else (as_bool v) False)
      | KJson \<Rightarrow> SvJson v
      | KString \<Rightarrow> SvString (Some (or_else (as_str v) (sl_json_text lib v)))))"

definition coerce_filter_to_sea_value :: "sql_lib \<Rightarrow> string \<Rightarrow> field_schema \<Rightarrow> sea_value" where
  "coerce_filter_to_sea_value lib value f =
     or_else (case fs_type f of
         FtInteger \<Rightarrow> map_option SvBigInt (parse_i64 value)
       | FtNumber \<Rightarrow> map_option SvDouble (sl_parse_f64 lib value)
       | FtBoolean \<Rightarrow> map_option SvBool (parse_bool value)
       | _ \<Rightarrow> None) (SvString (Some value))"

section \<open>The server\<close>

record 'db sea_server =
  ss_query_all :: "string \<Rightarrow> sea_value list \<Rightarrow> 'db \<Rightarrow> 'db \<times> (string + sea_row list)"
  ss_execute :: "string \<Rightarrow> sea_value list \<Rightarrow> 'db \<Rightarrow> 'db \<times> (string + nat)"

text \<open>\<open>... .map_err(|e| Internal(format!("ORM <operation> failed: {e}")))?\<close>\<close>

definition orm_err :: "string \<Rightarrow> string + 'a \<Rightarrow> 'a res" where
  "orm_err operation r = (case r of Inl e \<Rightarrow> Inl (Internal (''ORM '' @ operation @ '' failed: '' @ e)) | Inr x \<Rightarrow> Inr x)"

section \<open>Reads\<close>

definition orm_table :: "database_engine \<Rightarrow> resource_definition \<Rightarrow> string" where
  "orm_table e rd = quote_ident e (rd_resource rd)"

definition orm_select_columns :: "database_engine \<Rightarrow> resource_definition \<Rightarrow> string" where
  "orm_select_columns e rd = join '', '' (map (quote_ident e \<circ> fst) (rd_schema rd))"

definition supports_returning :: "database_engine \<Rightarrow> bool" where
  "supports_returning e \<longleftrightarrow> e = Postgres \<or> e = SQLite"

definition orm_not_deleted :: "database_engine \<Rightarrow> resource_definition \<Rightarrow> string" where
  "orm_not_deleted e rd = (if has_soft_delete rd then '' AND '' @ quote_ident e ''deleted_at'' @ '' IS NULL'' else [])"

definition id_value :: "sql_lib \<Rightarrow> uuid \<Rightarrow> sea_value" where
  "id_value lib i = SvString (Some (show_uuid (sl_values lib) i))"

type_synonym sea_statement = "string \<times> sea_value list"

definition orm_find_by_id_statement :: "sql_lib \<Rightarrow> database_engine \<Rightarrow> resource_definition \<Rightarrow> uuid \<Rightarrow> sea_statement" where
  "orm_find_by_id_statement lib e rd i =
     (''SELECT '' @ orm_select_columns e rd @ '' FROM '' @ orm_table e rd @ '' WHERE '' @ quote_ident e (primary_key rd)
        @ '' = '' @ param e 1 @ orm_not_deleted e rd, [id_value lib i])"

definition orm_find_by_id :: "sql_lib \<Rightarrow> 'db sea_server \<Rightarrow> database_engine \<Rightarrow> resource_definition \<Rightarrow> uuid \<Rightarrow> 'db \<Rightarrow> json res" where
  "orm_find_by_id lib srv e rd i db =
     (let (sql, values) = orm_find_by_id_statement lib e rd i in
      and_then (orm_err ''find_by_id'' (snd (ss_query_all srv sql values db))) (\<lambda>rows.
        case rows of [] \<Rightarrow> Inl NotFound | row # _ \<Rightarrow> query_result_to_json rd row))"

text \<open>The mutable variables of \<open>find_all\<close>.\<close>

record orm_state =
  os_sql :: string
  os_values :: "sea_value list"
  os_param :: nat

definition orm_start :: "database_engine \<Rightarrow> resource_definition \<Rightarrow> orm_state" where
  "orm_start e rd = \<lparr>os_sql = ''SELECT '' @ orm_select_columns e rd @ '' FROM '' @ orm_table e rd
       @ (if has_soft_delete rd then '' WHERE '' @ quote_ident e ''deleted_at'' @ '' IS NULL'' else []),
     os_values = [], os_param = 1\<rparr>"

text \<open>\<open>sql.push_str(keyword); "<name> <op> <param>"; values.push(v); param += 1\<close>\<close>

definition push_condition :: "database_engine \<Rightarrow> string \<Rightarrow> string \<Rightarrow> sea_value \<Rightarrow> orm_state \<Rightarrow> orm_state" where
  "push_condition e keyword condition v st =
     \<lparr>os_sql = os_sql st @ keyword @ condition @ param e (os_param st), os_values = os_values st @ [v],
      os_param = os_param st + 1\<rparr>"

definition orm_filter :: "sql_lib \<Rightarrow> database_engine \<Rightarrow> resource_definition \<Rightarrow> filter_param \<Rightarrow> orm_state \<Rightarrow> orm_state" where
  "orm_filter lib e rd f st = (case map_of (rd_schema rd) (fp_field f) of
     None \<Rightarrow> st
   | Some field \<Rightarrow> push_condition e (if os_param st = 1 \<and> \<not> has_soft_delete rd then '' WHERE '' else '' AND '')
       (quote_ident e (fp_field f) @ '' = '') (coerce_filter_to_sea_value lib (fp_value f) field) st)"

definition orm_sort :: "database_engine \<Rightarrow> sort_field list \<Rightarrow> string" where
  "orm_sort e srt = (if srt = [] then [] else '' ORDER BY '' @ join '', '' (map (\<lambda>s. quote_ident e (sf_field s) @ '' ''
     @ (if sf_direction s = Asc then ''ASC'' else ''DESC'')) srt))"

definition orm_filtered :: "sql_lib \<Rightarrow> database_engine \<Rightarrow> resource_definition \<Rightarrow> filter_param list \<Rightarrow> sort_field list \<Rightarrow> orm_state" where
  "orm_filtered lib e rd fs srt =
     (let st = fold (orm_filter lib e rd) fs (orm_start e rd) in st\<lparr>os_sql := os_sql st @ orm_sort e srt\<rparr>)"

definition orm_after :: "database_engine \<Rightarrow> resource_definition \<Rightarrow> filter_param list \<Rightarrow> string option \<Rightarrow> orm_state \<Rightarrow> orm_state" where
  "orm_after e rd fs after st = (case after of
     None \<Rightarrow> st
   | Some id_str \<Rightarrow> push_condition e (if os_param st = 1 \<and> \<not> has_soft_delete rd \<and> fs = [] then '' WHERE '' else '' AND '')
       (quote_ident e ''id'' @ '' > '') (SvString (Some id_str)) st)"

definition orm_cursor_statement :: "sql_lib \<Rightarrow> database_engine \<Rightarrow> resource_definition \<Rightarrow> filter_param list \<Rightarrow>
    sort_field list \<Rightarrow> string option \<Rightarrow> int \<Rightarrow> sea_statement" where
  "orm_cursor_statement lib e rd fs srt after limit =
     (let st = orm_after e rd fs after (orm_filtered lib e rd fs srt)
      in (os_sql st @ (if srt = [] then '' ORDER BY '' @ quote_ident e ''id'' @ '' ASC'' else [])
            @ '' LIMIT '' @ show_int (limit + 1), os_values st))"

definition orm_offset_statement :: "sql_lib \<Rightarrow> database_engine \<Rightarrow> resource_definition \<Rightarrow> filter_param list \<Rightarrow>
    sort_field list \<Rightarrow> int \<Rightarrow> int \<Rightarrow> sea_statement" where
  "orm_offset_statement lib e rd fs srt off limit =
     (let st = orm_filtered lib e rd fs srt
      in (os_sql st @ '' LIMIT '' @ show_int limit @ '' OFFSET '' @ show_int off, os_values st))"

definition orm_find_all :: "sql_lib \<Rightarrow> 'db sea_server \<Rightarrow> database_engine \<Rightarrow> resource_definition \<Rightarrow> filter_param list \<Rightarrow>
    sort_field list \<Rightarrow> page_request \<Rightarrow> 'db \<Rightarrow> (json list \<times> json) res" where
  "orm_find_all lib srv e rd fs srt page db = (case page of
     Cursor after limit \<Rightarrow>
       and_then (case after of None \<Rightarrow> Inr None | Some c \<Rightarrow> and_then (decode_cursor c) (\<lambda>s. Inr (Some s))) (\<lambda>decoded.
         (let (sql, values) = orm_cursor_statement lib e rd fs srt decoded limit in
          and_then (orm_err ''find_all'' (snd (ss_query_all srv sql values db))) (\<lambda>rows.
          and_then (map_res (query_result_to_json rd) (take (nat (limit mod 2 ^ 64)) rows)) (\<lambda>result_rows.
            (let cursor = (if result_rows = [] then None
                   else map_option encode_cursor (json_get_str (last result_rows) ''id''))
             in Inr (result_rows, JObj [(''cursor'', json_of_option JStr cursor),
                  (''has_more'', JBool (int (length rows) > limit))]))))))
   | Offset off limit \<Rightarrow>
       (let (sql, values) = orm_offset_statement lib e rd fs srt off limit in
        and_then (orm_err ''find_all'' (snd (ss_query_all srv sql values db))) (\<lambda>rows.
        and_then (map_res (query_result_to_json rd) rows) (\<lambda>result_rows.
          Inr (result_rows, JObj [(''offset'', jint off), (''limit'', jint limit),
            (''total'', jint (int (length result_rows)))])))))"

section \<open>Writes\<close>

text \<open>The loop of \<open>insert\<close>; the k-th column takes the k-th fresh id.\<close>

definition now_text :: "sql_lib \<Rightarrow> string" where
  "now_text lib = sl_show_timestamp lib (sl_now lib)"

record orm_insert_state =
  oi_columns :: "string list"
  oi_placeholders :: "string list"
  oi_values :: "sea_value list"
  oi_param :: nat
  oi_generated_id :: "uuid option"

definition oi_push :: "database_engine \<Rightarrow> string \<Rightarrow> sea_value \<Rightarrow> orm_insert_state \<Rightarrow> orm_insert_state" where
  "oi_push e name v st = st\<lparr>oi_columns := oi_columns st @ [quote_ident e name],
     oi_placeholders := oi_placeholders st @ [param e (oi_param st)], oi_values := oi_values st @ [v],
     oi_param := oi_param st + 1\<rparr>"

definition orm_insert_step :: "sql_lib \<Rightarrow> database_engine \<Rightarrow> jmap \<Rightarrow> string \<times> field_schema \<Rightarrow> orm_insert_state \<Rightarrow> orm_insert_state" where
  "orm_insert_step lib e data nf st = (case nf of (name, f) \<Rightarrow>
     if fs_transient f then st
     else if fs_generated f then
       (case fs_type f of
          FtUuid \<Rightarrow> (let i = sl_new_uuid lib (oi_param st); st' = oi_push e name (id_value lib i) st
            in if fs_primary f then st'\<lparr>oi_generated_id := Some i\<rparr> else st')
        | FtTimestamp \<Rightarrow> oi_push e name (SvString (Some (now_text lib))) st
        | _ \<Rightarrow> st)
     else (case map_of data name of
         Some v \<Rightarrow> oi_push e name (json_to_sea_value lib v f) st
       | None \<Rightarrow> (case fs_default f of
           Some d \<Rightarrow> oi_push e name (json_to_sea_value lib d f) st
         | None \<Rightarrow> st)))"

definition orm_insert_loop :: "sql_lib \<Rightarrow> database_engine \<Rightarrow> resource_definition \<Rightarrow> jmap \<Rightarrow> orm_insert_state" where
  "orm_insert_loop lib e rd data = fold (orm_insert_step lib e data) (rd_schema rd)
     \<lparr>oi_columns = [], oi_placeholders = [], oi_values = [], oi_param = 1, oi_generated_id = None\<rparr>"

definition returning :: "database_engine \<Rightarrow> resource_definition \<Rightarrow> string" where
  "returning e rd = (if supports_returning e then '' RETURNING '' @ orm_select_columns e rd else [])"

definition orm_insert_statement :: "sql_lib \<Rightarrow> database_engine \<Rightarrow> resource_definition \<Rightarrow> jmap \<Rightarrow> sea_statement" where
  "orm_insert_statement lib e rd data =
     (let st = orm_insert_loop lib e rd data in
      (''INSERT INTO '' @ orm_table e rd @ '' ('' @ join '', '' (oi_columns st) @ '') VALUES (''
         @ join '', '' (oi_placeholders st) @ '')'' @ returning e rd, oi_values st))"

text \<open>A statement that returns its rows: the first one is the answer.\<close>

definition returned_row :: "string \<Rightarrow> shaperail_error \<Rightarrow> resource_definition \<Rightarrow> string + sea_row list \<Rightarrow> json res" where
  "returned_row operation missing rd r =
     and_then (orm_err operation r) (\<lambda>rows. case rows of [] \<Rightarrow> Inl missing | row # _ \<Rightarrow> query_result_to_json rd row)"

definition orm_insert :: "sql_lib \<Rightarrow> 'db sea_server \<Rightarrow> database_engine \<Rightarrow> resource_definition \<Rightarrow> jmap \<Rightarrow> 'db \<Rightarrow> 'db \<times> json res" where
  "orm_insert lib srv e rd data db =
     (let (sql, values) = orm_insert_statement lib e rd data in
      if supports_returning e then
        (case ss_query_all srv sql values db of (db', r) \<Rightarrow>
          (db', returned_row ''insert'' (Internal ''Insert returned no rows'') rd r))
      else (case ss_execute srv sql values db of (db', r) \<Rightarrow>
          (db', and_then (orm_err ''insert'' r) (\<lambda>_. case oi_generated_id (orm_insert_loop lib e rd data) of
              Some i \<Rightarrow> orm_find_by_id lib srv e rd i db'
            | None \<Rightarrow> Inl (Internal ''MySQL insert without generated UUID not supported'')))))"

record orm_update_state =
  ou_set_parts :: "string list"
  ou_values :: "sea_value list"
  ou_param :: nat

definition ou_push :: "database_engine \<Rightarrow> string \<Rightarrow> sea_value \<Rightarrow> orm_update_state \<Rightarrow> orm_update_state" where
  "ou_push e name v st = \<lparr>ou_set_parts = ou_set_parts st @ [quote_ident e name @ '' = '' @ param e (ou_param st)],
     ou_values = ou_values st @ [v], ou_param = ou_param st + 1\<rparr>"

definition orm_update_step :: "sql_lib \<Rightarrow> database_engine \<Rightarrow> resource_definition \<Rightarrow> string \<times> json \<Rightarrow> orm_update_state \<Rightarrow> orm_update_state" where
  "orm_update_step lib e rd nv st = (case nv of (name, v) \<Rightarrow> (case map_of (rd_schema rd) name of
     None \<Rightarrow> st
   | Some f \<Rightarrow> if fs_primary f \<or> fs_generated f then st else ou_push e name (json_to_sea_value lib v f) st))"

definition orm_update_loop :: "sql_lib \<Rightarrow> database_engine \<Rightarrow> resource_definition \<Rightarrow> jmap \<Rightarrow> orm_update_state" where
  "orm_update_loop lib e rd data =
     (let st = fold (orm_update_step lib e rd) data \<lparr>ou_set_parts = [], ou_values = [], ou_param = 1\<rparr> in
      if has_key (rd_schema rd) ''updated_at'' then ou_push e ''updated_at'' (SvString (Some (now_text lib))) st else st)"

definition orm_update_statement :: "sql_lib \<Rightarrow> database_engine \<Rightarrow> resource_definition \<Rightarrow> uuid \<Rightarrow> jmap \<Rightarrow> sea_statement res" where
  "orm_update_statement lib e rd i data =
     (let st = orm_update_loop lib e rd data in
      if ou_set_parts st = [] then Inl empty_update
      else Inr (''UPDATE '' @ orm_table e rd @ '' SET '' @ join '', '' (ou_set_parts st) @ '' WHERE ''
         @ quote_ident e (primary_key rd) @ '' = '' @ param e (ou_param st) @ orm_not_deleted e rd @ returning e rd,
         ou_values st @ [id_value lib i]))"

text \<open>How \<open>update_by_id\<close> and \<open>soft_delete_by_id\<close> run: the returned row, or (MySQL) the number of changed
  rows and a lookup.\<close>

definition run_write :: "string \<Rightarrow> sql_lib \<Rightarrow> 'db sea_server \<Rightarrow> database_engine \<Rightarrow> resource_definition \<Rightarrow> uuid \<Rightarrow>
    sea_statement \<Rightarrow> 'db \<Rightarrow> 'db \<times> json res" where
  "run_write operation lib srv e rd i stmt db = (case stmt of (sql, values) \<Rightarrow>
     if supports_returning e then
       (case ss_query_all srv sql values db of (db', r) \<Rightarrow> (db', returned_row operation NotFound rd r))
     else (case ss_execute srv sql values db of (db', r) \<Rightarrow>
       (db', and_then (orm_err operation r) (\<lambda>affected.
         if affected = 0 then Inl NotFound else orm_find_by_id lib srv e rd i db'))))"

definition orm_update_by_id :: "sql_lib \<Rightarrow> 'db sea_server \<Rightarrow> database_engine \<Rightarrow> resource_definition \<Rightarrow> uuid \<Rightarrow> jmap \<Rightarrow>
    'db \<Rightarrow> 'db \<times> json res" where
  "orm_update_by_id lib srv e rd i data db = (case orm_update_statement lib e rd i data of
     Inl err \<Rightarrow> (db, Inl err)
   | Inr stmt \<Rightarrow> run_write ''update'' lib srv e rd i stmt db)"

definition orm_soft_delete_statement :: "sql_lib \<Rightarrow> database_engine \<Rightarrow> resource_definition \<Rightarrow> uuid \<Rightarrow> sea_statement" where
  "orm_soft_delete_statement lib e rd i =
     (''UPDATE '' @ orm_table e rd @ '' SET '' @ quote_ident e ''deleted_at'' @ '' = '' @ param e 1 @ '' WHERE ''
        @ quote_ident e (primary_key rd) @ '' = '' @ param e 2 @ '' AND '' @ quote_ident e ''deleted_at'' @ '' IS NULL''
        @ returning e rd, [SvString (Some (now_text lib)), id_value lib i])"

definition orm_soft_delete_by_id :: "sql_lib \<Rightarrow> 'db sea_server \<Rightarrow> database_engine \<Rightarrow> resource_definition \<Rightarrow> uuid \<Rightarrow>
    'db \<Rightarrow> 'db \<times> json res" where
  "orm_soft_delete_by_id lib srv e rd i = run_write ''soft_delete'' lib srv e rd i (orm_soft_delete_statement lib e rd i)"

definition orm_hard_delete_statement :: "sql_lib \<Rightarrow> database_engine \<Rightarrow> resource_definition \<Rightarrow> uuid \<Rightarrow> sea_statement" where
  "orm_hard_delete_statement lib e rd i =
     (''DELETE FROM '' @ orm_table e rd @ '' WHERE '' @ quote_ident e (primary_key rd) @ '' = '' @ param e 1
        @ returning e rd, [id_value lib i])"

definition orm_hard_delete_by_id :: "sql_lib \<Rightarrow> 'db sea_server \<Rightarrow> database_engine \<Rightarrow> resource_definition \<Rightarrow> uuid \<Rightarrow>
    'db \<Rightarrow> 'db \<times> json res" where
  "orm_hard_delete_by_id lib srv e rd i db = (case orm_find_by_id lib srv e rd i db of
     Inl err \<Rightarrow> (db, Inl err)
   | Inr row \<Rightarrow> (case orm_hard_delete_statement lib e rd i of (sql, values) \<Rightarrow>
       (case ss_execute srv sql values db of (db', r) \<Rightarrow> (db', and_then (orm_err ''hard_delete'' r) (\<lambda>_. Inr row)))))"

section \<open>Stores\<close>

definition orm_store :: "sql_lib \<Rightarrow> ('h \<Rightarrow> 'db sea_server) \<Rightarrow> 'h sql_connection \<Rightarrow> resource_definition \<Rightarrow> 'db store" where
  "orm_store lib server conn rd =
     (let srv = server (cn_inner conn); e = cn_engine conn in
      \<lparr>st_find_by_id = orm_find_by_id lib srv e rd,
       st_find_all = (\<lambda>ep fs search srt page. orm_find_all lib srv e rd fs srt page),
       st_insert = orm_insert lib srv e rd,
       st_update_by_id = orm_update_by_id lib srv e rd,
       st_soft_delete_by_id = orm_soft_delete_by_id lib srv e rd,
       st_hard_delete_by_id = orm_hard_delete_by_id lib srv e rd\<rparr>)"

definition debug_option :: "(string \<Rightarrow> string) \<Rightarrow> string option \<Rightarrow> string" where
  "debug_option dbg s = (case s of None \<Rightarrow> ''None'' | Some x \<Rightarrow> ''Some('' @ dbg x @ '')'')"

fun orm_store_registry :: "sql_lib \<Rightarrow> (string \<Rightarrow> string) \<Rightarrow> ('h \<Rightarrow> 'db sea_server) \<Rightarrow> 'h connections \<Rightarrow>
    resource_definition list \<Rightarrow> (string \<times> 'db store) list \<Rightarrow> (string \<times> 'db store) list res" where
  "orm_store_registry lib dbg server conns [] stores = Inr stores"
| "orm_store_registry lib dbg server conns (rd # rds) stores = (case sql_for_resource conns (rd_db rd) of
     None \<Rightarrow> Inl (Internal (''No SQL connection for resource '' @ squote (rd_resource rd) @ '' (db: ''
       @ debug_option dbg (rd_db rd) @ '')''))
   | Some conn \<Rightarrow> orm_store_registry lib dbg server conns rds
       (AList.update (rd_resource rd) (orm_store lib server conn rd) stores))"

definition build_orm_store_registry :: "sql_lib \<Rightarrow> (string \<Rightarrow> string) \<Rightarrow> ('h \<Rightarrow> 'db sea_server) \<Rightarrow> 'h connections \<Rightarrow>
    resource_definition list \<Rightarrow> (string \<times> 'db store) list res" where
  "build_orm_store_registry lib dbg server conns rds = orm_store_registry lib dbg server conns rds []"

section \<open>Placeholders and values\<close>

text \<open>The contract of a dialect: how the k-th placeholder looks, and which texts hold none. Inside, the
  texts that hold exactly the placeholders \<open>k, ..., k + n - 1\<close> in this order.\<close>

fun weave_marks :: "(nat \<Rightarrow> string) \<Rightarrow> nat \<Rightarrow> string list \<Rightarrow> string" where
  "weave_marks mark k [] = []"
| "weave_marks mark k [p] = p"
| "weave_marks mark k (p # q # ps) = p @ mark k @ weave_marks mark (Suc k) (q # ps)"

definition marked :: "(nat \<Rightarrow> string) \<Rightarrow> (string \<Rightarrow> bool) \<Rightarrow> nat \<Rightarrow> string \<Rightarrow> nat \<Rightarrow> bool" where
  "marked mark clean k s n \<longleftrightarrow> (\<exists>ps. length ps = Suc n \<and> list_all clean ps \<and> s = weave_marks mark k ps)"

lemma weave_marks_append:
  "weave_marks mark k (ps @ [p]) @ weave_marks mark (k + length ps) (q # qs) = weave_marks mark k (ps @ (p @ q) # qs)"
proof (induction ps arbitrary: k)
  case Nil
  then show ?case by (cases qs) auto
next
  case (Cons r ps)
  then show ?case using Cons.IH [of "Suc k"] by (cases ps) auto
qed

locale placeholder_dialect =
  fixes mark :: "nat \<Rightarrow> string" and clean :: "string \<Rightarrow> bool"
  assumes clean_Nil: "clean []" and clean_append: "clean (s @ t) \<longleftrightarrow> clean s \<and> clean t"
begin

lemma marked_append:
  assumes "marked mark clean k s n" and "marked mark clean (k + n) t m"
  shows "marked mark clean k (s @ t) (n + m)"
proof -
  obtain ps p where ps: "length ps = n" "list_all clean (ps @ [p])" "s = weave_marks mark k (ps @ [p])"
    using assms(1) unfolding marked_def by (metis length_append_singleton nat.inject length_Suc_conv_rev)
  obtain q qs where qs: "length qs = m" "list_all clean (q # qs)" "t = weave_marks mark (k + n) (q # qs)"
    using assms(2) unfolding marked_def by (metis length_Suc_conv)
  have "s @ t = weave_marks mark k (ps @ (p @ q) # qs)"
    using weave_marks_append [of mark k ps p q qs] ps qs by simp
  moreover have "list_all clean (ps @ (p @ q) # qs)" using ps(2) qs(2) by (simp add: clean_append)
  ultimately show ?thesis
    unfolding marked_def using ps(1) qs(1) by (intro exI [of _ "ps @ (p @ q) # qs"]) simp
qed

lemma marked_text: "clean s \<Longrightarrow> marked mark clean k s 0"
  unfolding marked_def by (rule exI [of _ "[s]"]) simp

lemma marked_mark: "marked mark clean k (mark k) 1"
  unfolding marked_def by (rule exI [of _ "[ [], [] ]"]) (simp add: clean_Nil)

lemma marked_text_append: "clean s \<Longrightarrow> marked mark clean k t n \<Longrightarrow> marked mark clean k (s @ t) n"
  using marked_append [of k s 0 t n] by (simp add: marked_text)

lemma marked_append_text: "marked mark clean k s n \<Longrightarrow> clean t \<Longrightarrow> marked mark clean k (s @ t) n"
  using marked_append [of k s n t 0] by (simp add: marked_text)

lemma marked_snoc: "marked mark clean k s n \<Longrightarrow> clean t \<Longrightarrow> marked mark clean k (s @ t @ mark (k + n)) (Suc n)"
  using marked_append [of k s n "t @ mark (k + n)" 1] marked_text_append [OF _ marked_mark] by simp

text \<open>A separated list of texts that each end in one placeholder, and a list of bare placeholders.\<close>

lemma marked_join:
  assumes "clean sep" and "\<And>i. i < length ts \<Longrightarrow> marked mark clean (k + i) (ts ! i) 1"
  shows "marked mark clean k (join sep ts) (length ts)"
  using assms
proof (induction sep ts arbitrary: k rule: join.induct)
  case (1 sep)
  then show ?case by (simp add: marked_text clean_Nil)
next
  case (2 sep x)
  from "2.prems"(2) [of 0] show ?case by simp
next
  case (3 sep x y ys)
  have "marked mark clean (k + 1) (join sep (y # ys)) (length (y # ys))"
  proof (rule "3.IH" [OF "3.prems"(1)])
    fix i assume "i < length (y # ys)"
    with "3.prems"(2) [of "Suc i"] show "marked mark clean (k + 1 + i) ((y # ys) ! i) 1" by simp
  qed
  then have "marked mark clean (k + 1) (sep @ join sep (y # ys)) (length (y # ys))"
    by (rule marked_text_append [OF "3.prems"(1)])
  moreover have "marked mark clean k x 1" using "3.prems"(2) [of 0] by simp
  ultimately show ?case using marked_append [of k x 1 "sep @ join sep (y # ys)" "length (y # ys)"] by simp
qed

end

definition mark_char :: "database_engine \<Rightarrow> char" where
  "mark_char e = (if e = Postgres then CHR ''$'' else CHR ''?'')"

definition free_of_marks :: "database_engine \<Rightarrow> string \<Rightarrow> bool" where
  "free_of_marks e s \<longleftrightarrow> mark_char e \<notin> set s"

interpretation dialect: placeholder_dialect "param e" "free_of_marks e" for e
  by unfold_locales (auto simp: free_of_marks_def)

definition aligned :: "database_engine \<Rightarrow> sea_statement \<Rightarrow> bool" where
  "aligned e stmt \<longleftrightarrow> marked (param e) (free_of_marks e) 1 (fst stmt) (length (snd stmt))"

lemma free_of_marks_simps [simp]:
  "free_of_marks e []" "free_of_marks e (s @ t) \<longleftrightarrow> free_of_marks e s \<and> free_of_marks e t"
  "free_of_marks e (c # s) \<longleftrightarrow> c \<noteq> mark_char e \<and> free_of_marks e s"
  "CHR ''$'' = mark_char e \<longleftrightarrow> e = Postgres" "CHR ''?'' = mark_char e \<longleftrightarrow> e \<noteq> Postgres"
  by (auto simp: free_of_marks_def mark_char_def)

lemma mark_char_other [simp]: "c \<noteq> CHR ''$'' \<Longrightarrow> c \<noteq> CHR ''?'' \<Longrightarrow> c \<noteq> mark_char e"
  by (simp add: mark_char_def)

lemma free_of_marks_nat [simp]: "free_of_marks e (show_nat n)"
  using is_digit_show_nat by (fastforce simp: free_of_marks_def mark_char_def is_digit_def)

lemma free_of_marks_int [simp]: "free_of_marks e (show_int i)"
  by (simp add: show_int_def)

lemma free_of_marks_ident [simp]: "free_of_marks e (quote_ident e name) \<longleftrightarrow> free_of_marks e name"
  by (auto simp: quote_ident_def backtick_def dquote_def)

lemma free_of_marks_join: "free_of_marks e sep \<Longrightarrow> list_all (free_of_marks e) xs \<Longrightarrow> free_of_marks e (join sep xs)"
  by (induction sep xs rule: join.induct) simp_all

text \<open>Names of the resource file hold neither a dollar sign nor a question mark.\<close>

definition markless_names :: "database_engine \<Rightarrow> resource_definition \<Rightarrow> bool" where
  "markless_names e rd \<longleftrightarrow> free_of_marks e (rd_resource rd) \<and> (\<forall>n \<in> fst ` set (rd_schema rd). free_of_marks e n)"

lemma markless_parts [simp]:
  assumes "markless_names e rd"
  shows "free_of_marks e (orm_table e rd)" "free_of_marks e (orm_select_columns e rd)" "free_of_marks e (primary_key rd)"
    "free_of_marks e (orm_not_deleted e rd)" "free_of_marks e (returning e rd)"
proof -
  show "free_of_marks e (orm_table e rd)" using assms by (simp add: orm_table_def markless_names_def)
  show s: "free_of_marks e (orm_select_columns e rd)"
    unfolding orm_select_columns_def using assms
    by (intro free_of_marks_join) (auto simp: markless_names_def list_all_iff)
  show "free_of_marks e (primary_key rd)"
    using assms by (force simp: primary_key_def markless_names_def find_Some_iff split: option.splits dest!: nth_mem)
  show "free_of_marks e (orm_not_deleted e rd)" by (simp add: orm_not_deleted_def)
  show "free_of_marks e (returning e rd)" using s by (simp add: returning_def)
qed

definition orm_state_ok :: "database_engine \<Rightarrow> orm_state \<Rightarrow> bool" where
  "orm_state_ok e st \<longleftrightarrow> aligned e (os_sql st, os_values st) \<and> os_param st = Suc (length (os_values st))"

lemma push_condition_ok:
  assumes "orm_state_ok e st" and "free_of_marks e keyword" and "free_of_marks e condition"
  shows "orm_state_ok e (push_condition e keyword condition v st)"
  using dialect.marked_snoc [of e 1 "os_sql st" "length (os_values st)" "keyword @ condition"] assms
  by (simp add: orm_state_ok_def push_condition_def aligned_def)

lemma append_text_ok: "orm_state_ok e st \<Longrightarrow> free_of_marks e t \<Longrightarrow> orm_state_ok e (st\<lparr>os_sql := os_sql st @ t\<rparr>)"
  using dialect.marked_append_text by (simp add: orm_state_ok_def aligned_def)

lemma orm_start_ok: "markless_names e rd \<Longrightarrow> orm_state_ok e (orm_start e rd)"
  using dialect.marked_text [of e "os_sql (orm_start e rd)" 1] by (simp add: orm_state_ok_def aligned_def orm_start_def)

lemma orm_filter_ok: "markless_names e rd \<Longrightarrow> orm_state_ok e st \<Longrightarrow> orm_state_ok e (orm_filter lib e rd f st)"
  by (cases "map_of (rd_schema rd) (fp_field f)")
    (force simp: orm_filter_def markless_names_def dest: map_of_SomeD intro!: push_condition_ok)+

lemma orm_filters_ok: "markless_names e rd \<Longrightarrow> orm_state_ok e st \<Longrightarrow> orm_state_ok e (fold (orm_filter lib e rd) fs st)"
  by (induction fs arbitrary: st) (simp_all add: orm_filter_ok)

lemma orm_sort_free: "list_all (free_of_marks e \<circ> sf_field) srt \<Longrightarrow> free_of_marks e (orm_sort e srt)"
  unfolding orm_sort_def by (auto simp: list_all_iff intro!: free_of_marks_join)

lemma orm_filtered_ok:
  "markless_names e rd \<Longrightarrow> list_all (free_of_marks e \<circ> sf_field) srt \<Longrightarrow> orm_state_ok e (orm_filtered lib e rd fs srt)"
  unfolding orm_filtered_def Let_def by (intro append_text_ok orm_filters_ok orm_start_ok orm_sort_free)

lemma orm_after_ok: "orm_state_ok e st \<Longrightarrow> orm_state_ok e (orm_after e rd fs after st)"
  by (cases after) (simp_all add: orm_after_def push_condition_ok)

lemma aligned_append: "aligned e (sql, values) \<Longrightarrow> free_of_marks e t \<Longrightarrow> aligned e (sql @ t, values)"
  using dialect.marked_append_text by (simp add: aligned_def)

text \<open>An INSERT lists its placeholders, an UPDATE its assignments.\<close>

definition insert_ok :: "database_engine \<Rightarrow> orm_insert_state \<Rightarrow> bool" where
  "insert_ok e st \<longleftrightarrow> oi_param st = Suc (length (oi_values st)) \<and> length (oi_placeholders st) = length (oi_values st)
     \<and> (\<forall>k < length (oi_placeholders st). oi_placeholders st ! k = param e (Suc k)) \<and> list_all (free_of_marks e) (oi_columns st)"

lemma oi_push_ok: "insert_ok e st \<Longrightarrow> free_of_marks e name \<Longrightarrow> insert_ok e (oi_push e name v st)"
  by (auto simp: insert_ok_def oi_push_def nth_append less_Suc_eq)

lemma orm_insert_step_ok: "insert_ok e st \<Longrightarrow> free_of_marks e (fst nf) \<Longrightarrow> insert_ok e (orm_insert_step lib e data nf st)"
  using oi_push_ok [of e st "fst nf"]
  by (auto simp: orm_insert_step_def Let_def insert_ok_def split: prod.splits field_type.splits option.splits)

lemma orm_insert_fold_ok:
  "insert_ok e st \<Longrightarrow> \<forall>n \<in> fst ` set sch. free_of_marks e n \<Longrightarrow> insert_ok e (fold (orm_insert_step lib e data) sch st)"
  by (induction sch arbitrary: st) (simp_all add: orm_insert_step_ok)

lemma orm_insert_loop_ok: "markless_names e rd \<Longrightarrow> insert_ok e (orm_insert_loop lib e rd data)"
  unfolding orm_insert_loop_def by (rule orm_insert_fold_ok) (simp_all add: insert_ok_def markless_names_def)

definition update_ok :: "database_engine \<Rightarrow> orm_update_state \<Rightarrow> bool" where
  "update_ok e st \<longleftrightarrow> ou_param st = Suc (length (ou_values st)) \<and> length (ou_set_parts st) = length (ou_values st)
     \<and> (\<forall>k < length (ou_set_parts st). marked (param e) (free_of_marks e) (Suc k) (ou_set_parts st ! k) 1)"

lemma ou_push_ok: "update_ok e st \<Longrightarrow> free_of_marks e name \<Longrightarrow> update_ok e (ou_push e name v st)"
  using dialect.marked_text_append [OF _ dialect.marked_mark, of e "quote_ident e name @ '' = ''"]
  by (auto simp: update_ok_def ou_push_def nth_append less_Suc_eq)

lemma orm_update_step_ok: "markless_names e rd \<Longrightarrow> update_ok e st \<Longrightarrow> update_ok e (orm_update_step lib e rd nv st)"
  by (auto simp: orm_update_step_def markless_names_def split: prod.splits option.splits intro!: ou_push_ok
      dest!: map_of_SomeD)

lemma orm_update_loop_ok: "markless_names e rd \<Longrightarrow> update_ok e (orm_update_loop lib e rd data)"
proof -
  assume "markless_names e rd"
  then have "update_ok e (fold (orm_update_step lib e rd) data st)" if "update_ok e st" for st
    using that by (induction data arbitrary: st) (simp_all add: orm_update_step_ok)
  moreover have "update_ok e \<lparr>ou_set_parts = [], ou_values = [], ou_param = 1\<rparr>" by (simp add: update_ok_def)
  ultimately show ?thesis by (simp add: orm_update_loop_def Let_def ou_push_ok)
qed

lemma pages_aligned: "orm_state_ok e st \<Longrightarrow> free_of_marks e t \<Longrightarrow> aligned e (os_sql st @ t, os_values st)"
  by (auto simp: orm_state_ok_def intro: aligned_append)

lemma single_aligned: "free_of_marks e s \<Longrightarrow> free_of_marks e t \<Longrightarrow> aligned e (s @ param e 1 @ t, [v])"
  using dialect.marked_append_text [OF dialect.marked_text_append [OF _ dialect.marked_mark]]
  by (simp add: aligned_def)

lemma orm_insert_aligned:
  assumes "markless_names e rd"
  shows "aligned e (orm_insert_statement lib e rd data)"
proof -
  let ?st = "orm_insert_loop lib e rd data"
  let ?head = "''INSERT INTO '' @ orm_table e rd @ '' ('' @ join '', '' (oi_columns ?st) @ '') VALUES (''"
  have ok: "insert_ok e ?st" using assms by (rule orm_insert_loop_ok)
  have "marked (param e) (free_of_marks e) 1 (join '', '' (oi_placeholders ?st)) (length (oi_placeholders ?st))"
    using ok dialect.marked_mark by (intro dialect.marked_join) (simp_all add: insert_ok_def)
  moreover have "free_of_marks e ?head" using ok assms by (simp add: insert_ok_def free_of_marks_join)
  ultimately have "aligned e (?head @ join '', '' (oi_placeholders ?st), oi_values ?st)"
    using ok dialect.marked_text_append [of e ?head] by (simp add: aligned_def insert_ok_def)
  from aligned_append [OF this, of "'')'' @ returning e rd"] show ?thesis
    using assms by (simp add: orm_insert_statement_def Let_def)
qed

lemma orm_update_aligned:
  assumes "markless_names e rd" and "orm_update_statement lib e rd i data = Inr stmt"
  shows "aligned e stmt"
proof -
  let ?st = "orm_update_loop lib e rd data"
  have ok: "update_ok e ?st" using assms(1) by (rule orm_update_loop_ok)
  have "marked (param e) (free_of_marks e) 1 (join '', '' (ou_set_parts ?st)) (length (ou_set_parts ?st))"
    using ok by (intro dialect.marked_join) (simp_all add: update_ok_def)
  then have "orm_state_ok e \<lparr>os_sql = (''UPDATE '' @ orm_table e rd @ '' SET '') @ join '', '' (ou_set_parts ?st),
      os_values = ou_values ?st, os_param = ou_param ?st\<rparr>"
    using ok assms(1) dialect.marked_text_append [of e "''UPDATE '' @ orm_table e rd @ '' SET ''"]
    by (simp add: orm_state_ok_def aligned_def update_ok_def)
  from push_condition_ok [OF this, of "'' WHERE ''" "quote_ident e (primary_key rd) @ '' = ''" "id_value lib i"]
  show ?thesis
    using assms pages_aligned [of e _ "orm_not_deleted e rd @ returning e rd"]
    by (fastforce simp: orm_update_statement_def Let_def push_condition_def split: if_splits)
qed

lemma orm_soft_delete_aligned:
  assumes "markless_names e rd"
  shows "aligned e (orm_soft_delete_statement lib e rd i)"
proof -
  have "orm_state_ok e \<lparr>os_sql = ''UPDATE '' @ orm_table e rd @ '' SET '', os_values = [], os_param = 1\<rparr>"
    using assms dialect.marked_text [of e "''UPDATE '' @ orm_table e rd @ '' SET ''" 1]
    by (simp add: orm_state_ok_def aligned_def)
  then have "orm_state_ok e (push_condition e '' WHERE '' (quote_ident e (primary_key rd) @ '' = '') (id_value lib i)
      (push_condition e [] (quote_ident e ''deleted_at'' @ '' = '') (SvString (Some (now_text lib)))
        \<lparr>os_sql = ''UPDATE '' @ orm_table e rd @ '' SET '', os_values = [], os_param = 1\<rparr>))"
    using assms by (intro push_condition_ok) simp_all
  from pages_aligned [OF this, of "'' AND '' @ quote_ident e ''deleted_at'' @ '' IS NULL'' @ returning e rd"]
  show ?thesis
    using assms by (simp add: orm_soft_delete_statement_def push_condition_def numeral_2_eq_2)
qed

text \<open>C24. On every SQL dialect the statements of the ORM line up with their values: the text of a lookup,
  a page, an insert, an update, a soft delete and a delete holds exactly one placeholder per value, in
  the order of the values, numbered on Postgres and anonymous on MySQL and SQLite.\<close>

theorem orm_statements_aligned:
  assumes "markless_names e rd" and "list_all (free_of_marks e \<circ> sf_field) srt"
  shows "aligned e (orm_find_by_id_statement lib e rd i) \<and> aligned e (orm_cursor_statement lib e rd fs srt after limit)
    \<and> aligned e (orm_offset_statement lib e rd fs srt off limit) \<and> aligned e (orm_insert_statement lib e rd data)
    \<and> (case orm_update_statement lib e rd i data of Inl err \<Rightarrow> True | Inr stmt \<Rightarrow> aligned e stmt)
    \<and> aligned e (orm_soft_delete_statement lib e rd i) \<and> aligned e (orm_hard_delete_statement lib e rd i)"
proof (intro conjI)
  show "aligned e (orm_find_by_id_statement lib e rd i)"
    using single_aligned [of e "''SELECT '' @ orm_select_columns e rd @ '' FROM '' @ orm_table e rd @ '' WHERE ''
        @ quote_ident e (primary_key rd) @ '' = ''" "orm_not_deleted e rd"] assms(1)
    by (simp add: orm_find_by_id_statement_def)
  show "aligned e (orm_hard_delete_statement lib e rd i)"
    using single_aligned [of e "''DELETE FROM '' @ orm_table e rd @ '' WHERE '' @ quote_ident e (primary_key rd) @ '' = ''"
        "returning e rd"] assms(1)
    by (simp add: orm_hard_delete_statement_def)
  show "aligned e (orm_cursor_statement lib e rd fs srt after limit)"
    unfolding orm_cursor_statement_def Let_def by (intro pages_aligned orm_after_ok orm_filtered_ok assms) simp
  show "aligned e (orm_offset_statement lib e rd fs srt off limit)"
    unfolding orm_offset_statement_def Let_def by (intro pages_aligned orm_filtered_ok assms) simp
  show "case orm_update_statement lib e rd i data of Inl err \<Rightarrow> True | Inr stmt \<Rightarrow> aligned e stmt"
    using orm_update_aligned [OF assms(1)] by (auto split: sum.split)
qed (intro orm_insert_aligned orm_soft_delete_aligned assms(1))+

theorem orm_statements_aligned_witness:
  "aligned MySQL (orm_cursor_statement toy_sql_lib MySQL sample_table [\<lparr>fp_field = ''title'', fp_value = ''what?''\<rparr>] []
     (Some ''7'') 10)
   \<and> orm_cursor_statement toy_sql_lib MySQL sample_table [\<lparr>fp_field = ''title'', fp_value = ''what?''\<rparr>] [] (Some ''7'') 10
     = (''SELECT `id`, `title` FROM `notes` WHERE `title` = ? AND `id` > ? ORDER BY `id` ASC LIMIT 11'',
        [SvString (Some ''what?''), SvString (Some ''7'')])"
proof -
  have "markless_names MySQL sample_table"
    by (simp add: markless_names_def sample_table_def mark_char_def)
  then have "aligned MySQL (orm_cursor_statement toy_sql_lib MySQL sample_table
      [\<lparr>fp_field = ''title'', fp_value = ''what?''\<rparr>] [] (Some ''7'') 10)"
    using orm_statements_aligned [of MySQL sample_table "[]"] by simp
  moreover have "orm_cursor_statement toy_sql_lib MySQL sample_table [\<lparr>fp_field = ''title'', fp_value = ''what?''\<rparr>] []
      (Some ''7'') 10
     = (''SELECT `id`, `title` FROM `notes` WHERE `title` = ? AND `id` > ? ORDER BY `id` ASC LIMIT 11'',
        [SvString (Some ''what?''), SvString (Some ''7'')])"
    by code_simp
  ultimately show ?thesis by blast
qed

section \<open>The two SQL paths on Postgres\<close>

text \<open>The value that the ORM binds for a value of the query builder, which binds typed ones.\<close>

lemma postgres_texts:
  "quote_ident Postgres name = dquote name" "param Postgres k = placeholder k"
  "orm_table Postgres rd = dquote (table rd)" "orm_select_columns Postgres rd = select_columns rd"
  "orm_not_deleted Postgres rd = not_deleted rd" "returning Postgres rd = '' RETURNING '' @ select_columns rd"
  by (simp_all add: quote_ident_def param_def placeholder_def orm_table_def table_def orm_select_columns_def select_columns_def
      columns_def orm_not_deleted_def not_deleted_def returning_def supports_returning_def comp_def)

lemma first_placeholders: "placeholder 1 = ''$1''" "placeholder 2 = ''$2''"
  by code_simp+

lemma insert_loops_agree:
  "in_columns st = oi_columns st' \<Longrightarrow> in_placeholders st = oi_placeholders st' \<Longrightarrow> in_idx st = oi_param st' \<Longrightarrow>
   in_columns (fold (insert_step lib data) sch st) = oi_columns (fold (orm_insert_step lib Postgres data) sch st')
   \<and> in_placeholders (fold (insert_step lib data) sch st) = oi_placeholders (fold (orm_insert_step lib Postgres data) sch st')"
proof (induction sch arbitrary: st st')
  case (Cons nf sch)
  obtain n f where nf: "nf = (n, f)" by fastforce
  have "in_columns (insert_step lib data nf st) = oi_columns (orm_insert_step lib Postgres data nf st')
      \<and> in_placeholders (insert_step lib data nf st) = oi_placeholders (orm_insert_step lib Postgres data nf st')
      \<and> in_idx (insert_step lib data nf st) = oi_param (orm_insert_step lib Postgres data nf st')"
    using Cons.prems
    by (cases "fs_type f") (auto simp: nf insert_step_def orm_insert_step_def insert_push_def oi_push_def postgres_texts Let_def
        split: option.splits)
  with Cons.IH show ?case by simp
qed simp

lemma update_loops_agree:
  "up_clauses st = ou_set_parts st' \<Longrightarrow> up_idx st = ou_param st' \<Longrightarrow>
   up_clauses (fold (update_step lib rd) data st) = ou_set_parts (fold (orm_update_step lib Postgres rd) data st')
   \<and> up_idx (fold (update_step lib rd) data st) = ou_param (fold (orm_update_step lib Postgres rd) data st')"
proof (induction data arbitrary: st st')
  case (Cons nv data)
  obtain n v where nv: "nv = (n, v)" by fastforce
  have "up_clauses (update_step lib rd nv st) = ou_set_parts (orm_update_step lib Postgres rd nv st')
      \<and> up_idx (update_step lib rd nv st) = ou_param (orm_update_step lib Postgres rd nv st')"
    using Cons.prems
    by (auto simp: nv update_step_def orm_update_step_def update_push_def ou_push_def postgres_texts split: option.splits)
  with Cons.IH show ?case by simp
qed simp

lemma filter_loops_agree:
  "list_all (\<lambda>f. has_key (rd_schema rd) (fp_field f)) fs \<Longrightarrow>
   first = (os_param st = 1) \<Longrightarrow> os_sql st = sql \<Longrightarrow> os_param st = offset \<Longrightarrow> offset \<ge> 1 \<Longrightarrow>
   filters_to_sql first fs sql (has_soft_delete rd) offset
     = (os_sql (fold (orm_filter lib Postgres rd) fs st), os_param (fold (orm_filter lib Postgres rd) fs st))"
proof (induction fs arbitrary: first sql offset st)
  case (Cons f fs)
  then obtain field where f: "map_of (rd_schema rd) (fp_field f) = Some field" by auto
  have "filters_to_sql False fs (os_sql (orm_filter lib Postgres rd f st)) (has_soft_delete rd) (offset + 1)
      = (os_sql (fold (orm_filter lib Postgres rd) fs (orm_filter lib Postgres rd f st)),
         os_param (fold (orm_filter lib Postgres rd) fs (orm_filter lib Postgres rd f st)))"
    using Cons.prems f by (intro Cons.IH) (auto simp: orm_filter_def push_condition_def)
  moreover have "os_sql (orm_filter lib Postgres rd f st) = sql
      @ (if first \<and> \<not> has_soft_delete rd then '' WHERE '' else '' AND '') @ dquote (fp_field f) @ '' = '' @ placeholder offset"
    using Cons.prems f by (simp add: orm_filter_def push_condition_def postgres_texts)
  ultimately show ?case by simp
qed simp

lemma offset_texts_agree:
  assumes "list_all (\<lambda>f. has_key (rd_schema rd) (fp_field f)) fs"
  shows "fst (orm_offset_statement lib Postgres rd fs srt off limit) = fst (offset_statement lib rd fs None srt off limit)"
proof -
  have start: "os_sql (orm_start Postgres rd) = sq_text (start_state rd (select_head rd))"
    by (simp add: orm_start_def start_state_def select_head_def postgres_texts)
  have "sort_apply_to_sql srt sql = sql @ orm_sort Postgres srt" for sql
  proof -
    have "sort_direction_display d = (if d = Asc then ''ASC'' else ''DESC'')" for d by (cases d) simp_all
    then show ?thesis by (simp add: sort_apply_to_sql_def orm_sort_def postgres_texts)
  qed
  moreover have "sq_text (apply_filters lib rd fs (start_state rd (select_head rd)))
      = os_sql (fold (orm_filter lib Postgres rd) fs (orm_start Postgres rd))"
    using filter_loops_agree [OF assms, of True "orm_start Postgres rd" "sq_text (start_state rd (select_head rd))" 1 lib] start
    by (auto simp: apply_filters_def filter_apply_to_sql_def start_state_def orm_start_def)
  ultimately show ?thesis
    by (simp add: orm_offset_statement_def offset_statement_def orm_filtered_def where_state_def apply_search_def Let_def)
qed



section \<open>Where the statements go wrong\<close>

text \<open>A page after a cursor in an explicit order: the condition is written behind \<open>ORDER BY\<close>.\<close>

lemma cursor_behind_order_by:
  "orm_cursor_statement toy_sql_lib MySQL sample_table [] [\<lparr>sf_field = ''title'', sf_direction = Asc\<rparr>] (Some ''7'') 10
    = (''SELECT `id`, `title` FROM `notes` ORDER BY `title` ASC WHERE `id` > ? LIMIT 11'', [SvString (Some ''7'')])"
  by code_simp

text \<open>A cursor with a filter that the schema does not know: there is no \<open>WHERE\<close>.\<close>

lemma cursor_without_where:
  "orm_cursor_statement toy_sql_lib MySQL sample_table [\<lparr>fp_field = ''gone'', fp_value = ''a''\<rparr>] [] (Some ''7'') 10
    = (''SELECT `id`, `title` FROM `notes` AND `id` > ? ORDER BY `id` ASC LIMIT 11'', [SvString (Some ''7'')])"
  by code_simp

text \<open>A soft delete on MySQL: the record is marked, then looked up among the records that are not deleted.
  The server of the example keeps for every id whether it is deleted.\<close>

definition soft_notes :: resource_definition where
  "soft_notes = sample_table\<lparr>rd_endpoints := Some [(''delete'', default_endpoint\<lparr>ep_soft_delete := True\<rparr>)]\<rparr>"

definition value_id :: "sea_value list \<Rightarrow> uuid option" where
  "value_id values = (case values of [] \<Rightarrow> None | v # vs \<Rightarrow> (case last (v # vs) of SvString (Some s) \<Rightarrow> parse_digits s | _ \<Rightarrow> None))"

definition toy_mysql :: "(uuid \<times> bool) list sea_server" where
  "toy_mysql = \<lparr>
     ss_query_all = (\<lambda>sql values db. (db, Inr (case Option.bind (value_id values) (map_of db) of
       None \<Rightarrow> []
     | Some deleted \<Rightarrow> if deleted \<and> contains_str ''`deleted_at` IS NULL'' sql then [] else [\<lambda>name kind. Inr None]))),
     ss_execute = (\<lambda>sql values db. (case value_id values of
       None \<Rightarrow> (db, Inr 0)
     | Some i \<Rightarrow> if map_of db i = Some False then (AList.update i True db, Inr 1) else (db, Inr 0)))\<rparr>"

lemma mysql_soft_delete_answers_not_found:
  "orm_soft_delete_by_id toy_sql_lib toy_mysql MySQL soft_notes 7 [(7, False)] = ([(7, True)], Inl NotFound)"
  by code_simp

text \<open>A resource whose database is not among the connections silently uses the default one.\<close>

lemma unknown_database_falls_back:
  "map_of conns name = None \<Longrightarrow> sql_for_resource conns (Some name) = sql_for_resource conns None"
  by (simp add: sql_for_resource_def connection_name_for_resource_def)

section \<open>Every resource has its store\<close>

lemma orm_store_registry_serves:
  "orm_store_registry lib dbg server conns rds stores = Inr stores' \<Longrightarrow> distinct (map rd_resource rds) \<Longrightarrow>
   (\<forall>rd \<in> set rds. \<exists>conn. sql_for_resource conns (rd_db rd) = Some conn
      \<and> map_of stores' (rd_resource rd) = Some (orm_store lib server conn rd))
   \<and> (\<forall>name. name \<notin> rd_resource ` set rds \<longrightarrow> map_of stores' name = map_of stores name)"
proof (induction rds arbitrary: stores)
  case (Cons rd rds)
  then obtain conn where conn: "sql_for_resource conns (rd_db rd) = Some conn"
    and rest: "orm_store_registry lib dbg server conns rds
      (AList.update (rd_resource rd) (orm_store lib server conn rd) stores) = Inr stores'"
    by (auto split: option.splits)
  from Cons.IH [OF rest] Cons.prems(2) conn show ?case by (auto simp: AList.update_conv')
qed simp

lemma orm_registry_complete:
  assumes "build_orm_store_registry lib dbg server conns rds = Inr stores" and "distinct (map rd_resource rds)"
    and "ap_stores app = Some stores" and "rd \<in> set rds"
  shows "\<exists>conn. sql_for_resource conns (rd_db rd) = Some conn
    \<and> store_for_or_error app rd = Inr (Some (orm_store lib server conn rd))"
  using orm_store_registry_serves [of lib dbg server conns rds "[]" stores] assms
  by (auto simp: build_orm_store_registry_def store_for_or_error_def store_for_def)

end
