(* ===== verification/Mongo_Store.thy ===== *)
theory Mongo_Store
  imports Crud_Isolation Orm_Query
begin

text \<open>
  The MongoDB backend of \<open>shaperail-runtime/src/db/mongo.rs\<close> and the registry that routes each resource
  to its backend (\<open>build_multi_store_registry\<close> of \<open>db/store.rs\<close>). The driver crate is a parameter: the
  commands it sends, and the conversions of the \<open>bson\<close> crate. A document is a list of keys and values
  whose order is the order of insertion.
\<close>

section \<open>Documents\<close>

datatype bson =
    BNull
  | BString string
  | BInt32 int
  | BInt64 int
  | BDouble f64
  | BBoolean bool
  | BDocument "(string \<times> bson) list"
  | BArray "bson list"
  | BOther string

type_synonym bdoc = "(string \<times> bson) list"

text \<open>\<open>to_bson\<close>, \<open>from_document::<Value>\<close> and the text that \<open>Display\<close> gives the remaining kinds of value.\<close>

record bson_lib =
  bs_to_bson :: "json \<Rightarrow> bson option"
  bs_from_document :: "bdoc \<Rightarrow> json option"

fun field_type_to_bson_type :: "field_type \<Rightarrow> string" where
  "field_type_to_bson_type FtInteger = ''long''"
| "field_type_to_bson_type FtNumber = ''double''"
| "field_type_to_bson_type FtBoolean = ''bool''"
| "field_type_to_bson_type FtJson = ''object''"
| "field_type_to_bson_type FtArray = ''array''"
| "field_type_to_bson_type _ = ''string''"

text \<open>\<open>f as i64\<close>: towards zero, saturating.\<close>

definition f64_as_i64 :: "rat \<Rightarrow> int" where
  "f64_as_i64 r = max (- (2 ^ 63)) (min (2 ^ 63 - 1) (if 0 \<le> r then \<lfloor>r\<rfloor> else \<lceil>r\<rceil>))"

definition bound_as_i64 :: "json \<Rightarrow> int option" where
  "bound_as_i64 v = (case as_i64 v of Some i \<Rightarrow> Some i | None \<Rightarrow> map_option f64_as_i64 (as_f64 v))"

definition length_bounded :: "field_type \<Rightarrow> bool" where
  "length_bounded t \<longleftrightarrow> t = FtString \<or> t = FtEnum \<or> t = FtFile"

definition bound_property :: "string \<Rightarrow> string \<Rightarrow> field_schema \<Rightarrow> json option \<Rightarrow> bdoc \<Rightarrow> bdoc" where
  "bound_property text_key number_key f bound prop = (case Option.bind bound bound_as_i64 of
     None \<Rightarrow> prop
   | Some n \<Rightarrow> AList.update (if length_bounded (fs_type f) then text_key else number_key) (BInt64 n) prop)"

definition schema_property :: "field_schema \<Rightarrow> bdoc" where
  "schema_property f =
     (let p0 = [(''bsonType'', BString (field_type_to_bson_type (fs_type f)))];
          p1 = (case fs_values f of None \<Rightarrow> p0 | Some vs \<Rightarrow> AList.update ''enum'' (BArray (map BString vs)) p0);
          p2 = bound_property ''minLength'' ''minimum'' f (fs_min f) p1
      in bound_property ''maxLength'' ''maximum'' f (fs_max f) p2)"

definition schema_properties :: "resource_definition \<Rightarrow> bdoc" where
  "schema_properties rd = fold (\<lambda>(n, f) ps. if fs_transient f then ps else AList.update n (BDocument (schema_property f)) ps)
     (rd_schema rd) []"

definition schema_required :: "resource_definition \<Rightarrow> bson list" where
  "schema_required rd = map (BString \<circ> fst)
     (filter (\<lambda>(n, f). \<not> fs_transient f \<and> fs_required f \<and> \<not> fs_generated f) (rd_schema rd))"

definition build_json_schema :: "resource_definition \<Rightarrow> bdoc" where
  "build_json_schema rd = [(''bsonType'', BString ''object''), (''properties'', BDocument (schema_properties rd))]
     @ (if schema_required rd = [] then [] else [(''required'', BArray (schema_required rd))])"

definition json_to_bson :: "sql_lib \<Rightarrow> bson_lib \<Rightarrow> json \<Rightarrow> field_schema \<Rightarrow> bson" where
  "json_to_bson lib bl v f =
     (if v = JNull then BNull
      else (case fs_type f of
        FtInteger \<Rightarrow> BInt64 (or_else (as_i64 v) 0)
      | FtNumber \<Rightarrow> BDouble (Finite (or_else (as_f64 v) 0))
      | FtBoolean \<Rightarrow> BBoolean (or_else (as_bool v) False)
      | FtJson \<Rightarrow> or_else (bs_to_bson bl v) BNull
      | FtArray \<Rightarrow> (case as_array v of
            Some vs \<Rightarrow> BArray (map (\<lambda>x. or_else (bs_to_bson bl x) BNull) vs)
          | None \<Rightarrow> BNull)
      | _ \<Rightarrow> BString (or_else (as_str v) (sl_json_text lib v))))"

fun bson_to_json :: "bson_lib \<Rightarrow> bson \<Rightarrow> json" where
  "bson_to_json bl BNull = JNull"
| "bson_to_json bl (BString s) = JStr s"
| "bson_to_json bl (BInt32 n) = jint n"
| "bson_to_json bl (BInt64 n) = jint n"
| "bson_to_json bl (BDouble x) = (case x of Finite r \<Rightarrow> JNum (Float r) | _ \<Rightarrow> JNull)"
| "bson_to_json bl (BBoolean b) = JBool b"
| "bson_to_json bl (BDocument d) = or_else (bs_from_document bl d) JNull"
| "bson_to_json bl (BArray bs) = JArr (map (bson_to_json bl) bs)"
| "bson_to_json bl (BOther s) = JStr s"

definition doc_to_json :: "bson_lib \<Rightarrow> resource_definition \<Rightarrow> bdoc \<Rightarrow> json" where
  "doc_to_json bl rd d = JObj (map (\<lambda>(n, f). (n, bson_to_json bl (or_else (map_of d n) BNull)))
     (filter (\<lambda>(n, f). \<not> fs_transient f) (rd_schema rd)))"

section \<open>The driver\<close>

text \<open>A cursor answers documents until it is exhausted or fails, by fetching or by decoding.\<close>

datatype cursor_item = Fetched bdoc | AdvanceError string | DeserializeError string

record find_options =
  fo_sort :: "bdoc option"
  fo_skip :: "nat option"
  fo_limit :: "int option"

record 'db mongo_db =
  mg_run_command :: "bdoc \<Rightarrow> 'db \<Rightarrow> 'db \<times> (string + unit)"
  mg_find_one :: "string \<Rightarrow> bdoc \<Rightarrow> 'db \<Rightarrow> string + bdoc option"
  mg_find :: "string \<Rightarrow> bdoc \<Rightarrow> find_options \<Rightarrow> 'db \<Rightarrow> string + cursor_item list"
  mg_insert_one :: "string \<Rightarrow> bdoc \<Rightarrow> 'db \<Rightarrow> 'db \<times> (string + unit)"
  mg_update_one :: "string \<Rightarrow> bdoc \<Rightarrow> bdoc \<Rightarrow> 'db \<Rightarrow> 'db \<times> (string + nat)"
  mg_delete_one :: "string \<Rightarrow> bdoc \<Rightarrow> 'db \<Rightarrow> 'db \<times> (string + nat)"

definition mongo_err :: "string \<Rightarrow> string + 'a \<Rightarrow> 'a res" where
  "mongo_err what r = (case r of Inl e \<Rightarrow> Inl (Internal (what @ '': '' @ e)) | Inr x \<Rightarrow> Inr x)"

text \<open>\<open>MongoConnection::connect\<close>: the client options with their default database, the client, the ping.\<close>

record ('o, 'c) mongo_client =
  mc_parse :: "string \<Rightarrow> string + 'o \<times> string option"
  mc_with_options :: "'o \<Rightarrow> string + 'c"
  mc_ping :: "'c \<Rightarrow> string \<Rightarrow> string + unit"

definition mongo_connect :: "('o, 'c) mongo_client \<Rightarrow> string \<Rightarrow> ('c \<times> string) res" where
  "mongo_connect mc url =
     and_then (mongo_err ''Failed to parse MongoDB URL'' (mc_parse mc url)) (\<lambda>(opts, database).
     and_then (mongo_err ''Failed to create MongoDB client'' (mc_with_options mc opts)) (\<lambda>client.
     let db_name = or_else database ''shaperail'' in
     and_then (mongo_err ''Failed to connect to MongoDB'' (mc_ping mc client db_name)) (\<lambda>_. Inr (client, db_name))))"

definition create_command :: "resource_definition \<Rightarrow> bdoc" where
  "create_command rd = [(''create'', BString (rd_resource rd)),
     (''validator'', BDocument [(''$jsonSchema'', BDocument (build_json_schema rd))])]"

definition coll_mod_command :: "resource_definition \<Rightarrow> bdoc" where
  "coll_mod_command rd = [(''collMod'', BString (rd_resource rd)),
     (''validator'', BDocument [(''$jsonSchema'', BDocument (build_json_schema rd))])]"

definition ensure_collection :: "'db mongo_db \<Rightarrow> resource_definition \<Rightarrow> 'db \<Rightarrow> 'db \<times> unit res" where
  "ensure_collection drv rd db = (case mg_run_command drv (create_command rd) db of
     (db', Inr _) \<Rightarrow> (db', Inr ())
   | (db', Inl e) \<Rightarrow>
       if contains_str ''already exists'' e then
         (case mg_run_command drv (coll_mod_command rd) db' of (db'', r) \<Rightarrow>
           (db'', mongo_err (''Failed to update MongoDB schema for '' @ squote (rd_resource rd)) r))
       else (db', Inl (Internal (''Failed to create MongoDB collection '' @ squote (rd_resource rd) @ '': '' @ e))))"

section \<open>The store\<close>

definition not_deleted_filter :: "resource_definition \<Rightarrow> bdoc" where
  "not_deleted_filter rd = (if has_soft_delete rd then [(''deleted_at'', BNull)] else [])"

definition id_text :: "sql_lib \<Rightarrow> uuid \<Rightarrow> bson" where
  "id_text lib i = BString (show_uuid (sl_values lib) i)"

definition live_filter :: "sql_lib \<Rightarrow> resource_definition \<Rightarrow> uuid \<Rightarrow> bdoc" where
  "live_filter lib rd i = AList.update (primary_key rd) (id_text lib i) (not_deleted_filter rd)"

definition mongo_find_by_id :: "sql_lib \<Rightarrow> bson_lib \<Rightarrow> 'db mongo_db \<Rightarrow> resource_definition \<Rightarrow> uuid \<Rightarrow> 'db \<Rightarrow> json res" where
  "mongo_find_by_id lib bl drv rd i db =
     and_then (mongo_err ''MongoDB find_by_id failed'' (mg_find_one drv (rd_resource rd) (live_filter lib rd i) db)) (\<lambda>r.
       case r of Some d \<Rightarrow> Inr (doc_to_json bl rd d) | None \<Rightarrow> Inl NotFound)"

definition mongo_filters :: "sql_lib \<Rightarrow> bson_lib \<Rightarrow> resource_definition \<Rightarrow> filter_param list \<Rightarrow> bdoc" where
  "mongo_filters lib bl rd fs = fold (\<lambda>f cond. case map_of (rd_schema rd) (fp_field f) of
       None \<Rightarrow> cond
     | Some field \<Rightarrow> AList.update (fp_field f) (json_to_bson lib bl (JStr (fp_value f)) field) cond)
     fs (not_deleted_filter rd)"

definition mongo_sort :: "sort_field list \<Rightarrow> bdoc" where
  "mongo_sort srt = fold (\<lambda>s. AList.update (sf_field s) (BInt32 (if sf_direction s = Asc then 1 else -1))) srt []"

text \<open>\<open>while cursor.advance().await? { rows.push(cursor.deserialize_current()?) }\<close>\<close>

fun drain_cursor :: "cursor_item list \<Rightarrow> bdoc list res" where
  "drain_cursor [] = Inr []"
| "drain_cursor (Fetched d # items) = and_then (drain_cursor items) (\<lambda>ds. Inr (d # ds))"
| "drain_cursor (AdvanceError e # items) = Inl (Internal (''MongoDB cursor error: '' @ e))"
| "drain_cursor (DeserializeError e # items) = Inl (Internal (''MongoDB deserialize error: '' @ e))"

definition mongo_documents :: "'db mongo_db \<Rightarrow> resource_definition \<Rightarrow> bdoc \<Rightarrow> find_options \<Rightarrow> 'db \<Rightarrow> bdoc list res" where
  "mongo_documents drv rd cond opts db =
     and_then (mongo_err ''MongoDB find_all failed'' (mg_find drv (rd_resource rd) cond opts db)) drain_cursor"

definition mongo_find_all :: "sql_lib \<Rightarrow> bson_lib \<Rightarrow> 'db mongo_db \<Rightarrow> resource_definition \<Rightarrow> filter_param list \<Rightarrow>
    sort_field list \<Rightarrow> page_request \<Rightarrow> 'db \<Rightarrow> (json list \<times> json) res" where
  "mongo_find_all lib bl drv rd fs srt page db =
     (let cond = mongo_filters lib bl rd fs; sort_doc = mongo_sort srt in
      case page of
        Cursor after limit \<Rightarrow>
          and_then (case after of None \<Rightarrow> Inr cond
            | Some c \<Rightarrow> and_then (decode_cursor c) (\<lambda>id_str.
                Inr (AList.update (primary_key rd) (BDocument [(''$gt'', BString id_str)]) cond))) (\<lambda>query.
          and_then (mongo_documents drv rd query
              \<lparr>fo_sort = Some (if sort_doc = [] then [(primary_key rd, BInt32 1)] else sort_doc), fo_skip = None,
               fo_limit = Some (limit + 1)\<rparr> db) (\<lambda>rows.
            let result_rows = map (doc_to_json bl rd) (take (nat (limit mod 2 ^ 64)) rows);
                cursor = (if result_rows = [] then None
                  else map_option encode_cursor (json_get_str (last result_rows) ''id''))
            in Inr (result_rows, JObj [(''cursor'', json_of_option JStr cursor),
                 (''has_more'', JBool (int (length rows) > limit))])))
      | Offset off limit \<Rightarrow>
          and_then (mongo_documents drv rd cond
              \<lparr>fo_sort = (if sort_doc = [] then None else Some sort_doc), fo_skip = Some (nat (off mod 2 ^ 64)),
               fo_limit = Some limit\<rparr> db) (\<lambda>rows.
            Inr (map (doc_to_json bl rd) rows, JObj [(''offset'', jint off), (''limit'', jint limit),
              (''total'', jint (int (length rows)))])))"

text \<open>The loop of \<open>insert\<close>; the k-th generated id is the k-th fresh one.\<close>

record mongo_insert_state =
  mi_doc :: bdoc
  mi_generated_id :: "uuid option"
  mi_fresh :: nat

definition mongo_insert_step :: "sql_lib \<Rightarrow> bson_lib \<Rightarrow> jmap \<Rightarrow> string \<times> field_schema \<Rightarrow> mongo_insert_state \<Rightarrow> mongo_insert_state" where
  "mongo_insert_step lib bl data nf st = (case nf of (name, f) \<Rightarrow>
     let put = (\<lambda>v. st\<lparr>mi_doc := AList.update name v (mi_doc st)\<rparr>) in
     if fs_transient f then st
     else if fs_generated f then
       (case fs_type f of
          FtUuid \<Rightarrow> (let i = sl_new_uuid lib (mi_fresh st); st' = (put (id_text lib i))\<lparr>mi_fresh := mi_fresh st + 1\<rparr>
            in if fs_primary f then st'\<lparr>mi_generated_id := Some i\<rparr> else st')
        | FtTimestamp \<Rightarrow> put (BString (now_text lib))
        | _ \<Rightarrow> st)
     else (case map_of data name of
         Some v \<Rightarrow> put (json_to_bson lib bl v f)
       | None \<Rightarrow> (case fs_default f of Some d \<Rightarrow> put (json_to_bson lib bl d f) | None \<Rightarrow> st)))"

definition mongo_insert_loop :: "sql_lib \<Rightarrow> bson_lib \<Rightarrow> resource_definition \<Rightarrow> jmap \<Rightarrow> mongo_insert_state" where
  "mongo_insert_loop lib bl rd data =
     fold (mongo_insert_step lib bl data) (rd_schema rd) \<lparr>mi_doc = [], mi_generated_id = None, mi_fresh = 0\<rparr>"

definition mongo_insert :: "sql_lib \<Rightarrow> bson_lib \<Rightarrow> 'db mongo_db \<Rightarrow> resource_definition \<Rightarrow> jmap \<Rightarrow> 'db \<Rightarrow> 'db \<times> json res" where
  "mongo_insert lib bl drv rd data db =
     (let st = mongo_insert_loop lib bl rd data in
      case mg_insert_one drv (rd_resource rd) (mi_doc st) db of (db', r) \<Rightarrow>
        (db', and_then (mongo_err ''MongoDB insert failed'' r) (\<lambda>_. case mi_generated_id st of
            None \<Rightarrow> Inr (doc_to_json bl rd (mi_doc st))
          | Some i \<Rightarrow> and_then (mongo_err ''MongoDB find after insert failed''
              (mg_find_one drv (rd_resource rd) [(primary_key rd, id_text lib i)] db')) (\<lambda>found.
                Inr (doc_to_json bl rd (or_else found (mi_doc st)))))))"

definition mongo_set_doc :: "sql_lib \<Rightarrow> bson_lib \<Rightarrow> resource_definition \<Rightarrow> jmap \<Rightarrow> bdoc" where
  "mongo_set_doc lib bl rd data =
     (let set_doc = fold (\<lambda>(name, v) d. case map_of (rd_schema rd) name of
          None \<Rightarrow> d
        | Some f \<Rightarrow> if fs_primary f \<or> fs_generated f then d else AList.update name (json_to_bson lib bl v f) d) data []
      in if has_key (rd_schema rd) ''updated_at'' then AList.update ''updated_at'' (BString (now_text lib)) set_doc
         else set_doc)"

text \<open>\<open>update_one\<close>, an error when nothing matched, then the document under another filter.\<close>

definition update_and_fetch :: "bson_lib \<Rightarrow> string \<Rightarrow> 'db mongo_db \<Rightarrow> resource_definition \<Rightarrow> bdoc \<Rightarrow> bdoc \<Rightarrow> bdoc \<Rightarrow>
    'db \<Rightarrow> 'db \<times> json res" where
  "update_and_fetch bl operation drv rd cond set_doc fetch db =
     (case mg_update_one drv (rd_resource rd) cond [(''$set'', BDocument set_doc)] db of (db', r) \<Rightarrow>
       (db', and_then (mongo_err (''MongoDB '' @ operation @ '' failed'') r) (\<lambda>matched.
          if matched = 0 then Inl NotFound
          else and_then (mongo_err (''MongoDB find after '' @ operation @ '' failed'')
              (mg_find_one drv (rd_resource rd) fetch db')) (\<lambda>found.
            case found of None \<Rightarrow> Inl NotFound | Some d \<Rightarrow> Inr (doc_to_json bl rd d)))))"

definition mongo_update_by_id :: "sql_lib \<Rightarrow> bson_lib \<Rightarrow> 'db mongo_db \<Rightarrow> resource_definition \<Rightarrow> uuid \<Rightarrow> jmap \<Rightarrow>
    'db \<Rightarrow> 'db \<times> json res" where
  "mongo_update_by_id lib bl drv rd i data db =
     (let set_doc = mongo_set_doc lib bl rd data; cond = live_filter lib rd i in
      if set_doc = [] then (db, Inl empty_update)
      else update_and_fetch bl ''update'' drv rd cond set_doc cond db)"

definition mongo_soft_delete_by_id :: "sql_lib \<Rightarrow> bson_lib \<Rightarrow> 'db mongo_db \<Rightarrow> resource_definition \<Rightarrow> uuid \<Rightarrow>
    'db \<Rightarrow> 'db \<times> json res" where
  "mongo_soft_delete_by_id lib bl drv rd i =
     update_and_fetch bl ''soft_delete'' drv rd (live_filter lib rd i) [(''deleted_at'', BString (now_text lib))]
       [(primary_key rd, id_text lib i)]"

definition mongo_hard_delete_by_id :: "sql_lib \<Rightarrow> bson_lib \<Rightarrow> 'db mongo_db \<Rightarrow> resource_definition \<Rightarrow> uuid \<Rightarrow>
    'db \<Rightarrow> 'db \<times> json res" where
  "mongo_hard_delete_by_id lib bl drv rd i db = (case mongo_find_by_id lib bl drv rd i db of
     Inl err \<Rightarrow> (db, Inl err)
   | Inr row \<Rightarrow> (case mg_delete_one drv (rd_resource rd) [(primary_key rd, id_text lib i)] db of (db', r) \<Rightarrow>
       (db', and_then (mongo_err ''MongoDB hard_delete failed'' r) (\<lambda>_. Inr row))))"

definition mongo_store :: "sql_lib \<Rightarrow> bson_lib \<Rightarrow> 'db mongo_db \<Rightarrow> resource_definition \<Rightarrow> 'db store" where
  "mongo_store lib bl drv rd =
     \<lparr>st_find_by_id = mongo_find_by_id lib bl drv rd,
      st_find_all = (\<lambda>ep fs search srt page. mongo_find_all lib bl drv rd fs srt page),
      st_insert = mongo_insert lib bl drv rd,
      st_update_by_id = mongo_update_by_id lib bl drv rd,
      st_soft_delete_by_id = mongo_soft_delete_by_id lib bl drv rd,
      st_hard_delete_by_id = mongo_hard_delete_by_id lib bl drv rd\<rparr>"

section \<open>The registry of several backends\<close>

definition resource_engine :: "(string \<times> named_database_config) list \<Rightarrow> resource_definition \<Rightarrow> database_engine" where
  "resource_engine dbs rd = (case map_of dbs (or_else (rd_db rd) ''default'') of
     Some cfg \<Rightarrow> nd_engine cfg | None \<Rightarrow> Postgres)"

fun multi_store_registry :: "sql_lib \<Rightarrow> bson_lib \<Rightarrow> ('h \<Rightarrow> 'db sea_server) \<Rightarrow> 'h connections \<Rightarrow>
    (string \<times> 'db mongo_db) list \<Rightarrow> (string \<times> named_database_config) list \<Rightarrow> resource_definition list \<Rightarrow>
    (string \<times> 'db store) list \<Rightarrow> 'db \<Rightarrow> 'db \<times> (string \<times> 'db store) list res" where
  "multi_store_registry lib bl server conns mongos dbs [] stores db = (db, Inr stores)"
| "multi_store_registry lib bl server conns mongos dbs (rd # rds) stores db =
     (let db_name = or_else (rd_db rd) ''default'';
          missing = (\<lambda>kind. Internal (''No '' @ kind @ '' connection for resource '' @ squote (rd_resource rd)
            @ '' (db: '' @ squote db_name @ '')''))
      in if resource_engine dbs rd = MongoDB then
           (case map_of mongos db_name of
              None \<Rightarrow> (db, Inl (missing ''MongoDB''))
            | Some drv \<Rightarrow> (case ensure_collection drv rd db of
                (db', Inl e) \<Rightarrow> (db', Inl e)
              | (db', Inr _) \<Rightarrow> multi_store_registry lib bl server conns mongos dbs rds
                  (AList.update (rd_resource rd) (mongo_store lib bl drv rd) stores) db'))
         else (case sql_for_resource conns (rd_db rd) of
             None \<Rightarrow> (db, Inl (missing ''SQL''))
           | Some conn \<Rightarrow> multi_store_registry lib bl server conns mongos dbs rds
               (AList.update (rd_resource rd) (orm_store lib server conn rd) stores) db))"

definition build_multi_store_registry :: "sql_lib \<Rightarrow> bson_lib \<Rightarrow> ('h \<Rightarrow> 'db sea_server) \<Rightarrow> 'h connections \<Rightarrow>
    (string \<times> 'db mongo_db) list \<Rightarrow> (string \<times> named_database_config) list \<Rightarrow> resource_definition list \<Rightarrow>
    'db \<Rightarrow> 'db \<times> (string \<times> 'db store) list res" where
  "build_multi_store_registry lib bl server conns mongos dbs rds = multi_store_registry lib bl server conns mongos dbs rds []"

section \<open>What is used of the driver\<close>

text \<open>An equality condition with a text or null (the semantics MongoDB documents): the field equals the
  value or is an array that contains it, and null also matches a missing field. A key with a dot or a
  leading dollar sign means something else.\<close>

definition plain_key :: "string \<Rightarrow> bool" where
  "plain_key k \<longleftrightarrow> k \<noteq> [] \<and> CHR ''.'' \<notin> set k \<and> hd k \<noteq> CHR ''$''"

fun textual :: "bson \<Rightarrow> bool" where
  "textual BNull = True"
| "textual (BString s) = True"
| "textual _ = False"

fun equals_or_contains :: "bson \<Rightarrow> bson option \<Rightarrow> bool" where
  "equals_or_contains q None \<longleftrightarrow> q = BNull"
| "equals_or_contains q (Some (BArray vs)) \<longleftrightarrow> q \<in> set vs"
| "equals_or_contains q (Some v) \<longleftrightarrow> v = q"

definition satisfies :: "bdoc \<Rightarrow> bdoc \<Rightarrow> bool" where
  "satisfies cond d \<longleftrightarrow> (\<forall>(k, q) \<in> set cond. equals_or_contains q (map_of d k))"

definition finds_matching :: "'db mongo_db \<Rightarrow> bool" where
  "finds_matching drv \<longleftrightarrow> (\<forall>coll cond opts db items d k q.
     mg_find drv coll cond opts db = Inr items \<and> Fetched d \<in> set items \<and> (k, q) \<in> set cond
       \<and> plain_key k \<and> textual q
     \<longrightarrow> equals_or_contains q (map_of d k))"

text \<open>The conversions of the \<open>bson\<close> crate keep texts and turn a document into an object.\<close>

definition faithful_bson :: "bson_lib \<Rightarrow> bool" where
  "faithful_bson bl \<longleftrightarrow> (\<forall>t. bs_to_bson bl (JStr t) = Some (BString t))
     \<and> (\<forall>d v. bs_from_document bl d = Some v \<longrightarrow> as_object v \<noteq> None)"

fun update_first :: "('a \<Rightarrow> bool) \<Rightarrow> ('a \<Rightarrow> 'a) \<Rightarrow> 'a list \<Rightarrow> 'a list" where
  "update_first P f [] = []"
| "update_first P f (x # xs) = (if P x then f x # xs else x # update_first P f xs)"

fun remove_first :: "('a \<Rightarrow> bool) \<Rightarrow> 'a list \<Rightarrow> 'a list" where
  "remove_first P [] = []"
| "remove_first P (x # xs) = (if P x then xs else x # remove_first P xs)"

definition apply_set :: "bdoc \<Rightarrow> bdoc \<Rightarrow> bdoc" where
  "apply_set set_doc d = fold (\<lambda>(k, v). AList.update k v) set_doc d"

text \<open>A reachable server whose collection holds the documents \<open>docs db\<close>: lookups and changes concern the
  first matching document, a new document gets an \<open>_id\<close>, and a rejected write changes nothing.\<close>

definition text_conditions :: "bdoc \<Rightarrow> bool" where
  "text_conditions cond \<longleftrightarrow> list_all (\<lambda>(k, q). plain_key k \<and> textual q) cond"

definition finds_first :: "'db mongo_db \<Rightarrow> string \<Rightarrow> ('db \<Rightarrow> bdoc list) \<Rightarrow> bool" where
  "finds_first drv coll docs \<longleftrightarrow> (\<forall>cond db. text_conditions cond
     \<longrightarrow> mg_find_one drv coll cond db = Inr (find (satisfies cond) (docs db)))"

definition updates_first :: "'db mongo_db \<Rightarrow> string \<Rightarrow> ('db \<Rightarrow> bdoc list) \<Rightarrow> bool" where
  "updates_first drv coll docs \<longleftrightarrow> (\<forall>cond set_doc db db' r.
     text_conditions cond \<and> list_all (plain_key \<circ> fst) set_doc
       \<and> mg_update_one drv coll cond [(''$set'', BDocument set_doc)] db = (db', r)
     \<longrightarrow> (case r of Inl e \<Rightarrow> docs db' = docs db
       | Inr n \<Rightarrow> docs db' = update_first (satisfies cond) (apply_set set_doc) (docs db)
           \<and> n = (if find (satisfies cond) (docs db) = None then 0 else 1)))"

definition deletes_first :: "'db mongo_db \<Rightarrow> string \<Rightarrow> ('db \<Rightarrow> bdoc list) \<Rightarrow> bool" where
  "deletes_first drv coll docs \<longleftrightarrow> (\<forall>cond db db' r.
     text_conditions cond \<and> mg_delete_one drv coll cond db = (db', r)
     \<longrightarrow> (case r of Inl e \<Rightarrow> docs db' = docs db | Inr n \<Rightarrow> docs db' = remove_first (satisfies cond) (docs db)))"

definition inserts_last :: "'db mongo_db \<Rightarrow> string \<Rightarrow> ('db \<Rightarrow> bdoc list) \<Rightarrow> bool" where
  "inserts_last drv coll docs \<longleftrightarrow> (\<forall>d db db' r.
     list_all (plain_key \<circ> fst) d \<and> \<not> has_key d ''_id'' \<and> mg_insert_one drv coll d db = (db', r)
     \<longrightarrow> (case r of Inl e \<Rightarrow> docs db' = docs db | Inr _ \<Rightarrow> \<exists>i. docs db' = docs db @ [(''_id'', i) # d]))"

definition serves_collection :: "'db mongo_db \<Rightarrow> string \<Rightarrow> ('db \<Rightarrow> bdoc list) \<Rightarrow> bool" where
  "serves_collection drv coll docs \<longleftrightarrow>
     finds_first drv coll docs \<and> updates_first drv coll docs \<and> deletes_first drv coll docs \<and> inserts_last drv coll docs"

section \<open>Lists honour the tenant filter\<close>

lemma drain_cursor_fetched: "drain_cursor items = Inr ds \<Longrightarrow> Fetched ` set ds \<subseteq> set items"
  by (induction items arbitrary: ds rule: drain_cursor.induct) (fastforce simp: result_simps)+

lemma mongo_filters_last:
  "map_of (mongo_filters lib bl rd (add_filter fs k t)) k
    = (case map_of (rd_schema rd) k of
         None \<Rightarrow> map_of (mongo_filters lib bl rd fs) k
       | Some f \<Rightarrow> Some (json_to_bson lib bl (JStr t) f))"
  by (simp add: mongo_filters_def add_filter_def update_Some_unfold update_conv' split: option.split)

lemma mongo_documents_match:
  assumes "mongo_documents drv rd cond opts db = Inr ds" and "d \<in> set ds" and "map_of cond k = Some q"
    and "finds_matching drv" and "plain_key k" and "textual q"
  shows "equals_or_contains q (map_of d k)"
proof -
  obtain items where "mg_find drv (rd_resource rd) cond opts db = Inr items" "drain_cursor items = Inr ds"
    using assms(1) by (auto simp: mongo_documents_def mongo_err_def result_simps split: sum.splits)
  then show ?thesis
    using assms(2-) drain_cursor_fetched map_of_SomeD unfolding finds_matching_def by fastforce
qed

lemma mongo_rows_from:
  assumes "mongo_find_all lib bl drv rd fs srt page db = Inr (rows, meta)" and "k \<noteq> primary_key rd"
  obtains cond opts ds where "mongo_documents drv rd cond opts db = Inr ds"
    "map_of cond k = map_of (mongo_filters lib bl rd fs) k" "set rows \<subseteq> doc_to_json bl rd ` set ds"
proof (cases page)
  case (Cursor after limit)
  then show ?thesis
    using assms that by (fastforce simp: mongo_find_all_def Let_def result_simps update_conv' dest: in_set_takeD
        split: option.splits)
next
  case (Offset off limit)
  then show ?thesis using assms that by (fastforce simp: mongo_find_all_def Let_def result_simps)
qed

lemma doc_to_json_member:
  "json_get (doc_to_json bl rd d) k = (case map_of (filter (\<lambda>(n, f). \<not> fs_transient f) (rd_schema rd)) k of
     None \<Rightarrow> None | Some f \<Rightarrow> Some (bson_to_json bl (or_else (map_of d k) BNull)))"
proof -
  have "map_of (map (\<lambda>(n, f). (n, bson_to_json bl (or_else (map_of d n) BNull))) sch) k
    = map_option (\<lambda>f. bson_to_json bl (or_else (map_of d k) BNull)) (map_of sch k)" for sch :: "(string \<times> field_schema) list"
    by (induction sch) auto
  then show ?thesis by (simp add: doc_to_json_def json_get_def split: option.split)
qed

lemma shown_text:
  assumes "equals_or_contains q v" and "textual q" and "faithful_bson bl"
    and "as_str (bson_to_json bl (or_else v BNull)) = Some s"
  shows "q = BString s"
proof (cases v)
  case None
  with assms show ?thesis by (simp add: or_else_def)
next
  case (Some b)
  show ?thesis
  proof (cases b)
    case (BDocument d)
    then show ?thesis
      using assms Some by (cases "bs_from_document bl d") (auto simp: or_else_def)
  next
    case (BDouble x)
    then show ?thesis using assms Some by (cases x) (auto simp: or_else_def)
  qed (use assms Some in \<open>auto simp: or_else_def jint_def\<close>)
qed

text \<open>C5. The MongoDB store honours the tenant filter that list handlers append, whatever other filters the
  client sent, in both page modes and behind any cursor: on a driver whose finds match their text
  conditions, no row of the answer shows another tenant. This is the law the isolation of lists
  through the cache rests on, for every tenant key that is a text column other than the primary key.\<close>

theorem mongo_store_tenant_filtering:
  assumes "store_for app rd = Some (mongo_store lib bl drv rd)"
    and "finds_matching drv" and "faithful_bson bl" and "plain_key k" and "k \<noteq> primary_key rd"
    and "wf_map (rd_schema rd)" and "\<forall>f. map_of (rd_schema rd) k = Some f \<longrightarrow> column_kind (fs_type f) = KString"
  shows "tenant_filtering app rd k tenants"
  unfolding tenant_filtering_def
proof (intro allI impI)
  fix s ep fs search srt page db rows meta t
  assume a: "store_for_or_error app rd = Inr s
     \<and> st_find_all (store_or_query app rd s) ep (add_filter fs k t) search srt page db = Inr (rows, meta) \<and> t \<in> tenants"
  then have "s = Some (mongo_store lib bl drv rd)" using assms(1) by (simp add: store_for_or_error_def)
  with a have "mongo_find_all lib bl drv rd (add_filter fs k t) srt page db = Inr (rows, meta)"
    by (simp add: store_or_query_def mongo_store_def)
  then obtain cond opts ds where ds: "mongo_documents drv rd cond opts db = Inr ds"
    and cond: "map_of cond k = map_of (mongo_filters lib bl rd (add_filter fs k t)) k"
    and rows: "set rows \<subseteq> doc_to_json bl rd ` set ds"
    using assms(5) by (rule mongo_rows_from)
  show "shows_only k t rows"
    unfolding shows_only_def
  proof (intro ballI allI impI)
    fix row u assume "row \<in> set rows" and u: "json_get_str row k = Some u"
    then obtain d where d: "d \<in> set ds" and row: "row = doc_to_json bl rd d" using rows by blast
    from u row obtain f where "map_of (filter (\<lambda>(n, f). \<not> fs_transient f) (rd_schema rd)) k = Some f"
      and shown: "as_str (bson_to_json bl (or_else (map_of d k) BNull)) = Some u"
      by (auto simp: json_get_str_def doc_to_json_member split: option.splits)
    then have f: "map_of (rd_schema rd) k = Some f"
      using assms(6) by (auto simp: wf_map_def dest: map_of_SomeD)
    have q: "json_to_bson lib bl (JStr t) f = BString t"
      using assms(7) f by (cases "fs_type f") (auto simp: json_to_bson_def or_else_def)
    have "equals_or_contains (BString t) (map_of d k)"
      using mongo_documents_match [OF ds d _ assms(2,4)] cond f q by (simp add: mongo_filters_last)
    from shown_text [OF this _ assms(3) shown] show "u = t" by simp
  qed
qed

text \<open>A server over one list of documents, and a tenant resource served from it.\<close>

definition toy_satisfies :: "bdoc \<Rightarrow> bdoc \<Rightarrow> bool" where
  "toy_satisfies cond d \<longleftrightarrow> list_all (\<lambda>(k, q). \<not> textual q \<or> equals_or_contains q (map_of d k)) cond"

definition toy_mongo :: "bdoc list mongo_db" where
  "toy_mongo =
     \<lparr>mg_run_command = (\<lambda>cmd db. (db, Inr ())),
      mg_find_one = (\<lambda>coll cond db. Inr (find (satisfies cond) db)),
      mg_find = (\<lambda>coll cond opts db. Inr (map Fetched (filter (toy_satisfies cond) db))),
      mg_insert_one = (\<lambda>coll d db. (db @ [(''_id'', BInt32 0) # d], Inr ())),
      mg_update_one = (\<lambda>coll cond upd db. (case upd of
          [(op, BDocument set_doc)] \<Rightarrow> (update_first (satisfies cond) (apply_set set_doc) db,
            Inr (if find (satisfies cond) db = None then 0 else 1))
        | _ \<Rightarrow> (db, Inl ''unsupported''))),
      mg_delete_one = (\<lambda>coll cond db. (remove_first (satisfies cond) db, Inr 1))\<rparr>"

definition toy_bson :: bson_lib where
  "toy_bson = \<lparr>bs_to_bson = (\<lambda>v. map_option BString (as_str v)), bs_from_document = (\<lambda>d. Some (JObj []))\<rparr>"

definition mongo_notes :: resource_definition where
  "mongo_notes = sample_resource\<lparr>rd_tenant_key := Some ''org'',
     rd_schema := [(''id'', (plain_field FtUuid)\<lparr>fs_primary := True, fs_generated := True\<rparr>),
       (''org'', plain_field FtUuid), (''text'', plain_field FtString)]\<rparr>"

definition mongo_app :: "(bdoc list) app" where
  "mongo_app = \<lparr>ap_lib = ap_lib bare_app, ap_jwt_lib = ap_jwt_lib bare_app, ap_now = 0, ap_resources = [mongo_notes],
     ap_stores = Some [(rd_resource mongo_notes, mongo_store toy_sql_lib toy_bson toy_mongo mongo_notes)],
     ap_query = (\<lambda>rd. mongo_store toy_sql_lib toy_bson toy_mongo rd), ap_columns = (\<lambda>db table column. Inr []),
     ap_controllers = None, ap_wasm = None, ap_cache = None, ap_cache_up = False, ap_limiter = False,
     ap_limiter_fault = None, ap_score_text = show_int, ap_emitter = None, ap_job_queue = False,
     ap_emit_env = ap_emit_env bare_app, ap_event = ap_event bare_app, ap_metrics = False,
     ap_storage = ap_storage bare_app, ap_unicode = ap_unicode bare_app, ap_file_id = ap_file_id bare_app\<rparr>"

theorem mongo_store_tenant_filtering_witness:
  "tenant_filtering mongo_app mongo_notes ''org'' {''t1'', ''t2''}
    \<and> snd (mongo_insert toy_sql_lib toy_bson toy_mongo mongo_notes [(''org'', JStr ''t1'')] [])
        = Inr (JObj [(''id'', JStr ''7''), (''org'', JStr ''t1''), (''text'', JNull)])"
proof
  have "finds_matching toy_mongo"
    by (auto simp: finds_matching_def toy_mongo_def toy_satisfies_def list_all_iff)
  moreover have "faithful_bson toy_bson" by (simp add: faithful_bson_def toy_bson_def)
  ultimately show "tenant_filtering mongo_app mongo_notes ''org'' {''t1'', ''t2''}"
    by (intro mongo_store_tenant_filtering [where lib = toy_sql_lib and bl = toy_bson and drv = toy_mongo])
      (auto simp: store_for_def mongo_app_def mongo_notes_def plain_key_def primary_key_def wf_map_def plain_field_def)
  show "snd (mongo_insert toy_sql_lib toy_bson toy_mongo mongo_notes [(''org'', JStr ''t1'')] [])
        = Inr (JObj [(''id'', JStr ''7''), (''org'', JStr ''t1''), (''text'', JNull)])"
    by code_simp
qed

section \<open>The collection as a map of records\<close>

definition key_is :: "resource_definition \<Rightarrow> string \<Rightarrow> bdoc \<Rightarrow> bool" where
  "key_is rd t d \<longleftrightarrow> map_of d (primary_key rd) = Some (BString t)"

definition live :: "resource_definition \<Rightarrow> bdoc \<Rightarrow> bool" where
  "live rd d \<longleftrightarrow> (has_soft_delete rd \<longrightarrow> equals_or_contains BNull (map_of d ''deleted_at''))"

definition record_of :: "resource_definition \<Rightarrow> bdoc list \<Rightarrow> string \<Rightarrow> bdoc option" where
  "record_of rd ds t = find (\<lambda>d. key_is rd t d \<and> live rd d) ds"

text \<open>Every document has a textual key of its own.\<close>

definition keyed :: "resource_definition \<Rightarrow> bdoc list \<Rightarrow> bool" where
  "keyed rd ds \<longleftrightarrow> (\<forall>d \<in> set ds. \<exists>t. key_is rd t d) \<and> distinct (map (\<lambda>d. map_of d (primary_key rd)) ds)"

text \<open>The names the documents use: no dots or dollar signs, one primary key with a name of its own.\<close>

definition mongo_names :: "resource_definition \<Rightarrow> bool" where
  "mongo_names rd \<longleftrightarrow> list_all (\<lambda>(n, f). plain_key n \<and> (fs_primary f \<longrightarrow> n = primary_key rd)) (rd_schema rd)
     \<and> wf_map (rd_schema rd) \<and> (\<exists>f. map_of (rd_schema rd) (primary_key rd) = Some f \<and> fs_primary f)
     \<and> primary_key rd \<notin> {''deleted_at'', ''updated_at'', ''_id''} \<and> \<not> has_key (rd_schema rd) ''_id''"

text \<open>What an operation does to the map of records: nothing when the key is absent or the write is
  refused; else it answers the row of a document and gives the key its new document.\<close>

definition changes_record ::
    "(string \<Rightarrow> bdoc option) \<Rightarrow> string \<Rightarrow> (bdoc \<Rightarrow> json) \<Rightarrow> (bdoc \<Rightarrow> bdoc option) \<Rightarrow> (string \<Rightarrow> bdoc option) \<Rightarrow> json res \<Rightarrow> bool" where
  "changes_record R t answer new R' r \<longleftrightarrow> (case R t of
     None \<Rightarrow> \<not> is_ok r \<and> R' = R
   | Some d \<Rightarrow> if is_ok r then r = Inr (answer d) \<and> R' = R(t := new d) else R' = R)"

lemma keyed_same: "keyed rd ds \<Longrightarrow> key_is rd s d \<Longrightarrow> key_is rd t d \<Longrightarrow> s = t"
  by (simp add: key_is_def)

lemma keyed_Cons [simp]:
  "keyed rd (d # ds) \<longleftrightarrow> (\<exists>t. key_is rd t d \<and> (\<forall>x \<in> set ds. \<not> key_is rd t x)) \<and> keyed rd ds"
  by (auto simp: keyed_def key_is_def image_iff eq_commute)

lemma record_of_Cons [simp]:
  "record_of rd (d # ds) t = (if key_is rd t d \<and> live rd d then Some d else record_of rd ds t)"
  by (simp add: record_of_def)

lemma record_of_absent: "\<forall>x \<in> set ds. \<not> key_is rd t x \<Longrightarrow> record_of rd ds t = None"
  by (auto simp: record_of_def find_None_iff)

lemma key_is_unique: "key_is rd t d \<Longrightarrow> key_is rd s d \<longleftrightarrow> s = t"
  by (auto simp: key_is_def)

lemma update_first_cong: "(\<And>d. d \<in> set ds \<Longrightarrow> P d = Q d) \<Longrightarrow> update_first P f ds = update_first Q f ds"
  by (induction ds) auto

lemma remove_first_cong: "(\<And>d. d \<in> set ds \<Longrightarrow> P d = Q d) \<Longrightarrow> remove_first P ds = remove_first Q ds"
  by (induction ds) auto

lemma update_first_same: "find P ds = None \<Longrightarrow> update_first P f ds = ds"
  by (induction ds) (auto split: if_splits)

lemma update_first_keys:
  assumes "\<And>d s. key_is rd s (f d) = key_is rd s d"
  shows "(\<forall>x \<in> set (update_first P f ds). \<not> key_is rd s x) = (\<forall>x \<in> set ds. \<not> key_is rd s x)"
    "keyed rd (update_first P f ds) = keyed rd ds"
proof -
  show k: "(\<forall>x \<in> set (update_first P f ds). \<not> key_is rd s x) = (\<forall>x \<in> set ds. \<not> key_is rd s x)" for s ds
    by (induction ds) (auto simp: assms)
  show "keyed rd (update_first P f ds) = keyed rd ds"
    by (induction ds) (simp_all add: k assms)
qed

lemma update_first_record:
  assumes "keyed rd ds" and "\<And>d s. key_is rd s (f d) = key_is rd s d" and "record_of rd ds t = Some d"
  shows "record_of rd (update_first (\<lambda>d. key_is rd t d \<and> live rd d) f ds)
    = (record_of rd ds)(t := if live rd (f d) then Some (f d) else None)"
  using assms(1,3)
proof (induction ds)
  case (Cons a ds)
  show ?case
  proof (cases "key_is rd t a \<and> live rd a")
    case True
    then have key: "key_is rd s a \<longleftrightarrow> s = t" for s using key_is_unique by blast
    with True have "record_of rd ds t = None" using Cons.prems(1) by (auto intro: record_of_absent)
    with True Cons.prems key show ?thesis by (auto simp: fun_eq_iff assms(2))
  next
    case False
    obtain s where "key_is rd s a" using Cons.prems(1) by auto
    then have key: "key_is rd u a \<longleftrightarrow> u = s" for u using key_is_unique by blast
    from False Cons.prems have "record_of rd ds t = Some d" by (simp split: if_splits)
    with Cons.IH Cons.prems(1) have "record_of rd (update_first (\<lambda>d. key_is rd t d \<and> live rd d) f ds)
      = (record_of rd ds)(t := if live rd (f d) then Some (f d) else None)" by (simp add: fun_eq_iff)
    with False show ?thesis by (auto simp: fun_eq_iff key)
  qed
qed (simp add: record_of_def)

lemma remove_first_record:
  assumes "keyed rd ds" and "record_of rd ds t \<noteq> None"
  shows "record_of rd (remove_first (key_is rd t) ds) = (record_of rd ds)(t := None) \<and> keyed rd (remove_first (key_is rd t) ds)"
  using assms
proof (induction ds)
  case (Cons a ds)
  have sub: "set (remove_first P ds) \<subseteq> set ds" for P :: "bdoc \<Rightarrow> bool" by (induction ds) auto
  show ?case
  proof (cases "key_is rd t a")
    case True
    then have key: "key_is rd s a \<longleftrightarrow> s = t" for s using key_is_unique by blast
    with True have "record_of rd ds t = None" using Cons.prems(1) by (auto intro: record_of_absent)
    with True Cons.prems show ?thesis by (simp add: fun_eq_iff key)
  next
    case False
    obtain s where "key_is rd s a" and others: "\<forall>x \<in> set ds. \<not> key_is rd s x" using Cons.prems(1) by auto
    then have key: "key_is rd u a \<longleftrightarrow> u = s" for u using key_is_unique by blast
    from False Cons.prems(2) have "record_of rd ds t \<noteq> None" by (simp split: if_splits)
    with Cons.IH Cons.prems(1) have ih: "record_of rd (remove_first (key_is rd t) ds) = (record_of rd ds)(t := None)"
      "keyed rd (remove_first (key_is rd t) ds)" by (simp_all add: fun_eq_iff)
    have "\<forall>x \<in> set (remove_first (key_is rd t) ds). \<not> key_is rd s x" using sub others by blast
    with False ih show ?thesis by (simp add: fun_eq_iff key)
  qed
qed (simp add: record_of_def)

text \<open>The filters of the store on keyed documents, and what the updates write.\<close>

abbreviation id_of :: "sql_lib \<Rightarrow> uuid \<Rightarrow> string" where
  "id_of lib \<equiv> show_uuid (sl_values lib)"

lemma mongo_names_key:
  assumes "mongo_names rd"
  shows "plain_key (primary_key rd)" "primary_key rd \<noteq> ''deleted_at''" "primary_key rd \<noteq> ''updated_at''" "primary_key rd \<noteq> ''_id''"
  using assms by (auto simp: mongo_names_def list_all_iff dest!: map_of_SomeD)

lemma mongo_names_fields: "mongo_names rd \<Longrightarrow> has_key (rd_schema rd) n \<Longrightarrow> plain_key n"
  by (auto simp: mongo_names_def list_all_iff dest!: map_of_SomeD)

lemma live_filter_eq:
  "mongo_names rd \<Longrightarrow> live_filter lib rd i = not_deleted_filter rd @ [(primary_key rd, id_text lib i)]"
  using mongo_names_key by (fastforce simp: live_filter_def not_deleted_filter_def)

lemma filters_plain:
  assumes "mongo_names rd"
  shows "text_conditions (live_filter lib rd i)" "text_conditions [(primary_key rd, id_text lib i)]"
proof -
  have "plain_key ''deleted_at''" by (simp add: plain_key_def)
  then show "text_conditions (live_filter lib rd i)" "text_conditions [(primary_key rd, id_text lib i)]"
    using mongo_names_key(1) [OF assms]
    by (simp_all add: text_conditions_def live_filter_eq [OF assms] not_deleted_filter_def id_text_def)
qed

lemma satisfies_key: "key_is rd t d \<Longrightarrow> satisfies [(primary_key rd, id_text lib i)] d \<longleftrightarrow> key_is rd (id_of lib i) d"
  by (auto simp: satisfies_def key_is_def id_text_def)

lemma satisfies_live:
  "mongo_names rd \<Longrightarrow> key_is rd t d \<Longrightarrow> satisfies (live_filter lib rd i) d \<longleftrightarrow> key_is rd (id_of lib i) d \<and> live rd d"
  using satisfies_key [of rd t d lib i]
  by (auto simp: live_filter_eq satisfies_def not_deleted_filter_def live_def)

lemma find_live:
  "mongo_names rd \<Longrightarrow> keyed rd ds \<Longrightarrow> find (satisfies (live_filter lib rd i)) ds = record_of rd ds (id_of lib i)"
  unfolding record_of_def by (rule find_cong) (auto simp: keyed_def satisfies_live)

lemma find_key:
  "keyed rd ds \<Longrightarrow> find (satisfies [(primary_key rd, id_text lib i)]) ds = find (key_is rd (id_of lib i)) ds"
  by (rule find_cong) (auto simp: keyed_def satisfies_key)

lemma apply_set_other: "\<not> has_key set_doc k \<Longrightarrow> map_of (apply_set set_doc d) k = map_of d k"
  unfolding apply_set_def by (induction set_doc arbitrary: d) (auto simp: update_conv' split: if_splits)

lemma key_is_apply_set: "\<not> has_key set_doc (primary_key rd) \<Longrightarrow> key_is rd t (apply_set set_doc d) = key_is rd t d"
  by (simp add: key_is_def apply_set_other)

lemma mongo_set_doc_keys:
  assumes "mongo_names rd"
  shows "list_all (plain_key \<circ> fst) (mongo_set_doc lib bl rd data)" "\<not> has_key (mongo_set_doc lib bl rd data) (primary_key rd)"
proof -
  let ?step = "\<lambda>(name, v) d. case map_of (rd_schema rd) name of
          None \<Rightarrow> d
        | Some f \<Rightarrow> if fs_primary f \<or> fs_generated f then d else AList.update name (json_to_bson lib bl v f) d"
  obtain f where f: "map_of (rd_schema rd) (primary_key rd) = Some f" "fs_primary f"
    using assms by (auto simp: mongo_names_def)
  have "dom (map_of (fold ?step data d)) \<subseteq> dom (map_of d) \<union> {n. has_key (rd_schema rd) n \<and> n \<noteq> primary_key rd}" for d
  proof (induction data arbitrary: d)
    case (Cons nv data)
    have "dom (map_of (?step nv d)) \<subseteq> dom (map_of d) \<union> {n. has_key (rd_schema rd) n \<and> n \<noteq> primary_key rd}"
      using f by (cases nv) (auto simp: update_conv' split: option.splits if_splits)
    with Cons.IH [of "?step nv d"] show ?case by auto
  qed simp
  from this [of "[]"] have "dom (map_of (mongo_set_doc lib bl rd data)) \<subseteq> {n. has_key (rd_schema rd) n \<and> n \<noteq> primary_key rd}"
    using mongo_names_key(3) [OF assms] by (auto simp: mongo_set_doc_def Let_def update_conv' split: if_splits)
  then show "list_all (plain_key \<circ> fst) (mongo_set_doc lib bl rd data)" "\<not> has_key (mongo_set_doc lib bl rd data) (primary_key rd)"
    using mongo_names_fields [OF assms] by (auto simp: dom_map_of_conv_image_fst map_of_eq_None_iff list_all_iff)
qed

lemma find_key_updated:
  assumes "keyed rd ds" and "\<And>d s. key_is rd s (f d) = key_is rd s d" and "record_of rd ds t = Some d"
  shows "find (key_is rd t) (update_first (\<lambda>d. key_is rd t d \<and> live rd d) f ds) = Some (f d)"
  using assms(1,3)
proof (induction ds)
  case (Cons a ds)
  show ?case
  proof (cases "key_is rd t a")
    case True
    with Cons.prems(1) have "\<forall>x \<in> set ds. \<not> key_is rd t x" using key_is_unique by (metis keyed_Cons)
    then have "record_of rd ds t = None" by (rule record_of_absent)
    with True Cons.prems show ?thesis by (auto simp: assms(2) split: if_splits)
  next
    case False
    with Cons show ?thesis by simp
  qed
qed (simp add: record_of_def)

lemma served_update:
  assumes "serves_collection drv (rd_resource rd) docs" and "keyed rd (docs db)" and "mongo_names rd"
    and "list_all (plain_key \<circ> fst) set_doc" and "\<not> has_key set_doc (primary_key rd)"
    and "mg_update_one drv (rd_resource rd) (live_filter lib rd i) [(''$set'', BDocument set_doc)] db = (db', r)"
  shows "case r of Inl e \<Rightarrow> docs db' = docs db
    | Inr n \<Rightarrow> docs db' = update_first (\<lambda>d. key_is rd (id_of lib i) d \<and> live rd d) (apply_set set_doc) (docs db)
        \<and> n = (if record_of rd (docs db) (id_of lib i) = None then 0 else 1)"
    and "keyed rd (docs db')"
proof -
  have eq: "update_first (satisfies (live_filter lib rd i)) (apply_set set_doc) (docs db)
    = update_first (\<lambda>d. key_is rd (id_of lib i) d \<and> live rd d) (apply_set set_doc) (docs db)"
    using assms(2,3) by (intro update_first_cong) (auto simp: keyed_def satisfies_live)
  have "updates_first drv (rd_resource rd) docs" using assms(1) by (simp add: serves_collection_def)
  from this [unfolded updates_first_def, rule_format, OF conjI [OF filters_plain(1) [OF assms(3)] conjI [OF assms(4,6)]]]
  show *: "case r of Inl e \<Rightarrow> docs db' = docs db
    | Inr n \<Rightarrow> docs db' = update_first (\<lambda>d. key_is rd (id_of lib i) d \<and> live rd d) (apply_set set_doc) (docs db)
        \<and> n = (if record_of rd (docs db) (id_of lib i) = None then 0 else 1)"
    by (simp only: eq find_live [OF assms(3,2)])
  have "keyed rd (update_first P (apply_set set_doc) (docs db))" for P
    using update_first_keys(2) key_is_apply_set [OF assms(5)] assms(2) by blast
  with * assms(2) show "keyed rd (docs db')" by (auto split: sum.splits)
qed

lemma served_find:
  assumes "serves_collection drv (rd_resource rd) docs" and "keyed rd (docs db)" and "mongo_names rd"
  shows "mg_find_one drv (rd_resource rd) (live_filter lib rd i) db = Inr (record_of rd (docs db) (id_of lib i))"
    "mg_find_one drv (rd_resource rd) [(primary_key rd, id_text lib i)] db = Inr (find (key_is rd (id_of lib i)) (docs db))"
  using assms(1) filters_plain [OF assms(3), of lib i] find_live [OF assms(3,2), of lib i] find_key [OF assms(2), of lib i]
  by (simp_all add: serves_collection_def finds_first_def)

lemma update_and_fetch_record:
  assumes "serves_collection drv (rd_resource rd) docs" and "keyed rd (docs db)" and "mongo_names rd"
    and "list_all (plain_key \<circ> fst) set_doc" and "\<not> has_key set_doc (primary_key rd)"
    and "update_and_fetch bl operation drv rd (live_filter lib rd i) set_doc fetch db = (db', r)"
    and "fetch = [(primary_key rd, id_text lib i)]
      \<or> fetch = live_filter lib rd i \<and> (\<forall>d. live rd d \<longrightarrow> live rd (apply_set set_doc d))"
  shows "changes_record (record_of rd (docs db)) (id_of lib i) (\<lambda>d. doc_to_json bl rd (apply_set set_doc d))
      (\<lambda>d. if live rd (apply_set set_doc d) then Some (apply_set set_doc d) else None) (record_of rd (docs db')) r
    \<and> keyed rd (docs db')"
proof -
  let ?t = "id_of lib i"
  obtain q where q: "mg_update_one drv (rd_resource rd) (live_filter lib rd i) [(''$set'', BDocument set_doc)] db = (db', q)"
    using assms(6) by (auto simp: update_and_fetch_def split: prod.splits)
  note up = served_update [OF assms(1-5) q]
  note key = key_is_apply_set [OF assms(5)]
  have live: "live rd d" if "record_of rd (docs db) ?t = Some d" for d
    using that by (auto simp: record_of_def find_Some_iff)
  show ?thesis
  proof (cases q)
    case (Inl e)
    then have "r = Inl (Internal (''MongoDB '' @ operation @ '' failed'' @ '': '' @ e))" "docs db' = docs db"
      using up(1) q assms(6) by (simp_all add: update_and_fetch_def mongo_err_def)
    then show ?thesis using assms(2) by (simp add: changes_record_def split: option.split)
  next
    case (Inr n)
    let ?ds = "update_first (\<lambda>d. key_is rd ?t d \<and> live rd d) (apply_set set_doc) (docs db)"
    have n: "n = (if record_of rd (docs db) ?t = None then 0 else 1)" and ds: "docs db' = ?ds" using up(1) Inr by simp_all
    have r: "r = (if n = 0 then Inl NotFound
        else and_then (mongo_err (''MongoDB find after '' @ operation @ '' failed'') (mg_find_one drv (rd_resource rd) fetch db'))
          (\<lambda>found. case found of None \<Rightarrow> Inl NotFound | Some d \<Rightarrow> Inr (doc_to_json bl rd d)))"
      using q Inr assms(6) by (simp add: update_and_fetch_def mongo_err_def)
    show ?thesis
    proof (cases "record_of rd (docs db) ?t")
      case None
      then have "?ds = docs db" by (intro update_first_same) (simp add: record_of_def)
      with None show ?thesis using r n ds up(2) by (simp add: changes_record_def)
    next
      case (Some d)
      note rec = update_first_record [OF assms(2) key Some] and found = find_key_updated [OF assms(2) key Some]
      note fetched = served_find [OF assms(1) up(2) assms(3), of lib i]
      have "mg_find_one drv (rd_resource rd) fetch db' = Inr (Some (apply_set set_doc d))"
        using assms(7)
      proof (elim disjE conjE)
        assume "fetch = [(primary_key rd, id_text lib i)]"
        then show ?thesis using fetched(2) ds found by simp
      next
        assume "fetch = live_filter lib rd i" and "\<forall>d. live rd d \<longrightarrow> live rd (apply_set set_doc d)"
        then show ?thesis using fetched(1) ds rec live [OF Some] by simp
      qed
      then have "r = Inr (doc_to_json bl rd (apply_set set_doc d))" using r n Some by (simp add: mongo_err_def)
      then show ?thesis using Some ds rec up(2) by (simp add: changes_record_def)
    qed
  qed
qed

lemma mongo_insert_step_cases:
  obtains (Same) "mongo_insert_step lib bl data (n, f) st = st"
  | (Put) v where "mi_doc (mongo_insert_step lib bl data (n, f) st) = AList.update n v (mi_doc st)"
      "mi_generated_id (mongo_insert_step lib bl data (n, f) st) = mi_generated_id st"
  | (Key) j where "mi_doc (mongo_insert_step lib bl data (n, f) st) = AList.update n (id_text lib j) (mi_doc st)"
      "mi_generated_id (mongo_insert_step lib bl data (n, f) st) = Some j" "fs_primary f"
proof -
  have "(\<exists>v. mi_doc (mongo_insert_step lib bl data (n, f) st) = AList.update n v (mi_doc st)
      \<and> mi_generated_id (mongo_insert_step lib bl data (n, f) st) = mi_generated_id st)
    \<or> mongo_insert_step lib bl data (n, f) st = st
    \<or> (\<exists>j. mi_doc (mongo_insert_step lib bl data (n, f) st) = AList.update n (id_text lib j) (mi_doc st)
      \<and> mi_generated_id (mongo_insert_step lib bl data (n, f) st) = Some j \<and> fs_primary f)"
  proof (cases "fs_transient f \<or> \<not> fs_generated f")
    case True
    then show ?thesis by (cases "map_of data n"; cases "fs_default f") (auto simp: mongo_insert_step_def)
  next
    case False
    then show ?thesis by (cases "fs_type f") (auto simp: mongo_insert_step_def Let_def)
  qed
  with that show thesis by blast
qed

lemma mongo_insert_step_doc:
  assumes "mongo_names rd" and "(n, f) \<in> set (rd_schema rd)"
  shows "has_key (mi_doc (mongo_insert_step lib bl data (n, f) st)) k \<Longrightarrow> has_key (mi_doc st) k \<or> k = n"
    and "n \<noteq> primary_key rd \<Longrightarrow> mi_generated_id (mongo_insert_step lib bl data (n, f) st) = mi_generated_id st
      \<and> map_of (mi_doc (mongo_insert_step lib bl data (n, f) st)) (primary_key rd) = map_of (mi_doc st) (primary_key rd)"
    and "mi_generated_id st = None \<Longrightarrow> mi_generated_id (mongo_insert_step lib bl data (n, f) st) = Some i \<Longrightarrow>
      n = primary_key rd \<and> map_of (mi_doc (mongo_insert_step lib bl data (n, f) st)) (primary_key rd) = Some (id_text lib i)"
proof -
  have p: "fs_primary f \<Longrightarrow> n = primary_key rd" using assms by (auto simp: mongo_names_def list_all_iff)
  show "has_key (mi_doc (mongo_insert_step lib bl data (n, f) st)) k \<Longrightarrow> has_key (mi_doc st) k \<or> k = n"
    by (cases rule: mongo_insert_step_cases [of lib bl data n f st]) (auto simp: update_conv' split: if_splits)
  show "n \<noteq> primary_key rd \<Longrightarrow> mi_generated_id (mongo_insert_step lib bl data (n, f) st) = mi_generated_id st
      \<and> map_of (mi_doc (mongo_insert_step lib bl data (n, f) st)) (primary_key rd) = map_of (mi_doc st) (primary_key rd)"
    using p by (cases rule: mongo_insert_step_cases [of lib bl data n f st]) (simp_all add: update_conv')
  show "mi_generated_id st = None \<Longrightarrow> mi_generated_id (mongo_insert_step lib bl data (n, f) st) = Some i \<Longrightarrow>
      n = primary_key rd \<and> map_of (mi_doc (mongo_insert_step lib bl data (n, f) st)) (primary_key rd) = Some (id_text lib i)"
    using p by (cases rule: mongo_insert_step_cases [of lib bl data n f st]) (simp_all add: update_conv')
qed

lemma mongo_insert_loop_doc:
  assumes "mongo_names rd"
  shows "\<forall>k. has_key (mi_doc (mongo_insert_loop lib bl rd data)) k \<longrightarrow> has_key (rd_schema rd) k"
    and "mi_generated_id (mongo_insert_loop lib bl rd data) = Some i
      \<Longrightarrow> map_of (mi_doc (mongo_insert_loop lib bl rd data)) (primary_key rd) = Some (id_text lib i)"
proof -
  note step = mongo_insert_step_doc [OF assms, where lib = lib and bl = bl and data = data]
  have "(\<forall>k. has_key (mi_doc (fold (mongo_insert_step lib bl data) sch st)) k \<longrightarrow> has_key (mi_doc st) k \<or> k \<in> fst ` set sch)
    \<and> (\<forall>i. mi_generated_id (fold (mongo_insert_step lib bl data) sch st) = Some i
        \<longrightarrow> map_of (mi_doc (fold (mongo_insert_step lib bl data) sch st)) (primary_key rd) = Some (id_text lib i))"
    if "set sch \<subseteq> set (rd_schema rd)" and "distinct (map fst sch)"
      and "\<forall>i. mi_generated_id st = Some i \<longrightarrow> map_of (mi_doc st) (primary_key rd) = Some (id_text lib i)"
      and "primary_key rd \<in> fst ` set sch \<longrightarrow> mi_generated_id st = None" for sch st
    using that
  proof (induction sch arbitrary: st)
    case (Cons nf sch)
    obtain n f where nf: "nf = (n, f)" by (cases nf)
    let ?st = "mongo_insert_step lib bl data nf st"
    have m: "(n, f) \<in> set (rd_schema rd)" using Cons.prems(1) nf by simp
    have gen: "\<forall>i. mi_generated_id ?st = Some i \<longrightarrow> map_of (mi_doc ?st) (primary_key rd) = Some (id_text lib i)"
    proof (cases "n = primary_key rd")
      case True
      then have "mi_generated_id st = None" using Cons.prems(4) nf by simp
      from step(3) [OF m this] show ?thesis unfolding nf by blast
    next
      case False
      from step(2) [OF m this, of st] Cons.prems(3) show ?thesis unfolding nf by simp
    qed
    have none: "primary_key rd \<in> fst ` set sch \<longrightarrow> mi_generated_id ?st = None"
    proof
      assume "primary_key rd \<in> fst ` set sch"
      then have "n \<noteq> primary_key rd" and "mi_generated_id st = None" using Cons.prems(2,4) nf by auto
      with step(2) [OF m, of st] show "mi_generated_id ?st = None" unfolding nf by simp
    qed
    have "set sch \<subseteq> set (rd_schema rd)" "distinct (map fst sch)" using Cons.prems(1,2) by auto
    note ih = Cons.IH [OF this gen none]
    have "fold (mongo_insert_step lib bl data) (nf # sch) st = fold (mongo_insert_step lib bl data) sch ?st" by simp
    moreover have "has_key (mi_doc ?st) k \<Longrightarrow> has_key (mi_doc st) k \<or> k = n" for k using step(1) [OF m] nf by blast
    moreover have "fst ` set (nf # sch) = insert n (fst ` set sch)" using nf by simp
    ultimately show ?case using ih by (simp only: ) blast
  qed simp
  note loop = this
  let ?st = "\<lparr>mi_doc = [], mi_generated_id = None, mi_fresh = 0\<rparr>"
  have "distinct (map fst (rd_schema rd))" using assms by (simp add: mongo_names_def wf_map_def)
  then have "(\<forall>k. has_key (mi_doc (mongo_insert_loop lib bl rd data)) k \<longrightarrow> has_key (mi_doc ?st) k \<or> k \<in> fst ` set (rd_schema rd))
    \<and> (\<forall>i. mi_generated_id (mongo_insert_loop lib bl rd data) = Some i
        \<longrightarrow> map_of (mi_doc (mongo_insert_loop lib bl rd data)) (primary_key rd) = Some (id_text lib i))"
    unfolding mongo_insert_loop_def by (intro loop) simp_all
  then show "\<forall>k. has_key (mi_doc (mongo_insert_loop lib bl rd data)) k \<longrightarrow> has_key (rd_schema rd) k"
    and "mi_generated_id (mongo_insert_loop lib bl rd data) = Some i
      \<Longrightarrow> map_of (mi_doc (mongo_insert_loop lib bl rd data)) (primary_key rd) = Some (id_text lib i)"
    by (simp_all add: map_of_eq_None_iff)
qed

lemma mongo_find_record:
  "serves_collection drv (rd_resource rd) docs \<Longrightarrow> keyed rd (docs db) \<Longrightarrow> mongo_names rd \<Longrightarrow>
    mongo_find_by_id lib bl drv rd i db = (case record_of rd (docs db) (id_of lib i) of
      Some d \<Rightarrow> Inr (doc_to_json bl rd d) | None \<Rightarrow> Inl NotFound)"
  by (simp add: mongo_find_by_id_def served_find(1) mongo_err_def split: option.split)

lemma live_apply_set: "has_soft_delete rd \<longrightarrow> \<not> has_key set_doc ''deleted_at'' \<Longrightarrow> live rd (apply_set set_doc d) = live rd d"
  by (auto simp: live_def apply_set_other)

lemma record_of_live: "record_of rd ds t = Some d \<Longrightarrow> live rd d \<and> key_is rd t d"
  by (auto simp: record_of_def find_Some_iff)

lemma mongo_update_record:
  assumes "serves_collection drv (rd_resource rd) docs" and "keyed rd (docs db)" and "mongo_names rd"
    and "has_soft_delete rd \<longrightarrow> \<not> has_key (mongo_set_doc lib bl rd data) ''deleted_at''"
    and "mongo_update_by_id lib bl drv rd i data db = (db', r)"
  shows "changes_record (record_of rd (docs db)) (id_of lib i) (\<lambda>d. doc_to_json bl rd (apply_set (mongo_set_doc lib bl rd data) d))
      (\<lambda>d. Some (apply_set (mongo_set_doc lib bl rd data) d)) (record_of rd (docs db')) r \<and> keyed rd (docs db')"
proof (cases "mongo_set_doc lib bl rd data = []")
  case True
  then show ?thesis
    using assms(2,5) by (auto simp: mongo_update_by_id_def changes_record_def split: option.split)
next
  case False
  then have "update_and_fetch bl ''update'' drv rd (live_filter lib rd i) (mongo_set_doc lib bl rd data) (live_filter lib rd i) db = (db', r)"
    using assms(5) by (simp add: mongo_update_by_id_def Let_def)
  from update_and_fetch_record [OF assms(1-3) mongo_set_doc_keys [OF assms(3)] this] live_apply_set [OF assms(4)]
  show ?thesis by (auto simp: changes_record_def dest: record_of_live split: option.splits)
qed

lemma mongo_soft_delete_record:
  assumes "serves_collection drv (rd_resource rd) docs" and "keyed rd (docs db)" and "mongo_names rd" and "has_soft_delete rd"
    and "mongo_soft_delete_by_id lib bl drv rd i db = (db', r)"
  shows "changes_record (record_of rd (docs db)) (id_of lib i)
      (\<lambda>d. doc_to_json bl rd (apply_set [(''deleted_at'', BString (now_text lib))] d)) (\<lambda>d. None) (record_of rd (docs db')) r
    \<and> keyed rd (docs db')"
proof -
  let ?set = "[(''deleted_at'', BString (now_text lib))]"
  have "\<not> live rd (apply_set ?set d)" for d using assms(4) by (simp add: live_def apply_set_def update_conv')
  moreover have "list_all (plain_key \<circ> fst) ?set" "\<not> has_key ?set (primary_key rd)"
    using mongo_names_key(2) [OF assms(3)] by (simp_all add: plain_key_def)
  note update_and_fetch_record [OF assms(1-3) this assms(5) [unfolded mongo_soft_delete_by_id_def] disjI1 [OF refl]]
  ultimately show ?thesis by simp
qed

lemma mongo_hard_delete_record:
  assumes "serves_collection drv (rd_resource rd) docs" and "keyed rd (docs db)" and "mongo_names rd"
    and "mongo_hard_delete_by_id lib bl drv rd i db = (db', r)"
  shows "changes_record (record_of rd (docs db)) (id_of lib i) (doc_to_json bl rd) (\<lambda>d. None) (record_of rd (docs db')) r
    \<and> keyed rd (docs db')"
proof (cases "record_of rd (docs db) (id_of lib i)")
  case None
  then show ?thesis
  proof -
    have "mongo_find_by_id lib bl drv rd i db = Inl NotFound" using mongo_find_record [OF assms(1-3), of lib bl i] None by simp
    then have "r = Inl NotFound" "db' = db" using assms(4) by (simp_all add: mongo_hard_delete_by_id_def)
    then show ?thesis using None assms(2) by (simp add: changes_record_def)
  qed
next
  case (Some d)
  obtain q where q: "mg_delete_one drv (rd_resource rd) [(primary_key rd, id_text lib i)] db = (db', q)"
    and r: "r = and_then (mongo_err ''MongoDB hard_delete failed'' q) (\<lambda>_. Inr (doc_to_json bl rd d))"
    using assms(4) Some mongo_find_record [OF assms(1-3), of lib bl i]
    by (auto simp: mongo_hard_delete_by_id_def split: prod.splits)
  have eq: "remove_first (satisfies [(primary_key rd, id_text lib i)]) (docs db) = remove_first (key_is rd (id_of lib i)) (docs db)"
    using assms(2) by (intro remove_first_cong) (auto simp: keyed_def satisfies_key)
  have "deletes_first drv (rd_resource rd) docs" using assms(1) by (simp add: serves_collection_def)
  from this [unfolded deletes_first_def, rule_format, OF conjI [OF filters_plain(2) [OF assms(3)] q]]
  have "case q of Inl e \<Rightarrow> docs db' = docs db | Inr n \<Rightarrow> docs db' = remove_first (key_is rd (id_of lib i)) (docs db)"
    by (simp only: eq)
  then show ?thesis
    using remove_first_record [OF assms(2), of "id_of lib i"] Some r assms(2)
    by (cases q) (simp_all add: changes_record_def mongo_err_def)
qed

lemma record_of_append:
  "record_of rd (ds @ [d]) t = (case record_of rd ds t of Some x \<Rightarrow> Some x | None \<Rightarrow> if key_is rd t d \<and> live rd d then Some d else None)"
  by (induction ds) (auto simp: record_of_def)

lemma mongo_insert_record:
  assumes "serves_collection drv (rd_resource rd) docs" and "keyed rd (docs db)" and "mongo_names rd"
    and "mi_generated_id (mongo_insert_loop lib bl rd data) = Some i"
    and "\<forall>d \<in> set (docs db). \<not> key_is rd (id_of lib i) d"
    and "has_soft_delete rd \<longrightarrow> \<not> has_key (mi_doc (mongo_insert_loop lib bl rd data)) ''deleted_at''"
    and "mongo_insert lib bl drv rd data db = (db', r)"
  shows "(\<exists>v. if is_ok r then r = Inr (doc_to_json bl rd (mi_doc (mongo_insert_loop lib bl rd data)))
      \<and> record_of rd (docs db') = (record_of rd (docs db))(id_of lib i \<mapsto> (''_id'', v) # mi_doc (mongo_insert_loop lib bl rd data))
      else record_of rd (docs db') = record_of rd (docs db)) \<and> keyed rd (docs db')"
proof -
  let ?doc = "mi_doc (mongo_insert_loop lib bl rd data)"
  note loop = mongo_insert_loop_doc(1) [OF assms(3), of lib bl data] mongo_insert_loop_doc(2) [OF assms(3,4)]
  have "\<not> has_key (rd_schema rd) ''_id''" using assms(3) by (simp add: mongo_names_def)
  then have keys: "list_all (plain_key \<circ> fst) ?doc" "\<not> has_key ?doc ''_id''"
    using loop(1) mongo_names_fields [OF assms(3)] by (auto simp: list_all_iff weak_map_of_SomeI)
  obtain q where q: "mg_insert_one drv (rd_resource rd) ?doc db = (db', q)"
    and r: "r = and_then (mongo_err ''MongoDB insert failed'' q) (\<lambda>_. and_then (mongo_err ''MongoDB find after insert failed''
              (mg_find_one drv (rd_resource rd) [(primary_key rd, id_text lib i)] db')) (\<lambda>found.
                Inr (doc_to_json bl rd (or_else found ?doc))))"
    using assms(4,7) by (auto simp: mongo_insert_def Let_def split: prod.splits)
  have "inserts_last drv (rd_resource rd) docs" using assms(1) by (simp add: serves_collection_def)
  from this [unfolded inserts_last_def, rule_format, OF conjI [OF keys(1) conjI [OF keys(2) q]]]
  have docs: "case q of Inl e \<Rightarrow> docs db' = docs db | Inr u \<Rightarrow> \<exists>v. docs db' = docs db @ [(''_id'', v) # ?doc]" .
  show ?thesis
  proof (cases q)
    case (Inl e)
    then show ?thesis using docs r assms(2) by (simp add: mongo_err_def)
  next
    case (Inr u)
    then obtain v where v: "docs db' = docs db @ [(''_id'', v) # ?doc]" using docs by auto
    let ?new = "(''_id'', v) # ?doc"
    have key: "key_is rd (id_of lib i) ?new"
      using loop(2) mongo_names_key(4) [OF assms(3)] by (simp add: key_is_def id_text_def)
    have alive: "live rd ?new" using assms(6) by (simp add: live_def)
    have "keyed rd (docs db')"
      using assms(2,5) key unfolding v by (auto simp: keyed_def key_is_def)
    then have "mg_find_one drv (rd_resource rd) [(primary_key rd, id_text lib i)] db' = Inr (find (key_is rd (id_of lib i)) (docs db'))"
      by (rule served_find(2) [OF assms(1) _ assms(3)])
    moreover have "find (key_is rd (id_of lib i)) (ds @ [?new]) = Some ?new" if "\<forall>d \<in> set ds. \<not> key_is rd (id_of lib i) d" for ds
      using that key by (induction ds) auto
    moreover have "doc_to_json bl rd ?new = doc_to_json bl rd ?doc"
      using \<open>\<not> has_key (rd_schema rd) ''_id''\<close> by (auto simp: doc_to_json_def weak_map_of_SomeI map_of_eq_None_iff image_iff)
    ultimately have "r = Inr (doc_to_json bl rd ?doc)" using r Inr v assms(5) by (simp add: mongo_err_def or_else_def)
    moreover have "record_of rd (docs db') = (record_of rd (docs db))(id_of lib i \<mapsto> ?new)"
      using key alive record_of_absent [OF assms(5)] key_is_unique [OF key] unfolding v
      by (auto simp: fun_eq_iff record_of_append split: option.split)
    ultimately show ?thesis using \<open>keyed rd (docs db')\<close> by auto
  qed
qed

text \<open>C26. The MongoDB store implements a map of records by id. On a server that serves the collection of the
  resource with a key of its own for every document, a lookup answers the live record of its id; an
  update, a soft delete and a hard delete change the record of their id only, answer its row, and say
  that it is missing otherwise; an insert under a fresh generated id adds its record; a refused write
  changes nothing; and the keys stay unique.\<close>

theorem mongo_store_refines_records:
  assumes "serves_collection drv (rd_resource rd) docs" and "keyed rd (docs db)" and "mongo_names rd"
    and "has_soft_delete rd \<longrightarrow> \<not> has_key (mongo_set_doc lib bl rd data) ''deleted_at''"
    and "mi_generated_id (mongo_insert_loop lib bl rd input) = Some j" and "\<forall>d \<in> set (docs db). \<not> key_is rd (id_of lib j) d"
    and "has_soft_delete rd \<longrightarrow> \<not> has_key (mi_doc (mongo_insert_loop lib bl rd input)) ''deleted_at''"
    and "mongo_update_by_id lib bl drv rd i data db = (db1, r1)"
    and "mongo_soft_delete_by_id lib bl drv rd i db = (db2, r2)"
    and "mongo_hard_delete_by_id lib bl drv rd i db = (db3, r3)"
    and "mongo_insert lib bl drv rd input db = (db4, r4)"
  shows "mongo_find_by_id lib bl drv rd i db = (case record_of rd (docs db) (id_of lib i) of
        Some d \<Rightarrow> Inr (doc_to_json bl rd d) | None \<Rightarrow> Inl NotFound)
    \<and> changes_record (record_of rd (docs db)) (id_of lib i) (\<lambda>d. doc_to_json bl rd (apply_set (mongo_set_doc lib bl rd data) d))
        (\<lambda>d. Some (apply_set (mongo_set_doc lib bl rd data) d)) (record_of rd (docs db1)) r1
    \<and> (has_soft_delete rd \<longrightarrow> changes_record (record_of rd (docs db)) (id_of lib i)
        (\<lambda>d. doc_to_json bl rd (apply_set [(''deleted_at'', BString (now_text lib))] d)) (\<lambda>d. None) (record_of rd (docs db2)) r2)
    \<and> changes_record (record_of rd (docs db)) (id_of lib i) (doc_to_json bl rd) (\<lambda>d. None) (record_of rd (docs db3)) r3
    \<and> (\<exists>v. if is_ok r4 then r4 = Inr (doc_to_json bl rd (mi_doc (mongo_insert_loop lib bl rd input)))
          \<and> record_of rd (docs db4) = (record_of rd (docs db))(id_of lib j \<mapsto> (''_id'', v) # mi_doc (mongo_insert_loop lib bl rd input))
        else record_of rd (docs db4) = record_of rd (docs db))
    \<and> keyed rd (docs db1) \<and> keyed rd (docs db3) \<and> keyed rd (docs db4)"
  using mongo_find_record [OF assms(1-3)] mongo_update_record [OF assms(1-4,8)] mongo_soft_delete_record [OF assms(1-3) _ assms(9)]
    mongo_hard_delete_record [OF assms(1-3,10)] mongo_insert_record [OF assms(1-3,5-7,11)] by blast

definition mongo_tasks :: resource_definition where
  "mongo_tasks = mongo_notes\<lparr>rd_endpoints := Some [(''delete'', default_endpoint\<lparr>ep_soft_delete := True\<rparr>)]\<rparr>"

definition mongo_doc :: "string \<Rightarrow> bdoc" where
  "mongo_doc t = [(''id'', BString t), (''org'', BString ''t1''), (''text'', BString ''a'')]"

theorem mongo_store_refines_records_witness:
  "\<exists>db2. mongo_soft_delete_by_id toy_sql_lib toy_bson toy_mongo mongo_tasks 3 [mongo_doc ''3''] = (db2, Inr (doc_to_json toy_bson mongo_tasks (mongo_doc ''3'')))
    \<and> record_of mongo_tasks db2 = (record_of mongo_tasks [mongo_doc ''3''])(''3'' := None)"
proof -
  let ?db = "[mongo_doc ''3'']"
  obtain db2 r2 where soft: "mongo_soft_delete_by_id toy_sql_lib toy_bson toy_mongo mongo_tasks 3 ?db = (db2, r2)" by fastforce
  obtain db1 r1 where upd: "mongo_update_by_id toy_sql_lib toy_bson toy_mongo mongo_tasks 3 [] ?db = (db1, r1)" by fastforce
  obtain db3 r3 where hard: "mongo_hard_delete_by_id toy_sql_lib toy_bson toy_mongo mongo_tasks 3 ?db = (db3, r3)" by fastforce
  obtain db4 r4 where ins: "mongo_insert toy_sql_lib toy_bson toy_mongo mongo_tasks [] ?db = (db4, r4)" by fastforce
  have "serves_collection toy_mongo (rd_resource mongo_tasks) (\<lambda>db. db)"
    by (auto simp: serves_collection_def toy_mongo_def finds_first_def updates_first_def deletes_first_def inserts_last_def
        split: sum.splits)
  moreover have "keyed mongo_tasks ?db"
    by (simp add: mongo_doc_def key_is_def mongo_tasks_def mongo_notes_def primary_key_def keyed_def)
  moreover have "mongo_names mongo_tasks"
    by (simp add: mongo_names_def mongo_tasks_def mongo_notes_def primary_key_def wf_map_def plain_key_def plain_field_def)
  moreover have "has_soft_delete mongo_tasks" by (simp add: has_soft_delete_def mongo_tasks_def)
  moreover have "\<not> has_key (mongo_set_doc toy_sql_lib toy_bson mongo_tasks []) ''deleted_at''"
    "mi_generated_id (mongo_insert_loop toy_sql_lib toy_bson mongo_tasks []) = Some 7"
    "\<forall>d \<in> set ?db. \<not> key_is mongo_tasks (id_of toy_sql_lib 7) d"
    "\<not> has_key (mi_doc (mongo_insert_loop toy_sql_lib toy_bson mongo_tasks [])) ''deleted_at''"
    by code_simp+
  moreover have "id_of toy_sql_lib 3 = ''3''" by code_simp
  ultimately have "changes_record (record_of mongo_tasks ?db) ''3''
      (\<lambda>d. doc_to_json toy_bson mongo_tasks (apply_set [(''deleted_at'', BString (now_text toy_sql_lib))] d)) (\<lambda>d. None)
      (record_of mongo_tasks db2) r2"
    using mongo_store_refines_records [OF _ _ _ _ _ _ _ upd soft hard ins] by fastforce
  moreover have "r2 = Inr (doc_to_json toy_bson mongo_tasks (mongo_doc ''3''))"
  proof -
    have "snd (mongo_soft_delete_by_id toy_sql_lib toy_bson toy_mongo mongo_tasks 3 ?db)
      = Inr (doc_to_json toy_bson mongo_tasks (mongo_doc ''3''))" by code_simp
    with soft show ?thesis by simp
  qed
  ultimately show ?thesis
    using soft by (auto simp: changes_record_def split: option.splits)
qed

section \<open>Where the backend goes wrong\<close>

text \<open>A filter reaches the conversion as a JSON text: on a number or boolean column it asks for zero or
  false, whatever the client sent.\<close>

lemma mongo_filter_value_lost:
  "fs_type f = FtInteger \<Longrightarrow> json_to_bson lib bl (JStr t) f = BInt64 0"
  "fs_type f = FtNumber \<Longrightarrow> json_to_bson lib bl (JStr t) f = BDouble (Finite 0)"
  "fs_type f = FtBoolean \<Longrightarrow> json_to_bson lib bl (JStr t) f = BBoolean False"
  by (simp_all add: json_to_bson_def or_else_def)

text \<open>A cursor replaces a filter on the primary key.\<close>

lemma mongo_cursor_drops_id_filter:
  "AList.update (primary_key mongo_notes) (BDocument [(''$gt'', BString ''5'')])
      (mongo_filters toy_sql_lib toy_bson mongo_notes [\<lparr>fp_field = ''id'', fp_value = ''3''\<rparr>])
    = [(''id'', BDocument [(''$gt'', BString ''5'')])]"
  by code_simp

text \<open>Every resource of the registry is served by the engine its configuration names.\<close>

lemma multi_registry_engine:
  assumes "multi_store_registry lib bl server conns mongos dbs rds stores db = (db', Inr stores')"
    and "distinct (map rd_resource rds)" and "rd \<in> set rds"
  shows "if resource_engine dbs rd = MongoDB
    then \<exists>drv. map_of mongos (or_else (rd_db rd) ''default'') = Some drv \<and> map_of stores' (rd_resource rd) = Some (mongo_store lib bl drv rd)
    else \<exists>conn. sql_for_resource conns (rd_db rd) = Some conn \<and> map_of stores' (rd_resource rd) = Some (orm_store lib server conn rd)"
proof -
  have keep: "multi_store_registry lib bl server conns mongos dbs rds stores db = (db', Inr stores') \<Longrightarrow> n \<notin> rd_resource ` set rds
      \<Longrightarrow> map_of stores' n = map_of stores n" for rds stores db n
  proof (induction rds arbitrary: stores db)
    case (Cons r rds)
    then show ?case
      by (auto simp: Let_def update_conv' split: if_splits option.splits prod.splits sum.splits)
  qed simp
  show ?thesis
    using assms
  proof (induction rds arbitrary: stores db)
    case (Cons r rds)
    show ?case
    proof (cases "rd = r")
      case True
      with Cons.prems have "rd_resource rd \<notin> rd_resource ` set rds" by auto
      with Cons.prems(1) True keep [of rds] show ?thesis
        by (fastforce simp: Let_def update_conv' split: if_splits option.splits prod.splits sum.splits)
    next
      case False
      with Cons.prems have "distinct (map rd_resource rds)" "rd \<in> set rds" by auto
      moreover obtain stores1 db1 where "multi_store_registry lib bl server conns mongos dbs rds stores1 db1 = (db', Inr stores')"
        using Cons.prems(1) by (auto simp: Let_def split: if_splits option.splits prod.splits sum.splits)
      ultimately show ?thesis using Cons.IH by blast
    qed
  qed simp
qed

end
