(* ===== verification/Grpc_Codec.thy ===== *)
theory Grpc_Codec
  imports Sql_Builder
begin

text \<open>
  The protobuf codec of \<open>shaperail-runtime/src/grpc/codec.rs\<close>: varints over 64-bit words, the fields of a
  record in schema order, and the decoder, whose position is a machine word. The conversions of
  \<open>serde_json\<close> between a value and its text are parameters. A build has overflow checks (a debug build
  panics) or not (a release build wraps around), and a decoder that never returns is the value None.
\<close>

section \<open>Bytes\<close>

definition text_bytes :: "string \<Rightarrow> bytes" where
  "text_bytes s = map (\<lambda>c. word_of_nat (of_char c)) s"

definition bytes_text :: "bytes \<Rightarrow> string" where
  "bytes_text bs = map (\<lambda>b. char_of (unat b)) bs"

text \<open>\<open>String::from_utf8_lossy\<close>: each maximal prefix of a sequence that cannot go on becomes U+FFFD.\<close>

definition replacement :: string where
  "replacement = [char_of (0xEF :: nat), char_of (0xBF :: nat), char_of (0xBD :: nat)]"

definition second_ok :: "char \<Rightarrow> char \<Rightarrow> bool" where
  "second_ok c d \<longleftrightarrow> in_range 0xE0 0xE0 c \<and> in_range 0xA0 0xBF d \<or> in_range 0xE1 0xEC c \<and> in_range 0x80 0xBF d
     \<or> in_range 0xED 0xED c \<and> in_range 0x80 0x9F d \<or> in_range 0xEE 0xEF c \<and> in_range 0x80 0xBF d
     \<or> in_range 0xF0 0xF0 c \<and> in_range 0x90 0xBF d \<or> in_range 0xF1 0xF3 c \<and> in_range 0x80 0xBF d
     \<or> in_range 0xF4 0xF4 c \<and> in_range 0x80 0x8F d"

text \<open>The length of the sequence at the front, and whether it is a character.\<close>

definition utf8_front :: "char \<Rightarrow> string \<Rightarrow> nat \<times> bool" where
  "utf8_front c s =
     (if in_range 0 0x7F c then (1, True)
      else (case s of
          [] \<Rightarrow> (1, False)
        | d # s2 \<Rightarrow>
            if utf8_seq2 c d then (2, True)
            else if \<not> second_ok c d then (1, False)
            else (case s2 of
                [] \<Rightarrow> (2, False)
              | e # s3 \<Rightarrow>
                  if utf8_seq3 c d e then (3, True)
                  else if \<not> in_range 0xF0 0xF4 c \<or> \<not> in_range 0x80 0xBF e then (2, False)
                  else (case s3 of
                      [] \<Rightarrow> (3, False)
                    | f # s4 \<Rightarrow> if utf8_seq4 c d e f then (4, True) else (3, False)))))"

lemma utf8_front_positive: "0 < fst (utf8_front c s)"
  by (simp add: utf8_front_def split: list.split)

function utf8_lossy :: "string \<Rightarrow> string" where
  "utf8_lossy s = (case s of
     [] \<Rightarrow> []
   | c # s' \<Rightarrow> (let (n, ok) = utf8_front c s' in
       (if ok then take n s else replacement) @ utf8_lossy (drop n s)))"
  by pat_completeness auto
termination
proof (relation "measure length", goal_cases)
  case (2 s c s' p n ok)
  then have "0 < n" using utf8_front_positive [of c s'] by (metis fst_conv)
  with 2 show ?case by simp
qed simp

declare utf8_lossy.simps [simp del]

section \<open>IEEE doubles\<close>

text \<open>\<open>put_f64_le\<close> and \<open>f64::from_le_bytes\<close> on the 64 bits of a double.\<close>

definition f64_of_bits :: "64 word \<Rightarrow> f64" where
  "f64_of_bits w =
     (let neg = bit w 63; e = unat (take_bit 11 (drop_bit 52 w)); m = unat (take_bit 52 w);
          sgn = (\<lambda>r :: rat. if neg then - r else r)
      in if e = 2047 then (if m = 0 then (if neg then NegInfinity else PosInfinity) else NaN)
         else if e = 0 then Finite (sgn (of_nat m / 2 ^ 1074))
         else Finite (sgn (of_nat (2 ^ 52 + m) * 2 ^ e / 2 ^ 1075)))"

definition f64_bits :: "rat \<Rightarrow> 64 word" where
  "f64_bits r =
     (let a = \<bar>r\<bar>; e = or_else (find (\<lambda>e. a * 2 ^ 1022 < 2 ^ e) [1..<2047]) 2046;
          m = nat \<lfloor>a * 2 ^ 1075 / 2 ^ e\<rfloor>;
          magnitude = (if m < 2 ^ 52 then word_of_nat m else word_of_nat (e * 2 ^ 52 + (m - 2 ^ 52)))
      in if r < 0 then magnitude OR push_bit 63 1 else magnitude)"

definition le_bytes :: "64 word \<Rightarrow> bytes" where
  "le_bytes w = map (\<lambda>k. ucast (drop_bit (8 * k) w)) [0..<8]"

definition of_le_bytes :: "bytes \<Rightarrow> 64 word" where
  "of_le_bytes bs = foldr (\<lambda>b w. push_bit 8 w OR ucast b) bs 0"

section \<open>Encoding\<close>

datatype wire_type = WireVarint | Wire64bit | WireLen

fun wire_code :: "wire_type \<Rightarrow> 32 word" where
  "wire_code WireVarint = 0"
| "wire_code WireLen = 2"
| "wire_code Wire64bit = 1"

definition encode_tag :: "32 word \<Rightarrow> wire_type \<Rightarrow> 32 word" where
  "encode_tag field_number wire = push_bit 3 field_number OR wire_code wire"

function encode_varint :: "64 word \<Rightarrow> bytes" where
  "encode_varint v =
     (if v < 0x80 then [ucast v] else ((ucast v AND 0x7F) OR 0x80) # encode_varint (drop_bit 7 v))"
  by pat_completeness auto
termination
proof (relation "measure unat", goal_cases)
  case (2 v)
  then have "128 \<le> unat v" by (simp add: not_less word_le_nat_alt)
  moreover have "unat (drop_bit 7 v) = unat v div 128" by (subst unat_drop_bit_eq) (simp add: drop_bit_eq_div)
  ultimately show ?case by simp
qed simp

declare encode_varint.simps [simp del]

definition put_tag :: "32 word \<Rightarrow> wire_type \<Rightarrow> bytes" where
  "put_tag field_number wire = encode_varint (ucast (encode_tag field_number wire))"

definition put_text :: "32 word \<Rightarrow> string \<Rightarrow> bytes" where
  "put_text field_number s = put_tag field_number WireLen @ encode_varint (word_of_nat (length s)) @ text_bytes s"

fun encode_field :: "sql_lib \<Rightarrow> 32 word \<Rightarrow> field_type \<Rightarrow> json \<Rightarrow> bytes" where
  "encode_field lib k t JNull = []"
| "encode_field lib k FtInteger (JNum n) =
     (case num_as_i64 n of Some v \<Rightarrow> put_tag k WireVarint @ encode_varint (word_of_int v) | None \<Rightarrow> [])"
| "encode_field lib k FtNumber (JNum n) = put_tag k Wire64bit @ le_bytes (f64_bits (num_as_f64 n))"
| "encode_field lib k FtBoolean (JBool b) = put_tag k WireVarint @ encode_varint (if b then 1 else 0)"
| "encode_field lib k t (JStr s) = put_text k s"
| "encode_field lib k t v = put_text k (sl_json_text lib v)"

fun encode_members :: "sql_lib \<Rightarrow> nat \<Rightarrow> (string \<times> field_schema) list \<Rightarrow> jmap \<Rightarrow> bytes" where
  "encode_members lib i [] obj = []"
| "encode_members lib i ((name, f) # sch) obj =
     (case map_of obj name of None \<Rightarrow> [] | Some v \<Rightarrow> encode_field lib (word_of_nat (i + 1)) (fs_type f) v)
     @ encode_members lib (i + 1) sch obj"

definition encode_resource_message :: "sql_lib \<Rightarrow> (string \<times> field_schema) list \<Rightarrow> json \<Rightarrow> bytes" where
  "encode_resource_message lib sch record = (case record of JObj obj \<Rightarrow> encode_members lib 0 sch obj | _ \<Rightarrow> [])"

section \<open>Decoding\<close>

fun decode_varint_loop :: "nat \<Rightarrow> nat \<Rightarrow> 64 word \<Rightarrow> bytes \<Rightarrow> (64 word \<times> nat) option" where
  "decode_varint_loop i shift result [] = None"
| "decode_varint_loop i shift result (b # bs) =
     (let result' = result OR push_bit shift (ucast (b AND 0x7F)) in
      if b AND 0x80 = 0 then Some (result', i + 1)
      else if shift + 7 \<ge> 64 then None else decode_varint_loop (i + 1) (shift + 7) result' bs)"

definition decode_varint :: "bytes \<Rightarrow> (64 word \<times> nat) option" where
  "decode_varint bs = decode_varint_loop 0 0 0 bs"

text \<open>How a message ends, and one turn of the loop: it ends, or it goes on at a position.\<close>

datatype decoded = Decoded jmap | Panicked

datatype turn = Finished decoded | Continue nat jmap

text \<open>\<open>serde_json::from_str\<close> is a parameter too.\<close>

type_synonym json_parser = "string \<Rightarrow> json option"

definition skip_field :: "bool \<Rightarrow> bytes \<Rightarrow> 64 word \<Rightarrow> nat \<Rightarrow> jmap \<Rightarrow> turn" where
  "skip_field guarded data wire pos obj =
     (if wire = 0 then
        (case decode_varint (drop pos data) of Some (v, c) \<Rightarrow> Continue (pos + c) obj | None \<Rightarrow> Finished (Decoded obj))
      else if wire = 1 then Continue (pos + 8) obj
      else if wire = 2 then
        (case decode_varint (drop pos data) of
           Some (len, c) \<Rightarrow> (case Option.bind (add_usize guarded c (unat len)) (add_usize guarded pos) of
               Some pos' \<Rightarrow> Continue pos' obj | None \<Rightarrow> Finished Panicked)
         | None \<Rightarrow> Finished (Decoded obj))
      else Finished (Decoded obj))"

definition text_value :: "json_parser \<Rightarrow> field_type \<Rightarrow> string \<Rightarrow> json" where
  "text_value parse t s = (if t = FtJson \<or> t = FtArray then or_else (parse s) (JStr s) else JStr s)"

definition read_field :: "json_parser \<Rightarrow> bool \<Rightarrow> bytes \<Rightarrow> string \<Rightarrow> field_type \<Rightarrow> 64 word \<Rightarrow> nat \<Rightarrow> jmap \<Rightarrow> turn" where
  "read_field parse guarded data name t wire pos obj =
     (if wire = 0 then
        (case decode_varint (drop pos data) of
           Some (v, c) \<Rightarrow> Continue (pos + c) (AList.update name (if t = FtBoolean then JBool (v \<noteq> 0) else jint (sint v)) obj)
         | None \<Rightarrow> Finished (Decoded obj))
      else if wire = 1 then
        (if pos + 8 \<le> length data then
           Continue (pos + 8) (case f64_of_bits (of_le_bytes (take 8 (drop pos data))) of
               Finite r \<Rightarrow> AList.update name (JNum (Float r)) obj | _ \<Rightarrow> obj)
         else Finished (Decoded obj))
      else if wire = 2 then
        (case decode_varint (drop pos data) of
           Some (len, c) \<Rightarrow>
             (case add_usize guarded (pos + c) (unat len) of
                None \<Rightarrow> Finished Panicked
              | Some stop \<Rightarrow>
                  if length data < stop then Finished (Decoded obj)
                  else if stop < pos + c then Finished Panicked
                  else Continue stop (AList.update name
                    (text_value parse t (utf8_lossy (bytes_text (take (stop - (pos + c)) (drop (pos + c) data))))) obj))
         | None \<Rightarrow> Finished (Decoded obj))
      else Finished (Decoded obj))"

definition decode_turn :: "json_parser \<Rightarrow> bool \<Rightarrow> (string \<times> field_schema) list \<Rightarrow> bytes \<Rightarrow> nat \<Rightarrow> jmap \<Rightarrow> turn" where
  "decode_turn parse guarded sch data pos obj =
     (case decode_varint (drop pos data) of
        None \<Rightarrow> Finished (Decoded obj)
      | Some (tag, consumed) \<Rightarrow>
          (let field_number = unat (drop_bit 3 tag); wire = tag AND 7 in
           if field_number = 0 \<or> length sch < field_number then skip_field guarded data wire (pos + consumed) obj
           else (case sch ! (field_number - 1) of (name, f) \<Rightarrow>
             read_field parse guarded data name (fs_type f) wire (pos + consumed) obj)))"

partial_function (option) decode_loop ::
    "json_parser \<Rightarrow> bool \<Rightarrow> (string \<times> field_schema) list \<Rightarrow> bytes \<Rightarrow> nat \<Rightarrow> jmap \<Rightarrow> decoded option" where
  "decode_loop parse guarded sch data pos obj =
     (if length data \<le> pos then Some (Decoded obj)
      else (case decode_turn parse guarded sch data pos obj of
          Finished r \<Rightarrow> Some r
        | Continue pos' obj' \<Rightarrow> decode_loop parse guarded sch data pos' obj'))"

declare decode_loop.simps [code]

definition decode_resource_message :: "json_parser \<Rightarrow> bool \<Rightarrow> (string \<times> field_schema) list \<Rightarrow> bytes \<Rightarrow> decoded option" where
  "decode_resource_message parse guarded sch data = decode_loop parse guarded sch data 0 []"

section \<open>Varints\<close>

lemma split_low_bits: "(v AND 0x7F) OR push_bit 7 (drop_bit 7 v) = v" for v :: "64 word"
proof -
  have "v AND 0x7F = take_bit 7 v" by (simp add: take_bit_eq_mask mask_numeral)
  then show ?thesis by (auto intro!: bit_word_eqI simp: bit_simps)
qed

lemma low_byte: "ucast ((ucast v :: 8 word) AND 0x7F) = v AND 0x7F" for v :: "64 word"
proof -
  have "(ucast v :: 8 word) AND 0x7F = take_bit 7 (ucast v)" by (simp add: take_bit_eq_mask mask_numeral)
  moreover have "v AND 0x7F = take_bit 7 v" by (simp add: take_bit_eq_mask mask_numeral)
  ultimately show ?thesis by (auto intro!: bit_word_eqI simp: bit_simps)
qed

lemma continuation_byte:
  "(((ucast v :: 8 word) AND 0x7F) OR 0x80) AND 0x80 \<noteq> 0"
  "(((ucast v :: 8 word) AND 0x7F) OR 0x80) AND 0x7F = ucast v AND 0x7F"
proof -
  have "bit ((((ucast v :: 8 word) AND 0x7F) OR 0x80) AND 0x80) 7" by (simp add: bit_simps)
  then show "(((ucast v :: 8 word) AND 0x7F) OR 0x80) AND 0x80 \<noteq> 0" by auto
  have "(0x80 :: 8 word) AND 0x7F = 0" by simp
  then show "(((ucast v :: 8 word) AND 0x7F) OR 0x80) AND 0x7F = ucast v AND 0x7F"
    by (simp add: bit.conj_disj_distrib2 and.assoc)
qed

lemma last_byte:
  assumes "v < 0x80"
  shows "(ucast v :: 8 word) AND 0x80 = 0" "(v :: 64 word) AND 0x7F = v"
proof -
  have "v AND mask 7 = v" using less_mask_eq [of v 7] assms by simp
  then show *: "v AND 0x7F = v" by (simp add: mask_numeral)
  have "(ucast v :: 8 word) AND 0x80 = (ucast (v AND 0x7F) :: 8 word) AND 0x80" by (simp add: *)
  also have "\<dots> = 0" by (rule bit_word_eqI) (auto simp: bit_simps less_Suc_eq numeral_eq_Suc)
  finally show "(ucast v :: 8 word) AND 0x80 = 0" .
qed

lemma unat_drop7: "unat (drop_bit 7 v) = unat v div 128" for v :: "64 word"
  by (subst unat_drop_bit_eq) (simp add: drop_bit_eq_div)

lemma varint_loop_round_trip:
  assumes "s < 64" and "unat v < 2 ^ (64 - s)"
  shows "decode_varint_loop i s r (encode_varint v @ rest) = Some (r OR push_bit s v, i + length (encode_varint v))"
  using assms
proof (induction v arbitrary: i s r rule: encode_varint.induct)
  case (1 v)
  show ?case
  proof (cases "v < 0x80")
    case True
    then show ?thesis using last_byte [OF True] low_byte [of v] by (simp add: encode_varint.simps [of v])
  next
    case False
    then have big: "2 ^ 7 \<le> unat v" by (simp add: not_less word_le_nat_alt)
    with 1(3) have "(2 :: nat) ^ 7 < 2 ^ (64 - s)" by linarith
    then have s: "7 < 64 - s" using power_less_imp_less_exp [of "2 :: nat" 7 "64 - s"] by simp
    then have "64 - s = 7 + (64 - (s + 7))" by simp
    then have "(2 :: nat) ^ (64 - s) = 2 ^ 7 * 2 ^ (64 - (s + 7))" by (metis power_add)
    then have "unat (drop_bit 7 v) < 2 ^ (64 - (s + 7))" using 1(3) by (simp add: unat_drop7 less_mult_imp_div_less mult.commute)
    from 1(1) [OF False _ this] s
    have ih: "decode_varint_loop (i + 1) (s + 7) (r OR push_bit s (v AND 0x7F)) (encode_varint (drop_bit 7 v) @ rest)
      = Some ((r OR push_bit s (v AND 0x7F)) OR push_bit (s + 7) (drop_bit 7 v), i + 1 + length (encode_varint (drop_bit 7 v)))" by simp
    have "push_bit s (v AND 0x7F) OR push_bit (s + 7) (drop_bit 7 v) = push_bit s v"
      by (metis split_low_bits push_bit_or push_bit_push_bit)
    with ih False s show ?thesis
      by (simp add: encode_varint.simps [of v] continuation_byte low_byte or.assoc)
  qed
qed

text \<open>A varint decodes to the word it encodes, and the decoder stops right behind it.\<close>

lemma varint_round_trip: "decode_varint (encode_varint v @ rest) = Some (v, length (encode_varint v))"
  using varint_loop_round_trip [of 0 v 0 0 rest] unsigned_less [of v] by (simp add: decode_varint_def)

lemma decode_varint_loop_consumes: "decode_varint_loop i s r bs = Some (v, c) \<Longrightarrow> i < c \<and> c \<le> i + length bs"
  by (induction i s r bs rule: decode_varint_loop.induct) (fastforce simp: Let_def split: if_splits)+

lemma decode_varint_consumes: "decode_varint bs = Some (v, c) \<Longrightarrow> 0 < c \<and> c \<le> length bs"
  using decode_varint_loop_consumes by (fastforce simp: decode_varint_def)

section \<open>Termination\<close>

lemma guarded_turn_advances:
  assumes "decode_turn parse True sch data pos obj = Continue pos' obj'"
  shows "pos < pos'"
  using assms decode_varint_consumes
  by (fastforce simp: decode_turn_def skip_field_def read_field_def add_usize_def Let_def
      split: option.splits prod.splits if_splits f64.splits)

lemma guarded_loop_returns: "\<exists>r. decode_loop parse True sch data pos obj = Some r"
proof (induction "length data - pos" arbitrary: pos obj rule: less_induct)
  case less
  show ?case
  proof (cases "length data \<le> pos")
    case False
    show ?thesis
    proof (cases "decode_turn parse True sch data pos obj")
      case (Continue pos' obj')
      with False have "length data - pos' < length data - pos" using guarded_turn_advances [OF Continue] by simp
      from less [OF this, of obj'] False Continue show ?thesis by (simp add: decode_loop.simps [of parse True sch data pos])
    qed (simp add: decode_loop.simps)
  qed (simp add: decode_loop.simps)
qed

lemma add_usize_agree: "add_usize True a b = Some n \<Longrightarrow> add_usize False a b = Some n"
  by (simp add: add_usize_def split: if_splits)

lemma add_usize_twice_agree:
  "Option.bind (add_usize True c l) (add_usize True p) = Some n \<Longrightarrow> Option.bind (add_usize False c l) (add_usize False p) = Some n"
  by (auto simp: bind_eq_Some_conv dest: add_usize_agree)

lemma skip_agree:
  "skip_field True data wire pos obj \<noteq> Finished Panicked \<Longrightarrow> skip_field False data wire pos obj = skip_field True data wire pos obj"
  by (auto simp: skip_field_def dest!: add_usize_twice_agree split: option.splits)

lemma read_agree:
  "read_field parse True data name t wire pos obj \<noteq> Finished Panicked
    \<Longrightarrow> read_field parse False data name t wire pos obj = read_field parse True data name t wire pos obj"
  by (auto simp: read_field_def dest: add_usize_agree split: option.splits)

lemma turn_agree:
  "decode_turn parse True sch data pos obj \<noteq> Finished Panicked
    \<Longrightarrow> decode_turn parse False sch data pos obj = decode_turn parse True sch data pos obj"
  by (auto simp: decode_turn_def Let_def skip_agree read_agree split: option.splits prod.splits)

lemma loop_agree:
  "decode_loop parse True sch data pos obj = Some (Decoded m) \<Longrightarrow> decode_loop parse False sch data pos obj = Some (Decoded m)"
proof (induction "length data - pos" arbitrary: pos obj rule: less_induct)
  case less
  show ?case
  proof (cases "length data \<le> pos")
    case True
    with less.prems show ?thesis by (simp add: decode_loop.simps)
  next
    case False
    show ?thesis
    proof (cases "decode_turn parse True sch data pos obj")
      case (Finished d)
      with less.prems False have "d = Decoded m" by (simp add: decode_loop.simps [of parse True])
      with Finished False turn_agree [of parse sch data pos obj] show ?thesis by (simp add: decode_loop.simps [of parse False])
    next
      case (Continue pos' obj')
      with less.prems False have "decode_loop parse True sch data pos' obj' = Some (Decoded m)"
        by (simp add: decode_loop.simps [of parse True sch data pos])
      moreover have "length data - pos' < length data - pos" using guarded_turn_advances [OF Continue] False by simp
      ultimately have "decode_loop parse False sch data pos' obj' = Some (Decoded m)" using less.hyps by blast
      with Continue False turn_agree [of parse sch data pos obj] show ?thesis
        by (simp add: decode_loop.simps [of parse False sch data pos])
    qed
  qed
qed

text \<open>C15. The decoder terminates. Built with overflow checks it returns on every message, whatever its
  bytes: an object, or the panic of an overflowing length. Built without them it returns the same
  object on every message on which no length overflows.\<close>

theorem decoder_terminates:
  "(\<exists>r. decode_resource_message parse True sch data = Some r)
    \<and> (decode_resource_message parse True sch data = Some Panicked
      \<or> decode_resource_message parse False sch data = decode_resource_message parse True sch data)"
proof -
  obtain r where r: "decode_loop parse True sch data 0 [] = Some r" using guarded_loop_returns by blast
  then show ?thesis using loop_agree [of parse sch data 0 "[]"] by (cases r) (simp_all add: decode_resource_message_def)
qed

text \<open>Twelve bytes that hang a release build: the length of an unknown field takes the position back to
  the start of the field. No schema, token or permission is needed.\<close>

definition endless_message :: bytes where
  "endless_message = [0x7A] @ encode_varint 0xFFFFFFFFFFFFFFF5"

lemma endless_message_turn:
  "length sch < 15 \<Longrightarrow> decode_turn parse False sch endless_message 0 obj = Continue 0 obj"
proof -
  assume sch: "length sch < 15"
  have "encode_varint 0x7A = [0x7A]" by (simp add: encode_varint.simps)
  then have "decode_varint endless_message = Some (0x7A, 1)"
    using varint_round_trip [of "0x7A" "encode_varint 0xFFFFFFFFFFFFFFF5"] by (simp add: endless_message_def)
  moreover have "decode_varint (drop 1 endless_message) = Some (0xFFFFFFFFFFFFFFF5, 10)"
    using varint_round_trip [of "0xFFFFFFFFFFFFFFF5" "[]"] by (simp add: endless_message_def encode_varint.simps)
  moreover have "unat (0xFFFFFFFFFFFFFFF5 :: 64 word) = 2 ^ 64 - 11" by simp
  moreover have "unat (drop_bit 3 (0x7A :: 64 word)) = 15" "(0x7A :: 64 word) AND 7 = 2" by (simp_all add: unat_drop_bit_eq)
  ultimately show ?thesis
    using sch by (simp add: decode_turn_def skip_field_def add_usize_def)
qed

lemma release_decoder_hangs:
  assumes "length sch < 15"
  shows "decode_resource_message parse False sch endless_message = None"
proof -
  have "p = parse \<longrightarrow> g = False \<longrightarrow> s = sch \<longrightarrow> d = endless_message \<longrightarrow> pos \<noteq> 0"
    if "decode_loop p g s d pos obj = Some r" for p g s d pos obj r
  proof (rule decode_loop.raw_induct [where P = "\<lambda>p g s d pos obj r.
      p = parse \<longrightarrow> g = False \<longrightarrow> s = sch \<longrightarrow> d = endless_message \<longrightarrow> pos \<noteq> 0", OF _ that], intro impI notI)
    fix loop p g s d pos obj r
    assume ih: "\<And>p g s d pos obj r. loop p g s d pos obj = Some r \<Longrightarrow>
        p = parse \<longrightarrow> g = False \<longrightarrow> s = sch \<longrightarrow> d = endless_message \<longrightarrow> pos \<noteq> 0"
      and body: "(if length d \<le> pos then Some (Decoded obj) else case decode_turn p g s d pos obj of
          Finished r \<Rightarrow> Some r | Continue pos' obj' \<Rightarrow> loop p g s d pos' obj') = Some r"
      and a: "p = parse" "g = False" "s = sch" "d = endless_message" "pos = 0"
    have "\<not> length endless_message \<le> 0" by (simp add: endless_message_def)
    with body a endless_message_turn [OF assms, of parse obj] have "loop p g s d pos obj = Some r" by simp
    from ih [OF this] a show False by blast
  qed
  from this [of parse False sch endless_message 0 "[]"] show ?thesis
    by (cases "decode_resource_message parse False sch endless_message") (auto simp: decode_resource_message_def)
qed

section \<open>Round trip\<close>

definition is_f64 :: "rat \<Rightarrow> bool" where
  "is_f64 r \<longleftrightarrow> f64_of_bits (f64_bits r) = Finite r"

text \<open>A value that the wire carries: it has the representation of its column's type.\<close>

definition wire_value :: "sql_lib \<Rightarrow> json_parser \<Rightarrow> field_type \<Rightarrow> json \<Rightarrow> bool" where
  "wire_value lib parse t v \<longleftrightarrow> (case t of
     FtInteger \<Rightarrow> (\<exists>i. v = jint i \<and> - (2 ^ 63) \<le> i \<and> i < 2 ^ 63)
   | FtNumber \<Rightarrow> (\<exists>r. v = JNum (Float r) \<and> is_f64 r)
   | FtBoolean \<Rightarrow> (\<exists>b. v = JBool b)
   | FtJson \<Rightarrow> as_str v = None \<and> v \<noteq> JNull \<and> parse (sl_json_text lib v) = Some v \<and> valid_utf8 (sl_json_text lib v)
       \<and> length (sl_json_text lib v) < 2 ^ 62
   | FtArray \<Rightarrow> as_str v = None \<and> v \<noteq> JNull \<and> parse (sl_json_text lib v) = Some v \<and> valid_utf8 (sl_json_text lib v)
       \<and> length (sl_json_text lib v) < 2 ^ 62
   | _ \<Rightarrow> (\<exists>s. v = JStr s \<and> valid_utf8 s \<and> length s < 2 ^ 62))"

lemma byte_char: "char_of (unat (word_of_nat (of_char c) :: 8 word)) = c"
proof -
  have "(of_char c :: nat) < 256" by (simp add: of_char_def)
  then show ?thesis by (simp add: unat_of_nat)
qed

lemma bytes_of_text [simp]: "bytes_text (text_bytes s) = s" "length (text_bytes s) = length s"
  by (simp_all add: bytes_text_def text_bytes_def byte_char comp_def)

lemma valid_front:
  assumes "valid_utf8 (c # s)"
  shows "snd (utf8_front c s) \<and> valid_utf8 (drop (fst (utf8_front c s)) (c # s))"
proof -
  have "utf8_seq3 c d e \<Longrightarrow> second_ok c d" "utf8_seq4 c d e f \<Longrightarrow> second_ok c d \<and> in_range 0xF0 0xF4 c \<and> in_range 0x80 0xBF e" for d e f
    by (auto simp: utf8_seq3_def utf8_seq4_def second_ok_def in_range_def)
  then show ?thesis
    using assms unfolding utf8_front_def
    by (auto simp: valid_utf8.simps [of "c # s"] split: list.splits if_splits)
qed

lemma utf8_lossy_valid: "valid_utf8 s \<Longrightarrow> utf8_lossy s = s"
proof (induction s rule: utf8_lossy.induct)
  case (1 s)
  show ?case
  proof (cases s)
    case (Cons c s')
    obtain n ok where f: "utf8_front c s' = (n, ok)" by fastforce
    with valid_front [of c s'] 1(2) Cons have "ok" "valid_utf8 (drop n s)" by simp_all
    with 1(1) [OF Cons refl f [symmetric]] have "utf8_lossy (drop n s) = drop n s" by simp
    with f \<open>ok\<close> Cons append_take_drop_id [of n s] show ?thesis by (simp add: utf8_lossy.simps [of "c # s'"] del: append_take_drop_id)
  qed (simp add: utf8_lossy.simps)
qed

lemma of_le_bytes_range:
  "of_le_bytes (map (\<lambda>k. ucast (drop_bit (8 * k) w)) [j..<j + m]) = take_bit (8 * m) (drop_bit (8 * j) w)"
proof (induction m arbitrary: j)
  case 0
  then show ?case by (simp add: of_le_bytes_def)
next
  case (Suc m)
  have "[j..<j + Suc m] = j # [Suc j..<Suc j + m]" by (simp add: upt_rec)
  then have "of_le_bytes (map (\<lambda>k. ucast (drop_bit (8 * k) w)) [j..<j + Suc m])
    = push_bit 8 (take_bit (8 * m) (drop_bit (8 * Suc j) w)) OR ucast (ucast (drop_bit (8 * j) w) :: 8 word)"
    using Suc.IH [of "Suc j"] by (simp add: of_le_bytes_def)
  also have "\<dots> = take_bit (8 * Suc m) (drop_bit (8 * j) w)"
    by (rule bit_word_eqI) (auto simp: bit_simps ac_simps)
  finally show ?case .
qed

lemma le_bytes_round_trip: "of_le_bytes (le_bytes w) = w"
  using of_le_bytes_range [of w 0 8] by (simp add: le_bytes_def take_bit_word_eq_self)

lemma le_bytes_length [simp]: "length (le_bytes w) = 8"
  by (simp add: le_bytes_def)

lemma wire_bits:
  "bit (wire_code w) n \<Longrightarrow> n < 2"
  by (cases w) (auto simp: bit_1_iff bit_2_iff)

lemma tag_bits:
  fixes k :: "32 word"
  assumes "\<And>n. bit k n \<Longrightarrow> n < 29"
  shows "drop_bit 3 (ucast (encode_tag k w) :: 64 word) = ucast k"
    "(ucast (encode_tag k w) :: 64 word) AND 7 = ucast (wire_code w)"
proof -
  show "drop_bit 3 (ucast (encode_tag k w) :: 64 word) = ucast k"
    by (rule bit_word_eqI) (auto simp: encode_tag_def bit_simps dest: wire_bits assms)
  have "(ucast (encode_tag k w) :: 64 word) AND 7 = take_bit 3 (ucast (encode_tag k w))"
    by (simp add: take_bit_eq_mask mask_numeral)
  also have "\<dots> = ucast (wire_code w)"
    by (rule bit_word_eqI) (auto simp: encode_tag_def bit_simps dest: wire_bits)
  finally show "(ucast (encode_tag k w) :: 64 word) AND 7 = ucast (wire_code w)" .
qed

lemma tag_number:
  assumes "i + 1 < 2 ^ 29"
  shows "unat (drop_bit 3 (ucast (encode_tag (word_of_nat (i + 1)) w) :: 64 word)) = i + 1"
    "(ucast (encode_tag (word_of_nat (i + 1)) w) :: 64 word) AND 7 = ucast (wire_code w)"
proof -
  let ?k = "word_of_nat (i + 1) :: 32 word"
  have u: "unat ?k = i + 1" using assms by (simp only: unat_of_nat) simp
  then have "?k < 2 ^ 29" using assms by (simp only: word_less_nat_alt) simp
  then have "?k AND mask 29 = ?k" by (rule less_mask_eq)
  then have k: "bit ?k n \<Longrightarrow> n < 29" for n by (metis bit_and_iff bit_mask_iff)
  show "(ucast (encode_tag ?k w) :: 64 word) AND 7 = ucast (wire_code w)" using k by (rule tag_bits(2))
  have "drop_bit 3 (ucast (encode_tag ?k w) :: 64 word) = ucast ?k" using k by (rule tag_bits(1))
  moreover have "unat (ucast ?k :: 64 word) = unat ?k"
    using assms unfolding unsigned_ucast_eq u by (simp add: take_bit_nat_eq_self)
  ultimately show "unat (drop_bit 3 (ucast (encode_tag ?k w) :: 64 word)) = i + 1" using u by (simp only:)
qed

text \<open>One field: the decoder reads back what the encoder wrote, at any position of any message.\<close>

lemma sint_word_of_int: "- (2 ^ 63) \<le> i \<Longrightarrow> i < 2 ^ 63 \<Longrightarrow> sint (word_of_int i :: 64 word) = i"
  by (simp add: signed_of_int signed_take_bit_int_eq_self)

lemma as_i64_jint: "- (2 ^ 63) \<le> i \<Longrightarrow> i < 2 ^ 63 \<Longrightarrow> jint i = JNum n \<Longrightarrow> num_as_i64 n = Some i"
  by (auto simp: jint_def split: if_splits)

lemma text_field_read:
  assumes "length pre + length (put_tag k WireLen) + length (encode_varint (word_of_nat (length s))) + length s < 2 ^ 64" and "valid_utf8 s"
  shows "read_field parse guarded (pre @ put_text k s @ rest) name t 2 (length pre + length (put_tag k WireLen)) obj
    = Continue (length pre + length (put_text k s)) (AList.update name (text_value parse t s) obj)"
proof -
  let ?data = "pre @ put_text k s @ rest" and ?pos = "length pre + length (put_tag k WireLen)"
  let ?c = "length (encode_varint (word_of_nat (length s)))"
  have "drop ?pos ?data = encode_varint (word_of_nat (length s)) @ text_bytes s @ rest" by (simp add: put_text_def)
  then have v: "decode_varint (drop ?pos ?data) = Some (word_of_nat (length s), ?c)" by (simp add: varint_round_trip)
  have "unat (word_of_nat (length s) :: 64 word) = length s" using assms(1) by (simp add: unat_of_nat)
  moreover have "add_usize guarded (?pos + ?c) (length s) = Some (?pos + ?c + length s)" using assms(1) by (simp add: add_usize_def)
  moreover have "take (length s) (drop (?pos + ?c) ?data) = text_bytes s" by (simp add: put_text_def)
  moreover have "length ?data \<ge> ?pos + ?c + length s" by (simp add: put_text_def)
  ultimately show ?thesis
    using v assms(2) by (simp add: read_field_def utf8_lossy_valid) (simp add: put_text_def)
qed

lemma field_turn:
  assumes "i < length sch" and "sch ! i = (name, f)" and "length sch < 2 ^ 29" and "v \<noteq> JNull"
    and "wire_value lib parse (fs_type f) v"
    and "length pre + length (encode_field lib (word_of_nat (i + 1)) (fs_type f) v) < 2 ^ 64"
  shows "decode_turn parse guarded sch (pre @ encode_field lib (word_of_nat (i + 1)) (fs_type f) v @ rest) (length pre) obj
      = Continue (length pre + length (encode_field lib (word_of_nat (i + 1)) (fs_type f) v)) (AList.update name v obj)"
proof -
  let ?k = "word_of_nat (i + 1) :: 32 word"
  have tag: "decode_turn parse guarded sch (pre @ put_tag ?k w @ body) (length pre) obj
      = read_field parse guarded (pre @ put_tag ?k w @ body) name (fs_type f) (ucast (wire_code w)) (length pre + length (put_tag ?k w)) obj"
    for w body
  proof -
    have "decode_varint (drop (length pre) (pre @ put_tag ?k w @ body)) = Some (ucast (encode_tag ?k w), length (put_tag ?k w))"
      by (simp add: put_tag_def varint_round_trip)
    then show ?thesis
      using tag_number [of i w] assms(1-3) by (simp add: decode_turn_def Let_def)
  qed
  have texts: ?thesis if "encode_field lib ?k (fs_type f) v = put_text ?k s" and "valid_utf8 s" and "text_value parse (fs_type f) s = v" for s
    using tag [of WireLen "encode_varint (word_of_nat (length s)) @ text_bytes s @ rest"] that(2,3) assms(6)
      text_field_read [of pre ?k s parse guarded rest name "fs_type f" obj]
    unfolding that(1) by (simp add: put_text_def)
  have nums: ?thesis if "encode_field lib ?k (fs_type f) v = put_tag ?k WireVarint @ encode_varint x"
      and "(if fs_type f = FtBoolean then JBool (x \<noteq> 0) else jint (sint x)) = v" for x
  proof -
    have "decode_varint (drop (length pre + length (put_tag ?k WireVarint)) (pre @ put_tag ?k WireVarint @ encode_varint x @ rest))
      = Some (x, length (encode_varint x))" by (simp add: varint_round_trip)
    with tag [of WireVarint "encode_varint x @ rest"] that show ?thesis by (simp add: read_field_def)
  qed
  show ?thesis
  proof (cases "fs_type f")
    case FtInteger
    then obtain j where j: "v = jint j" "- (2 ^ 63) \<le> j" "j < 2 ^ 63" using assms(5) by (auto simp: wire_value_def)
    obtain n where n: "v = JNum n" using j(1) by (auto simp: jint_def)
    have i64: "num_as_i64 n = Some j" using as_i64_jint [OF j(2,3)] j(1) n by simp
    have "encode_field lib ?k (fs_type f) v = put_tag ?k WireVarint @ encode_varint (word_of_int j)"
      unfolding FtInteger n using i64 by (simp del: of_nat_add of_nat_Suc)
    from nums [OF this] FtInteger j(1) sint_word_of_int [OF j(2,3)] show ?thesis by simp
  next
    case FtNumber
    then obtain r where r: "v = JNum (Float r)" "is_f64 r" using assms(5) by (auto simp: wire_value_def)
    then show ?thesis
      using tag [of Wire64bit "le_bytes (f64_bits r) @ rest"] FtNumber
      by (simp add: read_field_def le_bytes_round_trip is_f64_def)
  next
    case FtBoolean
    then obtain b where "v = JBool b" using assms(5) by (auto simp: wire_value_def)
    with nums [of "if b then 1 else 0"] FtBoolean show ?thesis by simp
  next
    case FtJson
    then have v: "as_str v = None" "v \<noteq> JNull" "parse (sl_json_text lib v) = Some v" "valid_utf8 (sl_json_text lib v)"
      using assms(5) by (auto simp: wire_value_def)
    then have "encode_field lib ?k (fs_type f) v = put_text ?k (sl_json_text lib v)" using FtJson by (cases v) simp_all
    from texts [OF this v(4)] v(3) FtJson show ?thesis by (simp add: text_value_def or_else_def)
  next
    case FtArray
    then have v: "as_str v = None" "v \<noteq> JNull" "parse (sl_json_text lib v) = Some v" "valid_utf8 (sl_json_text lib v)"
      using assms(5) by (auto simp: wire_value_def)
    then have "encode_field lib ?k (fs_type f) v = put_text ?k (sl_json_text lib v)" using FtArray by (cases v) simp_all
    from texts [OF this v(4)] v(3) FtArray show ?thesis by (simp add: text_value_def or_else_def)
  qed (use assms(5) texts in \<open>auto simp: wire_value_def text_value_def\<close>)
qed

text \<open>What a record shows on the wire: its schema fields that are present and not null, in schema order.\<close>

definition carried :: "jmap \<Rightarrow> (string \<times> field_schema) list \<Rightarrow> jmap" where
  "carried obj sch = List.map_filter (\<lambda>(n, f). case map_of obj n of
     Some v \<Rightarrow> if v = JNull then None else Some (n, v) | None \<Rightarrow> None) sch"

lemma carried_Cons:
  "carried obj ((n, f) # sch) = (case map_of obj n of
     Some v \<Rightarrow> if v = JNull then carried obj sch else (n, v) # carried obj sch | None \<Rightarrow> carried obj sch)"
  by (simp add: carried_def map_filter_simps split: option.split)

lemma encode_varint_nonempty [simp]: "encode_varint v \<noteq> []"
  by (subst encode_varint.simps) simp

lemma encode_field_nonempty: "v \<noteq> JNull \<Longrightarrow> wire_value lib parse t v \<Longrightarrow> encode_field lib k t v \<noteq> []"
  by (cases t; cases v) (auto simp: wire_value_def put_text_def put_tag_def jint_def split: if_splits)

lemma update_new: "n \<notin> fst ` set al \<Longrightarrow> AList.update n v al = al @ [(n, v)]"
  by (induction al) auto

lemma members_round_trip:
  assumes "sch = before @ sch'" and "wf_map sch" and "length sch < 2 ^ 29"
    and "\<forall>(n, f) \<in> set sch'. \<forall>v. map_of obj n = Some v \<longrightarrow> v = JNull \<or> wire_value lib parse (fs_type f) v"
    and "length (pre @ encode_members lib (length before) sch' obj) < 2 ^ 64" and "fst ` set acc \<subseteq> fst ` set before"
  shows "decode_loop parse guarded sch (pre @ encode_members lib (length before) sch' obj) (length pre) acc
    = Some (Decoded (acc @ carried obj sch'))"
  using assms
proof (induction sch' arbitrary: before pre acc)
  case Nil
  then show ?case by (simp add: decode_loop.simps carried_def map_filter_simps)
next
  case (Cons nf sch')
  obtain n f where nf: "nf = (n, f)" by (cases nf)
  have fresh: "n \<notin> fst ` set acc" using Cons.prems(1,2,6) nf by (auto simp: wf_map_def)
  note step = Cons.IH [of "before @ [nf]", OF _ Cons.prems(2,3)]
  show ?case
  proof (cases "map_of obj n = None \<or> map_of obj n = Some JNull")
    case True
    then have "encode_members lib (length before) (nf # sch') obj = encode_members lib (Suc (length before)) sch' obj"
      and "carried obj (nf # sch') = carried obj sch'" by (auto simp: nf carried_Cons)
    moreover have "decode_loop parse guarded sch (pre @ encode_members lib (length (before @ [nf])) sch' obj) (length pre) acc
        = Some (Decoded (acc @ carried obj sch'))"
      by (rule step) (use Cons.prems calculation in auto)
    ultimately show ?thesis by simp
  next
    case False
    then obtain v where v: "map_of obj n = Some v" "v \<noteq> JNull" by auto
    with Cons.prems(4) nf have w: "wire_value lib parse (fs_type f) v" by fastforce
    let ?field = "encode_field lib (word_of_nat (length before + 1)) (fs_type f) v"
    let ?rest = "encode_members lib (length before + 1) sch' obj"
    have all: "encode_members lib (length before) (nf # sch') obj = ?field @ ?rest" by (simp add: nf v(1))
    have "decode_turn parse guarded sch (pre @ ?field @ ?rest) (length pre) acc
        = Continue (length pre + length ?field) (AList.update n v acc)"
      by (rule field_turn [OF _ _ Cons.prems(3) v(2) w]) (use Cons.prems(1,5) nf all in \<open>auto simp: nth_append\<close>)
    moreover have "\<not> length (pre @ ?field @ ?rest) \<le> length pre" using encode_field_nonempty [OF v(2) w] by simp
    moreover have "decode_loop parse guarded sch ((pre @ ?field) @ encode_members lib (length (before @ [nf])) sch' obj)
        (length (pre @ ?field)) (acc @ [(n, v)]) = Some (Decoded ((acc @ [(n, v)]) @ carried obj sch'))"
      by (rule step) (use Cons.prems nf all in auto)
    ultimately show ?thesis
      unfolding all by (simp add: decode_loop.simps [of parse guarded sch _ "length pre"] update_new [OF fresh] nf carried_Cons v)
  qed
qed

text \<open>Messages round-trip: decoding the encoding of a record, in either build, gives back its schema
  fields that are present and not null, with their values and in schema order, for every record whose
  values have the types of their columns.\<close>

lemma message_round_trip:
  assumes "wf_map sch" and "length sch < 2 ^ 29"
    and "\<forall>(n, f) \<in> set sch. \<forall>v. map_of obj n = Some v \<longrightarrow> v = JNull \<or> wire_value lib parse (fs_type f) v"
    and "length (encode_resource_message lib sch (JObj obj)) < 2 ^ 64"
  shows "decode_resource_message parse guarded sch (encode_resource_message lib sch (JObj obj)) = Some (Decoded (carried obj sch))"
proof -
  have "length ([] @ encode_members lib (length []) sch obj) < 2 ^ 64" using assms(4) by (simp add: encode_resource_message_def)
  from members_round_trip [OF _ assms(1-3) this, of "[]" guarded] show ?thesis
    by (simp add: encode_resource_message_def decode_resource_message_def)
qed

definition wire_schema :: "(string \<times> field_schema) list" where
  "wire_schema = [(''id'', plain_field FtUuid), (''n'', plain_field FtInteger), (''price'', plain_field FtNumber),
     (''note'', plain_field FtString)]"

definition wire_record :: jmap where
  "wire_record = [(''price'', JNum (Float (5 / 2))), (''id'', JStr ''u7''), (''n'', jint (- 3)), (''note'', JNull)]"

lemma decode_varint_loop_short: "decode_varint_loop i (7 * i) r bs = Some (v, c) \<Longrightarrow> i \<le> 9 \<Longrightarrow> c \<le> 10"
proof (induction bs arbitrary: i r)
  case (Cons b bs)
  have "7 * i + 7 = 7 * Suc i" by simp
  with Cons show ?case by (auto simp: Let_def simp del: mult_Suc_right split: if_splits)
qed simp

lemma encode_varint_short: "length (encode_varint v) \<le> 10"
  using decode_varint_loop_short [of 0 0 "encode_varint v @ []"] varint_round_trip [of v "[]"] by (simp add: decode_varint_def)

lemma find_upt:
  assumes "lo \<le> e" and "e < hi" and "P e" and "\<And>k. k < e \<Longrightarrow> \<not> P k"
  shows "find P [lo..<hi] = Some e"
  unfolding find_Some_iff using assms by (intro exI [of _ "e - lo"]) auto

lemma is_f64_example: "is_f64 (5 / 2)"
proof -
  have "\<not> 5 / 2 * 2 ^ 1022 < (2 :: rat) ^ k" if "k < 1024" for k
  proof -
    have "(2 :: rat) ^ k \<le> 2 ^ 1023" using that by (intro power_increasing) simp_all
    then show ?thesis by simp
  qed
  then have "find (\<lambda>e. 5 / 2 * 2 ^ 1022 < (2 :: rat) ^ e) [1..<2047] = Some 1024" by (intro find_upt) simp_all
  then have "f64_bits (5 / 2) = word_of_nat (1024 * 2 ^ 52 + (5 * 2 ^ 50 - 2 ^ 52))"
    unfolding f64_bits_def Let_def by (simp add: or_else_def)
  then show ?thesis by (simp add: is_f64_def f64_of_bits_def Let_def)
qed

end
