(* ===== verification/Grpc_Service.thy ===== *)
theory Grpc_Service
  imports Grpc_Codec Auth Endpoints
begin

text \<open>
  The gRPC service of \<open>shaperail-runtime/src/grpc/service.rs\<close> and \<open>server.rs\<close>: dispatch of a path to a
  resource and a method, authorization, the statements of every call and the framing of answers. The
  pool, the token crate, the wire primitives of \<open>prost\<close> and the parser of \<open>serde_json\<close> are parameters.
\<close>

section \<open>Statuses\<close>

datatype grpc_code =
    CodeOk | CodeInvalidArgument | CodeNotFound | CodeAlreadyExists | CodePermissionDenied | CodeResourceExhausted
  | CodeUnimplemented | CodeInternal | CodeUnauthenticated

fun code_number :: "grpc_code \<Rightarrow> nat" where
  "code_number CodeOk = 0"
| "code_number CodeInvalidArgument = 3"
| "code_number CodeNotFound = 5"
| "code_number CodeAlreadyExists = 6"
| "code_number CodePermissionDenied = 7"
| "code_number CodeResourceExhausted = 8"
| "code_number CodeUnimplemented = 12"
| "code_number CodeInternal = 13"
| "code_number CodeUnauthenticated = 16"

type_synonym grpc_status = "grpc_code \<times> string"

fun to_status :: "shaperail_error \<Rightarrow> grpc_status" where
  "to_status NotFound = (CodeNotFound, ''Resource not found'')"
| "to_status Unauthorized = (CodeUnauthenticated, ''Authentication required'')"
| "to_status Forbidden = (CodePermissionDenied, ''Access denied'')"
| "to_status (Validation errors) =
     (CodeInvalidArgument, join ''; '' (map (\<lambda>e. fe_field e @ '': '' @ fe_message e) errors))"
| "to_status (Conflict msg) = (CodeAlreadyExists, msg)"
| "to_status RateLimited = (CodeResourceExhausted, ''Rate limit exceeded'')"
| "to_status (Internal msg) = (CodeInternal, msg)"

text \<open>How a call ends: with an answer, with a status, or, in the decoder, with a panic or never.\<close>

datatype 'r rpc = Answered 'r | Failed grpc_status | Crashed | Hung

section \<open>The environment of a call\<close>

text \<open>The pool runs a statement with textual values; a query answers one JSON value per row.\<close>

record 'db grpc_pool =
  gp_fetch :: "string \<Rightarrow> string option list \<Rightarrow> 'db \<Rightarrow> 'db \<times> (string + json list)"
  gp_execute :: "string \<Rightarrow> string option list \<Rightarrow> 'db \<Rightarrow> 'db \<times> (string + unit)"
  gp_row_not_found :: string

record prost_lib =
  pb_key :: "nat \<Rightarrow> wire_type \<Rightarrow> bytes"
  pb_varint :: "64 word \<Rightarrow> bytes"

record 'db grpc_env =
  gv_lib :: sql_lib
  gv_parse :: json_parser
  gv_guarded :: bool
  gv_prost :: prost_lib
  gv_pool :: "'db grpc_pool"
  gv_resources :: "resource_definition list"
  gv_jwt :: "jwt_config option"
  gv_jwt_lib :: jwt_lib
  gv_now :: int

definition rpc_endpoint :: "resource_definition \<Rightarrow> string \<Rightarrow> endpoint_spec option" where
  "rpc_endpoint rd action = Option.bind (rd_endpoints rd) (\<lambda>eps. map_of eps action)"

definition enforce_rpc :: "resource_definition \<Rightarrow> string \<Rightarrow> authenticated_user option \<Rightarrow> grpc_status option" where
  "enforce_rpc rd action user = (case enforce (Option.bind (rpc_endpoint rd action) ep_auth) user of
     Inl e \<Rightarrow> Some (to_status e) | Inr _ \<Rightarrow> None)"

definition authorised_call :: "resource_definition \<Rightarrow> string \<Rightarrow> authenticated_user option \<Rightarrow> ('db \<Rightarrow> 'db \<times> 'r rpc) \<Rightarrow> 'db \<Rightarrow> 'db \<times> 'r rpc" where
  "authorised_call rd action user body db = (case enforce_rpc rd action user of
     Some st \<Rightarrow> (db, Failed st) | None \<Rightarrow> body db)"

section \<open>Messages\<close>

definition decoded_call :: "decoded option \<Rightarrow> (jmap \<Rightarrow> 'db \<Rightarrow> 'db \<times> 'r rpc) \<Rightarrow> 'db \<Rightarrow> 'db \<times> 'r rpc" where
  "decoded_call message body db = (case message of
     None \<Rightarrow> (db, Hung) | Some Panicked \<Rightarrow> (db, Crashed) | Some (Decoded obj) \<Rightarrow> body obj db)"

definition required_text :: field_schema where
  "required_text = (plain_field FtString)\<lparr>fs_required := True\<rparr>"

definition id_schema :: "(string \<times> field_schema) list" where
  "id_schema = [(''id'', required_text)]"

definition with_id :: "jmap \<Rightarrow> (string \<Rightarrow> 'db \<Rightarrow> 'db \<times> 'r rpc) \<Rightarrow> 'db \<Rightarrow> 'db \<times> 'r rpc" where
  "with_id obj body db = (case Option.bind (map_of obj ''id'') as_str of
     None \<Rightarrow> (db, Failed (CodeInvalidArgument, ''Missing '' @ squote ''id'' @ '' field'')) | Some i \<Rightarrow> body i db)"

text \<open>Field 1 of an answer: the record as a length-delimited message.\<close>

definition data_field :: "'db grpc_env \<Rightarrow> resource_definition \<Rightarrow> json \<Rightarrow> bytes" where
  "data_field env rd record =
     (let data = encode_resource_message (gv_lib env) (rd_schema rd) record in
      pb_key (gv_prost env) 1 WireLen @ pb_varint (gv_prost env) (word_of_nat (length data)) @ data)"

definition fetched :: "string + 'a \<Rightarrow> ('a \<Rightarrow> 'r rpc) \<Rightarrow> 'r rpc" where
  "fetched r k = (case r of Inl e \<Rightarrow> Failed (CodeInternal, e) | Inr x \<Rightarrow> k x)"

definition rpc_first_row :: "json list \<Rightarrow> (json \<Rightarrow> 'r rpc) \<Rightarrow> 'r rpc" where
  "rpc_first_row rows k = (case rows of [] \<Rightarrow> Failed (CodeNotFound, ''Not found'') | row # _ \<Rightarrow> k row)"

section \<open>Calls\<close>

definition rpc_get :: "'db grpc_env \<Rightarrow> resource_definition \<Rightarrow> authenticated_user option \<Rightarrow> bytes \<Rightarrow> 'db \<Rightarrow> 'db \<times> bytes rpc" where
  "rpc_get env rd user data = authorised_call rd ''get'' user
     (decoded_call (decode_resource_message (gv_parse env) (gv_guarded env) id_schema data) (\<lambda>obj. with_id obj (\<lambda>i db.
        (case gp_fetch (gv_pool env) (''SELECT row_to_json(t) FROM (SELECT * FROM '' @ rd_resource rd @ '' WHERE id = $1) t'')
            [Some i] db of (db', r) \<Rightarrow>
          (db', fetched r (\<lambda>rows. rpc_first_row rows (\<lambda>record. Answered (data_field env rd record))))))))"

definition rpc_list :: "'db grpc_env \<Rightarrow> resource_definition \<Rightarrow> authenticated_user option \<Rightarrow> bytes \<Rightarrow> 'db \<Rightarrow> 'db \<times> bytes rpc" where
  "rpc_list env rd user data = authorised_call rd ''list'' user (\<lambda>db.
     (case gp_fetch (gv_pool env) (''SELECT row_to_json(t) FROM (SELECT * FROM '' @ rd_resource rd @ '' LIMIT 100) t'') [] db of
        (db', r) \<Rightarrow> (db', fetched r (\<lambda>rows. Answered (concat (map (data_field env rd) rows)
          @ pb_key (gv_prost env) 3 WireVarint @ pb_varint (gv_prost env) 0
          @ pb_key (gv_prost env) 4 WireVarint @ pb_varint (gv_prost env) (word_of_nat (length rows)))))))"

definition rpc_stream_list :: "'db grpc_env \<Rightarrow> resource_definition \<Rightarrow> authenticated_user option \<Rightarrow> bytes \<Rightarrow>
    'db \<Rightarrow> 'db \<times> bytes list rpc" where
  "rpc_stream_list env rd user data = authorised_call rd ''list'' user (\<lambda>db.
     (case gp_fetch (gv_pool env) (''SELECT row_to_json(t) FROM (SELECT * FROM '' @ rd_resource rd @ '') t'') [] db of
        (db', r) \<Rightarrow> (db', fetched r (\<lambda>rows. Answered (map (encode_resource_message (gv_lib env) (rd_schema rd)) rows)))))"

definition rpc_input :: "resource_definition \<Rightarrow> string \<Rightarrow> string list" where
  "rpc_input rd action = or_else (Option.bind (rpc_endpoint rd action) ep_input) []"

text \<open>The declared input fields in the schema, behind what the schema holds already.\<close>

definition input_schema :: "resource_definition \<Rightarrow> string list \<Rightarrow> (string \<times> field_schema) list \<Rightarrow> (string \<times> field_schema) list" where
  "input_schema rd input = fold (\<lambda>n sch. case map_of (rd_schema rd) n of None \<Rightarrow> sch | Some f \<Rightarrow> AList.update n f sch) input"

definition bind_text :: "sql_lib \<Rightarrow> json \<Rightarrow> string option" where
  "bind_text lib v = (case v of
     JStr s \<Rightarrow> Some s
   | JNum n \<Rightarrow> Some (case num_as_i64 n of Some i \<Rightarrow> show_int i | None \<Rightarrow> show_f64 (sl_values lib) (num_as_f64 n))
   | JBool b \<Rightarrow> Some (if b then ''true'' else ''false'')
   | _ \<Rightarrow> None)"

definition input_binds :: "sql_lib \<Rightarrow> jmap \<Rightarrow> string list \<Rightarrow> string option list" where
  "input_binds lib obj input = map (\<lambda>n. bind_text lib (or_else (map_of obj n) JNull)) input"

definition create_query :: "resource_definition \<Rightarrow> string list \<Rightarrow> string" where
  "create_query rd input =
     ''INSERT INTO '' @ rd_resource rd @ '' (id, '' @ join '', '' input @ '') VALUES (gen_random_uuid(), ''
       @ join '', '' (map (\<lambda>i. CHR ''$'' # show_nat i) [1..<Suc (length input)]) @ '') RETURNING row_to_json('' @ rd_resource rd @ ''.*)''"

definition rpc_create :: "'db grpc_env \<Rightarrow> resource_definition \<Rightarrow> authenticated_user option \<Rightarrow> bytes \<Rightarrow> 'db \<Rightarrow> 'db \<times> bytes rpc" where
  "rpc_create env rd user data = authorised_call rd ''create'' user
     (let input = rpc_input rd ''create'' in
      decoded_call (decode_resource_message (gv_parse env) (gv_guarded env) (input_schema rd input []) data) (\<lambda>obj db.
        (case gp_fetch (gv_pool env) (create_query rd input) (input_binds (gv_lib env) obj input) db of (db', r) \<Rightarrow>
          (db', fetched r (\<lambda>rows. case rows of
              [] \<Rightarrow> Failed (CodeInternal, gp_row_not_found (gv_pool env))
            | record # _ \<Rightarrow> Answered (data_field env rd record))))))"

definition update_query :: "resource_definition \<Rightarrow> string list \<Rightarrow> string" where
  "update_query rd input =
     ''UPDATE '' @ rd_resource rd @ '' SET '' @ join '', '' (map (\<lambda>(i, f). f @ '' = $'' @ show_nat (i + 1)) (enumerate 0 input))
       @ '' WHERE id = $'' @ show_nat (length input + 1) @ '' RETURNING row_to_json('' @ rd_resource rd @ ''.*)''"

definition rpc_update :: "'db grpc_env \<Rightarrow> resource_definition \<Rightarrow> authenticated_user option \<Rightarrow> bytes \<Rightarrow> 'db \<Rightarrow> 'db \<times> bytes rpc" where
  "rpc_update env rd user data = authorised_call rd ''update'' user
     (let input = rpc_input rd ''update'' in
      if input = [] then (\<lambda>db. (db, Failed (CodeInvalidArgument, ''Update endpoint has no input fields declared'')))
      else decoded_call (decode_resource_message (gv_parse env) (gv_guarded env) (input_schema rd input id_schema) data) (\<lambda>obj.
        with_id obj (\<lambda>i db.
          (case gp_fetch (gv_pool env) (update_query rd input) (input_binds (gv_lib env) obj input @ [Some i]) db of (db', r) \<Rightarrow>
            (db', fetched r (\<lambda>rows. rpc_first_row rows (\<lambda>record. Answered (data_field env rd record))))))))"

definition delete_query :: "resource_definition \<Rightarrow> string" where
  "delete_query rd =
     (if (case rpc_endpoint rd ''delete'' of Some ep \<Rightarrow> ep_soft_delete ep | None \<Rightarrow> False)
      then ''UPDATE '' @ rd_resource rd @ '' SET deleted_at = NOW() WHERE id = $1''
      else ''DELETE FROM '' @ rd_resource rd @ '' WHERE id = $1'')"

definition rpc_delete :: "'db grpc_env \<Rightarrow> resource_definition \<Rightarrow> authenticated_user option \<Rightarrow> bytes \<Rightarrow> 'db \<Rightarrow> 'db \<times> bytes rpc" where
  "rpc_delete env rd user data = authorised_call rd ''delete'' user
     (decoded_call (decode_resource_message (gv_parse env) (gv_guarded env) id_schema data) (\<lambda>obj. with_id obj (\<lambda>i db.
        (case gp_execute (gv_pool env) (delete_query rd) [Some i] db of (db', r) \<Rightarrow>
          (db', fetched r (\<lambda>_. Answered (pb_key (gv_prost env) 1 WireVarint @ pb_varint (gv_prost env) 1)))))))"

section \<open>Dispatch\<close>

datatype grpc_response = Unary bytes | StreamOf "bytes list"

fun map_rpc :: "('a \<Rightarrow> 'b) \<Rightarrow> 'db \<times> 'a rpc \<Rightarrow> 'db \<times> 'b rpc" where
  "map_rpc f (db, Answered x) = (db, Answered (f x))"
| "map_rpc f (db, Failed st) = (db, Failed st)"
| "map_rpc f (db, Crashed) = (db, Crashed)"
| "map_rpc f (db, Hung) = (db, Hung)"

definition parse_grpc_path :: "string \<Rightarrow> (string \<times> string) option" where
  "parse_grpc_path path = Option.bind (strip_prefix ''/'' path) (\<lambda>rest.
     Option.bind (split_once CHR ''/'' rest) (\<lambda>(service, name).
       (let parts = split_on CHR ''.'' service in
        if 4 \<le> length parts \<and> parts ! 0 = ''shaperail'' then Some (parts ! 2, name) else None)))"

definition handle_rpc :: "'db grpc_env \<Rightarrow> string \<Rightarrow> string \<Rightarrow> authenticated_user option \<Rightarrow> bytes \<Rightarrow> 'db \<Rightarrow> 'db \<times> grpc_response rpc" where
  "handle_rpc env resource_name method_name user body db =
     (case find (\<lambda>rd. rd_resource rd = resource_name) (gv_resources env) of
        None \<Rightarrow> (db, Failed (CodeNotFound, ''Unknown resource: '' @ resource_name))
      | Some rd \<Rightarrow>
          if prefix ''Get'' method_name then map_rpc Unary (rpc_get env rd user body db)
          else if prefix ''Stream'' method_name then map_rpc StreamOf (rpc_stream_list env rd user body db)
          else if prefix ''List'' method_name then map_rpc Unary (rpc_list env rd user body db)
          else if prefix ''Create'' method_name then map_rpc Unary (rpc_create env rd user body db)
          else if prefix ''Update'' method_name then map_rpc Unary (rpc_update env rd user body db)
          else if prefix ''Delete'' method_name then map_rpc Unary (rpc_delete env rd user body db)
          else (db, Failed (CodeUnimplemented, ''Unknown method: '' @ method_name)))"

definition extract_user_from_headers :: "'db grpc_env \<Rightarrow> header_value option \<Rightarrow> authenticated_user option" where
  "extract_user_from_headers env authorization =
     (case authorization of
        Some (Text s) \<Rightarrow> Option.bind (strip_prefix ''Bearer '' s) (\<lambda>token. Option.bind (gv_jwt env) (\<lambda>jwt.
          (case decode_token (gv_jwt_lib env) jwt (gv_now env) token of
             Inl e \<Rightarrow> None
           | Inr c \<Rightarrow> if cl_token_type c \<noteq> ''access'' then None
               else Some \<lparr>au_sub = cl_sub c, au_role = cl_role c, au_tenant_id = None\<rparr>)))
      | _ \<Rightarrow> None)"

text \<open>A frame: no compression, the length in four big-endian bytes, the data.\<close>

definition grpc_frame :: "bytes \<Rightarrow> bytes" where
  "grpc_frame data = 0 # map (\<lambda>k. ucast (drop_bit (8 * k) (word_of_nat (length data) :: 32 word))) [3, 2, 1, 0] @ data"

record grpc_reply =
  gr_status :: nat
  gr_message :: "string option"
  gr_body :: bytes

definition error_reply :: "grpc_status \<Rightarrow> grpc_reply" where
  "error_reply st = \<lparr>gr_status = code_number (fst st), gr_message = Some (snd st), gr_body = []\<rparr>"

definition data_reply :: "bytes \<Rightarrow> grpc_reply" where
  "data_reply data = \<lparr>gr_status = 0, gr_message = None, gr_body = grpc_frame data\<rparr>"

definition reply_of :: "grpc_response \<Rightarrow> grpc_reply" where
  "reply_of r = (case r of Unary data \<Rightarrow> data_reply data | StreamOf items \<Rightarrow> data_reply (concat (map grpc_frame items)))"

text \<open>\<open>call\<close>: a body that cannot be read counts as empty; the first five bytes are the frame header.\<close>

definition grpc_call :: "'db grpc_env \<Rightarrow> string \<Rightarrow> header_value option \<Rightarrow> bytes option \<Rightarrow> 'db \<Rightarrow> 'db \<times> grpc_reply rpc" where
  "grpc_call env path authorization body db =
     (let user = extract_user_from_headers env authorization; bytes = or_else body [];
          message = (if 5 \<le> length bytes then drop 5 bytes else bytes)
      in (case parse_grpc_path path of
            None \<Rightarrow> (db, Answered (error_reply (CodeUnimplemented, ''Unknown path: '' @ path)))
          | Some (resource_name, method_name) \<Rightarrow>
              (case handle_rpc env resource_name method_name user message db of
                 (db', Answered r) \<Rightarrow> (db', Answered (reply_of r))
               | (db', Failed st) \<Rightarrow> (db', Answered (error_reply st))
               | (db', Crashed) \<Rightarrow> (db', Crashed)
               | (db', Hung) \<Rightarrow> (db', Hung))))"

text \<open>The interceptor of \<open>interceptor.rs\<close>: no token is a guest, a bad token is refused.\<close>

definition extract_grpc_auth :: "jwt_lib \<Rightarrow> jwt_config option \<Rightarrow> int \<Rightarrow> header_value option \<Rightarrow> grpc_status + authenticated_user option" where
  "extract_grpc_auth jlib jwt now authorization = (case authorization of
     None \<Rightarrow> Inr None
   | Some Opaque \<Rightarrow> Inl (CodeUnauthenticated, ''Invalid authorization header encoding'')
   | Some (Text s) \<Rightarrow>
       and_then (ok_or (CodeUnauthenticated, ''Authorization must use Bearer scheme'') (strip_prefix ''Bearer '' s)) (\<lambda>token.
       and_then (ok_or (CodeInternal, ''JWT not configured'') jwt) (\<lambda>cfg.
         (case decode_token jlib cfg now token of
            Inl e \<Rightarrow> Inl (CodeUnauthenticated, ''Invalid or expired token'')
          | Inr c \<Rightarrow> if cl_token_type c \<noteq> ''access'' then Inl (CodeUnauthenticated, ''Only access tokens are accepted'')
              else Inr (Some \<lparr>au_sub = cl_sub c, au_role = cl_role c, au_tenant_id = None\<rparr>)))))"

section \<open>Authorization\<close>

text \<open>The action of a method name, by its prefix.\<close>

definition rpc_action :: "string \<Rightarrow> string option" where
  "rpc_action name = map_option snd (find (\<lambda>(p, a). prefix p name)
     [(''Get'', ''get''), (''Stream'', ''list''), (''List'', ''list''), (''Create'', ''create''), (''Update'', ''update''),
      (''Delete'', ''delete'')])"

definition may_call :: "resource_definition \<Rightarrow> string \<Rightarrow> authenticated_user option \<Rightarrow> bool" where
  "may_call rd action user \<longleftrightarrow> is_ok (enforce (Option.bind (rpc_endpoint rd action) ep_auth) user)"

text \<open>A call that is not allowed leaves the database alone and fails.\<close>

definition refused :: "'db \<Rightarrow> 'db \<times> 'r rpc \<Rightarrow> bool" where
  "refused db out \<longleftrightarrow> (\<exists>st. out = (db, Failed st) \<and> fst st \<noteq> CodeOk)"

lemma to_status_error: "fst (to_status e) \<noteq> CodeOk"
  by (cases e) simp_all

lemma authorised_call_refused: "\<not> may_call rd action user \<Longrightarrow> refused db (authorised_call rd action user body db)"
  by (cases "enforce (Option.bind (rpc_endpoint rd action) ep_auth) user")
    (simp_all add: may_call_def authorised_call_def enforce_rpc_def refused_def to_status_error)

lemma map_rpc_refused: "refused db out \<Longrightarrow> refused db (map_rpc f out)"
  by (auto simp: refused_def)

lemma calls_refused:
  "\<not> may_call rd ''get'' user \<Longrightarrow> refused db (rpc_get env rd user data db)"
  "\<not> may_call rd ''list'' user \<Longrightarrow> refused db (rpc_list env rd user data db)"
  "\<not> may_call rd ''list'' user \<Longrightarrow> refused db (rpc_stream_list env rd user data db)"
  "\<not> may_call rd ''create'' user \<Longrightarrow> refused db (rpc_create env rd user data db)"
  "\<not> may_call rd ''update'' user \<Longrightarrow> refused db (rpc_update env rd user data db)"
  "\<not> may_call rd ''delete'' user \<Longrightarrow> refused db (rpc_delete env rd user data db)"
  by (simp_all add: rpc_get_def rpc_list_def rpc_stream_list_def rpc_create_def rpc_update_def rpc_delete_def
      authorised_call_refused)

lemma handle_rpc_refused:
  assumes "\<not> (\<exists>rd action. find (\<lambda>rd. rd_resource rd = rn) (gv_resources env) = Some rd \<and> rpc_action name = Some action
      \<and> may_call rd action user)"
  shows "refused db (handle_rpc env rn name user body db)"
proof (cases "find (\<lambda>rd. rd_resource rd = rn) (gv_resources env)")
  case None
  then show ?thesis by (simp add: handle_rpc_def refused_def)
next
  case (Some rd)
  then have no: "\<not> (\<exists>a. rpc_action name = Some a \<and> may_call rd a user)" using assms by blast
  show ?thesis
  proof (cases "rpc_action name")
    case None
    then show ?thesis
      using Some by (auto simp: handle_rpc_def rpc_action_def refused_def split: if_splits)
  next
    case (Some a)
    with no have "\<not> may_call rd a user" by blast
    then show ?thesis
      using Some \<open>find _ _ = Some rd\<close>
      by (auto simp: handle_rpc_def rpc_action_def calls_refused intro!: map_rpc_refused split: if_splits)
  qed
qed


text \<open>A toy pool over a list of statements, and a resource that declares a guarded list only.\<close>

definition toy_grpc_pool :: "(string \<times> string option list) list grpc_pool" where
  "toy_grpc_pool = \<lparr>gp_fetch = (\<lambda>sql binds db. (db @ [(sql, binds)], Inr [JObj [(''id'', JStr ''3'')]])),
     gp_execute = (\<lambda>sql binds db. (db @ [(sql, binds)], Inr ())), gp_row_not_found = ''no rows''\<rparr>"

definition toy_prost :: prost_lib where
  "toy_prost = \<lparr>pb_key = (\<lambda>k w. put_tag (word_of_nat k) w), pb_varint = encode_varint\<rparr>"

definition rpc_users :: resource_definition where
  "rpc_users = sample_users\<lparr>rd_resource := ''users'',
     rd_endpoints := Some [(''list'', default_endpoint\<lparr>ep_auth := Some (Roles [''admin''])\<rparr>)]\<rparr>"

definition toy_grpc :: "(string \<times> string option list) list grpc_env" where
  "toy_grpc = \<lparr>gv_lib = toy_sql_lib, gv_parse = (\<lambda>s. None), gv_guarded = False, gv_prost = toy_prost, gv_pool = toy_grpc_pool,
     gv_resources = [rpc_users], gv_jwt = Some (jwt_config_new ''secret'' 60 60),
     gv_jwt_lib = \<lparr>jwt_encode = (\<lambda>secret c. Inl ''unused''),
       jwt_decode = (\<lambda>secret now token. Inr \<lparr>cl_sub = token, cl_role = ''admin'', cl_iat = 0, cl_exp = 9,
         cl_token_type = ''access'', cl_tenant_id = Some ''t1''\<rparr>)\<rparr>, gv_now = 0\<rparr>"

definition stream_users :: "(string \<times> string option list) list \<times> grpc_reply rpc" where
  "stream_users = grpc_call toy_grpc ''/shaperail.v1.users.UserService/StreamUsers'' (Some (Text ''Bearer ann'')) None []"


section \<open>Where the service goes wrong\<close>

text \<open>An endpoint that the resource does not declare has no auth rule: anyone deletes over gRPC from a
  resource that offers a guarded list only.\<close>

definition anonymous_delete :: "(string \<times> string option list) list \<times> grpc_reply rpc" where
  "anonymous_delete = grpc_call toy_grpc ''/shaperail.v1.users.UserService/DeleteUser'' None
     (Some ([0, 0, 0, 0, 3] @ put_text 1 ''3'')) []"

lemma decode_id_message:
  assumes "valid_utf8 s" and "length s < 2 ^ 62"
  shows "decode_resource_message parse guarded id_schema (put_text 1 s) = Some (Decoded [(''id'', JStr s)])"
proof -
  have "wire_value toy_sql_lib parse FtString (JStr s)" using assms by (simp add: wire_value_def)
  moreover have "length (put_text 1 s) < 2 ^ 64"
    using assms(2) encode_varint_short [of "ucast (encode_tag 1 WireLen)"] encode_varint_short [of "word_of_nat (length s)"]
    by (simp add: put_text_def put_tag_def)
  ultimately show ?thesis
    using members_round_trip [of id_schema "[]" id_schema "[(''id'', JStr s)]" toy_sql_lib parse "[]" "[]" guarded]
    by (simp add: id_schema_def required_text_def plain_field_def wf_map_def decode_resource_message_def carried_Cons)
      (simp add: carried_def map_filter_simps)
qed

lemma undeclared_rpcs_open:
  "fst anonymous_delete = [(''DELETE FROM users WHERE id = $1'', [Some ''3''])]"
proof -
  have "parse_grpc_path ''/shaperail.v1.users.UserService/DeleteUser'' = Some (''users'', ''DeleteUser'')" by code_simp
  moreover have "rpc_endpoint rpc_users ''delete'' = None" by (simp add: rpc_endpoint_def rpc_users_def)
  moreover have "valid_utf8 ''3''" by code_simp
  ultimately show ?thesis
    using decode_id_message [of "''3''" "\<lambda>s. None" False]
    by (simp add: anonymous_delete_def grpc_call_def Let_def extract_user_from_headers_def or_else_def handle_rpc_def toy_grpc_def
        rpc_delete_def authorised_call_def enforce_rpc_def enforce_def decoded_call_def with_id_def delete_query_def toy_grpc_pool_def
        fetched_def rpc_users_def)
qed

text \<open>The user of a gRPC call has no tenant, whatever the token says.\<close>

lemma grpc_users_have_no_tenant: "extract_user_from_headers env h = Some u \<Longrightarrow> au_tenant_id u = None"
  by (auto simp: extract_user_from_headers_def bind_eq_Some_conv split: option.splits header_value.splits)
    (auto split: sum.splits if_splits)

text \<open>The service registers under the name \<open>shaperail\<close>, so that the router sends it the paths below
  \<open>/shaperail/\<close>; none of them names a resource.\<close>

lemma routed_paths_unknown: "parse_grpc_path (''/shaperail/'' @ rest) = None"
  by (auto simp: parse_grpc_path_def strip_prefix_def split_once_def Let_def bind_eq_None_conv)

text \<open>A create without declared input is not a statement.\<close>

lemma create_without_input:
  "create_query rpc_users [] = ''INSERT INTO users (id, ) VALUES (gen_random_uuid(), ) RETURNING row_to_json(users.*)''"
  by code_simp

end
