(* ===== verification/Proto_Files.thy ===== *)
theory Proto_Files
  imports Grpc_Service Openapi
begin

text \<open>
  The \<open>.proto\<close> file that \<open>shaperail-codegen/src/proto.rs\<close> writes for a resource: the messages with their
  field numbers, the service with its calls, and the whole text. Below, that the runtime's codec and
  dispatch agree with the file that clients are compiled from. Upper case outside ASCII is a parameter.
\<close>

section \<open>Names and types\<close>

fun field_type_to_proto :: "field_type \<Rightarrow> string" where
  "field_type_to_proto FtUuid = ''string''"
| "field_type_to_proto FtString = ''string''"
| "field_type_to_proto FtInteger = ''int64''"
| "field_type_to_proto FtNumber = ''double''"
| "field_type_to_proto FtBoolean = ''bool''"
| "field_type_to_proto FtTimestamp = ''google.protobuf.Timestamp''"
| "field_type_to_proto FtDate = ''string''"
| "field_type_to_proto FtEnum = ''string''"
| "field_type_to_proto FtJson = ''google.protobuf.Struct''"
| "field_type_to_proto FtArray = ''google.protobuf.ListValue''"
| "field_type_to_proto FtFile = ''string''"

definition needs_wkt_import :: "field_type \<Rightarrow> bool" where
  "needs_wkt_import t \<longleftrightarrow> t = FtTimestamp \<or> t = FtJson \<or> t = FtArray"

definition proto_pascal_case :: "(string \<Rightarrow> string) \<Rightarrow> string \<Rightarrow> string" where
  "proto_pascal_case up s = concat (map (\<lambda>part. case chars part of
       [] \<Rightarrow> [] | c # cs \<Rightarrow> upper_first up c @ concat cs) (split_on CHR ''_'' s))"

definition to_singular :: "string \<Rightarrow> string" where
  "to_singular s =
     (if list_ex (\<lambda>e. suffix e s) [''status'', ''bus'', ''alias'', ''canvas''] then s
      else (case strip_suffix ''ies'' s of
          Some stripped \<Rightarrow> stripped @ ''y''
        | None \<Rightarrow>
            if suffix ''ses'' s \<or> suffix ''xes'' s \<or> suffix ''zes'' s then take (length s - 2) s
            else (case strip_suffix ''s'' s of
                Some stripped \<Rightarrow> if suffix ''s'' stripped then s else stripped
              | None \<Rightarrow> s)))"

section \<open>Messages\<close>

text \<open>A field of a message: its type, its name and its number.\<close>

type_synonym proto_field = "string \<times> string \<times> nat"

definition numbered :: "nat \<Rightarrow> (string \<times> string) list \<Rightarrow> proto_field list" where
  "numbered first fs = map (\<lambda>(i, (t, n)). (t, n, i)) (enumerate first fs)"

definition field_line :: "proto_field \<Rightarrow> string" where
  "field_line f = (case f of (t, n, k) \<Rightarrow> ''  '' @ t @ '' '' @ n @ '' = '' @ show_nat k @ '';'' @ newline)"

definition message_text :: "string \<Rightarrow> string \<Rightarrow> string" where
  "message_text name body = ''message '' @ name @ '' {'' @ newline @ body @ ''}'' @ newline @ newline"

definition simple_message :: "string \<Rightarrow> proto_field list \<Rightarrow> string" where
  "simple_message name fs = message_text name (concat (map field_line fs))"

definition resource_fields :: "resource_definition \<Rightarrow> proto_field list" where
  "resource_fields rd = numbered 1 (map (\<lambda>(n, f). (field_type_to_proto (fs_type f), n)) (rd_schema rd))"

definition resource_body :: "resource_definition \<Rightarrow> string" where
  "resource_body rd = concat (map (\<lambda>((n, f), line).
       (case fs_values f of
          Some vs \<Rightarrow> if fs_type f = FtEnum then ''  // Allowed values: '' @ join '', '' vs @ newline else []
        | None \<Rightarrow> []) @ field_line line)
     (zip (rd_schema rd) (resource_fields rd)))"

definition list_request_fields :: "endpoint_spec \<Rightarrow> proto_field list" where
  "list_request_fields ep = numbered 1
     (map (\<lambda>f. (''string'', f)) (or_else (ep_filters ep) [])
      @ (if ep_search ep = None then [] else [(''string'', ''search'')])
      @ [(''string'', ''cursor''), (''int32'', ''page_size''), (''string'', ''sort'')])"

definition input_type :: "resource_definition \<Rightarrow> string \<Rightarrow> string" where
  "input_type rd name = (case map_of (rd_schema rd) name of
     Some f \<Rightarrow> field_type_to_proto (fs_type f) | None \<Rightarrow> ''string'')"

definition id_field :: proto_field where
  "id_field = (''string'', ''id'', 1)"

definition create_request_fields :: "resource_definition \<Rightarrow> endpoint_spec \<Rightarrow> proto_field list" where
  "create_request_fields rd ep = numbered 1 (map (\<lambda>n. (input_type rd n, n)) (or_else (ep_input ep) []))"

definition update_request_fields :: "resource_definition \<Rightarrow> endpoint_spec \<Rightarrow> proto_field list" where
  "update_request_fields rd ep = id_field # numbered 2 (map (\<lambda>n. (input_type rd n, n)) (or_else (ep_input ep) []))"

definition data_response :: "string \<Rightarrow> string \<Rightarrow> string" where
  "data_response name pascal = simple_message name [(pascal, ''data'', 1)]"

section \<open>The file\<close>

definition proto_package :: "resource_definition \<Rightarrow> string" where
  "proto_package rd = ''shaperail.v'' @ show_nat (rd_version rd) @ ''.'' @ rd_resource rd"

text \<open>The calls of the service: comment, name, request and answer, and the blank line behind all but delete.\<close>

type_synonym rpc_entry = "string \<times> string \<times> string \<times> string \<times> string"

definition rpc_entries :: "(string \<Rightarrow> string) \<Rightarrow> resource_definition \<Rightarrow> rpc_entry list" where
  "rpc_entries up rd =
     (let singular = to_singular (rd_resource rd); pascal = proto_pascal_case up singular;
          plural = proto_pascal_case up (rd_resource rd);
          entry = (\<lambda>action op comment. if rpc_endpoint rd action = None then [] else
            [(comment, op @ pascal, op @ pascal @ ''Request'', op @ pascal @ ''Response'',
              (if action = ''delete'' then [] else newline))])
      in (if rpc_endpoint rd ''list'' = None then [] else
            [(''Lists '' @ rd_resource rd @ '' with filters, pagination, and sorting.'', ''List'' @ plural,
              ''List'' @ plural @ ''Request'', ''List'' @ plural @ ''Response'', newline),
             (''Streams '' @ rd_resource rd @ '' matching the request filters.'', ''Stream'' @ plural,
              ''List'' @ plural @ ''Request'', ''stream '' @ pascal, newline)])
         @ entry ''get'' ''Get'' (''Gets a single '' @ singular @ '' by ID.'')
         @ entry ''create'' ''Create'' (''Creates a new '' @ singular @ ''.'')
         @ entry ''update'' ''Update'' (''Updates an existing '' @ singular @ ''.'')
         @ entry ''delete'' ''Delete'' (''Deletes a '' @ singular @ '' by ID.''))"

definition rpc_text :: "rpc_entry \<Rightarrow> string" where
  "rpc_text e = (case e of (comment, name, req, resp, gap) \<Rightarrow>
     ''  // '' @ comment @ newline @ ''  rpc '' @ name @ ''('' @ req @ '') returns ('' @ resp @ '');'' @ newline @ gap)"

definition endpoint_messages :: "(string \<Rightarrow> string) \<Rightarrow> resource_definition \<Rightarrow> string" where
  "endpoint_messages up rd =
     (let pascal = proto_pascal_case up (to_singular (rd_resource rd)); plural = proto_pascal_case up (rd_resource rd);
          given = (\<lambda>action body. case rpc_endpoint rd action of None \<Rightarrow> [] | Some ep \<Rightarrow> body ep)
      in given ''list'' (\<lambda>ep. simple_message (''List'' @ plural @ ''Request'') (list_request_fields ep)
           @ simple_message (''List'' @ plural @ ''Response'') [(''repeated '' @ pascal, ''items'', 1),
               (''string'', ''next_cursor'', 2), (''bool'', ''has_more'', 3), (''int64'', ''total'', 4)])
       @ given ''get'' (\<lambda>ep. simple_message (''Get'' @ pascal @ ''Request'') [id_field]
           @ data_response (''Get'' @ pascal @ ''Response'') pascal)
       @ given ''create'' (\<lambda>ep. simple_message (''Create'' @ pascal @ ''Request'') (create_request_fields rd ep)
           @ data_response (''Create'' @ pascal @ ''Response'') pascal)
       @ given ''update'' (\<lambda>ep. simple_message (''Update'' @ pascal @ ''Request'') (update_request_fields rd ep)
           @ data_response (''Update'' @ pascal @ ''Response'') pascal)
       @ given ''delete'' (\<lambda>ep. simple_message (''Delete'' @ pascal @ ''Request'') [id_field]
           @ simple_message (''Delete'' @ pascal @ ''Response'') [(''bool'', ''success'', 1)]))"

definition proto_imports :: "resource_definition \<Rightarrow> string" where
  "proto_imports rd =
     (let types = map (\<lambda>(n, f). fs_type f) (rd_schema rd);
          timestamp = FtTimestamp \<in> set types; struct = FtJson \<in> set types \<or> FtArray \<in> set types;
          import_line = (\<lambda>file. ''import '' @ dquote (''google/protobuf/'' @ file) @ '';'' @ newline)
      in (if timestamp then import_line ''timestamp.proto'' else [])
       @ (if struct then import_line ''struct.proto'' else [])
       @ (if timestamp \<or> struct then newline else []))"

definition generate_proto :: "(string \<Rightarrow> string) \<Rightarrow> resource_definition \<Rightarrow> string" where
  "generate_proto up rd =
     (let pascal = proto_pascal_case up (to_singular (rd_resource rd)) in
      ''syntax = '' @ dquote ''proto3'' @ '';'' @ newline @ newline
      @ ''package '' @ proto_package rd @ '';'' @ newline @ newline
      @ proto_imports rd
      @ ''// '' @ pascal @ '' resource message.'' @ newline
      @ message_text pascal (resource_body rd)
      @ endpoint_messages up rd
      @ ''// gRPC service for '' @ rd_resource rd @ '' (v'' @ show_nat (rd_version rd) @ '').'' @ newline
      @ ''service '' @ pascal @ ''Service {'' @ newline
      @ concat (map rpc_text (rpc_entries up rd))
      @ ''}'' @ newline)"

definition generate_all_protos :: "(string \<Rightarrow> string) \<Rightarrow> resource_definition list \<Rightarrow> (string \<times> string) list" where
  "generate_all_protos up rds = map (\<lambda>rd. (rd_resource rd @ ''.proto'', generate_proto up rd)) rds"

section \<open>Requests compiled from the file are understood\<close>

text \<open>A client that is compiled from the file writes each field under its number, in the encoding of its scalar
  type; the types that are messages of their own (timestamps, structs, lists) are left out.\<close>

definition scalar_type :: "string \<Rightarrow> field_type" where
  "scalar_type t = (if t = ''int64'' then FtInteger else if t = ''double'' then FtNumber
     else if t = ''bool'' then FtBoolean else FtString)"

definition client_message :: "sql_lib \<Rightarrow> proto_field list \<Rightarrow> jmap \<Rightarrow> bytes" where
  "client_message lib fs obj = concat (map (\<lambda>(t, n, k). case map_of obj n of
     None \<Rightarrow> [] | Some v \<Rightarrow> encode_field lib (word_of_nat k) (scalar_type t) v) fs)"

lemma scalar_encoding:
  assumes "v = JNull \<or> wire_value lib parse t v" "\<not> needs_wkt_import t"
  shows "encode_field lib k (scalar_type (field_type_to_proto t)) v = encode_field lib k t v"
  using assms by (cases t) (auto simp: scalar_type_def needs_wkt_import_def wire_value_def)

lemma numbered_Cons: "numbered k ((t, n) # xs) = (t, n, k) # numbered (Suc k) xs"
  by (simp add: numbered_def)

lemma client_message_members:
  assumes "\<forall>(n, f) \<in> set sch. \<not> needs_wkt_import (fs_type f)"
    and "\<forall>(n, f) \<in> set sch. \<forall>v. map_of obj n = Some v \<longrightarrow> v = JNull \<or> wire_value lib parse (fs_type f) v"
  shows "client_message lib (numbered (Suc i) (map (\<lambda>(n, f). (field_type_to_proto (fs_type f), n)) sch)) obj
    = encode_members lib i sch obj"
  using assms
proof (induction sch arbitrary: i)
  case (Cons nf sch)
  obtain n f where nf: "nf = (n, f)" by fastforce
  have "(case map_of obj n of None \<Rightarrow> [] | Some v \<Rightarrow> encode_field lib (word_of_nat (Suc i)) (scalar_type (field_type_to_proto (fs_type f))) v)
      = (case map_of obj n of None \<Rightarrow> [] | Some v \<Rightarrow> encode_field lib (word_of_nat (Suc i)) (fs_type f) v)"
    using Cons.prems nf scalar_encoding by (fastforce split: option.split)
  with Cons nf show ?case by (simp add: numbered_Cons client_message_def del: of_nat_Suc flip: Suc_eq_plus1 cong: option.case_cong)
qed (simp add: client_message_def numbered_def)

text \<open>The schema that the server decodes a request with lists the declared input behind what it holds already.\<close>

lemma input_schema_declared:
  assumes "distinct (map fst acc @ input)" "set input \<subseteq> fst ` set (rd_schema rd)"
  shows "input_schema rd input acc = acc @ map (\<lambda>n. (n, the (map_of (rd_schema rd) n))) input"
  using assms
proof (induction input arbitrary: acc)
  case (Cons n input)
  then obtain f where f: "map_of (rd_schema rd) n = Some f" using has_key_iff [of "rd_schema rd" n] by auto
  then have "input_schema rd (n # input) acc = input_schema rd input (acc @ [(n, f)])"
    using Cons.prems(1) by (simp add: input_schema_def update_new)
  with Cons f show ?case by simp
qed (simp add: input_schema_def)

lemma input_fields:
  assumes "distinct (map fst acc @ input)" "set input \<subseteq> fst ` set (rd_schema rd)"
  shows "map (\<lambda>(n, f). (field_type_to_proto (fs_type f), n)) (input_schema rd input acc)
    = map (\<lambda>(n, f). (field_type_to_proto (fs_type f), n)) acc @ map (\<lambda>n. (input_type rd n, n)) input"
proof -
  have "input_type rd n = field_type_to_proto (fs_type (the (map_of (rd_schema rd) n)))" if "n \<in> set input" for n
    using that assms(2) has_key_iff [of "rd_schema rd" n] by (auto simp: input_type_def)
  then show ?thesis by (simp add: input_schema_declared [OF assms])
qed

lemma input_schema_wf:
  assumes "distinct (map fst acc @ input)" "set input \<subseteq> fst ` set (rd_schema rd)"
  shows "wf_map (input_schema rd input acc)" "length (input_schema rd input acc) = length acc + length input"
  unfolding input_schema_declared [OF assms] using assms(1) by (auto simp: wf_map_def o_def)

text \<open>The shape of a declared input: distinct fields of the schema with scalar types, and values of those types.\<close>

definition plain_input :: "resource_definition \<Rightarrow> string list \<Rightarrow> bool" where
  "plain_input rd input \<longleftrightarrow> distinct input \<and> set input \<subseteq> fst ` set (rd_schema rd) \<and> length input < 2 ^ 28
     \<and> (\<forall>n \<in> set input. \<not> needs_wkt_import (fs_type (the (map_of (rd_schema rd) n))))"

definition typed_input :: "sql_lib \<Rightarrow> json_parser \<Rightarrow> (string \<times> field_schema) list \<Rightarrow> jmap \<Rightarrow> bool" where
  "typed_input lib parse sch obj \<longleftrightarrow>
     (\<forall>(n, f) \<in> set sch. \<forall>v. map_of obj n = Some v \<longrightarrow> v = JNull \<or> wire_value lib parse (fs_type f) v)"

lemma client_message_decoded:
  assumes input: "plain_input rd input" and acc: "\<forall>(n, f) \<in> set acc. \<not> needs_wkt_import (fs_type f)" "length acc < 2 ^ 28"
    and names: "distinct (map fst acc @ input)" and typed: "typed_input lib parse (input_schema rd input acc) obj"
    and fs: "fs = numbered 1 (map (\<lambda>(n, f). (field_type_to_proto (fs_type f), n)) acc @ map (\<lambda>n. (input_type rd n, n)) input)"
    and size: "length (client_message lib fs obj) < 2 ^ 64"
  shows "decode_resource_message parse guarded (input_schema rd input acc) (client_message lib fs obj)
    = Some (Decoded (carried obj (input_schema rd input acc)))"
proof -
  let ?sch = "input_schema rd input acc"
  have known: "set input \<subseteq> fst ` set (rd_schema rd)" using input by (simp add: plain_input_def)
  have "\<forall>(n, f) \<in> set ?sch. \<not> needs_wkt_import (fs_type f)"
    using acc(1) input by (auto simp: input_schema_declared [OF names known] plain_input_def)
  moreover have "fs = numbered (Suc 0) (map (\<lambda>(n, f). (field_type_to_proto (fs_type f), n)) ?sch)"
    using fs by (simp add: input_fields [OF names known])
  ultimately have bytes: "client_message lib fs obj = encode_resource_message lib ?sch (JObj obj)"
    using client_message_members [of ?sch obj lib parse 0] typed
    by (simp add: encode_resource_message_def typed_input_def)
  have "length ?sch < 2 ^ 29" using input_schema_wf(2) [OF names known] input acc(2) by (simp add: plain_input_def)
  then show ?thesis
    using message_round_trip [OF input_schema_wf(1) [OF names known] _ typed [unfolded typed_input_def], of guarded] size
    unfolding bytes by blast
qed


text \<open>A resource for the examples.\<close>

definition toy_order :: resource_definition where
  "toy_order = \<lparr>rd_resource = ''orders'', rd_version = 1, rd_db = None, rd_tenant_key = None,
     rd_schema = [(''id'', plain_field FtUuid), (''n'', plain_field FtInteger), (''note'', plain_field FtString)],
     rd_endpoints = None, rd_relations = None, rd_indexes = None\<rparr>"

definition toy_order_input :: endpoint_spec where
  "toy_order_input = default_endpoint\<lparr>ep_input := Some [''note'', ''n'']\<rparr>"

definition toy_body :: jmap where
  "toy_body = [(''note'', JStr ''x''), (''id'', JStr ''7'')]"

lemma toy_input_schema:
  "input_schema toy_order [''note'', ''n''] [] = [(''note'', plain_field FtString), (''n'', plain_field FtInteger)]"
  "input_schema toy_order [''note'', ''n''] id_schema
    = [(''id'', required_text), (''note'', plain_field FtString), (''n'', plain_field FtInteger)]"
  by (simp_all add: input_schema_def toy_order_def id_schema_def)

lemma toy_create_message:
  "client_message lib (create_request_fields toy_order toy_order_input) toy_body = put_text 1 ''x''"
  by (simp add: client_message_def create_request_fields_def toy_order_def toy_order_input_def default_endpoint_def toy_body_def
      or_else_def input_type_def plain_field_def numbered_def scalar_type_def)

lemma toy_update_message:
  "client_message lib (update_request_fields toy_order toy_order_input) toy_body = put_text 1 ''7'' @ put_text 2 ''x''"
  by (simp add: client_message_def update_request_fields_def id_field_def toy_order_def toy_order_input_def default_endpoint_def
      toy_body_def or_else_def input_type_def plain_field_def numbered_def scalar_type_def)

lemma put_text_short: "length (put_text k [c]) \<le> 21"
  using encode_varint_short [of "ucast (encode_tag k WireLen)"] encode_varint_short [of "word_of_nat 1"]
  by (simp add: put_text_def put_tag_def text_bytes_def)


text \<open>A timestamp has a message type in the file, but the codec writes its text: the bytes under the number of a
  \<open>google.protobuf.Timestamp\<close> are those of a string.\<close>

lemma timestamp_sent_as_text:
  "field_type_to_proto FtTimestamp = ''google.protobuf.Timestamp''"
  "encode_field lib k FtTimestamp (JStr s) = encode_field lib k FtString (JStr s)"
  by simp_all

section \<open>Declared calls are served\<close>

definition rpc_path :: "(string \<Rightarrow> string) \<Rightarrow> resource_definition \<Rightarrow> string \<Rightarrow> string" where
  "rpc_path up rd name =
     ''/'' @ proto_package rd @ ''.'' @ proto_pascal_case up (to_singular (rd_resource rd)) @ ''Service/'' @ name"

text \<open>The reference: per action, the word its calls start with and what the server runs for it.\<close>

definition rpc_table :: "'db grpc_env \<Rightarrow> resource_definition \<Rightarrow> authenticated_user option \<Rightarrow> bytes \<Rightarrow>
    (string \<times> string \<times> ('db \<Rightarrow> 'db \<times> grpc_response rpc)) list" where
  "rpc_table env rd user body =
     [(''list'', ''List'', \<lambda>db. map_rpc Unary (rpc_list env rd user body db)),
      (''list'', ''Stream'', \<lambda>db. map_rpc StreamOf (rpc_stream_list env rd user body db)),
      (''get'', ''Get'', \<lambda>db. map_rpc Unary (rpc_get env rd user body db)),
      (''create'', ''Create'', \<lambda>db. map_rpc Unary (rpc_create env rd user body db)),
      (''update'', ''Update'', \<lambda>db. map_rpc Unary (rpc_update env rd user body db)),
      (''delete'', ''Delete'', \<lambda>db. map_rpc Unary (rpc_delete env rd user body db))]"

definition no_separator :: "string \<Rightarrow> bool" where
  "no_separator s \<longleftrightarrow> CHR ''.'' \<notin> set s \<and> CHR ''/'' \<notin> set s"

lemma chars_contents: "c \<in> set (chars s) \<Longrightarrow> set c \<subseteq> set s"
proof (induction s rule: chars.induct)
  case (2 b s)
  from "2.prems" consider "c = take (char_width b) (b # s)" | "c \<in> set (chars (drop (char_width b) (b # s)))"
    by (auto simp: chars.simps(2))
  then show ?case
  proof cases
    case 1
    then show ?thesis using set_take_subset by metis
  next
    case rest: 2
    from "2.IH" [OF rest] show ?thesis using set_drop_subset by (rule order.trans)
  qed
qed simp

lemma split_contents: "p \<in> set (split_on c s) \<Longrightarrow> set p \<subseteq> set s"
  by (induction c s arbitrary: p rule: split_on.induct) (fastforce split: if_splits list.splits)+

lemma upper_first_separator:
  assumes "\<And>c. no_separator (up c)" and "no_separator c"
  shows "no_separator (upper_first up c)"
proof (cases "\<exists>b. c = [b]")
  case True
  then obtain b where b: "c = [b]" by blast
  have letter: "char_of (of_char d - 32 :: nat) \<noteq> CHR ''.'' \<and> char_of (of_char d - 32 :: nat) \<noteq> CHR ''/''"
    if d: "97 \<le> (of_char d :: nat)" "of_char d \<le> (122 :: nat)" for d
  proof -
    have "take_bit 8 (of_char d - 32 :: nat) = of_char d - 32" using d by (intro take_bit_nat_eq_self) simp
    then show ?thesis using d by (auto simp: char_of_eq_iff)
  qed
  show ?thesis using letter [of b] b assms(2) by (auto simp: upper_first_def no_separator_def Let_def)
next
  case False
  then show ?thesis using assms by (auto simp: upper_first_def split: list.split)
qed

lemma no_separator_append: "no_separator (a @ b) \<longleftrightarrow> no_separator a \<and> no_separator b"
  by (auto simp: no_separator_def)

lemma no_separator_subset: "no_separator s \<Longrightarrow> set t \<subseteq> insert CHR ''y'' (set s) \<Longrightarrow> no_separator t"
  by (auto simp: no_separator_def)

lemma no_separator_concat: "(\<And>p. p \<in> set ps \<Longrightarrow> no_separator p) \<Longrightarrow> no_separator (concat ps)"
  by (auto simp: no_separator_def)

lemma pascal_separator:
  assumes up: "\<And>c. no_separator (up c)" and s: "no_separator s"
  shows "no_separator (proto_pascal_case up s)"
  unfolding proto_pascal_case_def
proof (rule no_separator_concat)
  fix q assume "q \<in> set (map (\<lambda>part. case chars part of [] \<Rightarrow> [] | c # cs \<Rightarrow> upper_first up c @ concat cs) (split_on CHR ''_'' s))"
  then obtain part where part: "part \<in> set (split_on CHR ''_'' s)"
    and q: "q = (case chars part of [] \<Rightarrow> [] | c # cs \<Rightarrow> upper_first up c @ concat cs)" by auto
  have plain: "no_separator c" if "c \<in> set (chars part)" for c
    using no_separator_subset [OF s] chars_contents [OF that] split_contents [OF part] by blast
  show "no_separator q"
  proof (cases "chars part")
    case (Cons c cs)
    with plain have "no_separator c" "no_separator (concat cs)" by (auto intro!: no_separator_concat)
    with Cons q upper_first_separator [OF up] show ?thesis by (simp add: no_separator_append)
  qed (simp add: q no_separator_def)
qed

lemma singular_contents: "set (to_singular s) \<subseteq> insert CHR ''y'' (set s)"
  by (auto simp: to_singular_def strip_suffix_def dest: in_set_takeD split: if_splits option.splits)

lemma digits_no_separator: "no_separator (show_nat n)"
  by (auto simp: no_separator_def dest: is_digit_show_nat simp: is_digit_def)

lemma path_parsed:
  assumes "no_separator r" "no_separator p"
  shows "parse_grpc_path (''/shaperail.v'' @ show_nat v @ ''.'' @ r @ ''.'' @ p @ ''Service/'' @ name) = Some (r, name)"
proof -
  let ?service = "''shaperail'' @ CHR ''.'' # (CHR ''v'' # show_nat v) @ CHR ''.'' # r @ CHR ''.'' # p @ ''Service''"
  note plain = assms digits_no_separator [of v]
  have "CHR ''/'' \<notin> set ?service" using plain by (simp add: no_separator_def)
  then have "split_once CHR ''/'' (?service @ CHR ''/'' # name) = Some (?service, name)" 
    by (simp only: split_once_Some_iff not_False_eq_True simp_thms)
  moreover have "split_on CHR ''.'' ?service = [''shaperail'', CHR ''v'' # show_nat v, r, p @ ''Service'']"
    using plain by (simp only: no_separator_def split_on_append_sep split_on_no_sep set_append set_simps Un_iff insert_iff empty_iff
      char.inject simp_thms)
  ultimately show ?thesis by (simp add: parse_grpc_path_def strip_prefix_def)
qed

lemma in_given: "x \<in> set (if c then [] else xs) \<longleftrightarrow> \<not> c \<and> x \<in> set xs"
  by simp

lemma rpc_entry_cases:
  assumes "(comment, rpc, request, response, gap) \<in> set (rpc_entries up rd)"
  obtains rest where "rpc_endpoint rd ''list'' \<noteq> None" "rpc = ''List'' @ rest"
    | rest where "rpc_endpoint rd ''list'' \<noteq> None" "rpc = ''Stream'' @ rest"
    | rest where "rpc_endpoint rd ''get'' \<noteq> None" "rpc = ''Get'' @ rest"
    | rest where "rpc_endpoint rd ''create'' \<noteq> None" "rpc = ''Create'' @ rest"
    | rest where "rpc_endpoint rd ''update'' \<noteq> None" "rpc = ''Update'' @ rest"
    | rest where "rpc_endpoint rd ''delete'' \<noteq> None" "rpc = ''Delete'' @ rest"
  using assms
  unfolding rpc_entries_def Let_def set_append Un_iff in_given list.set insert_iff empty_iff prod.inject by blast

lemma rpc_table_entries:
  "(''list'', ''List'', \<lambda>db. map_rpc Unary (rpc_list env rd user body db)) \<in> set (rpc_table env rd user body)"
  "(''list'', ''Stream'', \<lambda>db. map_rpc StreamOf (rpc_stream_list env rd user body db)) \<in> set (rpc_table env rd user body)"
  "(''get'', ''Get'', \<lambda>db. map_rpc Unary (rpc_get env rd user body db)) \<in> set (rpc_table env rd user body)"
  "(''create'', ''Create'', \<lambda>db. map_rpc Unary (rpc_create env rd user body db)) \<in> set (rpc_table env rd user body)"
  "(''update'', ''Update'', \<lambda>db. map_rpc Unary (rpc_update env rd user body db)) \<in> set (rpc_table env rd user body)"
  "(''delete'', ''Delete'', \<lambda>db. map_rpc Unary (rpc_delete env rd user body db)) \<in> set (rpc_table env rd user body)"
  by (simp_all add: rpc_table_def)

lemma dispatched:
  assumes "find (\<lambda>rd'. rd_resource rd' = n) (gv_resources env) = Some rd"
  shows "handle_rpc env n (''List'' @ rest) user body db = map_rpc Unary (rpc_list env rd user body db)"
    "handle_rpc env n (''Stream'' @ rest) user body db = map_rpc StreamOf (rpc_stream_list env rd user body db)"
    "handle_rpc env n (''Get'' @ rest) user body db = map_rpc Unary (rpc_get env rd user body db)"
    "handle_rpc env n (''Create'' @ rest) user body db = map_rpc Unary (rpc_create env rd user body db)"
    "handle_rpc env n (''Update'' @ rest) user body db = map_rpc Unary (rpc_update env rd user body db)"
    "handle_rpc env n (''Delete'' @ rest) user body db = map_rpc Unary (rpc_delete env rd user body db)"
  by (simp_all add: handle_rpc_def assms)



text \<open>The version in the package is ignored: the calls of every version of a resource go to the first resource of
  the name.\<close>

lemma version_ignored:
  assumes "no_separator r" "no_separator p"
  shows "parse_grpc_path (''/shaperail.v'' @ show_nat v @ ''.'' @ r @ ''.'' @ p @ ''Service/'' @ name)
    = parse_grpc_path (''/shaperail.v'' @ show_nat w @ ''.'' @ r @ ''.'' @ p @ ''Service/'' @ name)"
  by (simp only: path_parsed [OF assms])

text \<open>The fields of a list request, its filters, its cursor and its page size, are declared but never read.\<close>

lemma list_request_ignored: "rpc_list env rd user data = rpc_list env rd user data'"
  by (simp add: rpc_list_def)

end
