(* ===== verification/Typescript.thy ===== *)
theory Typescript
  imports Openapi
begin

text \<open>
  The TypeScript types that \<open>shaperail-codegen/src/typescript.rs\<close> derives from an OpenAPI document: one interface
  per schema with properties, one file per resource tag, and an index. Below, which fields an interface has, and
  that the files hold interfaces of the document only.
\<close>

definition openapi_type_to_ts :: "json \<Rightarrow> string" where
  "openapi_type_to_ts schema =
     (if json_get schema ''$ref'' \<noteq> None then ''unknown''
      else (case Option.bind (json_get schema ''type'') as_str of
          None \<Rightarrow> ''unknown''
        | Some t \<Rightarrow>
            if t = ''string'' then ''string''
            else if t = ''integer'' \<or> t = ''number'' then ''number''
            else if t = ''boolean'' then ''boolean''
            else if t = ''array'' then ''unknown[]''
            else if t = ''object'' then ''Record<string, unknown>''
            else ''unknown''))"

definition required_names :: "json \<Rightarrow> string list" where
  "required_names schema = (case Option.bind (json_get schema ''required'') as_array of
     None \<Rightarrow> [] | Some vs \<Rightarrow> List.map_filter as_str vs)"

definition property_line :: "string list \<Rightarrow> jmap \<Rightarrow> string \<Rightarrow> string" where
  "property_line required props name = ''  '' @ name @ (if name \<in> set required then [] else ''?'') @ '': ''
     @ openapi_type_to_ts (or_else (map_of props name) JNull) @ '';''"

definition schema_to_interface :: "string \<Rightarrow> json \<Rightarrow> string option" where
  "schema_to_interface name schema =
     map_option (\<lambda>props. ''export interface '' @ name @ '' {'' @ newline
         @ join newline (map (property_line (required_names schema) props) (sort (map fst props)))
         @ newline @ ''}'' @ newline)
       (Option.bind (json_get schema ''properties'') as_object)"

definition operation_tag :: "json \<Rightarrow> string option" where
  "operation_tag operation = Option.bind (Option.bind (json_get operation ''tags'') as_array)
     (\<lambda>tags. case tags of [] \<Rightarrow> None | t # _ \<Rightarrow> as_str t)"

text \<open>The operations of a document, in the order of its paths and methods.\<close>

definition operations :: "json \<Rightarrow> json list" where
  "operations spec = (case Option.bind (json_get spec ''paths'') as_object of
     None \<Rightarrow> []
   | Some paths \<Rightarrow> concat (map (\<lambda>(path, methods). map snd (or_else (as_object methods) [])) paths))"

text \<open>The schemas of a tag are those whose name starts with its Pascal case.\<close>

definition tag_schemas :: "(string \<Rightarrow> string) \<Rightarrow> unicode_lib \<Rightarrow> string list \<Rightarrow> json list \<Rightarrow> (string \<times> string list) list" where
  "tag_schemas up uc names ops = fold (\<lambda>operation m. case operation_tag operation of
       None \<Rightarrow> m
     | Some tag \<Rightarrow> (case filter (prefix (to_pascal_case up uc tag)) names of
         [] \<Rightarrow> m | found \<Rightarrow> bt_insert tag (or_else (map_of m tag) [] @ found) m)) ops []"

definition resource_file :: "jmap \<Rightarrow> string list \<Rightarrow> string" where
  "resource_file schemas names = concat (map (\<lambda>name.
     (case Option.bind (map_of schemas name) (schema_to_interface name) of
        Some interface \<Rightarrow> interface @ newline | None \<Rightarrow> [])) names)"

definition generate_from_spec :: "(string \<Rightarrow> string) \<Rightarrow> unicode_lib \<Rightarrow> json \<Rightarrow> (string \<times> string) list" where
  "generate_from_spec up uc spec =
     (case Option.bind (Option.bind (json_get spec ''components'') (\<lambda>c. json_get c ''schemas'')) as_object of
        None \<Rightarrow> []
      | Some schemas \<Rightarrow>
          (let names = sort (map fst schemas);
               per_tag = map (\<lambda>(tag, ns). (tag, remdups_adj (sort ns))) (tag_schemas up uc names (operations spec));
               files = fold (\<lambda>(tag, ns) files. let content = resource_file schemas ns in
                   if content = [] then files else bt_insert (tag @ ''.ts'') content files) per_tag [];
               index = join newline (map (\<lambda>(tag, ns). ''export * from '' @ squote (''./'' @ tag) @ '';'') per_tag)
           in if index = [] then files else bt_insert ''index.ts'' (index @ newline) files))"

section \<open>The interface of a resource\<close>

text \<open>The reference: the TypeScript type of a column.\<close>

fun ts_type :: "field_type \<Rightarrow> string" where
  "ts_type FtInteger = ''number''"
| "ts_type FtNumber = ''number''"
| "ts_type FtBoolean = ''boolean''"
| "ts_type FtJson = ''Record<string, unknown>''"
| "ts_type FtArray = ''unknown[]''"
| "ts_type _ = ''string''"

lemma map_of_bt_put: "map_of (bt_put k v m) k' = (if k' = k \<and> v \<noteq> None then v else map_of m k')"
  by (auto simp: bt_put_def split: option.split)

lemma map_of_put_bound: "key \<noteq> Some k' \<Longrightarrow> map_of (put_bound key v m) k' = map_of m k'"
  by (auto simp: put_bound_def map_of_bt_put split: option.split)

lemma bound_key_other: "k \<noteq> a \<Longrightarrow> k \<noteq> b \<Longrightarrow> bound_key t a b \<noteq> Some k"
  by (simp add: bound_key_def)

lemma field_entries:
  assumes "k \<in> {''$ref'', ''type''}" and "field_schema_to_openapi f = JObj m"
  shows "map_of m k = map_of (field_type_to_openapi f) k"
  using assms(2) by (rule_tac insertE [OF assms(1)])
    (auto simp: field_schema_to_openapi_def Let_def map_of_bt_put map_of_put_bound bound_key_other split: if_splits)

lemma field_ts_type: "openapi_type_to_ts (field_schema_to_openapi f) = ts_type (fs_type f)"
proof -
  obtain m where m: "field_schema_to_openapi f = JObj m" using field_schema_object by blast
  have "map_of m ''$ref'' = map_of (field_type_to_openapi f) ''$ref''" "map_of m ''type'' = map_of (field_type_to_openapi f) ''type''"
    using field_entries [OF _ m] by simp_all
  then show ?thesis
    by (cases "fs_type f") (simp_all add: m openapi_type_to_ts_def field_type_to_openapi_def bt_of_def map_of_bt_put)
qed

lemma bt_insert_sorted: "sorted_wrt (<) (map fst m) \<Longrightarrow> sorted_wrt (<) (map fst (bt_insert k v m))"
proof (induction k v m rule: bt_insert.induct)
  case (2 k v k' v' m)
  show ?case
  proof (cases "k < k' \<or> k = k'")
    case True
    with 2(2) show ?thesis by (auto dest: order.strict_trans)
  next
    case False
    then have "k' < k" by auto
    then have "\<forall>x \<in> fst ` set (bt_insert k v m). k' < x" unfolding bt_insert_keys using 2(2) by auto
    with 2 False show ?thesis by auto
  qed
qed simp

lemma bt_fold_sorted: "sorted_wrt (<) (map fst m) \<Longrightarrow> sorted_wrt (<) (map fst (fold (\<lambda>(k, v). bt_insert k v) kvs m))"
  by (induction kvs arbitrary: m) (auto simp: bt_insert_sorted)

lemma bt_of_lookup: "distinct (map fst kvs) \<Longrightarrow> map_of (bt_of kvs) = map_of kvs"
proof -
  have "map_of (fold (\<lambda>(k, v). bt_insert k v) kvs m) = map_of m ++ map_of (rev kvs)" for m
    by (induction kvs arbitrary: m) (auto simp: map_add_def fun_eq_iff split: option.splits)
  moreover assume "distinct (map fst kvs)"
  then have "map_of (rev kvs) = map_of kvs" by (intro map_of_inject_set [THEN iffD2]) (simp_all flip: rev_map)
  ultimately show ?thesis by (simp add: bt_of_def)
qed

lemma bt_of_keys: "map fst (bt_of kvs) = sort (remdups (map fst kvs))"
proof -
  have sorted: "sorted_wrt (<) (map fst (bt_of kvs))" unfolding bt_of_def by (rule bt_fold_sorted) simp
  have "set (map fst (bt_of kvs)) = set (map fst kvs)"
    using fold_insert_keys [of kvs "[]"] by (simp add: bt_of_def)
  then show ?thesis using sorted by (intro sorted_distinct_set_unique) (auto simp: strict_sorted_iff)
qed

text \<open>The interface of a resource has one line per field that is shown, in the order of the names, with the type
  of its column; a field is optional unless it is required of clients.\<close>

definition shown_fields :: "resource_definition \<Rightarrow> (string \<times> field_schema) list" where
  "shown_fields rd = filter (\<lambda>(n, f). \<not> fs_sensitive f \<and> \<not> fs_transient f) (rd_schema rd)"

definition field_text :: "resource_definition \<Rightarrow> string \<Rightarrow> string" where
  "field_text rd n = (case map_of (shown_fields rd) n of
     None \<Rightarrow> []
   | Some f \<Rightarrow> ''  '' @ n @ (if fs_required f \<and> \<not> fs_generated f then [] else ''?'') @ '': '' @ ts_type (fs_type f) @ '';'')"

lemma required_names_object: "required_names (object_schema properties required) = required"
proof -
  have "List.map_filter as_str (map JStr required) = required" by (induction required) (simp_all add: List.map_filter_def)
  then show ?thesis by (simp add: required_names_def object_schema_def)
qed

lemma resource_interface:
  assumes wf: "wf_map (rd_schema rd)"
  shows "schema_to_interface name (build_resource_schema rd) = Some (''export interface '' @ name @ '' {'' @ newline
    @ join newline (map (field_text rd) (sort (map fst (shown_fields rd)))) @ newline @ ''}'' @ newline)"
proof -
  let ?shown = "shown_fields rd"
  let ?props = "bt_of (map (\<lambda>(n, f). (n, field_schema_to_openapi f)) ?shown)"
  let ?required = "map fst (filter (\<lambda>(n, f). fs_required f \<and> \<not> fs_generated f) ?shown)"
  have distinct: "distinct (map fst ?shown)" using wf by (auto simp: shown_fields_def wf_map_def distinct_map inj_on_def)
  have keys: "map fst ?props = sort (map fst ?shown)"
    using distinct by (simp add: bt_of_keys o_def case_prod_beta distinct_remdups_id)
  have same: "map fst (map (\<lambda>(n, f). (n, field_schema_to_openapi f)) ?shown) = map fst ?shown" by auto
  have "property_line ?required ?props n = field_text rd n" if "n \<in> fst ` set ?shown" for n
  proof -
    from that obtain f where f: "(n, f) \<in> set ?shown" by auto
    then have found: "map_of ?shown n = Some f" using distinct by simp
    have "map_of ?props n = Some (field_schema_to_openapi f)"
      using found bt_of_lookup [of "map (\<lambda>(n, f). (n, field_schema_to_openapi f)) ?shown"] distinct
      unfolding same by (simp add: map_of_map)
    moreover have "n \<in> set ?required \<longleftrightarrow> fs_required f \<and> \<not> fs_generated f"
      using f distinct by (force simp: distinct_map inj_on_def)
    ultimately show ?thesis by (simp add: property_line_def field_text_def found or_else_def field_ts_type)
  qed
  then have lines: "map (property_line ?required ?props) (sort (map fst ?shown)) = map (field_text rd) (sort (map fst ?shown))"
    by simp
  have build: "build_resource_schema rd = object_schema ?props ?required"
    by (simp add: build_resource_schema_def shown_fields_def)
  have interface: "schema_to_interface name (object_schema ?props ?required) = Some (''export interface '' @ name @ '' {'' @ newline
    @ join newline (map (property_line ?required ?props) (sort (map fst ?props))) @ newline @ ''}'' @ newline)"
    by (simp add: schema_to_interface_def required_names_object) (simp add: object_schema_def)
  show ?thesis unfolding build interface keys sorted_sort_id [OF sorted_sort] lines by (rule refl)
qed

end
