(* ===== verification/Plugins.thy ===== *)
theory Plugins
  imports Crud_Core
begin

text \<open>
  The plugin runtime of \<open>shaperail-runtime/src/plugins/mod.rs\<close>: loading and caching of modules, the call
  of a hook in a fresh instance, and the copies into and out of its linear memory, with the pointers a plugin
  returns kept as the machine words they are. The \<open>wasmtime\<close> engine, \<open>serde_json\<close> and the file system are
  parameters. Below, what a plugin can and cannot do to its host.
\<close>

section \<open>Sandbox and engine\<close>

record sandbox_config =
  sx_max_memory_pages :: "32 word"
  sx_max_fuel :: "64 word"

definition default_sandbox :: sandbox_config where
  "default_sandbox = \<lparr>sx_max_memory_pages = 256, sx_max_fuel = 1000000\<rparr>"

datatype wasm_val = I32 "32 word" | I64 "64 word" | OtherVal

text \<open>\<open>wz_store\<close> makes a store with its fuel, \<open>wz_instantiate\<close> puts an instance without imports in it; a
  call changes the store and gives the only result of the function, or its trap.\<close>

record ('m, 's, 'f) wasm_engine =
  wz_compile :: "bytes \<Rightarrow> string + 'm"
  wz_store :: "64 word \<Rightarrow> string + 's"
  wz_instantiate :: "'m \<Rightarrow> 's \<Rightarrow> string + 's"
  wz_exports_memory :: "'s \<Rightarrow> bool"
  wz_memory :: "'s \<Rightarrow> bytes"
  wz_set_memory :: "bytes \<Rightarrow> 's \<Rightarrow> 's"
  wz_func :: "'s \<Rightarrow> string \<Rightarrow> 'f option"
  wz_call :: "'f \<Rightarrow> wasm_val list \<Rightarrow> 's \<Rightarrow> 's \<times> (string + wasm_val)"
  wz_to_vec :: "plugin_context \<Rightarrow> string + bytes"
  wz_from_slice :: "bytes \<Rightarrow> string + plugin_result"
  wz_canonicalize :: "string \<Rightarrow> string + string"
  wz_read_file :: "string \<Rightarrow> string + bytes"

section \<open>Loading\<close>

text \<open>Two paths are equal when their components are: repeated separators and inner dots do not count.\<close>

definition path_components :: "string \<Rightarrow> string list" where
  "path_components p =
     (let parts = split_on CHR ''/'' p in
      (if prefix ''/'' p then [''/''] else if hd parts = ''.'' then [''.''] else [])
      @ filter (\<lambda>c. c \<noteq> [] \<and> c \<noteq> ''.'') parts)"

type_synonym 'm plugins = "(string list \<times> 'm) list"

definition load_plugin :: "('m, 's, 'f) wasm_engine \<Rightarrow> string \<Rightarrow> 'm plugins \<Rightarrow> 'm plugins \<times> unit res" where
  "load_plugin env path plugins =
     (case wz_canonicalize env path of
        Inl e \<Rightarrow> (plugins, Inl (Internal (''Failed to resolve WASM plugin path '' @ squote path @ '': '' @ e)))
      | Inr canonical \<Rightarrow>
          if has_key plugins (path_components canonical) then (plugins, Inr ())
          else (case wz_read_file env canonical of
              Inl e \<Rightarrow> (plugins, Inl (Internal (''Failed to read WASM plugin '' @ squote canonical @ '': '' @ e)))
            | Inr wasm_bytes \<Rightarrow> (case wz_compile env wasm_bytes of
                Inl e \<Rightarrow> (plugins, Inl (Internal (''Failed to compile WASM plugin '' @ squote canonical @ '': '' @ e)))
              | Inr m \<Rightarrow> (AList.update (path_components canonical) m plugins, Inr ()))))"

definition load_plugin_bytes ::
    "('m, 's, 'f) wasm_engine \<Rightarrow> string \<Rightarrow> bytes \<Rightarrow> 'm plugins \<Rightarrow> 'm plugins \<times> unit res" where
  "load_plugin_bytes env name wasm_bytes plugins =
     (case wz_compile env wasm_bytes of
        Inl e \<Rightarrow> (plugins, Inl (Internal (''Failed to compile WASM module '' @ squote name @ '': '' @ e)))
      | Inr m \<Rightarrow> (AList.update (path_components name) m plugins, Inr ()))"

definition is_loaded :: "string \<Rightarrow> 'm plugins \<Rightarrow> bool" where
  "is_loaded path plugins \<longleftrightarrow> has_key plugins (path_components path)"

section \<open>Linear memory\<close>

text \<open>A panic of the host is a value of its own; \<open>?\<close> goes through it and through errors.\<close>

datatype 'a attempt = Aborts | Returns 'a

fun and_return :: "'a res attempt \<Rightarrow> ('a \<Rightarrow> 'b res attempt) \<Rightarrow> 'b res attempt" where
  "and_return Aborts k = Aborts"
| "and_return (Returns (Inl e)) k = Returns (Inl e)"
| "and_return (Returns (Inr x)) k = k x"

definition fail :: "string \<Rightarrow> 'a res attempt" where
  "fail msg = Returns (Inl (Internal msg))"

definition bounds_text :: "string \<Rightarrow> nat \<Rightarrow> nat \<Rightarrow> nat \<Rightarrow> string" where
  "bounds_text what offset n limit = ''WASM memory '' @ what @ '' out of bounds: offset='' @ show_nat offset
     @ '', len='' @ show_nat n @ '', memory_size='' @ show_nat limit"

text \<open>The check both copies make, with the slice \<open>mem_data[offset..end]\<close> after it, which panics when it
  starts behind its end or ends behind the data.\<close>

definition memory_range :: "bool \<Rightarrow> string \<Rightarrow> nat \<Rightarrow> nat \<Rightarrow> nat \<Rightarrow> unit res attempt" where
  "memory_range guarded what offset n limit =
     (case add_usize guarded offset n of
        None \<Rightarrow> Aborts
      | Some stop \<Rightarrow>
          if limit < stop then fail (bounds_text what offset n limit)
          else if stop < offset \<or> limit < stop then Aborts
          else Returns (Inr ()))"

definition write_to_memory ::
    "('m, 's, 'f) wasm_engine \<Rightarrow> bool \<Rightarrow> nat \<Rightarrow> bytes \<Rightarrow> 's \<Rightarrow> 's res attempt" where
  "write_to_memory env guarded offset data st =
     (let mem = wz_memory env st in
      and_return (memory_range guarded ''write'' offset (length data) (length mem)) (\<lambda>_.
        Returns (Inr (wz_set_memory env (take offset mem @ data @ drop (offset + length data) mem) st))))"

definition read_from_memory ::
    "('m, 's, 'f) wasm_engine \<Rightarrow> bool \<Rightarrow> nat \<Rightarrow> nat \<Rightarrow> 's \<Rightarrow> bytes res attempt" where
  "read_from_memory env guarded offset n st =
     (let mem = wz_memory env st in
      and_return (memory_range guarded ''read'' offset n (length mem)) (\<lambda>_. Returns (Inr (take n (drop offset mem)))))"

section \<open>Calling a hook\<close>

text \<open>\<open>input_ptr as usize\<close> extends the sign; the packed result holds a pointer and a length.\<close>

definition pointer_of :: "32 word \<Rightarrow> nat" where
  "pointer_of p = unat (scast p :: 64 word)"

definition packed_pointer :: "64 word \<Rightarrow> nat" where
  "packed_pointer packed = unat (signed_drop_bit 32 packed)"

definition packed_length :: "64 word \<Rightarrow> nat" where
  "packed_length packed = unat (packed AND 0xFFFFFFFF)"

definition unchanged_result :: plugin_result where
  "unchanged_result = \<lparr>pr_ok = True, pr_ctx = None, pr_error = None, pr_details = None\<rparr>"

definition hook_answer :: "('m, 's, 'f) wasm_engine \<Rightarrow> bool \<Rightarrow> 64 word \<Rightarrow> 's \<Rightarrow> plugin_result res attempt" where
  "hook_answer env guarded packed st =
     (if packed_length packed = 0 then Returns (Inr unchanged_result)
      else and_return (read_from_memory env guarded (packed_pointer packed) (packed_length packed) st) (\<lambda>result_bytes.
        (case wz_from_slice env result_bytes of
           Inl e \<Rightarrow> fail (''WASM plugin returned invalid JSON: '' @ e)
         | Inr result \<Rightarrow> Returns (Inr result))))"

definition invoke_hook ::
    "('m, 's, 'f) wasm_engine \<Rightarrow> bool \<Rightarrow> string \<Rightarrow> bytes \<Rightarrow> 's \<Rightarrow> plugin_result res attempt" where
  "invoke_hook env guarded hook_name ctx_json st =
     (if \<not> wz_exports_memory env st then fail (''WASM plugin does not export '' @ squote ''memory'')
      else (case wz_func env st ''alloc'' of
        None \<Rightarrow> fail (''WASM plugin does not export '' @ squote ''alloc'')
      | Some alloc_fn \<Rightarrow> (case wz_func env st hook_name of
        None \<Rightarrow> fail (''WASM plugin does not export '' @ squote hook_name)
      | Some hook_fn \<Rightarrow>
          (let input_len = word_of_nat (length ctx_json) in
           (case wz_call env alloc_fn [I32 input_len] st of
              (st1, Inl e) \<Rightarrow> fail (''WASM alloc call failed: '' @ e)
            | (st1, Inr (I32 input_ptr)) \<Rightarrow>
                and_return (write_to_memory env guarded (pointer_of input_ptr) ctx_json st1) (\<lambda>st2.
                  (case wz_call env hook_fn [I32 input_ptr, I32 input_len] st2 of
                     (st3, Inl e) \<Rightarrow> fail (''WASM hook '' @ squote hook_name @ '' trapped: '' @ e)
                   | (st3, Inr (I64 packed)) \<Rightarrow> hook_answer env guarded packed st3
                   | (st3, Inr v) \<Rightarrow> Aborts))
            | (st1, Inr v) \<Rightarrow> Aborts)))))"

definition trapped_result :: "shaperail_error \<Rightarrow> plugin_result" where
  "trapped_result e = \<lparr>pr_ok = False, pr_ctx = None, pr_error = Some (''WASM plugin trapped: '' @ error_message e),
     pr_details = None\<rparr>"

text \<open>The path a hook is looked up under: as it is when absolute, resolved otherwise.\<close>

definition hook_path :: "('m, 's, 'f) wasm_engine \<Rightarrow> string \<Rightarrow> string" where
  "hook_path env plugin_path =
     (if prefix ''/'' plugin_path \<or> prefix ''__test:'' plugin_path then plugin_path
      else (case wz_canonicalize env plugin_path of Inr canonical \<Rightarrow> canonical | Inl _ \<Rightarrow> plugin_path))"

definition call_hook ::
    "('m, 's, 'f) wasm_engine \<Rightarrow> bool \<Rightarrow> sandbox_config \<Rightarrow> 'm plugins \<Rightarrow> string \<Rightarrow> string \<Rightarrow> plugin_context \<Rightarrow>
     plugin_result res attempt" where
  "call_hook env guarded sandbox plugins plugin_path hook_name ctx =
     (case map_of plugins (path_components (hook_path env plugin_path)) of
        None \<Rightarrow> fail (''WASM plugin '' @ squote (hook_path env plugin_path) @ '' not loaded. Call load_plugin first.'')
      | Some m \<Rightarrow> (case wz_to_vec env ctx of
        Inl e \<Rightarrow> fail (''Failed to serialize plugin context: '' @ e)
      | Inr ctx_json \<Rightarrow> (case wz_store env (sx_max_fuel sandbox) of
        Inl e \<Rightarrow> fail (''Failed to set fuel: '' @ e)
      | Inr st \<Rightarrow> (case wz_instantiate env m st of
        Inl e \<Rightarrow> fail (''Failed to instantiate WASM plugin: '' @ e)
      | Inr st' \<Rightarrow> (case invoke_hook env guarded hook_name ctx_json st' of
          Returns (Inr result) \<Rightarrow> Returns (Inr result)
        | Returns (Inl e) \<Rightarrow> Returns (Inr (trapped_result e))
        | Aborts \<Rightarrow> Aborts)))))"


section \<open>The copies stay inside the linear memory\<close>

lemma memory_range_inside:
  assumes "memory_range guarded what offset n limit = Returns (Inr u)" and "n < 2 ^ 64"
  shows "offset + n \<le> limit"
proof (cases "offset + n < 2 ^ 64")
  case True
  with assms show ?thesis by (simp add: memory_range_def add_usize_def fail_def split: if_splits)
next
  case False
  with assms(1) have stop: "offset \<le> (offset + n) mod 2 ^ 64" and "\<not> guarded"
    by (auto simp: memory_range_def add_usize_def fail_def split: if_splits)
  show ?thesis
  proof (cases "offset < 2 ^ 64")
    case True
    with False assms(2) have "(offset + n) mod 2 ^ 64 = offset + n - 2 ^ 64" by (simp add: mod_if)
    with stop False assms(2) show ?thesis by simp
  next
    case False
    have "(offset + n) mod 2 ^ 64 < 2 ^ 64" by simp
    with stop False show ?thesis by linarith
  qed
qed

lemma memory_range_returns: "offset + n < 2 ^ 64 \<Longrightarrow> memory_range guarded what offset n limit \<noteq> Aborts"
  by (simp add: memory_range_def add_usize_def fail_def)

text \<open>An offset so large that the sum wraps passes the check of a release build and panics in the slice;
  a debug build panics in the addition.\<close>

lemma memory_range_wraps:
  assumes "2 ^ 64 \<le> offset + n" "n < 2 ^ 64" "offset < 2 ^ 64" "offset + n - 2 ^ 64 \<le> limit"
  shows "memory_range guarded what offset n limit = Aborts"
proof -
  have "(offset + n) mod 2 ^ 64 = offset + n - 2 ^ 64" using assms by (simp add: mod_if)
  moreover have "offset + n - 2 ^ 64 < offset" using assms by linarith
  ultimately show ?thesis using assms by (simp add: memory_range_def add_usize_def)
qed

text \<open>A write replaces exactly the bytes of its range, and a read takes exactly those.\<close>

lemma write_stays_inside:
  assumes "write_to_memory env guarded offset data st = Returns (Inr st')" and "length data < 2 ^ 64"
    and put: "\<And>m s. wz_memory env (wz_set_memory env m s) = m"
  shows "offset + length data \<le> length (wz_memory env st)" "length (wz_memory env st') = length (wz_memory env st)"
    "take offset (wz_memory env st') = take offset (wz_memory env st)"
    "drop (offset + length data) (wz_memory env st') = drop (offset + length data) (wz_memory env st)"
proof -
  obtain u where r: "memory_range guarded ''write'' offset (length data) (length (wz_memory env st)) = Returns (Inr u)"
    and st': "st' = wz_set_memory env (take offset (wz_memory env st) @ data @ drop (offset + length data) (wz_memory env st)) st"
    using assms(1) by (cases "memory_range guarded ''write'' offset (length data) (length (wz_memory env st))" rule: attempt.exhaust)
      (auto simp: write_to_memory_def Let_def elim: and_return.elims)
  show "offset + length data \<le> length (wz_memory env st)" by (rule memory_range_inside [OF r assms(2)])
  with st' put show "length (wz_memory env st') = length (wz_memory env st)"
    "take offset (wz_memory env st') = take offset (wz_memory env st)"
    "drop (offset + length data) (wz_memory env st') = drop (offset + length data) (wz_memory env st)" by simp_all
qed

lemma write_returns:
  "offset + length data < 2 ^ 64 \<Longrightarrow> write_to_memory env guarded offset data st \<noteq> Aborts"
  using memory_range_returns [of offset "length data" guarded "''write''" "length (wz_memory env st)"]
  by (cases "memory_range guarded ''write'' offset (length data) (length (wz_memory env st))" rule: attempt.exhaust)
    (auto simp: write_to_memory_def Let_def elim!: and_return.elims)

lemma read_returns: "offset + n < 2 ^ 64 \<Longrightarrow> read_from_memory env guarded offset n st \<noteq> Aborts"
  using memory_range_returns [of offset n guarded "''read''" "length (wz_memory env st)"]
  by (cases "memory_range guarded ''read'' offset n (length (wz_memory env st))" rule: attempt.exhaust)
    (auto simp: read_from_memory_def Let_def elim!: and_return.elims)

section \<open>Pointers that are not negative\<close>

lemma uint_bound: "unat w < 2 ^ n \<Longrightarrow> uint w < 2 ^ n" for w :: "'a::len word"
  by (simp only: uint_nat of_nat_less_numeral_power_cancel_iff)

lemma unat_bound: "uint w < 2 ^ n \<Longrightarrow> unat w < 2 ^ n" for w :: "'a::len word"
  by (simp only: uint_nat of_nat_less_numeral_power_cancel_iff)

lemma scast_nonneg: "unat p < 2 ^ 31 \<Longrightarrow> unat (scast p :: 64 word) = unat p" for p :: "32 word"
proof -
  assume "unat p < 2 ^ 31"
  then have p: "uint p < 2 ^ 31" by (rule uint_bound)
  have "sint p = uint p" unfolding sint_uint using p order.trans [of "- (2 ^ 31)" 0 "uint p"] by (intro signed_take_bit_int_eq_self) simp_all
  then have word: "(scast p :: 64 word) = word_of_int (uint p)" by (simp only: scast_eq)
  have "take_bit LENGTH(64) (uint p) = uint p" using p by (intro take_bit_int_eq_self) simp_all
  then have "uint (scast p :: 64 word) = uint p" unfolding word by (simp only: uint_word_of_int take_bit_eq_mod)
  then show ?thesis by (simp only: unat_eq_nat_uint)
qed

lemma packed_pointer_small: "unat w < 2 ^ 63 \<Longrightarrow> packed_pointer w < 2 ^ 31"
proof -
  assume "unat w < 2 ^ 63"
  then have u: "uint w < 2 ^ 63" by (rule uint_bound)
  have "sint w = uint w" unfolding sint_uint using u order.trans [of "- (2 ^ 63)" 0 "uint w"] by (intro signed_take_bit_int_eq_self) simp_all
  then have half: "sint (signed_drop_bit 32 w) = uint w div 2 ^ 32" by (simp add: sint_signed_drop_bit_eq drop_bit_eq_div)
  have word: "signed_drop_bit 32 w = word_of_int (uint w div 2 ^ 32)"
    unfolding half [symmetric] by simp
  have range: "0 \<le> uint w div 2 ^ 32" "uint w div 2 ^ 32 < 2 ^ 31" using u by (simp_all add: pos_imp_zdiv_nonneg_iff)
  then have "uint w div 2 ^ 32 mod 2 ^ 64 = uint w div 2 ^ 32" by simp
  then have "uint (signed_drop_bit 32 w) < 2 ^ 31" unfolding word using range by (simp add: uint_word_of_int)
  then show ?thesis unfolding packed_pointer_def by (rule unat_bound)
qed

lemma packed_length_small: "packed_length w < 2 ^ 32"
proof -
  have "w AND 0xFFFFFFFF = take_bit 32 w" by (simp add: take_bit_eq_mask mask_numeral)
  then have "unat (w AND 0xFFFFFFFF) = take_bit 32 (unat w)" by (simp add: unsigned_take_bit_eq)
  then show ?thesis by (simp add: packed_length_def take_bit_eq_mod)
qed

text \<open>The functions a plugin exports return what their types say, with pointers below 2 GiB.\<close>

definition plain_exports :: "('m, 's, 'f) wasm_engine \<Rightarrow> string \<Rightarrow> bool" where
  "plain_exports env hook_name \<longleftrightarrow> (\<forall>st f args st1 st2 v. wz_call env f args st1 = (st2, Inr v) \<longrightarrow>
     (wz_func env st ''alloc'' = Some f \<longrightarrow> (\<exists>p. v = I32 p \<and> unat p < 2 ^ 31))
     \<and> (wz_func env st hook_name = Some f \<longrightarrow> (\<exists>w. v = I64 w \<and> unat w < 2 ^ 63)))"

lemma and_return_Aborts_iff:
  "and_return r k = Aborts \<longleftrightarrow> r = Aborts \<or> (\<exists>x. r = Returns (Inr x) \<and> k x = Aborts)"
  by (cases "(r, k)" rule: and_return.cases) auto

lemma fail_returns [simp]: "fail msg \<noteq> Aborts"
  by (simp add: fail_def)

lemma hook_answer_returns:
  assumes "unat packed < 2 ^ 63"
  shows "hook_answer env guarded packed st \<noteq> Aborts"
proof -
  have "packed_pointer packed + packed_length packed < 2 ^ 64"
    using packed_pointer_small [OF assms] packed_length_small [of packed] by simp
  from read_returns [OF this, of env guarded st] show ?thesis
    by (simp add: hook_answer_def and_return_Aborts_iff split: sum.split)
qed

lemma invoke_hook_returns:
  assumes plain: "plain_exports env hook_name" and size: "length ctx_json < 2 ^ 63"
  shows "invoke_hook env guarded hook_name ctx_json st \<noteq> Aborts"
proof -
  have hook: "(case wz_call env hook_fn args st2 of
      (st3, Inl e) \<Rightarrow> fail (msg e)
    | (st3, Inr (I64 packed)) \<Rightarrow> hook_answer env guarded packed st3
    | (st3, Inr v) \<Rightarrow> Aborts) \<noteq> Aborts" if "wz_func env st hook_name = Some hook_fn" for hook_fn args st2 msg
  proof (cases "wz_call env hook_fn args st2")
    case (Pair st3 r)
    show ?thesis
    proof (cases r)
      case (Inr v)
      from plain [unfolded plain_exports_def, rule_format, OF Pair [unfolded Inr]] that
      obtain w where "v = I64 w" "unat w < 2 ^ 63" by blast
      with Pair Inr hook_answer_returns show ?thesis by simp
    qed (simp add: Pair)
  qed
  show ?thesis
  proof (cases "wz_func env st ''alloc''")
    case (Some alloc_fn)
    note alloc = this
    show ?thesis
    proof (cases "wz_func env st hook_name")
      case (Some hook_fn)
      show ?thesis
      proof (cases "wz_call env alloc_fn [I32 (word_of_nat (length ctx_json))] st")
        case (Pair st1 r)
        show ?thesis
        proof (cases r)
          case (Inr v)
          from plain [unfolded plain_exports_def, rule_format, OF Pair [unfolded Inr]] alloc
          obtain p where p: "v = I32 p" "unat p < 2 ^ 31" by blast
          then have "pointer_of p + length ctx_json < 2 ^ 64" using size by (simp add: pointer_of_def scast_nonneg)
          from write_returns [OF this, of env guarded st1] show ?thesis
            using alloc Some Pair Inr p hook [OF Some]
            by (simp add: invoke_hook_def Let_def and_return_Aborts_iff)
        qed (use alloc Some Pair in \<open>simp add: invoke_hook_def Let_def\<close>)
      qed
    qed (simp add: alloc invoke_hook_def)
  qed (simp add: invoke_hook_def)
qed

section \<open>What a plugin cannot do\<close>

text \<open>What the host has to provide before any code of the plugin runs.\<close>

definition hook_ready :: "('m, 's, 'f) wasm_engine \<Rightarrow> sandbox_config \<Rightarrow> 'm plugins \<Rightarrow> string \<Rightarrow> plugin_context \<Rightarrow> bool" where
  "hook_ready env sandbox plugins plugin_path ctx \<longleftrightarrow>
     (case map_of plugins (path_components (hook_path env plugin_path)) of
        None \<Rightarrow> False
      | Some m \<Rightarrow> is_ok (wz_to_vec env ctx)
          \<and> is_ok (and_then (wz_store env (sx_max_fuel sandbox)) (wz_instantiate env m)))"

lemma hook_answer_source:
  assumes "hook_answer env guarded packed st = Returns (Inr result)"
  shows "result = unchanged_result \<or> (\<exists>bs. wz_from_slice env bs = Inr result)"
  using assms by (auto simp: hook_answer_def fail_def elim!: and_return.elims split: if_splits sum.splits)

lemma invoke_hook_source:
  assumes "invoke_hook env guarded hook_name ctx_json st = Returns (Inr result)"
  shows "result = unchanged_result \<or> (\<exists>bs. wz_from_slice env bs = Inr result)"
  using assms
  by (auto simp: invoke_hook_def fail_def Let_def elim!: and_return.elims dest!: hook_answer_source hook_answer_source [OF sym]
      split: if_splits option.splits prod.splits sum.splits wasm_val.splits)


text \<open>A plugin whose hook answers with a packed pointer and length, for the examples.\<close>

definition toy_engine :: "64 word \<Rightarrow> (unit, bytes, string) wasm_engine" where
  "toy_engine packed =
     \<lparr>wz_compile = (\<lambda>_. Inr ()), wz_store = (\<lambda>_. Inr []), wz_instantiate = (\<lambda>_ _. Inr (replicate 16 0)),
      wz_exports_memory = (\<lambda>_. True), wz_memory = (\<lambda>st. st), wz_set_memory = (\<lambda>m _. m),
      wz_func = (\<lambda>_ n. if n = ''alloc'' \<or> n = ''before_hook'' then Some n else None),
      wz_call = (\<lambda>f args st. (st, Inr (if f = ''alloc'' then I32 8 else I64 packed))),
      wz_to_vec = (\<lambda>_. Inr [0x7B, 0x7D]), wz_from_slice = (\<lambda>bs. Inl ''EOF''),
      wz_canonicalize = (\<lambda>p. Inr (''/app/'' @ p)), wz_read_file = (\<lambda>_. Inr [])\<rparr>"

definition toy_plugins :: "unit plugins" where
  "toy_plugins = fst (load_plugin (toy_engine 0) ''p.wasm'' [])"

definition toy_context :: plugin_context where
  "toy_context = \<lparr>pc_input = [], pc_data = None, pc_user = None, pc_headers = [], pc_tenant_id = None\<rparr>"

definition toy_call :: "bool \<Rightarrow> 64 word \<Rightarrow> plugin_result res attempt" where
  "toy_call guarded packed =
     call_hook (toy_engine packed) guarded default_sandbox toy_plugins ''p.wasm'' ''before_hook'' toy_context"


section \<open>What a plugin can do\<close>

text \<open>A negative pointer, sign extended to \<open>usize\<close>, makes the sum wrap: the slice (or, in a debug build, the
  addition) panics in the host, although the check before it was meant to refuse the range.\<close>

lemma negative_answer_aborts:
  assumes "packed_length packed \<noteq> 0" "2 ^ 64 \<le> packed_pointer packed + packed_length packed"
    and "packed_pointer packed + packed_length packed - 2 ^ 64 \<le> length (wz_memory env st)"
  shows "hook_answer env guarded packed st = Aborts"
proof -
  have "packed_pointer packed < 2 ^ 64" using unsigned_less [of "signed_drop_bit 32 packed"] by (simp add: packed_pointer_def)
  moreover have "packed_length packed < 2 ^ 64" using packed_length_small [of packed] by simp
  ultimately have "memory_range guarded ''read'' (packed_pointer packed) (packed_length packed)
      (length (wz_memory env st)) = Aborts"
    using assms by (intro memory_range_wraps)
  with assms(1) show ?thesis by (simp add: hook_answer_def read_from_memory_def Let_def)
qed

lemma negative_pointer_aborts: "toy_call guarded 0xFFFFFFFF00000001 = Aborts"
proof -
  have "signed_drop_bit 32 (0xFFFFFFFF00000001 :: 64 word) = - 1" by code_simp
  then have pointer: "packed_pointer 0xFFFFFFFF00000001 = 2 ^ 64 - 1"
    by (simp add: packed_pointer_def unsigned_minus_1_eq_mask mask_eq_exp_minus_1)
  have length: "packed_length 0xFFFFFFFF00000001 = 1" by (simp add: packed_length_def)
  have answer: "hook_answer (toy_engine 0xFFFFFFFF00000001) guarded 0xFFFFFFFF00000001 st = Aborts" for st
    by (rule negative_answer_aborts) (simp_all add: pointer length toy_engine_def)
  have "pointer_of 8 = 8" using scast_nonneg [of 8] by (simp add: pointer_of_def)
  with answer have "invoke_hook (toy_engine 0xFFFFFFFF00000001) guarded ''before_hook'' [0x7B, 0x7D] (replicate 16 0) = Aborts"
    by (simp add: invoke_hook_def write_to_memory_def memory_range_def add_usize_def toy_engine_def Let_def)
  moreover have "path_components (hook_path (toy_engine packed) ''p.wasm'') = [''/'', ''app'', ''p.wasm'']" for packed
    by (simp add: hook_path_def toy_engine_def path_components_def)
  moreover have "map_of toy_plugins [''/'', ''app'', ''p.wasm''] = Some ()" by code_simp
  moreover have "wz_to_vec (toy_engine packed) ctx = Inr [0x7B, 0x7D]" "wz_store (toy_engine packed) f = Inr []"
    "wz_instantiate (toy_engine packed) m st = Inr (replicate 16 0)" for packed ctx f m st by (simp_all add: toy_engine_def)
  ultimately show ?thesis by (simp add: toy_call_def call_hook_def)
qed

text \<open>The memory limit of the sandbox is not read: only the fuel matters to a call.\<close>

lemma memory_limit_unused:
  "call_hook env guarded (sandbox\<lparr>sx_max_memory_pages := n\<rparr>) = call_hook env guarded sandbox"
  by (cases sandbox) (simp add: call_hook_def fun_eq_iff cong: option.case_cong sum.case_cong)

text \<open>A plugin loaded by a relative path is found by its hooks, but \<open>is_loaded\<close> denies it.\<close>

lemma loaded_plugin_denied:
  "\<not> is_loaded ''p.wasm'' toy_plugins"
  "map_of toy_plugins (path_components (hook_path (toy_engine 0) ''p.wasm'')) = Some ()"
  by code_simp+

lemma loaded_plugin_found:
  assumes "load_plugin env path plugins = (plugins', Inr ())" and "\<not> prefix ''/'' path" "\<not> prefix ''__test:'' path"
  shows "map_of plugins' (path_components (hook_path env path)) \<noteq> None"
  using assms by (auto simp: load_plugin_def hook_path_def update_conv' split: sum.splits if_splits)

text \<open>A chain of plugins leaves the database alone and changes the input and the data of the context only.\<close>

lemma wasm_dispatch_confined:
  assumes "prefix wasm_hook_prefix name" and "dispatch_controller controllers wasm name resource ctx db = (db', r)"
  shows "db' = db \<and> (\<forall>ctx'. r = Inr ctx' \<longrightarrow> ctx' = ctx\<lparr>cx_input := cx_input ctx', cx_data := cx_data ctx'\<rparr>)"
  using assms
  by (auto simp: dispatch_controller_def strip_prefix_def apply_plugin_def result_simps split: if_splits option.splits)

lemma context_changes_compose:
  "b = a\<lparr>cx_input := i, cx_data := d\<rparr> \<Longrightarrow> c = b\<lparr>cx_input := j, cx_data := e\<rparr> \<Longrightarrow> c = a\<lparr>cx_input := j, cx_data := e\<rparr>"
  by simp

lemma wasm_controllers_confined:
  assumes "\<forall>n \<in> set names. prefix wasm_hook_prefix n"
    and "run_controllers controllers wasm resource names ctx db = (db', r)"
  shows "db' = db \<and> (\<forall>ctx'. r = Inr ctx' \<longrightarrow> ctx' = ctx\<lparr>cx_input := cx_input ctx', cx_data := cx_data ctx'\<rparr>)"
  using assms
proof (induction names arbitrary: ctx db)
  case (Cons n names)
  obtain db1 r1 where step: "dispatch_controller controllers wasm n resource ctx db = (db1, r1)" by fastforce
  note first = wasm_dispatch_confined [OF _ step]
  show ?case
  proof (cases r1)
    case (Inr ctx1)
    with Cons.prems step have "run_controllers controllers wasm resource names ctx1 db1 = (db', r)" by simp
    from Cons.IH [OF _ this] Cons.prems(1)
    have rest: "db' = db1" "\<And>ctx'. r = Inr ctx' \<Longrightarrow> ctx' = ctx1\<lparr>cx_input := cx_input ctx', cx_data := cx_data ctx'\<rparr>" by auto
    from first Cons.prems(1) Inr have "db1 = db" "ctx1 = ctx\<lparr>cx_input := cx_input ctx1, cx_data := cx_data ctx1\<rparr>" by auto
    with rest context_changes_compose show ?thesis by blast
  qed (use Cons.prems step first in simp)
qed auto

end
