(* ===== verification/Service_Registry.thy ===== *)
theory Service_Registry
  imports Workspace Keyed_Store
begin

text \<open>
  The service registry of \<open>shaperail-runtime/src/registry/mod.rs\<close>: entries in Redis under keys with a time to
  live, heartbeats that refresh them, lookup and discovery. Redis is a map from keys to a text and the
  time (in seconds) at which it expires; \<open>serde_json\<close> and the faults of a connection are parameters.
  Below, how long a service stays listed, and the race between a heartbeat and a deregistration.
\<close>

section \<open>Entries and keys\<close>

record service_entry =
  rg_name :: string
  rg_url :: string
  rg_port :: nat
  rg_resources :: "string list"
  rg_protocols :: "string list"
  rg_status :: service_status
  rg_registered_at :: string
  rg_last_heartbeat :: string

definition registry_prefix :: string where
  "registry_prefix = ''shaperail:services:''"

definition heartbeat_interval_secs :: int where
  "heartbeat_interval_secs = 10"

definition registry_ttl_secs :: int where
  "registry_ttl_secs = 35"

definition registry_key :: "string \<Rightarrow> string" where
  "registry_key name = registry_prefix @ name"

record entry_json =
  ej_to_string :: "service_entry \<Rightarrow> string + string"
  ej_from_str :: "string \<Rightarrow> string + service_entry"

section \<open>Redis\<close>

type_synonym registry_store = "(string \<times> string \<times> int) list"

definition set_ex :: "int \<Rightarrow> string \<Rightarrow> string \<Rightarrow> registry_store \<Rightarrow> registry_store" where
  "set_ex now key value store = AList.update key (value, now + registry_ttl_secs) store"

definition live_value :: "int \<Rightarrow> registry_store \<Rightarrow> string \<Rightarrow> string option" where
  "live_value now store key = (case map_of store key of
     Some (value, expires) \<Rightarrow> if now < expires then Some value else None | None \<Rightarrow> None)"

text \<open>\<open>KEYS prefix*\<close>: the live keys that start with the prefix.\<close>

definition registry_keys :: "int \<Rightarrow> registry_store \<Rightarrow> string list" where
  "registry_keys now store = filter (\<lambda>k. prefix registry_prefix k \<and> live_value now store k \<noteq> None) (map fst store)"

interpretation registry_values: removable_store "set_ex now" "live_value now" AList.delete for now
  by unfold_locales (auto simp: set_ex_def live_value_def registry_ttl_secs_def update_conv' delete_conv' split: option.splits)

text \<open>A call may get no connection, or fail at its read or at its write; KEYS may fail too.\<close>

datatype registry_fault = NoConnection string | ReadFault string | WriteFault string

definition connected :: "registry_fault option \<Rightarrow> 'a res \<Rightarrow> 'a res" where
  "connected fault r = (case fault of Some (NoConnection e) \<Rightarrow> Inl (Internal (''Redis connection error: '' @ e)) | _ \<Rightarrow> r)"

definition read_key :: "registry_fault option \<Rightarrow> 'a res \<Rightarrow> 'a res" where
  "read_key fault r = (case fault of Some (ReadFault e) \<Rightarrow> Inl (Internal (''Failed to read registry: '' @ e)) | _ \<Rightarrow> r)"

definition written :: "registry_fault option \<Rightarrow> string \<Rightarrow> registry_store \<Rightarrow> registry_store \<Rightarrow> registry_store \<times> unit res" where
  "written fault msg store store' = (case fault of
     Some (WriteFault e) \<Rightarrow> (store, Inl (Internal (msg @ e))) | _ \<Rightarrow> (store', Inr ()))"

section \<open>Operations\<close>

definition registry_text :: "entry_json \<Rightarrow> service_entry \<Rightarrow> string res" where
  "registry_text ej entry = (case ej_to_string ej entry of
     Inl e \<Rightarrow> Inl (Internal (''Failed to serialize registry entry: '' @ e)) | Inr s \<Rightarrow> Inr s)"

definition registry_parse :: "entry_json \<Rightarrow> string \<Rightarrow> service_entry res" where
  "registry_parse ej s = (case ej_from_str ej s of
     Inl e \<Rightarrow> Inl (Internal (''Failed to parse registry entry: '' @ e)) | Inr entry \<Rightarrow> Inr entry)"

definition register_service ::
    "entry_json \<Rightarrow> registry_fault option \<Rightarrow> int \<Rightarrow> service_entry \<Rightarrow> registry_store \<Rightarrow> registry_store \<times> unit res" where
  "register_service ej fault now entry store =
     (case and_then (registry_text ej entry) (\<lambda>value. connected fault (Inr value)) of
        Inl e \<Rightarrow> (store, Inl e)
      | Inr value \<Rightarrow> written fault ''Failed to register service: '' store (set_ex now (registry_key (rg_name entry)) value store))"

text \<open>The first half of a heartbeat reads the entry and makes the text that the second half writes.\<close>

definition heartbeat_read ::
    "entry_json \<Rightarrow> registry_fault option \<Rightarrow> int \<Rightarrow> string \<Rightarrow> string \<Rightarrow> registry_store \<Rightarrow> string res" where
  "heartbeat_read ej fault now stamp name store =
     connected fault (read_key fault
       (case live_value now store (registry_key name) of
          None \<Rightarrow> Inl NotFound
        | Some value \<Rightarrow> and_then (registry_parse ej value) (\<lambda>entry.
            registry_text ej (entry\<lparr>rg_status := Healthy, rg_last_heartbeat := stamp\<rparr>))))"

definition heartbeat_write ::
    "registry_fault option \<Rightarrow> int \<Rightarrow> string \<Rightarrow> string \<Rightarrow> registry_store \<Rightarrow> registry_store \<times> unit res" where
  "heartbeat_write fault now name updated store =
     written fault ''Failed to update heartbeat: '' store (set_ex now (registry_key name) updated store)"

definition heartbeat ::
    "entry_json \<Rightarrow> registry_fault option \<Rightarrow> int \<Rightarrow> string \<Rightarrow> string \<Rightarrow> registry_store \<Rightarrow> registry_store \<times> unit res" where
  "heartbeat ej fault now stamp name store = (case heartbeat_read ej fault now stamp name store of
     Inl e \<Rightarrow> (store, Inl e) | Inr updated \<Rightarrow> heartbeat_write fault now name updated store)"

definition deregister_service :: "registry_fault option \<Rightarrow> string \<Rightarrow> registry_store \<Rightarrow> registry_store \<times> unit res" where
  "deregister_service fault name store = (case connected fault (Inr ()) of
     Inl e \<Rightarrow> (store, Inl e)
   | Inr _ \<Rightarrow> written fault ''Failed to deregister service: '' store (AList.delete (registry_key name) store))"

definition lookup_service ::
    "entry_json \<Rightarrow> registry_fault option \<Rightarrow> int \<Rightarrow> string \<Rightarrow> registry_store \<Rightarrow> service_entry option res" where
  "lookup_service ej fault now name store =
     connected fault (read_key fault
       (case live_value now store (registry_key name) of
          Some v \<Rightarrow> and_then (registry_parse ej v) (\<lambda>entry. Inr (Some entry))
        | None \<Rightarrow> Inr None))"

text \<open>A key that is gone when it is read, and an entry that is no JSON, are left out.\<close>

definition fetch_services :: "entry_json \<Rightarrow> (string \<Rightarrow> string option) \<Rightarrow> string list \<Rightarrow> service_entry list" where
  "fetch_services ej get keys = List.map_filter (\<lambda>key. Option.bind (get key) (\<lambda>v.
     (case ej_from_str ej v of Inr entry \<Rightarrow> Some entry | Inl _ \<Rightarrow> None))) keys"

definition list_services ::
    "entry_json \<Rightarrow> registry_fault option \<Rightarrow> string option \<Rightarrow> int \<Rightarrow> registry_store \<Rightarrow> service_entry list res" where
  "list_services ej fault keys_fault now store =
     connected fault (case keys_fault of
       Some e \<Rightarrow> Inl (Internal (''Failed to list services: '' @ e))
     | None \<Rightarrow> if registry_keys now store = [] then Inr []
         else read_key fault (Inr (fetch_services ej (live_value now store) (registry_keys now store))))"

definition discover_resource ::
    "entry_json \<Rightarrow> registry_fault option \<Rightarrow> string option \<Rightarrow> int \<Rightarrow> string \<Rightarrow> registry_store \<Rightarrow> service_entry option res" where
  "discover_resource ej fault keys_fault now resource_name store =
     and_then (list_services ej fault keys_fault now store) (\<lambda>services.
       Inr (find (\<lambda>s. rg_status s = Healthy \<and> list_ex (\<lambda>r. r = resource_name) (rg_resources s)) services))"

text \<open>The task of \<open>start_heartbeat\<close>: one beat at once and one per interval; an error is logged and the loop
  goes on. It never registers the service again.\<close>

fun heartbeat_task ::
    "entry_json \<Rightarrow> int \<Rightarrow> string \<Rightarrow> (registry_fault option \<times> string) list \<Rightarrow> registry_store \<Rightarrow> registry_store" where
  "heartbeat_task ej now name [] store = store"
| "heartbeat_task ej now name ((fault, stamp) # ticks) store =
     heartbeat_task ej (now + heartbeat_interval_secs) name ticks (fst (heartbeat ej fault now stamp name store))"

section \<open>Histories\<close>

datatype registry_event =
    Pass int
  | Registers "registry_fault option" service_entry
  | Beats "registry_fault option" string string
  | Deregisters "registry_fault option" string

fun registry_step :: "entry_json \<Rightarrow> registry_event \<Rightarrow> int \<times> registry_store \<Rightarrow> int \<times> registry_store" where
  "registry_step ej (Pass d) (now, store) = (now + d, store)"
| "registry_step ej (Registers fault entry) (now, store) = (now, fst (register_service ej fault now entry store))"
| "registry_step ej (Beats fault name stamp) (now, store) = (now, fst (heartbeat ej fault now stamp name store))"
| "registry_step ej (Deregisters fault name) (now, store) = (now, fst (deregister_service fault name store))"

definition registry_run :: "entry_json \<Rightarrow> registry_event list \<Rightarrow> int \<times> registry_store \<Rightarrow> int \<times> registry_store" where
  "registry_run ej evs st = fold (registry_step ej) evs st"

text \<open>The specification of one service: the seconds it has left and its entry. Only time and its own
  heartbeats matter, and a heartbeat that comes too late changes nothing.\<close>

fun service_after :: "registry_event \<Rightarrow> int \<times> service_entry \<Rightarrow> int \<times> service_entry" where
  "service_after (Pass d) (left, e) = (left - d, e)"
| "service_after (Beats None name stamp) (left, e) =
     (if name = rg_name e \<and> 0 < left then (registry_ttl_secs, e\<lparr>rg_status := Healthy, rg_last_heartbeat := stamp\<rparr>)
      else (left, e))"
| "service_after _ (left, e) = (left, e)"

text \<open>The events of a history that nobody else may do to the service: take its name or remove it.\<close>

fun spares :: "string \<Rightarrow> registry_event \<Rightarrow> bool" where
  "spares name (Pass d) \<longleftrightarrow> 0 \<le> d"
| "spares name (Registers fault entry) \<longleftrightarrow> rg_name entry \<noteq> name"
| "spares name (Beats fault n stamp) \<longleftrightarrow> True"
| "spares name (Deregisters fault n) \<longleftrightarrow> n \<noteq> name"

text \<open>\<open>serde_json\<close> reads back what it wrote of an entry, with any status and any time of a heartbeat.\<close>

definition beaten :: "service_entry \<Rightarrow> service_entry \<Rightarrow> bool" where
  "beaten e0 e \<longleftrightarrow> e = e0\<lparr>rg_status := rg_status e, rg_last_heartbeat := rg_last_heartbeat e\<rparr>"

definition faithful_json :: "entry_json \<Rightarrow> service_entry \<Rightarrow> bool" where
  "faithful_json ej e0 \<longleftrightarrow> (\<forall>e. beaten e0 e \<longrightarrow> (\<exists>s. ej_to_string ej e = Inr s \<and> ej_from_str ej s = Inr e))"

lemma faithful_text:
  assumes "faithful_json ej e0" and "beaten e0 e"
  obtains s where "ej_to_string ej e = Inr s" "ej_from_str ej s = Inr e"
  using assms by (auto simp: faithful_json_def)

lemma beaten_name: "beaten e0 e \<Longrightarrow> rg_name e = rg_name e0"
  unfolding beaten_def by (metis service_entry.select_convs(1) service_entry.surjective service_entry.update_convs(6,8))

lemma beaten_refl: "beaten e e"
  by (simp add: beaten_def)

lemma beaten_again: "beaten e0 e \<Longrightarrow> beaten e0 (e\<lparr>rg_status := Healthy, rg_last_heartbeat := stamp\<rparr>)"
  by (cases e0; cases e) (simp add: beaten_def)

text \<open>The invariant: the key of the service holds its entry until its time is up.\<close>

definition represents :: "entry_json \<Rightarrow> service_entry \<Rightarrow> int \<times> registry_store \<Rightarrow> int \<times> service_entry \<Rightarrow> bool" where
  "represents ej e0 st spec \<longleftrightarrow> (case (st, spec) of ((now, store), (left, e)) \<Rightarrow>
     beaten e0 e \<and>
     (if 0 < left then \<exists>s. map_of store (registry_key (rg_name e0)) = Some (s, now + left) \<and> ej_from_str ej s = Inr e
      else live_value now store (registry_key (rg_name e0)) = None))"

lemma registry_key_inject [simp]: "registry_key a = registry_key b \<longleftrightarrow> a = b"
  by (simp add: registry_key_def)

lemma represents_live:
  "represents ej e0 (now, store) (left, e) \<Longrightarrow> 0 < left \<Longrightarrow>
     \<exists>s. live_value now store (registry_key (rg_name e0)) = Some s \<and> ej_from_str ej s = Inr e"
  by (auto simp: represents_def live_value_def)

lemma represents_register:
  assumes "faithful_json ej e"
  shows "represents ej e (now, fst (register_service ej None now e store)) (registry_ttl_secs, e)"
  using faithful_text [OF assms beaten_refl]
  by (fastforce simp: represents_def beaten_refl register_service_def registry_text_def connected_def written_def set_ex_def
      registry_ttl_secs_def update_conv')

text \<open>An operation on another key, or one that fails, keeps the representation.\<close>

lemma represents_other:
  assumes "represents ej e0 (now, store) spec" and "map_of store' (registry_key (rg_name e0)) = map_of store (registry_key (rg_name e0))"
  shows "represents ej e0 (now, store') spec"
  using assms by (auto simp: represents_def live_value_def split: prod.splits)

lemma set_ex_other: "k \<noteq> key \<Longrightarrow> map_of (set_ex now key v store) k = map_of store k"
  by (simp add: set_ex_def update_conv')

lemma written_other:
  "map_of store' k = map_of store k \<Longrightarrow> map_of (fst (written fault msg store store')) k = map_of store k"
  by (auto simp: written_def split: option.splits registry_fault.splits)

lemma represents_beat:
  assumes rep: "represents ej e0 (now, store) (left, e)" and json: "faithful_json ej e0"
  shows "represents ej e0 (now, fst (heartbeat ej fault now stamp n store)) (service_after (Beats fault n stamp) (left, e))"
proof (cases "n = rg_name e0 \<and> fault = None")
  case False
  have "map_of (fst (heartbeat ej fault now stamp n store)) (registry_key (rg_name e0)) = map_of store (registry_key (rg_name e0))"
  proof (cases "n = rg_name e0")
    case True
    with False show ?thesis
      by (cases fault) (auto simp: heartbeat_def heartbeat_write_def heartbeat_read_def connected_def read_key_def written_def
        split: sum.split registry_fault.splits option.splits)
  next
    case other: False
    then show ?thesis
      by (auto simp: heartbeat_def heartbeat_write_def set_ex_other intro: written_other split: sum.split)
  qed
  moreover have "service_after (Beats fault n stamp) (left, e) = (left, e)"
    using False rep by (cases fault) (auto simp: represents_def dest: beaten_name)
  ultimately show ?thesis using represents_other [OF rep] by simp
next
  case True
  have same: "beaten e0 e" using rep by (simp add: represents_def)
  note name = beaten_name [OF same]
  show ?thesis
  proof (cases "0 < left")
    case alive: True
    obtain s where s: "live_value now store (registry_key (rg_name e0)) = Some s" "ej_from_str ej s = Inr e"
      using represents_live [OF rep alive] by blast
    obtain s' where s': "ej_to_string ej (e\<lparr>rg_status := Healthy, rg_last_heartbeat := stamp\<rparr>) = Inr s'"
      "ej_from_str ej s' = Inr (e\<lparr>rg_status := Healthy, rg_last_heartbeat := stamp\<rparr>)" using faithful_text [OF json beaten_again [OF same]] by blast
    show ?thesis using True alive name s s' beaten_again [OF same]
      by (simp add: represents_def heartbeat_def heartbeat_read_def heartbeat_write_def connected_def read_key_def
          registry_parse_def registry_text_def written_def set_ex_def registry_ttl_secs_def update_conv')
  next
    case False
    with True rep name show ?thesis
      by (simp add: represents_def heartbeat_def heartbeat_read_def connected_def read_key_def)
  qed
qed

lemma represents_pass:
  assumes "represents ej e0 (now, store) (left, e)" and "0 \<le> d"
  shows "represents ej e0 (now + d, store) (left - d, e)"
proof (cases "0 < left - d")
  case False
  show ?thesis
  proof (cases "0 < left")
    case True
    with assms False show ?thesis by (auto simp: represents_def live_value_def)
  next
    case dead: False
    with assms(1) have "live_value now store (registry_key (rg_name e0)) = None" by (simp add: represents_def)
    then have "live_value (now + d) store (registry_key (rg_name e0)) = None"
      using assms(2) by (auto simp: live_value_def split: option.splits if_splits)
    with assms(1) False show ?thesis by (simp add: represents_def)
  qed
qed (use assms in \<open>auto simp: represents_def\<close>)

lemma represents_step:
  assumes rep: "represents ej e0 st spec" and json: "faithful_json ej e0" and spares: "spares (rg_name e0) ev"
  shows "represents ej e0 (registry_step ej ev st) (service_after ev spec)"
proof -
  obtain now store left e where st: "st = (now, store)" and spec: "spec = (left, e)" by (metis surj_pair)
  note rep = rep [unfolded st spec]
  show ?thesis
  proof (cases ev)
    case (Pass d)
    then show ?thesis using represents_pass [OF rep] spares by (simp add: st spec)
  next
    case (Registers fault entry)
    then have "map_of (fst (register_service ej fault now entry store)) (registry_key (rg_name e0)) = map_of store (registry_key (rg_name e0))"
      using spares by (auto simp: register_service_def set_ex_other intro!: written_other split: sum.split)
    with Registers show ?thesis using represents_other [OF rep] by (simp add: st spec)
  next
    case (Beats fault n stamp)
    then show ?thesis using represents_beat [OF rep json] by (simp add: st spec)
  next
    case (Deregisters fault n)
    then have "map_of (fst (deregister_service fault n store)) (registry_key (rg_name e0)) = map_of store (registry_key (rg_name e0))"
      using spares by (auto simp: deregister_service_def delete_conv' intro!: written_other split: sum.split)
    with Deregisters show ?thesis using represents_other [OF rep] by (simp add: st spec)
  qed
qed

lemma represents_run:
  assumes "represents ej e0 st spec" and "faithful_json ej e0" and "list_all (spares (rg_name e0)) evs"
  shows "represents ej e0 (registry_run ej evs st) (fold service_after evs spec)"
  using assms by (induction evs arbitrary: st spec) (auto simp: registry_run_def represents_step)

section \<open>How long a service stays listed\<close>

lemma lookup_represented:
  assumes "represents ej e0 (now, store) (left, e)"
  shows "lookup_service ej None now (rg_name e0) store = Inr (if 0 < left then Some e else None)"
proof (cases "0 < left")
  case True
  from represents_live [OF assms this] show ?thesis
    by (auto simp: lookup_service_def connected_def read_key_def registry_parse_def True)
next
  case False
  with assms show ?thesis by (simp add: represents_def lookup_service_def connected_def read_key_def)
qed

lemma map_filter_find:
  assumes "x \<in> set xs" "f x = Some y" "P y"
  shows "\<exists>z. find P (List.map_filter f xs) = Some z \<and> P z"
proof -
  have "y \<in> set (List.map_filter f xs)" using assms by (force simp: List.map_filter_def)
  with assms(3) have "find P (List.map_filter f xs) \<noteq> None" by (metis find_None_iff)
  then show ?thesis by (auto simp: find_Some_iff)
qed

lemma discover_represented:
  assumes rep: "represents ej e0 (now, store) (left, e)" and left: "0 < left"
    and healthy: "rg_status e = Healthy" and r: "r \<in> set (rg_resources e)"
  shows "\<exists>s. discover_resource ej None None now r store = Inr (Some s) \<and> rg_status s = Healthy \<and> r \<in> set (rg_resources s)"
proof -
  obtain v where v: "live_value now store (registry_key (rg_name e0)) = Some v" "ej_from_str ej v = Inr e"
    using represents_live [OF rep left] by blast
  then have "registry_key (rg_name e0) \<in> fst ` set store" by (auto simp: live_value_def has_key_iff [symmetric] split: option.splits)
  then have key: "registry_key (rg_name e0) \<in> set (registry_keys now store)" using v(1) by (simp add: registry_keys_def registry_key_def)
  then have "registry_keys now store \<noteq> []" by auto
  then show ?thesis
    using map_filter_find [OF key, of "\<lambda>key. Option.bind (live_value now store key) (\<lambda>v.
        (case ej_from_str ej v of Inr entry \<Rightarrow> Some entry | Inl _ \<Rightarrow> None))" e
        "\<lambda>s. rg_status s = Healthy \<and> r \<in> set (rg_resources s)"] v healthy r
    by (auto simp: discover_resource_def list_ex_iff list_services_def connected_def read_key_def fetch_services_def)
qed

text \<open>
  C38. A registered service is found, with its last entry, for exactly as long as no 35 seconds pass without one
  of its heartbeats, whatever other services and failing commands do meanwhile; while it is found and has
  beaten, each of its resources can be discovered.
\<close>

theorem service_listed_while_beating:
  assumes json: "faithful_json ej e" and spares: "list_all (spares (rg_name e)) evs"
    and run: "registry_run ej (Registers None e # evs) (now, store) = (now', store')"
    and spec: "fold service_after evs (registry_ttl_secs, e) = (left, e')"
  shows "lookup_service ej None now' (rg_name e) store' = Inr (if 0 < left then Some e' else None)
    \<and> (0 < left \<and> rg_status e' = Healthy \<longrightarrow> (\<forall>r \<in> set (rg_resources e').
         \<exists>s. discover_resource ej None None now' r store' = Inr (Some s) \<and> rg_status s = Healthy \<and> r \<in> set (rg_resources s)))"
proof -
  have "registry_run ej evs (now, fst (register_service ej None now e store)) = (now', store')"
    using run by (simp add: registry_run_def)
  with represents_run [OF represents_register [OF json] json spares, of now store] spec
  have "represents ej e (now', store') (left, e')" by simp
  then show ?thesis using lookup_represented discover_represented by blast
qed

text \<open>A service and a format of its entries, for the examples: the status and the time of the last beat.\<close>

definition toy_service :: service_entry where
  "toy_service = \<lparr>rg_name = ''users-api'', rg_url = ''http://localhost:3001'', rg_port = 3001, rg_resources = [''users''],
     rg_protocols = [''rest''], rg_status = Starting, rg_registered_at = ''t0'', rg_last_heartbeat = ''t0''\<rparr>"

fun status_tag :: "service_status \<Rightarrow> char" where
  "status_tag Starting = CHR ''s''"
| "status_tag Healthy = CHR ''h''"
| "status_tag Unhealthy = CHR ''u''"
| "status_tag Stopped = CHR ''x''"

definition toy_json :: entry_json where
  "toy_json = \<lparr>ej_to_string = (\<lambda>e. Inr (status_tag (rg_status e) # rg_last_heartbeat e)),
     ej_from_str = (\<lambda>s. case s of
       c # stamp \<Rightarrow> (case find (\<lambda>st. status_tag st = c) [Starting, Healthy, Unhealthy, Stopped] of
           Some st \<Rightarrow> Inr (toy_service\<lparr>rg_status := st, rg_last_heartbeat := stamp\<rparr>)
         | None \<Rightarrow> Inl ''unknown status'')
     | [] \<Rightarrow> Inl ''EOF'')\<rparr>"

lemma toy_json_faithful: "faithful_json toy_json toy_service"
proof -
  have "find (\<lambda>st'. status_tag st' = status_tag st) [Starting, Healthy, Unhealthy, Stopped] = Some st" for st
    by (cases st) auto
  then show ?thesis by (simp add: faithful_json_def toy_json_def beaten_def)
qed

definition toy_history :: "registry_event list" where
  "toy_history = [Pass 1, Beats None ''users-api'' ''t1'', Pass 30, Deregisters None ''orders-api'',
     Beats None ''users-api'' ''t31'', Pass 34]"

definition toy_end :: "int \<times> registry_store" where
  "toy_end = registry_run toy_json (Registers None toy_service # toy_history) (0, [])"

theorem service_listed_while_beating_witness:
  "lookup_service toy_json None 65 ''users-api'' (snd toy_end)
     = Inr (Some (toy_service\<lparr>rg_status := Healthy, rg_last_heartbeat := ''t31''\<rparr>))
   \<and> (\<exists>s. discover_resource toy_json None None 65 ''users'' (snd toy_end) = Inr (Some s))"
proof -
  have spec: "fold service_after toy_history (registry_ttl_secs, toy_service)
      = (1, toy_service\<lparr>rg_status := Healthy, rg_last_heartbeat := ''t31''\<rparr>)" by code_simp
  have spares: "list_all (spares (rg_name toy_service)) toy_history" by code_simp
  have "fst toy_end = 65" by code_simp
  then have run: "registry_run toy_json (Registers None toy_service # toy_history) (0, []) = (65, snd toy_end)"
    by (metis prod.collapse toy_end_def)
  show ?thesis using service_listed_while_beating [OF toy_json_faithful spares run spec] by (auto simp: toy_service_def)
qed

text \<open>An entry that has expired stays lost: the heartbeats that its service goes on sending find no entry, and
  no task registers it again.\<close>

lemma expired_service_stays_lost:
  assumes "left \<le> 0" and "list_all (spares (rg_name e)) evs"
  shows "fst (fold service_after evs (left, e)) \<le> 0"
  using assms
proof (induction evs arbitrary: left)
  case (Cons ev evs)
  obtain left' where "left' \<le> 0" "service_after ev (left, e) = (left', e)"
    using Cons.prems by (cases "(ev, (left, e))" rule: service_after.cases) auto
  with Cons.IH [of left'] Cons.prems(2) show ?case by simp
qed simp

text \<open>A task whose beats all reach Redis keeps its service listed, and two missed beats in a row do no harm;
  the third missed beat comes after 30 seconds, and the next beat is too late.\<close>

lemma missed_beats:
  assumes "0 < left"
  shows "0 < fst (fold service_after [Beats None (rg_name e) t, Pass 10, Pass 10, Pass 10] (left, e))"
    "fst (fold service_after [Beats None (rg_name e) t, Pass 10, Pass 10, Pass 10, Pass 10, Beats None (rg_name e) t'] (left, e)) < 0"
  using assms by (simp_all add: registry_ttl_secs_def)

text \<open>A heartbeat whose read comes before a deregistration and whose write comes after it brings the removed
  service back, as healthy, for the life of an entry.\<close>

lemma heartbeat_resurrects:
  assumes "heartbeat_read ej None now stamp name store = Inr updated"
    and "deregister_service None name store = (store', Inr ())"
    and "heartbeat_write None now name updated store' = (store'', r)"
  shows "live_value now store' (registry_key name) = None" "live_value now store'' (registry_key name) = Some updated"
  using assms
  by (auto simp: deregister_service_def connected_def written_def heartbeat_write_def registry_values.get_put
      registry_values.get_del)

text \<open>A service registered as starting is not discovered before its first heartbeat.\<close>

lemma starting_service_not_discovered:
  "discover_resource toy_json None None 0 ''users'' (fst (register_service toy_json None 0 toy_service [])) = Inr None"
  by code_simp

end
