(* ===== verification/Migrations.thy ===== *)
theory Migrations
  imports Orm_Query "HOL-Library.List_Lexorder" "HOL-Library.Char_ord"
begin

text \<open>
  The migration runner of \<open>shaperail-runtime/src/db/migration.rs\<close> for several databases: the order of the
  connections, the tracking table, and the loop that applies what is pending and records it. The files as sqlx
  loads them, the servers and the clock are parameters. Below, when a migration runs once, and when it does not.
\<close>

section \<open>The runner\<close>

text \<open>A migration as sqlx loads it; \<open>mn_checksum\<close> is the hexadecimal text of its checksum.\<close>

record migration =
  mn_version :: int
  mn_description :: string
  mn_simple :: bool
  mn_sql :: string
  mn_checksum :: string

definition ordered_connections :: "'h connections \<Rightarrow> 'h connections" where
  "ordered_connections conns =
     (case find (\<lambda>(name, _). name = ''default'') conns of Some c \<Rightarrow> [c] | None \<Rightarrow> [])
     @ sort_key fst (filter (\<lambda>(name, _). name \<noteq> ''default'') conns)"

definition tracking_columns :: "database_engine \<Rightarrow> (string \<times> string) list" where
  "tracking_columns e = (case e of
     MySQL \<Rightarrow> [(''version'', ''BIGINT PRIMARY KEY''), (''description'', ''TEXT NOT NULL''),
       (''installed_on'', ''DATETIME(6) NOT NULL DEFAULT (CURRENT_TIMESTAMP(6))''), (''success'', ''BOOLEAN NOT NULL''),
       (''checksum'', ''BLOB NOT NULL''), (''execution_time'', ''BIGINT NOT NULL'')]
   | SQLite \<Rightarrow> [(''version'', ''INTEGER PRIMARY KEY''), (''description'', ''TEXT NOT NULL''),
       (''installed_on'', ''TEXT NOT NULL DEFAULT (datetime('' @ squote ''now'' @ ''))''), (''success'', ''INTEGER NOT NULL''),
       (''checksum'', ''BLOB NOT NULL''), (''execution_time'', ''INTEGER NOT NULL'')]
   | _ \<Rightarrow> [(''version'', ''BIGINT PRIMARY KEY''), (''description'', ''TEXT NOT NULL''),
       (''installed_on'', ''TIMESTAMPTZ NOT NULL DEFAULT NOW()''), (''success'', ''BOOLEAN NOT NULL''),
       (''checksum'', ''BYTEA NOT NULL''), (''execution_time'', ''BIGINT NOT NULL'')])"

definition create_tracking :: "database_engine \<Rightarrow> string" where
  "create_tracking e =
     (let q = (\<lambda>s. if e = MySQL then backtick s else dquote s); indent = newline @ replicate 16 CHR '' '' in
      ''CREATE TABLE IF NOT EXISTS '' @ q ''_sqlx_migrations'' @ '' ('' @ indent
        @ join ('','' @ indent) (map (\<lambda>(c, t). q c @ '' '' @ t) (tracking_columns e))
        @ newline @ replicate 12 CHR '' '' @ '')'')"

definition applied_query :: "database_engine \<Rightarrow> string" where
  "applied_query e = replace_all ''true'' (if e = SQLite then ''1'' else ''true'')
     ''SELECT version FROM _sqlx_migrations WHERE success = true''"

definition row_version :: "sea_row \<Rightarrow> int option" where
  "row_version row = (case row ''version'' KInt of Inr (Some (ScInt v)) \<Rightarrow> Some v | _ \<Rightarrow> None)"

definition record_sql :: "database_engine \<Rightarrow> migration \<Rightarrow> bool \<Rightarrow> int \<Rightarrow> string" where
  "record_sql e m success elapsed =
     (let q = (\<lambda>s. if e = MySQL then backtick s else dquote s) in
      ''INSERT INTO '' @ q ''_sqlx_migrations'' @ '' (''
        @ join '', '' (map q [''version'', ''description'', ''success'', ''checksum'', ''execution_time'']) @ '') VALUES (''
        @ show_int (mn_version m) @ '', '' @ squote (replace_all [CHR 0x27] [CHR 0x27, CHR 0x27] (mn_description m))
        @ '', '' @ (if success then ''true'' else ''false'') @ '', ''
        @ (if e = MySQL then CHR ''X'' # squote (mn_checksum m) else squote ([CHR 0x5C] @ CHR ''x'' # mn_checksum m))
        @ '', '' @ show_int elapsed @ '')'')"

text \<open>The loop: what is applied is skipped, what is not simple too; the answer of the record is ignored.\<close>

fun apply_pending :: "(int \<Rightarrow> int) \<Rightarrow> database_engine \<Rightarrow> 'db sea_server \<Rightarrow> string \<Rightarrow> int list \<Rightarrow> migration list \<Rightarrow>
    'db \<Rightarrow> 'db \<times> unit res" where
  "apply_pending clock e server name applied [] db = (db, Inr ())"
| "apply_pending clock e server name applied (m # ms) db =
     (if mn_version m \<in> set applied \<or> \<not> mn_simple m then apply_pending clock e server name applied ms db
      else (case ss_execute server (mn_sql m) [] db of (db1, result) \<Rightarrow>
        (case ss_execute server (record_sql e m (is_ok result) (clock (mn_version m))) [] db1 of (db2, _) \<Rightarrow>
          (case result of
             Inl err \<Rightarrow> (db2, Inl (Internal (''Migration '' @ squote (mn_description m) @ '' failed on ''
               @ squote name @ '': '' @ err)))
           | Inr _ \<Rightarrow> apply_pending clock e server name applied ms db2))))"

definition run_migrations_on_connection ::
    "(int \<Rightarrow> int) \<Rightarrow> ('h \<Rightarrow> 'db sea_server) \<Rightarrow> string \<Rightarrow> 'h sql_connection \<Rightarrow> migration list \<Rightarrow> 'db \<Rightarrow> 'db \<times> unit res" where
  "run_migrations_on_connection clock servers name conn ms db =
     (let server = servers (cn_inner conn) in
      (case ss_execute server (create_tracking (cn_engine conn)) [] db of
         (db1, Inl err) \<Rightarrow> (db1, Inl (Internal (''Failed to create migration tracking table on '' @ squote name @ '': '' @ err)))
       | (db1, Inr _) \<Rightarrow> (case ss_query_all server (applied_query (cn_engine conn)) [] db1 of
           (db2, Inl err) \<Rightarrow> (db2, Inl (Internal (''Failed to query migration versions on '' @ squote name @ '': '' @ err)))
         | (db2, Inr rows) \<Rightarrow>
             apply_pending clock (cn_engine conn) server name (List.map_filter row_version rows) ms db2)))"

fun run_on_all :: "(int \<Rightarrow> int) \<Rightarrow> ('h \<Rightarrow> 'db sea_server) \<Rightarrow> migration list \<Rightarrow> 'h connections \<Rightarrow> 'db \<Rightarrow> 'db \<times> unit res" where
  "run_on_all clock servers ms [] db = (db, Inr ())"
| "run_on_all clock servers ms ((name, conn) # conns) db =
     (case run_migrations_on_connection clock servers name conn ms db of
        (db', Inl e) \<Rightarrow> (db', Inl e)
      | (db', Inr _) \<Rightarrow> run_on_all clock servers ms conns db')"

text \<open>\<open>loaded\<close> is what \<open>Migrator::new\<close> answers for the directory.\<close>

definition run_migrations_multi :: "(int \<Rightarrow> int) \<Rightarrow> ('h \<Rightarrow> 'db sea_server) \<Rightarrow> string + migration list \<Rightarrow> 'h connections \<Rightarrow>
    'db \<Rightarrow> 'db \<times> unit res" where
  "run_migrations_multi clock servers loaded conns db = (case loaded of
     Inl e \<Rightarrow> (db, Inl (Internal (''Failed to load migrations: '' @ e)))
   | Inr ms \<Rightarrow> run_on_all clock servers ms (ordered_connections conns) db)"

text \<open>The single database: sqlx runs its own migrations, \<open>applied\<close> is its answer.\<close>

definition run_migrations :: "string + 'm \<Rightarrow> ('m \<Rightarrow> string + unit) \<Rightarrow> unit res" where
  "run_migrations loaded applied = (case loaded of
     Inl e \<Rightarrow> Inl (Internal (''Failed to load migrations: '' @ e))
   | Inr migrator \<Rightarrow> (case applied migrator of Inl e \<Rightarrow> Inl (Internal (''Migration failed: '' @ e)) | Inr _ \<Rightarrow> Inr ()))"

section \<open>The order of the connections\<close>

lemma found_element: "find P xs = Some c \<Longrightarrow> c \<in> set xs \<and> P c"
  by (induction xs) (auto split: if_splits)

lemma ordered_connections_spec:
  assumes "distinct (map fst conns)"
  shows "set (ordered_connections conns) = set conns" "distinct (map fst (ordered_connections conns))"
    "\<exists>ds os. ordered_connections conns = ds @ os \<and> fst ` set ds \<subseteq> {''default''} \<and> ''default'' \<notin> fst ` set os
       \<and> sorted (map fst os)"
proof -
  let ?ds = "case find (\<lambda>(name, _). name = ''default'') conns of Some c \<Rightarrow> [c] | None \<Rightarrow> []"
  let ?os = "sort_key fst (filter (\<lambda>(name, _). name \<noteq> ''default'') conns)"
  have ds: "set ?ds = {c \<in> set conns. fst c = ''default''}"
  proof (cases "find (\<lambda>(name, _). name = ''default'') conns")
    case None
    then have "fst c \<noteq> ''default''" if "c \<in> set conns" for c using that unfolding find_None_iff by (cases c) auto
    with None show ?thesis by auto
  next
    case (Some c)
    then have c: "c \<in> set conns" "fst c = ''default''" using found_element [OF Some] by (auto split: prod.splits)
    have inj: "inj_on fst (set conns)" using assms by (simp add: distinct_map)
    have "d = c" if "d \<in> set conns" "fst d = ''default''" for d using inj_onD [OF inj, of d c] that c by simp
    then have "{c' \<in> set conns. fst c' = ''default''} = {c}" using c by blast
    with Some show ?thesis by simp
  qed
  then show "set (ordered_connections conns) = set conns" by (auto simp: ordered_connections_def)
  have "distinct (map fst ?os)" using assms by (simp add: distinct_map inj_on_def)
  moreover have "distinct (map fst ?ds)" by (simp split: option.split)
  ultimately show "distinct (map fst (ordered_connections conns))" using ds by (auto simp: ordered_connections_def)
  have "fst ` set ?ds \<subseteq> {''default''}" "''default'' \<notin> fst ` set ?os" using ds by auto
  then show "\<exists>ds os. ordered_connections conns = ds @ os \<and> fst ` set ds \<subseteq> {''default''} \<and> ''default'' \<notin> fst ` set os
       \<and> sorted (map fst os)" unfolding ordered_connections_def by (metis sorted_sort_key)
qed

section \<open>The tracking table\<close>

text \<open>How a server keeps the table: the statements of the runner act on it as SQL says, a version is its primary
  key, and the migrations themselves leave it alone. \<open>recorded\<close> are its versions, \<open>succeeded\<close> those with a
  success, \<open>data\<close> is the rest of the database.\<close>

definition tracking_server :: "('db \<Rightarrow> int set) \<Rightarrow> ('db \<Rightarrow> int set) \<Rightarrow> ('db \<Rightarrow> 'd) \<Rightarrow> database_engine \<Rightarrow> 'db sea_server \<Rightarrow>
    (int \<Rightarrow> int) \<Rightarrow> migration list \<Rightarrow> bool" where
  "tracking_server recorded succeeded data e server clock ms \<longleftrightarrow>
     (\<forall>db db' r. ss_execute server (create_tracking e) [] db = (db', r) \<longrightarrow>
        is_ok r \<and> recorded db' = recorded db \<and> succeeded db' = succeeded db \<and> data db' = data db)
   \<and> (\<forall>db. \<exists>rows. ss_query_all server (applied_query e) [] db = (db, Inr rows)
        \<and> set (List.map_filter row_version rows) = succeeded db)
   \<and> (\<forall>m \<in> set ms. \<forall>b db db' r. ss_execute server (record_sql e m b (clock (mn_version m))) [] db = (db', r) \<longrightarrow>
        data db' = data db
        \<and> recorded db' = insert (mn_version m) (recorded db)
        \<and> succeeded db' = (if mn_version m \<notin> recorded db \<and> b then insert (mn_version m) (succeeded db) else succeeded db))
   \<and> (\<forall>m \<in> set ms. \<forall>db db' r. ss_execute server (mn_sql m) [] db = (db', r) \<longrightarrow>
        recorded db' = recorded db \<and> succeeded db' = succeeded db)"

definition simple_versions :: "migration list \<Rightarrow> int set" where
  "simple_versions ms = mn_version ` {m \<in> set ms. mn_simple m}"

lemma tracking_tail:
  "tracking_server recorded succeeded data e server clock (m # ms) \<Longrightarrow> tracking_server recorded succeeded data e server clock ms"
  by (simp add: tracking_server_def)

lemma tracking_create:
  assumes "tracking_server recorded succeeded data e server clock ms" "ss_execute server (create_tracking e) [] db = (db', r)"
  shows "is_ok r" "recorded db' = recorded db" "succeeded db' = succeeded db" "data db' = data db"
  using assms(1) [unfolded tracking_server_def, THEN conjunct1, rule_format, OF assms(2)] by simp_all

lemma tracking_query:
  assumes "tracking_server recorded succeeded data e server clock ms"
  shows "\<exists>rows. ss_query_all server (applied_query e) [] db = (db, Inr rows)
    \<and> set (List.map_filter row_version rows) = succeeded db"
  using assms [unfolded tracking_server_def, THEN conjunct2, THEN conjunct1] by (rule spec)

lemma tracking_record:
  assumes "tracking_server recorded succeeded data e server clock ms" "m \<in> set ms"
    "ss_execute server (record_sql e m b (clock (mn_version m))) [] db = (db', r)"
  shows "recorded db' = insert (mn_version m) (recorded db)"
    "succeeded db' = (if mn_version m \<notin> recorded db \<and> b then insert (mn_version m) (succeeded db) else succeeded db)"
  using assms(1) [unfolded tracking_server_def, THEN conjunct2, THEN conjunct2, THEN conjunct1, rule_format, OF assms(2,3)]
  by simp_all

lemma tracking_sql:
  assumes "tracking_server recorded succeeded data e server clock ms" "m \<in> set ms"
    "ss_execute server (mn_sql m) [] db = (db', r)"
  shows "recorded db' = recorded db" "succeeded db' = succeeded db"
  using assms(1) [unfolded tracking_server_def, THEN conjunct2, THEN conjunct2, THEN conjunct2, rule_format, OF assms(2,3)]
  by simp_all

text \<open>One pending migration that succeeds: its version is recorded, with a success unless the key was taken.\<close>

lemma apply_one:
  assumes track: "tracking_server recorded succeeded data e server clock (m # ms)"
    and pending: "mn_version m \<notin> set applied" "mn_simple m"
    and run: "apply_pending clock e server name applied (m # ms) db = (db', Inr ())"
  obtains db2 where "apply_pending clock e server name applied ms db2 = (db', Inr ())"
    "recorded db2 = insert (mn_version m) (recorded db)"
    "succeeded db2 = (if mn_version m \<in> recorded db then succeeded db else insert (mn_version m) (succeeded db))"
proof -
  obtain db1 result where first: "ss_execute server (mn_sql m) [] db = (db1, result)" by fastforce
  obtain db2 r2 where second: "ss_execute server (record_sql e m (is_ok result) (clock (mn_version m))) [] db1 = (db2, r2)" by fastforce
  have ok: "is_ok result" and rest: "apply_pending clock e server name applied ms db2 = (db', Inr ())"
    using run pending first second by (auto split: sum.splits)
  have m: "m \<in> set (m # ms)" by simp
  show ?thesis
    using that [OF rest] tracking_sql [OF track m first] tracking_record [OF track m second] ok by simp
qed

lemma apply_pending_succeeds:
  assumes "apply_pending clock e server name applied ms db = (db', Inr ())"
    and "tracking_server recorded succeeded data e server clock ms" and "distinct (map mn_version ms)"
    and "recorded db \<inter> mn_version ` set ms \<subseteq> set applied"
  shows "succeeded db' = succeeded db \<union> (simple_versions ms - set applied)"
  using assms
proof (induction ms arbitrary: db)
  case (Cons m ms)
  note IH = Cons.IH [OF _ tracking_tail [OF Cons.prems(2)]]
  show ?case
  proof (cases "mn_version m \<in> set applied \<or> \<not> mn_simple m")
    case True
    with Cons.prems(1,3,4) IH [of db] have "succeeded db' = succeeded db \<union> (simple_versions ms - set applied)" by auto
    with True show ?thesis by (auto simp: simple_versions_def)
  next
    case False
    then obtain db2 where rest: "apply_pending clock e server name applied ms db2 = (db', Inr ())"
      and db2: "recorded db2 = insert (mn_version m) (recorded db)"
        "succeeded db2 = (if mn_version m \<in> recorded db then succeeded db else insert (mn_version m) (succeeded db))"
      using apply_one [OF Cons.prems(2) _ _ Cons.prems(1)] by blast
    have "mn_version m \<notin> recorded db" using Cons.prems(4) False by auto
    moreover have "recorded db2 \<inter> mn_version ` set ms \<subseteq> set applied" using Cons.prems(3,4) db2(1) by auto
    ultimately show ?thesis using IH [OF rest] Cons.prems(3) db2(2) False by (auto simp: simple_versions_def)
  qed
qed (simp add: simple_versions_def)

lemma apply_nothing:
  assumes "simple_versions ms \<subseteq> set applied"
  shows "apply_pending clock e server name applied ms db = (db, Inr ())"
  using assms by (induction ms) (auto simp: simple_versions_def)

lemma run_start:
  fixes conn :: "'h sql_connection"
  assumes track: "tracking_server recorded succeeded data (cn_engine conn) (servers (cn_inner conn)) clock ms"
  shows "\<exists>db1 rows. run_migrations_on_connection clock' servers name conn ms' db
      = apply_pending clock' (cn_engine conn) (servers (cn_inner conn)) name (List.map_filter row_version rows) ms' db1
    \<and> set (List.map_filter row_version rows) = succeeded db1 \<and> recorded db1 = recorded db \<and> succeeded db1 = succeeded db
    \<and> data db1 = data db"
proof -
  obtain db1 r where first: "ss_execute (servers (cn_inner conn)) (create_tracking (cn_engine conn)) [] db = (db1, r)" by fastforce
  note db1 = tracking_create [OF track first]
  obtain rows where rows: "ss_query_all (servers (cn_inner conn)) (applied_query (cn_engine conn)) [] db1 = (db1, Inr rows)"
    "set (List.map_filter row_version rows) = succeeded db1"
    using tracking_query [OF track] by blast
  from db1(1) first rows(1) have "run_migrations_on_connection clock' servers name conn ms' db
      = apply_pending clock' (cn_engine conn) (servers (cn_inner conn)) name (List.map_filter row_version rows) ms' db1"
    by (auto simp: run_migrations_on_connection_def result_simps)
  then show ?thesis using rows(2) db1 by blast
qed


text \<open>Two migrations and a server for the examples: the versions recorded, those with a success, and the
  statements it was sent besides. The records take five nanoseconds.\<close>

definition toy_users :: migration where
  "toy_users = \<lparr>mn_version = 1, mn_description = ''users'', mn_simple = True, mn_sql = ''CREATE TABLE users (id TEXT)'',
     mn_checksum = ''ab''\<rparr>"

definition toy_orders :: migration where
  "toy_orders = \<lparr>mn_version = 2, mn_description = ''orders'', mn_simple = True, mn_sql = ''CREATE TABLE orders (id TEXT)'',
     mn_checksum = ''cd''\<rparr>"

definition toy_records :: "(migration \<times> bool) list" where
  "toy_records = [(toy_users, True), (toy_users, False), (toy_orders, True), (toy_orders, False)]"

type_synonym toy_tables = "int list \<times> int list \<times> string list"

fun toy_execute :: "string \<Rightarrow> sea_value list \<Rightarrow> toy_tables \<Rightarrow> toy_tables \<times> (string + nat)" where
  "toy_execute sql binds (recs, good, sent) =
     (if sql = create_tracking SQLite then ((recs, good, sent), Inr 0)
      else (case find (\<lambda>(m, b). sql = record_sql SQLite m b 5) toy_records of
          Some (m, b) \<Rightarrow>
            if mn_version m \<in> set recs then ((recs, good, sent), Inl ''UNIQUE constraint failed'')
            else ((mn_version m # recs, (if b then mn_version m # good else good), sent), Inr 1)
        | None \<Rightarrow> ((recs, good, sent @ [sql]), Inr 0)))"

definition toy_tracking :: "toy_tables sea_server" where
  "toy_tracking = \<lparr>ss_query_all = (\<lambda>sql binds db. (db, Inr (map (\<lambda>v name kind. Inr (Some (ScInt v))) (fst (snd db))))),
     ss_execute = toy_execute\<rparr>"

definition toy_connection :: "unit sql_connection" where
  "toy_connection = \<lparr>cn_inner = (), cn_engine = SQLite\<rparr>"

lemma toy_record_texts:
  "find (\<lambda>(m, b). record_sql SQLite toy_users True 5 = record_sql SQLite m b 5) toy_records = Some (toy_users, True)"
  "find (\<lambda>(m, b). record_sql SQLite toy_users False 5 = record_sql SQLite m b 5) toy_records = Some (toy_users, False)"
  "find (\<lambda>(m, b). record_sql SQLite toy_orders True 5 = record_sql SQLite m b 5) toy_records = Some (toy_orders, True)"
  "find (\<lambda>(m, b). record_sql SQLite toy_orders False 5 = record_sql SQLite m b 5) toy_records = Some (toy_orders, False)"
  "find (\<lambda>(m, b). mn_sql toy_users = record_sql SQLite m b 5) toy_records = None"
  "find (\<lambda>(m, b). mn_sql toy_orders = record_sql SQLite m b 5) toy_records = None"
  "record_sql SQLite toy_users True 5 \<noteq> create_tracking SQLite" "record_sql SQLite toy_users False 5 \<noteq> create_tracking SQLite"
  "record_sql SQLite toy_orders True 5 \<noteq> create_tracking SQLite" "record_sql SQLite toy_orders False 5 \<noteq> create_tracking SQLite"
  "mn_sql toy_users \<noteq> create_tracking SQLite" "mn_sql toy_orders \<noteq> create_tracking SQLite"
  by code_simp+

lemma toy_row_versions: "List.map_filter row_version (map (\<lambda>v name kind. Inr (Some (ScInt v))) vs) = vs"
  by (induction vs) (simp_all add: List.map_filter_def row_version_def)

lemma toy_record_effect:
  assumes "toy_execute (record_sql SQLite m b 5) [] db = (db', r)" "m \<in> {toy_users, toy_orders}"
  shows "snd (snd db') = snd (snd db) \<and> set (fst db') = insert (mn_version m) (set (fst db))
    \<and> set (fst (snd db')) = (if mn_version m \<notin> set (fst db) \<and> b then insert (mn_version m) (set (fst (snd db)))
        else set (fst (snd db)))"
  using assms by (cases db; cases b) (auto simp: toy_record_texts split: if_splits)

lemma toy_sql_effect:
  assumes "toy_execute (mn_sql m) [] db = (db', r)" "m \<in> {toy_users, toy_orders}"
  shows "set (fst db') = set (fst db) \<and> set (fst (snd db')) = set (fst (snd db))"
  using assms by (cases db) (auto simp: toy_record_texts)

lemma toy_tracks:
  "tracking_server (\<lambda>db. set (fst db)) (\<lambda>db. set (fst (snd db))) (\<lambda>db. snd (snd db)) SQLite toy_tracking (\<lambda>v. 5)
     [toy_users, toy_orders]"
  unfolding tracking_server_def
proof (intro conjI allI ballI impI, goal_cases)
  case (5 db)
  show ?case by (simp add: toy_tracking_def toy_row_versions)
next
  case (6 m b db db' r)
  then show ?case using toy_record_effect [of m b db db' r] by (simp add: toy_tracking_def)
next
  case (7 m b db db' r)
  then show ?case using toy_record_effect [of m b db db' r] by (simp add: toy_tracking_def)
next
  case (8 m b db db' r)
  then show ?case using toy_record_effect [of m b db db' r] by (simp add: toy_tracking_def)
next
  case (9 m db db' r)
  then show ?case using toy_sql_effect [of m db db' r] by (simp add: toy_tracking_def)
next
  case (10 m db db' r)
  then show ?case using toy_sql_effect [of m db db' r] by (simp add: toy_tracking_def)
qed (auto simp: toy_tracking_def)

definition toy_runs :: "nat \<Rightarrow> toy_tables \<times> unit res" where
  "toy_runs n = ((\<lambda>(db, r :: unit res). run_migrations_on_connection (\<lambda>v. 5) (\<lambda>u. toy_tracking) ''main'' toy_connection
     [toy_users, toy_orders] db) ^^ n) (([1], [1], []), Inr ())"


section \<open>A failed migration\<close>

text \<open>A version that is recorded without a success never gets one: the record of a later success meets the
  primary key, its error is ignored, and every further run applies the migration again.\<close>

lemma stuck_while_pending:
  assumes "apply_pending clock e server name applied ms db = (db', Inr ())"
    and "tracking_server recorded succeeded data e server clock ms"
    and "v \<in> recorded db" "v \<notin> succeeded db"
  shows "v \<in> recorded db' \<and> v \<notin> succeeded db'"
  using assms
proof (induction ms arbitrary: db)
  case (Cons m ms)
  note IH = Cons.IH [OF _ tracking_tail [OF Cons.prems(2)]]
  show ?case
  proof (cases "mn_version m \<in> set applied \<or> \<not> mn_simple m")
    case False
    then obtain db2 where rest: "apply_pending clock e server name applied ms db2 = (db', Inr ())"
      and db2: "recorded db2 = insert (mn_version m) (recorded db)"
        "succeeded db2 = (if mn_version m \<in> recorded db then succeeded db else insert (mn_version m) (succeeded db))"
      using apply_one [OF Cons.prems(2) _ _ Cons.prems(1)] by blast
    from IH [OF rest] db2 Cons.prems(3,4) show ?thesis by (metis insert_iff)
  qed (use Cons.prems IH [of db] in auto)
qed simp

lemma failed_migration_never_marked:
  assumes track: "tracking_server recorded succeeded data (cn_engine conn) (servers (cn_inner conn)) clock ms"
    and failed: "v \<in> recorded db" "v \<notin> succeeded db"
    and run: "run_migrations_on_connection clock servers name conn ms db = (db', Inr ())"
  shows "v \<in> recorded db'" "v \<notin> succeeded db'"
proof -
  obtain db1 rows where first: "apply_pending clock (cn_engine conn) (servers (cn_inner conn)) name
        (List.map_filter row_version rows) ms db1 = (db', Inr ())"
    and db1: "recorded db1 = recorded db" "succeeded db1 = succeeded db"
    using run_start [where servers = servers and conn = conn, OF track, of clock name ms db] run by auto
  from stuck_while_pending [OF first track] db1 failed show "v \<in> recorded db'" "v \<notin> succeeded db'" by auto
qed

end
