(* ===== verification/Feature_Check.thy ===== *)
theory Feature_Check
  imports Sql_Builder "HOL-Library.List_Lexorder" "HOL-Library.Char_ord"
begin

text \<open>
  The Cargo features that resources need, \<open>shaperail-codegen/src/feature_check.rs\<close>: what is collected per
  resource, sorted and reduced to one entry per feature, and the warning printed for it.
\<close>

record required_feature =
  rf_feature :: string
  rf_reason :: string
  rf_enable_hint :: string

definition enable_hint :: "string \<Rightarrow> string" where
  "enable_hint feature = ''Add to Cargo.toml: shaperail-runtime = { features = ['' @ dquote feature @ ''] }''"

definition uses_wasm :: "endpoint_spec \<Rightarrow> bool" where
  "uses_wasm ep = (case ep_controller ep of None \<Rightarrow> False | Some c \<Rightarrow> has_wasm_before c \<or> has_wasm_after c)"

definition resource_features :: "resource_definition \<Rightarrow> required_feature list" where
  "resource_features rd =
     (let res = rd_resource rd in
      concat (map (\<lambda>(action, ep). if uses_wasm ep then
          [\<lparr>rf_feature = ''wasm-plugins'',
            rf_reason = ''resource '' @ squote res @ '' endpoint '' @ squote action @ '' uses WASM controller'',
            rf_enable_hint = enable_hint ''wasm-plugins''\<rparr>] else []) (or_else (rd_endpoints rd) []))
      @ (if rd_db rd = None then [] else
          [\<lparr>rf_feature = ''multi-db'',
            rf_reason = ''resource '' @ squote res @ '' uses '' @ squote ''db'' @ '' key for multi-database routing'',
            rf_enable_hint = enable_hint ''multi-db''\<rparr>]))"

text \<open>\<open>dedup_by\<close> drops every element whose key is that of the last one kept.\<close>

fun dedup_by :: "('a \<Rightarrow> 'k) \<Rightarrow> 'a list \<Rightarrow> 'a list" where
  "dedup_by f [] = []"
| "dedup_by f [x] = [x]"
| "dedup_by f (x # y # ys) = (if f y = f x then dedup_by f (x # ys) else x # dedup_by f (y # ys))"

definition check_required_features :: "resource_definition list \<Rightarrow> required_feature list" where
  "check_required_features rds = dedup_by rf_feature (sort_key rf_feature (concat (map resource_features rds)))"

definition format_feature_warnings :: "required_feature list \<Rightarrow> string" where
  "format_feature_warnings required =
     (if required = [] then []
      else ''Feature requirements detected:'' @ newline
        @ concat (map (\<lambda>f. ''  - feature '' @ squote (rf_feature f) @ '' needed: '' @ rf_reason f @ newline
            @ ''    '' @ rf_enable_hint f @ newline) required))"

section \<open>One entry per feature that is needed\<close>

lemma dedup_by_keys: "f ` set (dedup_by f xs) = f ` set xs"
  by (induction f xs rule: dedup_by.induct) auto

lemma dedup_by_subset: "set (dedup_by f xs) \<subseteq> set xs"
  by (induction f xs rule: dedup_by.induct) auto

lemma dedup_by_strict:
  assumes "sorted (map f xs)"
  shows "sorted_wrt (<) (map f (dedup_by f xs))"
  using assms
proof (induction f xs rule: dedup_by.induct)
  case (3 f x y ys)
  show ?case
  proof (cases "f y = f x")
    case True
    with 3 show ?thesis by auto
  next
    case False
    with 3 have "sorted_wrt (<) (map f (dedup_by f (y # ys)))" by simp
    moreover have "\<forall>k \<in> f ` set (dedup_by f (y # ys)). f x < k"
      unfolding dedup_by_keys using 3(3) False by force
    ultimately show ?thesis using False by simp
  qed
qed simp_all

definition needs_feature :: "resource_definition \<Rightarrow> string \<Rightarrow> bool" where
  "needs_feature rd feature \<longleftrightarrow>
     feature = ''multi-db'' \<and> rd_db rd \<noteq> None
     \<or> feature = ''wasm-plugins'' \<and> (\<exists>(action, ep) \<in> set (or_else (rd_endpoints rd) []). uses_wasm ep)"

lemma wasm_entries:
  assumes "\<And>a. rf_feature (entry a) = k"
  shows "rf_feature ` set (concat (map (\<lambda>(a, ep). if uses_wasm ep then [entry a] else []) eps))
    = {feature. feature = k \<and> (\<exists>(a, ep) \<in> set eps. uses_wasm ep)}"
proof (induction eps)
  case (Cons p eps)
  obtain a ep where p: "p = (a, ep)" by fastforce
  show ?case
  proof (cases "uses_wasm ep")
    case True
    then show ?thesis unfolding p list.map concat.simps set_append image_Un Cons.IH using assms by auto
  next
    case False
    then show ?thesis unfolding p list.map concat.simps set_append image_Un Cons.IH by auto
  qed
qed simp

lemma resource_features_keys: "rf_feature ` set (resource_features rd) = {feature. needs_feature rd feature}"
proof -
  have db: "rf_feature ` set (if rd_db rd = None then [] else [x]) = (if rd_db rd = None then {} else {''multi-db''})"
    if "rf_feature x = ''multi-db''" for x using that by simp
  have "rf_feature ` set (resource_features rd)
      = {feature. feature = ''wasm-plugins'' \<and> (\<exists>(a, ep) \<in> set (or_else (rd_endpoints rd) []). uses_wasm ep)}
        \<union> (if rd_db rd = None then {} else {''multi-db''})"
    unfolding resource_features_def Let_def set_append image_Un by (subst wasm_entries, simp, subst db, simp, rule refl)
  also have "\<dots> = {feature. needs_feature rd feature}" unfolding needs_feature_def by (auto split: if_split_asm)
  finally show ?thesis .
qed

text \<open>The features are listed in order, each once, and exactly those that a resource needs.\<close>

lemma required_features_exact:
  "rf_feature ` set (check_required_features rds) = {feature. \<exists>rd \<in> set rds. needs_feature rd feature}"
  "sorted_wrt (<) (map rf_feature (check_required_features rds))"
proof -
  have "rf_feature ` set (check_required_features rds) = (\<Union>rd \<in> set rds. rf_feature ` set (resource_features rd))"
    by (auto simp: check_required_features_def dedup_by_keys)
  then show "rf_feature ` set (check_required_features rds) = {feature. \<exists>rd \<in> set rds. needs_feature rd feature}"
    by (auto simp: resource_features_keys)
  show "sorted_wrt (<) (map rf_feature (check_required_features rds))"
    unfolding check_required_features_def by (rule dedup_by_strict) simp
qed

text \<open>Nothing is printed exactly when no feature is needed.\<close>

lemma no_warning_iff: "format_feature_warnings (check_required_features rds) = [] \<longleftrightarrow> (\<forall>rd \<in> set rds. \<forall>f. \<not> needs_feature rd f)"
proof -
  have "format_feature_warnings fs = [] \<longleftrightarrow> fs = []" for fs by (simp add: format_feature_warnings_def)
  then show ?thesis using required_features_exact(1) [of rds] by auto
qed

end
