(* ===== verification/Observability.thy ===== *)
theory Observability
  imports Core_Types
begin

text \<open>
  The parts of \<open>shaperail-runtime/src/observability\<close> that compute: the redaction of sensitive fields
  (\<open>logging.rs\<close>) and the readiness answer (\<open>health.rs\<close>); the checks of the database and of Redis are parameters.
\<close>

section \<open>Redaction\<close>

definition sensitive_fields :: "resource_definition list \<Rightarrow> string set" where
  "sensitive_fields rds = (\<Union>rd \<in> set rds. {name. \<exists>f. (name, f) \<in> set (rd_schema rd) \<and> fs_sensitive f})"

lemma sensitive_fields_code [code]:
  "sensitive_fields rds = set (concat (map (\<lambda>rd. map fst (filter (\<lambda>(n, f). fs_sensitive f) (rd_schema rd))) rds))"
  by (force simp: sensitive_fields_def)

abbreviation redacted :: json where
  "redacted \<equiv> JStr ''[REDACTED]''"

fun redact_sensitive :: "string set \<Rightarrow> json \<Rightarrow> json" where
  "redact_sensitive S (JObj m) = JObj (map (\<lambda>(k, v). (k, if k \<in> S then redacted else redact_sensitive S v)) m)"
| "redact_sensitive S (JArr vs) = JArr (map (redact_sensitive S) vs)"
| "redact_sensitive S v = v"

text \<open>The values that stand under a sensitive key, at any depth.\<close>

fun exposed :: "string set \<Rightarrow> json \<Rightarrow> json list" where
  "exposed S (JObj m) = concat (map (\<lambda>(k, v). (if k \<in> S then [v] else []) @ exposed S v) m)"
| "exposed S (JArr vs) = concat (map (exposed S) vs)"
| "exposed S v = []"

text \<open>After redaction only the mark is left under such keys, redacting again changes nothing, and a value
  without such keys stays as it is.\<close>

lemma redaction_complete: "set (exposed S (redact_sensitive S v)) \<subseteq> {redacted}"
  by (induction S v rule: redact_sensitive.induct) (auto split: if_splits, blast+)

lemma redaction_idempotent: "redact_sensitive S (redact_sensitive S v) = redact_sensitive S v"
  by (induction S v rule: redact_sensitive.induct) auto

lemma redaction_minimal: "exposed S v = [] \<Longrightarrow> redact_sensitive S v = v"
proof (induction S v rule: redact_sensitive.induct)
  case (1 S m)
  have "(k, if k \<in> S then redacted else redact_sensitive S v) = (k, v)" if "(k, v) \<in> set m" for k v
    using 1(1) [OF that, of k v] 1(2) that by (force split: if_splits)
  then show ?case by (auto intro!: map_idI)
qed (auto intro!: map_idI)

text \<open>A sensitive field of a record is redacted by its name, whatever resource the value belongs to.\<close>

lemma sensitive_field_redacted:
  assumes "rd \<in> set rds" "(name, f) \<in> set (rd_schema rd)" "fs_sensitive f" "(name, v) \<in> set m"
  shows "(name, redacted) \<in> set (case redact_sensitive (sensitive_fields rds) (JObj m) of JObj m' \<Rightarrow> m' | _ \<Rightarrow> [])"
  using assms by (force simp: sensitive_fields_def)

section \<open>Readiness\<close>

text \<open>\<open>None\<close>: not configured; otherwise the error of the check, if it failed.\<close>

definition check_entry :: "string \<Rightarrow> string option option \<Rightarrow> (string \<times> json) list" where
  "check_entry name outcome = (case outcome of
     None \<Rightarrow> []
   | Some None \<Rightarrow> [(name, JObj [(''status'', JStr ''ok'')])]
   | Some (Some e) \<Rightarrow> [(name, JObj [(''status'', JStr ''error''), (''message'', JStr e)])])"

fun check_ok :: "string option option \<Rightarrow> bool" where
  "check_ok (Some (Some e)) = False"
| "check_ok _ = True"

definition health_ready_handler :: "string option option \<Rightarrow> string option option \<Rightarrow> nat \<times> json" where
  "health_ready_handler database redis =
     (let all_ok = (check_ok database \<and> check_ok redis) in
      (if all_ok then 200 else 503,
       JObj [(''status'', JStr (if all_ok then ''ok'' else ''degraded'')),
             (''checks'', JObj (check_entry ''database'' database @ check_entry ''redis'' redis))]))"

lemma ready_iff: "fst (health_ready_handler database redis) = 200 \<longleftrightarrow>
   (\<forall>e. database \<noteq> Some (Some e) \<and> redis \<noteq> Some (Some e))"
  by (cases database rule: check_ok.cases; cases redis rule: check_ok.cases) (auto simp: health_ready_handler_def)

end
