(* ===== verification/Event_Log.thy ===== *)
theory Event_Log
  imports Sql_Builder "HOL-Library.Multiset"
begin

text \<open>
  The audit tables of \<open>shaperail-runtime/src/events/log.rs\<close>: the five statements, the values they bind
  and the rows they read. The server is a parameter; a row answers for a column and the type asked of it, as
  \<open>try_get\<close> does. The facts: what an append binds reads back as the same record, column by column, and on
  a server that keeps its tables every event that was appended is recalled, once.
\<close>

section \<open>Records, values and the server\<close>

record event_record =
  lg_event_id :: string
  lg_event :: string
  lg_resource :: string
  lg_action :: string
  lg_data :: json
  lg_timestamp :: string

record delivery_record =
  ld_delivery_id :: string
  ld_event_id :: string
  ld_url :: string
  ld_status_code :: int
  ld_status :: string
  ld_latency_ms :: int
  ld_error :: "string option"
  ld_attempt :: int
  ld_timestamp :: string

datatype log_value = LvText string | LvJson json | LvInt int | LvBigInt int | LvOptText "string option"

record log_row =
  lr_text :: "string \<Rightarrow> string + string"
  lr_json :: "string \<Rightarrow> string + json"
  lr_int :: "string \<Rightarrow> string + int"
  lr_bigint :: "string \<Rightarrow> string + int"
  lr_opt_text :: "string \<Rightarrow> string + string option"

record 'db log_server =
  lo_execute :: "string \<Rightarrow> log_value list \<Rightarrow> 'db \<Rightarrow> 'db \<times> (string + unit)"
  lo_fetch_all :: "string \<Rightarrow> log_value list \<Rightarrow> 'db \<Rightarrow> string + log_row list"

definition missing_column :: "string \<Rightarrow> string + 'a \<Rightarrow> 'a res" where
  "missing_column col r = (case r of
     Inl e \<Rightarrow> Inl (Internal (''Missing '' @ col @ '' column: '' @ e)) | Inr x \<Rightarrow> Inr x)"

definition execute_logged :: "'db log_server \<Rightarrow> string \<Rightarrow> string \<Rightarrow> log_value list \<Rightarrow> 'db \<Rightarrow> 'db \<times> unit res" where
  "execute_logged server what sql vs db = (case lo_execute server sql vs db of
     (db', Inl e) \<Rightarrow> (db', Inl (Internal (''Failed to log '' @ what @ '': '' @ e)))
   | (db', Inr u) \<Rightarrow> (db', Inr ()))"

definition fetch_logged :: "'db log_server \<Rightarrow> string \<Rightarrow> (log_row \<Rightarrow> 'a res) \<Rightarrow> string \<Rightarrow> log_value list \<Rightarrow> 'db \<Rightarrow>
    'a list res" where
  "fetch_logged server what f sql vs db = (case lo_fetch_all server sql vs db of
     Inl e \<Rightarrow> Inl (Internal (''Failed to query '' @ what @ '': '' @ e)) | Inr rows \<Rightarrow> map_res f rows)"

definition line :: "string \<Rightarrow> string" where
  "line s = newline @ replicate 15 CHR '' '' @ s"

section \<open>The event log\<close>

definition append_sql :: string where
  "append_sql = ''INSERT INTO shaperail_event_log (event_id, event, resource, action, data, timestamp)''
     @ line ''VALUES ($1, $2, $3, $4, $5, $6)''"

definition event_values :: "event_record \<Rightarrow> log_value list" where
  "event_values r = [LvText (lg_event_id r), LvText (lg_event r), LvText (lg_resource r), LvText (lg_action r),
     LvJson (lg_data r), LvText (lg_timestamp r)]"

definition append_event :: "'db log_server \<Rightarrow> event_record \<Rightarrow> 'db \<Rightarrow> 'db \<times> unit res" where
  "append_event server r = execute_logged server ''event'' append_sql (event_values r)"

definition row_to_event_record :: "log_row \<Rightarrow> event_record res" where
  "row_to_event_record row =
     and_then (missing_column ''event_id'' (lr_text row ''event_id'')) (\<lambda>i.
     and_then (missing_column ''event'' (lr_text row ''event'')) (\<lambda>e.
     and_then (missing_column ''resource'' (lr_text row ''resource'')) (\<lambda>r.
     and_then (missing_column ''action'' (lr_text row ''action'')) (\<lambda>a.
     and_then (missing_column ''data'' (lr_json row ''data'')) (\<lambda>d.
     and_then (missing_column ''timestamp'' (lr_text row ''timestamp'')) (\<lambda>t.
       Inr \<lparr>lg_event_id = i, lg_event = e, lg_resource = r, lg_action = a, lg_data = d, lg_timestamp = t\<rparr>))))))"

definition select_events :: string where
  "select_events = ''SELECT event_id, event, resource, action, data, timestamp'' @ line ''FROM shaperail_event_log''"

definition recent_sql :: string where
  "recent_sql = select_events @ line ''ORDER BY timestamp DESC'' @ line ''LIMIT $1''"

definition recent_events :: "'db log_server \<Rightarrow> int \<Rightarrow> 'db \<Rightarrow> event_record list res" where
  "recent_events server limit = fetch_logged server ''event log'' row_to_event_record recent_sql [LvBigInt limit]"

definition for_resource_sql :: string where
  "for_resource_sql = select_events @ line ''WHERE resource = $1'' @ line ''ORDER BY timestamp DESC'' @ line ''LIMIT $2''"

definition events_for_resource :: "'db log_server \<Rightarrow> string \<Rightarrow> int \<Rightarrow> 'db \<Rightarrow> event_record list res" where
  "events_for_resource server resource limit =
     fetch_logged server ''event log'' row_to_event_record for_resource_sql [LvText resource, LvBigInt limit]"

section \<open>The delivery log\<close>

definition delivery_columns :: string where
  "delivery_columns = ''delivery_id, event_id, url, status_code, status, latency_ms, error, attempt, timestamp''"

definition record_delivery_sql :: string where
  "record_delivery_sql = ''INSERT INTO shaperail_webhook_delivery_log'' @ line (''('' @ delivery_columns @ '')'')
     @ line ''VALUES ($1, $2, $3, $4, $5, $6, $7, $8, $9)''"

definition delivery_values :: "delivery_record \<Rightarrow> log_value list" where
  "delivery_values r = [LvText (ld_delivery_id r), LvText (ld_event_id r), LvText (ld_url r), LvInt (ld_status_code r),
     LvText (ld_status r), LvBigInt (ld_latency_ms r), LvOptText (ld_error r), LvInt (ld_attempt r),
     LvText (ld_timestamp r)]"

definition record_delivery :: "'db log_server \<Rightarrow> delivery_record \<Rightarrow> 'db \<Rightarrow> 'db \<times> unit res" where
  "record_delivery server r = execute_logged server ''webhook delivery'' record_delivery_sql (delivery_values r)"

definition row_to_delivery_record :: "log_row \<Rightarrow> delivery_record res" where
  "row_to_delivery_record row =
     and_then (missing_column ''delivery_id'' (lr_text row ''delivery_id'')) (\<lambda>i.
     and_then (missing_column ''event_id'' (lr_text row ''event_id'')) (\<lambda>e.
     and_then (missing_column ''url'' (lr_text row ''url'')) (\<lambda>u.
     and_then (missing_column ''status_code'' (lr_int row ''status_code'')) (\<lambda>c.
     and_then (missing_column ''status'' (lr_text row ''status'')) (\<lambda>s.
     and_then (missing_column ''latency_ms'' (lr_bigint row ''latency_ms'')) (\<lambda>l.
     and_then (missing_column ''error'' (lr_opt_text row ''error'')) (\<lambda>x.
     and_then (missing_column ''attempt'' (lr_int row ''attempt'')) (\<lambda>n.
     and_then (missing_column ''timestamp'' (lr_text row ''timestamp'')) (\<lambda>t.
       Inr \<lparr>ld_delivery_id = i, ld_event_id = e, ld_url = u, ld_status_code = c, ld_status = s, ld_latency_ms = l,
         ld_error = x, ld_attempt = n, ld_timestamp = t\<rparr>)))))))))"

definition select_deliveries :: string where
  "select_deliveries = ''SELECT '' @ delivery_columns @ line ''FROM shaperail_webhook_delivery_log''"

definition for_event_sql :: string where
  "for_event_sql = select_deliveries @ line ''WHERE event_id = $1'' @ line ''ORDER BY timestamp DESC''"

definition deliveries_for_event :: "'db log_server \<Rightarrow> string \<Rightarrow> 'db \<Rightarrow> delivery_record list res" where
  "deliveries_for_event server event_id =
     fetch_logged server ''delivery log'' row_to_delivery_record for_event_sql [LvText event_id]"

definition recent_deliveries_sql :: string where
  "recent_deliveries_sql = select_deliveries @ line ''ORDER BY timestamp DESC'' @ line ''LIMIT $1''"

definition recent_deliveries :: "'db log_server \<Rightarrow> int \<Rightarrow> 'db \<Rightarrow> delivery_record list res" where
  "recent_deliveries server limit =
     fetch_logged server ''delivery log'' row_to_delivery_record recent_deliveries_sql [LvBigInt limit]"

section \<open>What is bound reads back\<close>

text \<open>A row as the server keeps it: the columns of the statement with the values bound to them, in order.\<close>

definition value_at :: "string list \<Rightarrow> log_value list \<Rightarrow> (log_value \<Rightarrow> 'a option) \<Rightarrow> string \<Rightarrow> string + 'a" where
  "value_at cols vs get col = ok_or ''no such column'' (Option.bind (map_of (zip cols vs) col) get)"

definition stored_row :: "string list \<Rightarrow> log_value list \<Rightarrow> log_row" where
  "stored_row cols vs =
     \<lparr>lr_text = value_at cols vs (\<lambda>v. case v of LvText s \<Rightarrow> Some s | _ \<Rightarrow> None),
      lr_json = value_at cols vs (\<lambda>v. case v of LvJson j \<Rightarrow> Some j | _ \<Rightarrow> None),
      lr_int = value_at cols vs (\<lambda>v. case v of LvInt i \<Rightarrow> Some i | _ \<Rightarrow> None),
      lr_bigint = value_at cols vs (\<lambda>v. case v of LvBigInt i \<Rightarrow> Some i | _ \<Rightarrow> None),
      lr_opt_text = value_at cols vs (\<lambda>v. case v of LvOptText t \<Rightarrow> Some t | LvText s \<Rightarrow> Some (Some s) | _ \<Rightarrow> None)\<rparr>"

definition event_columns :: "string list" where
  "event_columns = [''event_id'', ''event'', ''resource'', ''action'', ''data'', ''timestamp'']"

definition webhook_columns :: "string list" where
  "webhook_columns = [''delivery_id'', ''event_id'', ''url'', ''status_code'', ''status'', ''latency_ms'', ''error'',
     ''attempt'', ''timestamp'']"

lemma append_sql_columns:
  "append_sql = ''INSERT INTO shaperail_event_log ('' @ join '', '' event_columns @ '')''
     @ line ''VALUES ($1, $2, $3, $4, $5, $6)''"
  by (simp add: append_sql_def event_columns_def)

lemma delivery_columns_are: "delivery_columns = join '', '' webhook_columns"
  by (simp add: delivery_columns_def webhook_columns_def)

lemma event_reads_back: "row_to_event_record (stored_row event_columns (event_values r)) = Inr r"
  by (simp add: row_to_event_record_def stored_row_def value_at_def event_columns_def event_values_def ok_or_def
      missing_column_def)

lemma delivery_reads_back: "row_to_delivery_record (stored_row webhook_columns (delivery_values r)) = Inr r"
  by (simp add: row_to_delivery_record_def stored_row_def value_at_def webhook_columns_def delivery_values_def ok_or_def
      missing_column_def)

lemma logged_read_back:
  "map_res row_to_event_record (map (\<lambda>r. stored_row event_columns (event_values r)) rs) = Inr rs"
  "map_res row_to_delivery_record (map (\<lambda>r. stored_row webhook_columns (delivery_values r)) ds) = Inr ds"
  by (induction rs) (simp_all add: event_reads_back, induction ds, simp_all add: delivery_reads_back)

section \<open>The log as a table\<close>

text \<open>
  What PostgreSQL promises of the two event statements, for a table whose rows \<open>events\<close> lists: an insert
  that succeeds adds one row and one that fails changes nothing, and a page is a part of the rows in an order that
  is the server's (timestamps are texts, the collation decides). A negative limit is an error of the server.
\<close>

definition keeps_events :: "'db log_server \<Rightarrow> ('db \<Rightarrow> event_record list) \<Rightarrow> bool" where
  "keeps_events server events \<longleftrightarrow>
     (\<forall>r db. case lo_execute server append_sql (event_values r) db of
        (db', Inl e) \<Rightarrow> events db' = events db | (db', Inr u) \<Rightarrow> events db' = events db @ [r])
     \<and> (\<forall>limit\<ge>0. \<forall>db. \<exists>rs. mset rs = mset (events db)
        \<and> lo_fetch_all server recent_sql [LvBigInt limit] db
          = Inr (map (\<lambda>r. stored_row event_columns (event_values r)) (take (nat limit) rs)))
     \<and> (\<forall>name. \<forall>limit\<ge>0. \<forall>db. \<exists>rs. mset rs = mset (filter (\<lambda>r. lg_resource r = name) (events db))
        \<and> lo_fetch_all server for_resource_sql [LvText name, LvBigInt limit] db
          = Inr (map (\<lambda>r. stored_row event_columns (event_values r)) (take (nat limit) rs)))"

fun append_all :: "'db log_server \<Rightarrow> event_record list \<Rightarrow> 'db \<Rightarrow> 'db" where
  "append_all server [] db = db"
| "append_all server (r # rs) db = append_all server rs (fst (append_event server r db))"

fun appended :: "'db log_server \<Rightarrow> event_record list \<Rightarrow> 'db \<Rightarrow> event_record list" where
  "appended server [] db = []"
| "appended server (r # rs) db =
     (case append_event server r db of (db', a) \<Rightarrow> (if is_ok a then [r] else []) @ appended server rs db')"

lemma append_event_events:
  assumes "keeps_events server events" and "append_event server r db = (db', a)"
  shows "events db' = events db @ (if is_ok a then [r] else [])"
  using assms(1)[unfolded keeps_events_def, THEN conjunct1, rule_format, where r = r and db = db] assms(2)
  by (auto simp: append_event_def execute_logged_def split: prod.splits sum.splits)

lemma append_all_events:
  assumes "keeps_events server events"
  shows "events (append_all server rs db) = events db @ appended server rs db"
proof (induction rs arbitrary: db)
  case (Cons r rs)
  obtain db' a where a: "append_event server r db = (db', a)" by fastforce
  show ?case using Cons.IH[of db'] append_event_events[OF assms a] a by simp
qed simp

text \<open>Every event that was logged is recalled, once, by a page that is large enough.\<close>

theorem logged_events_recalled:
  assumes "keeps_events server events" and "int (length (events db) + length rs) \<le> limit"
  shows "\<exists>found. recent_events server limit (append_all server rs db) = Inr found
    \<and> mset found = mset (events db @ appended server rs db)"
    and "\<exists>found. events_for_resource server name limit (append_all server rs db) = Inr found
    \<and> mset found = mset (filter (\<lambda>r. lg_resource r = name) (events db @ appended server rs db))"
proof -
  have short: "length (appended server rs d) \<le> length rs" for d
    by (induction rs arbitrary: d) (auto simp: le_SucI split: prod.splits)
  let ?db = "append_all server rs db"
  have len: "length (events ?db) \<le> nat limit"
    using append_all_events[OF assms(1), of rs db] short[of db] assms(2) by simp
  have "0 \<le> limit" using assms(2) by simp
  note laws = assms(1)[unfolded keeps_events_def, THEN conjunct2]
  obtain xs where xs: "mset xs = mset (events ?db)" "lo_fetch_all server recent_sql [LvBigInt limit] ?db
      = Inr (map (\<lambda>r. stored_row event_columns (event_values r)) (take (nat limit) xs))"
    using laws[THEN conjunct1, rule_format, OF \<open>0 \<le> limit\<close>, where db = ?db] by blast
  have "length xs = length (events ?db)" using xs(1) by (metis size_mset)
  then show "\<exists>found. recent_events server limit ?db = Inr found \<and> mset found = mset (events db @ appended server rs db)"
    using xs len append_all_events[OF assms(1), of rs db]
    by (simp add: recent_events_def fetch_logged_def logged_read_back)
  obtain ys where ys: "mset ys = mset (filter (\<lambda>r. lg_resource r = name) (events ?db))"
      "lo_fetch_all server for_resource_sql [LvText name, LvBigInt limit] ?db
      = Inr (map (\<lambda>r. stored_row event_columns (event_values r)) (take (nat limit) ys))"
    using laws[THEN conjunct2, rule_format, OF \<open>0 \<le> limit\<close>, where db = ?db and name = name] by blast
  have "length ys = length (filter (\<lambda>r. lg_resource r = name) (events ?db))" using ys(1) by (metis size_mset)
  then have "length ys \<le> nat limit" using len length_filter_le[of _ "events ?db"] by (metis le_trans)
  then show "\<exists>found. events_for_resource server name limit ?db = Inr found
      \<and> mset found = mset (filter (\<lambda>r. lg_resource r = name) (events db @ appended server rs db))"
    using ys append_all_events[OF assms(1), of rs db]
    by (simp add: events_for_resource_def fetch_logged_def logged_read_back)
qed

text \<open>A server that keeps a list, in the order of arrival, with the event id as its primary key.\<close>

definition list_log :: "event_record list log_server" where
  "list_log =
     \<lparr>lo_execute = (\<lambda>sql vs db. case vs of
        [LvText i, LvText e, LvText r, LvText a, LvJson d, LvText t] \<Rightarrow>
          (if i \<in> set (map lg_event_id db) then (db, Inl ''duplicate key'')
           else (db @ [\<lparr>lg_event_id = i, lg_event = e, lg_resource = r, lg_action = a, lg_data = d, lg_timestamp = t\<rparr>], Inr ()))
      | _ \<Rightarrow> (db, Inl ''unknown statement'')),
      lo_fetch_all = (\<lambda>sql vs db. case vs of
        [LvBigInt l] \<Rightarrow> Inr (map (\<lambda>r. stored_row event_columns (event_values r)) (take (nat l) (rev db)))
      | [LvText n, LvBigInt l] \<Rightarrow> Inr (map (\<lambda>r. stored_row event_columns (event_values r))
          (take (nat l) (filter (\<lambda>r. lg_resource r = n) (rev db))))
      | _ \<Rightarrow> Inl ''unknown statement'')\<rparr>"

lemma list_log_keeps_events: "keeps_events list_log (\<lambda>db. db)"
proof -
  have "\<exists>rs. mset rs = mset (filter (\<lambda>r. lg_resource r = name) db)
      \<and> lo_fetch_all list_log for_resource_sql [LvText name, LvBigInt limit] db
        = Inr (map (\<lambda>r. stored_row event_columns (event_values r)) (take (nat limit) rs))" for name limit db
    by (rule exI[where x = "rev (filter (\<lambda>r. lg_resource r = name) db)"])
      (simp add: list_log_def flip: rev_filter)
  moreover have "\<exists>rs. mset rs = mset db \<and> lo_fetch_all list_log recent_sql [LvBigInt limit] db
        = Inr (map (\<lambda>r. stored_row event_columns (event_values r)) (take (nat limit) rs))" for limit db
    by (rule exI[where x = "rev db"]) (simp add: list_log_def)
  moreover have "case lo_execute list_log append_sql (event_values r) db of
      (db', Inl e) \<Rightarrow> db' = db | (db', Inr u) \<Rightarrow> db' = db @ [r]" for r db
    by (simp add: list_log_def event_values_def)
  ultimately show ?thesis by (simp add: keeps_events_def)
qed

end
