(* ===== verification/Project_Config.thy ===== *)
theory Project_Config
  imports Workspace Events Orm_Query Graphql
begin

text \<open>
  The project configuration of \<open>shaperail-core/src/config.rs\<close>: its types, what serde's derived
  code writes for them and what it reads back, with the defaults, the refusal of unknown keys and the handwritten
  forms of the worker count, and \<open>parse_config\<close> of \<open>shaperail-codegen/src/config_parser.rs\<close>.
  A document is a JSON mapping; the coercions of YAML scalars, the positional form of structs and the texts of the
  errors belong to the serde crates, so reading answers \<open>None\<close> for an error. What is written reads back.
\<close>

section \<open>Types\<close>

datatype worker_count = AutoWorkers | FixedWorkers nat

record cache_config =
  pj_cache_type :: string
  pj_cache_url :: string

record auth_config =
  pj_provider :: string
  pj_secret_env :: string
  pj_expiry :: string
  pj_refresh_expiry :: "string option"

record storage_config =
  pj_storage_provider :: string
  pj_bucket :: "string option"
  pj_region :: "string option"

record logging_config =
  pj_level :: string
  pj_format :: string
  pj_otlp_endpoint :: "string option"

record webhook_config =
  pj_webhook_secret_env :: string
  pj_timeout_secs :: nat
  pj_max_retries :: nat

record events_config =
  pj_subscribers :: "event_subscriber list"
  pj_webhooks :: "webhook_config option"
  pj_inbound :: "inbound_webhook_config list"

record grpc_config =
  pj_grpc_port :: nat
  pj_reflection :: bool

record project_config =
  pj_project :: string
  pj_port :: nat
  pj_workers :: worker_count
  pj_databases :: "(string \<times> named_database_config) list option"
  pj_cache :: "cache_config option"
  pj_auth :: "auth_config option"
  pj_storage :: "storage_config option"
  pj_logging :: "logging_config option"
  pj_events :: "events_config option"
  pj_protocols :: "string list"
  pj_graphql :: "graphql_config option"
  pj_grpc :: "grpc_config option"

section \<open>Reading and writing, as the derived code does\<close>

definition known_keys :: "string list \<Rightarrow> jmap \<Rightarrow> bool" where
  "known_keys ks m \<longleftrightarrow> list_all (\<lambda>(k, v). k \<in> set ks) m"

definition read_member :: "jmap \<Rightarrow> string \<Rightarrow> (json \<Rightarrow> 'a option) \<Rightarrow> 'a option \<Rightarrow> 'a option" where
  "read_member m k get d = (case map_of m k of None \<Rightarrow> d | Some v \<Rightarrow> get v)"

fun read_option :: "(json \<Rightarrow> 'a option) \<Rightarrow> json \<Rightarrow> 'a option option" where
  "read_option get JNull = Some None"
| "read_option get v = map_option Some (get v)"

definition read_list :: "(json \<Rightarrow> 'a option) \<Rightarrow> json \<Rightarrow> 'a list option" where
  "read_list get v = Option.bind (as_array v) (\<lambda>vs. those (map get vs))"

definition read_uint :: "nat \<Rightarrow> json \<Rightarrow> nat option" where
  "read_uint bits v = (case v of JNum (PosInt n) \<Rightarrow> if n < 2 ^ bits then Some n else None | _ \<Rightarrow> None)"

definition read_struct :: "string list \<Rightarrow> (jmap \<Rightarrow> 'a option) \<Rightarrow> json \<Rightarrow> 'a option" where
  "read_struct ks get v = Option.bind (as_object v) (\<lambda>m. if known_keys ks m then get m else None)"

definition skip_none :: "string \<Rightarrow> ('a \<Rightarrow> json) \<Rightarrow> 'a option \<Rightarrow> jmap" where
  "skip_none k put x = (case x of None \<Rightarrow> [] | Some y \<Rightarrow> [(k, put y)])"

definition skip_empty :: "string \<Rightarrow> ('a \<Rightarrow> json) \<Rightarrow> 'a list \<Rightarrow> jmap" where
  "skip_empty k put xs = (if xs = [] then [] else [(k, JArr (map put xs))])"

abbreviation write_nat :: "nat \<Rightarrow> json" where
  "write_nat n \<equiv> JNum (PosInt n)"

section \<open>The worker count\<close>

fun write_workers :: "worker_count \<Rightarrow> json" where
  "write_workers AutoWorkers = JStr ''auto''"
| "write_workers (FixedWorkers n) = write_nat n"

definition read_workers :: "json \<Rightarrow> worker_count option" where
  "read_workers v = (case v of
     JStr s \<Rightarrow> if s = ''auto'' then Some AutoWorkers else None
   | JNum n \<Rightarrow> map_option FixedWorkers (num_as_u64 n)
   | _ \<Rightarrow> None)"

section \<open>The parts\<close>

definition write_engine :: "database_engine \<Rightarrow> json" where
  "write_engine e = JStr (case e of Postgres \<Rightarrow> ''postgres'' | MySQL \<Rightarrow> ''mysql'' | SQLite \<Rightarrow> ''sqlite''
     | MongoDB \<Rightarrow> ''mongodb'')"

definition read_engine :: "json \<Rightarrow> database_engine option" where
  "read_engine v = Option.bind (as_str v) (map_of [(''postgres'', Postgres), (''mysql'', MySQL), (''sqlite'', SQLite),
     (''mongodb'', MongoDB)])"

definition write_database :: "named_database_config \<Rightarrow> json" where
  "write_database c = JObj [(''engine'', write_engine (nd_engine c)), (''url'', JStr (nd_url c)),
     (''pool_size'', write_nat (nd_pool_size c))]"

definition default_pool_size :: nat where
  "default_pool_size = 20"

definition read_database :: "json \<Rightarrow> named_database_config option" where
  "read_database = read_struct [''engine'', ''url'', ''pool_size''] (\<lambda>m.
     Option.bind (read_member m ''engine'' read_engine None) (\<lambda>e.
     Option.bind (read_member m ''url'' as_str None) (\<lambda>u.
     Option.bind (read_member m ''pool_size'' (read_uint 32) (Some default_pool_size)) (\<lambda>p.
       Some \<lparr>nd_engine = e, nd_url = u, nd_pool_size = p\<rparr>))))"

definition write_cache :: "cache_config \<Rightarrow> json" where
  "write_cache c = JObj [(''type'', JStr (pj_cache_type c)), (''url'', JStr (pj_cache_url c))]"

definition read_cache :: "json \<Rightarrow> cache_config option" where
  "read_cache = read_struct [''type'', ''url''] (\<lambda>m.
     Option.bind (read_member m ''type'' as_str None) (\<lambda>t.
     Option.bind (read_member m ''url'' as_str None) (\<lambda>u. Some \<lparr>pj_cache_type = t, pj_cache_url = u\<rparr>)))"

definition write_auth :: "auth_config \<Rightarrow> json" where
  "write_auth c = JObj ([(''provider'', JStr (pj_provider c)), (''secret_env'', JStr (pj_secret_env c)),
     (''expiry'', JStr (pj_expiry c))] @ skip_none ''refresh_expiry'' JStr (pj_refresh_expiry c))"

definition read_auth :: "json \<Rightarrow> auth_config option" where
  "read_auth = read_struct [''provider'', ''secret_env'', ''expiry'', ''refresh_expiry''] (\<lambda>m.
     Option.bind (read_member m ''provider'' as_str None) (\<lambda>p.
     Option.bind (read_member m ''secret_env'' as_str None) (\<lambda>s.
     Option.bind (read_member m ''expiry'' as_str None) (\<lambda>e.
     Option.bind (read_member m ''refresh_expiry'' (read_option as_str) (Some None)) (\<lambda>r.
       Some \<lparr>pj_provider = p, pj_secret_env = s, pj_expiry = e, pj_refresh_expiry = r\<rparr>)))))"

definition write_storage :: "storage_config \<Rightarrow> json" where
  "write_storage c = JObj ([(''provider'', JStr (pj_storage_provider c))]
     @ skip_none ''bucket'' JStr (pj_bucket c) @ skip_none ''region'' JStr (pj_region c))"

definition read_storage :: "json \<Rightarrow> storage_config option" where
  "read_storage = read_struct [''provider'', ''bucket'', ''region''] (\<lambda>m.
     Option.bind (read_member m ''provider'' as_str None) (\<lambda>p.
     Option.bind (read_member m ''bucket'' (read_option as_str) (Some None)) (\<lambda>b.
     Option.bind (read_member m ''region'' (read_option as_str) (Some None)) (\<lambda>r.
       Some \<lparr>pj_storage_provider = p, pj_bucket = b, pj_region = r\<rparr>))))"

definition default_log_level :: string where
  "default_log_level = ''info''"

definition default_log_format :: string where
  "default_log_format = ''json''"

definition write_logging :: "logging_config \<Rightarrow> json" where
  "write_logging c = JObj ([(''level'', JStr (pj_level c)), (''format'', JStr (pj_format c))]
     @ skip_none ''otlp_endpoint'' JStr (pj_otlp_endpoint c))"

definition read_logging :: "json \<Rightarrow> logging_config option" where
  "read_logging = read_struct [''level'', ''format'', ''otlp_endpoint''] (\<lambda>m.
     Option.bind (read_member m ''level'' as_str (Some default_log_level)) (\<lambda>l.
     Option.bind (read_member m ''format'' as_str (Some default_log_format)) (\<lambda>f.
     Option.bind (read_member m ''otlp_endpoint'' (read_option as_str) (Some None)) (\<lambda>e.
       Some \<lparr>pj_level = l, pj_format = f, pj_otlp_endpoint = e\<rparr>))))"

definition write_graphql :: "graphql_config \<Rightarrow> json" where
  "write_graphql c = JObj [(''depth_limit'', write_nat (gc_depth_limit c)),
     (''complexity_limit'', write_nat (gc_complexity_limit c))]"

definition default_depth_limit :: nat where
  "default_depth_limit = 16"

definition default_complexity_limit :: nat where
  "default_complexity_limit = 256"

definition read_graphql :: "json \<Rightarrow> graphql_config option" where
  "read_graphql = read_struct [''depth_limit'', ''complexity_limit''] (\<lambda>m.
     Option.bind (read_member m ''depth_limit'' (read_uint 64) (Some default_depth_limit)) (\<lambda>d.
     Option.bind (read_member m ''complexity_limit'' (read_uint 64) (Some default_complexity_limit)) (\<lambda>c.
       Some \<lparr>gc_depth_limit = d, gc_complexity_limit = c\<rparr>)))"

definition write_grpc :: "grpc_config \<Rightarrow> json" where
  "write_grpc c = JObj [(''port'', write_nat (pj_grpc_port c)), (''reflection'', JBool (pj_reflection c))]"

definition default_grpc_port :: nat where
  "default_grpc_port = 50051"

definition default_grpc_reflection :: bool where
  "default_grpc_reflection = True"

definition read_grpc :: "json \<Rightarrow> grpc_config option" where
  "read_grpc = read_struct [''port'', ''reflection''] (\<lambda>m.
     Option.bind (read_member m ''port'' (read_uint 16) (Some default_grpc_port)) (\<lambda>p.
     Option.bind (read_member m ''reflection'' as_bool (Some default_grpc_reflection)) (\<lambda>r.
       Some \<lparr>pj_grpc_port = p, pj_reflection = r\<rparr>)))"

section \<open>Events\<close>

text \<open>A target is tagged by its key \<open>type\<close>; other keys than those of the variant are ignored.\<close>

fun write_target :: "event_target \<Rightarrow> json" where
  "write_target (TargetJob n) = JObj [(''type'', JStr ''job''), (''name'', JStr n)]"
| "write_target (TargetWebhook u) = JObj [(''type'', JStr ''webhook''), (''url'', JStr u)]"
| "write_target (TargetChannel n r) =
     JObj ([(''type'', JStr ''channel''), (''name'', JStr n)] @ skip_none ''room'' JStr r)"
| "write_target (TargetHook n) = JObj [(''type'', JStr ''hook''), (''name'', JStr n)]"

definition read_target :: "json \<Rightarrow> event_target option" where
  "read_target v = Option.bind (as_object v) (\<lambda>m. Option.bind (read_member m ''type'' as_str None) (\<lambda>t.
     if t = ''job'' then map_option TargetJob (read_member m ''name'' as_str None)
     else if t = ''webhook'' then map_option TargetWebhook (read_member m ''url'' as_str None)
     else if t = ''channel'' then Option.bind (read_member m ''name'' as_str None) (\<lambda>n.
       map_option (TargetChannel n) (read_member m ''room'' (read_option as_str) (Some None)))
     else if t = ''hook'' then map_option TargetHook (read_member m ''name'' as_str None)
     else None))"

definition write_subscriber :: "event_subscriber \<Rightarrow> json" where
  "write_subscriber s = JObj [(''event'', JStr (es_event s)), (''targets'', JArr (map write_target (es_targets s)))]"

definition read_subscriber :: "json \<Rightarrow> event_subscriber option" where
  "read_subscriber = read_struct [''event'', ''targets''] (\<lambda>m.
     Option.bind (read_member m ''event'' as_str None) (\<lambda>e.
     Option.bind (read_member m ''targets'' (read_list read_target) None) (\<lambda>t.
       Some \<lparr>es_event = e, es_targets = t\<rparr>)))"

definition default_webhook_secret_env :: string where
  "default_webhook_secret_env = ''WEBHOOK_SECRET''"

definition default_webhook_timeout :: nat where
  "default_webhook_timeout = 30"

definition default_webhook_max_retries :: nat where
  "default_webhook_max_retries = 3"

definition write_webhooks :: "webhook_config \<Rightarrow> json" where
  "write_webhooks c = JObj [(''secret_env'', JStr (pj_webhook_secret_env c)),
     (''timeout_secs'', write_nat (pj_timeout_secs c)), (''max_retries'', write_nat (pj_max_retries c))]"

definition read_webhooks :: "json \<Rightarrow> webhook_config option" where
  "read_webhooks = read_struct [''secret_env'', ''timeout_secs'', ''max_retries''] (\<lambda>m.
     Option.bind (read_member m ''secret_env'' as_str (Some default_webhook_secret_env)) (\<lambda>s.
     Option.bind (read_member m ''timeout_secs'' (read_uint 64) (Some default_webhook_timeout)) (\<lambda>t.
     Option.bind (read_member m ''max_retries'' (read_uint 32) (Some default_webhook_max_retries)) (\<lambda>r.
       Some \<lparr>pj_webhook_secret_env = s, pj_timeout_secs = t, pj_max_retries = r\<rparr>))))"

definition default_signature_header :: string where
  "default_signature_header = ''X-Webhook-Signature''"

definition write_inbound :: "inbound_webhook_config \<Rightarrow> json" where
  "write_inbound c = JObj ([(''path'', JStr (ic_path c)), (''secret_env'', JStr (ic_secret_env c))]
     @ skip_empty ''events'' JStr (ic_events c) @ [(''signature_header'', JStr (ic_signature_header c))])"

definition read_inbound :: "json \<Rightarrow> inbound_webhook_config option" where
  "read_inbound = read_struct [''path'', ''secret_env'', ''events'', ''signature_header''] (\<lambda>m.
     Option.bind (read_member m ''path'' as_str None) (\<lambda>p.
     Option.bind (read_member m ''secret_env'' as_str None) (\<lambda>s.
     Option.bind (read_member m ''events'' (read_list as_str) (Some [])) (\<lambda>e.
     Option.bind (read_member m ''signature_header'' as_str (Some default_signature_header)) (\<lambda>h.
       Some \<lparr>ic_path = p, ic_secret_env = s, ic_events = e, ic_signature_header = h\<rparr>)))))"

definition write_events :: "events_config \<Rightarrow> json" where
  "write_events c = JObj (skip_empty ''subscribers'' write_subscriber (pj_subscribers c)
     @ skip_none ''webhooks'' write_webhooks (pj_webhooks c) @ skip_empty ''inbound'' write_inbound (pj_inbound c))"

definition read_events :: "json \<Rightarrow> events_config option" where
  "read_events = read_struct [''subscribers'', ''webhooks'', ''inbound''] (\<lambda>m.
     Option.bind (read_member m ''subscribers'' (read_list read_subscriber) (Some [])) (\<lambda>s.
     Option.bind (read_member m ''webhooks'' (read_option read_webhooks) (Some None)) (\<lambda>w.
     Option.bind (read_member m ''inbound'' (read_list read_inbound) (Some [])) (\<lambda>i.
       Some \<lparr>pj_subscribers = s, pj_webhooks = w, pj_inbound = i\<rparr>))))"

section \<open>The project\<close>

text \<open>The databases are an \<open>IndexMap\<close>: a repeated name keeps its place and takes the later value.\<close>

definition write_databases :: "(string \<times> named_database_config) list \<Rightarrow> json" where
  "write_databases dbs = JObj (map (\<lambda>(n, c). (n, write_database c)) dbs)"

fun read_entries :: "jmap \<Rightarrow> (string \<times> named_database_config) list \<Rightarrow> (string \<times> named_database_config) list option" where
  "read_entries [] dbs = Some dbs"
| "read_entries ((n, v) # m) dbs = Option.bind (read_database v) (\<lambda>c. read_entries m (AList.update n c dbs))"

definition read_databases :: "json \<Rightarrow> (string \<times> named_database_config) list option" where
  "read_databases v = Option.bind (as_object v) (\<lambda>m. read_entries m [])"

definition default_port :: nat where
  "default_port = 3000"

definition default_protocols :: "string list" where
  "default_protocols = [''rest'']"

definition project_keys :: "string list" where
  "project_keys = [''project'', ''port'', ''workers'', ''databases'', ''cache'', ''auth'', ''storage'', ''logging'',
     ''events'', ''protocols'', ''graphql'', ''grpc'']"

definition write_config :: "project_config \<Rightarrow> json" where
  "write_config c = JObj ([(''project'', JStr (pj_project c)), (''port'', write_nat (pj_port c)),
     (''workers'', write_workers (pj_workers c))]
     @ skip_none ''databases'' write_databases (pj_databases c)
     @ skip_none ''cache'' write_cache (pj_cache c) @ skip_none ''auth'' write_auth (pj_auth c)
     @ skip_none ''storage'' write_storage (pj_storage c) @ skip_none ''logging'' write_logging (pj_logging c)
     @ skip_none ''events'' write_events (pj_events c)
     @ [(''protocols'', JArr (map JStr (pj_protocols c)))]
     @ skip_none ''graphql'' write_graphql (pj_graphql c) @ skip_none ''grpc'' write_grpc (pj_grpc c))"

definition read_config :: "json \<Rightarrow> project_config option" where
  "read_config = read_struct project_keys (\<lambda>m.
     Option.bind (read_member m ''project'' as_str None) (\<lambda>n.
     Option.bind (read_member m ''port'' (read_uint 16) (Some default_port)) (\<lambda>p.
     Option.bind (read_member m ''workers'' read_workers (Some AutoWorkers)) (\<lambda>w.
     Option.bind (read_member m ''databases'' (read_option read_databases) (Some None)) (\<lambda>dbs.
     Option.bind (read_member m ''cache'' (read_option read_cache) (Some None)) (\<lambda>ca.
     Option.bind (read_member m ''auth'' (read_option read_auth) (Some None)) (\<lambda>au.
     Option.bind (read_member m ''storage'' (read_option read_storage) (Some None)) (\<lambda>st.
     Option.bind (read_member m ''logging'' (read_option read_logging) (Some None)) (\<lambda>lo.
     Option.bind (read_member m ''events'' (read_option read_events) (Some None)) (\<lambda>ev.
     Option.bind (read_member m ''protocols'' (read_list as_str) (Some default_protocols)) (\<lambda>pr.
     Option.bind (read_member m ''graphql'' (read_option read_graphql) (Some None)) (\<lambda>gq.
     Option.bind (read_member m ''grpc'' (read_option read_grpc) (Some None)) (\<lambda>gr.
       Some \<lparr>pj_project = n, pj_port = p, pj_workers = w, pj_databases = dbs, pj_cache = ca, pj_auth = au,
         pj_storage = st, pj_logging = lo, pj_events = ev, pj_protocols = pr, pj_graphql = gq, pj_grpc = gr\<rparr>)))))))))))))"

definition parse_config :: "(string \<Rightarrow> string option) \<Rightarrow> (string \<Rightarrow> string + json) \<Rightarrow> (json \<Rightarrow> string) \<Rightarrow> string \<Rightarrow>
    parse_error + project_config" where
  "parse_config env from_yaml describe yaml =
     and_then (interpolate_env env yaml) (\<lambda>text.
       (case from_yaml text of Inl e \<Rightarrow> Inl (YamlError e)
        | Inr doc \<Rightarrow> ok_or (YamlError (describe doc)) (read_config doc)))"

section \<open>What is written reads back\<close>

named_theorems config_simps "reading what was written"

lemma map_of_skip_none [config_simps]:
  "map_of (skip_none k put x) k' = (if k' = k then map_option put x else None)"
  by (simp add: skip_none_def split: option.splits)

lemma map_of_skip_empty [config_simps]:
  "map_of (skip_empty k put xs) k' = (if k' = k \<and> xs \<noteq> [] then Some (JArr (map put xs)) else None)"
  by (simp add: skip_empty_def)

lemma known_keys_append [config_simps]:
  "known_keys ks (m @ n) \<longleftrightarrow> known_keys ks m \<and> known_keys ks n"
  "known_keys ks ((k, v) # m) \<longleftrightarrow> k \<in> set ks \<and> known_keys ks m"
  "known_keys ks []"
  by (simp_all add: known_keys_def)

lemma known_keys_skip [config_simps]:
  "known_keys ks (skip_none k put x) \<longleftrightarrow> x = None \<or> k \<in> set ks"
  "known_keys ks (skip_empty k put' xs) \<longleftrightarrow> xs = [] \<or> k \<in> set ks"
  by (auto simp: known_keys_def skip_none_def skip_empty_def split: option.splits)

lemma read_member_append [config_simps]:
  "read_member ((k', v) # m) k get d = (if k = k' then get v else read_member m k get d)"
  "read_member [] k get d = d"
  "read_member (skip_none k' put x @ m) k get d
     = (if k = k' \<and> x \<noteq> None then get (put (the x)) else read_member m k get d)"
  "read_member (skip_empty k' put' xs @ m) k get d
     = (if k = k' \<and> xs \<noteq> [] then get (JArr (map put' xs)) else read_member m k get d)"
  "read_member (skip_none k' put x) k get d = (if k = k' \<and> x \<noteq> None then get (put (the x)) else d)"
  "read_member (skip_empty k' put' xs) k get d = (if k = k' \<and> xs \<noteq> [] then get (JArr (map put' xs)) else d)"
  by (auto simp: read_member_def skip_none_def skip_empty_def split: option.splits)

lemma those_map: "(\<And>x. x \<in> set xs \<Longrightarrow> get (put x) = Some x) \<Longrightarrow> those (map get (map put xs)) = Some xs"
  by (induction xs) simp_all

lemma read_database_written [config_simps]: "nd_pool_size c < 2 ^ 32 \<Longrightarrow> read_database (write_database c) = Some c"
  by (cases c; cases "nd_engine c")
    (simp_all add: read_database_def write_database_def read_struct_def config_simps read_engine_def write_engine_def read_uint_def)

lemma read_cache_written [config_simps]: "read_cache (write_cache c) = Some c"
  by (simp add: read_cache_def write_cache_def read_struct_def config_simps)

lemma read_option_str [config_simps]: "read_option as_str (JStr s) = Some (Some s)"
  by simp

lemma read_auth_written [config_simps]: "read_auth (write_auth c) = Some c"
  by (cases "pj_refresh_expiry c") (simp_all add: read_auth_def write_auth_def read_struct_def config_simps)

lemma read_storage_written [config_simps]: "read_storage (write_storage c) = Some c"
  by (cases "pj_bucket c"; cases "pj_region c")
    (simp_all add: read_storage_def write_storage_def read_struct_def config_simps)

lemma read_logging_written [config_simps]: "read_logging (write_logging c) = Some c"
  by (cases "pj_otlp_endpoint c") (simp_all add: read_logging_def write_logging_def read_struct_def config_simps)

lemma read_graphql_written [config_simps]:
  "gc_depth_limit c < 2 ^ 64 \<Longrightarrow> gc_complexity_limit c < 2 ^ 64 \<Longrightarrow> read_graphql (write_graphql c) = Some c"
  by (simp add: read_graphql_def write_graphql_def read_struct_def config_simps read_uint_def)

lemma read_grpc_written [config_simps]: "pj_grpc_port c < 2 ^ 16 \<Longrightarrow> read_grpc (write_grpc c) = Some c"
  by (simp add: read_grpc_def write_grpc_def read_struct_def config_simps read_uint_def)

lemma read_target_written [config_simps]: "read_target (write_target t) = Some t"
proof (cases t)
  case (TargetChannel n r)
  then show ?thesis by (cases r) (simp_all add: read_target_def config_simps)
qed (simp_all add: read_target_def config_simps)

lemma read_list_written [config_simps]:
  "(\<And>x. x \<in> set xs \<Longrightarrow> get (put x) = Some x) \<Longrightarrow> read_list get (JArr (map put xs)) = Some xs"
  using those_map[of xs get put] by (simp add: read_list_def)

lemma read_subscriber_written [config_simps]: "read_subscriber (write_subscriber s) = Some s"
  by (simp add: read_subscriber_def write_subscriber_def read_struct_def config_simps)

lemma read_webhooks_written [config_simps]:
  "pj_timeout_secs c < 2 ^ 64 \<Longrightarrow> pj_max_retries c < 2 ^ 32 \<Longrightarrow> read_webhooks (write_webhooks c) = Some c"
  by (simp add: read_webhooks_def write_webhooks_def read_struct_def config_simps read_uint_def)

lemma read_inbound_written [config_simps]: "read_inbound (write_inbound c) = Some c"
  by (cases "ic_events c = []")
    (simp_all add: read_inbound_def write_inbound_def read_struct_def config_simps)

text \<open>The values the Rust types can hold: widths of the integers, and an \<open>IndexMap\<close> has each name once.\<close>

definition database_in_range :: "string \<times> named_database_config \<Rightarrow> bool" where
  "database_in_range = (\<lambda>(n, c). nd_pool_size c < 2 ^ 32)"

definition config_in_range :: "project_config \<Rightarrow> bool" where
  "config_in_range c \<longleftrightarrow> pj_port c < 2 ^ 16
     \<and> pred_option (\<lambda>dbs. distinct (map fst dbs) \<and> list_all database_in_range dbs) (pj_databases c)
     \<and> pred_option (\<lambda>e. pred_option (\<lambda>w. pj_timeout_secs w < 2 ^ 64 \<and> pj_max_retries w < 2 ^ 32) (pj_webhooks e))
         (pj_events c)
     \<and> pred_option (\<lambda>g. gc_depth_limit g < 2 ^ 64 \<and> gc_complexity_limit g < 2 ^ 64) (pj_graphql c)
     \<and> pred_option (\<lambda>g. pj_grpc_port g < 2 ^ 16) (pj_grpc c)"

lemma read_entries_written:
  assumes "list_all database_in_range dbs" and "distinct (map fst (before @ dbs))"
  shows "read_entries (map (\<lambda>(n, c). (n, write_database c)) dbs) before = Some (before @ dbs)"
  using assms
proof (induction dbs arbitrary: before)
  case (Cons d dbs)
  obtain n c where d: "d = (n, c)" by (cases d)
  have "AList.update n c before = before @ [(n, c)]"
    using Cons.prems(2) d by (induction before) auto
  then show ?case
    using Cons.IH[of "before @ [(n, c)]"] Cons.prems d by (simp add: database_in_range_def config_simps)
qed simp

lemma read_databases_written [config_simps]:
  "list_all database_in_range dbs \<Longrightarrow> distinct (map fst dbs) \<Longrightarrow> read_databases (write_databases dbs) = Some dbs"
  using read_entries_written[of dbs "[]"] by (simp add: read_databases_def write_databases_def)

lemma read_events_written [config_simps]:
  assumes "pred_option (\<lambda>w. pj_timeout_secs w < 2 ^ 64 \<and> pj_max_retries w < 2 ^ 32) (pj_webhooks c)"
  shows "read_events (write_events c) = Some c"
proof -
  have "read_option read_webhooks (write_webhooks w) = Some (Some w)" if "pj_webhooks c = Some w" for w
    using that assms by (simp add: write_webhooks_def flip: write_webhooks_def) (simp add: write_webhooks_def
        read_webhooks_def read_struct_def config_simps read_uint_def)
  then show ?thesis
    by (cases "pj_webhooks c")
      (simp_all add: read_events_def write_events_def read_struct_def config_simps)
qed

text \<open>A part that is present is written as something else than null, so it is read as present.\<close>

lemma read_option_present [config_simps]: "v \<noteq> JNull \<Longrightarrow> read_option get v = map_option Some (get v)"
  by (cases v) simp_all

lemma read_section:
  assumes "map_of m k = map_option put x" and "\<And>y. x = Some y \<Longrightarrow> get (put y) = Some y" and "\<And>y. put y \<noteq> JNull"
  shows "read_member m k (read_option get) (Some None) = Some x"
  using assms by (cases x) (simp_all add: read_member_def read_option_present)

lemma written_not_null [config_simps]:
  "write_cache a \<noteq> JNull" "write_auth b \<noteq> JNull" "write_storage c \<noteq> JNull" "write_logging d \<noteq> JNull"
  "write_events e \<noteq> JNull" "write_graphql f \<noteq> JNull" "write_grpc g \<noteq> JNull" "write_databases h \<noteq> JNull"
  by (simp_all add: write_cache_def write_auth_def write_storage_def write_logging_def write_events_def write_graphql_def
      write_grpc_def write_databases_def)

lemma read_workers_written [config_simps]: "read_workers (write_workers w) = Some w"
  by (cases w) (simp_all add: read_workers_def)

text \<open>C23. A configuration whose numbers are in the range of their Rust types is what reading its serialized form
  gives back: the handwritten forms, the skipped keys and the defaults agree.\<close>

theorem config_round_trip:
  assumes "config_in_range c"
  shows "read_config (write_config c) = Some c"
proof -
  obtain m where m: "write_config c = JObj m" and known: "known_keys project_keys m"
    and plain: "read_member m ''project'' as_str None = Some (pj_project c)"
      "read_member m ''port'' (read_uint 16) (Some default_port) = Some (pj_port c)"
      "read_member m ''workers'' read_workers (Some AutoWorkers) = Some (pj_workers c)"
      "read_member m ''protocols'' (read_list as_str) (Some default_protocols) = Some (pj_protocols c)"
    and keys: "map_of m ''databases'' = map_option write_databases (pj_databases c)"
      "map_of m ''cache'' = map_option write_cache (pj_cache c)"
      "map_of m ''auth'' = map_option write_auth (pj_auth c)"
      "map_of m ''storage'' = map_option write_storage (pj_storage c)"
      "map_of m ''logging'' = map_option write_logging (pj_logging c)"
      "map_of m ''events'' = map_option write_events (pj_events c)"
      "map_of m ''graphql'' = map_option write_graphql (pj_graphql c)"
      "map_of m ''grpc'' = map_option write_grpc (pj_grpc c)"
  proof
    show "write_config c = JObj (the (as_object (write_config c)))" by (simp add: write_config_def)
    show "known_keys project_keys (the (as_object (write_config c)))"
      by (simp add: write_config_def project_keys_def config_simps)
  qed (use assms in \<open>auto simp: write_config_def config_simps config_in_range_def read_uint_def map_add_def read_member_def
      split: option.splits\<close>)
  have bounded: "\<And>y. pj_databases c = Some y \<Longrightarrow> read_databases (write_databases y) = Some y"
      "\<And>y. pj_events c = Some y \<Longrightarrow> read_events (write_events y) = Some y"
      "\<And>y. pj_graphql c = Some y \<Longrightarrow> read_graphql (write_graphql y) = Some y"
      "\<And>y. pj_grpc c = Some y \<Longrightarrow> read_grpc (write_grpc y) = Some y"
    using assms by (simp_all add: config_in_range_def config_simps)
  show ?thesis
    using m known plain read_section[OF keys(1) bounded(1)] read_section[OF keys(2), of read_cache]
      read_section[OF keys(3), of read_auth] read_section[OF keys(4), of read_storage] read_section[OF keys(5), of read_logging]
      read_section[OF keys(6) bounded(2)] read_section[OF keys(7) bounded(3)] read_section[OF keys(8) bounded(4)]
    by (simp add: read_config_def read_struct_def config_simps)
qed

definition sample_config :: project_config where
  "sample_config =
     \<lparr>pj_project = ''shop'', pj_port = 8080, pj_workers = FixedWorkers 4,
      pj_databases = Some [(''default'', \<lparr>nd_engine = Postgres, nd_url = ''postgresql://db'', nd_pool_size = 20\<rparr>)],
      pj_cache = None, pj_auth = None, pj_storage = None, pj_logging = None,
      pj_events = Some \<lparr>pj_subscribers = [\<lparr>es_event = ''user.created'', es_targets = [TargetChannel ''news'' None]\<rparr>],
        pj_webhooks = None, pj_inbound = []\<rparr>,
      pj_protocols = [''rest'', ''grpc''], pj_graphql = None, pj_grpc = Some \<lparr>pj_grpc_port = 50051, pj_reflection = True\<rparr>\<rparr>"

theorem config_round_trip_witness: "read_config (write_config sample_config) = Some sample_config"
  by (rule config_round_trip) (simp add: sample_config_def config_in_range_def database_in_range_def)

text \<open>What the smallest configuration means, and that a misspelt key is refused, at every depth.\<close>

lemma minimal_config:
  "read_config (JObj [(''project'', JStr ''shop'')]) = Some
     \<lparr>pj_project = ''shop'', pj_port = 3000, pj_workers = AutoWorkers, pj_databases = None, pj_cache = None,
      pj_auth = None, pj_storage = None, pj_logging = None, pj_events = None, pj_protocols = [''rest''],
      pj_graphql = None, pj_grpc = None\<rparr>"
  by (simp add: read_config_def read_struct_def known_keys_def project_keys_def read_member_def default_port_def
      default_protocols_def)

lemma unknown_key_refused: "k \<in> set (map fst m) \<Longrightarrow> k \<notin> set project_keys \<Longrightarrow> read_config (JObj m) = None"
  by (auto simp: read_config_def read_struct_def known_keys_def list_all_iff)

text \<open>The reader does not look at the names of the protocols: a misspelt one is accepted.\<close>

lemma unknown_protocol_accepted:
  "map_option pj_protocols (read_config (JObj [(''project'', JStr ''shop''), (''protocols'', JArr [JStr ''grcp''])]))
    = Some [''grcp'']"
  by (simp add: read_config_def read_struct_def known_keys_def project_keys_def read_member_def read_list_def default_port_def)

end
