(* ===== verification/Generated_Store.thy ===== *)
theory Generated_Store
  imports Crud_Isolation
begin

text \<open>
  The stores that \<open>shaperail-codegen/src/rust.rs\<close> generates, one for each resource, with the helpers
  they call in \<open>shaperail-runtime/src/db/generated.rs\<close>. The generator fixes the text of every statement and the
  list of its arguments when it runs; here it is a function to these texts, and the generated methods evaluate the
  arguments in the environment of their \<open>let\<close> bindings. The deserializers and serializers of the column types
  (serde, chrono, uuid) are parameters. A generated program that does not compile has no store: names are taken to
  be Rust identifiers. Below: every placeholder is bound to the argument it was numbered for, and what a list does
  with the filter of the tenant.
\<close>

section \<open>Types\<close>

definition sanitize_identifier :: "string \<Rightarrow> string" where
  "sanitize_identifier s =
     (let output = map (\<lambda>c. case c of [b] \<Rightarrow> if ascii_alphanumeric b then ascii_lower b else CHR ''_'' | _ \<Rightarrow> CHR ''_'')
        (chars s)
      in if output \<noteq> [] \<and> hd output \<in> set ''0123456789'' then CHR ''_'' # output else output)"

fun scalar_cast :: "field_type \<Rightarrow> string" where
  "scalar_cast FtUuid = ''uuid''"
| "scalar_cast FtInteger = ''bigint''"
| "scalar_cast FtNumber = ''double precision''"
| "scalar_cast FtBoolean = ''boolean''"
| "scalar_cast FtTimestamp = ''timestamptz''"
| "scalar_cast FtDate = ''date''"
| "scalar_cast FtJson = ''jsonb''"
| "scalar_cast _ = ''text''"

definition item_type :: "field_schema \<Rightarrow> field_type" where
  "item_type f = (case fs_items f of None \<Rightarrow> FtString
     | Some it \<Rightarrow> if it_type it \<in> {FtUuid, FtInteger, FtNumber, FtBoolean, FtTimestamp, FtDate} then it_type it else FtString)"

definition sql_cast_type :: "field_schema \<Rightarrow> string" where
  "sql_cast_type f = (if fs_type f = FtArray then scalar_cast (item_type f) @ ''[]'' else scalar_cast (fs_type f))"

definition query_type :: "field_schema \<Rightarrow> string" where
  "query_type f = (if fs_type f = FtArray then ''Vec<'' @ rust_base_type (item_type f) @ ''>'' else rust_base_type (fs_type f))"

definition model_field_is_optional :: "field_schema \<Rightarrow> bool" where
  "model_field_is_optional f \<longleftrightarrow> fs_nullable f
     \<or> \<not> (fs_primary f \<or> fs_required f \<or> fs_generated f \<or> fs_default f \<noteq> None)"

definition double_cast :: "string \<Rightarrow> string" where
  "double_cast name = dquote name @ ''::DOUBLE PRECISION''"

definition select_column_sql :: "string \<Rightarrow> field_schema \<Rightarrow> string" where
  "select_column_sql name f = (if fs_type f = FtNumber then double_cast name else dquote name) @ '' as ''
     @ dquote (name @ (if model_field_is_optional f then ''?'' else ''!'') @ '': '' @ query_type f)"

definition sortable_expression :: "string \<Rightarrow> field_schema \<Rightarrow> string" where
  "sortable_expression name f =
     (if fs_type f \<in> {FtJson, FtArray, FtUuid} then dquote name @ ''::text''
      else if fs_type f = FtNumber then double_cast name else dquote name)"

definition search_expression :: "string list \<Rightarrow> string" where
  "search_expression flds = join ('' || '' @ squote '' '' @ '' || '')
     (map (\<lambda>f. ''COALESCE('' @ dquote f @ ''::text, '' @ squote [] @ '')'') flds)"

definition persisted :: "resource_definition \<Rightarrow> (string \<times> field_schema) list" where
  "persisted rd = filter (\<lambda>(n, f). is_persisted f) (rd_schema rd)"

definition indented :: "nat \<Rightarrow> string \<Rightarrow> string" where
  "indented n s = newline @ replicate n CHR '' '' @ s"

definition gen_select_columns :: "resource_definition \<Rightarrow> string" where
  "gen_select_columns rd = join ('','' @ indented 16 []) (map (\<lambda>(n, f). select_column_sql n f) (persisted rd))"

text \<open>\<open>endpoint.path()\<close>: the defaults of a parsed resource set every path.\<close>

definition path_text :: "endpoint_spec \<Rightarrow> string" where
  "path_text ep = (case ep_path ep of None \<Rightarrow> [] | Some p \<Rightarrow> p)"

definition collection_endpoints :: "resource_definition \<Rightarrow> (string \<times> endpoint_spec) list" where
  "collection_endpoints rd =
     filter (\<lambda>(n, ep). ep_method ep = Some Get \<and> \<not> contains_str '':id'' (path_text ep)) (list_or_empty (rd_endpoints rd))"

section \<open>Arguments\<close>

text \<open>An argument of a query macro: a variable, \<open>as_deref()\<close> of one, or an expression over the page.\<close>

datatype gen_arg = AVar string | ADeref string | ALimitPlusOne | ALimit | AOffset

fun arg_text :: "gen_arg \<Rightarrow> string" where
  "arg_text (AVar v) = v"
| "arg_text (ADeref v) = v @ ''.as_deref()''"
| "arg_text ALimitPlusOne = ''*limit + 1''"
| "arg_text ALimit = ''*limit''"
| "arg_text AOffset = ''*offset''"

type_synonym gen_env = "(string \<times> bind_value) list"

fun arg_value :: "gen_env \<Rightarrow> int \<Rightarrow> int \<Rightarrow> gen_arg \<Rightarrow> bind_value" where
  "arg_value env limit offset (AVar v) = or_else (map_of env v) BNull"
| "arg_value env limit offset (ADeref v) = or_else (map_of env v) BNull"
| "arg_value env limit offset ALimitPlusOne = BBigint (limit + 1)"
| "arg_value env limit offset ALimit = BBigint limit"
| "arg_value env limit offset AOffset = BBigint offset"

definition field_parameter_name :: "string \<Rightarrow> string" where
  "field_parameter_name name = ''filter_'' @ sanitize_identifier name"

definition parameter_expression :: "string \<Rightarrow> field_schema \<Rightarrow> gen_arg" where
  "parameter_expression name f =
     (if fs_type f \<in> {FtString, FtEnum, FtFile} then ADeref else AVar) (field_parameter_name name)"

definition sort_field_var :: "nat \<Rightarrow> string" where
  "sort_field_var i = ''sort_field_'' @ show_nat i"

definition sort_direction_var :: "nat \<Rightarrow> string" where
  "sort_direction_var i = ''sort_direction_'' @ show_nat i"

definition sort_args :: "nat \<Rightarrow> gen_arg list" where
  "sort_args n = concat (map (\<lambda>i. [ADeref (sort_field_var i), AVar (sort_direction_var i)]) [0..<n])"

section \<open>The list statements\<close>

fun try_map :: "('a \<Rightarrow> 'e + 'b) \<Rightarrow> 'a list \<Rightarrow> 'e + 'b list" where
  "try_map f [] = Inr []"
| "try_map f (x # xs) = and_then (f x) (\<lambda>y. and_then (try_map f xs) (\<lambda>ys. Inr (y # ys)))"

definition gen_field :: "string \<Rightarrow> resource_definition \<Rightarrow> string \<Rightarrow> string + field_schema" where
  "gen_field kind rd name = ok_or (''Unknown '' @ kind @ '' field '' @ squote name @ '' on resource '' @ squote (rd_resource rd))
     (map_of (rd_schema rd) name)"

definition filter_predicate :: "field_schema \<Rightarrow> string \<times> nat \<Rightarrow> string" where
  "filter_predicate f np = (case np of (name, position) \<Rightarrow> replicate 16 CHR '' '' @ ''AND ('' @ placeholder position @ ''::''
     @ sql_cast_type f @ '' IS NULL OR '' @ dquote name @ '' = '' @ placeholder position @ '')'')"

definition generate_filter_predicates :: "resource_definition \<Rightarrow> (string \<times> nat) list \<Rightarrow> string + string list" where
  "generate_filter_predicates rd positions =
     try_map (\<lambda>(name, p). and_then (gen_field ''filter'' rd name) (\<lambda>f. Inr (filter_predicate f (name, p)))) positions"

definition order_case :: "nat \<times> nat \<Rightarrow> string \<Rightarrow> field_schema \<Rightarrow> string \<Rightarrow> string \<Rightarrow> string" where
  "order_case ps candidate f asked ends = replicate 16 CHR '' '' @ ''CASE WHEN '' @ placeholder (fst ps) @ ''::text = ''
     @ squote candidate @ '' AND '' @ placeholder (snd ps) @ ''::text = '' @ squote asked @ '' THEN ''
     @ sortable_expression candidate f @ '' END '' @ ends"

definition generate_order_by :: "resource_definition \<Rightarrow> string list \<Rightarrow> (nat \<times> nat) list \<Rightarrow> string + string" where
  "generate_order_by rd sorts positions =
     (if sorts = [] then Inr (dquote (primary_key rd) @ '' ASC'')
      else and_then (try_map (\<lambda>(ps, name). and_then (try_map (\<lambda>candidate.
          and_then (gen_field ''sort'' rd candidate) (\<lambda>f.
            Inr [order_case ps candidate f ''asc'' ''ASC'', order_case ps candidate f ''desc'' ''DESC''])) sorts)
          (\<lambda>cs. Inr (concat cs))) (zip positions sorts)) (\<lambda>clauses.
        Inr (join ('','' @ newline) (concat clauses @ [replicate 16 CHR '' '' @ dquote (primary_key rd) @ '' ASC'']))))"

definition deleted_clause :: "resource_definition \<Rightarrow> string" where
  "deleted_clause rd = (if has_soft_delete rd
     then replicate 24 CHR '' '' @ ''AND '' @ dquote ''deleted_at'' @ '' IS NULL'' @ newline else [])"

definition search_clause :: "string list \<Rightarrow> nat option \<Rightarrow> string" where
  "search_clause flds position = (case position of None \<Rightarrow> [] | Some p \<Rightarrow>
     indented 24 (''AND ('' @ placeholder p @ ''::text IS NULL OR to_tsvector('' @ squote ''english'' @ '', ''
       @ search_expression flds @ '') @@ plainto_tsquery('' @ squote ''english'' @ '', '' @ placeholder p @ ''))''))"

definition where_clauses :: "resource_definition \<Rightarrow> string \<Rightarrow> string list \<Rightarrow> nat option \<Rightarrow> string" where
  "where_clauses rd filter_clause searched position =
     indented 20 ''WHERE TRUE'' @ newline @ deleted_clause rd @ newline
       @ (if filter_clause = [] then [] else filter_clause @ newline) @ search_clause searched position"

text \<open>\<open>indent_block\<close> shifts every line of the statement that is not empty; the first stands behind the quote.\<close>

definition indent_statement :: "string \<Rightarrow> string" where
  "indent_statement s = (case split_on CHR 0x0A s of [] \<Rightarrow> []
     | l # ls \<Rightarrow> join newline (l # map (\<lambda>l. if l = [] then [] else replicate 16 CHR '' '' @ l) ls))"

record gen_list =
  gx_filters :: "string list"
  gx_searched :: bool
  gx_sorts :: nat
  gx_cursor_sql :: string
  gx_cursor_args :: "gen_arg list"
  gx_count_sql :: string
  gx_count_args :: "gen_arg list"
  gx_rows_sql :: string
  gx_rows_args :: "gen_arg list"

text \<open>The numbers of the placeholders.\<close>

definition search_position :: "endpoint_spec \<Rightarrow> nat option" where
  "search_position ep = (if list_or_empty (ep_search ep) = [] then None
     else Some (length (list_or_empty (ep_filters ep)) + 1))"

definition cursor_position :: "endpoint_spec \<Rightarrow> nat" where
  "cursor_position ep = length (list_or_empty (ep_filters ep)) + (if search_position ep = None then 0 else 1) + 1"

definition sort_positions :: "nat \<Rightarrow> nat \<Rightarrow> (nat \<times> nat) list" where
  "sort_positions start n = map (\<lambda>i. (start + i * 2, start + i * 2 + 1)) [0..<n]"

definition generate_list_helper :: "resource_definition \<Rightarrow> endpoint_spec \<Rightarrow> string + gen_list" where
  "generate_list_helper rd ep =
     (let filters = list_or_empty (ep_filters ep); searched = list_or_empty (ep_search ep);
          sorts = list_or_empty (ep_sort ep); cp = cursor_position ep;
          table_line = indented 20 (''FROM '' @ dquote (rd_resource rd)) in
      and_then (try_map (\<lambda>name. and_then (gen_field ''filter'' rd name) (\<lambda>f. Inr (parameter_expression name f))) filters)
      (\<lambda>filter_args.
      and_then (generate_filter_predicates rd (zip filters [1..<length filters + 1])) (\<lambda>predicates.
      and_then (generate_order_by rd sorts (sort_positions (cp + 1) (length sorts))) (\<lambda>cursor_order.
      and_then (generate_order_by rd sorts (sort_positions cp (length sorts))) (\<lambda>offset_order.
      (let count_args = filter_args @ (if searched = [] then [] else [ADeref ''search_term'']);
           cursor_args = count_args @ [AVar ''cursor''] @ sort_args (length sorts) @ [ALimitPlusOne];
           row_args = count_args @ sort_args (length sorts) @ [ALimit, AOffset];
           clauses = where_clauses rd (join newline predicates) searched (search_position ep);
           head = indented 20 ''SELECT'' @ indented 24 (gen_select_columns rd) @ table_line @ clauses in
       Inr \<lparr>gx_filters = filters, gx_searched = (searched \<noteq> []), gx_sorts = length sorts,
         gx_cursor_sql = indent_statement (head
           @ indented 24 (''AND ('' @ placeholder cp @ ''::uuid IS NULL OR '' @ dquote (primary_key rd) @ '' > '' @ placeholder cp @ '')'')
           @ indented 20 ''ORDER BY'' @ newline @ cursor_order
           @ indented 20 (''LIMIT '' @ placeholder (length cursor_args)) @ indented 20 []),
         gx_cursor_args = cursor_args,
         gx_count_sql = indent_statement (indented 20 (''SELECT COUNT(*) as '' @ dquote ''count!'') @ table_line @ clauses
           @ indented 20 []),
         gx_count_args = count_args,
         gx_rows_sql = indent_statement (head @ indented 20 ''ORDER BY'' @ newline @ offset_order
           @ indented 20 (''LIMIT '' @ placeholder (length row_args - 1))
           @ indented 20 (''OFFSET '' @ placeholder (length row_args)) @ indented 20 []),
         gx_rows_args = row_args\<rparr>))))))"

section \<open>The other statements\<close>

definition gen_deleted :: "resource_definition \<Rightarrow> string" where
  "gen_deleted rd = (if has_soft_delete rd then '' AND '' @ dquote ''deleted_at'' @ '' IS NULL'' else [])"

definition gen_returning :: "resource_definition \<Rightarrow> string" where
  "gen_returning rd = indented 12 ''RETURNING'' @ indented 16 (gen_select_columns rd) @ indented 12 []"

definition gen_where_key :: "resource_definition \<Rightarrow> string" where
  "gen_where_key rd = indented 12 (''WHERE '' @ dquote (primary_key rd) @ '' = $1'')"

definition gen_find_by_id_sql :: "resource_definition \<Rightarrow> string" where
  "gen_find_by_id_sql rd = indented 12 ''SELECT'' @ indented 16 (gen_select_columns rd)
     @ indented 12 (''FROM '' @ dquote (rd_resource rd)) @ gen_where_key rd @ gen_deleted rd @ indented 12 []"

definition generate_insert_body :: "resource_definition \<Rightarrow> string \<times> gen_arg list" where
  "generate_insert_body rd =
     (let names = map fst (persisted rd) in
      (indented 12 (''INSERT INTO '' @ dquote (rd_resource rd) @ '' ('' @ join '', '' (map dquote names) @ '')'')
         @ indented 12 (''VALUES ('' @ join '', '' (map placeholder [1..<length names + 1]) @ '')'') @ gen_returning rd,
       map (\<lambda>n. AVar (sanitize_identifier n)) names))"

definition gen_mutable :: "resource_definition \<Rightarrow> (string \<times> field_schema) list" where
  "gen_mutable rd = filter (\<lambda>(n, f). \<not> (fs_primary f \<or> fs_generated f \<or> fs_transient f)) (rd_schema rd)"

definition present_name :: "string \<Rightarrow> string" where
  "present_name name = sanitize_identifier name @ ''_present''"

definition set_clause :: "string \<Rightarrow> nat \<Rightarrow> string" where
  "set_clause name index = dquote name @ '' = CASE WHEN '' @ placeholder index @ '' THEN '' @ placeholder (index + 1)
     @ '' ELSE '' @ dquote name @ '' END''"

fun update_clauses :: "string list \<Rightarrow> nat \<Rightarrow> string list \<times> gen_arg list \<times> nat" where
  "update_clauses [] index = ([], [], index)"
| "update_clauses (name # names) index = (case update_clauses names (index + 2) of (clauses, args, next_index) \<Rightarrow>
     (set_clause name index # clauses,
      AVar (present_name name) # AVar (sanitize_identifier name) # args, next_index))"

definition generate_update_body :: "resource_definition \<Rightarrow> string \<times> gen_arg list" where
  "generate_update_body rd =
     (case update_clauses (map fst (gen_mutable rd)) 2 of (clauses, args, index) \<Rightarrow>
      (let touched = touches_updated_at rd;
           clauses' = clauses @ (if touched then [dquote ''updated_at'' @ '' = '' @ placeholder index] else []) in
       (indented 12 (''UPDATE '' @ dquote (rd_resource rd)) @ indented 12 (''SET '' @ join '', '' clauses')
          @ gen_where_key rd @ gen_deleted rd @ gen_returning rd,
        AVar ''id'' # args @ (if touched then [AVar ''updated_at''] else []))))"

definition generate_hard_delete_body :: "resource_definition \<Rightarrow> string \<times> gen_arg list" where
  "generate_hard_delete_body rd =
     (indented 12 (''DELETE FROM '' @ dquote (rd_resource rd)) @ gen_where_key rd @ gen_returning rd, [AVar ''id''])"

definition generate_soft_delete_body :: "resource_definition \<Rightarrow> string \<times> gen_arg list" where
  "generate_soft_delete_body rd =
     (if \<not> has_soft_delete rd then generate_hard_delete_body rd
      else (indented 12 (''UPDATE '' @ dquote (rd_resource rd))
        @ indented 12 (''SET '' @ dquote ''deleted_at'' @ '' = $2'')
        @ gen_where_key rd @ '' AND '' @ dquote ''deleted_at'' @ '' IS NULL'' @ gen_returning rd,
        [AVar ''id'', AVar ''deleted_at'']))"

section \<open>Helpers of the generated methods\<close>

text \<open>\<open>gn_from_json\<close> is \<open>serde_json::from_value\<close> at the type of a field, \<open>gn_json_of_text\<close> is
  \<open>serde_json::from_str\<close>, \<open>gn_to_json\<close> serializes a column and \<open>gn_display\<close> prints it.\<close>

record gen_lib =
  gn_sql :: sql_lib
  gn_from_json :: "field_schema \<Rightarrow> json \<Rightarrow> bind_value option"
  gn_json_of_text :: "string \<Rightarrow> json option"
  gn_to_json :: "cell \<Rightarrow> json"
  gn_display :: "cell \<Rightarrow> string"

definition gen_error :: "string \<Rightarrow> string \<Rightarrow> string \<Rightarrow> shaperail_error" where
  "gen_error field text code = Validation [\<lparr>fe_field = field, fe_message = field @ text, fe_code = code\<rparr>]"

definition parse_optional_json :: "gen_lib \<Rightarrow> jmap \<Rightarrow> string \<Rightarrow> field_schema \<Rightarrow> bind_value option res" where
  "parse_optional_json gl data name f = (case map_of data name of
     None \<Rightarrow> Inr None
   | Some JNull \<Rightarrow> Inr None
   | Some v \<Rightarrow> map_sum id Some (ok_or (gen_error name '' has an invalid value'' ''invalid_value'') (gn_from_json gl f v)))"

definition parse_embedded_json :: "gen_lib \<Rightarrow> string \<Rightarrow> field_schema \<Rightarrow> json \<Rightarrow> bind_value res" where
  "parse_embedded_json gl name f v =
     ok_or (Internal (''Invalid generated default value for field '' @ squote name)) (gn_from_json gl f v)"

definition require_field :: "'a option \<Rightarrow> string \<Rightarrow> 'a res" where
  "require_field v name = ok_or (gen_error name '' is required'' ''required'') v"

definition parse_filter_text :: "filter_param list \<Rightarrow> string \<Rightarrow> string option" where
  "parse_filter_text fs name = map_option fp_value (find (\<lambda>f. fp_field f = name) fs)"

definition filter_parser :: "gen_lib \<Rightarrow> field_schema \<Rightarrow> string \<Rightarrow> bind_value option" where
  "filter_parser gl f text = (case fs_type f of
     FtUuid \<Rightarrow> map_option BUuid (parse_uuid (sl_values (gn_sql gl)) text)
   | FtInteger \<Rightarrow> map_option BBigint (parse_i64 text)
   | FtNumber \<Rightarrow> map_option BFloat (sl_parse_f64 (gn_sql gl) text)
   | FtBoolean \<Rightarrow> map_option BBool (parse_bool text)
   | FtTimestamp \<Rightarrow> map_option BTimestamp (sl_parse_timestamp (gn_sql gl) text)
   | FtDate \<Rightarrow> map_option BDate (sl_parse_date (gn_sql gl) text)
   | FtJson \<Rightarrow> map_option BJson (gn_json_of_text gl text)
   | FtArray \<Rightarrow> map_option BJson (gn_json_of_text gl text)
   | _ \<Rightarrow> Some (BText text))"

definition parse_filter :: "filter_param list \<Rightarrow> string \<Rightarrow> (string \<Rightarrow> bind_value option) \<Rightarrow> bind_value option res" where
  "parse_filter fs name parser = (case parse_filter_text fs name of
     None \<Rightarrow> Inr None
   | Some raw \<Rightarrow> map_sum id Some (ok_or (gen_error name '' has an invalid filter value'' ''invalid_filter'') (parser raw)))"

definition sort_field_at :: "sort_field list \<Rightarrow> nat \<Rightarrow> string option" where
  "sort_field_at srt index = (if index < length srt then Some (sf_field (srt ! index)) else None)"

definition sort_direction_at :: "sort_field list \<Rightarrow> nat \<Rightarrow> string option" where
  "sort_direction_at srt index = (if index < length srt
     then Some (case sf_direction (srt ! index) of Asc \<Rightarrow> ''asc'' | Desc \<Rightarrow> ''desc'') else None)"

text \<open>A row of a query macro: every column is decoded, and a column that must be there may not be NULL.\<close>

type_synonym gen_record = "(string \<times> cell option) list"

definition decode_column :: "pg_row \<Rightarrow> string \<times> field_schema \<Rightarrow> sqlx_error + string \<times> cell option" where
  "decode_column row nf = (case nf of (name, f) \<Rightarrow> (case row name (fs_type f) of
     Inl e \<Rightarrow> Inl (OtherSqlx e)
   | Inr None \<Rightarrow> if model_field_is_optional f then Inr (name, None)
       else Inl (OtherSqlx (''error occurred while decoding column '' @ dquote name @ '': unexpected null; try decoding as an ''
         @ backtick ''Option''))
   | Inr (Some c) \<Rightarrow> Inr (name, Some c)))"

definition decode_record :: "resource_definition \<Rightarrow> pg_row \<Rightarrow> sqlx_error + gen_record" where
  "decode_record rd row = try_map (decode_column row) (persisted rd)"

definition fetch_records :: "resource_definition \<Rightarrow> sqlx_error + pg_row list \<Rightarrow> gen_record list res" where
  "fetch_records rd rows = sqlx_res (and_then rows (try_map (decode_record rd)))"

definition row_from_model :: "gen_lib \<Rightarrow> resource_definition \<Rightarrow> gen_record \<Rightarrow> json" where
  "row_from_model gl rd record = JObj (map (\<lambda>(n, c). (n, json_of_option (gn_to_json gl) c))
     (filter (\<lambda>(n, c). \<not> (case map_of (rd_schema rd) n of None \<Rightarrow> False | Some f \<Rightarrow> fs_sensitive f)) record))"

definition fetch_first :: "gen_lib \<Rightarrow> resource_definition \<Rightarrow> shaperail_error \<Rightarrow> sqlx_error + pg_row list \<Rightarrow> json res" where
  "fetch_first gl rd none rows = and_then (fetch_records rd (map_sum id (take 1) rows)) (\<lambda>records.
     (case records of [] \<Rightarrow> Inl none | r # _ \<Rightarrow> Inr (row_from_model gl rd r)))"

section \<open>The generated methods\<close>

definition opt_bind :: "bind_value option \<Rightarrow> bind_value" where
  "opt_bind v = or_else v BNull"

text \<open>Later bindings shadow earlier ones: the newest stands first.\<close>

fun filter_bindings :: "gen_lib \<Rightarrow> resource_definition \<Rightarrow> filter_param list \<Rightarrow> string list \<Rightarrow> gen_env \<Rightarrow> gen_env res" where
  "filter_bindings gl rd fs [] env = Inr env"
| "filter_bindings gl rd fs (name # names) env = (case map_of (rd_schema rd) name of
     None \<Rightarrow> filter_bindings gl rd fs names env
   | Some f \<Rightarrow> and_then (parse_filter fs name (filter_parser gl f)) (\<lambda>v.
       filter_bindings gl rd fs names ((field_parameter_name name, opt_bind v) # env)))"

definition sort_bindings :: "sort_field list \<Rightarrow> nat \<Rightarrow> gen_env" where
  "sort_bindings srt n = concat (map (\<lambda>i. [(sort_direction_var i, opt_bind (map_option BText (sort_direction_at srt i))),
     (sort_field_var i, opt_bind (map_option BText (sort_field_at srt i)))]) [0..<n])"

definition list_bindings :: "gen_lib \<Rightarrow> resource_definition \<Rightarrow> gen_list \<Rightarrow> filter_param list \<Rightarrow> search_param option \<Rightarrow>
    sort_field list \<Rightarrow> gen_env res" where
  "list_bindings gl rd l fs search srt =
     and_then (filter_bindings gl rd fs (gx_filters l) []) (\<lambda>env.
       Inr (sort_bindings srt (gx_sorts l)
         @ (if gx_searched l then [(''search_term'', opt_bind (map_option (\<lambda>s. BText (se_term s)) search))] else []) @ env))"

definition record_cursor :: "gen_lib \<Rightarrow> resource_definition \<Rightarrow> gen_record \<Rightarrow> string" where
  "record_cursor gl rd record = encode_cursor (case map_of record (primary_key rd) of
     Some (Some c) \<Rightarrow> gn_display gl c | _ \<Rightarrow> [])"

definition run_list :: "gen_lib \<Rightarrow> pool \<Rightarrow> count_pool \<Rightarrow> resource_definition \<Rightarrow> gen_list \<Rightarrow> filter_param list \<Rightarrow>
    search_param option \<Rightarrow> sort_field list \<Rightarrow> page_request \<Rightarrow> (json list \<times> json) res" where
  "run_list gl execute counter rd l fs search srt page =
     and_then (list_bindings gl rd l fs search srt) (\<lambda>env.
     (case page of
        Cursor after limit \<Rightarrow> and_then (decode_after (gn_sql gl) after) (\<lambda>decoded.
          and_then (fetch_records rd (execute (gx_cursor_sql l)
            (map (arg_value ((''cursor'', opt_bind (map_option BUuid decoded)) # env) limit 0) (gx_cursor_args l)))) (\<lambda>rows.
          (let has_more = int (length rows) > limit;
               result_rows = (if has_more then take (nat (limit mod 2 ^ 64)) rows else rows);
               cursor = (if has_more \<and> result_rows \<noteq> [] then Some (record_cursor gl rd (last result_rows)) else None)
           in Inr (map (row_from_model gl rd) result_rows,
                JObj [(''cursor'', json_of_option JStr cursor), (''has_more'', JBool has_more)]))))
      | Offset off limit \<Rightarrow>
          and_then (sqlx_res (counter (gx_count_sql l) (map (arg_value env limit off) (gx_count_args l)))) (\<lambda>total.
          and_then (fetch_records rd (execute (gx_rows_sql l) (map (arg_value env limit off) (gx_rows_args l)))) (\<lambda>rows.
            Inr (map (row_from_model gl rd) rows,
              JObj [(''offset'', jint off), (''limit'', jint limit), (''total'', jint total)])))))"

definition gen_find_all :: "gen_lib \<Rightarrow> pool \<Rightarrow> count_pool \<Rightarrow> resource_definition \<Rightarrow> (string \<times> gen_list) list \<Rightarrow> endpoint_spec \<Rightarrow>
    filter_param list \<Rightarrow> search_param option \<Rightarrow> sort_field list \<Rightarrow> page_request \<Rightarrow> (json list \<times> json) res" where
  "gen_find_all gl execute counter rd helpers ep fs search srt page =
     (if helpers = [] then Inl (Internal ''No collection endpoints are available for generated list queries'')
      else (case map_of helpers (path_text ep) of
        None \<Rightarrow> Inl (Internal (''No generated list query for '' @ path_text ep))
      | Some l \<Rightarrow> run_list gl execute counter rd l fs search srt page))"

fun default_of_type :: "field_type \<Rightarrow> bind_value" where
  "default_of_type FtInteger = BBigint 0"
| "default_of_type FtNumber = BFloat (Finite 0)"
| "default_of_type FtBoolean = BBool False"
| "default_of_type FtJson = BJson JNull"
| "default_of_type FtArray = BJson (JArr [])"
| "default_of_type _ = BText []"

definition generated_value :: "gen_lib \<Rightarrow> nat \<Rightarrow> field_schema \<Rightarrow> bind_value" where
  "generated_value gl k f = (case fs_type f of
     FtUuid \<Rightarrow> BUuid (sl_new_uuid (gn_sql gl) k)
   | FtTimestamp \<Rightarrow> BTimestamp (sl_now (gn_sql gl))
   | FtDate \<Rightarrow> BDate (sl_today (gn_sql gl))
   | t \<Rightarrow> if model_field_is_optional f then BNull else default_of_type t)"

text \<open>The generator refuses a default of the wrong kind for a text or a boolean.\<close>

definition default_check :: "string \<times> field_schema \<Rightarrow> string + unit" where
  "default_check nf = (case nf of (name, f) \<Rightarrow> (case fs_default f of
     None \<Rightarrow> Inr ()
   | Some d \<Rightarrow> if fs_generated f then Inr ()
       else if fs_type f \<in> {FtString, FtEnum, FtFile} then
         require (as_str d \<noteq> None) (''Default for '' @ squote name @ '' must be a string'')
       else if fs_type f = FtBoolean then
         require (as_bool d \<noteq> None) (''Default for '' @ squote name @ '' must be a boolean'')
       else Inr ()))"

definition default_value :: "gen_lib \<Rightarrow> string \<Rightarrow> field_schema \<Rightarrow> json \<Rightarrow> bind_value res" where
  "default_value gl name f d =
     (if fs_type f \<in> {FtString, FtEnum, FtFile} then Inr (BText (or_else (as_str d) []))
      else if fs_type f = FtBoolean then Inr (BBool (or_else (as_bool d) False))
      else if fs_type f = FtJson then Inr (BJson d)
      else parse_embedded_json gl name f d)"

definition insert_field :: "gen_lib \<Rightarrow> jmap \<Rightarrow> nat \<Rightarrow> string \<Rightarrow> field_schema \<Rightarrow> bind_value res" where
  "insert_field gl data k name f =
     (if fs_generated f then Inr (generated_value gl k f)
      else and_then (parse_optional_json gl data name f) (\<lambda>parsed. (case (parsed, fs_default f) of
          (Some v, _) \<Rightarrow> Inr v
        | (None, Some d) \<Rightarrow> default_value gl name f d
        | (None, None) \<Rightarrow> if model_field_is_optional f then Inr BNull else require_field None name)))"

fun insert_bindings :: "gen_lib \<Rightarrow> jmap \<Rightarrow> nat \<Rightarrow> (string \<times> field_schema) list \<Rightarrow> gen_env \<Rightarrow> gen_env res" where
  "insert_bindings gl data k [] env = Inr env"
| "insert_bindings gl data k ((name, f) # nfs) env = and_then (insert_field gl data k name f) (\<lambda>v.
     insert_bindings gl data (k + 1) nfs ((sanitize_identifier name, v) # env))"

definition gen_insert_values :: "gen_lib \<Rightarrow> resource_definition \<Rightarrow> jmap \<Rightarrow> bind_value list res" where
  "gen_insert_values gl rd data = and_then (insert_bindings gl data 1 (persisted rd) []) (\<lambda>env.
     Inr (map (arg_value env 0 0) (snd (generate_insert_body rd))))"

fun update_bindings :: "gen_lib \<Rightarrow> jmap \<Rightarrow> (string \<times> field_schema) list \<Rightarrow> gen_env \<Rightarrow> gen_env res" where
  "update_bindings gl data [] env = Inr env"
| "update_bindings gl data ((name, f) # nfs) env = and_then (parse_optional_json gl data name f) (\<lambda>v.
     update_bindings gl data nfs
       ((sanitize_identifier name, opt_bind v) # (present_name name, BBool (has_key data name)) # env))"

definition gen_update_values :: "gen_lib \<Rightarrow> resource_definition \<Rightarrow> uuid \<Rightarrow> jmap \<Rightarrow> bind_value list res" where
  "gen_update_values gl rd i data =
     and_then (update_bindings gl data (gen_mutable rd) [(''id'', BUuid i)]) (\<lambda>env.
     and_then (require (gen_mutable rd = [] \<or> list_ex (\<lambda>(n, f). map_of env (present_name n) = Some (BBool True)) (gen_mutable rd))
       empty_update) (\<lambda>_.
     (let env' = (if touches_updated_at rd then (''updated_at'', BTimestamp (sl_now (gn_sql gl))) # env else env) in
       Inr (map (arg_value env' 0 0) (snd (generate_update_body rd))))))"

definition gen_write :: "gen_lib \<Rightarrow> 'db executor \<Rightarrow> resource_definition \<Rightarrow> shaperail_error \<Rightarrow> string \<Rightarrow> bind_value list res \<Rightarrow>
    'db \<Rightarrow> 'db \<times> json res" where
  "gen_write gl exec rd none sql vs db = (case vs of
     Inl e \<Rightarrow> (db, Inl e)
   | Inr binds \<Rightarrow> (case exec sql binds db of (db', rows) \<Rightarrow> (db', fetch_first gl rd none rows)))"

definition generated_store :: "gen_lib \<Rightarrow> 'db executor \<Rightarrow> ('db \<Rightarrow> count_pool) \<Rightarrow> resource_definition \<Rightarrow>
    (string \<times> gen_list) list \<Rightarrow> 'db store" where
  "generated_store gl exec counter rd helpers =
     \<lparr>st_find_by_id = (\<lambda>i db. fetch_first gl rd NotFound (snd (exec (gen_find_by_id_sql rd) [BUuid i] db))),
      st_find_all = (\<lambda>ep fs search srt page db.
        gen_find_all gl (\<lambda>sql binds. snd (exec sql binds db)) (counter db) rd helpers ep fs search srt page),
      st_insert = (\<lambda>data. gen_write gl exec rd (from_sqlx RowNotFound) (fst (generate_insert_body rd)) (gen_insert_values gl rd data)),
      st_update_by_id = (\<lambda>i data. gen_write gl exec rd NotFound (fst (generate_update_body rd)) (gen_update_values gl rd i data)),
      st_soft_delete_by_id = (\<lambda>i. gen_write gl exec rd NotFound (fst (generate_soft_delete_body rd))
        (Inr (map (arg_value [(''deleted_at'', BTimestamp (sl_now (gn_sql gl))), (''id'', BUuid i)] 0 0)
          (snd (generate_soft_delete_body rd))))),
      st_hard_delete_by_id = (\<lambda>i. gen_write gl exec rd NotFound (fst (generate_hard_delete_body rd))
        (Inr (map (arg_value [(''id'', BUuid i)] 0 0) (snd (generate_hard_delete_body rd)))))\<rparr>"

text \<open>\<open>generate_resource_module\<close>: the whole run fails when one helper or one default is refused.\<close>

definition generate_store :: "gen_lib \<Rightarrow> 'db executor \<Rightarrow> ('db \<Rightarrow> count_pool) \<Rightarrow> resource_definition \<Rightarrow> string + 'db store" where
  "generate_store gl exec counter rd =
     and_then (try_map (\<lambda>(n, ep). and_then (generate_list_helper rd ep) (\<lambda>l. Inr (path_text ep, l)))
       (collection_endpoints rd)) (\<lambda>helpers.
     and_then (try_map default_check (persisted rd)) (\<lambda>_. Inr (generated_store gl exec counter rd helpers)))"

definition build_store_registry :: "gen_lib \<Rightarrow> 'db executor \<Rightarrow> ('db \<Rightarrow> count_pool) \<Rightarrow> resource_definition list \<Rightarrow>
    string + (string \<times> 'db store) list" where
  "build_store_registry gl exec counter rds =
     try_map (\<lambda>rd. and_then (generate_store gl exec counter rd) (\<lambda>st. Inr (rd_resource rd, st))) rds"

section \<open>Every placeholder is bound to its argument\<close>

lemma try_map_Inr: "try_map f xs = Inr ys \<longleftrightarrow> list_all2 (\<lambda>x y. f x = Inr y) xs ys"
  by (induction xs arbitrary: ys) (auto simp: result_simps list_all2_Cons1)

lemma generate_list_helper_parts:
  assumes "generate_list_helper rd ep = Inr l"
  shows "gx_filters l = list_or_empty (ep_filters ep)" and "gx_searched l = (list_or_empty (ep_search ep) \<noteq> [])"
    and "gx_sorts l = length (list_or_empty (ep_sort ep))"
    and "gx_cursor_args l = gx_count_args l @ [AVar ''cursor''] @ sort_args (gx_sorts l) @ [ALimitPlusOne]"
    and "gx_rows_args l = gx_count_args l @ sort_args (gx_sorts l) @ [ALimit, AOffset]"
    and "\<exists>filter_args. gx_count_args l = filter_args @ (if gx_searched l then [ADeref ''search_term''] else [])
      \<and> list_all2 (\<lambda>name a. \<exists>f. map_of (rd_schema rd) name = Some f \<and> parameter_expression name f = a) (gx_filters l) filter_args"
  using assms
  by (auto simp: generate_list_helper_def Let_def result_simps try_map_Inr gen_field_def)

definition filter_bind :: "gen_lib \<Rightarrow> resource_definition \<Rightarrow> filter_param list \<Rightarrow> string \<Rightarrow> bind_value" where
  "filter_bind gl rd fs name = (case map_of (rd_schema rd) name of None \<Rightarrow> BNull
     | Some f \<Rightarrow> opt_bind (Option.bind (parse_filter_text fs name) (filter_parser gl f)))"

lemma parse_filter_value: "parse_filter fs name parser = Inr v \<Longrightarrow> v = Option.bind (parse_filter_text fs name) parser"
  by (cases "parse_filter_text fs name"; cases "parser (the (parse_filter_text fs name))")
    (auto simp: parse_filter_def ok_or_def)

lemma filter_bindings_keep:
  "filter_bindings gl rd fs names env0 = Inr env \<Longrightarrow> v \<notin> field_parameter_name ` set names \<Longrightarrow> map_of env v = map_of env0 v"
  by (induction names arbitrary: env0) (auto simp: result_simps split: option.splits)

lemma filter_bindings_lookup:
  assumes "filter_bindings gl rd fs names env0 = Inr env" and "distinct (map field_parameter_name names)"
    and "name \<in> set names" and "map_of (rd_schema rd) name \<noteq> None"
  shows "map_of env (field_parameter_name name) = Some (filter_bind gl rd fs name)"
  using assms
proof (induction names arbitrary: env0)
  case (Cons n names)
  show ?case
  proof (cases "n = name")
    case True
    with Cons.prems obtain f v where f: "map_of (rd_schema rd) name = Some f"
      and v: "parse_filter fs name (filter_parser gl f) = Inr v"
      and rest: "filter_bindings gl rd fs names ((field_parameter_name name, opt_bind v) # env0) = Inr env"
      by (auto simp: result_simps)
    have "map_of env (field_parameter_name name) = Some (opt_bind v)"
      using filter_bindings_keep[OF rest, of "field_parameter_name name"] Cons.prems(2) True by simp
    then show ?thesis using parse_filter_value[OF v] f by (simp add: filter_bind_def)
  next
    case False
    then show ?thesis using Cons by (auto simp: result_simps split: option.splits)
  qed
qed simp

text \<open>The variables of filters, search, cursor and sorts have different names.\<close>

lemma variable_names:
  "field_parameter_name name \<noteq> ''search_term''" "field_parameter_name name \<noteq> ''cursor''"
  "field_parameter_name name \<noteq> sort_field_var i" "field_parameter_name name \<noteq> sort_direction_var i"
  "sort_field_var i \<noteq> ''search_term''" "sort_direction_var i \<noteq> ''search_term''" "sort_field_var i \<noteq> ''cursor''"
  "sort_direction_var i \<noteq> ''cursor''" "sort_field_var i \<noteq> sort_direction_var j"
  by (simp_all add: field_parameter_name_def sort_field_var_def sort_direction_var_def)

lemma sort_bindings_Suc: "sort_bindings srt (Suc n) = sort_bindings srt n
    @ [(sort_direction_var n, opt_bind (map_option BText (sort_direction_at srt n))),
       (sort_field_var n, opt_bind (map_option BText (sort_field_at srt n)))]"
  by (simp add: sort_bindings_def)

lemma sort_bindings_other:
  "(\<And>i. v \<noteq> sort_field_var i) \<Longrightarrow> (\<And>i. v \<noteq> sort_direction_var i) \<Longrightarrow> map_of (sort_bindings srt n) v = None"
  by (induction n) (simp_all add: sort_bindings_Suc map_add_def, simp add: sort_bindings_def)

lemma sort_bindings_lookup:
  "map_of (sort_bindings srt n) (sort_field_var i)
    = (if i < n then Some (opt_bind (map_option BText (sort_field_at srt i))) else None)"
  "map_of (sort_bindings srt n) (sort_direction_var i)
    = (if i < n then Some (opt_bind (map_option BText (sort_direction_at srt i))) else None)"
proof -
  have inj: "sort_field_var i = sort_field_var j \<longleftrightarrow> i = j" "sort_direction_var i = sort_direction_var j \<longleftrightarrow> i = j" for i j
    by (simp_all add: sort_field_var_def sort_direction_var_def)
  show "map_of (sort_bindings srt n) (sort_field_var i)
      = (if i < n then Some (opt_bind (map_option BText (sort_field_at srt i))) else None)"
    by (induction n) (auto simp: sort_bindings_Suc map_add_def inj variable_names less_Suc_eq, simp add: sort_bindings_def)
  show "map_of (sort_bindings srt n) (sort_direction_var i)
      = (if i < n then Some (opt_bind (map_option BText (sort_direction_at srt i))) else None)"
    by (induction n) (auto simp: sort_bindings_Suc map_add_def inj variable_names(9)[symmetric] less_Suc_eq,
        simp add: sort_bindings_def)
qed

definition count_binds :: "gen_lib \<Rightarrow> resource_definition \<Rightarrow> gen_list \<Rightarrow> filter_param list \<Rightarrow> search_param option \<Rightarrow>
    bind_value list" where
  "count_binds gl rd l fs search = map (filter_bind gl rd fs) (gx_filters l)
     @ (if gx_searched l then [opt_bind (map_option (\<lambda>s. BText (se_term s)) search)] else [])"

definition sort_binds :: "sort_field list \<Rightarrow> nat \<Rightarrow> bind_value list" where
  "sort_binds srt n = concat (map (\<lambda>i. [opt_bind (map_option BText (sort_field_at srt i)),
     opt_bind (map_option BText (sort_direction_at srt i))]) [0..<n])"

lemma sort_args_values:
  assumes "\<And>i. i < n \<Longrightarrow> map_of env (sort_field_var i) = Some (opt_bind (map_option BText (sort_field_at srt i)))
    \<and> map_of env (sort_direction_var i) = Some (opt_bind (map_option BText (sort_direction_at srt i)))"
  shows "map (arg_value env limit offset) (sort_args n) = sort_binds srt n"
  using assms by (induction n) (simp_all add: sort_args_def sort_binds_def or_else_def)

lemma list_args_values:
  assumes "generate_list_helper rd ep = Inr l" and "distinct (map field_parameter_name (gx_filters l))"
    and "list_bindings gl rd l fs search srt = Inr env0"
    and env: "env = env0 \<or> env = (''cursor'', c) # env0"
  shows "map (arg_value env limit offset) (gx_count_args l) = count_binds gl rd l fs search"
    and "map (arg_value env limit offset) (sort_args (gx_sorts l)) = sort_binds srt (gx_sorts l)"
proof -
  obtain filter_args where args: "gx_count_args l = filter_args @ (if gx_searched l then [ADeref ''search_term''] else [])"
    and each: "list_all2 (\<lambda>name a. \<exists>f. map_of (rd_schema rd) name = Some f \<and> parameter_expression name f = a) (gx_filters l) filter_args"
    using generate_list_helper_parts(6)[OF assms(1)] by blast
  obtain fenv where fenv: "filter_bindings gl rd fs (gx_filters l) [] = Inr fenv"
    and env0: "env0 = sort_bindings srt (gx_sorts l)
      @ (if gx_searched l then [(''search_term'', opt_bind (map_option (\<lambda>s. BText (se_term s)) search))] else []) @ fenv"
    using assms(3) by (auto simp: list_bindings_def result_simps)
  have "arg_value env limit offset a = filter_bind gl rd fs name"
    if "name \<in> set (gx_filters l)" "map_of (rd_schema rd) name = Some f" "parameter_expression name f = a" for name f a
  proof -
    have "map_of env (field_parameter_name name) = map_of fenv (field_parameter_name name)"
      using env by (auto simp: env0 map_add_def sort_bindings_other variable_names)
    then show ?thesis
      using filter_bindings_lookup[OF fenv assms(2) that(1)] that(2,3)
      by (auto simp: parameter_expression_def or_else_def split: if_splits)
  qed
  with each have "map (arg_value env limit offset) filter_args = map (filter_bind gl rd fs) (gx_filters l)"
    by (induction rule: list_all2_induct) auto
  moreover have "gx_searched l \<Longrightarrow> map_of env ''search_term'' = Some (opt_bind (map_option (\<lambda>s. BText (se_term s)) search))"
    using env by (auto simp: env0 map_add_def sort_bindings_other variable_names[symmetric])
  ultimately show "map (arg_value env limit offset) (gx_count_args l) = count_binds gl rd l fs search"
    by (simp add: args count_binds_def or_else_def)
  show "map (arg_value env limit offset) (sort_args (gx_sorts l)) = sort_binds srt (gx_sorts l)"
  proof (rule sort_args_values)
    fix i assume "i < gx_sorts l"
    then show "map_of env (sort_field_var i) = Some (opt_bind (map_option BText (sort_field_at srt i)))
      \<and> map_of env (sort_direction_var i) = Some (opt_bind (map_option BText (sort_direction_at srt i)))"
      using env by (auto simp: env0 map_add_def sort_bindings_lookup variable_names)
  qed
qed

lemma sort_binds_nth:
  "i < n \<Longrightarrow> sort_binds srt n ! (2 * i) = opt_bind (map_option BText (sort_field_at srt i))"
  "i < n \<Longrightarrow> sort_binds srt n ! (2 * i + 1) = opt_bind (map_option BText (sort_direction_at srt i))"
  "length (sort_binds srt n) = 2 * n"
proof -
  show len: "length (sort_binds srt n) = 2 * n" for n by (induction n) (simp_all add: sort_binds_def)
  have step: "sort_binds srt (Suc n) = sort_binds srt n @ [opt_bind (map_option BText (sort_field_at srt n)),
      opt_bind (map_option BText (sort_direction_at srt n))]" for n by (simp add: sort_binds_def)
  show "i < n \<Longrightarrow> sort_binds srt n ! (2 * i) = opt_bind (map_option BText (sort_field_at srt i))"
    by (induction n) (auto simp: step nth_append len less_Suc_eq)
  show "i < n \<Longrightarrow> sort_binds srt n ! (2 * i + 1) = opt_bind (map_option BText (sort_direction_at srt i))"
    by (induction n) (auto simp: step nth_append len less_Suc_eq)
qed

text \<open>Placeholder \<open>p\<close> of a statement gets the value \<open>v\<close>.\<close>

definition bound_at :: "bind_value list \<Rightarrow> nat \<Rightarrow> bind_value \<Rightarrow> bool" where
  "bound_at binds p v \<longleftrightarrow> 1 \<le> p \<and> p \<le> length binds \<and> binds ! (p - 1) = v"

lemma count_binds_bound:
  assumes "generate_list_helper rd ep = Inr l"
  shows "length (count_binds gl rd l fs search) = cursor_position ep - 1"
    and "i < length (gx_filters l) \<Longrightarrow> bound_at (count_binds gl rd l fs search) (i + 1) (filter_bind gl rd fs (gx_filters l ! i))"
    and "search_position ep = Some p \<Longrightarrow>
      bound_at (count_binds gl rd l fs search) p (opt_bind (map_option (\<lambda>s. BText (se_term s)) search))"
  using generate_list_helper_parts(1-3)[OF assms]
  by (auto simp: count_binds_def cursor_position_def search_position_def bound_at_def nth_append split: if_splits)

lemma bound_at_front: "bound_at xs p v \<Longrightarrow> bound_at (xs @ ys) p v"
  by (auto simp: bound_at_def nth_append)

lemma sort_binds_bound:
  "i < n \<Longrightarrow> bound_at (sort_binds srt n) (2 * i + 1) (opt_bind (map_option BText (sort_field_at srt i)))"
  "i < n \<Longrightarrow> bound_at (sort_binds srt n) (2 * i + 2) (opt_bind (map_option BText (sort_direction_at srt i)))"
  using sort_binds_nth(1,2)[of i n srt] sort_binds_nth(3)[of srt n] by (simp_all add: bound_at_def)

lemma cursor_position_pos: "1 \<le> cursor_position ep"
  by (simp add: cursor_position_def)


section \<open>Writes\<close>

lemma insert_bindings_values:
  assumes "insert_bindings gl data k nfs env0 = Inr env"
  shows "\<exists>vs. env = rev (zip (map (sanitize_identifier \<circ> fst) nfs) vs) @ env0
    \<and> list_all2 (\<lambda>(i, n, f) v. insert_field gl data i n f = Inr v) (List.enumerate k nfs) vs"
  using assms
proof (induction nfs arbitrary: k env0)
  case (Cons nf nfs)
  obtain n f v where nf: "nf = (n, f)" and v: "insert_field gl data k n f = Inr v"
    and rest: "insert_bindings gl data (k + 1) nfs ((sanitize_identifier n, v) # env0) = Inr env"
    using Cons.prems by (cases nf) (auto simp: result_simps)
  obtain vs where "env = rev (zip (map (sanitize_identifier \<circ> fst) nfs) vs) @ (sanitize_identifier n, v) # env0"
    "list_all2 (\<lambda>(i, n, f) v. insert_field gl data i n f = Inr v) (List.enumerate (k + 1) nfs) vs"
    using Cons.IH[OF rest] by blast
  then show ?case by (intro exI[where x = "v # vs"]) (simp add: nf v comp_def)
qed simp

lemma env_nth:
  assumes "distinct (map fst (zip names vs))" and "i < length names" and "length vs = length names"
  shows "map_of (rev (zip names vs) @ env) (names ! i) = Some (vs ! i)"
proof -
  have "(names ! i, vs ! i) \<in> set (rev (zip names vs))" using assms(2,3) by (auto simp: set_zip)
  then have "map_of (rev (zip names vs)) (names ! i) = Some (vs ! i)"
    using assms(1) by (simp add: map_of_eq_Some_iff flip: rev_map)
  then show ?thesis by (simp add: map_add_def)
qed

text \<open>The i-th column of a generated INSERT is the i-th stored field, and its placeholder gets the value of that field.\<close>

lemma generated_insert_binds:
  assumes "gen_insert_values gl rd data = Inr vs" and "distinct (map (sanitize_identifier \<circ> fst) (persisted rd))"
  shows "list_all2 (\<lambda>(i, n, f) v. insert_field gl data i n f = Inr v) (List.enumerate 1 (persisted rd)) vs"
proof -
  obtain ws where ws: "list_all2 (\<lambda>(i, n, f) v. insert_field gl data i n f = Inr v) (List.enumerate 1 (persisted rd)) ws"
    and vs: "vs = map (arg_value (rev (zip (map (sanitize_identifier \<circ> fst) (persisted rd)) ws)) 0 0) (snd (generate_insert_body rd))"
    using assms(1) by (auto simp: gen_insert_values_def result_simps dest!: insert_bindings_values)
  have len: "length ws = length (persisted rd)" using list_all2_lengthD[OF ws] by simp
  have "vs = ws"
  proof (rule nth_equalityI)
    show "length vs = length ws" by (simp add: vs generate_insert_body_def Let_def len)
    fix i assume "i < length vs"
    then have i: "i < length (persisted rd)" by (simp add: vs generate_insert_body_def Let_def)
    show "vs ! i = ws ! i"
      using env_nth[of "map (sanitize_identifier \<circ> fst) (persisted rd)" ws i "[]"] i len assms(2)
      by (simp add: vs generate_insert_body_def Let_def or_else_def)
  qed
  with ws show ?thesis by simp
qed

lemma update_clauses_parts:
  assumes "update_clauses names index = (clauses, args, next_index)"
  shows "length clauses = length names \<and> (\<forall>j < length names. clauses ! j = set_clause (names ! j) (index + 2 * j))
    \<and> args = concat (map (\<lambda>n. [AVar (present_name n), AVar (sanitize_identifier n)]) names)
    \<and> next_index = index + 2 * length names"
  using assms
proof (induction names arbitrary: index clauses args next_index)
  case (Cons name names)
  obtain cs as nx where rest: "update_clauses names (index + 2) = (cs, as, nx)" by (metis prod_cases3)
  show ?case using Cons.IH[OF rest] Cons.prems rest by (auto simp: nth_Cons split: nat.split)
qed simp

text \<open>A resource all of whose fields are generated still gets an update method: its statement has an empty SET,
  which PostgreSQL refuses, and the guard for an empty body is missing.\<close>

lemma update_without_fields:
  assumes "gen_mutable rd = []" and "\<not> touches_updated_at rd"
  shows "fst (generate_update_body rd) = indented 12 (''UPDATE '' @ dquote (rd_resource rd)) @ indented 12 ''SET ''
      @ gen_where_key rd @ gen_deleted rd @ gen_returning rd"
    and "gen_update_values gl rd i data = Inr [BUuid i]"
  using assms by (simp_all add: generate_update_body_def gen_update_values_def Let_def require_def or_else_def)

section \<open>The filter of the tenant\<close>

lemma parse_filter_text_add:
  "parse_filter_text (add_filter fs k t) name
    = (case parse_filter_text fs name of Some v \<Rightarrow> Some v | None \<Rightarrow> if name = k then Some t else None)"
  by (induction fs) (auto simp: parse_filter_text_def add_filter_def)

lemma filter_bindings_ignored:
  "k \<notin> set names \<Longrightarrow> filter_bindings gl rd (add_filter fs k t) names env = filter_bindings gl rd fs names env"
  by (induction names arbitrary: env)
    (auto simp: parse_filter_def parse_filter_text_add split: option.splits intro!: arg_cong[where f = "and_then r" for r])

lemma run_list_ignores:
  "k \<notin> set (gx_filters l) \<Longrightarrow> run_list gl execute counter rd l (add_filter fs k t) search srt page
    = run_list gl execute counter rd l fs search srt page"
  by (simp add: run_list_def list_bindings_def filter_bindings_ignored)

lemma generate_store_helpers:
  assumes "generate_store gl exec counter rd = Inr st"
  shows "\<exists>helpers. st = generated_store gl exec counter rd helpers
    \<and> (\<forall>p l. (p, l) \<in> set helpers \<longrightarrow> (\<exists>n e. (n, e) \<in> set (collection_endpoints rd) \<and> path_text e = p
        \<and> gx_filters l = list_or_empty (ep_filters e)))"
proof -
  obtain helpers where h: "list_all2 (\<lambda>x y. \<exists>l. generate_list_helper rd (snd x) = Inr l \<and> (path_text (snd x), l) = y)
      (collection_endpoints rd) helpers" and st: "st = generated_store gl exec counter rd helpers"
    using assms by (auto simp: generate_store_def result_simps try_map_Inr split_beta)
  have "\<exists>n e. (n, e) \<in> set (collection_endpoints rd) \<and> path_text e = p \<and> gx_filters l = list_or_empty (ep_filters e)"
    if "(p, l) \<in> set helpers" for p l
    using h that
  proof (induction rule: list_all2_induct)
    case (Cons x xs y ys)
    then show ?case using generate_list_helper_parts(1) by (cases x) fastforce
  qed simp
  with st show ?thesis by blast
qed

definition tenant_undeclared :: "resource_definition \<Rightarrow> string \<Rightarrow> endpoint_spec \<Rightarrow> bool" where
  "tenant_undeclared rd k ep \<longleftrightarrow>
     list_all (\<lambda>(n, e). path_text e = path_text ep \<longrightarrow> k \<notin> set (list_or_empty (ep_filters e))) (collection_endpoints rd)"

text \<open>C6. With the generated stores a list endpoint that does not declare the tenant key as a filter answers a member
  of a tenant exactly what it answers the super admin: the filter that the handler adds for the tenant is not read.\<close>

theorem generated_lists_ignore_tenant:
  assumes "generate_store gl exec counter rd = Inr st" and "store_for app rd = Some st"
    and "rd_tenant_key rd = Some k" and "tenant_undeclared rd k ep"
    and "user_tenant user = Some t" and "super_admin admin"
  shows "execute_list app req rd ep user db = execute_list app req rd ep admin db"
proof -
  obtain helpers where st: "st = generated_store gl exec counter rd helpers"
    and helpers: "\<And>p l. (p, l) \<in> set helpers \<Longrightarrow> \<exists>n e. (n, e) \<in> set (collection_endpoints rd) \<and> path_text e = p
        \<and> gx_filters l = list_or_empty (ep_filters e)"
    using generate_store_helpers[OF assms(1)] by blast
  have "k \<notin> set (gx_filters l)" if "map_of helpers (path_text ep) = Some l" for l
    using helpers[OF map_of_SomeD[OF that]] assms(4) by (fastforce simp: tenant_undeclared_def list_all_iff)
  then have "st_find_all st ep (add_filter fs k t) search srt page db = st_find_all st ep fs search srt page db"
    for fs search srt page
    by (auto simp: st generated_store_def gen_find_all_def run_list_ignores split: option.split)
  then show ?thesis
    using assms(2,3,5,6) by (simp add: execute_list_def Let_def inject_tenant_filter_def store_for_or_error_def store_or_query_def)
qed

text \<open>A declared tenant key is no better: the first filter of a name counts, and the client's stands first.\<close>

lemma client_filter_wins:
  "parse_filter_text fs k = Some v \<Longrightarrow> filter_bind gl rd (add_filter fs k t) k = filter_bind gl rd fs k"
  by (simp add: filter_bind_def parse_filter_text_add split: option.split)

text \<open>The tenant's filter takes effect when its key is declared and the request does not name it.\<close>

lemma tenant_filter_bound:
  assumes "parse_filter_text fs k = None" and "map_of (rd_schema rd) k = Some f" and "fs_type f \<in> {FtString, FtEnum}"
  shows "filter_bind gl rd (add_filter fs k t) k = BText t"
  using assms by (auto simp: filter_bind_def parse_filter_text_add filter_parser_def opt_bind_def or_else_def)

section \<open>An example\<close>

definition notes_list :: endpoint_spec where
  "notes_list = default_endpoint\<lparr>ep_method := Some Get, ep_path := Some ''/notes'', ep_filters := Some [''title''],
     ep_search := Some [''title''], ep_sort := Some [''title'', ''id'']\<rparr>"

definition notes_resource :: resource_definition where
  "notes_resource = sample_resource\<lparr>rd_resource := ''notes'', rd_tenant_key := Some ''org'',
     rd_schema := [(''id'', (plain_field FtUuid)\<lparr>fs_primary := True, fs_generated := True\<rparr>),
       (''org'', (plain_field FtString)\<lparr>fs_required := True\<rparr>), (''title'', (plain_field FtString)\<lparr>fs_required := True\<rparr>)],
     rd_endpoints := Some [(''list'', notes_list)]\<rparr>"

definition toy_gen_lib :: gen_lib where
  "toy_gen_lib = \<lparr>gn_sql = toy_sql_lib, gn_from_json = (\<lambda>f v. map_option BText (as_str v)), gn_json_of_text = (\<lambda>s. None),
     gn_to_json = cell_json toy_sql_lib, gn_display = (\<lambda>c. [])\<rparr>"

definition notes_exec :: "rows executor" where
  "notes_exec sql binds db = (db, Inr (map (\<lambda>(i, v) name t.
     Inr (if name = ''id'' then Some (CUuid i) else map_option CText (json_get_str v name))) db))"

definition notes_count :: "rows \<Rightarrow> count_pool" where
  "notes_count db sql binds = Inr (int (length db))"

definition notes_store :: "rows store" where
  "notes_store = (case generate_store toy_gen_lib notes_exec notes_count notes_resource of Inr st \<Rightarrow> st | Inl e \<Rightarrow> row_store)"

definition generated_app :: "rows app" where
  "generated_app = bare_app\<lparr>ap_stores := Some [(''notes'', notes_store)]\<rparr>"

lemma notes_helper: "is_ok (generate_list_helper notes_resource notes_list)"
  by (simp add: generate_list_helper_def Let_def result_simps notes_resource_def notes_list_def list_or_empty_def gen_field_def
      generate_filter_predicates_def generate_order_by_def sort_positions_def upt_rec ok_or_def)

lemma notes_generated: "generate_store toy_gen_lib notes_exec notes_count notes_resource = Inr notes_store"
proof -
  have "collection_endpoints notes_resource = [(''list'', notes_list)]"
    by (simp add: collection_endpoints_def notes_resource_def notes_list_def list_or_empty_def path_text_def contains_str_def)
  moreover have "try_map default_check (persisted notes_resource) = Inr [(), (), ()]"
    by (simp add: persisted_def notes_resource_def is_persisted_def plain_field_def default_check_def)
  ultimately have "is_ok (generate_store toy_gen_lib notes_exec notes_count notes_resource)"
    using notes_helper by (auto simp: generate_store_def is_ok_iff)
  then show ?thesis by (auto simp: is_ok_iff notes_store_def)
qed


theorem generated_lists_ignore_tenant_witness:
  "execute_list generated_app (member_request ''t1'') notes_resource notes_list
     (Some \<lparr>au_sub = ''u1'', au_role = ''member'', au_tenant_id = Some ''t1''\<rparr>) tenant_rows
   = execute_list generated_app (member_request ''t1'') notes_resource notes_list
     (Some \<lparr>au_sub = ''u2'', au_role = ''super_admin'', au_tenant_id = None\<rparr>) tenant_rows"
  by (rule generated_lists_ignore_tenant[OF notes_generated])
    (auto simp: store_for_def generated_app_def notes_resource_def notes_list_def tenant_undeclared_def collection_endpoints_def
      list_or_empty_def user_tenant_def super_admin_def)

end
