(* ===== verification/Generated_Registry.thy ===== *)
theory Generated_Registry
  imports Generated_Store Routes Job_Queue Openapi
begin

text \<open>
  The module \<open>mod.rs\<close> that \<open>shaperail-codegen/src/rust.rs\<close> generates: which functions of the
  consumer's files it declares and what the controller map, the job registry and the handler map it builds hold. The
  consumer's functions are parameters, by file and name. Every declared hook, job and custom handler is found by the
  runtime; a job that only an event target names is not.
\<close>

section \<open>What the resources declare\<close>

definition resource_actions :: "resource_definition \<Rightarrow> (string \<times> endpoint_spec) list" where
  "resource_actions rd = list_or_empty (rd_endpoints rd)"

definition native_hooks :: "endpoint_spec \<Rightarrow> string list" where
  "native_hooks ep = (case ep_controller ep of None \<Rightarrow> []
     | Some c \<Rightarrow> filter (\<lambda>n. \<not> prefix wasm_hook_prefix n) (before_names c @ after_names c))"

definition collect_controller_hooks :: "resource_definition list \<Rightarrow> (string \<times> string list) list" where
  "collect_controller_hooks rds = List.map_filter (\<lambda>rd.
     (let hooks = concat (map (\<lambda>(a, ep). native_hooks ep) (resource_actions rd)) in
      if hooks = [] then None else Some (rd_resource rd, hooks))) rds"

definition collect_custom_handlers :: "resource_definition list \<Rightarrow> (string \<times> (string \<times> string) list) list" where
  "collect_custom_handlers rds = List.map_filter (\<lambda>rd.
     (let handlers = List.map_filter (\<lambda>(a, ep). if a \<in> set handler_conventions then None
          else map_option (\<lambda>h. (a, h)) (ep_handler ep)) (resource_actions rd) in
      if handlers = [] then None else Some (rd_resource rd, handlers))) rds"

definition declared_jobs :: "resource_definition list \<Rightarrow> string list" where
  "declared_jobs rds = concat (map (\<lambda>rd. concat (map (\<lambda>(a, ep). list_or_empty (ep_jobs ep)) (resource_actions rd))) rds)"

definition collect_job_names :: "resource_definition list \<Rightarrow> string list" where
  "collect_job_names rds = map fst (bt_of (map (\<lambda>n. (n, ())) (declared_jobs rds)))"

definition collect_job_path_decls :: "resource_definition list \<Rightarrow> string list" where
  "collect_job_path_decls rds = map (\<lambda>n. ''#[path = '' @ dquote (''../jobs/'' @ n @ ''.rs'') @ '']'' @ newline
     @ ''mod job_'' @ n @ '';'') (collect_job_names rds)"

definition collect_handler_path_decls :: "resource_definition list \<Rightarrow> string list" where
  "collect_handler_path_decls rds = map (\<lambda>(n, hs). ''#[path = '' @ dquote (''../resources/'' @ n @ ''.handlers.rs'') @ '']''
     @ newline @ ''mod '' @ n @ ''_handlers;'') (collect_custom_handlers rds)"

definition controller_path_decls :: "resource_definition list \<Rightarrow> string list" where
  "controller_path_decls rds = map (\<lambda>(n, hs). ''#[path = '' @ dquote (''../resources/'' @ n @ ''.controller.rs'') @ '']''
     @ newline @ ''pub mod '' @ n @ ''_controller;'') (collect_controller_hooks rds)"

section \<open>What the generated functions build\<close>

text \<open>The lines \<open>map.register(...)\<close>: the first of each pair of resource and function.\<close>

fun first_of_each :: "'a list \<Rightarrow> 'a list \<Rightarrow> 'a list" where
  "first_of_each seen [] = []"
| "first_of_each seen (x # xs) = (if x \<in> set seen then first_of_each seen xs else x # first_of_each (x # seen) xs)"

definition controller_registrations :: "resource_definition list \<Rightarrow> (string \<times> string) list" where
  "controller_registrations rds =
     first_of_each [] (concat (map (\<lambda>(n, hooks). map (\<lambda>h. (n, h)) hooks) (collect_controller_hooks rds)))"

definition build_controller_map :: "(string \<Rightarrow> string \<Rightarrow> 'db controller) \<Rightarrow> resource_definition list \<Rightarrow> 'db controller_map" where
  "build_controller_map compiled rds =
     fold (\<lambda>(n, h). register n h (compiled (n @ ''_controller'') h)) (controller_registrations rds) []"

definition build_job_registry :: "(string \<Rightarrow> json \<Rightarrow> job_outcome) \<Rightarrow> resource_definition list \<Rightarrow> job_registry" where
  "build_job_registry compiled rds =
     fold (\<lambda>n. AList.update n (compiled (''job_'' @ n))) (collect_job_names rds) []"

definition handler_registrations :: "resource_definition list \<Rightarrow> (string \<times> string \<times> string) list" where
  "handler_registrations rds =
     concat (map (\<lambda>(n, hs). map (\<lambda>(a, h). (n, a, h)) hs) (collect_custom_handlers rds))"

definition build_handler_map :: "(string \<Rightarrow> string \<Rightarrow> 'db custom_handler) \<Rightarrow> resource_definition list \<Rightarrow>
    'db custom_handler_map" where
  "build_handler_map compiled rds =
     fold (\<lambda>(n, a, h). AList.update (handler_key n a) (compiled (n @ ''_handlers'') h)) (handler_registrations rds) []"

section \<open>What is declared is found\<close>

lemma set_first_of_each: "set (first_of_each seen xs) = set xs - set seen"
  by (induction xs arbitrary: seen) auto

lemma fold_update_found:
  assumes "\<And>y. y \<in> set xs \<Longrightarrow> k_of y = k \<Longrightarrow> v_of y = v"
  shows "map_of (fold (\<lambda>x. AList.update (k_of x) (v_of x)) xs m) k = (if k \<in> k_of ` set xs then Some v else map_of m k)"
  using assms by (induction xs arbitrary: m) auto

lemma map_filter_set: "y \<in> set (List.map_filter f xs) \<longleftrightarrow> (\<exists>x \<in> set xs. f x = Some y)"
  by (auto simp: List.map_filter_def) force

lemma hook_registered:
  assumes "rd \<in> set rds" and "(a, ep) \<in> set (resource_actions rd)" and "h \<in> set (native_hooks ep)"
  shows "(rd_resource rd, h) \<in> set (controller_registrations rds)"
proof -
  let ?hooks = "concat (map (\<lambda>(a, ep). native_hooks ep) (resource_actions rd))"
  have h: "h \<in> set ?hooks" using assms(2,3) by auto
  have "?hooks \<noteq> []"
  proof
    assume "?hooks = []"
    with h show False by (simp only: list.set empty_iff)
  qed
  then have "(let hooks = ?hooks in if hooks = [] then None else Some (rd_resource rd, hooks)) = Some (rd_resource rd, ?hooks)"
    by (simp only: Let_def if_False)
  then have collected: "(rd_resource rd, ?hooks) \<in> set (collect_controller_hooks rds)"
    unfolding collect_controller_hooks_def by (rule iffD2[OF map_filter_set, OF bexI[OF _ assms(1)]])
  have "map (\<lambda>h. (rd_resource rd, h)) ?hooks \<in> set (map (\<lambda>(n, hooks). map (\<lambda>h. (n, h)) hooks) (collect_controller_hooks rds))"
    unfolding set_map by (rule rev_image_eqI[OF collected]) (simp only: prod.case)
  moreover have "(rd_resource rd, h) \<in> set (map (\<lambda>h. (rd_resource rd, h)) ?hooks)"
    unfolding set_map by (rule imageI[OF h])
  ultimately show ?thesis
    unfolding controller_registrations_def set_first_of_each set_concat list.set Diff_empty by (rule UN_I)
qed

lemma declared_controllers_found:
  assumes "rd \<in> set rds" and "(a, ep) \<in> set (resource_actions rd)" and "h \<in> set (native_hooks ep)"
  shows "dispatch_controller (Some (build_controller_map compiled rds)) wasm h (rd_resource rd)
    = compiled (rd_resource rd @ ''_controller'') h"
proof -
  have "build_controller_map compiled rds
      = fold (\<lambda>x. AList.update x (compiled (fst x @ ''_controller'') (snd x))) (controller_registrations rds) []"
    by (simp add: build_controller_map_def register_def [abs_def] case_prod_beta')
  then have "map_of (build_controller_map compiled rds) (rd_resource rd, h) = Some (compiled (rd_resource rd @ ''_controller'') h)"
    using hook_registered[OF assms] fold_update_found[of "controller_registrations rds" "\<lambda>x. x" "(rd_resource rd, h)"
      "\<lambda>x. compiled (fst x @ ''_controller'') (snd x)" "compiled (rd_resource rd @ ''_controller'') h" "[]"]
    by simp
  moreover have "strip_prefix wasm_hook_prefix h = None"
    using assms(3) by (auto simp: native_hooks_def strip_prefix_def split: option.splits)
  ultimately show ?thesis
    by (intro ext) (simp add: dispatch_controller_def dispatch_rust_controller_def call_controller_def)
qed

text \<open>A declared custom handler runs, when no other endpoint of the same resource and action declares another.\<close>

lemma declared_handler_found:
  assumes "(n, a, h) \<in> set (handler_registrations rds)"
    and "\<And>n' a' h'. (n', a', h') \<in> set (handler_registrations rds) \<Longrightarrow> handler_key n' a' = handler_key n a \<Longrightarrow> n' = n \<and> h' = h"
  shows "map_of (build_handler_map compiled rds) (handler_key n a) = Some (compiled (n @ ''_handlers'') h)"
proof -
  let ?key = "\<lambda>(n, a, h). handler_key n a" and ?val = "\<lambda>(n, a, h). compiled (n @ ''_handlers'') h"
  have known: "?val y = compiled (n @ ''_handlers'') h" if "y \<in> set (handler_registrations rds)" "?key y = handler_key n a" for y
  proof (cases y)
    case (fields n' a' h')
    then show ?thesis using assms(2)[of n' a' h'] that by simp
  qed
  have "build_handler_map compiled rds = fold (\<lambda>x. AList.update (?key x) (?val x)) (handler_registrations rds) []"
    by (simp add: build_handler_map_def case_prod_beta')
  moreover have "handler_key n a \<in> ?key ` set (handler_registrations rds)" using assms(1) by (rule rev_image_eqI) simp
  ultimately show ?thesis
    using fold_update_found[where k_of = ?key and v_of = ?val, OF known] by simp
qed

lemma collect_job_names_set: "set (collect_job_names rds) = set (declared_jobs rds)"
proof -
  have "dom (map_of (fold (\<lambda>(k, v). bt_insert k v) kvs m)) = fst ` set kvs \<union> dom (map_of m)" for kvs m :: "(string \<times> unit) list"
    by (induction kvs arbitrary: m) auto
  from this[of "map (\<lambda>n. (n, ())) (declared_jobs rds)" "[]"] show ?thesis
    by (simp add: collect_job_names_def bt_of_def dom_map_of_conv_image_fst image_image)
qed

text \<open>A job is found by the worker exactly when an endpoint declares it: one that only an event target of the
  configuration names is executed without a handler until it is dead.\<close>

lemma job_found_iff_declared:
  "registry_get (build_job_registry compiled rds) n
    = (if n \<in> set (declared_jobs rds) then Some (compiled (''job_'' @ n)) else None)"
  using fold_update_found[of "collect_job_names rds" "\<lambda>n. n" n "\<lambda>n. compiled (''job_'' @ n)" "compiled (''job_'' @ n)" "[]"]
  by (simp add: registry_get_def build_job_registry_def collect_job_names_set)

end
