(* ===== verification/Cli_Migrate.thy ===== *)
theory Cli_Migrate
  imports Ddl "HOL-Library.List_Lexorder" "HOL-Library.Char_ord"
begin

text \<open>
  The command \<open>shaperail migrate\<close> of \<open>shaperail-cli/src/commands/migrate.rs\<close>: which migration
  files it writes for the resources, with which numbers and contents. The directory is a list of names and contents
  (\<open>read_dir\<close> lists it, the code sorts), a write may fail, and running sqlx is left out. A run gives every
  file a number above all others and a second run writes nothing; but a resource whose name starts that of another
  gets no table.
\<close>

section \<open>The command\<close>

type_synonym migration_dir = "(string \<times> string) list"

definition prefix_number :: "string \<Rightarrow> nat option" where
  "prefix_number s = (case parse_u64 s of Some n \<Rightarrow> if n < 2 ^ 32 then Some n else None | None \<Rightarrow> None)"

definition version_of :: "string \<Rightarrow> nat option" where
  "version_of name = Option.bind (split_once CHR ''_'' name) (\<lambda>(p, rest). prefix_number p)"

text \<open>\<open>m + 1\<close> on \<open>u32\<close>: a release build wraps.\<close>

definition compute_next_version :: "string list \<Rightarrow> nat" where
  "compute_next_version names = (case List.map_filter version_of names of
     [] \<Rightarrow> 1 | v # vs \<Rightarrow> (fold max vs v + 1) mod 2 ^ 32)"

definition list_migration_files :: "migration_dir \<Rightarrow> string list" where
  "list_migration_files dir = sort (filter (\<lambda>n. suffix ''.sql'' n) (map fst dir))"

definition migration_exists :: "migration_dir \<Rightarrow> string \<Rightarrow> bool" where
  "migration_exists dir name \<longleftrightarrow> list_ex (contains_str name) (list_migration_files dir)"

definition resource_requires_pgcrypto :: "resource_definition \<Rightarrow> bool" where
  "resource_requires_pgcrypto rd \<longleftrightarrow> list_ex (\<lambda>(n, f). fs_type f = FtUuid \<and> fs_generated f) (rd_schema rd)"

definition migration_name :: "resource_definition \<Rightarrow> string" where
  "migration_name rd = ''create_'' @ rd_resource rd"

text \<open>\<open>{:04}\<close>\<close>

definition show_padded :: "nat \<Rightarrow> string" where
  "show_padded n = replicate (4 - length (show_nat n)) CHR ''0'' @ show_nat n"

definition migration_file :: "nat \<Rightarrow> resource_definition \<Rightarrow> string" where
  "migration_file version rd = show_padded version @ ''_'' @ migration_name rd @ ''.sql''"

definition render_migration_sql :: "(json \<Rightarrow> string) \<Rightarrow> resource_definition \<Rightarrow> string" where
  "render_migration_sql json_text rd =
     (if resource_requires_pgcrypto rd
      then ''CREATE EXTENSION IF NOT EXISTS '' @ dquote ''pgcrypto'' @ '';'' @ newline @ newline else [])
     @ build_create_table_sql json_text rd @ '';'' @ newline"

text \<open>The loop over the resources; \<open>fails\<close> is the fault of writing a file.\<close>

fun write_migrations :: "(string \<Rightarrow> string option) \<Rightarrow> (json \<Rightarrow> string) \<Rightarrow> nat \<Rightarrow> resource_definition list \<Rightarrow> migration_dir \<Rightarrow>
    migration_dir \<times> (string + unit)" where
  "write_migrations fails json_text version [] dir = (dir, Inr ())"
| "write_migrations fails json_text version (rd # rds) dir =
     (if migration_exists dir (migration_name rd) then write_migrations fails json_text version rds dir
      else (let name = migration_file version rd in (case fails name of
          Some e \<Rightarrow> (dir, Inl (''Error writing migration migrations/'' @ name @ '': '' @ e))
        | None \<Rightarrow> write_migrations fails json_text ((version + 1) mod 2 ^ 32) rds
            (AList.update name (render_migration_sql json_text rd) dir))))"

definition generate_migrations :: "(string \<Rightarrow> string option) \<Rightarrow> (json \<Rightarrow> string) \<Rightarrow> resource_definition list \<Rightarrow> migration_dir \<Rightarrow>
    migration_dir \<times> (string + unit)" where
  "generate_migrations fails json_text rds dir =
     write_migrations fails json_text (compute_next_version (list_migration_files dir)) rds dir"

datatype process_status = ProcessSucceeded | ProcessFailed | NotStarted string

text \<open>The exit code: resources that do not load, a directory or a file that cannot be written, sqlx.\<close>

definition run_migrate :: "(string \<Rightarrow> string option) \<Rightarrow> (json \<Rightarrow> string) \<Rightarrow> (migration_dir \<Rightarrow> process_status) \<Rightarrow>
    string + resource_definition list \<Rightarrow> string + unit \<Rightarrow> migration_dir \<Rightarrow> migration_dir \<times> int" where
  "run_migrate fails json_text sqlx resources created dir = (case (resources, created) of
     (Inr rds, Inr _) \<Rightarrow> (case generate_migrations fails json_text rds dir of
        (dir', Inl e) \<Rightarrow> (dir', 1)
      | (dir', Inr _) \<Rightarrow> (dir', if sqlx dir' = ProcessSucceeded then 0 else 1))
   | _ \<Rightarrow> (dir, 1))"

section \<open>Numbers of new files\<close>

lemma parse_digits_zeros: "parse_digits (replicate k CHR ''0'' @ show_nat n) = Some n"
proof -
  have "nat_of_digits (replicate k CHR ''0'' @ s) = nat_of_digits s" for s
    by (induction k) (simp_all add: nat_of_digits_def digit_val_def)
  moreover have "list_all is_digit (replicate k CHR ''0'')" by (induction k) (simp_all add: is_digit_def)
  ultimately show ?thesis using parse_digits_show_nat[of n] by (simp add: parse_digits_def split: if_splits)
qed

lemma list_all_digits_padded: "list_all is_digit (show_padded n)" "show_padded n \<noteq> []"
  using parse_digits_zeros[of "4 - length (show_nat n)" n] by (auto simp: show_padded_def parse_digits_def split: if_splits)

lemma version_of_migration_file: "n < 2 ^ 32 \<Longrightarrow> version_of (migration_file n rd) = Some n"
proof -
  assume n: "n < 2 ^ 32"
  have digit: "c \<noteq> CHR ''_'' \<and> c \<noteq> CHR ''+''" if "is_digit c" for c using that by (auto simp: is_digit_def)
  have all: "list_all is_digit (show_padded n)" "show_padded n \<noteq> []" using list_all_digits_padded by simp_all
  have no: "\<And>x. x \<in> set (show_padded n) \<Longrightarrow> x \<noteq> CHR ''_''" using all(1) digit by (auto simp: list_all_iff)
  have "split_once CHR ''_'' (show_padded n @ ''_'' @ r) = Some (show_padded n, r)" for r
    using no by (simp add: split_once_def dropWhile_append2 takeWhile_append2)
  moreover have "parse_u64 (show_padded n) = Some n"
  proof (cases "show_padded n")
    case (Cons c r)
    then have "c \<noteq> CHR ''+''" using all(1) digit by simp
    then show ?thesis using Cons n parse_digits_zeros[of "4 - length (show_nat n)" n] by (simp add: parse_u64_def show_padded_def)
  qed (use all in simp)
  ultimately show ?thesis using n by (simp add: version_of_def migration_file_def prefix_number_def)
qed

definition versions :: "migration_dir \<Rightarrow> nat list" where
  "versions dir = List.map_filter version_of (list_migration_files dir)"

lemma versions_set: "v \<in> set (versions dir) \<longleftrightarrow> (\<exists>n \<in> set (map fst dir). suffix ''.sql'' n \<and> version_of n = Some v)"
  by (auto simp: versions_def list_migration_files_def List.map_filter_def) force

lemma next_version_above:
  assumes "\<forall>v \<in> set (versions dir). v < 2 ^ 32 - 1" and "v \<in> set (versions dir)"
  shows "v < compute_next_version (list_migration_files dir)"
proof (cases "versions dir")
  case (Cons w ws)
  then have max: "fold max ws w = Max (set (versions dir))" by (simp only: Max.set_eq_fold)
  then have "fold max ws w \<in> set (versions dir)" using Cons by (metis Max_in List.finite_set list.simps(3) set_empty)
  then have "fold max ws w < 2 ^ 32 - 1" using assms(1) by auto
  moreover have "v \<le> fold max ws w" using assms(2) by (simp only: max) simp
  ultimately show ?thesis using Cons by (simp add: compute_next_version_def versions_def)
qed (use assms in simp)

lemma update_appends: "k \<notin> set (map fst m) \<Longrightarrow> AList.update k v m = m @ [(k, v)]"
  by (induction m) auto

lemma write_migrations_numbers:
  assumes "write_migrations fails json_text v rds dir = (dir', r)" and "v + length rds < 2 ^ 32"
    and "\<forall>w \<in> set (versions dir). w < v"
  shows "\<exists>ms. dir' = dir @ ms \<and> sorted_wrt (<) (map (\<lambda>m. the (version_of (fst m))) ms)
    \<and> (\<forall>m \<in> set ms. \<exists>n\<ge>v. version_of (fst m) = Some n)"
  using assms
proof (induction rds arbitrary: v dir)
  case (Cons rd rds)
  let ?name = "migration_file v rd" and ?sql = "render_migration_sql json_text rd"
  show ?case
  proof (cases "migration_exists dir (migration_name rd) \<or> fails ?name \<noteq> None")
    case True
    then show ?thesis using Cons by (auto simp: Let_def split: if_splits)
  next
    case False
    have number: "version_of ?name = Some v" using Cons.prems(2) by (intro version_of_migration_file) simp
    have "?name \<notin> set (map fst dir)"
    proof
      assume "?name \<in> set (map fst dir)"
      then have "v \<in> set (versions dir)" using number unfolding versions_set
        by (intro bexI[of _ ?name]) (simp_all add: migration_file_def suffix_def)
      then show False using Cons.prems(3) by auto
    qed
    then have dir: "AList.update ?name ?sql dir = dir @ [(?name, ?sql)]" by (rule update_appends)
    have rest: "write_migrations fails json_text (v + 1) rds (dir @ [(?name, ?sql)]) = (dir', r)"
      using Cons.prems(1,2) False by (simp add: Let_def dir)
    have "\<forall>w \<in> set (versions (dir @ [(?name, ?sql)])). w < v + 1"
      using Cons.prems(3) number by (auto simp: versions_set) (metis image_eqI fst_conv less_SucI versions_set list.set_map)
    then obtain ms where ms: "dir' = (dir @ [(?name, ?sql)]) @ ms" "sorted_wrt (<) (map (\<lambda>m. the (version_of (fst m))) ms)"
      "\<forall>m \<in> set ms. \<exists>n\<ge>v + 1. version_of (fst m) = Some n"
      using Cons.IH[OF rest] Cons.prems(2) by auto
    then show ?thesis
      using number by (intro exI[of _ "(?name, ?sql) # ms"]) fastforce
  qed
qed simp

text \<open>New files are numbered above every file that was there, in increasing order, and no file is overwritten.\<close>

theorem new_migrations_ordered:
  assumes "generate_migrations fails json_text rds dir = (dir', r)"
    and "\<forall>v \<in> set (versions dir). v + length rds < 2 ^ 32 - 1" and "length rds < 2 ^ 32 - 1"
  shows "\<exists>ms. dir' = dir @ ms \<and> sorted_wrt (<) (map (\<lambda>m. the (version_of (fst m))) ms)
    \<and> (\<forall>m \<in> set ms. \<exists>n. version_of (fst m) = Some n \<and> (\<forall>v \<in> set (versions dir). v < n))"
proof -
  let ?next = "compute_next_version (list_migration_files dir)"
  have above: "\<forall>v \<in> set (versions dir). v < ?next" using next_version_above[of dir] assms(2) by fastforce
  have "?next + length rds < 2 ^ 32"
  proof (cases "versions dir")
    case (Cons w ws)
    then have max: "fold max ws w = Max (set (versions dir))" by (simp only: Max.set_eq_fold)
    have "fold max ws w \<in> set (versions dir)" using Cons by (simp only: max) (intro Max_in, simp_all)
    then have "fold max ws w + length rds < 2 ^ 32 - 1" using assms(2) by auto
    then show ?thesis using Cons by (simp add: compute_next_version_def versions_def)
  qed (use assms(3) in \<open>simp add: compute_next_version_def versions_def\<close>)
  then obtain ms where ms: "dir' = dir @ ms" "sorted_wrt (<) (map (\<lambda>m. the (version_of (fst m))) ms)"
    "\<forall>m \<in> set ms. \<exists>n\<ge>?next. version_of (fst m) = Some n"
    using write_migrations_numbers[OF assms(1)[unfolded generate_migrations_def] _ above] by blast
  have "\<forall>m \<in> set ms. \<exists>n. version_of (fst m) = Some n \<and> (\<forall>v \<in> set (versions dir). v < n)"
    using ms(3) above by (metis order_less_le_trans)
  with ms(1,2) show ?thesis by blast
qed

section \<open>Running again\<close>

lemma exists_after_update: "migration_exists dir n \<Longrightarrow> migration_exists (AList.update k v dir) n"
  by (auto simp: migration_exists_def list_migration_files_def list_ex_iff set_filter dom_update simp flip: image_set)

lemma exists_after_write:
  "write_migrations fails json_text v rds dir = (dir', r) \<Longrightarrow> migration_exists dir n \<Longrightarrow> migration_exists dir' n"
  by (induction rds arbitrary: v dir) (auto simp: Let_def exists_after_update split: if_splits option.splits)

lemma written_exists: "migration_exists (AList.update (migration_file v rd) sql dir) (migration_name rd)"
proof -
  have "contains_str (migration_name rd) (migration_file v rd)"
    unfolding contains_str_iff migration_file_def by (intro exI[of _ "show_padded v @ ''_''"] exI[of _ "''.sql''"]) simp
  moreover have "suffix ''.sql'' (migration_file v rd)" by (simp add: migration_file_def suffix_def)
  ultimately show ?thesis
    by (auto simp: migration_exists_def list_migration_files_def list_ex_iff dom_update simp flip: image_set)
qed

lemma all_exist_after_write:
  "write_migrations fails json_text v rds dir = (dir', Inr ()) \<Longrightarrow> rd \<in> set rds \<Longrightarrow> migration_exists dir' (migration_name rd)"
proof (induction rds arbitrary: v dir)
  case (Cons r rds)
  show ?case
  proof (cases "rd \<in> set rds")
    case True
    then show ?thesis using Cons by (auto simp: Let_def split: if_splits option.splits)
  next
    case False
    then have "r = rd" using Cons.prems(2) by simp
    then show ?thesis using Cons.prems(1) written_exists exists_after_write
      by (force simp: Let_def split: if_splits option.splits)
  qed
qed simp

lemma nothing_to_write:
  "(\<And>rd. rd \<in> set rds \<Longrightarrow> migration_exists dir (migration_name rd)) \<Longrightarrow> write_migrations fails json_text v rds dir = (dir, Inr ())"
  by (induction rds) simp_all

text \<open>After a successful run every resource has a file, and running again for the same resources writes nothing.\<close>

theorem second_run_writes_nothing:
  assumes "generate_migrations fails json_text rds dir = (dir', Inr ())"
  shows "generate_migrations fails' json_text rds dir' = (dir', Inr ())"
  using all_exist_after_write[OF assms[unfolded generate_migrations_def]] nothing_to_write
  by (simp add: generate_migrations_def)

text \<open>A file is recognised by a part of its name: the table of \<open>user\<close> is taken for made when that of
  \<open>users\<close> is.\<close>

lemma prefix_resource_skipped:
  assumes "rd_resource long = rd_resource short @ rest" and "migration_exists dir (migration_name long)"
  shows "generate_migrations fails json_text [short] dir = (dir, Inr ())"
proof -
  have "contains_str (migration_name short) n" if "contains_str (migration_name long) n" for n
    using that assms(1) by (auto simp: contains_str_iff migration_name_def)
  then have "migration_exists dir (migration_name short)"
    using assms(2) by (auto simp: migration_exists_def list_ex_iff)
  then show ?thesis by (simp add: generate_migrations_def)
qed

end
