(* ===== verification/Cli_Project.thy ===== *)
theory Cli_Project
  imports Project_Config Generated_Store "HOL-Library.List_Lexorder" "HOL-Library.Char_ord"
begin

text \<open>
  How the commands of shaperail-cli read a project: \<open>commands/mod.rs\<close> loads the resources and the
  configuration, \<open>validate.rs\<close> checks a path, \<open>seed.rs\<close> loads fixtures inside one transaction and
  \<open>diff.rs\<close> compares the generated directory with what would be generated. The file system, the YAML parser
  and the database are parameters, what is printed is a list of lines. Below: validation and loading accept the same
  projects, a failed seed leaves the database as it was, and a diff is silent exactly when nothing would change.
\<close>

section \<open>Files\<close>

text \<open>An entry of a directory may be an error; otherwise it is a name and whether it is a file.\<close>

record cli_fs =
  cf_exists :: "string \<Rightarrow> bool"
  cf_is_dir :: "string \<Rightarrow> bool"
  cf_list :: "string \<Rightarrow> string + (string + string \<times> bool) list"
  cf_read :: "string \<Rightarrow> string + string"

datatype printed = Out string | Err string

definition join_path :: "string \<Rightarrow> string \<Rightarrow> string" where
  "join_path dir name = (if dir = [] \<or> last dir = CHR ''/'' then dir @ name else dir @ ''/'' @ name)"

text \<open>The stem and the extension of a file name: a leading dot begins no extension.\<close>

definition stem_and_extension :: "string \<Rightarrow> string \<times> string option" where
  "stem_and_extension name = (case split_once CHR ''.'' (rev name) of
     None \<Rightarrow> (name, None) | Some (e, s) \<Rightarrow> if s = [] then (name, None) else (rev s, Some (rev e)))"

definition collect_resource_files :: "cli_fs \<Rightarrow> string \<Rightarrow> string + string list" where
  "collect_resource_files fs dir = and_then (cf_list fs dir) (\<lambda>listing. and_then (try_map id listing) (\<lambda>entries.
     Inr (sort (map (\<lambda>(name, is_file). join_path dir name)
       (filter (\<lambda>(name, is_file). is_file \<and> snd (stem_and_extension name) = Some ''yaml'') entries)))))"

section \<open>Loading a project\<close>

definition load_resource :: "cli_fs \<Rightarrow> (string \<Rightarrow> string + resource_definition) \<Rightarrow> string \<Rightarrow> string + resource_definition" where
  "load_resource fs from_yaml file = (case parse_resource_file (cf_read fs) from_yaml file of
     Inl e \<Rightarrow> Inl (parse_error_display e)
   | Inr rd \<Rightarrow> and_then (require (validate_resource rd = []) (file @ '': '' @ join ''; '' (validate_resource rd)))
       (\<lambda>_. Inr rd))"

definition load_all_resources_from :: "cli_fs \<Rightarrow> (string \<Rightarrow> string + resource_definition) \<Rightarrow> string \<Rightarrow>
    string + resource_definition list" where
  "load_all_resources_from fs from_yaml dir =
     (if \<not> cf_is_dir fs dir then Inl ''No resources/ directory found. Run this from a Shaperail project root.''
      else (case collect_resource_files fs dir of
          Inl e \<Rightarrow> Inl (''Failed to read resources/ directory: '' @ e)
        | Inr files \<Rightarrow> if files = [] then Inl ''No resource files found in resources/''
            else try_map (load_resource fs from_yaml) files))"

definition load_config :: "cli_fs \<Rightarrow> (string \<Rightarrow> string + project_config) \<Rightarrow> string + project_config" where
  "load_config fs parse_file =
     (if \<not> cf_exists fs ''shaperail.config.yaml''
      then Inl ''No shaperail.config.yaml found. Run this from a Shaperail project root.''
      else (case parse_file ''shaperail.config.yaml'' of
          Inl e \<Rightarrow> Inl (''Failed to parse shaperail.config.yaml: '' @ e) | Inr c \<Rightarrow> Inr c))"

definition parse_config_file :: "cli_fs \<Rightarrow> (string \<Rightarrow> parse_error + project_config) \<Rightarrow> string \<Rightarrow> parse_error + project_config" where
  "parse_config_file fs parse path = (case cf_read fs path of Inl e \<Rightarrow> Inl (IoError e) | Inr content \<Rightarrow> parse content)"

section \<open>The validate command\<close>

definition check_mark :: string where
  "check_mark = [CHR 0xE2, CHR 0x9C, CHR 0x93]"

definition cross_mark :: string where
  "cross_mark = [CHR 0xE2, CHR 0x9C, CHR 0x97]"

text \<open>The lines for one file, and whether it has errors.\<close>

definition validate_file :: "cli_fs \<Rightarrow> (string \<Rightarrow> string + resource_definition) \<Rightarrow> string \<Rightarrow> printed list \<times> bool" where
  "validate_file fs from_yaml file = (case parse_resource_file (cf_read fs) from_yaml file of
     Inr rd \<Rightarrow> (let errors = validate_resource rd in
       if errors = [] then ([Out (check_mark @ '' '' @ file @ '' valid'')], False)
       else (Err (cross_mark @ '' '' @ file) # map (\<lambda>e. Err (''  - '' @ e)) errors, True))
   | Inl e \<Rightarrow> ([Err (cross_mark @ '' '' @ file @ '': '' @ parse_error_display e)], True))"

definition run_validate :: "cli_fs \<Rightarrow> (string \<Rightarrow> string + resource_definition) \<Rightarrow> string \<Rightarrow> printed list \<times> int" where
  "run_validate fs from_yaml path =
     (case (if cf_is_dir fs path then collect_resource_files fs path else Inr [path]) of
        Inl e \<Rightarrow> ([Err (''Error reading directory: '' @ e)], 1)
      | Inr files \<Rightarrow> if files = [] then ([Err (''No resource files found in '' @ path)], 1)
          else (concat (map (fst \<circ> validate_file fs from_yaml) files),
            if list_ex (snd \<circ> validate_file fs from_yaml) files then 1 else 0))"

lemma load_resource_iff: "is_ok (load_resource fs from_yaml file) \<longleftrightarrow> \<not> snd (validate_file fs from_yaml file)"
  by (auto simp: load_resource_def validate_file_def is_ok_iff Let_def result_simps require_def split: sum.split)

lemma try_map_ok: "is_ok (try_map f xs) \<longleftrightarrow> list_all (\<lambda>x. is_ok (f x)) xs"
  by (induction xs) (auto simp: result_simps)

text \<open>A command loads the resources of a directory exactly when validating the directory exits with 0.\<close>

lemma validate_agrees_with_load:
  "cf_is_dir fs dir \<Longrightarrow> is_ok (load_all_resources_from fs from_yaml dir) \<longleftrightarrow> snd (run_validate fs from_yaml dir) = 0"
  by (auto simp: load_all_resources_from_def run_validate_def try_map_ok load_resource_iff list_all_iff list_ex_iff split: sum.split)

text \<open>What is loaded is one accepted resource for each YAML file, in the order of the names.\<close>

lemma loaded_resources_valid:
  assumes "load_all_resources_from fs from_yaml dir = Inr rds"
  shows "\<exists>files. collect_resource_files fs dir = Inr files \<and> sorted files \<and> list_all2 (\<lambda>file rd.
    parse_resource_file (cf_read fs) from_yaml file = Inr rd \<and> validate_resource rd = []) files rds"
proof -
  obtain files where files: "collect_resource_files fs dir = Inr files"
    and loaded: "list_all2 (\<lambda>file rd. load_resource fs from_yaml file = Inr rd) files rds"
    using assms by (auto simp: load_all_resources_from_def try_map_Inr split: if_splits sum.splits)
  have "parse_resource_file (cf_read fs) from_yaml f = Inr rd \<and> validate_resource rd = []"
    if "load_resource fs from_yaml f = Inr rd" for f rd
    using that by (auto simp: load_resource_def result_simps require_def split: sum.splits if_splits)
  then have "list_all2 (\<lambda>file rd. parse_resource_file (cf_read fs) from_yaml file = Inr rd \<and> validate_resource rd = []) files rds"
    using loaded by (rule list_all2_mono[rotated])
  moreover have "sorted files" using files by (auto simp: collect_resource_files_def result_simps)
  ultimately show ?thesis using files by blast
qed

section \<open>Seeds\<close>

text \<open>A YAML value as \<open>serde_yaml\<close> reads it; \<open>as_mapping\<close> looks behind tags.\<close>

datatype yaml = YNull | YBool bool | YInt int | YFloat f64 | YStr string | YSeq "yaml list" | YMap "(yaml \<times> yaml) list"
  | YTagged string yaml

fun as_mapping :: "yaml \<Rightarrow> (yaml \<times> yaml) list option" where
  "as_mapping (YMap m) = Some m"
| "as_mapping (YTagged t v) = as_mapping v"
| "as_mapping _ = None"

record ('db, 'tx) seed_server =
  sd_begin :: "'db \<Rightarrow> string + 'tx"
  sd_execute :: "string \<Rightarrow> bind_value list \<Rightarrow> 'tx \<Rightarrow> 'tx \<times> (string + unit)"
  sd_commit :: "'tx \<Rightarrow> 'db \<times> (string + unit)"
  sd_rollback :: "'tx \<Rightarrow> 'db"

definition yaml_column_name :: "(yaml \<Rightarrow> string) \<Rightarrow> yaml \<Rightarrow> string + string" where
  "yaml_column_name debug key = (case key of YStr s \<Rightarrow> Inr s
     | _ \<Rightarrow> Inl (''column key must be a string, got: '' @ debug key))"

text \<open>An integer beyond \<open>i64\<close> is bound as a float.\<close>

definition bind_yaml_value :: "(yaml \<Rightarrow> string) \<Rightarrow> yaml \<Rightarrow> string + bind_value" where
  "bind_yaml_value debug v = (case v of
     YStr s \<Rightarrow> Inr (BText s)
   | YBool b \<Rightarrow> Inr (BBool b)
   | YInt i \<Rightarrow> Inr (if i < 2 ^ 63 then BBigint i else BFloat (Finite (f64_of_int i)))
   | YFloat x \<Rightarrow> Inr (BFloat x)
   | YNull \<Rightarrow> Inr BNull
   | _ \<Rightarrow> Inl (''unsupported YAML value type: '' @ debug v))"

text \<open>The statement of a record and its values; an error begins behind the number of the record.\<close>

definition bind_member :: "(yaml \<Rightarrow> string) \<Rightarrow> yaml \<times> yaml \<Rightarrow> string + bind_value" where
  "bind_member debug kv = and_then (map_sum (\<lambda>e. '': '' @ e) id (yaml_column_name debug (fst kv))) (\<lambda>col.
     map_sum (\<lambda>e. '', column '' @ squote col @ '': '' @ e) id (bind_yaml_value debug (snd kv)))"

definition seed_statement :: "(yaml \<Rightarrow> string) \<Rightarrow> string \<Rightarrow> (yaml \<times> yaml) list \<Rightarrow> string + string \<times> bind_value list" where
  "seed_statement debug tbl m =
     and_then (map_sum (\<lambda>e. '': '' @ e) id (try_map (yaml_column_name debug \<circ> fst) m)) (\<lambda>cols.
     and_then (require (cols \<noteq> []) '' has no columns'') (\<lambda>_.
     and_then (try_map (bind_member debug) m) (\<lambda>binds.
       Inr (''INSERT INTO '' @ dquote tbl @ '' ('' @ join '', '' (map dquote cols) @ '') VALUES (''
         @ join '', '' (map placeholder [1..<length cols + 1]) @ '')'', binds))))"

text \<open>The records of one file: how many were inserted is also the number of the current one, less one.\<close>

fun seed_records :: "('db, 'tx) seed_server \<Rightarrow> (yaml \<Rightarrow> string) \<Rightarrow> string \<Rightarrow> string \<Rightarrow> nat \<Rightarrow> yaml list \<Rightarrow> 'tx \<Rightarrow>
    'tx \<times> (string + nat)" where
  "seed_records server debug f tbl inserted [] tx = (tx, Inr inserted)"
| "seed_records server debug f tbl inserted (r # rs) tx =
     (let place = f @ '': record '' @ show_nat (inserted + 1) in (case as_mapping r of
        None \<Rightarrow> (tx, Inl (place @ '' is not a mapping''))
      | Some m \<Rightarrow> (case seed_statement debug tbl m of
          Inl e \<Rightarrow> (tx, Inl (place @ e))
        | Inr (sql, binds) \<Rightarrow> (case sd_execute server sql binds tx of
            (tx', Inl e) \<Rightarrow> (tx', Inl (place @ '': '' @ e))
          | (tx', Inr _) \<Rightarrow> seed_records server debug f tbl (inserted + 1) rs tx'))))"

definition table_of_file :: "string \<Rightarrow> string" where
  "table_of_file f = fst (stem_and_extension (rev (takeWhile (\<lambda>c. c \<noteq> CHR ''/'') (rev f))))"

definition file_records :: "cli_fs \<Rightarrow> (string \<Rightarrow> string + yaml) \<Rightarrow> string \<Rightarrow> string + yaml list" where
  "file_records fs parse f = (case cf_read fs f of
     Inl e \<Rightarrow> Inl (''Error reading '' @ f @ '': '' @ e)
   | Inr content \<Rightarrow> (case parse content of
       Inl e \<Rightarrow> Inl (''Error parsing '' @ f @ '': '' @ e)
     | Inr v \<Rightarrow> (case v of YSeq rs \<Rightarrow> Inr rs | _ \<Rightarrow> Inl (f @ '': expected a YAML sequence (list of records)''))))"

fun seed_files :: "('db, 'tx) seed_server \<Rightarrow> cli_fs \<Rightarrow> (string \<Rightarrow> string + yaml) \<Rightarrow> (yaml \<Rightarrow> string) \<Rightarrow> string list \<Rightarrow> 'tx \<Rightarrow>
    'tx \<times> (string + (string \<times> nat) list)" where
  "seed_files server fs parse debug [] tx = (tx, Inr [])"
| "seed_files server fs parse debug (f # fls) tx = (case file_records fs parse f of
     Inl e \<Rightarrow> (tx, Inl e)
   | Inr rs \<Rightarrow> (case seed_records server debug f (table_of_file f) 0 rs tx of
       (tx', Inl e) \<Rightarrow> (tx', Inl e)
     | (tx', Inr n) \<Rightarrow> (case seed_files server fs parse debug fls tx' of
         (tx'', Inl e) \<Rightarrow> (tx'', Inl e)
       | (tx'', Inr summary) \<Rightarrow> (tx'', Inr ((table_of_file f, n) # summary)))))"

text \<open>An error drops the transaction, which rolls it back.\<close>

definition seed_database :: "('db, 'tx) seed_server \<Rightarrow> cli_fs \<Rightarrow> (string \<Rightarrow> string + yaml) \<Rightarrow> (yaml \<Rightarrow> string) \<Rightarrow>
    string list \<Rightarrow> 'db \<Rightarrow> 'db \<times> (string + (string \<times> nat) list)" where
  "seed_database server fs parse debug fls db = (case sd_begin server db of
     Inl e \<Rightarrow> (db, Inl (''Failed to begin transaction: '' @ e))
   | Inr tx \<Rightarrow> (case seed_files server fs parse debug fls tx of
       (tx', Inl e) \<Rightarrow> (sd_rollback server tx', Inl e)
     | (tx', Inr summary) \<Rightarrow> (case sd_commit server tx' of
         (db', Inl e) \<Rightarrow> (db', Inl (''Failed to commit transaction: '' @ e))
       | (db', Inr _) \<Rightarrow> (db', Inr summary))))"

definition text_lines :: "string \<Rightarrow> string list" where
  "text_lines s = (let ls = split_on CHR 0x0A s; ls' = (if last ls = [] then butlast ls else ls) in
     map (\<lambda>l. if l \<noteq> [] \<and> last l = CHR 0x0D then butlast l else l) ls')"

definition url_of_line :: "string \<Rightarrow> string option" where
  "url_of_line l = (let t = trim l in
     if t = [] \<or> prefix ''#'' t then None
     else (case strip_prefix ''DATABASE_URL='' t of
        None \<Rightarrow> None | Some v \<Rightarrow> if trim v = [] then None else Some (trim v)))"

text \<open>\<open>env_file\<close> is the content of .env when it is a file that can be read.\<close>

definition resolve_database_url :: "(string \<Rightarrow> string option) \<Rightarrow> string option \<Rightarrow> string + string" where
  "resolve_database_url env env_file = (case env ''DATABASE_URL'' of
     Some url \<Rightarrow> Inr url
   | None \<Rightarrow> (case List.map_filter url_of_line (case env_file of None \<Rightarrow> [] | Some content \<Rightarrow> text_lines content) of
       url # _ \<Rightarrow> Inr url
     | [] \<Rightarrow> Inl (''DATABASE_URL is not set. Set it in your environment or in a .env file in the project root.'')))"

definition run_seed :: "cli_fs \<Rightarrow> (string \<Rightarrow> string option) \<Rightarrow> string option \<Rightarrow> (string \<Rightarrow> string + ('db, 'tx) seed_server) \<Rightarrow>
    (string \<Rightarrow> string + yaml) \<Rightarrow> (yaml \<Rightarrow> string) \<Rightarrow> string \<Rightarrow> 'db \<Rightarrow> 'db \<times> printed list \<times> int" where
  "run_seed fs env env_file open_pool parse debug path db =
     (if \<not> cf_is_dir fs path
      then (db, [Err (''Seed directory not found: '' @ path), Err ''Create a seeds/ directory with YAML fixture files.''], 1)
      else (case collect_resource_files fs path of
        Inl e \<Rightarrow> (db, [Err (''Error reading seed directory: '' @ e)], 1)
      | Inr fls \<Rightarrow> if fls = [] then (db, [Err (''No seed files found in '' @ path)], 1)
          else (case resolve_database_url env env_file of
            Inl e \<Rightarrow> (db, [Err (''Error: '' @ e)], 1)
          | Inr url \<Rightarrow> (case open_pool url of
              Inl e \<Rightarrow> (db, [Err (''Failed to connect to database: '' @ e)], 1)
            | Inr server \<Rightarrow> (case seed_database server fs parse debug fls db of
                (db', Inl e) \<Rightarrow> (db', [Err (''Seed failed (transaction rolled back): '' @ e)], 1)
              | (db', Inr summary) \<Rightarrow> (db', Out ''Seed complete:'' # map (\<lambda>(tbl, n).
                  Out (''  '' @ tbl @ '': '' @ show_nat n @ '' record(s) inserted'')) summary, 0))))))"

text \<open>Inserting the records of the files is running statements in the transaction, one for each record.\<close>

definition run_statements :: "('db, 'tx) seed_server \<Rightarrow> (string \<times> bind_value list) list \<Rightarrow> 'tx \<Rightarrow> 'tx" where
  "run_statements server stmts tx = fold (\<lambda>(sql, binds) tx. fst (sd_execute server sql binds tx)) stmts tx"

lemma run_statements_simps [simp]:
  "run_statements server [] tx = tx"
  "run_statements server ((sql, binds) # stmts) tx = run_statements server stmts (fst (sd_execute server sql binds tx))"
  "run_statements server (xs @ ys) tx = run_statements server ys (run_statements server xs tx)"
  by (simp_all add: run_statements_def)

lemma seed_records_runs: "\<exists>stmts. fst (seed_records server debug f tbl k rs tx) = run_statements server stmts tx"
proof (induction rs arbitrary: k tx)
  case (Cons r rs)
  show ?case
  proof (cases "as_mapping r")
    case (Some m)
    show ?thesis
    proof (cases "seed_statement debug tbl m")
      case (Inr st)
      obtain sql binds where st: "st = (sql, binds)" by (cases st)
      obtain tx' u where u: "sd_execute server sql binds tx = (tx', u)" by (cases "sd_execute server sql binds tx")
      obtain stmts where "fst (seed_records server debug f tbl (k + 1) rs tx') = run_statements server stmts tx'"
        using Cons.IH by blast
      then show ?thesis
        by (cases u) (auto simp: Let_def Some Inr st u intro: exI[of _ "[(sql, binds)]"] exI[of _ "(sql, binds) # stmts"])
    qed (auto simp: Let_def Some intro: exI[of _ "[]"])
  qed (auto simp: Let_def intro: exI[of _ "[]"])
qed (auto intro: exI[of _ "[]"])

lemma seed_files_runs: "\<exists>stmts. fst (seed_files server fs parse debug fls tx) = run_statements server stmts tx"
proof (induction fls arbitrary: tx)
  case (Cons f fls)
  show ?case
  proof (cases "file_records fs parse f")
    case (Inr rs)
    obtain xs where xs: "fst (seed_records server debug f (table_of_file f) 0 rs tx) = run_statements server xs tx"
      using seed_records_runs[of server debug f "table_of_file f" 0 rs tx] by blast
    obtain ys where "fst (seed_files server fs parse debug fls (run_statements server xs tx))
        = run_statements server ys (run_statements server xs tx)"
      using Cons.IH by blast
    with xs show ?thesis
      by (cases "snd (seed_records server debug f (table_of_file f) 0 rs tx)")
        (force simp: Inr split: prod.split sum.split intro: exI[of _ xs] exI[of _ "xs @ ys"])+
  qed (auto intro: exI[of _ "[]"])
qed (auto intro: exI[of _ "[]"])

text \<open>What a transaction promises: dropping it, or a commit that fails, leaves the database as it was.\<close>

definition transactional :: "('db, 'tx) seed_server \<Rightarrow> bool" where
  "transactional server \<longleftrightarrow> (\<forall>db tx stmts. sd_begin server db = Inr tx \<longrightarrow>
     sd_rollback server (run_statements server stmts tx) = db
     \<and> (\<forall>db' e. sd_commit server (run_statements server stmts tx) = (db', Inl e) \<longrightarrow> db' = db))"

lemma failed_seed_changes_nothing:
  assumes "transactional server" and "seed_database server fs parse debug fls db = (db', Inl e)"
  shows "db' = db"
proof (cases "sd_begin server db")
  case (Inr tx)
  obtain stmts where stmts: "fst (seed_files server fs parse debug fls tx) = run_statements server stmts tx"
    using seed_files_runs[of server fs parse debug fls tx] by blast
  then obtain r where r: "seed_files server fs parse debug fls tx = (run_statements server stmts tx, r)" by (metis prod.collapse)
  have undone: "sd_rollback server (run_statements server stmts tx) = db"
    and failed: "\<And>x y. sd_commit server (run_statements server stmts tx) = (x, Inl y) \<Longrightarrow> x = db"
    using assms(1) Inr unfolding transactional_def by blast+
  show ?thesis using assms(2) by (auto simp: seed_database_def Inr r undone dest!: failed split: sum.splits prod.splits)
qed (use assms(2) in \<open>simp add: seed_database_def\<close>)

text \<open>A seed that succeeds reports for each file how many records it holds: none is left out.\<close>

lemma seed_records_count: "snd (seed_records server debug f tbl k rs tx) = Inr n \<Longrightarrow> n = k + length rs"
proof (induction rs arbitrary: k tx)
  case (Cons r rs)
  then obtain tx' where "snd (seed_records server debug f tbl (k + 1) rs tx') = Inr n"
    by (auto simp: Let_def split: option.splits sum.splits prod.splits)
  then show ?case using Cons.IH by fastforce
qed simp

lemma seed_files_summary:
  "snd (seed_files server fs parse debug fls tx) = Inr summary \<Longrightarrow>
    list_all2 (\<lambda>f (tbl, n). tbl = table_of_file f \<and> (\<exists>rs. file_records fs parse f = Inr rs \<and> n = length rs)) fls summary"
proof (induction fls arbitrary: tx summary)
  case (Cons f fls)
  obtain rs where rs: "file_records fs parse f = Inr rs" using Cons.prems by (auto split: sum.splits)
  obtain tx' n where one: "seed_records server debug f (table_of_file f) 0 rs tx = (tx', Inr n)"
    using Cons.prems rs by (auto split: sum.splits prod.splits)
  obtain tx'' ss where more: "seed_files server fs parse debug fls tx' = (tx'', Inr ss)" "summary = (table_of_file f, n) # ss"
    using Cons.prems rs one by (auto split: sum.splits prod.splits)
  have "n = length rs" using seed_records_count[of server debug f "table_of_file f" 0 rs tx n] one by simp
  then show ?case using rs more Cons.IH[of tx' ss] by simp
qed simp

section \<open>The diff command\<close>

text \<open>Lines that differ at the same position count as added and as removed.\<close>

fun line_changes :: "string list \<Rightarrow> string list \<Rightarrow> nat \<times> nat" where
  "line_changes [] [] = (0, 0)"
| "line_changes (x # xs) [] = (case line_changes xs [] of (a, r) \<Rightarrow> (a, r + 1))"
| "line_changes [] (y # ys) = (case line_changes [] ys of (a, r) \<Rightarrow> (a + 1, r))"
| "line_changes (x # xs) (y # ys) =
     (case line_changes xs ys of (a, r) \<Rightarrow> if x \<noteq> y then (a + 1, r + 1) else (a, r))"

definition diff_file :: "cli_fs \<Rightarrow> string \<Rightarrow> string \<Rightarrow> string option" where
  "diff_file fs path expected = (case cf_read fs path of
     Inl e \<Rightarrow> Some (''--- /dev/null'' @ newline @ ''+++ '' @ path @ newline
       @ ''(new file, '' @ show_nat (length (text_lines expected)) @ '' lines)'' @ newline)
   | Inr existing \<Rightarrow> if existing = expected then None
       else (case line_changes (text_lines existing) (text_lines expected) of (added, removed) \<Rightarrow>
         Some (''--- '' @ path @ newline @ ''+++ '' @ path @ '' (regenerated)'' @ newline
           @ show_nat (added + removed) @ '' lines changed (+'' @ show_nat added @ '' -'' @ show_nat removed @ '')''
           @ newline @ newline)))"

definition stale_file :: "string list \<Rightarrow> string + string \<times> bool \<Rightarrow> string option" where
  "stale_file expected entry = (case entry of
     Inl e \<Rightarrow> None
   | Inr (name, is_file) \<Rightarrow> if is_file \<and> snd (stem_and_extension name) = Some ''rs'' \<and> name \<notin> set expected
       then Some name else None)"

text \<open>\<open>modules\<close> are the names and contents that \<open>generate_project\<close> prints, \<open>mod_rs\<close> the registry.\<close>

definition project_changes :: "cli_fs \<Rightarrow> string \<Rightarrow> (string \<times> string) list \<Rightarrow> printed list" where
  "project_changes fs mod_rs modules =
     map Out (List.map_filter (\<lambda>(name, contents). diff_file fs (''generated/'' @ name) contents) ((''mod.rs'', mod_rs) # modules))
     @ (case (if cf_is_dir fs ''generated'' then cf_list fs ''generated'' else Inr []) of
          Inl e \<Rightarrow> []
        | Inr entries \<Rightarrow> concat (map (\<lambda>name. [Out (''--- generated/'' @ name), Out ''+++ /dev/null'',
            Out ''(file would be removed)'', Out []])
            (List.map_filter (stale_file (map fst modules @ [''mod.rs''])) entries)))"

definition run_diff :: "cli_fs \<Rightarrow> string + resource_definition list \<Rightarrow>
    (resource_definition list \<Rightarrow> string + string \<times> (string \<times> string) list) \<Rightarrow> printed list \<times> int" where
  "run_diff fs loaded generate = (case loaded of
     Inl e \<Rightarrow> ([Err (''Error: '' @ e)], 1)
   | Inr rds \<Rightarrow> (case generate rds of
       Inl e \<Rightarrow> ([Err (''Error generating code: '' @ e)], 1)
     | Inr (mod_rs, modules) \<Rightarrow> (let out = project_changes fs mod_rs modules in
         (if out = [] then [Out ''No changes. Generated code is up to date.''] else out, 0))))"

lemma diff_file_None: "diff_file fs path expected = None \<longleftrightarrow> cf_read fs path = Inr expected"
  by (auto simp: diff_file_def split: sum.split prod.split)

lemma map_filter_Nil: "List.map_filter f xs = [] \<longleftrightarrow> (\<forall>x \<in> set xs. f x = None)"
  by (induction xs) (auto split: option.split)

text \<open>Nothing is reported exactly when every generated file is on disk as it would be written, and a directory that can
  be listed holds no other Rust file.\<close>

lemma diff_silent_iff:
  "project_changes fs mod_rs modules = [] \<longleftrightarrow>
     (\<forall>(name, contents) \<in> set ((''mod.rs'', mod_rs) # modules). cf_read fs (''generated/'' @ name) = Inr contents)
   \<and> (cf_is_dir fs ''generated'' \<longrightarrow> (\<forall>entries name. cf_list fs ''generated'' = Inr entries \<and> Inr (name, True) \<in> set entries
        \<and> snd (stem_and_extension name) = Some ''rs'' \<longrightarrow> name = ''mod.rs'' \<or> name \<in> fst ` set modules))"
proof -
  have written: "map Out (List.map_filter f xs) = [] \<longleftrightarrow> (\<forall>x \<in> set xs. f x = None)" for f :: "'a \<Rightarrow> string option" and xs
    by (simp only: map_is_Nil_conv map_filter_Nil)
  have stale: "List.map_filter (stale_file ns) es = [] \<longleftrightarrow> (\<forall>name. Inr (name, True) \<in> set es
        \<and> snd (stem_and_extension name) = Some ''rs'' \<longrightarrow> name \<in> set ns)" for ns es
    using map_filter_Nil[of "stale_file ns" es] by (auto simp: stale_file_def split: sum.splits if_splits)
  show ?thesis
    unfolding project_changes_def append_is_Nil_conv written
    by (rule conj_cong) (auto simp: diff_file_None stale split: sum.splits)
qed

text \<open>The counts of added and removed lines differ by the number of lines gained.\<close>

lemma line_changes_balance: "line_changes xs ys = (a, r) \<Longrightarrow> a + length xs = r + length ys"
  by (induction xs ys arbitrary: a r rule: line_changes.induct) (auto split: prod.splits if_splits)

end
