(* ===== verification/Spec2Isabelle.thy ===== *)
theory Spec2Isabelle
  imports Resource_Validator Input_Validation Query_Params Cursor_Paging Ddl Auth Rate_Limit Events Sagas Crud_Handlers
    Response_Cache Job_Worker Crud_Isolation Ws_Rooms Diagnostics Graphql Openapi Orm_Query Mongo_Store Grpc_Service
    Proto_Files Typescript Plugins Service_Registry Migrations Feature_Check Observability
    Event_Log Project_Config Generated_Registry Cli_Migrate Cli_Project
begin

text \<open>
  This library models the shaperail framework, which turns YAML resource files into a running HTTP service. A
  resource names its fields, endpoints, relations and indexes; the code generator checks it and derives the SQL of
  its table, an OpenAPI document, a .proto file and TypeScript types; the runtime serves it over REST, GraphQL, gRPC
  and WebSockets, with access control, validation, a cache, rate limits, background jobs, events, sagas and plugins.
  Every definition translates the Rust code it stands for; the crates the code calls are parameters.

  \<^bold>\<open>Conventions.\<close> A \<open>String\<close> is the list of its UTF-8 bytes. \<open>Result<T, E>\<close> is the
  sum \<open>'e + 'a\<close>, chained by \<open>and_then\<close>. \<open>IndexMap\<close>, \<open>HashMap\<close> and
  \<open>serde_json::Map\<close> are association lists; where the code iterates over a \<open>HashMap\<close> the order is
  that of the list, and a \<open>BTreeMap\<close> is a list sorted by key. JSON is the datatype of \<open>Json\<close>, whose
  numbers keep the representation of serde_json. Machine integers are words where the code computes with sizes and
  offsets (\<open>Grpc_Codec\<close>, \<open>Plugins\<close>, \<open>Storage\<close>). State (a database, Redis keys, a file
  system, linear memory) is passed explicitly. A crate, a server or a compiled hook is a record of functions or an
  argument; what a theorem needs of it is a named hypothesis, and a witness shows a concrete instance of it.

  \<^bold>\<open>Foundations.\<close> \<open>Prelude\<close> holds results, Rust's string operations, decimal printing and
  association lists; \<open>Json\<close> holds values and accessors. \<open>Core_Types\<close> and \<open>Endpoints\<close> are
  shaperail-core: errors and their HTTP answers, field, relation and endpoint types, auth rules, convention
  defaults and brace paths. \<open>Keyed_Store\<close> states the interface of a store of values by key as the locales
  \<open>keyed_store\<close> and \<open>removable_store\<close>; the response cache, the job handlers, the sessions of a
  room manager and the entries of the service registry are interpretations of it.

  \<^bold>\<open>Checking resources.\<close> \<open>Resource_Validator\<close> is codegen/validator.rs: it accepts exactly the
  resources of a declarative reference. \<open>Diagnostics\<close> is codegen/diagnostics, shown to agree with the
  validator up to the rules that only one of them has. \<open>Feature_Check\<close> is feature_check.rs.
  \<open>Workspace\<close> is workspace validation and its startup order, the saga files and the placeholders of
  configuration files. \<open>Project_Config\<close> is core/config.rs and config_parser.rs, with the round trip of a
  configuration through its derived serializers.

  \<^bold>\<open>Generators.\<close> \<open>Ddl\<close> is the CREATE TABLE generator of db/query.rs, \<open>Openapi\<close> the
  OpenAPI document (it lists exactly the registered routes, and its references resolve), \<open>Proto_Files\<close> the
  .proto file (its requests are decoded and its calls dispatched by the gRPC server), \<open>Typescript\<close> the
  interfaces derived from the document. \<open>Generated_Store\<close> is what codegen/rust.rs makes of a resource: the
  text and the arguments of every statement and the methods around them, as a function from the resource to a store
  of \<open>Crud_Core\<close>, with the helpers of db/generated.rs; \<open>Generated_Registry\<close> is the registries of
  stores, controllers, jobs and handlers. \<open>Cli_Migrate\<close> is the migration command of shaperail-cli: new
  files get increasing numbers, and a second run writes nothing. \<open>Cli_Project\<close> is how its commands load
  and validate a project, load seeds in one transaction and compare the generated files.

  \<^bold>\<open>Requests.\<close> \<open>Auth\<close> is runtime/auth: tokens, API keys, role and owner rules, subjects, token
  endpoints. \<open>Query_Params\<close> and \<open>Input_Validation\<close> read the query and the body.
  \<open>Crud_Core\<close> holds the world of a handler, stores, controllers, guards and relation loading;
  \<open>Crud_Handlers\<close> and \<open>Crud_Uploads\<close> are the handlers of handlers/crud.rs, each a function from
  request and world to response and world; \<open>Routes\<close> is the table of routes and what a matched route runs.
  \<open>Crud_Security\<close> proves authorization of writes, silence of failed requests and validation of what is
  stored, by the locale \<open>world_preorder\<close> of relations every step of a handler respects.
  \<open>Crud_Isolation\<close> proves tenant isolation of lists in every history of requests, cached answers included,
  over a predicate \<open>served\<close> of histories. \<open>Sample_App\<close> is the application of the witnesses.

  \<^bold>\<open>Databases.\<close> \<open>Sql_Builder\<close> is db/query.rs: every statement with its bound values;
  \<open>Base64_Cursor\<close> and \<open>Cursor_Paging\<close> are cursors and the walk of a client along them.
  \<open>Orm_Query\<close> is the path of several SQL dialects (locale \<open>placeholder_dialect\<close>),
  \<open>Mongo_Store\<close> the MongoDB store, shown to refine a map of records by id, \<open>Migrations\<close> the runner
  of migrations. Each store is an instance of the record of \<open>Crud_Core\<close>.

  \<^bold>\<open>Other protocols.\<close> \<open>Graphql\<close> is the schema, the resolvers and the relation loader;
  \<open>Grpc_Codec\<close> and \<open>Grpc_Service\<close> are the protobuf codec and the calls; \<open>Ws_Rooms\<close> is
  rooms, sessions and publication on several instances.

  \<^bold>\<open>Background work.\<close> \<open>Rate_Limit\<close>, \<open>Response_Cache\<close>, \<open>Job_Queue\<close>,
  \<open>Job_Worker\<close>, \<open>Events\<close>, \<open>Event_Log\<close>, \<open>Sagas\<close>, \<open>Service_Registry\<close>,
  \<open>Plugins\<close>, \<open>Storage\<close> and \<open>Observability\<close> are the files of those names. Histories of
  interleaved operations are inductive relations (\<open>job_step\<close> and \<open>job_reachable\<close>,
  \<open>saga_reach\<close>, \<open>ws_reach\<close>, \<open>served\<close>) with invariants by rule induction.

  \<^bold>\<open>Termination and bounds.\<close> No function takes fuel. Recursions that are not structural have a measure:
  replacing and splitting consume the string, the search for cycles visits each service once. The protobuf decoder
  is a \<open>partial_function\<close>, because without overflow checks it can run forever; it is shown to return with
  checks, and without them when no length overflows. Integers without overflow in the code's range (ports, retry
  counts, page limits) are \<open>nat\<close> or \<open>int\<close> with the bound in the definition that parses them.

  \<^bold>\<open>Not modelled.\<close> The other commands of the command line (argument parsing, scaffolding, processes and
  their output); the Rust text that codegen/rust.rs prints around statements and registries and the client of
  service_client.rs, whose meaning is that of the printed program; the constant document of json_schema.rs; connection pools; spans of the YAML parsers; metrics
  and tracing, which are calls of other crates; routing inside actix-web, tonic and async-graphql. YAML, JSON text,
  JWT, HMAC, SHA-256, HTTP clients, Redis, PostgreSQL, MongoDB, wasmtime and image decoding are parameters.
  Concurrency is interleaving of the operations modelled as one step; where the code splits an operation in two
  commands (the heartbeat of the registry) the model has both.
\<close>

end
